(* ===== verification/Prelude.thy ===== *)
theory Prelude
  imports Main "HOL-Library.Sublist" "HOL-Library.List_Lexorder" "HOL-Library.Char_ord"
    "HOL-Library.Code_Target_Nat"
begin

text \<open>
  What the components share.  A Rust \<open>str\<close> is modelled by the list of its UTF-8 bytes
  (\<open>string\<close>, a byte is a \<open>char\<close>), so equality, ordering, slicing, \<open>starts_with\<close>,
  \<open>ends_with\<close> and \<open>contains\<close> are those of the byte list (\<open>prefix\<close>, \<open>suffix\<close>,
  \<open>sublist\<close> of the library), and only the Unicode predicates of \<open>char\<close> need the
  decoding \<open>str_chars\<close>.  A Rust \<open>Result\<close> is a sum with the error on the left.
  The theory holds the string operations of the standard library the components
  call, their laws, and the collections of facts the component proofs use.
\<close>

named_theorems text_simps \<open>equations of the string operations\<close>
named_theorems result_simps \<open>equations of the result type\<close>

type_synonym 'a vec = "'a list"

section \<open>Results\<close>

text \<open>The \<open>?\<close> operator: stop at the first error.\<close>

fun and_then :: "'e + 'a \<Rightarrow> ('a \<Rightarrow> 'e + 'b) \<Rightarrow> 'e + 'b" where
  "and_then (Inl e) f = Inl e"
| "and_then (Inr x) f = f x"

fun is_ok :: "'e + 'a \<Rightarrow> bool" where
  "is_ok (Inl e) = False"
| "is_ok (Inr x) = True"

lemma and_then_eq_Inr [result_simps]:
  "and_then m f = Inr y \<longleftrightarrow> (\<exists>x. m = Inr x \<and> f x = Inr y)"
  by (cases m) auto

lemma and_then_eq_Inl [result_simps]:
  "and_then m f = Inl e \<longleftrightarrow> m = Inl e \<or> (\<exists>x. m = Inr x \<and> f x = Inl e)"
  by (cases m) auto

lemma map_sum_Inr: "map_sum f g r = Inr y \<longleftrightarrow> (\<exists>x. r = Inr x \<and> y = g x)"
  by (cases r) auto

lemma and_then_assoc: "and_then (and_then m f) g = and_then m (\<lambda>x. and_then (f x) g)"
  by (cases m) auto

lemma is_ok_iff [result_simps]: "is_ok r \<longleftrightarrow> (\<exists>x. r = Inr x)"
  by (cases r) auto

text \<open>\<open>Iterator::map\<close> with a fallible function, collected into a \<open>Result\<close>.\<close>

fun try_map :: "('a \<Rightarrow> 'e + 'b) \<Rightarrow> 'a list \<Rightarrow> 'e + 'b list" where
  "try_map f [] = Inr []"
| "try_map f (x # xs) = and_then (f x) (\<lambda>y. and_then (try_map f xs) (\<lambda>ys. Inr (y # ys)))"

lemma try_map_Inr_iff: "try_map f xs = Inr ys \<longleftrightarrow> list_all2 (\<lambda>x y. f x = Inr y) xs ys"
  by (induction xs arbitrary: ys) (auto simp: result_simps list_all2_Cons1)

section \<open>Bytes and characters\<close>

abbreviation byte :: "char \<Rightarrow> nat" where
  "byte c \<equiv> of_char c"

definition is_digit :: "char \<Rightarrow> bool" where
  "is_digit c \<longleftrightarrow> 48 \<le> byte c \<and> byte c \<le> 57"

definition is_lower :: "char \<Rightarrow> bool" where
  "is_lower c \<longleftrightarrow> 97 \<le> byte c \<and> byte c \<le> 122"

definition is_upper :: "char \<Rightarrow> bool" where
  "is_upper c \<longleftrightarrow> 65 \<le> byte c \<and> byte c \<le> 90"

definition is_alpha :: "char \<Rightarrow> bool" where
  "is_alpha c \<longleftrightarrow> is_lower c \<or> is_upper c"

text \<open>\<open>to_ascii_lowercase\<close> on one byte.\<close>

definition to_lower :: "char \<Rightarrow> char" where
  "to_lower c = (if is_upper c then char_of (byte c + 32) else c)"

text \<open>A UTF-8 continuation byte, and a string cut before every other byte.\<close>

definition is_cont :: "char \<Rightarrow> bool" where
  "is_cont c \<longleftrightarrow> 128 \<le> byte c \<and> byte c < 192"

function str_chars :: "string \<Rightarrow> string list" where
  "str_chars [] = []"
| "str_chars (c # cs) = (c # takeWhile is_cont cs) # str_chars (dropWhile is_cont cs)"
  by pat_completeness auto
termination
  by (relation "measure length") (auto simp: le_imp_less_Suc length_dropWhile_le)

fun code_point :: "string \<Rightarrow> nat" where
  "code_point [a] = byte a"
| "code_point [a, b] = (byte a - 192) * 64 + (byte b - 128)"
| "code_point [a, b, c] = (byte a - 224) * 4096 + (byte b - 128) * 64 + (byte c - 128)"
| "code_point [a, b, c, d] =
     (byte a - 240) * 262144 + (byte b - 128) * 4096 + (byte c - 128) * 64 + (byte d - 128)"
| "code_point _ = 0"

text \<open>\<open>char::is_whitespace\<close> (the White_Space property) and \<open>char::is_control\<close> (category Cc).\<close>

definition is_whitespace :: "string \<Rightarrow> bool" where
  "is_whitespace ch \<longleftrightarrow> (let u = code_point ch in
     (9 \<le> u \<and> u \<le> 13) \<or> u \<in> set [32, 133, 160, 5760, 8232, 8233, 8239, 8287, 12288]
     \<or> (8192 \<le> u \<and> u \<le> 8202))"

definition is_control :: "string \<Rightarrow> bool" where
  "is_control ch \<longleftrightarrow> (let u = code_point ch in u < 32 \<or> (127 \<le> u \<and> u \<le> 159))"

lemma str_chars_concat [simp]: "concat (str_chars s) = s"
  by (induction s rule: str_chars.induct) (auto simp: takeWhile_dropWhile_id)

lemma str_chars_nonempty: "ch \<in> set (str_chars s) \<Longrightarrow> ch \<noteq> []"
  by (induction s rule: str_chars.induct) auto

definition is_ascii :: "char \<Rightarrow> bool" where
  "is_ascii c \<longleftrightarrow> byte c < 128"

lemma is_ascii_not_cont: "is_ascii c \<Longrightarrow> \<not> is_cont c"
  by (simp add: is_ascii_def is_cont_def)

lemma str_chars_ascii: "list_all is_ascii s \<Longrightarrow> str_chars s = map (\<lambda>c. [c]) s"
proof (induction s)
  case Nil
  then show ?case by simp
next
  case (Cons c s)
  then have "takeWhile is_cont s = []" and "dropWhile is_cont s = s"
    by (cases s; simp add: is_ascii_not_cont)+
  with Cons show ?case by simp
qed

section \<open>The string operations of the standard library\<close>

definition trim_start :: "string \<Rightarrow> string" where
  "trim_start s = concat (dropWhile is_whitespace (str_chars s))"

definition trim_end :: "string \<Rightarrow> string" where
  "trim_end s = concat (rev (dropWhile is_whitespace (rev (str_chars s))))"

definition trim :: "string \<Rightarrow> string" where
  "trim s = concat (rev (dropWhile is_whitespace (rev (dropWhile is_whitespace (str_chars s)))))"

text \<open>\<open>str::split\<close> on a one-byte separator: always at least one piece.\<close>

fun split_on :: "char \<Rightarrow> string \<Rightarrow> string list" where
  "split_on c [] = [[]]"
| "split_on c (x # xs) =
     (if x = c then [] # split_on c xs
      else (case split_on c xs of [] \<Rightarrow> [[x]] | w # ws \<Rightarrow> (x # w) # ws))"

text \<open>\<open>str::split_once\<close> on a one-byte separator.\<close>

fun split_once :: "char \<Rightarrow> string \<Rightarrow> (string \<times> string) option" where
  "split_once c [] = None"
| "split_once c (x # xs) =
     (if x = c then Some ([], xs)
      else map_option (\<lambda>(a, b). (x # a, b)) (split_once c xs))"

text \<open>\<open>str::split_whitespace\<close>: the maximal runs of characters that are not white space.\<close>

fun ws_words :: "string list \<Rightarrow> string \<Rightarrow> string list" where
  "ws_words [] w = (if w = [] then [] else [w])"
| "ws_words (ch # chs) w =
     (if is_whitespace ch then (if w = [] then ws_words chs [] else w # ws_words chs [])
      else ws_words chs (w @ ch))"

definition split_whitespace :: "string \<Rightarrow> string list" where
  "split_whitespace s = ws_words (str_chars s) []"

text \<open>\<open>slice::join\<close>.\<close>

fun join :: "string \<Rightarrow> string list \<Rightarrow> string" where
  "join sep [] = []"
| "join sep [x] = x"
| "join sep (x # xs) = x @ sep @ join sep xs"

definition strip_prefix :: "string \<Rightarrow> string \<Rightarrow> string option" where
  "strip_prefix p s = (if prefix p s then Some (drop (length p) s) else None)"

definition strip_suffix :: "string \<Rightarrow> string \<Rightarrow> string option" where
  "strip_suffix p s = (if suffix p s then Some (take (length s - length p) s) else None)"

lemma split_on_nonempty [simp]: "split_on c s \<noteq> []"
  by (induction s) (auto split: list.splits)

lemma split_on_no_sep: "w \<in> set (split_on c s) \<Longrightarrow> c \<notin> set w"
  by (induction s arbitrary: w) (auto split: list.splits if_splits)

lemma join_split_on [simp]: "join [c] (split_on c s) = s"
proof (induction s)
  case Nil
  then show ?case by simp
next
  case (Cons x s)
  then show ?case
    by (cases "split_on c s"; cases "tl (split_on c s)") (auto simp: neq_Nil_conv)
qed

lemma split_on_absent [text_simps]: "c \<notin> set s \<Longrightarrow> split_on c s = [s]"
  by (induction s) auto

lemma split_on_append_sep: "c \<notin> set a \<Longrightarrow> split_on c (a @ c # b) = a # split_on c b"
  by (induction a) auto

lemma split_on_join:
  "xs \<noteq> [] \<Longrightarrow> \<forall>x \<in> set xs. c \<notin> set x \<Longrightarrow> split_on c (join [c] xs) = xs"
proof (induction xs)
  case (Cons x xs)
  then show ?case
    by (cases xs) (simp_all add: split_on_absent split_on_append_sep)
qed simp

lemma split_on_first:
  obtains "c \<notin> set s" "split_on c s = [s]"
  | p r where "s = p @ c # r" "c \<notin> set p" "split_on c s = p # split_on c r"
proof (cases "c \<in> set s")
  case True
  then obtain p r where "s = p @ c # r" "c \<notin> set p" by (auto dest: split_list_first)
  with that(2) split_on_append_sep show ?thesis by blast
next
  case False
  with that(1) split_on_absent show ?thesis by blast
qed

lemma split_on_piece:
  "w \<in> set (split_on c s) \<Longrightarrow>
     \<exists>a b. s = a @ w @ b \<and> (a = [] \<or> last a = c) \<and> (b = [] \<or> hd b = c)"
proof (induction s rule: length_induct)
  case (1 s)
  show ?case
  proof (rule split_on_first [of c s])
    assume "split_on c s = [s]"
    with "1.prems" show ?thesis by (intro exI [of _ "[]"]) simp
  next
    fix p r
    assume s: "s = p @ c # r" and sp: "split_on c s = p # split_on c r"
    show ?thesis
    proof (cases "w = p")
      case True
      with s show ?thesis by (intro exI [of _ "[]"] exI [of _ "c # r"]) simp
    next
      case False
      with "1.prems" sp have "w \<in> set (split_on c r)" by simp
      moreover have "length r < length s" using s by simp
      ultimately obtain a b where "r = a @ w @ b" "a = [] \<or> last a = c" "b = [] \<or> hd b = c"
        using "1.IH" by blast
      with s show ?thesis by (intro exI [of _ "p @ c # a"] exI [of _ b]) auto
    qed
  qed
qed

lemma split_on_empty_piece:
  assumes "[] \<in> set (split_on c s)"
  shows "s = [] \<or> prefix [c] s \<or> suffix [c] s \<or> sublist [c, c] s"
proof -
  obtain a b where s: "s = a @ b" and a: "a = [] \<or> last a = c" and b: "b = [] \<or> hd b = c"
    using split_on_piece [OF assms] by auto
  show ?thesis
  proof (cases "a = []"; cases "b = []")
    assume "a \<noteq> []" "b \<noteq> []"
    with a b have "a = butlast a @ [c]" "b = c # tl b" by (cases b; auto)+
    with s have "s = butlast a @ [c, c] @ tl b" by simp
    then show ?thesis by (auto simp: sublist_def)
  next
    assume "a \<noteq> []" "b = []"
    with a s have "s = butlast a @ [c]" by (metis append_Nil2 append_butlast_last_id)
    then show ?thesis by (auto simp: suffix_def)
  next
    assume "a = []" "b \<noteq> []"
    with b s show ?thesis by (cases b) auto
  qed (use s in auto)
qed

lemma split_once_None_iff: "split_once c s = None \<longleftrightarrow> c \<notin> set s"
  by (induction s) auto

lemma split_once_Some: "split_once c s = Some (a, b) \<Longrightarrow> s = a @ c # b \<and> c \<notin> set a"
  by (induction s arbitrary: a b) (auto split: if_splits)

section \<open>Decimal numbers\<close>

definition digit_val :: "char \<Rightarrow> nat" where
  "digit_val c = byte c - 48"

definition digits_val :: "string \<Rightarrow> nat" where
  "digits_val s = foldl (\<lambda>n c. 10 * n + digit_val c) 0 s"

text \<open>
  \<open>str::parse\<close> at an unsigned type with largest value \<open>mx\<close>: an optional \<open>+\<close>, then at least
  one digit, and no overflow.
\<close>

definition parse_uint :: "nat \<Rightarrow> string \<Rightarrow> nat option" where
  "parse_uint mx s =
     (let ds = (case s of [] \<Rightarrow> [] | c # cs \<Rightarrow> if c = CHR ''+'' then cs else s)
      in if ds \<noteq> [] \<and> list_all is_digit ds \<and> digits_val ds \<le> mx then Some (digits_val ds) else None)"

abbreviation u32_max :: nat where "u32_max \<equiv> 4294967295"
abbreviation u64_max :: nat where "u64_max \<equiv> 18446744073709551615"

text \<open>\<open>str::parse::<i64>\<close>: an optional sign, at least one digit, and no overflow.\<close>

definition parse_i64 :: "string \<Rightarrow> int option" where
  "parse_i64 s =
     (let neg = (case s of [] \<Rightarrow> False | c # cs \<Rightarrow> c = CHR ''-'');
          ds = (case s of [] \<Rightarrow> [] | c # cs \<Rightarrow> if c = CHR ''+'' \<or> c = CHR ''-'' then cs else s)
      in if ds \<noteq> [] \<and> list_all is_digit ds then
           (if neg then (if digits_val ds \<le> 9223372036854775808 then Some (- int (digits_val ds)) else None)
            else (if digits_val ds \<le> 9223372036854775807 then Some (int (digits_val ds)) else None))
         else None)"

text \<open>Rendering with \<open>{}\<close>, and with \<open>{:0w}\<close> (zero-padded to width \<open>w\<close>).\<close>

definition digit_char :: "nat \<Rightarrow> char" where
  "digit_char d = char_of (48 + d)"

fun show_nat :: "nat \<Rightarrow> string" where
  "show_nat n = (if n < 10 then [digit_char n] else show_nat (n div 10) @ [digit_char (n mod 10)])"

declare show_nat.simps [simp del]

definition pad_left :: "nat \<Rightarrow> string \<Rightarrow> string" where
  "pad_left w s = replicate (w - length s) (CHR ''0'') @ s"

definition show_pad :: "nat \<Rightarrow> nat \<Rightarrow> string" where
  "show_pad w n = pad_left w (show_nat n)"

lemma byte_digit_char [simp]: "d < 10 \<Longrightarrow> byte (digit_char d) = 48 + d"
  by (simp add: digit_char_def)

lemma is_digit_digit_char [simp]: "d < 10 \<Longrightarrow> is_digit (digit_char d)"
  by (simp add: is_digit_def)

lemma digit_val_digit_char [simp]: "d < 10 \<Longrightarrow> digit_val (digit_char d) = d"
  by (simp add: digit_val_def)

lemma digits_val_snoc [simp]: "digits_val (s @ [c]) = 10 * digits_val s + digit_val c"
  by (simp add: digits_val_def)

lemma show_nat_digits: "list_all is_digit (show_nat n)"
proof (induction n rule: show_nat.induct)
  case (1 n)
  then show ?case by (subst show_nat.simps) (simp add: list_all_iff)
qed

lemma show_nat_nonempty [simp]: "show_nat n \<noteq> []"
  by (subst show_nat.simps) simp

lemma digits_val_show_nat [simp]: "digits_val (show_nat n) = n"
proof (induction n rule: show_nat.induct)
  case (1 n)
  show ?case
  proof (cases "n < 10")
    case True
    then show ?thesis by (subst show_nat.simps) (simp add: digits_val_def)
  next
    case False
    with 1 have "digits_val (show_nat (n div 10)) = n div 10" by simp
    with False show ?thesis by (subst show_nat.simps) simp
  qed
qed

lemma digits_val_zeros [simp]: "digits_val (replicate k (CHR ''0'') @ s) = digits_val s"
  by (induction k) (simp_all add: digits_val_def digit_val_def)

lemma show_pad_digits: "list_all is_digit (show_pad w n)"
  using show_nat_digits [of n] by (auto simp: show_pad_def pad_left_def list_all_iff is_digit_def)

lemma digits_val_show_pad [simp]: "digits_val (show_pad w n) = n"
  by (simp add: show_pad_def pad_left_def)

lemma length_show_nat_le: "n < 10 ^ Suc k \<Longrightarrow> length (show_nat n) \<le> Suc k"
proof (induction k arbitrary: n)
  case 0
  then show ?case by (subst show_nat.simps) simp
next
  case (Suc k)
  show ?case
  proof (cases "n < 10")
    case True
    then show ?thesis by (subst show_nat.simps) simp
  next
    case False
    from Suc.prems have "n div 10 < 10 ^ Suc k" by (simp add: less_mult_imp_div_less)
    from Suc.IH [OF this] False show ?thesis by (subst show_nat.simps) simp
  qed
qed

lemma length_show_pad: "n < 10 ^ Suc k \<Longrightarrow> length (show_pad (Suc k) n) = Suc k"
  using length_show_nat_le [of n k] by (simp add: show_pad_def pad_left_def)

lemma show_pad_nonempty [simp]: "show_pad w n \<noteq> []"
  by (simp add: show_pad_def pad_left_def)

lemma parse_uint_show_pad:
  assumes "n \<le> mx"
  shows "parse_uint mx (show_pad w n) = Some n"
proof -
  obtain c cs where c: "show_pad w n = c # cs" by (cases "show_pad w n") auto
  with show_pad_digits [of w n] have "is_digit c" by simp
  then have "c \<noteq> CHR ''+''" by (auto simp: is_digit_def)
  with c assms show_pad_digits [of w n] digits_val_show_pad [of w n] show ?thesis
    by (simp add: parse_uint_def Let_def)
qed

text \<open>\<open>split_once\<close>, \<open>contains\<close>, \<open>replace\<close> and \<open>lines\<close>.\<close>

fun split_once_str :: "string \<Rightarrow> string \<Rightarrow> (string \<times> string) option" where
  "split_once_str pat s =
     (if prefix pat s then Some ([], drop (length pat) s)
      else (case s of [] \<Rightarrow> None | c # cs \<Rightarrow> map_option (\<lambda>(a, b). (c # a, b)) (split_once_str pat cs)))"

declare split_once_str.simps [simp del]

definition contains_str :: "string \<Rightarrow> string \<Rightarrow> bool" where
  "contains_str pat s \<longleftrightarrow> split_once_str pat s \<noteq> None"

function str_replace :: "string \<Rightarrow> string \<Rightarrow> string \<Rightarrow> string" where
  "str_replace old new s =
     (case s of
        [] \<Rightarrow> []
      | c # cs \<Rightarrow> if old \<noteq> [] \<and> prefix old s then new @ str_replace old new (drop (length old) s)
                 else c # str_replace old new cs)"
  by pat_completeness auto
termination
  by (relation "measure (\<lambda>(_, _, s). length s)") (auto simp: prefix_def)

declare str_replace.simps [simp del]

text \<open>The end of a line is a line feed or a carriage return and a line feed; a last empty line is none.\<close>

abbreviation newline :: char where "newline \<equiv> CHR 0x0A"

definition strip_cr :: "string \<Rightarrow> string" where
  "strip_cr l = (if l \<noteq> [] \<and> last l = CHR 0x0D then butlast l else l)"

definition text_lines :: "string \<Rightarrow> string list" where
  "text_lines s =
     (let ps = split_on newline s in map strip_cr (butlast ps) @ (if last ps = [] then [] else [last ps]))"

lemma split_on_lines:
  "\<forall>l \<in> set ls. newline \<notin> set l \<Longrightarrow> split_on newline (concat (map (\<lambda>l. l @ [newline]) ls) @ s) = ls @ split_on newline s"
  by (induction ls) (simp_all add: split_on_append_sep)

lemma text_lines_concat:
  assumes "\<forall>l \<in> set ls. newline \<notin> set l \<and> strip_cr l = l"
  shows "text_lines (concat (map (\<lambda>l. l @ [newline]) ls)) = ls"
proof -
  have "split_on newline (concat (map (\<lambda>l. l @ [newline]) ls)) = ls @ [[]]"
    using split_on_lines [of ls "[]"] assms by simp
  moreover have "map strip_cr ls = ls" using assms by (simp add: map_idI)
  ultimately show ?thesis by (simp add: text_lines_def)
qed

section \<open>Prose\<close>

text \<open>The em dash of the messages, and text between back quotes.\<close>

definition em_dash :: string where
  "em_dash = [CHR 0xE2, CHR 0x80, CHR 0x94]"

definition quoted :: "string \<Rightarrow> string" where
  "quoted s = ''`'' @ s @ ''`''"

section \<open>Words for values\<close>

text \<open>
  Many enums of the code have a \<open>Display\<close> and a parser that accepts exactly the words it writes;
  the words are what is stored and what is typed on the command line.
\<close>

locale word_codec =
  fixes render :: "'a \<Rightarrow> string"
    and parse :: "string \<Rightarrow> 'e + 'a"
  assumes parse_render: "parse (render x) = Inr x"
    and parse_exact: "parse t = Inr x \<Longrightarrow> t = render x"
begin

lemma parse_iff: "parse t = Inr x \<longleftrightarrow> t = render x"
  using parse_render parse_exact by blast

lemma render_inject: "render x = render y \<longleftrightarrow> x = y"
  by (metis parse_render sum.inject(2))

lemma refused_iff: "(\<exists>e. parse t = Inl e) \<longleftrightarrow> t \<notin> range render"
  by (metis Inl_Inr_False parse_exact parse_render rangeE rangeI sum.exhaust)

end

end
