(* ===== verification/Errors.thy ===== *)
theory Errors
  imports Prelude
begin

text \<open>
  \<open>src/src/error.rs\<close>: the failure every verb refuses with (\<open>Failure\<close>, its status, its
  stable code and its fix actions), warnings, and the \<open>Report\<close> envelope of a
  success.  A JSON value is the data of \<open>serde_json::Value\<close>; an object is the list of
  its members.  Painting with terminal colours and the annotated source snippet of
  \<open>write_human\<close> are not modelled.
\<close>

section \<open>JSON values\<close>

datatype json =
    JNull
  | JBool bool
  | JUInt nat
  | JNegInt int
  | JFloat string
  | JString string
  | JArray "json list"
  | JObject "(string \<times> json) list"

text \<open>\<open>Map::get\<close> and \<open>Map::insert\<close> on the members of an object.\<close>

definition obj_get :: "(string \<times> json) list \<Rightarrow> string \<Rightarrow> json option" where
  "obj_get m k = map_of m k"

fun obj_insert :: "string \<Rightarrow> json \<Rightarrow> (string \<times> json) list \<Rightarrow> (string \<times> json) list" where
  "obj_insert k v [] = [(k, v)]"
| "obj_insert k v ((a, b) # m) = (if a = k then (k, v) # m else (a, b) # obj_insert k v m)"

lemma obj_get_insert: "obj_get (obj_insert k v m) k' = (if k' = k then Some v else obj_get m k')"
  by (induction m) (auto simp: obj_get_def)

section \<open>Failures\<close>

datatype status = Blocked | Failed

record fix_action =
  fa_code :: string
  fa_what :: string
  fa_command :: "string option"
  fa_safe :: bool

definition fix_safe :: "string \<Rightarrow> string \<Rightarrow> fix_action" where
  "fix_safe code what = \<lparr>fa_code = code, fa_what = what, fa_command = None, fa_safe = True\<rparr>"

definition fix_unsafe :: "string \<Rightarrow> string \<Rightarrow> fix_action" where
  "fix_unsafe code what = \<lparr>fa_code = code, fa_what = what, fa_command = None, fa_safe = False\<rparr>"

definition fix_command :: "string \<Rightarrow> fix_action \<Rightarrow> fix_action" where
  "fix_command cmd a = a\<lparr>fa_command := Some cmd\<rparr>"

record source_location =
  sl_path :: string
  sl_line :: nat
  sl_column :: nat

record source_span =
  ss_path :: string
  ss_line :: nat
  ss_column :: nat
  ss_text :: string
  ss_label :: string

definition span_location :: "source_span \<Rightarrow> source_location" where
  "span_location s = \<lparr>sl_path = ss_path s, sl_line = ss_line s, sl_column = ss_column s\<rparr>"

record failure =
  fl_ok :: bool
  fl_status :: status
  fl_code :: string
  fl_what :: string
  fl_expected :: "string option"
  fl_actual :: "string option"
  fl_fix_actions :: "fix_action list"
  fl_details :: "json option"
  fl_source :: "source_span option"

definition failure_new :: "status \<Rightarrow> string \<Rightarrow> string \<Rightarrow> failure" where
  "failure_new st code what =
     \<lparr>fl_ok = False, fl_status = st, fl_code = code, fl_what = what, fl_expected = None,
      fl_actual = None, fl_fix_actions = [], fl_details = None, fl_source = None\<rparr>"

definition blocked :: "string \<Rightarrow> string \<Rightarrow> failure" where
  "blocked code what = failure_new Blocked code what"

definition failed :: "string \<Rightarrow> string \<Rightarrow> failure" where
  "failed code what = failure_new Failed code what"

definition with_expected :: "string \<Rightarrow> failure \<Rightarrow> failure" where
  "with_expected e f = f\<lparr>fl_expected := Some e\<rparr>"

definition with_actual :: "string \<Rightarrow> failure \<Rightarrow> failure" where
  "with_actual a f = f\<lparr>fl_actual := Some a\<rparr>"

definition with_fix :: "fix_action \<Rightarrow> failure \<Rightarrow> failure" where
  "with_fix a f = f\<lparr>fl_fix_actions := fl_fix_actions f @ [a]\<rparr>"

definition with_details :: "json \<Rightarrow> failure \<Rightarrow> failure" where
  "with_details d f = f\<lparr>fl_details := Some d\<rparr>"

definition failure_at :: "source_span \<Rightarrow> failure \<Rightarrow> failure" where
  "failure_at s f = f\<lparr>fl_source := Some s\<rparr>"

definition failure_label :: "failure \<Rightarrow> string" where
  "failure_label f = (case fl_status f of Blocked \<Rightarrow> ''blocked:'' | Failed \<Rightarrow> ''error:'')"

definition failure_display :: "failure \<Rightarrow> string" where
  "failure_display f = failure_label f @ '' '' @ fl_what f"

lemmas failure_defs = failure_new_def blocked_def failed_def with_expected_def with_actual_def
  with_fix_def with_details_def failure_at_def fix_safe_def fix_unsafe_def fix_command_def

text \<open>Every builder leaves \<open>ok\<close> false: no failure serialises as a success.\<close>

lemma failure_ok [simp]:
  "fl_ok (blocked c w) = False" "fl_ok (failed c w) = False"
  "fl_ok (with_expected e f) = fl_ok f" "fl_ok (with_actual e f) = fl_ok f"
  "fl_ok (with_fix a f) = fl_ok f" "fl_ok (with_details d f) = fl_ok f"
  by (simp_all add: failure_defs)

lemma failure_code [simp]:
  "fl_code (blocked c w) = c" "fl_code (failed c w) = c"
  "fl_code (with_expected e f) = fl_code f" "fl_code (with_actual e f) = fl_code f"
  "fl_code (with_fix a f) = fl_code f" "fl_code (with_details d f) = fl_code f"
  by (simp_all add: failure_defs)

lemma failure_status [simp]:
  "fl_status (blocked c w) = Blocked" "fl_status (failed c w) = Failed"
  "fl_status (with_expected e f) = fl_status f" "fl_status (with_actual e f) = fl_status f"
  "fl_status (with_fix a f) = fl_status f" "fl_status (with_details d f) = fl_status f"
  by (simp_all add: failure_defs)

lemma failure_fixes [simp]:
  "fl_fix_actions (blocked c w) = []" "fl_fix_actions (failed c w) = []"
  "fl_fix_actions (with_expected e f) = fl_fix_actions f"
  "fl_fix_actions (with_actual e f) = fl_fix_actions f"
  "fl_fix_actions (with_fix a f) = fl_fix_actions f @ [a]"
  "fl_fix_actions (with_details d f) = fl_fix_actions f"
  by (simp_all add: failure_defs)

section \<open>Warnings and reports\<close>

record warning =
  wn_code :: string
  wn_subject :: string
  wn_what :: string

definition warning_new :: "string \<Rightarrow> string \<Rightarrow> string \<Rightarrow> warning" where
  "warning_new code subject what = \<lparr>wn_code = code, wn_subject = subject, wn_what = what\<rparr>"

definition warning_display :: "warning \<Rightarrow> string" where
  "warning_display w = ''warning: '' @ wn_subject w @ '': '' @ wn_what w"

record 'a report =
  rp_ok :: bool
  rp_value :: 'a
  rp_warnings :: "warning list"

definition report_new :: "'a \<Rightarrow> 'a report" where
  "report_new v = \<lparr>rp_ok = True, rp_value = v, rp_warnings = []\<rparr>"

definition report_with_warnings :: "'a \<Rightarrow> warning list \<Rightarrow> 'a report" where
  "report_with_warnings v ws = \<lparr>rp_ok = True, rp_value = v, rp_warnings = ws\<rparr>"

definition report_warn :: "warning \<Rightarrow> 'a report \<Rightarrow> 'a report" where
  "report_warn w r = r\<lparr>rp_warnings := rp_warnings r @ [w]\<rparr>"

definition report_is_clean :: "'a report \<Rightarrow> bool" where
  "report_is_clean r \<longleftrightarrow> rp_warnings r = []"

definition report_map :: "('a \<Rightarrow> 'b) \<Rightarrow> 'a report \<Rightarrow> 'b report" where
  "report_map f r = \<lparr>rp_ok = True, rp_value = f (rp_value r), rp_warnings = rp_warnings r\<rparr>"

definition warning_json :: "warning \<Rightarrow> json" where
  "warning_json w =
     JObject [(''code'', JString (wn_code w)), (''subject'', JString (wn_subject w)),
              (''what'', JString (wn_what w))]"

text \<open>
  The envelope flattens the value beside \<open>ok\<close>, so an outcome that renders an \<open>ok\<close> key
  of its own is refused.  \<open>warnings\<close> is skipped when there are none.
\<close>

definition envelope :: "'a report \<Rightarrow> (string \<times> json) list \<Rightarrow> json" where
  "envelope r inlined =
     JObject ((''ok'', JBool (rp_ok r)) # inlined @
       (if rp_warnings r = [] then []
        else [(''warnings'', JArray (map warning_json (rp_warnings r)))]))"

definition report_serialize :: "('a \<Rightarrow> json) \<Rightarrow> 'a report \<Rightarrow> string + json" where
  "report_serialize to_value r =
     (case to_value (rp_value r) of
        JObject inlined \<Rightarrow>
          (if obj_get inlined ''ok'' \<noteq> None
           then Inl ''an outcome type must not serialize an `ok` key: it collides with the report envelope's success flag''
           else Inr (envelope r inlined))
      | JNull \<Rightarrow> Inr (envelope r [])
      | _ \<Rightarrow> Inl ''can only flatten structs and maps'')"

lemma report_serialize_ok:
  "report_serialize to_value r = Inr j \<Longrightarrow> \<exists>m. j = JObject m \<and> map fst m = ''ok'' # map fst (tl m) \<and> obj_get m ''ok'' = Some (JBool (rp_ok r))"
  by (auto simp: report_serialize_def envelope_def obj_get_def split: json.splits if_splits)

end
