(* ===== verification/Names.thy ===== *)
theory Names
  imports Errors
begin

text \<open>
  \<open>src/src/domain/name.rs\<close>: the validated newtypes every path of the hall is built from.
  A type is a constructor over its string; its only constructor function is \<open>new\<close>, which
  runs the type's rules.  \<open>uuid::Uuid::parse_str\<close> is a parameter (\<open>uuid_ok\<close>).
  The lemmas describe the accepted strings: a segment never traverses, a feature name is
  exactly lowercase kebab, and every feature name is a branch name git accepts.
\<close>

section \<open>The rule that was broken\<close>

datatype invalid_name =
    Empty
  | Whitespace
  | NotASegment
  | Traversal
  | Hidden
  | ControlCharacter
  | NotKebab
  | LeadingOrTrailingSlash
  | DoubleSlash
  | LeadingDash
  | TrailingDotLock
  | TrailingDot
  | ForbiddenCharacter char
  | ReservedByGit
  | RevisionSyntax
  | NotUuid

abbreviation at_brace :: string where
  "at_brace \<equiv> [CHR 0x40, CHR 0x7B]"

fun invalid_name_display :: "invalid_name \<Rightarrow> string" where
  "invalid_name_display Empty = ''must not be empty''"
| "invalid_name_display Whitespace = ''must not have leading or trailing whitespace''"
| "invalid_name_display NotASegment = ''must not contain '/' or ''  @ [CHR 0x27, CHR 0x5C, CHR 0x27]"
| "invalid_name_display Traversal = ''must not be, or contain, '.' or '..'' @ [CHR 0x27]"
| "invalid_name_display Hidden = ''must not start with '.'' @ [CHR 0x27]"
| "invalid_name_display ControlCharacter = ''must not contain control characters''"
| "invalid_name_display NotKebab =
     ''must be lowercase kebab-case: letters, digits and '-', not starting or ending with '-'' @ [CHR 0x27]"
| "invalid_name_display LeadingOrTrailingSlash = ''must not start or end with '/'' @ [CHR 0x27]"
| "invalid_name_display DoubleSlash = ''must not contain '//'' @ [CHR 0x27]"
| "invalid_name_display LeadingDash = ''must not start with '-'' @ [CHR 0x27]"
| "invalid_name_display TrailingDotLock =
     ''must not have a '/'-separated component ending in '.lock'' @ [CHR 0x27]"
| "invalid_name_display TrailingDot = ''must not end with '.'' @ [CHR 0x27]"
| "invalid_name_display (ForbiddenCharacter c) = ''must not contain '' @ [CHR 0x27, c, CHR 0x27]"
| "invalid_name_display ReservedByGit = ''must not be exactly '@', which git reserves for HEAD''"
| "invalid_name_display RevisionSyntax =
     ''must not contain '' @ [CHR 0x27] @ at_brace @ [CHR 0x27] @ '', which git reserves for revision syntax''"
| "invalid_name_display NotUuid = ''must be a valid UUID''"

fun invalid_name_code :: "invalid_name \<Rightarrow> string" where
  "invalid_name_code Empty = ''name.empty''"
| "invalid_name_code Whitespace = ''name.whitespace''"
| "invalid_name_code NotASegment = ''name.not_a_segment''"
| "invalid_name_code Traversal = ''name.traversal''"
| "invalid_name_code Hidden = ''name.hidden''"
| "invalid_name_code ControlCharacter = ''name.control_character''"
| "invalid_name_code NotKebab = ''feature.not_kebab''"
| "invalid_name_code LeadingOrTrailingSlash = ''branch.leading_or_trailing_slash''"
| "invalid_name_code DoubleSlash = ''branch.double_slash''"
| "invalid_name_code LeadingDash = ''branch.leading_dash''"
| "invalid_name_code TrailingDotLock = ''branch.trailing_dot_lock''"
| "invalid_name_code TrailingDot = ''branch.trailing_dot''"
| "invalid_name_code (ForbiddenCharacter _) = ''branch.forbidden_character''"
| "invalid_name_code ReservedByGit = ''branch.reserved_by_git''"
| "invalid_name_code RevisionSyntax = ''branch.revision_syntax''"
| "invalid_name_code NotUuid = ''session.not_uuid''"

fun invalid_name_fix :: "invalid_name \<Rightarrow> fix_action" where
  "invalid_name_fix Empty = fix_safe ''name.non_empty'' ''Provide a non-empty name.''"
| "invalid_name_fix Whitespace =
     fix_safe ''name.trim'' ''Remove the leading or trailing whitespace and try again.''"
| "invalid_name_fix NotASegment =
     fix_safe ''name.single_segment''
       (''Use a single path segment, with no '/' or '' @ [CHR 0x27, CHR 0x5C, CHR 0x27] @ '' in it.'')"
| "invalid_name_fix Traversal =
     fix_safe ''name.no_traversal'' ''Choose a name that is not, and does not contain, '.' or '..'.''"
| "invalid_name_fix Hidden =
     fix_safe ''name.not_hidden'' ''Choose a name that does not start with '.'.''"
| "invalid_name_fix ControlCharacter =
     fix_safe ''name.no_control_characters'' ''Remove control characters (including NUL) from the name.''"
| "invalid_name_fix NotKebab =
     fix_safe ''feature.use_kebab'' ''Use lowercase kebab-case: 'checkout-refactor', not 'Checkout_v2'.''"
| "invalid_name_fix LeadingOrTrailingSlash =
     fix_safe ''branch.trim_slashes'' ''Remove the leading or trailing '/' from the branch name.''"
| "invalid_name_fix DoubleSlash =
     fix_safe ''branch.collapse_slashes'' ''Collapse the repeated '/' into a single '/'.''"
| "invalid_name_fix LeadingDash =
     fix_safe ''branch.no_leading_dash'' ''Choose a branch name that does not start with '-'.''"
| "invalid_name_fix TrailingDotLock =
     fix_safe ''branch.no_dot_lock_suffix''
       ''Choose a branch name where no '/'-separated component ends with '.lock'.''"
| "invalid_name_fix TrailingDot =
     fix_safe ''branch.no_trailing_dot'' ''Choose a branch name that does not end with '.'.''"
| "invalid_name_fix (ForbiddenCharacter c) =
     fix_safe ''branch.remove_forbidden_character''
       (''Remove '' @ [CHR 0x27, c, CHR 0x27] @ '' from the branch name; git's ref format forbids it.'')"
| "invalid_name_fix ReservedByGit =
     fix_safe ''branch.not_bare_at'' ''Choose a branch name other than the reserved '@'.''"
| "invalid_name_fix RevisionSyntax =
     fix_safe ''branch.remove_at_brace''
       (''Remove the '' @ [CHR 0x27] @ at_brace @ [CHR 0x27] @
         '' sequence from the branch name; git reserves it for revision syntax like '' @ [CHR 0x27] @ at_brace @
         ''upstream}'' @ [CHR 0x27] @ ''.'')"
| "invalid_name_fix NotUuid =
     fix_safe ''session.valid_uuid'' ''Provide a valid UUID, e.g. one generated by `uuid::Uuid::new_v4`.''"

definition invalid_name_failure :: "invalid_name \<Rightarrow> failure" where
  "invalid_name_failure e =
     with_fix (invalid_name_fix e) (blocked (invalid_name_code e) (invalid_name_display e))"

section \<open>The rules\<close>

definition is_blank :: "string \<Rightarrow> bool" where
  "is_blank v \<longleftrightarrow> list_all is_whitespace (str_chars v)"

definition has_edge_whitespace :: "string \<Rightarrow> bool" where
  "has_edge_whitespace v \<longleftrightarrow> trim v \<noteq> v"

definition has_control_character :: "string \<Rightarrow> bool" where
  "has_control_character v \<longleftrightarrow> list_ex is_control (str_chars v)"

definition validate_common :: "string \<Rightarrow> invalid_name + unit" where
  "validate_common v =
     (if is_blank v then Inl Empty
      else if has_edge_whitespace v then Inl Whitespace
      else if has_control_character v then Inl ControlCharacter
      else Inr ())"

abbreviation backslash :: char where "backslash \<equiv> CHR 0x5C"

definition validate_segment :: "string \<Rightarrow> invalid_name + unit" where
  "validate_segment v = and_then (validate_common v) (\<lambda>_.
     if v = ''.'' \<or> v = ''..'' then Inl Traversal
     else if CHR ''/'' \<in> set v \<or> backslash \<in> set v then Inl NotASegment
     else if prefix ''.'' v then Inl Hidden
     else Inr ())"

definition kebab_edge :: "char \<Rightarrow> bool" where
  "kebab_edge c \<longleftrightarrow> is_lower c \<or> is_digit c"

definition kebab_body :: "char \<Rightarrow> bool" where
  "kebab_body c \<longleftrightarrow> is_lower c \<or> is_digit c \<or> c = CHR ''-''"

definition is_kebab :: "string \<Rightarrow> bool" where
  "is_kebab v = (case v of [] \<Rightarrow> False | first # _ \<Rightarrow>
     kebab_edge first \<and> kebab_edge (last v) \<and> list_all kebab_body v)"

definition validate_feature :: "string \<Rightarrow> invalid_name + unit" where
  "validate_feature v = and_then (validate_segment v) (\<lambda>_.
     if \<not> is_kebab v then Inl NotKebab else Inr ())"

definition branch_forbidden_characters :: "char list" where
  "branch_forbidden_characters =
     [CHR ''~'', CHR ''^'', CHR '':'', CHR ''?'', CHR ''*'', CHR ''['', CHR '' '', backslash]"

fun check_branch_components :: "string list \<Rightarrow> invalid_name + unit" where
  "check_branch_components [] = Inr ()"
| "check_branch_components (c # cs) =
     (if prefix ''.'' c then Inl Hidden
      else if suffix ''.lock'' c then Inl TrailingDotLock
      else check_branch_components cs)"

definition validate_branch :: "string \<Rightarrow> invalid_name + unit" where
  "validate_branch v = and_then (validate_common v) (\<lambda>_.
     if v = ''.'' \<or> v = ''..'' \<or> sublist ''..'' v then Inl Traversal
     else if v = ''@'' then Inl ReservedByGit
     else if sublist at_brace v then Inl RevisionSyntax
     else if prefix ''/'' v \<or> suffix ''/'' v then Inl LeadingOrTrailingSlash
     else if sublist ''//'' v then Inl DoubleSlash
     else if prefix ''-'' v then Inl LeadingDash
     else if suffix ''.'' v then Inl TrailingDot
     else and_then (check_branch_components (split_on (CHR ''/'') v)) (\<lambda>_.
       case find (\<lambda>c. c \<in> set branch_forbidden_characters) v of
         Some c \<Rightarrow> Inl (ForbiddenCharacter c)
       | None \<Rightarrow> Inr ()))"

definition validate_session_id :: "(string \<Rightarrow> bool) \<Rightarrow> string \<Rightarrow> invalid_name + unit" where
  "validate_session_id uuid_ok v = (if uuid_ok v then Inr () else Inl NotUuid)"

section \<open>The types\<close>

datatype hall_name = HallName (hall_str: string)
datatype repo_name = RepoName (repo_str: string)
datatype feature_name = FeatureName (feature_str: string)
datatype branch_name = BranchName (branch_str: string)
datatype session_id = SessionId (session_str: string)

definition validated_new :: "(string \<Rightarrow> invalid_name + unit) \<Rightarrow> (string \<Rightarrow> 'n) \<Rightarrow> string \<Rightarrow> invalid_name + 'n" where
  "validated_new validate mk v = and_then (validate v) (\<lambda>_. Inr (mk v))"

text \<open>\<open>Deserialize\<close> reads a string and goes through \<open>new\<close>.\<close>

definition validated_deserialize :: "(string \<Rightarrow> invalid_name + 'n) \<Rightarrow> json \<Rightarrow> string + 'n" where
  "validated_deserialize new j = (case j of
     JString raw \<Rightarrow> (case new raw of Inl e \<Rightarrow> Inl (invalid_name_display e) | Inr n \<Rightarrow> Inr n)
   | _ \<Rightarrow> Inl ''invalid type: expected a string'')"

definition hall_name_new :: "string \<Rightarrow> invalid_name + hall_name" where
  "hall_name_new = validated_new validate_segment HallName"

definition repo_name_new :: "string \<Rightarrow> invalid_name + repo_name" where
  "repo_name_new = validated_new validate_segment RepoName"

definition feature_name_new :: "string \<Rightarrow> invalid_name + feature_name" where
  "feature_name_new = validated_new validate_feature FeatureName"

definition branch_name_new :: "string \<Rightarrow> invalid_name + branch_name" where
  "branch_name_new = validated_new validate_branch BranchName"

definition session_id_new :: "(string \<Rightarrow> bool) \<Rightarrow> string \<Rightarrow> invalid_name + session_id" where
  "session_id_new uuid_ok = validated_new (validate_session_id uuid_ok) SessionId"

text \<open>The derived \<open>Ord\<close> of a newtype is the byte order of its string.\<close>

instantiation repo_name :: linorder
begin

definition less_eq_repo_name :: "repo_name \<Rightarrow> repo_name \<Rightarrow> bool" where
  "less_eq_repo_name a b \<longleftrightarrow> repo_str a \<le> repo_str b"

definition less_repo_name :: "repo_name \<Rightarrow> repo_name \<Rightarrow> bool" where
  "less_repo_name a b \<longleftrightarrow> repo_str a < repo_str b"

instance
  by standard (auto simp: less_eq_repo_name_def less_repo_name_def repo_name.expand)

end

instantiation feature_name :: linorder
begin

definition less_eq_feature_name :: "feature_name \<Rightarrow> feature_name \<Rightarrow> bool" where
  "less_eq_feature_name a b \<longleftrightarrow> feature_str a \<le> feature_str b"

definition less_feature_name :: "feature_name \<Rightarrow> feature_name \<Rightarrow> bool" where
  "less_feature_name a b \<longleftrightarrow> feature_str a < feature_str b"

instance
  by standard (auto simp: less_eq_feature_name_def less_feature_name_def feature_name.expand)

end

lemmas name_order_defs = less_eq_repo_name_def less_repo_name_def less_eq_feature_name_def
  less_feature_name_def

section \<open>What the rules accept\<close>

lemma list_all_mono_ball: "list_all P xs \<Longrightarrow> (\<And>x. P x \<Longrightarrow> Q x) \<Longrightarrow> list_all Q xs"
  by (simp add: list_all_iff)

lemma sublist_set: "sublist xs ys \<Longrightarrow> set xs \<subseteq> set ys"
  by (rule set_mono_sublist)

lemma kebab_body_ascii: "kebab_body c \<Longrightarrow> is_ascii c"
  by (auto simp: kebab_body_def is_ascii_def is_lower_def is_digit_def)

lemma kebab_body_not_whitespace: "kebab_body c \<Longrightarrow> \<not> is_whitespace [c]"
  by (auto simp: kebab_body_def is_whitespace_def is_lower_def is_digit_def)

lemma kebab_body_not_control: "kebab_body c \<Longrightarrow> \<not> is_control [c]"
  by (auto simp: kebab_body_def is_control_def is_lower_def is_digit_def)

lemma kebab_body_not_special:
  "kebab_body c \<Longrightarrow> c \<notin> set (branch_forbidden_characters @ [CHR ''/'', CHR ''.'', CHR ''@'', CHR ''{''])"
  by (auto simp: kebab_body_def is_lower_def is_digit_def branch_forbidden_characters_def)

lemma is_kebabD:
  assumes "is_kebab v"
  shows "v \<noteq> []" and "list_all kebab_body v" and "hd v \<noteq> CHR ''-''" and "last v \<noteq> CHR ''-''"
  using assms by (auto simp: is_kebab_def kebab_edge_def is_lower_def is_digit_def split: list.splits)

lemma dropWhile_map_single:
  "list_all (\<lambda>c. \<not> P [c]) v \<Longrightarrow> dropWhile P (map (\<lambda>c. [c]) v) = map (\<lambda>c. [c]) v"
  by (cases v) auto

lemma concat_map_single [simp]: "concat (map (\<lambda>c. [c]) v) = v"
  by (induction v) auto

lemma kebab_common: "is_kebab v \<Longrightarrow> validate_common v = Inr ()"
proof -
  assume k: "is_kebab v"
  have body: "list_all kebab_body v" and ne: "v \<noteq> []" using is_kebabD [OF k] by auto
  have chars: "str_chars v = map (\<lambda>c. [c]) v"
    by (rule str_chars_ascii) (rule list_all_mono_ball [OF body kebab_body_ascii])
  have ws: "list_all (\<lambda>c. \<not> is_whitespace [c]) v" "list_all (\<lambda>c. \<not> is_whitespace [c]) (rev v)"
    using list_all_mono_ball [OF body kebab_body_not_whitespace] by (simp_all add: list_all_iff)
  have "trim v = v"
    by (simp add: trim_def chars dropWhile_map_single [OF ws(1)] dropWhile_map_single [OF ws(2)]
        rev_map)
  moreover have "\<not> is_blank v"
    unfolding is_blank_def chars using ws(1) ne by (cases v) auto
  moreover have "\<not> has_control_character v"
    using list_all_mono_ball [of _ v, OF body, of "\<lambda>c. \<not> is_control [c]", OF kebab_body_not_control]
    by (auto simp: has_control_character_def chars list_ex_iff list_all_iff)
  ultimately show ?thesis by (simp add: validate_common_def has_edge_whitespace_def)
qed

lemma kebab_absent:
  "is_kebab v \<Longrightarrow> set v \<inter> set (branch_forbidden_characters @ [CHR ''/'', CHR ''.'', CHR ''@'', CHR ''{'']) = {}"
  using is_kebabD(2) [of v] kebab_body_not_special by (fastforce simp: list_all_iff)

lemma kebab_segment: "is_kebab v \<Longrightarrow> validate_segment v = Inr ()"
  using kebab_absent [of v] kebab_common [of v]
  by (auto simp: validate_segment_def branch_forbidden_characters_def dest: set_mono_prefix)

lemma validate_segment_facts:
  assumes "validate_segment v = Inr ()"
  shows "CHR ''/'' \<notin> set v" and "\<not> prefix ''.'' v" and "v \<noteq> []"
  using assms
  by (auto simp: validate_segment_def validate_common_def is_blank_def result_simps split: if_splits)

lemma validate_feature_iff: "validate_feature v = Inr () \<longleftrightarrow> is_kebab v"
  using kebab_segment [of v] by (auto simp: validate_feature_def result_simps split: if_splits)

lemma branch_components_ok:
  "check_branch_components cs = Inr () \<longleftrightarrow> (\<forall>c \<in> set cs. \<not> prefix ''.'' c \<and> \<not> suffix ''.lock'' c)"
  by (induction cs) auto

lemma find_None_disjoint: "find (\<lambda>c. c \<in> A) v = None \<longleftrightarrow> set v \<inter> A = {}"
  by (auto simp: find_None_iff)

text \<open>A feature name is used as the branch of the feature, so it must be one.\<close>

lemma kebab_branch: "is_kebab v \<Longrightarrow> validate_branch v = Inr ()"
proof -
  assume k: "is_kebab v"
  have no: "CHR ''/'' \<notin> set v" "CHR ''.'' \<notin> set v" "CHR ''@'' \<notin> set v"
    "set v \<inter> set branch_forbidden_characters = {}"
    using kebab_absent [OF k] by auto
  have first: "\<not> prefix ''-'' v"
    using is_kebabD(1,3) [OF k] by (auto simp: prefix_def)
  have comps: "check_branch_components (split_on (CHR ''/'') v) = Inr ()"
    using no(1,2) by (auto simp: split_on_absent prefix_def suffix_def)
  have find: "find (\<lambda>c. c \<in> set branch_forbidden_characters) v = None"
    using no(4) by (simp add: find_None_disjoint)
  have sub: "\<not> sublist ''..'' v" "\<not> sublist at_brace v" "\<not> sublist ''//'' v"
    using no sublist_set by fastforce+
  show ?thesis
    using no sub first comps find kebab_common [OF k] is_kebabD(1) [OF k]
    by (auto simp: validate_branch_def prefix_def suffix_def)
qed

lemma validate_branch_facts:
  assumes "validate_branch v = Inr ()"
  shows "check_branch_components (split_on (CHR ''/'') v) = Inr ()"
    and "set v \<inter> set branch_forbidden_characters = {}"
    and "\<not> prefix ''/'' v" and "\<not> suffix ''/'' v" and "\<not> sublist ''//'' v"
    and "v \<noteq> []" and "\<not> prefix ''-'' v" and "v \<noteq> ''@''" and "\<not> sublist at_brace v" and "\<not> sublist ''..'' v"
  using assms
  by (auto simp: validate_branch_def validate_common_def is_blank_def result_simps find_None_disjoint
      split: if_splits option.splits)

lemma branch_component_facts:
  assumes "validate_branch v = Inr ()" and "w \<in> set (split_on (CHR ''/'') v)"
  shows "CHR ''/'' \<notin> set w" and "\<not> prefix ''.'' w" and "\<not> suffix ''.lock'' w"
  using split_on_no_sep [OF assms(2)] validate_branch_facts(1) [OF assms(1)] assms(2)
  by (simp_all add: branch_components_ok)

lemma branch_components_nonempty:
  assumes "validate_branch v = Inr ()" and "c \<in> set (split_on (CHR ''/'') v)"
  shows "c \<noteq> []"
proof
  assume "c = []"
  then have "v = [] \<or> prefix ''/'' v \<or> suffix ''/'' v \<or> sublist ''//'' v"
    using split_on_empty_piece [of "CHR ''/''" v] assms(2) by simp
  with validate_branch_facts [OF assms(1)] show False by simp
qed

section \<open>Properties\<close>

text \<open>
  A string is a feature name exactly when it is lowercase kebab; the segment rules that
  run before the kebab test then reject nothing more.  Every feature name is also accepted
  as a branch name and as a repo name, which is what lets a feature name its own branch
  and its own directory.
\<close>

theorem feature_name_accepts_exactly_kebab:
  "(feature_name_new v = Inr n \<longleftrightarrow> is_kebab v \<and> n = FeatureName v)
   \<and> (is_ok (feature_name_new v) \<longrightarrow>
        branch_name_new v = Inr (BranchName v) \<and> repo_name_new v = Inr (RepoName v))"
  using validate_feature_iff [of v] kebab_branch [of v] kebab_segment [of v]
  by (auto simp: feature_name_new_def branch_name_new_def repo_name_new_def validated_new_def
      result_simps)

theorem feature_name_accepts_exactly_kebab_witness:
  "is_ok (feature_name_new ''avatar-url'') \<and> branch_name_new ''avatar-url'' = Inr (BranchName ''avatar-url'')
   \<and> feature_name_new ''Checkout_v2'' = Inl NotKebab"
proof -
  have ok: "is_ok (feature_name_new ''avatar-url'')" by code_simp
  have no: "feature_name_new ''Checkout_v2'' = Inl NotKebab" by code_simp
  show ?thesis
    using ok no feature_name_accepts_exactly_kebab [of "''avatar-url''" "FeatureName ''avatar-url''"]
    by blast
qed

end
