(* ===== verification/Paths.thy ===== *)
theory Paths
  imports Names
begin

text \<open>
  Paths as the code handles them: \<open>camino::Utf8Path\<close> is \<open>std::path\<close> on Unix, and what the
  hall relies on is its lexical part, components, \<open>join\<close>, \<open>parent\<close>, \<open>file_name\<close> and
  \<open>starts_with\<close> by whole components.
\<close>

datatype component = RootDir | CurDir | ParentDir | Normal string

definition is_absolute :: "string \<Rightarrow> bool" where
  "is_absolute p \<longleftrightarrow> prefix ''/'' p"

text \<open>Empty components and \<open>.\<close> are skipped, except a leading \<open>.\<close> of a relative path.\<close>

definition body_component :: "string \<Rightarrow> component list" where
  "body_component w =
     (if w = [] \<or> w = ''.'' then [] else if w = ''..'' then [ParentDir] else [Normal w])"

definition body_components :: "string list \<Rightarrow> component list" where
  "body_components ws = concat (map body_component ws)"

definition components :: "string \<Rightarrow> component list" where
  "components p =
     (if is_absolute p then RootDir # body_components (split_on (CHR ''/'') p)
      else (case split_on (CHR ''/'') p of
              [] \<Rightarrow> []
            | w # ws \<Rightarrow> (if w = ''.'' then [CurDir] else body_component w) @ body_components ws))"

definition path_starts_with :: "string \<Rightarrow> string \<Rightarrow> bool" where
  "path_starts_with p base \<longleftrightarrow> prefix (components base) (components p)"

text \<open>\<open>join\<close> is \<open>push\<close> on a copy: an absolute argument replaces the path.\<close>

definition path_join :: "string \<Rightarrow> string \<Rightarrow> string" where
  "path_join base p =
     (if is_absolute p then p
      else if base = [] \<or> suffix ''/'' base then base @ p
      else base @ ''/'' @ p)"

fun show_component :: "component \<Rightarrow> string" where
  "show_component RootDir = []"
| "show_component CurDir = ''.''"
| "show_component ParentDir = ''..''"
| "show_component (Normal w) = w"

definition file_name :: "string \<Rightarrow> string option" where
  "file_name p = (case rev (components p) of Normal w # _ \<Rightarrow> Some w | _ \<Rightarrow> None)"

text \<open>A path that no component moves out of: every component is a plain name.\<close>

definition is_plain :: "component \<Rightarrow> bool" where
  "is_plain c = (case c of Normal _ \<Rightarrow> True | _ \<Rightarrow> False)"

section \<open>Joining names\<close>

lemma body_components_append [simp]:
  "body_components (xs @ ys) = body_components xs @ body_components ys"
  by (simp add: body_components_def)

lemma body_components_Cons [simp]:
  "body_components (w # ws) = body_component w @ body_components ws"
  by (simp add: body_components_def)

lemma body_components_Nil [simp]: "body_components [] = []"
  by (simp add: body_components_def)

lemma split_on_append_eq:
  "split_on c (a @ c # b) = split_on c a @ split_on c b"
  by (induction a) (auto split: list.splits)

lemma is_absolute_append: "a \<noteq> [] \<Longrightarrow> is_absolute (a @ b) \<longleftrightarrow> is_absolute a"
  by (cases a) (auto simp: is_absolute_def)

lemma components_append_slash:
  "a \<noteq> [] \<Longrightarrow> components (a @ ''/'' @ b) = components a @ body_components (split_on (CHR ''/'') b)"
  using is_absolute_append [of a "''/'' @ b"]
  by (auto simp: components_def split_on_append_eq split: list.splits)

lemma suffix_slash_components:
  "a \<noteq> [] \<Longrightarrow> components (a @ ''/'') = components a"
  using components_append_slash [of a "[]"] by (simp add: body_component_def)

text \<open>What joining a relative path adds are its components, nothing else.\<close>

lemma components_join:
  assumes base: "base \<noteq> []" and rel: "\<not> is_absolute p"
  shows "components (path_join base p) = components base @ body_components (split_on (CHR ''/'') p)"
proof (cases "suffix ''/'' base")
  case False
  with base rel show ?thesis using components_append_slash [of base p] by (simp add: path_join_def)
next
  case True
  then obtain a where a: "base = a @ ''/''" by (auto simp: suffix_def)
  show ?thesis
  proof (cases "a = []")
    case True
    with a rel show ?thesis
      by (auto simp: path_join_def components_def is_absolute_def body_component_def)
  next
    case False
    with a rel True show ?thesis
      using components_append_slash [of a p] suffix_slash_components [of a] base
      by (simp add: path_join_def)
  qed
qed

lemma path_starts_with_join:
  "base \<noteq> [] \<Longrightarrow> \<not> is_absolute p \<Longrightarrow> path_starts_with (path_join base p) base"
  by (simp add: path_starts_with_def components_join)

lemma path_join_nonempty [simp]: "base \<noteq> [] \<Longrightarrow> path_join base p \<noteq> []"
  by (auto simp: path_join_def is_absolute_def)

lemma path_starts_with_trans:
  "path_starts_with a b \<Longrightarrow> path_starts_with b c \<Longrightarrow> path_starts_with a c"
  unfolding path_starts_with_def by (rule prefix_order.trans)

lemma path_starts_with_refl [simp]: "path_starts_with a a"
  by (simp add: path_starts_with_def)

text \<open>The components a validated name adds to a path.\<close>

lemma segment_component:
  assumes "validate_segment v = Inr ()"
  shows "body_components (split_on (CHR ''/'') v) = [Normal v]" and "\<not> is_absolute v" and "v \<noteq> []"
  using assms
  by (auto simp: validate_segment_def validate_common_def is_blank_def result_simps split_on_absent
      body_component_def is_absolute_def prefix_def split: if_splits)

lemma branch_component:
  assumes v: "validate_branch v = Inr ()" and w: "w \<in> set (split_on (CHR ''/'') v)"
  shows "body_component w = [Normal w]"
  using branch_components_nonempty [OF v w] validate_branch_facts(1) [OF v] w
  by (auto simp: body_component_def branch_components_ok)

lemma branch_components:
  assumes "validate_branch v = Inr ()"
  shows "body_components (split_on (CHR ''/'') v) = map Normal (split_on (CHR ''/'') v)"
    and "\<not> is_absolute v"
proof -
  have "body_components ws = map Normal ws" if "set ws \<subseteq> set (split_on (CHR ''/'') v)" for ws
    using that by (induction ws) (simp_all add: branch_component [OF assms])
  then show "body_components (split_on (CHR ''/'') v) = map Normal (split_on (CHR ''/'') v)" by simp
  show "\<not> is_absolute v" using validate_branch_facts(3) [OF assms] by (simp add: is_absolute_def)
qed

end
