(* ===== verification/Providers.thy ===== *)
theory Providers
  imports Paths
begin

text \<open>
  \<open>src/src/domain/provider.rs\<close>: which harnesses exist, their stable ids and the paths
  each one dictates.  \<open>T3\<close> shares the surfaces of Claude Code (\<open>config_owner\<close>).
\<close>

datatype provider = ClaudeCode | OpenCode | Omp | T3

definition provider_all :: "provider list" where
  "provider_all = [ClaudeCode, OpenCode, Omp]"

definition provider_selectable :: "provider list" where
  "provider_selectable = [ClaudeCode, OpenCode, Omp, T3]"

fun config_owner :: "provider \<Rightarrow> provider" where
  "config_owner ClaudeCode = ClaudeCode"
| "config_owner T3 = ClaudeCode"
| "config_owner OpenCode = OpenCode"
| "config_owner Omp = Omp"

fun provider_id :: "provider \<Rightarrow> string" where
  "provider_id ClaudeCode = ''claude-code''"
| "provider_id OpenCode = ''opencode''"
| "provider_id Omp = ''omp''"
| "provider_id T3 = ''t3''"

fun config_dir :: "provider \<Rightarrow> string" where
  "config_dir ClaudeCode = ''.claude''"
| "config_dir T3 = ''.claude''"
| "config_dir OpenCode = ''.opencode''"
| "config_dir Omp = ''.omp''"

fun instruction_file :: "provider \<Rightarrow> string" where
  "instruction_file ClaudeCode = ''CLAUDE.md''"
| "instruction_file T3 = ''CLAUDE.md''"
| "instruction_file OpenCode = ''AGENTS.md''"
| "instruction_file Omp = ''AGENTS.md''"

fun provider_commands_dir :: "provider \<Rightarrow> string" where
  "provider_commands_dir ClaudeCode = ''.claude/commands''"
| "provider_commands_dir T3 = ''.claude/commands''"
| "provider_commands_dir OpenCode = ''.opencode/commands''"
| "provider_commands_dir Omp = ''.omp/commands''"

fun provider_skills_dir :: "provider \<Rightarrow> string" where
  "provider_skills_dir ClaudeCode = ''.claude/skills''"
| "provider_skills_dir T3 = ''.claude/skills''"
| "provider_skills_dir OpenCode = ''.opencode/skills''"
| "provider_skills_dir Omp = ''.omp/skills''"

fun provider_plugins_dir :: "provider \<Rightarrow> string option" where
  "provider_plugins_dir OpenCode = Some ''.opencode/plugins''"
| "provider_plugins_dir _ = None"

fun hook_config_paths :: "provider \<Rightarrow> string list" where
  "hook_config_paths ClaudeCode = [''.claude/settings.json'', ''.claude/settings.local.json'']"
| "hook_config_paths T3 = [''.claude/settings.json'', ''.claude/settings.local.json'']"
| "hook_config_paths OpenCode = [''.opencode/plugins'', ''.opencode/node_modules'']"
| "hook_config_paths Omp = [''.omp/hooks'', ''.omp/extensions'']"

fun mcp_config_path :: "provider \<Rightarrow> string" where
  "mcp_config_path ClaudeCode = ''.mcp.json''"
| "mcp_config_path T3 = ''.mcp.json''"
| "mcp_config_path OpenCode = ''opencode.json''"
| "mcp_config_path Omp = ''.omp/mcp.json''"

datatype invalid_provider = UnknownId (given: string)

definition provider_parse :: "string \<Rightarrow> invalid_provider + provider" where
  "provider_parse v = (case find (\<lambda>p. provider_id p = v) provider_selectable of
     Some p \<Rightarrow> Inr p | None \<Rightarrow> Inl (UnknownId v))"

definition valid_ids :: string where
  "valid_ids = ''claude-code, opencode, omp, t3''"

definition invalid_provider_display :: "invalid_provider \<Rightarrow> string" where
  "invalid_provider_display e = ''unknown provider id '' @ quoted (given e) @ ''; valid ids are: '' @ valid_ids"

definition invalid_provider_failure :: "invalid_provider \<Rightarrow> failure" where
  "invalid_provider_failure e =
     with_fix (fix_safe ''provider.use_valid_id'' (''Use one of the valid provider ids: '' @ valid_ids @ ''.''))
       (blocked ''provider.unknown_id'' (invalid_provider_display e))"

lemma provider_parse_id [simp]: "provider_parse (provider_id p) = Inr p"
  by (cases p) (simp_all add: provider_parse_def provider_selectable_def)

interpretation provider_codec: word_codec provider_id provider_parse
proof
  show "provider_parse t = Inr p \<Longrightarrow> t = provider_id p" for t p
    by (auto simp: provider_parse_def find_Some_iff split: option.splits)
qed (rule provider_parse_id)

end
