(* ===== verification/Layouts.thy ===== *)
theory Layouts
  imports Providers
begin

text \<open>
  \<open>src/src/store/layout.rs\<close>, \<open>layout/hall.rs\<close> and \<open>layout/features.rs\<close>: every path under a
  hall, computed from its root.  The lemmas say where a path built from validated names
  lies: beneath the directory it is built in, with plain components only.
\<close>

record layout =
  lay_root :: string

definition layout_at :: "string \<Rightarrow> layout" where
  "layout_at root = \<lparr>lay_root = root\<rparr>"

definition ivar_dir :: "layout \<Rightarrow> string" where
  "ivar_dir l = path_join (lay_root l) ''.ivar''"

definition manifest_path :: "layout \<Rightarrow> string" where
  "manifest_path l = path_join (lay_root l) ''ivar.json''"

definition hall_setups :: "layout \<Rightarrow> string" where
  "hall_setups l = path_join (ivar_dir l) ''setups''"

definition setup_script :: "layout \<Rightarrow> repo_name \<Rightarrow> string" where
  "setup_script l repo = path_join (hall_setups l) (repo_str repo @ ''.sh'')"

definition session_hook :: "layout \<Rightarrow> repo_name \<Rightarrow> string" where
  "session_hook l repo = path_join (hall_setups l) (repo_str repo @ ''.session.sh'')"

definition secrets_dir :: "layout \<Rightarrow> string" where
  "secrets_dir l = path_join (ivar_dir l) ''secrets''"

definition hall_skills :: "layout \<Rightarrow> string" where
  "hall_skills l = path_join (ivar_dir l) ''skills''"

definition hall_skills_local :: "layout \<Rightarrow> string" where
  "hall_skills_local l = path_join (ivar_dir l) ''skills-local''"

definition hall_scripts :: "layout \<Rightarrow> string" where
  "hall_scripts l = path_join (ivar_dir l) ''scripts''"

definition hall_scripts_local :: "layout \<Rightarrow> string" where
  "hall_scripts_local l = path_join (ivar_dir l) ''scripts-local''"

definition repos_dir :: "layout \<Rightarrow> string" where
  "repos_dir l = path_join (ivar_dir l) ''repos''"

definition repo_dir :: "layout \<Rightarrow> repo_name \<Rightarrow> string" where
  "repo_dir l repo = path_join (repos_dir l) (repo_str repo)"

definition repo_bare :: "layout \<Rightarrow> repo_name \<Rightarrow> string" where
  "repo_bare l repo = path_join (repo_dir l repo) ''.bare''"

definition repo_worktree :: "layout \<Rightarrow> repo_name \<Rightarrow> branch_name \<Rightarrow> string" where
  "repo_worktree l repo branch = path_join (repo_dir l repo) (branch_str branch)"

definition features_dir :: "layout \<Rightarrow> string" where
  "features_dir l = path_join (ivar_dir l) ''features''"

definition discovery_sessions_dir :: "layout \<Rightarrow> string" where
  "discovery_sessions_dir l = path_join (ivar_dir l) ''sessions''"

definition feature_dir :: "layout \<Rightarrow> feature_name \<Rightarrow> string" where
  "feature_dir l f = path_join (features_dir l) (feature_str f)"

definition feature_sessions_dir :: "layout \<Rightarrow> feature_name \<Rightarrow> string" where
  "feature_sessions_dir l f = path_join (feature_dir l f) ''sessions''"

definition session_scratch :: "string \<Rightarrow> string" where
  "session_scratch view_dir = path_join view_dir ''.tmp''"

definition mcp_config :: "layout \<Rightarrow> provider \<Rightarrow> string" where
  "mcp_config l p = path_join (lay_root l) (mcp_config_path p)"

definition guard_protected_paths :: "layout \<Rightarrow> string list" where
  "guard_protected_paths l =
     (let git_dir = path_join (lay_root l) ''.git'' in
      [path_join git_dir ''hooks'', path_join git_dir ''config'', path_join (lay_root l) ''.env'']
      @ map (path_join (lay_root l)) (concat (map hook_config_paths provider_all))
      @ map (mcp_config l) provider_all)"

lemmas layout_defs = ivar_dir_def hall_setups_def secrets_dir_def hall_skills_def
  hall_skills_local_def hall_scripts_def hall_scripts_local_def repos_dir_def repo_dir_def
  repo_bare_def repo_worktree_def features_dir_def discovery_sessions_dir_def feature_dir_def
  feature_sessions_dir_def

lemma literal_components:
  "body_components (split_on (CHR ''/'') ''.ivar'') = [Normal ''.ivar'']"
  "body_components (split_on (CHR ''/'') ''repos'') = [Normal ''repos'']"
  "body_components (split_on (CHR ''/'') ''features'') = [Normal ''features'']"
  "body_components (split_on (CHR ''/'') ''sessions'') = [Normal ''sessions'']"
  by (simp_all add: body_component_def)

lemma literal_relative:
  "\<not> is_absolute ''.ivar''" "\<not> is_absolute ''repos''" "\<not> is_absolute ''features''"
  "\<not> is_absolute ''sessions''"
  by (simp_all add: is_absolute_def)

text \<open>
  The worktree of a validated repo and branch: the components below the hall root are
  \<open>.ivar\<close>, \<open>repos\<close>, the repo, and the pieces of the branch.
\<close>

lemma components_repo_worktree:
  assumes root: "lay_root l \<noteq> []"
    and repo: "validate_segment (repo_str repo) = Inr ()"
    and branch: "validate_branch (branch_str branch) = Inr ()"
  shows "components (repo_worktree l repo branch) =
    components (lay_root l) @ map Normal ([''.ivar'', ''repos'', repo_str repo] @ split_on (CHR ''/'') (branch_str branch))"
  by (simp add: layout_defs components_join root literal_components literal_relative
      segment_component [OF repo] branch_components [OF branch] del: split_on.simps)

lemma components_feature_dir:
  assumes root: "lay_root l \<noteq> []" and f: "validate_feature (feature_str f) = Inr ()"
  shows "components (feature_dir l f) =
    components (lay_root l) @ map Normal [''.ivar'', ''features'', feature_str f]"
proof -
  have seg: "validate_segment (feature_str f) = Inr ()"
    using f by (auto simp: validate_feature_def result_simps)
  show ?thesis
    by (simp add: layout_defs components_join root literal_components literal_relative
        segment_component [OF seg] del: split_on.simps)
qed

section \<open>Properties\<close>

text \<open>
  C29: no name that passed validation can move a worktree out of its repository.  For every
  repo and branch string the constructors accept, the worktree path lies beneath the
  repo's directory, and below the hall root it has only plain components: no \<open>..\<close>, no
  second root, nothing hidden but \<open>.ivar\<close> itself.
\<close>

theorem worktree_stays_in_repo:
  assumes "lay_root l \<noteq> []"
    and "repo_name_new r = Inr repo" and "branch_name_new b = Inr branch"
  shows "path_starts_with (repo_worktree l repo branch) (repo_dir l repo)
    \<and> (\<exists>below. components (repo_worktree l repo branch) = components (lay_root l) @ below
          \<and> list_all is_plain below
          \<and> (\<forall>w. Normal w \<in> set below \<longrightarrow> CHR ''/'' \<notin> set w \<and> (prefix ''.'' w \<longrightarrow> w = ''.ivar'')))"
proof -
  have repo: "repo = RepoName r" "validate_segment r = Inr ()"
    and branch: "branch = BranchName b" "validate_branch b = Inr ()"
    using assms(2,3) by (auto simp: repo_name_new_def branch_name_new_def validated_new_def result_simps)
  let ?ws = "[''.ivar'', ''repos'', r] @ split_on (CHR ''/'') b"
  have comps: "components (repo_worktree l repo branch) = components (lay_root l) @ map Normal ?ws"
    using components_repo_worktree [of l repo branch] assms(1) repo branch by simp
  have "path_starts_with (repo_worktree l repo branch) (repo_dir l repo)"
    unfolding repo_worktree_def
    by (rule path_starts_with_join) (simp_all add: layout_defs assms(1) branch branch_components)
  moreover have "list_all is_plain (map Normal ?ws)"
    by (auto simp: list_all_iff is_plain_def)
  moreover have "CHR ''/'' \<notin> set w \<and> (prefix ''.'' w \<longrightarrow> w = ''.ivar'')" if "w \<in> set ?ws" for w
  proof -
    from that consider "w = ''.ivar''" | "w = ''repos''" | "w = r" | "w \<in> set (split_on (CHR ''/'') b)"
      by auto
    then show ?thesis
      by cases (simp_all add: validate_segment_facts [OF repo(2)] branch_component_facts [OF branch(2)])
  qed
  ultimately show ?thesis using comps by (intro conjI exI [of _ "map Normal ?ws"]) auto
qed

theorem worktree_stays_in_repo_witness:
  "path_starts_with (repo_worktree (layout_at ''/h'') (RepoName ''api'') (BranchName ''feat/auth-v2''))
     ''/h/.ivar/repos/api''
   \<and> repo_name_new ''..'' = Inl Traversal \<and> branch_name_new ''a/../b'' = Inl Traversal"
proof -
  have root: "lay_root (layout_at ''/h'') \<noteq> []" by (simp add: layout_at_def)
  have r: "repo_name_new ''api'' = Inr (RepoName ''api'')" by code_simp
  have b: "branch_name_new ''feat/auth-v2'' = Inr (BranchName ''feat/auth-v2'')" by code_simp
  have dir: "repo_dir (layout_at ''/h'') (RepoName ''api'') = ''/h/.ivar/repos/api''" by code_simp
  have "repo_name_new ''..'' = Inl Traversal \<and> branch_name_new ''a/../b'' = Inl Traversal" by code_simp
  with worktree_stays_in_repo [OF root r b] dir show ?thesis by simp
qed

end
