(* ===== verification/Ordered_Map.thy ===== *)
theory Ordered_Map
  imports Prelude
begin

text \<open>
  \<open>std::collections::BTreeMap\<close>: the association list of its entries in key order.  The
  locale states what the code relies on; the derived facts are proved in it once and
  reach the components through the interpretation \<open>bt\<close>.
\<close>

type_synonym ('k, 'v) btree = "('k \<times> 'v) list"

locale ordered_map =
  fixes empty :: "'m"
    and get :: "'m \<Rightarrow> 'k::linorder \<Rightarrow> 'v option"
    and insert :: "'k \<Rightarrow> 'v \<Rightarrow> 'm \<Rightarrow> 'm"
    and remove :: "'k \<Rightarrow> 'm \<Rightarrow> 'm"
    and entries :: "'m \<Rightarrow> ('k \<times> 'v) list"
    and invar :: "'m \<Rightarrow> bool"
  assumes get_entries: "invar m \<Longrightarrow> get m k = map_of (entries m) k"
    and entries_empty: "entries empty = []"
    and get_insert: "invar m \<Longrightarrow> get (insert k v m) k' = (if k' = k then Some v else get m k')"
    and get_remove: "invar m \<Longrightarrow> get (remove k m) k' = (if k' = k then None else get m k')"
    and entries_sorted: "invar m \<Longrightarrow> sorted_wrt (<) (map fst (entries m))"
    and invar_empty: "invar empty"
    and invar_insert: "invar m \<Longrightarrow> invar (insert k v m)"
    and invar_remove: "invar m \<Longrightarrow> invar (remove k m)"
begin

lemma entries_distinct: "invar m \<Longrightarrow> distinct (map fst (entries m))"
  using entries_sorted [of m] by (simp add: strict_sorted_iff)

lemma get_Some_iff: "invar m \<Longrightarrow> get m k = Some v \<longleftrightarrow> (k, v) \<in> set (entries m)"
  by (simp add: get_entries map_of_eq_Some_iff entries_distinct)

lemma get_None_iff: "invar m \<Longrightarrow> get m k = None \<longleftrightarrow> k \<notin> fst ` set (entries m)"
  by (simp add: get_entries map_of_eq_None_iff)

lemma set_entries_insert:
  "invar m \<Longrightarrow> set (entries (insert k v m)) = {e \<in> set (entries m). fst e \<noteq> k} \<union> {(k, v)}"
  by (auto simp flip: get_Some_iff simp: invar_insert get_insert split: if_splits)

lemma set_entries_remove:
  "invar m \<Longrightarrow> set (entries (remove k m)) = {e \<in> set (entries m). fst e \<noteq> k}"
  by (auto simp flip: get_Some_iff simp: invar_remove get_remove split: if_splits)

lemma keys_insert: "invar m \<Longrightarrow> fst ` set (entries (insert k v m)) = Set.insert k (fst ` set (entries m))"
  by (auto simp: set_entries_insert image_iff)

lemma remove_insert_get: "invar m \<Longrightarrow> get (remove k (insert k v m)) = get (remove k m)"
  by (rule ext) (simp add: get_insert get_remove invar_insert)

text \<open>Two maps with the same lookups have the same entries, in the same order.\<close>

lemma get_ext:
  assumes "invar m" "invar m'" "\<And>k. get m k = get m' k"
  shows "entries m = entries m'"
proof -
  have "set (entries m) = set (entries m')"
    using assms by (auto simp flip: get_Some_iff)
  then have s: "set (map fst (entries m)) = set (map fst (entries m'))" by simp
  have keys: "map fst (entries m) = map fst (entries m')"
    using strict_sorted_equal [OF entries_sorted [OF assms(2)] entries_sorted [OF assms(1)]] s by simp
  have rebuild: "entries n = map (\<lambda>k. (k, the (get n k))) (map fst (entries n))" if "invar n" for n
  proof -
    have "(\<lambda>k. (k, the (get n k))) (fst e) = e" if "e \<in> set (entries n)" for e
      using that get_Some_iff [OF \<open>invar n\<close>, of "fst e" "snd e"] by simp
    then have "map ((\<lambda>k. (k, the (get n k))) \<circ> fst) (entries n) = map id (entries n)"
      by (intro map_cong) simp_all
    then show ?thesis by simp
  qed
  show ?thesis
    using rebuild [OF assms(1)] rebuild [OF assms(2)] keys assms(3) by simp
qed

end

section \<open>The entries in key order\<close>

definition bt_empty :: "('k, 'v) btree" where
  "bt_empty = []"

definition bt_get :: "('k, 'v) btree \<Rightarrow> 'k \<Rightarrow> 'v option" where
  "bt_get m k = map_of m k"

fun bt_insert :: "'k::linorder \<Rightarrow> 'v \<Rightarrow> ('k, 'v) btree \<Rightarrow> ('k, 'v) btree" where
  "bt_insert k v [] = [(k, v)]"
| "bt_insert k v ((a, b) # m) =
     (if k < a then (k, v) # (a, b) # m else if k = a then (k, v) # m else (a, b) # bt_insert k v m)"

definition bt_remove :: "'k \<Rightarrow> ('k, 'v) btree \<Rightarrow> ('k, 'v) btree" where
  "bt_remove k m = filter (\<lambda>e. fst e \<noteq> k) m"

definition bt_contains :: "('k, 'v) btree \<Rightarrow> 'k \<Rightarrow> bool" where
  "bt_contains m k \<longleftrightarrow> bt_get m k \<noteq> None"

text \<open>\<open>get_mut\<close>: change the value of a key that is present.\<close>

definition bt_update :: "'k \<Rightarrow> ('v \<Rightarrow> 'v) \<Rightarrow> ('k, 'v) btree \<Rightarrow> ('k, 'v) btree" where
  "bt_update k f m = map (\<lambda>(a, b). (a, if a = k then f b else b)) m"

definition bt_sorted :: "('k::linorder, 'v) btree \<Rightarrow> bool" where
  "bt_sorted m \<longleftrightarrow> sorted_wrt (<) (map fst m)"

definition bt_of :: "('k::linorder \<times> 'v) list \<Rightarrow> ('k, 'v) btree" where
  "bt_of es = fold (\<lambda>(k, v) m. bt_insert k v m) es bt_empty"

lemma bt_insert_keys: "fst ` set (bt_insert k v m) = Set.insert k (fst ` set m)"
  by (induction m rule: bt_insert.induct) auto

lemma bt_sorted_insert: "bt_sorted m \<Longrightarrow> bt_sorted (bt_insert k v m)"
proof (induction k v m rule: bt_insert.induct)
  case (2 k v a b m)
  then have "\<And>x. x \<in> fst ` set (bt_insert k v m) \<Longrightarrow> x = k \<or> x \<in> fst ` set m"
    using bt_insert_keys [of k v m] by auto
  with 2 show ?case by (fastforce simp: bt_sorted_def)
qed (simp add: bt_sorted_def)

lemma bt_get_insert: "bt_get (bt_insert k v m) k' = (if k' = k then Some v else bt_get m k')" if "bt_sorted m"
  using that
proof (induction k v m rule: bt_insert.induct)
  case (2 k v a b m)
  then show ?case by (auto simp: bt_get_def bt_sorted_def)
qed (simp add: bt_get_def)

interpretation bt: ordered_map bt_empty bt_get bt_insert bt_remove "\<lambda>m. m" bt_sorted
proof unfold_locales
  show "bt_sorted (bt_remove k m)" if "bt_sorted m" for k and m :: "('a, 'b) btree"
    using that by (induction m) (auto simp: bt_sorted_def bt_remove_def)
  show "bt_get (bt_remove k m) k' = (if k' = k then None else bt_get m k')" for k k' and m :: "('a, 'b) btree"
    by (induction m) (auto simp: bt_get_def bt_remove_def)
qed (auto simp: bt_empty_def bt_get_def bt_sorted_def bt_get_insert [unfolded bt_get_def bt_sorted_def]
      bt_sorted_insert [unfolded bt_sorted_def])

lemma bt_get_update: "bt_get (bt_update k f m) k' = (if k' = k then map_option f (bt_get m k') else bt_get m k')"
  by (induction m) (auto simp: bt_get_def bt_update_def)

lemma bt_update_keys [simp]: "map fst (bt_update k f m) = map fst m"
  by (induction m) (auto simp: bt_update_def)

lemma bt_sorted_update [simp]: "bt_sorted (bt_update k f m) \<longleftrightarrow> bt_sorted m"
  by (simp add: bt_sorted_def)

lemma bt_fold_insert:
  assumes "bt_sorted m"
  shows "bt_sorted (fold (\<lambda>(k, v) m. bt_insert k v m) es m)"
    and "bt_get (fold (\<lambda>(k, v) m. bt_insert k v m) es m) k = (bt_get m ++ map_of (rev es)) k"
  using assms
  by (induction es arbitrary: m) (auto simp: bt_sorted_insert bt_get_insert map_add_def split: option.splits)

lemma bt_sorted_of: "bt_sorted (bt_of es)"
  unfolding bt_of_def by (rule bt_fold_insert) (rule bt.invar_empty)

lemma bt_get_of: "bt_get (bt_of es) k = map_of (rev es) k"
  unfolding bt_of_def
  by (simp add: bt_fold_insert(2) [OF bt.invar_empty]) (simp add: map_add_def bt_get_def bt_empty_def split: option.splits)

lemma bt_get_of_distinct: "distinct (map fst es) \<Longrightarrow> bt_get (bt_of es) k = map_of es k"
  by (simp add: bt_get_of) (metis distinct_map map_of_eqI map_of_eq_Some_iff rev_map distinct_rev set_rev option.exhaust map_of_eq_None_iff)

lemmas bt_simps = bt_contains_def bt_get_update

end
