(* ===== verification/Run_Types.thy ===== *)
theory Run_Types
  imports Names Providers Ordered_Map
begin

text \<open>
  The values a run receipt is made of, one group per file of
  \<open>src/src/domain/feature/run/\<close>: \<open>status.rs\<close>, \<open>mode.rs\<close>, \<open>id.rs\<close>, \<open>evidence.rs\<close>,
  \<open>coordinator.rs\<close>, \<open>checkpoint.rs\<close> and \<open>legacy.rs\<close>.  A timestamp, a path and a hash are
  the strings the receipt stores.
\<close>

section \<open>Status, provenance and outcome\<close>

datatype run_status = Active | Blocked | Diverged | Succeeded | Failed | Interrupted

fun is_terminal :: "run_status \<Rightarrow> bool" where
  "is_terminal Succeeded = True"
| "is_terminal Failed = True"
| "is_terminal Interrupted = True"
| "is_terminal _ = False"

definition holds_lock :: "run_status \<Rightarrow> bool" where
  "holds_lock s \<longleftrightarrow> \<not> is_terminal s"

fun run_status_display :: "run_status \<Rightarrow> string" where
  "run_status_display Active = ''active''"
| "run_status_display Blocked = ''blocked''"
| "run_status_display Diverged = ''diverged''"
| "run_status_display Succeeded = ''succeeded''"
| "run_status_display Failed = ''failed''"
| "run_status_display Interrupted = ''interrupted''"

datatype run_provenance = Native | LegacyImported

datatype run_outcome = OutSucceeded | OutFailed | OutBlocked

fun outcome_status :: "run_outcome \<Rightarrow> run_status" where
  "outcome_status OutSucceeded = Succeeded"
| "outcome_status OutFailed = Failed"
| "outcome_status OutBlocked = Blocked"

definition run_outcome_parse :: "string \<Rightarrow> string + run_outcome" where
  "run_outcome_parse v =
     (if v = ''succeeded'' then Inr OutSucceeded
      else if v = ''failed'' then Inr OutFailed
      else if v = ''blocked'' then Inr OutBlocked
      else Inl v)"

fun run_outcome_display :: "run_outcome \<Rightarrow> string" where
  "run_outcome_display OutSucceeded = ''succeeded''"
| "run_outcome_display OutFailed = ''failed''"
| "run_outcome_display OutBlocked = ''blocked''"

definition unknown_run_outcome :: "string \<Rightarrow> failure" where
  "unknown_run_outcome v =
     with_fix (fix_safe ''execute.valid_outcome'' ''Use one of: succeeded, failed, blocked.'')
       (blocked ''execute.unknown_outcome''
         (''unknown outcome '' @ quoted v @ '' '' @ em_dash @ '' expected one of: succeeded, failed, blocked''))"

lemma run_outcome_roundtrip [simp]: "run_outcome_parse (run_outcome_display x) = Inr x"
  by (cases x) (simp_all add: run_outcome_parse_def)

interpretation run_outcome_codec: word_codec run_outcome_display run_outcome_parse
proof
  show "run_outcome_parse t = Inr x \<Longrightarrow> t = run_outcome_display x" for t x
    by (auto simp: run_outcome_parse_def split: if_splits)
qed (rule run_outcome_roundtrip)

section \<open>Mode and identity\<close>

datatype run_mode = DefaultMode | GoalMode

definition run_mode_parse :: "string \<Rightarrow> string + run_mode" where
  "run_mode_parse v =
     (if v = ''default'' then Inr DefaultMode else if v = ''goal'' then Inr GoalMode else Inl v)"

fun run_mode_display :: "run_mode \<Rightarrow> string" where
  "run_mode_display DefaultMode = ''default''"
| "run_mode_display GoalMode = ''goal''"

definition unknown_run_mode :: "string \<Rightarrow> failure" where
  "unknown_run_mode v =
     with_fix (fix_safe ''execute.valid_mode'' ''Use one of: default, goal.'')
       (blocked ''execute.unknown_mode''
         (''unknown mode '' @ quoted v @ '' '' @ em_dash @ '' expected one of: default, goal''))"

lemma run_mode_roundtrip [simp]: "run_mode_parse (run_mode_display x) = Inr x"
  by (cases x) (simp_all add: run_mode_parse_def)

interpretation run_mode_codec: word_codec run_mode_display run_mode_parse
proof
  show "run_mode_parse t = Inr x \<Longrightarrow> t = run_mode_display x" for t x
    by (auto simp: run_mode_parse_def split: if_splits)
qed (rule run_mode_roundtrip)

text \<open>\<open>uuid_ok\<close> is \<open>uuid::Uuid::parse_str\<close>, a library call.\<close>

datatype run_id = RunId (run_id_str: string)

definition run_id_new :: "(string \<Rightarrow> bool) \<Rightarrow> string \<Rightarrow> string + run_id" where
  "run_id_new uuid_ok v = (if uuid_ok v then Inr (RunId v) else Inl v)"

definition invalid_run_id :: "string \<Rightarrow> failure" where
  "invalid_run_id v =
     with_fix (fix_safe ''execute.list_runs''
         ''Run `ivar feature execute status <feature> --history` for the run ids that exist.'')
       (blocked ''execute.invalid_run_id'' (quoted v @ '' is not a run id '' @ em_dash @ '' expected a UUID''))"

instantiation run_id :: linorder
begin

definition less_eq_run_id :: "run_id \<Rightarrow> run_id \<Rightarrow> bool" where
  "less_eq_run_id a b \<longleftrightarrow> run_id_str a \<le> run_id_str b"

definition less_run_id :: "run_id \<Rightarrow> run_id \<Rightarrow> bool" where
  "less_run_id a b \<longleftrightarrow> run_id_str a < run_id_str b"

instance
  by standard (auto simp: less_eq_run_id_def less_run_id_def intro: run_id.expand)

end

section \<open>Evidence: what the worktrees held\<close>

datatype path_state = Absent | FileState | SymlinkState

record path_evidence =
  pe_state :: path_state
  pe_mode :: "nat option"
  pe_hash :: "string option"

definition evidence_absent :: path_evidence where
  "evidence_absent = \<lparr>pe_state = Absent, pe_mode = None, pe_hash = None\<rparr>"

definition evidence_file :: "nat \<Rightarrow> string \<Rightarrow> path_evidence" where
  "evidence_file m h = \<lparr>pe_state = FileState, pe_mode = Some m, pe_hash = Some h\<rparr>"

text \<open>The mode of a symbolic link is \<open>0o120_000\<close>, 40960.\<close>

definition evidence_symlink :: "string \<Rightarrow> path_evidence" where
  "evidence_symlink h = \<lparr>pe_state = SymlinkState, pe_mode = Some 40960, pe_hash = Some h\<rparr>"

definition evidence_exists :: "path_evidence \<Rightarrow> bool" where
  "evidence_exists e \<longleftrightarrow> pe_state e \<noteq> Absent"

datatype change_kind = Added | Modified | Removed | Reverted

fun change_kind_display :: "change_kind \<Rightarrow> string" where
  "change_kind_display Added = ''added''"
| "change_kind_display Modified = ''modified''"
| "change_kind_display Removed = ''removed''"
| "change_kind_display Reverted = ''reverted''"

definition classify_change ::
    "path_evidence \<Rightarrow> path_evidence \<Rightarrow> path_evidence \<Rightarrow> change_kind option" where
  "classify_change start commit final =
     (if start = final then None
      else if start \<noteq> commit \<and> final = commit then Some Reverted
      else (case (evidence_exists start, evidence_exists final) of
              (False, True) \<Rightarrow> Some Added
            | (True, False) \<Rightarrow> Some Removed
            | _ \<Rightarrow> Some Modified))"

record repo_baseline =
  rb_worktree :: string
  rb_head :: string
  rb_dirty :: "(string, path_evidence) btree"

type_synonym run_baseline = "(string, repo_baseline) btree"

definition baseline_empty :: run_baseline where
  "baseline_empty = bt_empty"

record path_change =
  pc_kind :: change_kind
  pc_final :: path_evidence

record repo_diff =
  rd_head :: string
  rd_changes :: "(string, path_change) btree"

type_synonym run_diff = "(string, repo_diff) btree"

definition diff_is_empty :: "run_diff \<Rightarrow> bool" where
  "diff_is_empty d = list_all (\<lambda>(_, repo). rd_changes repo = []) d"

section \<open>The coordinator report\<close>

datatype task_status = TaskCompleted | TaskFailed | TaskSkipped | TaskBlocked

record task_result =
  tr_title :: string
  tr_status :: task_status
  tr_result :: string

datatype check_status = CheckPassed | CheckFailed | CheckSkipped

record verification_check =
  vc_command :: string
  vc_status :: check_status
  vc_summary :: string

record agent_role =
  ar_role :: string
  ar_status :: task_status

record coordinator_report =
  cr_summary :: string
  cr_tasks :: "task_result list"
  cr_verification :: "verification_check list"
  cr_agents :: "agent_role list"
  cr_deviations :: "string list"
  cr_blockers :: "string list"
  cr_follow_ups :: "string list"

definition report_validate :: "coordinator_report \<Rightarrow> failure + unit" where
  "report_validate r =
     (if trim (cr_summary r) = [] then
        Inl (with_fix (fix_safe ''execute.report_summary''
               ''Set `summary` to a sentence describing what the run did.'')
             (blocked ''execute.report_summary_blank'' ''the coordinator report has no summary''))
      else if cr_tasks r = [] then
        Inl (with_fix (fix_safe ''execute.report_tasks''
               ''Add at least one entry to `tasks` with a title, status, and result.'')
             (blocked ''execute.report_no_tasks'' ''the coordinator report lists no tasks''))
      else if cr_verification r = [] then
        Inl (with_fix (fix_safe ''execute.report_verification''
               (''Add at least one entry to `verification` '' @ em_dash @
                '' the command run, its status, and what it said.''))
             (blocked ''execute.report_no_verification''
               ''the coordinator report lists no verification''))
      else Inr ())"

lemma report_validate_iff:
  "report_validate r = Inr () \<longleftrightarrow>
     trim (cr_summary r) \<noteq> [] \<and> cr_tasks r \<noteq> [] \<and> cr_verification r \<noteq> []"
  by (simp add: report_validate_def)

section \<open>Checkpoints and legacy evidence\<close>

record coordinator_entry =
  ce_session :: session_id
  ce_provider :: provider
  ce_attached_at :: string

datatype checkpoint_kind =
  KStarted | KResumed | KBlocked | KDiverged | KRevisionAccepted | KTerminated | KInterrupted
| KLegacyImport | KWave | KModeChanged

fun checkpoint_kind_display :: "checkpoint_kind \<Rightarrow> string" where
  "checkpoint_kind_display KStarted = ''started''"
| "checkpoint_kind_display KResumed = ''resumed''"
| "checkpoint_kind_display KBlocked = ''blocked''"
| "checkpoint_kind_display KDiverged = ''diverged''"
| "checkpoint_kind_display KRevisionAccepted = ''revision-accepted''"
| "checkpoint_kind_display KTerminated = ''terminated''"
| "checkpoint_kind_display KInterrupted = ''interrupted''"
| "checkpoint_kind_display KLegacyImport = ''legacy-import''"
| "checkpoint_kind_display KWave = ''wave''"
| "checkpoint_kind_display KModeChanged = ''mode-changed''"

record wave_progress =
  wp_number :: nat
  wp_summary :: string

record checkpoint =
  ck_at :: string
  ck_kind :: checkpoint_kind
  ck_status :: run_status
  ck_session :: "session_id option"
  ck_provider :: "provider option"
  ck_report :: "coordinator_report option"
  ck_diff :: "run_diff option"
  ck_fingerprint_from :: "string option"
  ck_fingerprint_to :: "string option"
  ck_wave :: "wave_progress option"
  ck_mode_from :: "run_mode option"
  ck_mode_to :: "run_mode option"

record legacy_workstream =
  lw_id :: string
  lw_title :: string
  lw_status :: string
  lw_operations :: "string list"
  lw_depends_on :: "string list"

record legacy_journal_entry =
  lj_seq :: nat
  lj_timestamp :: string
  lj_workstream :: string
  lj_kind :: string
  lj_message :: string

record legacy_evidence =
  le_source_hash :: string
  le_board_status :: string
  le_plan_fingerprint :: "string option"
  le_workstreams :: "legacy_workstream list"
  le_sessions :: "(string, string) btree"
  le_journal :: "legacy_journal_entry list"
  le_archived_board :: string

text \<open>\<open>outcome_of\<close> of \<open>src/src/store/feature/run/legacy.rs\<close>: what a board's status becomes.\<close>

definition legacy_outcome_of :: "string \<Rightarrow> run_status \<times> run_outcome option" where
  "legacy_outcome_of s =
     (if s = ''completed'' then (Succeeded, Some OutSucceeded)
      else if s = ''failed'' then (Failed, Some OutFailed)
      else (Interrupted, None))"

lemma legacy_outcome_terminal: "is_terminal (fst (legacy_outcome_of s))"
  by (simp add: legacy_outcome_of_def)

end
