(* ===== verification/Run_Receipt.thy ===== *)
theory Run_Receipt
  imports Run_Types
begin

text \<open>
  \<open>src/src/domain/feature/run/receipt.rs\<close>: the durable record of one execution of a
  feature's plan, and the state machine over it.  Every operation takes \<open>&mut self\<close> and
  returns a \<open>Result\<close>; here it returns the error or the updated receipt, and the receipt
  is unchanged on an error because every guard comes before the first assignment.
  \<open>run_op\<close> collects the operations, \<open>run_step\<close> is the step relation and \<open>run_reachable\<close>
  the receipts the operations build from \<open>start\<close>.  \<open>run_spec\<close> is the abstract machine on
  statuses alone that the operations refine.
\<close>

section \<open>The receipt and its transitions\<close>

record run_receipt =
  rr_version :: nat
  rr_id :: run_id
  rr_feature :: feature_name
  rr_provenance :: run_provenance
  rr_status :: run_status
  rr_plan_path :: string
  rr_fingerprint :: string
  rr_mode :: run_mode
  rr_started_at :: string
  rr_updated_at :: string
  rr_terminated_at :: "string option"
  rr_coordinators :: "coordinator_entry list"
  rr_baseline :: run_baseline
  rr_checkpoints :: "checkpoint list"
  rr_final_diff :: "run_diff option"
  rr_outcome :: "run_outcome option"
  rr_legacy :: "legacy_evidence option"

datatype run_transition =
    AlreadyTerminal run_status string
  | WrongState run_status string
  | RevisionUnchanged string
  | BlockedIsNotTerminal

definition run_current_version :: nat where
  "run_current_version = 2"

text \<open>A checkpoint with the fields most kinds leave empty.\<close>

definition bare_checkpoint ::
    "string \<Rightarrow> checkpoint_kind \<Rightarrow> run_status \<Rightarrow> session_id option \<Rightarrow> provider option \<Rightarrow> checkpoint" where
  "bare_checkpoint at kind st session prov =
     \<lparr>ck_at = at, ck_kind = kind, ck_status = st, ck_session = session, ck_provider = prov,
      ck_report = None, ck_diff = None, ck_fingerprint_from = None, ck_fingerprint_to = None,
      ck_wave = None, ck_mode_from = None, ck_mode_to = None\<rparr>"

definition run_start ::
    "run_id \<Rightarrow> feature_name \<Rightarrow> string \<Rightarrow> string \<Rightarrow> run_baseline \<Rightarrow> session_id \<Rightarrow> provider \<Rightarrow> string \<Rightarrow>
     run_receipt" where
  "run_start i f plan fp base session prov at =
     \<lparr>rr_version = run_current_version, rr_id = i, rr_feature = f, rr_provenance = Native,
      rr_status = Active, rr_plan_path = plan, rr_fingerprint = fp, rr_mode = DefaultMode,
      rr_started_at = at, rr_updated_at = at, rr_terminated_at = None,
      rr_coordinators = [\<lparr>ce_session = session, ce_provider = prov, ce_attached_at = at\<rparr>],
      rr_baseline = base,
      rr_checkpoints =
        [(bare_checkpoint at KStarted Active (Some session) (Some prov))\<lparr>ck_fingerprint_to := Some fp\<rparr>],
      rr_final_diff = None, rr_outcome = None, rr_legacy = None\<rparr>"

definition current_coordinator :: "run_receipt \<Rightarrow> coordinator_entry option" where
  "current_coordinator r =
     (if rr_coordinators r = [] then None else Some (last (rr_coordinators r)))"

definition with_mode :: "run_mode \<Rightarrow> run_receipt \<Rightarrow> run_receipt" where
  "with_mode m r = r\<lparr>rr_mode := m\<rparr>"

definition require :: "run_receipt \<Rightarrow> run_status list \<Rightarrow> string \<Rightarrow> run_transition + unit" where
  "require r allowed op =
     (if rr_status r \<in> set allowed then Inr ()
      else if is_terminal (rr_status r) then Inl (AlreadyTerminal (rr_status r) op)
      else Inl (WrongState (rr_status r) op))"

definition push_checkpoint :: "checkpoint \<Rightarrow> run_receipt \<Rightarrow> run_receipt" where
  "push_checkpoint c r = r\<lparr>rr_updated_at := ck_at c, rr_checkpoints := rr_checkpoints r @ [c]\<rparr>"

text \<open>\<open>change_mode\<close> returns whether it changed anything.\<close>

definition change_mode ::
    "run_mode \<Rightarrow> session_id \<Rightarrow> provider \<Rightarrow> string \<Rightarrow> run_receipt \<Rightarrow>
     run_transition + (bool \<times> run_receipt)" where
  "change_mode m session prov at r =
     and_then (require r [Active, Blocked] ''change-mode'') (\<lambda>_.
       if rr_mode r = m then Inr (False, r)
       else Inr (True, push_checkpoint
              ((bare_checkpoint at KModeChanged (rr_status r) (Some session) (Some prov))
                 \<lparr>ck_mode_from := Some (rr_mode r), ck_mode_to := Some m\<rparr>)
              (r\<lparr>rr_mode := m\<rparr>)))"

definition run_resume ::
    "session_id \<Rightarrow> provider \<Rightarrow> string \<Rightarrow> run_receipt \<Rightarrow> run_transition + run_receipt" where
  "run_resume session prov at r =
     and_then (require r [Active, Blocked] ''resume'') (\<lambda>_.
       Inr (push_checkpoint (bare_checkpoint at KResumed Active (Some session) (Some prov))
              (r\<lparr>rr_coordinators := rr_coordinators r @
                   [\<lparr>ce_session = session, ce_provider = prov, ce_attached_at = at\<rparr>],
                 rr_status := Active\<rparr>)))"

definition run_block ::
    "coordinator_report \<Rightarrow> run_diff \<Rightarrow> session_id \<Rightarrow> provider \<Rightarrow> string \<Rightarrow> run_receipt \<Rightarrow>
     run_transition + run_receipt" where
  "run_block report diff session prov at r =
     and_then (require r [Active] ''block'') (\<lambda>_.
       Inr (push_checkpoint
              ((bare_checkpoint at KBlocked Blocked (Some session) (Some prov))
                 \<lparr>ck_report := Some report, ck_diff := Some diff\<rparr>)
              (r\<lparr>rr_status := Blocked\<rparr>)))"

definition run_diverge ::
    "string \<Rightarrow> coordinator_report option \<Rightarrow> session_id \<Rightarrow> provider \<Rightarrow> string \<Rightarrow> run_receipt \<Rightarrow>
     run_transition + run_receipt" where
  "run_diverge observed report session prov at r =
     and_then (require r [Active] ''diverge'') (\<lambda>_.
       Inr (push_checkpoint
              ((bare_checkpoint at KDiverged Diverged (Some session) (Some prov))
                 \<lparr>ck_report := report, ck_fingerprint_from := Some (rr_fingerprint r),
                  ck_fingerprint_to := Some observed\<rparr>)
              (r\<lparr>rr_status := Diverged\<rparr>)))"

definition accept_revision ::
    "string \<Rightarrow> session_id \<Rightarrow> provider \<Rightarrow> string \<Rightarrow> run_receipt \<Rightarrow> run_transition + run_receipt" where
  "accept_revision fp session prov at r =
     and_then (require r [Diverged] ''accept-revision'') (\<lambda>_.
       if fp = rr_fingerprint r then Inl (RevisionUnchanged fp)
       else Inr (push_checkpoint
              ((bare_checkpoint at KRevisionAccepted Blocked (Some session) (Some prov))
                 \<lparr>ck_fingerprint_from := Some (rr_fingerprint r), ck_fingerprint_to := Some fp\<rparr>)
              (r\<lparr>rr_fingerprint := fp, rr_status := Blocked\<rparr>)))"

definition run_terminate ::
    "run_outcome \<Rightarrow> coordinator_report \<Rightarrow> run_diff \<Rightarrow> session_id \<Rightarrow> provider \<Rightarrow> string \<Rightarrow> run_receipt \<Rightarrow>
     run_transition + run_receipt" where
  "run_terminate out report diff session prov at r =
     (if out = OutBlocked then Inl BlockedIsNotTerminal
      else and_then (require r [Active] ''finish'') (\<lambda>_.
        Inr (push_checkpoint
               ((bare_checkpoint at KTerminated (outcome_status out) (Some session) (Some prov))
                  \<lparr>ck_report := Some report, ck_diff := Some diff\<rparr>)
               (r\<lparr>rr_status := outcome_status out, rr_outcome := Some out,
                  rr_final_diff := Some diff, rr_terminated_at := Some at\<rparr>))))"

definition checkpoint_wave ::
    "nat \<Rightarrow> string \<Rightarrow> session_id \<Rightarrow> provider \<Rightarrow> string \<Rightarrow> run_receipt \<Rightarrow> run_transition + run_receipt" where
  "checkpoint_wave n summary session prov at r =
     and_then (require r [Active] ''checkpoint'') (\<lambda>_.
       Inr (push_checkpoint
              ((bare_checkpoint at KWave Active (Some session) (Some prov))
                 \<lparr>ck_wave := Some \<lparr>wp_number = n, wp_summary = summary\<rparr>\<rparr>) r))"

definition run_interrupt :: "string \<Rightarrow> run_receipt \<Rightarrow> run_transition + run_receipt" where
  "run_interrupt at r =
     (if is_terminal (rr_status r) then Inl (AlreadyTerminal (rr_status r) ''restart'')
      else Inr (push_checkpoint
             (bare_checkpoint at KInterrupted Interrupted
                (map_option ce_session (current_coordinator r))
                (map_option ce_provider (current_coordinator r)))
             (r\<lparr>rr_status := Interrupted, rr_terminated_at := Some at\<rparr>)))"

definition run_from_legacy ::
    "run_id \<Rightarrow> feature_name \<Rightarrow> string \<Rightarrow> run_status \<Rightarrow> run_outcome option \<Rightarrow> legacy_evidence \<Rightarrow> string \<Rightarrow>
     run_receipt" where
  "run_from_legacy i f plan st out ev at =
     \<lparr>rr_version = run_current_version, rr_id = i, rr_feature = f, rr_provenance = LegacyImported,
      rr_status = st, rr_plan_path = plan,
      rr_fingerprint = (case le_plan_fingerprint ev of None \<Rightarrow> [] | Some fp \<Rightarrow> fp),
      rr_mode = DefaultMode, rr_started_at = at, rr_updated_at = at, rr_terminated_at = Some at,
      rr_coordinators = [], rr_baseline = baseline_empty,
      rr_checkpoints = [bare_checkpoint at KLegacyImport st None None],
      rr_final_diff = None, rr_outcome = out, rr_legacy = Some ev\<rparr>"

definition run_transition_display :: "run_transition \<Rightarrow> string" where
  "run_transition_display e =
     (case e of
        AlreadyTerminal st op \<Rightarrow> ''this run is already '' @ run_status_display st @ '' '' @ em_dash @ '' '' @
          quoted op @ '' needs a run that is still in flight''
      | WrongState st op \<Rightarrow> ''this run is '' @ run_status_display st @ '' '' @ em_dash @ '' '' @
          quoted op @ '' is not valid from there''
      | RevisionUnchanged fp \<Rightarrow> ''the plan fingerprint '' @ quoted fp @
          '' is the one this run is already pinned to''
      | BlockedIsNotTerminal \<Rightarrow> ''a blocked outcome is recoverable and does not terminate a run'')"

definition wrong_state_fix :: "run_status \<Rightarrow> fix_action" where
  "wrong_state_fix st =
     (case st of
        Diverged \<Rightarrow> fix_safe ''execute.accept_revision''
          ''Adopt the new plan revision with `ivar feature execute accept-revision <feature> --plan <path>`.''
      | Blocked \<Rightarrow> fix_safe ''execute.resume_run''
          ''Re-attach with `ivar feature execute start <feature> --plan <path> --resume`.''
      | _ \<Rightarrow> fix_safe ''execute.inspect_run''
          ''Inspect the run with `ivar feature execute status <feature>`.'')"

definition run_transition_failure :: "run_transition \<Rightarrow> failure" where
  "run_transition_failure e =
     (let what = run_transition_display e in
      case e of
        AlreadyTerminal _ _ \<Rightarrow> with_fix (fix_safe ''execute.start_new_run''
            ''Start a new run with `ivar feature execute start <feature> --plan <path>`.'')
          (blocked ''execute.run_terminal'' what)
      | WrongState st _ \<Rightarrow> with_fix (wrong_state_fix st) (blocked ''execute.run_wrong_state'' what)
      | RevisionUnchanged _ \<Rightarrow> with_fix (fix_safe ''execute.reapprove_plan''
            ''Re-approve the plan gate so the pinned fingerprint has something to move to, then run accept-revision again.'')
          (blocked ''execute.revision_unchanged'' what)
      | BlockedIsNotTerminal \<Rightarrow> with_fix (fix_safe ''execute.finish_outcome''
            ''Use `--outcome succeeded` or `--outcome failed` to end the run.'')
          (blocked ''execute.blocked_not_terminal'' what))"

section \<open>Steps and reachable receipts\<close>

datatype run_op =
    ChangeMode run_mode session_id provider string
  | Resume session_id provider string
  | Block coordinator_report run_diff session_id provider string
  | Diverge string "coordinator_report option" session_id provider string
  | AcceptRevision string session_id provider string
  | Terminate run_outcome coordinator_report run_diff session_id provider string
  | CheckpointWave nat string session_id provider string
  | Interrupt string

fun apply_op :: "run_op \<Rightarrow> run_receipt \<Rightarrow> run_transition + run_receipt" where
  "apply_op (ChangeMode m s p at) r = and_then (change_mode m s p at r) (\<lambda>(_, r'). Inr r')"
| "apply_op (Resume s p at) r = run_resume s p at r"
| "apply_op (Block rep d s p at) r = run_block rep d s p at r"
| "apply_op (Diverge fp rep s p at) r = run_diverge fp rep s p at r"
| "apply_op (AcceptRevision fp s p at) r = accept_revision fp s p at r"
| "apply_op (Terminate out rep d s p at) r = run_terminate out rep d s p at r"
| "apply_op (CheckpointWave n sm s p at) r = checkpoint_wave n sm s p at r"
| "apply_op (Interrupt at) r = run_interrupt at r"

fun apply_ops :: "run_op list \<Rightarrow> run_receipt \<Rightarrow> run_transition + run_receipt" where
  "apply_ops [] r = Inr r"
| "apply_ops (op # ops) r = and_then (apply_op op r) (apply_ops ops)"

inductive run_step :: "run_receipt \<Rightarrow> run_receipt \<Rightarrow> bool" where
  change_mode: "change_mode m s p at r = Inr (b, r') \<Longrightarrow> run_step r r'"
| resume: "run_resume s p at r = Inr r' \<Longrightarrow> run_step r r'"
| block: "run_block rep d s p at r = Inr r' \<Longrightarrow> run_step r r'"
| diverge: "run_diverge fp orep s p at r = Inr r' \<Longrightarrow> run_step r r'"
| accept_revision: "accept_revision fp s p at r = Inr r' \<Longrightarrow> run_step r r'"
| terminate: "run_terminate out rep d s p at r = Inr r' \<Longrightarrow> run_step r r'"
| wave: "checkpoint_wave n sm s p at r = Inr r' \<Longrightarrow> run_step r r'"
| interrupt: "run_interrupt at r = Inr r' \<Longrightarrow> run_step r r'"

inductive run_reachable :: "run_receipt \<Rightarrow> bool" where
  start: "run_reachable (with_mode m (run_start i f plan fp base s p at))"
| step: "run_reachable r \<Longrightarrow> run_step r r' \<Longrightarrow> run_reachable r'"

lemma run_step_iff: "run_step r r' \<longleftrightarrow> (\<exists>op. apply_op op r = Inr r')"
proof
  assume "run_step r r'"
  then show "\<exists>op. apply_op op r = Inr r'"
  proof cases
    case (change_mode m s p at b)
    then have "apply_op (ChangeMode m s p at) r = Inr r'" by simp
    then show ?thesis ..
  qed (metis apply_op.simps)+
next
  assume "\<exists>op. apply_op op r = Inr r'"
  then obtain op where "apply_op op r = Inr r'" ..
  then show "run_step r r'"
    by (cases op) (auto simp: result_simps intro: run_step.intros)
qed

lemma require_Inr [simp]: "require r allowed op = Inr u \<longleftrightarrow> rr_status r \<in> set allowed"
  by (simp add: require_def)

lemmas run_defs = change_mode_def run_resume_def run_block_def run_diverge_def accept_revision_def
  run_terminate_def checkpoint_wave_def run_interrupt_def

text \<open>When an operation succeeds, and with what.\<close>

lemma run_terminate_iff:
  "run_terminate out rep d s p at r = Inr r' \<longleftrightarrow> out \<noteq> OutBlocked \<and> rr_status r = Active \<and>
     r' = push_checkpoint ((bare_checkpoint at KTerminated (outcome_status out) (Some s) (Some p))
            \<lparr>ck_report := Some rep, ck_diff := Some d\<rparr>)
            (r\<lparr>rr_status := outcome_status out, rr_outcome := Some out,
               rr_final_diff := Some d, rr_terminated_at := Some at\<rparr>)"
  by (cases out) (auto simp: run_terminate_def and_then_eq_Inr)

lemma run_other_iffs:
  "change_mode m s p at r = Inr (b, r') \<longleftrightarrow> rr_status r \<in> {Active, Blocked} \<and> b = (rr_mode r \<noteq> m) \<and>
     r' = (if b then push_checkpoint ((bare_checkpoint at KModeChanged (rr_status r) (Some s) (Some p))
                       \<lparr>ck_mode_from := Some (rr_mode r), ck_mode_to := Some m\<rparr>) (r\<lparr>rr_mode := m\<rparr>) else r)"
  "run_resume s p at r = Inr r' \<longleftrightarrow> rr_status r \<in> {Active, Blocked} \<and>
     r' = push_checkpoint (bare_checkpoint at KResumed Active (Some s) (Some p))
            (r\<lparr>rr_coordinators := rr_coordinators r @
                 [\<lparr>ce_session = s, ce_provider = p, ce_attached_at = at\<rparr>], rr_status := Active\<rparr>)"
  "run_block rep d s p at r = Inr r' \<longleftrightarrow> rr_status r = Active \<and>
     r' = push_checkpoint ((bare_checkpoint at KBlocked Blocked (Some s) (Some p))
            \<lparr>ck_report := Some rep, ck_diff := Some d\<rparr>) (r\<lparr>rr_status := Blocked\<rparr>)"
  "run_diverge fp orep s p at r = Inr r' \<longleftrightarrow> rr_status r = Active \<and>
     r' = push_checkpoint ((bare_checkpoint at KDiverged Diverged (Some s) (Some p))
            \<lparr>ck_report := orep, ck_fingerprint_from := Some (rr_fingerprint r),
             ck_fingerprint_to := Some fp\<rparr>) (r\<lparr>rr_status := Diverged\<rparr>)"
  "accept_revision fp s p at r = Inr r' \<longleftrightarrow> rr_status r = Diverged \<and> fp \<noteq> rr_fingerprint r \<and>
     r' = push_checkpoint ((bare_checkpoint at KRevisionAccepted Blocked (Some s) (Some p))
            \<lparr>ck_fingerprint_from := Some (rr_fingerprint r), ck_fingerprint_to := Some fp\<rparr>)
            (r\<lparr>rr_fingerprint := fp, rr_status := Blocked\<rparr>)"
  "checkpoint_wave n sm s p at r = Inr r' \<longleftrightarrow> rr_status r = Active \<and>
     r' = push_checkpoint ((bare_checkpoint at KWave Active (Some s) (Some p))
            \<lparr>ck_wave := Some \<lparr>wp_number = n, wp_summary = sm\<rparr>\<rparr>) r"
  "run_interrupt at r = Inr r' \<longleftrightarrow> \<not> is_terminal (rr_status r) \<and>
     r' = push_checkpoint (bare_checkpoint at KInterrupted Interrupted
            (map_option ce_session (current_coordinator r)) (map_option ce_provider (current_coordinator r)))
            (r\<lparr>rr_status := Interrupted, rr_terminated_at := Some at\<rparr>)"
  unfolding run_defs [folded push_checkpoint_def] and_then_eq_Inr require_Inr by auto

lemmas run_op_iffs = run_terminate_iff run_other_iffs

lemma push_checkpoint_simps [simp]:
  "rr_checkpoints (push_checkpoint c r) = rr_checkpoints r @ [c]" "rr_updated_at (push_checkpoint c r) = ck_at c"
  "rr_status (push_checkpoint c r) = rr_status r" "rr_mode (push_checkpoint c r) = rr_mode r"
  "rr_fingerprint (push_checkpoint c r) = rr_fingerprint r" "rr_outcome (push_checkpoint c r) = rr_outcome r"
  "rr_terminated_at (push_checkpoint c r) = rr_terminated_at r"
  "rr_final_diff (push_checkpoint c r) = rr_final_diff r"
  "rr_coordinators (push_checkpoint c r) = rr_coordinators r" "rr_id (push_checkpoint c r) = rr_id r"
  "rr_feature (push_checkpoint c r) = rr_feature r" "rr_baseline (push_checkpoint c r) = rr_baseline r"
  "rr_plan_path (push_checkpoint c r) = rr_plan_path r" "rr_started_at (push_checkpoint c r) = rr_started_at r"
  "rr_provenance (push_checkpoint c r) = rr_provenance r" "rr_legacy (push_checkpoint c r) = rr_legacy r"
  "rr_version (push_checkpoint c r) = rr_version r"
  by (simp_all add: push_checkpoint_def)

lemma bare_checkpoint_simps [simp]:
  "ck_at (bare_checkpoint at k st s p) = at" "ck_kind (bare_checkpoint at k st s p) = k"
  "ck_status (bare_checkpoint at k st s p) = st" "ck_session (bare_checkpoint at k st s p) = s"
  "ck_provider (bare_checkpoint at k st s p) = p" "ck_fingerprint_to (bare_checkpoint at k st s p) = None"
  "ck_mode_to (bare_checkpoint at k st s p) = None" "ck_diff (bare_checkpoint at k st s p) = None"
  by (simp_all add: bare_checkpoint_def)

text \<open>A step either changes nothing or appends one checkpoint.\<close>

lemma run_step_push:
  "run_step r r' \<Longrightarrow> r' = r \<or> (\<exists>c. rr_checkpoints r' = rr_checkpoints r @ [c] \<and>
     rr_updated_at r' = ck_at c \<and> ck_status c = rr_status r')"
  by (erule run_step.cases) (auto simp: run_op_iffs split: if_splits)

text \<open>What no operation touches.\<close>

lemma run_step_identity:
  "run_step r r' \<Longrightarrow> rr_id r' = rr_id r \<and> rr_feature r' = rr_feature r \<and> rr_baseline r' = rr_baseline r
     \<and> rr_plan_path r' = rr_plan_path r \<and> rr_started_at r' = rr_started_at r
     \<and> rr_provenance r' = rr_provenance r \<and> rr_legacy r' = rr_legacy r \<and> rr_version r' = rr_version r"
  by (erule run_step.cases) (auto simp: run_op_iffs split: if_splits)

lemma run_step_coordinators: "run_step r r' \<Longrightarrow> prefix (rr_coordinators r) (rr_coordinators r')"
  by (erule run_step.cases) (auto simp: run_op_iffs split: if_splits)

lemma run_step_live: "run_step r r' \<Longrightarrow> \<not> is_terminal (rr_status r)"
  by (erule run_step.cases) (auto simp: run_op_iffs split: if_splits)

section \<open>The well-formedness of a reachable receipt\<close>

definition run_wf :: "run_receipt \<Rightarrow> bool" where
  "run_wf r \<longleftrightarrow>
     rr_version r = run_current_version \<and> rr_provenance r = Native \<and> rr_legacy r = None
     \<and> (rr_terminated_at r = (if is_terminal (rr_status r) then Some (rr_updated_at r) else None))
     \<and> (rr_outcome r = (case rr_status r of Succeeded \<Rightarrow> Some OutSucceeded | Failed \<Rightarrow> Some OutFailed
                        | _ \<Rightarrow> None))
     \<and> (rr_final_diff r = None \<longleftrightarrow> rr_outcome r = None)
     \<and> rr_coordinators r \<noteq> [] \<and> rr_checkpoints r \<noteq> []
     \<and> ck_kind (hd (rr_checkpoints r)) = KStarted \<and> ck_at (hd (rr_checkpoints r)) = rr_started_at r
     \<and> ck_at (last (rr_checkpoints r)) = rr_updated_at r
     \<and> ck_status (last (rr_checkpoints r)) = rr_status r
     \<and> (\<forall>c \<in> set (butlast (rr_checkpoints r)). \<not> is_terminal (ck_status c))"

lemma set_butlast_last: "xs \<noteq> [] \<Longrightarrow> set xs = insert (last xs) (set (butlast xs))"
  by (induction xs) auto

lemma run_wf_start: "run_wf (with_mode m (run_start i f plan fp base s p at))"
  by (simp add: run_wf_def with_mode_def run_start_def)

text \<open>The history part of the invariant is kept by any step that appends a checkpoint.\<close>

lemma run_wf_history:
  assumes "run_wf r" "run_step r r'"
  shows "rr_checkpoints r' \<noteq> [] \<and> ck_kind (hd (rr_checkpoints r')) = KStarted
    \<and> ck_at (hd (rr_checkpoints r')) = rr_started_at r'
    \<and> ck_at (last (rr_checkpoints r')) = rr_updated_at r'
    \<and> ck_status (last (rr_checkpoints r')) = rr_status r'
    \<and> (\<forall>c \<in> set (butlast (rr_checkpoints r')). \<not> is_terminal (ck_status c))"
proof -
  note live = run_step_live [OF assms(2)] and ident = run_step_identity [OF assms(2)]
  have old: "\<forall>c \<in> set (rr_checkpoints r). \<not> is_terminal (ck_status c)"
    using assms(1) live set_butlast_last [of "rr_checkpoints r"] by (auto simp: run_wf_def)
  from run_step_push [OF assms(2)] show ?thesis
    using assms(1) ident old by (auto simp: run_wf_def)
qed

lemma run_wf_summary:
  assumes "run_wf r" "run_step r r'"
  shows "rr_terminated_at r' = (if is_terminal (rr_status r') then Some (rr_updated_at r') else None)
    \<and> rr_outcome r' = (case rr_status r' of Succeeded \<Rightarrow> Some OutSucceeded | Failed \<Rightarrow> Some OutFailed | _ \<Rightarrow> None)
    \<and> (rr_final_diff r' = None \<longleftrightarrow> rr_outcome r' = None) \<and> rr_coordinators r' \<noteq> []"
proof -
  have live: "\<not> is_terminal (rr_status r)" by (rule run_step_live [OF assms(2)])
  then have r: "rr_terminated_at r = None" "rr_outcome r = None" "rr_final_diff r = None"
    "rr_coordinators r \<noteq> []"
    using assms(1) by (cases "rr_status r"; simp add: run_wf_def)+
  from assms(2) show ?thesis
  proof cases
    case (change_mode m s p at b)
    with r live show ?thesis
      by (cases "rr_status r") (auto simp: run_op_iffs split: if_splits)
  next
    case (terminate out rep d s p at)
    with r show ?thesis by (cases out) (auto simp: run_op_iffs)
  qed (use r in \<open>auto simp: run_op_iffs split: if_splits\<close>)
qed

lemma run_wf_step:
  assumes "run_wf r" "run_step r r'"
  shows "run_wf r'"
  using assms(1) run_wf_history [OF assms] run_wf_summary [OF assms] run_step_identity [OF assms(2)]
  by (simp add: run_wf_def)

section \<open>The history determines the receipt\<close>

text \<open>
  The fields of a receipt an operation may change, and how one checkpoint changes them.
  The mode a run starts in is not written in its first checkpoint, so it is an argument.
\<close>

record run_view =
  rv_status :: run_status
  rv_fingerprint :: string
  rv_mode :: run_mode
  rv_updated_at :: string
  rv_terminated_at :: "string option"
  rv_coordinators :: "coordinator_entry list"
  rv_final_diff :: "run_diff option"
  rv_outcome :: "run_outcome option"

definition run_view_of :: "run_receipt \<Rightarrow> run_view" where
  "run_view_of r =
     \<lparr>rv_status = rr_status r, rv_fingerprint = rr_fingerprint r, rv_mode = rr_mode r,
      rv_updated_at = rr_updated_at r, rv_terminated_at = rr_terminated_at r,
      rv_coordinators = rr_coordinators r, rv_final_diff = rr_final_diff r, rv_outcome = rr_outcome r\<rparr>"

definition replay_coordinator :: "checkpoint \<Rightarrow> coordinator_entry list" where
  "replay_coordinator c =
     (case (ck_kind c = KStarted \<or> ck_kind c = KResumed, ck_session c, ck_provider c) of
        (True, Some s, Some p) \<Rightarrow> [\<lparr>ce_session = s, ce_provider = p, ce_attached_at = ck_at c\<rparr>]
      | _ \<Rightarrow> [])"

definition replay :: "checkpoint \<Rightarrow> run_view \<Rightarrow> run_view" where
  "replay c v =
     \<lparr>rv_status = ck_status c,
      rv_fingerprint =
        (if ck_kind c = KStarted \<or> ck_kind c = KRevisionAccepted
         then (case ck_fingerprint_to c of Some fp \<Rightarrow> fp | None \<Rightarrow> rv_fingerprint v)
         else rv_fingerprint v),
      rv_mode = (case ck_mode_to c of Some m \<Rightarrow> m | None \<Rightarrow> rv_mode v),
      rv_updated_at = ck_at c,
      rv_terminated_at = (if is_terminal (ck_status c) then Some (ck_at c) else rv_terminated_at v),
      rv_coordinators = rv_coordinators v @ replay_coordinator c,
      rv_final_diff = (if ck_kind c = KTerminated then ck_diff c else rv_final_diff v),
      rv_outcome =
        (if ck_kind c = KTerminated
         then (case ck_status c of Succeeded \<Rightarrow> Some OutSucceeded | Failed \<Rightarrow> Some OutFailed | _ \<Rightarrow> None)
         else rv_outcome v)\<rparr>"

definition blank_view :: "run_mode \<Rightarrow> run_view" where
  "blank_view m =
     \<lparr>rv_status = Active, rv_fingerprint = [], rv_mode = m, rv_updated_at = [], rv_terminated_at = None,
      rv_coordinators = [], rv_final_diff = None, rv_outcome = None\<rparr>"

lemmas replay_simps = replay_def replay_coordinator_def run_view_of_def

lemma replay_step:
  assumes "run_step r r'"
  shows "r' = r \<or> (\<exists>c. rr_checkpoints r' = rr_checkpoints r @ [c] \<and>
           run_view_of r' = replay c (run_view_of r))"
  using assms
proof cases
  case (change_mode m s p at b)
  then show ?thesis
    by (cases "rr_status r") (auto simp: run_op_iffs replay_simps split: if_splits)
next
  case (terminate out rep d s p at)
  then show ?thesis by (cases out) (auto simp: run_op_iffs replay_simps)
qed (auto simp: run_op_iffs replay_simps split: if_splits)

section \<open>The abstract machine\<close>

text \<open>What the run promises about its status alone.\<close>

inductive run_spec :: "run_status \<Rightarrow> run_status \<Rightarrow> bool" where
  "run_spec Active Active"
| "run_spec Active Blocked"
| "run_spec Active Diverged"
| "run_spec Active Succeeded"
| "run_spec Active Failed"
| "run_spec Active Interrupted"
| "run_spec Blocked Blocked"
| "run_spec Blocked Active"
| "run_spec Blocked Interrupted"
| "run_spec Diverged Blocked"
| "run_spec Diverged Interrupted"

inductive_simps run_spec_simps: "run_spec s t"

lemma run_step_spec: "run_step r r' \<Longrightarrow> run_spec (rr_status r) (rr_status r')"
proof (induction rule: run_step.induct)
  case (terminate out rep d s p at r r')
  then show ?case by (cases out) (auto simp: run_op_iffs run_spec_simps)
next
  case (interrupt at r r')
  then show ?case by (cases "rr_status r") (auto simp: run_op_iffs run_spec_simps)
qed (auto simp: run_op_iffs run_spec_simps split: if_splits)

lemma run_step_intros:
  "rr_status r = Active \<Longrightarrow> \<exists>r'. run_step r r' \<and> rr_status r' = Active"
  "rr_status r = Active \<Longrightarrow> \<exists>r'. run_step r r' \<and> rr_status r' = Blocked"
  "rr_status r = Active \<Longrightarrow> \<exists>r'. run_step r r' \<and> rr_status r' = Diverged"
  "rr_status r = Active \<Longrightarrow> \<exists>r'. run_step r r' \<and> rr_status r' = Succeeded"
  "rr_status r = Active \<Longrightarrow> \<exists>r'. run_step r r' \<and> rr_status r' = Failed"
  "\<not> is_terminal (rr_status r) \<Longrightarrow> \<exists>r'. run_step r r' \<and> rr_status r' = Interrupted"
  "rr_status r = Blocked \<Longrightarrow> \<exists>r'. run_step r r' \<and> rr_status r' = Active"
  "rr_status r = Blocked \<Longrightarrow> \<exists>r'. run_step r r' \<and> rr_status r' = Blocked"
  "rr_status r = Diverged \<Longrightarrow> \<exists>r'. run_step r r' \<and> rr_status r' = Blocked"
proof -
  assume a: "rr_status r = Active"
  show "\<exists>r'. run_step r r' \<and> rr_status r' = Active"
    using run_step.resume [of s p at r] a by (force simp: run_op_iffs)
  show "\<exists>r'. run_step r r' \<and> rr_status r' = Blocked"
    using run_step.block [of rep d s p at r] a by (force simp: run_op_iffs)
  show "\<exists>r'. run_step r r' \<and> rr_status r' = Diverged"
    using run_step.diverge [of fp orep s p at r] a by (force simp: run_op_iffs)
  show "\<exists>r'. run_step r r' \<and> rr_status r' = Succeeded"
    using run_step.terminate [of OutSucceeded rep d s p at r] a by (force simp: run_op_iffs)
  show "\<exists>r'. run_step r r' \<and> rr_status r' = Failed"
    using run_step.terminate [of OutFailed rep d s p at r] a by (force simp: run_op_iffs)
next
  assume "\<not> is_terminal (rr_status r)"
  then show "\<exists>r'. run_step r r' \<and> rr_status r' = Interrupted"
    using run_step.interrupt [of at r] by (force simp: run_op_iffs)
next
  assume b: "rr_status r = Blocked"
  show "\<exists>r'. run_step r r' \<and> rr_status r' = Active"
    using run_step.resume [of s p at r] b by (force simp: run_op_iffs)
  show "\<exists>r'. run_step r r' \<and> rr_status r' = Blocked"
    using run_step.change_mode [of "rr_mode r" s p at r] b by (force simp: run_op_iffs)
next
  assume d: "rr_status r = Diverged"
  have "CHR ''x'' # rr_fingerprint r \<noteq> rr_fingerprint r" by (metis not_Cons_self)
  with d show "\<exists>r'. run_step r r' \<and> rr_status r' = Blocked"
    using run_step.accept_revision [of "CHR ''x'' # rr_fingerprint r" s p at r] by (force simp: run_op_iffs)
qed

text \<open>The name an operation puts in the error.\<close>

fun op_name :: "run_op \<Rightarrow> string" where
  "op_name (ChangeMode _ _ _ _) = ''change-mode''"
| "op_name (Resume _ _ _) = ''resume''"
| "op_name (Block _ _ _ _ _) = ''block''"
| "op_name (Diverge _ _ _ _ _) = ''diverge''"
| "op_name (AcceptRevision _ _ _ _) = ''accept-revision''"
| "op_name (Terminate _ _ _ _ _ _) = ''finish''"
| "op_name (CheckpointWave _ _ _ _ _) = ''checkpoint''"
| "op_name (Interrupt _) = ''restart''"

fun op_blocked_outcome :: "run_op \<Rightarrow> bool" where
  "op_blocked_outcome (Terminate out _ _ _ _ _) = (out = OutBlocked)"
| "op_blocked_outcome _ = False"

lemma run_steps_append_only:
  assumes "run_step\<^sup>*\<^sup>* r r'"
  shows "prefix (rr_checkpoints r) (rr_checkpoints r') \<and> prefix (rr_coordinators r) (rr_coordinators r')
    \<and> rr_id r' = rr_id r \<and> rr_feature r' = rr_feature r \<and> rr_plan_path r' = rr_plan_path r
    \<and> rr_baseline r' = rr_baseline r \<and> rr_started_at r' = rr_started_at r
    \<and> rr_provenance r' = rr_provenance r"
  using assms
proof (induction rule: rtranclp_induct)
  case (step y z)
  have "prefix (rr_checkpoints y) (rr_checkpoints z)" using run_step_push [OF step.hyps(2)] by auto
  with step.IH run_step_coordinators [OF step.hyps(2)] run_step_identity [OF step.hyps(2)]
  show ?case by simp (meson prefix_order.order_trans)
qed simp

lemma run_live_finishes:
  assumes "\<not> is_terminal (rr_status r)"
  shows "\<exists>r'. run_step\<^sup>*\<^sup>* r r' \<and> rr_status r' = Succeeded"
proof -
  have active: "\<exists>r'. run_step\<^sup>*\<^sup>* q r' \<and> rr_status r' = Succeeded" if "rr_status q = Active" for q
    using run_step_intros(4) [OF that] by blast
  have bl: "\<exists>r'. run_step\<^sup>*\<^sup>* q r' \<and> rr_status r' = Succeeded" if "rr_status q = Blocked" for q
    using run_step_intros(7) [OF that] active by (meson converse_rtranclp_into_rtranclp)
  have dv: "\<exists>r'. run_step\<^sup>*\<^sup>* q r' \<and> rr_status r' = Succeeded" if "rr_status q = Diverged" for q
    using run_step_intros(9) [OF that] bl by (meson converse_rtranclp_into_rtranclp)
  from assms active bl dv show ?thesis by (cases "rr_status r") auto
qed

section \<open>Properties\<close>

text \<open>
  C22: every receipt the operations can produce from a start is well formed: it carries an
  end time exactly when it is terminal, an outcome and a final diff exactly when it
  succeeded or failed, its last checkpoint agrees with its status and its update time, its
  history opens with the start, and no earlier checkpoint is terminal.
\<close>

theorem run_reachable_wf:
  assumes "run_reachable r"
  shows "run_wf r"
  using assms by induction (simp_all add: run_wf_start run_wf_step)

text \<open>
  C23: a reachable receipt is exactly what its checkpoints say: replaying the history from
  the mode the run started in gives its status, plan fingerprint, mode, coordinators,
  times, final diff and outcome.
\<close>

theorem run_receipt_is_its_history:
  assumes "run_reachable r"
  shows "\<exists>m. run_view_of r = fold replay (rr_checkpoints r) (blank_view m)"
  using assms
proof induction
  case (start m i f plan fp base s p at)
  show ?case
    by (rule exI [of _ m]) (simp add: with_mode_def run_start_def replay_simps blank_view_def)
next
  case (step r r')
  then obtain m where "run_view_of r = fold replay (rr_checkpoints r) (blank_view m)" by blast
  with replay_step [OF step.hyps(2)] show ?case by (intro exI [of _ m]) auto
qed

text \<open>
  C24: the operations implement the abstract machine exactly: from any receipt, a status is
  reached by one successful operation if and only if the specification allows the move.
\<close>

theorem run_step_refines_spec:
  "(\<exists>r'. run_step r r' \<and> rr_status r' = t) \<longleftrightarrow> run_spec (rr_status r) t"
proof
  assume "\<exists>r'. run_step r r' \<and> rr_status r' = t"
  then show "run_spec (rr_status r) t" using run_step_spec by blast
next
  assume "run_spec (rr_status r) t"
  then show "\<exists>r'. run_step r r' \<and> rr_status r' = t"
    using run_step_intros [of r] by (cases rule: run_spec.cases) auto
qed

text \<open>
  A run that has ended is frozen: every operation on a terminal receipt is refused,
  with the error that names the status and the operation (or, for a blocked outcome, the
  error that says a blocked outcome does not terminate a run).
\<close>

theorem terminal_run_is_frozen:
  assumes "is_terminal (rr_status r)"
  shows "apply_op op r =
    Inl (if op_blocked_outcome op then BlockedIsNotTerminal else AlreadyTerminal (rr_status r) (op_name op))"
proof -
  have "require r allowed name = Inl (AlreadyTerminal (rr_status r) name)"
    if "\<forall>s \<in> set allowed. \<not> is_terminal s" for allowed name
    using assms that by (auto simp: require_def)
  with assms show ?thesis by (cases op) (simp_all add: run_defs)
qed

text \<open>
  Along any sequence of successful operations the history and the coordinators only
  grow at the end, and identity, feature, plan path, baseline, start time and provenance
  never change.
\<close>

theorem run_history_append_only:
  assumes "run_step\<^sup>*\<^sup>* r r'"
  shows "prefix (rr_checkpoints r) (rr_checkpoints r') \<and> prefix (rr_coordinators r) (rr_coordinators r')
    \<and> rr_id r' = rr_id r \<and> rr_feature r' = rr_feature r \<and> rr_plan_path r' = rr_plan_path r
    \<and> rr_baseline r' = rr_baseline r \<and> rr_started_at r' = rr_started_at r
    \<and> rr_provenance r' = rr_provenance r"
  using assms by (rule run_steps_append_only)

text \<open>
  The pinned plan fingerprint moves only when a diverged run accepts a revision: the
  step ends blocked, and its checkpoint records the old and the new fingerprint.
\<close>

theorem fingerprint_moves_only_by_acceptance:
  assumes "run_step r r'" and "rr_fingerprint r' \<noteq> rr_fingerprint r"
  shows "rr_status r = Diverged \<and> rr_status r' = Blocked
    \<and> ck_kind (last (rr_checkpoints r')) = KRevisionAccepted
    \<and> ck_fingerprint_from (last (rr_checkpoints r')) = Some (rr_fingerprint r)
    \<and> ck_fingerprint_to (last (rr_checkpoints r')) = Some (rr_fingerprint r')"
  using assms by (cases rule: run_step.cases) (auto simp: run_op_iffs split: if_splits)

text \<open>C30: a run that has not ended can always be brought to success.\<close>

theorem live_run_can_succeed:
  assumes "\<not> is_terminal (rr_status r)"
  shows "\<exists>r'. run_step\<^sup>*\<^sup>* r r' \<and> rr_status r' = Succeeded"
  using assms by (rule run_live_finishes)

section \<open>Witnesses\<close>

text \<open>A concrete run: started, diverged, revised.\<close>

definition sample_run :: run_receipt where
  "sample_run = run_start (RunId ''r1'') (FeatureName ''checkout'') ''plan.md'' ''fp1'' baseline_empty
     (SessionId ''s1'') ClaudeCode ''t0''"

definition sample_diverged :: run_receipt where
  "sample_diverged =
     (case run_diverge ''fp2'' None (SessionId ''s1'') ClaudeCode ''t1'' sample_run of
        Inr r \<Rightarrow> r | Inl _ \<Rightarrow> sample_run)"

definition sample_revised :: run_receipt where
  "sample_revised =
     (case accept_revision ''fp2'' (SessionId ''s1'') ClaudeCode ''t2'' sample_diverged of
        Inr r \<Rightarrow> r | Inl _ \<Rightarrow> sample_diverged)"

definition sample_ended :: run_receipt where
  "sample_ended = (case run_interrupt ''t3'' sample_revised of Inr r \<Rightarrow> r | Inl _ \<Rightarrow> sample_revised)"

lemmas sample_defs = sample_run_def sample_diverged_def sample_revised_def sample_ended_def run_start_def

lemma sample_status:
  "rr_status sample_run = Active" "rr_status sample_diverged = Diverged"
  "rr_status sample_revised = Blocked" "rr_status sample_ended = Interrupted"
  "rr_fingerprint sample_diverged = ''fp1''" "rr_fingerprint sample_revised = ''fp2''"
  by (simp_all add: sample_defs run_defs require_def push_checkpoint_def)

lemma sample_steps:
  "run_step sample_run sample_diverged" "run_step sample_diverged sample_revised"
  "run_step sample_revised sample_ended"
proof -
  show "run_step sample_run sample_diverged"
    by (rule run_step.diverge [of "''fp2''" None "SessionId ''s1''" ClaudeCode "''t1''"])
       (simp add: sample_defs run_defs require_def)
  show "run_step sample_diverged sample_revised"
    by (rule run_step.accept_revision [of "''fp2''" "SessionId ''s1''" ClaudeCode "''t2''"])
       (simp add: sample_defs run_defs require_def push_checkpoint_def)
  show "run_step sample_revised sample_ended"
    by (rule run_step.interrupt [of "''t3''"])
       (simp add: sample_defs run_defs require_def push_checkpoint_def)
qed

lemma sample_reachable: "run_reachable sample_ended"
proof -
  have "sample_run = with_mode DefaultMode sample_run" by (simp add: sample_defs with_mode_def)
  then have "run_reachable sample_run"
    unfolding sample_run_def by (metis run_reachable.start)
  with sample_steps show ?thesis by (meson run_reachable.step)
qed

theorem run_reachable_wf_witness:
  "run_wf sample_ended \<and> rr_status sample_ended = Interrupted"
  using run_reachable_wf [OF sample_reachable] sample_status by simp

theorem run_receipt_is_its_history_witness:
  "\<exists>m. run_view_of sample_ended = fold replay (rr_checkpoints sample_ended) (blank_view m)"
  using run_receipt_is_its_history [OF sample_reachable] .

theorem terminal_run_is_frozen_witness:
  "apply_op (Resume (SessionId ''s2'') OpenCode ''t4'') sample_ended = Inl (AlreadyTerminal Interrupted ''resume'')"
  using terminal_run_is_frozen [of sample_ended "Resume (SessionId ''s2'') OpenCode ''t4''"] sample_status
  by simp

theorem run_history_append_only_witness:
  "prefix (rr_checkpoints sample_run) (rr_checkpoints sample_ended) \<and> rr_id sample_ended = rr_id sample_run"
proof -
  have "run_step\<^sup>*\<^sup>* sample_run sample_ended"
    using sample_steps by (meson rtranclp.rtrancl_refl rtranclp.rtrancl_into_rtrancl)
  from run_history_append_only [OF this] show ?thesis by simp
qed

theorem fingerprint_moves_only_by_acceptance_witness:
  "ck_fingerprint_from (last (rr_checkpoints sample_revised)) = Some ''fp1''"
  using fingerprint_moves_only_by_acceptance [OF sample_steps(2)] sample_status by simp

theorem live_run_can_succeed_witness:
  "\<exists>r'. run_step\<^sup>*\<^sup>* sample_diverged r' \<and> rr_status r' = Succeeded"
  using live_run_can_succeed [of sample_diverged] sample_status by simp

end
