(* ===== verification/Versioned.thy ===== *)
theory Versioned
  imports Errors
begin

text \<open>
  \<open>src/src/store/versioned/mod.rs\<close> and \<open>error.rs\<close>: one JSON file with a schema version, its
  migration chain, and the policy that says whether ivar may advance it on its own.  The
  file on disk is the explicit state of every operation (\<open>disk_file\<close>); the serialiser and
  deserialiser of the stored type (derived by \<open>serde\<close>) are the argument \<open>codec\<close>, and the
  laws a property needs of them are stated there.  A failing write to the disk itself is
  not modelled.
\<close>

section \<open>The store\<close>

datatype policy = Local | Committed

record migration =
  mg_from :: nat
  mg_to :: nat
  mg_migrate :: "json \<Rightarrow> string + json"

datatype inspection = InspectCurrent | NeedsMigration nat nat | InspectTooNew nat nat

datatype store_error =
    JsonError failure
  | TooNew string nat nat
  | CommittedRefusesImplicitUpgrade string nat nat
  | MigrationFailed string nat nat string
  | DeserializeError string string
  | NoMigrationPath string nat nat
  | SerializeError string

record store =
  vs_path :: string
  vs_migrations :: "migration list"
  vs_current :: nat
  vs_policy :: policy

record 't codec =
  cd_to_value :: "'t \<Rightarrow> string + json"
  cd_from_value :: "json \<Rightarrow> string + 't"

text \<open>The file: absent, not readable as JSON (with the error of \<open>json::read\<close>), or a document.\<close>

datatype disk_file = NoFile | Unreadable failure | Doc json

definition detect_version :: "json \<Rightarrow> nat" where
  "detect_version v =
     (case v of
        JObject m \<Rightarrow>
          (case obj_get m ''version'' of
             Some (JUInt n) \<Rightarrow> if n \<le> u32_max then n else 0
           | _ \<Rightarrow> 0)
      | _ \<Rightarrow> 0)"

definition stamp_version :: "nat \<Rightarrow> json \<Rightarrow> json" where
  "stamp_version n v = (case v of JObject m \<Rightarrow> JObject (obj_insert ''version'' (JUInt n) m) | _ \<Rightarrow> v)"

text \<open>The assertions of \<open>assert_chain_valid\<close>; \<open>store_new\<close> panics (\<open>None\<close>) when one fails.\<close>

fun chain_valid :: "migration list \<Rightarrow> nat \<Rightarrow> bool" where
  "chain_valid [] current = True"
| "chain_valid [m] current = (mg_from m < mg_to m \<and> mg_to m = current)"
| "chain_valid (m # n # ms) current =
     (mg_from m < mg_to m \<and> mg_from n = mg_to m \<and> chain_valid (n # ms) current)"

definition store_new :: "string \<Rightarrow> migration list \<Rightarrow> nat \<Rightarrow> policy \<Rightarrow> store option" where
  "store_new path ms current pol =
     (if chain_valid ms current
      then Some \<lparr>vs_path = path, vs_migrations = ms, vs_current = current, vs_policy = pol\<rparr>
      else None)"

definition json_read :: "disk_file \<Rightarrow> store_error + json option" where
  "json_read d = (case d of NoFile \<Rightarrow> Inr None | Unreadable e \<Rightarrow> Inl (JsonError e) | Doc j \<Rightarrow> Inr (Some j))"

definition guard_not_newer :: "store \<Rightarrow> nat \<Rightarrow> store_error + unit" where
  "guard_not_newer s detected =
     (if detected > vs_current s then Inl (TooNew (vs_path s) detected (vs_current s)) else Inr ())"

definition has_migration_path :: "store \<Rightarrow> nat \<Rightarrow> bool" where
  "has_migration_path s detected \<longleftrightarrow>
     (if detected \<ge> vs_current s then True
      else (case vs_migrations s of [] \<Rightarrow> False | m # _ \<Rightarrow> detected \<ge> mg_from m))"

definition guard_has_migration_path :: "store \<Rightarrow> nat \<Rightarrow> store_error + unit" where
  "guard_has_migration_path s detected =
     (if has_migration_path s detected then Inr ()
      else Inl (NoMigrationPath (vs_path s) detected (vs_current s)))"

fun run_migrations :: "string \<Rightarrow> migration list \<Rightarrow> json \<Rightarrow> nat \<Rightarrow> store_error + json" where
  "run_migrations path [] v version = Inr v"
| "run_migrations path (m # ms) v version =
     (if version < mg_from m then Inr v
      else if version \<ge> mg_to m then run_migrations path ms v version
      else (case mg_migrate m v of
              Inl reason \<Rightarrow> Inl (MigrationFailed path (mg_from m) (mg_to m) reason)
            | Inr v' \<Rightarrow> run_migrations path ms v' (mg_to m)))"

definition store_deserialize :: "'t codec \<Rightarrow> store \<Rightarrow> json \<Rightarrow> store_error + 't" where
  "store_deserialize c s v =
     (case cd_from_value c v of Inl e \<Rightarrow> Inl (DeserializeError (vs_path s) e) | Inr t \<Rightarrow> Inr t)"

definition read_migrated :: "'t codec \<Rightarrow> store \<Rightarrow> disk_file \<Rightarrow> store_error + ('t \<times> nat) option" where
  "read_migrated c s d =
     and_then (json_read d) (\<lambda>raw.
       case raw of
         None \<Rightarrow> Inr None
       | Some v \<Rightarrow>
           and_then (guard_not_newer s (detect_version v)) (\<lambda>_.
           and_then (guard_has_migration_path s (detect_version v)) (\<lambda>_.
           and_then (run_migrations (vs_path s) (vs_migrations s) v (detect_version v)) (\<lambda>migrated.
           and_then (store_deserialize c s (stamp_version (vs_current s) migrated)) (\<lambda>value.
             Inr (Some (value, detect_version v)))))))"

definition persist :: "'t codec \<Rightarrow> store \<Rightarrow> 't \<Rightarrow> disk_file \<Rightarrow> (store_error + unit) \<times> disk_file" where
  "persist c s value d =
     (case cd_to_value c value of
        Inl e \<Rightarrow> (Inl (SerializeError e), d)
      | Inr j \<Rightarrow> (Inr (), Doc (stamp_version (vs_current s) j)))"

definition store_read :: "'t codec \<Rightarrow> store \<Rightarrow> disk_file \<Rightarrow> (store_error + 't option) \<times> disk_file" where
  "store_read c s d =
     (case read_migrated c s d of
        Inl e \<Rightarrow> (Inl e, d)
      | Inr None \<Rightarrow> (Inr None, d)
      | Inr (Some (value, detected)) \<Rightarrow>
          if detected < vs_current s \<and> vs_policy s = Local
          then (case persist c s value d of
                  (Inl e, d') \<Rightarrow> (Inl e, d')
                | (Inr _, d') \<Rightarrow> (Inr (Some value), d'))
          else (Inr (Some value), d))"

definition store_write :: "'t codec \<Rightarrow> store \<Rightarrow> 't \<Rightarrow> disk_file \<Rightarrow> (store_error + unit) \<times> disk_file" where
  "store_write c s value d =
     (case json_read d of
        Inl e \<Rightarrow> (Inl e, d)
      | Inr None \<Rightarrow> persist c s value d
      | Inr (Some j) \<Rightarrow>
          (case guard_not_newer s (detect_version j) of
             Inl e \<Rightarrow> (Inl e, d)
           | Inr _ \<Rightarrow>
               if vs_policy s = Committed \<and> detect_version j < vs_current s
               then (Inl (CommittedRefusesImplicitUpgrade (vs_path s) (detect_version j) (vs_current s)), d)
               else persist c s value d))"

definition store_inspect :: "store \<Rightarrow> disk_file \<Rightarrow> store_error + inspection option" where
  "store_inspect s d =
     and_then (json_read d) (\<lambda>raw.
       case raw of
         None \<Rightarrow> Inr None
       | Some v \<Rightarrow> (let n = detect_version v in
           Inr (Some (if n = vs_current s then InspectCurrent
                      else if n < vs_current s then NeedsMigration n (vs_current s)
                      else InspectTooNew n (vs_current s)))))"

definition store_migrate :: "'t codec \<Rightarrow> store \<Rightarrow> disk_file \<Rightarrow> (store_error + 't option) \<times> disk_file" where
  "store_migrate c s d =
     (case read_migrated c s d of
        Inl e \<Rightarrow> (Inl e, d)
      | Inr None \<Rightarrow> (Inr None, d)
      | Inr (Some (value, detected)) \<Rightarrow>
          if detected < vs_current s
          then (case persist c s value d of
                  (Inl e, d') \<Rightarrow> (Inl e, d')
                | (Inr _, d') \<Rightarrow> (Inr (Some value), d'))
          else (Inr (Some value), d))"

section \<open>Failures\<close>

fun store_error_code :: "store_error \<Rightarrow> string" where
  "store_error_code (JsonError _) = ''store.json''"
| "store_error_code (TooNew _ _ _) = ''store.version_too_new''"
| "store_error_code (CommittedRefusesImplicitUpgrade _ _ _) = ''store.committed_refuses_implicit_upgrade''"
| "store_error_code (MigrationFailed _ _ _ _) = ''store.migration_failed''"
| "store_error_code (NoMigrationPath _ _ _) = ''store.no_migration_path''"
| "store_error_code (DeserializeError _ _) = ''store.schema_mismatch''"
| "store_error_code (SerializeError _) = ''store.serialize_failed''"

fun store_error_display :: "store_error \<Rightarrow> string" where
  "store_error_display (JsonError e) = fl_what e"
| "store_error_display (TooNew p found highest) =
     p @ '' is at schema version '' @ show_nat found @
     '', but this build of ivar only understands up to version '' @ show_nat highest"
| "store_error_display (CommittedRefusesImplicitUpgrade p on_disk current) =
     p @ '' is at schema version '' @ show_nat on_disk @ '', older than the current version '' @
     show_nat current @ ''; writing would silently advance a committed file''"
| "store_error_display (MigrationFailed p a b reason) =
     p @ '': migrating from v'' @ show_nat a @ '' to v'' @ show_nat b @ '' failed: '' @ reason"
| "store_error_display (DeserializeError p src) =
     p @ '': does not match the expected schema: '' @ src"
| "store_error_display (NoMigrationPath p found current) =
     p @ '' is at schema version '' @ show_nat found @
     '', and there is no migration to reach version '' @ show_nat current"
| "store_error_display (SerializeError e) = ''could not serialize value to JSON: '' @ e"

definition right_arrow :: string where
  "right_arrow = [CHR 0xE2, CHR 0x86, CHR 0x92]"

definition store_error_failure :: "store_error \<Rightarrow> failure" where
  "store_error_failure e =
     (let code = store_error_code e; what = store_error_display e in
      case e of
        JsonError f \<Rightarrow> f
      | TooNew _ found highest \<Rightarrow>
          with_fix (fix_command ''ivar upgrade'' (fix_unsafe ''store.upgrade_ivar''
              (''Upgrade ivar to a version that understands schema version '' @ show_nat found @ ''.'')))
            (with_actual (''schema version '' @ show_nat found)
              (with_expected (''schema version '' @ show_nat highest @ '' or older'') (blocked code what)))
      | CommittedRefusesImplicitUpgrade _ on_disk current \<Rightarrow>
          with_fix (fix_command ''ivar migrate'' (fix_unsafe ''store.run_migrate''
              (''Run the explicit migrate command '' @ em_dash @ '' advancing a committed file'' @ [CHR 0x27] @
               ''s schema is a decision a human makes, not something ivar does on your behalf.'')))
            (with_actual (''schema version '' @ show_nat on_disk)
              (with_expected (''schema version '' @ show_nat current @ '', reached via an explicit migrate'')
                (blocked code what)))
      | MigrationFailed _ a b reason \<Rightarrow>
          with_actual reason
            (with_expected (''v'' @ show_nat a @ '' data that the v'' @ show_nat a @ right_arrow @ ''v'' @
               show_nat b @ '' migration can transform'') (blocked code what))
      | NoMigrationPath _ found current \<Rightarrow>
          with_fix (fix_unsafe ''store.not_our_file''
              ''Check this is the file you meant. A file at a version this format never had is not one ivar wrote.'')
            (with_actual (''schema version '' @ show_nat found @ '', with no migration to reach it'')
              (with_expected (''schema version '' @ show_nat current) (blocked code what)))
      | DeserializeError _ src \<Rightarrow>
          with_actual src (with_expected ''data matching the current schema'' (blocked code what))
      | SerializeError _ \<Rightarrow> failed code what)"

section \<open>Lemmas\<close>

lemma detect_stamp [simp]:
  "n \<le> u32_max \<Longrightarrow> detect_version (stamp_version n (JObject m)) = n"
  by (simp add: detect_version_def stamp_version_def obj_get_insert)

lemma chain_valid_from: "chain_valid (m # ms) current \<Longrightarrow> mg_from m < mg_to m \<and> mg_to m \<le> current"
proof (induction ms arbitrary: m)
  case (Cons n ms)
  then have "mg_from m < mg_to m" "mg_from n = mg_to m" "chain_valid (n # ms) current" by simp_all
  with Cons.IH [of n] show ?case by simp
qed simp

lemma chain_valid_tail: "chain_valid (m # ms) current \<Longrightarrow> chain_valid ms current"
  by (cases ms) auto

text \<open>The steps of a chain applied one after the other.\<close>

fun apply_steps :: "string \<Rightarrow> migration list \<Rightarrow> json \<Rightarrow> store_error + json" where
  "apply_steps path [] v = Inr v"
| "apply_steps path (m # ms) v =
     (case mg_migrate m v of
        Inl reason \<Rightarrow> Inl (MigrationFailed path (mg_from m) (mg_to m) reason)
      | Inr v' \<Rightarrow> apply_steps path ms v')"

lemma run_migrations_from:
  "chain_valid (m # ms) current \<Longrightarrow> mg_from m \<le> version \<Longrightarrow>
     run_migrations path (m # ms) v version =
       apply_steps path (filter (\<lambda>n. version < mg_to n) (m # ms)) v"
proof (induction ms arbitrary: m v version)
  case Nil
  then show ?case by (auto split: sum.splits)
next
  case (Cons n ms)
  then have link: "mg_from n = mg_to m" and tl: "chain_valid (n # ms) current" by auto
  show ?case
  proof (cases "mg_to m \<le> version")
    case True
    with Cons.prems Cons.IH [OF tl] link show ?thesis by simp
  next
    case False
    have all: "filter (\<lambda>k. mg_to m < mg_to k) (n # ms) = n # ms"
      "filter (\<lambda>k. version < mg_to k) (n # ms) = n # ms"
    proof -
      have "chain_valid (k # ks) current \<Longrightarrow> \<forall>j \<in> set (k # ks). mg_from k < mg_to j" for k ks
      proof (induction ks arbitrary: k)
        case (Cons l ks)
        from Cons.prems have "mg_from k < mg_to k" "mg_from l = mg_to k" "chain_valid (l # ks) current"
          by auto
        with Cons.IH [of l] show ?case by fastforce
      qed simp
      from this [OF tl] link have "\<forall>j \<in> set (n # ms). mg_to m < mg_to j" by simp
      moreover from this False have "\<forall>j \<in> set (n # ms). version < mg_to j" by fastforce
      ultimately show "filter (\<lambda>k. mg_to m < mg_to k) (n # ms) = n # ms"
        "filter (\<lambda>k. version < mg_to k) (n # ms) = n # ms"
        by (simp_all only: filter_True)
    qed
    have "run_migrations path (n # ms) w (mg_to m) = apply_steps path (n # ms) w" for w
      using Cons.IH [OF tl, of "mg_to m" w] link all by simp
    with False Cons.prems all(2) show ?thesis by (simp split: sum.splits)
  qed
qed

text \<open>A serialiser whose documents the deserialiser reads back, whatever version is stamped.\<close>

definition codec_ok :: "'t codec \<Rightarrow> bool" where
  "codec_ok c \<longleftrightarrow> (\<forall>v j n. cd_to_value c v = Inr j \<longrightarrow>
     (\<exists>m. j = JObject m) \<and> cd_from_value c (stamp_version n j) = Inr v)"

definition is_current :: "store \<Rightarrow> disk_file \<Rightarrow> bool" where
  "is_current s d \<longleftrightarrow> (\<exists>j. d = Doc j \<and> detect_version j = vs_current s)"

lemma run_migrations_current:
  assumes "chain_valid ms current"
  shows "run_migrations path ms v current = Inr v"
  using assms
proof (induction ms)
  case (Cons m ms)
  with chain_valid_from [OF Cons.prems] chain_valid_tail [OF Cons.prems] show ?case by simp
qed simp

lemma stamp_stamp [simp]: "stamp_version n (stamp_version m j) = stamp_version n j"
proof -
  have "obj_insert k v (obj_insert k w xs) = obj_insert k v xs" for k v w and xs :: "(string \<times> json) list"
    by (induction xs) auto
  then show ?thesis by (simp add: stamp_version_def split: json.splits)
qed

lemma read_migrated_persisted:
  assumes "codec_ok c" "chain_valid (vs_migrations s) (vs_current s)" "vs_current s \<le> u32_max"
    and "persist c s value d = (Inr (), d')"
  shows "read_migrated c s d' = Inr (Some (value, vs_current s))" "is_current s d'"
proof -
  obtain m where m: "cd_to_value c value = Inr (JObject m)" "d' = Doc (stamp_version (vs_current s) (JObject m))"
  proof -
    obtain j where j: "cd_to_value c value = Inr j" "d' = Doc (stamp_version (vs_current s) j)"
      using assms(4) by (auto simp: persist_def split: sum.splits)
    moreover obtain m where "j = JObject m" using assms(1) j(1) unfolding codec_ok_def by blast
    ultimately show thesis using that by blast
  qed
  have d: "detect_version (stamp_version (vs_current s) (JObject m)) = vs_current s"
    using assms(3) by simp
  have "cd_from_value c (stamp_version (vs_current s) (JObject m)) = Inr value"
    using assms(1) m(1) unfolding codec_ok_def by blast
  with d show "read_migrated c s d' = Inr (Some (value, vs_current s))"
    using run_migrations_current [OF assms(2)] unfolding m(2)
    by (simp add: read_migrated_def json_read_def guard_not_newer_def guard_has_migration_path_def
        has_migration_path_def store_deserialize_def)
  from d show "is_current s d'" by (simp add: is_current_def m(2))
qed

lemma read_current:
  "read_migrated c s d = Inr (Some (value, vs_current s)) \<Longrightarrow>
     store_read c s d = (Inr (Some value), d) \<and> store_migrate c s d = (Inr (Some value), d)"
  by (simp add: store_read_def store_migrate_def)

lemma write_ok_persists:
  "store_write c s value d = (Inr (), d') \<Longrightarrow> persist c s value d = (Inr (), d')"
  by (auto simp: store_write_def json_read_def split: disk_file.splits sum.splits if_splits)

section \<open>Properties\<close>

text \<open>
  C27: a file at a version newer than this build understands is never written and never
  interpreted: reading, writing and migrating all refuse with \<open>TooNew\<close> and leave the file
  as it is.
\<close>

theorem too_new_file_is_untouched:
  assumes "vs_current s < detect_version j"
  shows "store_read c s (Doc j) = (Inl (TooNew (vs_path s) (detect_version j) (vs_current s)), Doc j)
    \<and> store_migrate c s (Doc j) = (Inl (TooNew (vs_path s) (detect_version j) (vs_current s)), Doc j)
    \<and> store_write c s value (Doc j) = (Inl (TooNew (vs_path s) (detect_version j) (vs_current s)), Doc j)"
  using assms
  by (simp add: store_read_def store_migrate_def store_write_def read_migrated_def json_read_def
      guard_not_newer_def)

text \<open>
  A committed file is advanced by \<open>migrate\<close> alone: a read never writes it, and a write
  over an older version is refused and changes nothing.
\<close>

theorem committed_file_advances_only_by_migrate:
  assumes "vs_policy s = Committed" and "detect_version j < vs_current s"
  shows "snd (store_read c s d) = d
    \<and> store_write c s value (Doc j) =
        (Inl (CommittedRefusesImplicitUpgrade (vs_path s) (detect_version j) (vs_current s)), Doc j)"
  using assms
  by (auto simp: store_read_def store_write_def json_read_def guard_not_newer_def split: sum.splits option.splits)

text \<open>
  For a chain the constructor accepts, migrating a document from a version with a
  migration path applies exactly the steps that end above that version, in order; the
  early \<open>break\<close> never cuts the chain short.
\<close>

theorem migrations_apply_every_later_step:
  assumes "store_new path ms current pol = Some s"
    and "has_migration_path s version" and "version < current"
  shows "run_migrations path ms v version = apply_steps path (filter (\<lambda>n. version < mg_to n) ms) v"
proof -
  from assms(1) have chain: "chain_valid ms current"
    and s: "vs_migrations s = ms" "vs_current s = current"
    by (auto simp: store_new_def split: if_splits)
  with assms(2,3) obtain m ms' where "ms = m # ms'" "mg_from m \<le> version"
    by (auto simp: has_migration_path_def split: list.splits)
  with chain show ?thesis by (simp only: run_migrations_from)
qed

text \<open>
  What a store wrote it reads back: after a successful write the file is at the current
  version, and a read returns the value written without touching the file again.
\<close>

theorem store_write_then_read:
  assumes "codec_ok c" and "store_new path ms current pol = Some s" and "current \<le> u32_max"
    and "store_write c s value d = (Inr (), d')"
  shows "is_current s d' \<and> store_read c s d' = (Inr (Some value), d')"
proof -
  from assms(2,3) have "chain_valid (vs_migrations s) (vs_current s)" "vs_current s \<le> u32_max"
    by (auto simp: store_new_def split: if_splits)
  note rp = read_migrated_persisted [OF assms(1) this write_ok_persists [OF assms(4)]]
  from rp(2) read_current [OF rp(1)] show ?thesis by simp
qed

text \<open>
  Migrating is idempotent: after a successful migration that returned a value, the file
  is at the current version and migrating or reading it again returns the same value and
  changes nothing.
\<close>

theorem store_migrate_idempotent:
  assumes "codec_ok c" and "store_new path ms current pol = Some s" and "current \<le> u32_max"
    and "store_migrate c s d = (Inr (Some value), d')"
  shows "is_current s d' \<and> store_migrate c s d' = (Inr (Some value), d')
    \<and> store_read c s d' = (Inr (Some value), d')"
proof -
  from assms(2,3) have chain: "chain_valid (vs_migrations s) (vs_current s)" "vs_current s \<le> u32_max"
    by (auto simp: store_new_def split: if_splits)
  obtain n where n: "read_migrated c s d = Inr (Some (value, n))"
    and d': "if n < vs_current s then persist c s value d = (Inr (), d') else d' = d"
    using assms(4) by (auto simp: store_migrate_def split: sum.splits option.splits prod.splits if_splits)
  show ?thesis
  proof (cases "n < vs_current s")
    case True
    with d' read_migrated_persisted [OF assms(1) chain] read_current show ?thesis by metis
  next
    case False
    with n d' have "read_migrated c s d' = Inr (Some (value, n))" by simp
    moreover from this False have "n = vs_current s" "is_current s d'"
      by (auto simp: read_migrated_def result_simps json_read_def guard_not_newer_def is_current_def
          split: disk_file.splits option.splits if_splits)
    ultimately show ?thesis using read_current [of c s "d'" "value"] by simp
  qed
qed

section \<open>Witnesses\<close>

text \<open>A stored type with one field, read back with a default when the file has none.\<close>

definition mode_codec :: "string codec" where
  "mode_codec =
     \<lparr>cd_to_value = (\<lambda>m. Inr (JObject [(''mode'', JString m)])),
      cd_from_value = (\<lambda>j. case j of
         JObject m \<Rightarrow> (case obj_get m ''mode'' of Some (JString x) \<Rightarrow> Inr x | _ \<Rightarrow> Inl ''missing field `mode`'')
       | _ \<Rightarrow> Inl ''invalid type'')\<rparr>"

text \<open>\<open>run_v1_to_v2\<close> of \<open>src/src/store/feature/run.rs\<close>: a run receipt of version 1 has no mode.\<close>

definition run_v1_to_v2 :: "json \<Rightarrow> string + json" where
  "run_v1_to_v2 v =
     (case v of
        JObject m \<Rightarrow> Inr (JObject (if obj_get m ''mode'' = None then obj_insert ''mode'' (JString ''default'') m else m))
      | _ \<Rightarrow> Inl ''run receipt must be an object'')"

definition run_store_migrations :: "migration list" where
  "run_store_migrations = [\<lparr>mg_from = 1, mg_to = 2, mg_migrate = run_v1_to_v2\<rparr>]"

definition mode_store :: "policy \<Rightarrow> store" where
  "mode_store pol = \<lparr>vs_path = ''run.json'', vs_migrations = run_store_migrations, vs_current = 2, vs_policy = pol\<rparr>"

lemma mode_store_new: "store_new ''run.json'' run_store_migrations 2 pol = Some (mode_store pol)"
  by (simp add: store_new_def mode_store_def run_store_migrations_def)

lemma mode_codec_ok: "codec_ok mode_codec"
  by (simp add: codec_ok_def mode_codec_def stamp_version_def obj_get_def)

lemmas mode_simps = store_read_def store_write_def store_migrate_def read_migrated_def json_read_def
  guard_not_newer_def guard_has_migration_path_def has_migration_path_def store_deserialize_def
  persist_def mode_codec_def mode_store_def run_store_migrations_def run_v1_to_v2_def
  detect_version_def stamp_version_def obj_get_def

definition v1_file :: json where
  "v1_file = JObject [(''version'', JUInt 1)]"

theorem too_new_file_is_untouched_witness:
  "store_write mode_codec (mode_store Local) ''goal'' (Doc (JObject [(''version'', JUInt 3)])) =
     (Inl (TooNew ''run.json'' 3 2), Doc (JObject [(''version'', JUInt 3)]))"
  using too_new_file_is_untouched [of "mode_store Local" "JObject [(''version'', JUInt 3)]" mode_codec "''goal''"]
  by (simp add: mode_simps)

theorem committed_file_advances_only_by_migrate_witness:
  "store_write mode_codec (mode_store Committed) ''goal'' (Doc v1_file) =
     (Inl (CommittedRefusesImplicitUpgrade ''run.json'' 1 2), Doc v1_file)"
  using committed_file_advances_only_by_migrate [of "mode_store Committed" v1_file mode_codec NoFile "''goal''"]
  by (simp add: mode_simps v1_file_def)

theorem migrations_apply_every_later_step_witness:
  "run_migrations ''run.json'' run_store_migrations v1_file 1 =
     Inr (JObject [(''version'', JUInt 1), (''mode'', JString ''default'')])"
  using migrations_apply_every_later_step [OF mode_store_new [of Local], of 1 v1_file]
  by (simp add: mode_simps v1_file_def)

theorem store_write_then_read_witness:
  "store_read mode_codec (mode_store Local) (snd (store_write mode_codec (mode_store Local) ''goal'' NoFile)) =
     (Inr (Some ''goal''), Doc (JObject [(''mode'', JString ''goal''), (''version'', JUInt 2)]))"
proof -
  have "store_write mode_codec (mode_store Local) ''goal'' NoFile =
      (Inr (), Doc (JObject [(''mode'', JString ''goal''), (''version'', JUInt 2)]))"
    by (simp add: mode_simps)
  from store_write_then_read [OF mode_codec_ok mode_store_new _ this] this show ?thesis by simp
qed

theorem store_migrate_idempotent_witness:
  "store_migrate mode_codec (mode_store Committed) (Doc (JObject [(''mode'', JString ''default''), (''version'', JUInt 2)])) =
     (Inr (Some ''default''), Doc (JObject [(''mode'', JString ''default''), (''version'', JUInt 2)]))"
proof -
  have "store_migrate mode_codec (mode_store Committed) (Doc v1_file) =
      (Inr (Some ''default''), Doc (JObject [(''mode'', JString ''default''), (''version'', JUInt 2)]))"
    by (simp add: mode_simps v1_file_def)
  from store_migrate_idempotent [OF mode_codec_ok mode_store_new _ this] show ?thesis by simp
qed

end
