(* ===== verification/Calendar.thy ===== *)
theory Calendar
  imports Prelude
begin

text \<open>
  The proleptic Gregorian calendar of \<open>src/src/domain/session.rs\<close>: days since the epoch to
  and from a civil date (\<open>days_from_civil\<close>, \<open>civil_from_days\<close>), and the RFC 3339 text the
  stores write.  The source computes in \<open>i64\<close>; the model computes in \<open>int\<close>, which agrees
  as long as nothing overflows: \<open>days_bound\<close> bounds the result, so every year of at most
  eleven digits is exact.  The clock and the conversion from \<open>f64\<close> are outside the model.
\<close>

section \<open>Days and civil dates\<close>

text \<open>Rust's \<open>/\<close> and \<open>%\<close> round towards zero; the divisors here are positive literals.\<close>

definition quot :: "int \<Rightarrow> int \<Rightarrow> int" where
  "quot a b = (if a < 0 then - ((- a) div b) else a div b)"

definition remn :: "int \<Rightarrow> int \<Rightarrow> int" where
  "remn a b = (if a < 0 then - ((- a) mod b) else a mod b)"

lemma quot_nonneg [simp]: "0 \<le> a \<Longrightarrow> quot a b = a div b"
  by (simp add: quot_def)

lemma remn_nonneg [simp]: "0 \<le> a \<Longrightarrow> remn a b = a mod b"
  by (simp add: remn_def)

definition days_from_civil :: "int \<Rightarrow> int \<Rightarrow> int \<Rightarrow> int" where
  "days_from_civil year month day =
     (let y = (if month \<le> 2 then year - 1 else year);
          era = y div 400;
          year_of_era = y mod 400;
          day_of_year = quot (153 * remn (month + 9) 12 + 2) 5 + day - 1;
          day_of_era = year_of_era * 365 + quot year_of_era 4 - quot year_of_era 100 + day_of_year
      in era * 146097 + day_of_era - 719468)"

definition to_u32 :: "int \<Rightarrow> nat" where
  "to_u32 n = (if 0 \<le> n \<and> n \<le> int u32_max then nat n else u32_max)"

definition year_of_era :: "int \<Rightarrow> int" where
  "year_of_era doe = quot (doe - quot doe 1460 + quot doe 36524 - quot doe 146096) 365"

definition civil_from_days :: "int \<Rightarrow> int \<times> nat \<times> nat" where
  "civil_from_days days =
     (let z = days + 719468;
          era = z div 146097;
          doe = z mod 146097;
          yoe = year_of_era doe;
          year = yoe + era * 400;
          doy = doe - (365 * yoe + quot yoe 4 - quot yoe 100);
          mp = quot (5 * doy + 2) 153;
          day = doy - quot (153 * mp + 2) 5 + 1;
          month = (if mp < 10 then mp + 3 else mp - 9)
      in (if month \<le> 2 then year + 1 else year, to_u32 month, to_u32 day))"

definition is_leap :: "int \<Rightarrow> bool" where
  "is_leap y \<longleftrightarrow> (y mod 4 = 0 \<and> y mod 100 \<noteq> 0) \<or> y mod 400 = 0"

text \<open>\<open>days_in_month\<close> of \<open>src/src/domain/agent/at.rs\<close>.\<close>

definition days_in_month :: "int \<Rightarrow> int \<Rightarrow> int" where
  "days_in_month year month =
     (if month = 2 \<and> ((remn year 4 = 0 \<and> remn year 100 \<noteq> 0) \<or> remn year 400 = 0) then 29
      else if month = 2 then 28
      else if month = 4 \<or> month = 6 \<or> month = 9 \<or> month = 11 then 30
      else 31)"

definition valid_date :: "int \<Rightarrow> int \<Rightarrow> int \<Rightarrow> bool" where
  "valid_date y m d \<longleftrightarrow> 1 \<le> m \<and> m \<le> 12 \<and> 1 \<le> d \<and> d \<le> days_in_month y m"

lemma remn_zero_iff: "remn a b = 0 \<longleftrightarrow> a mod b = 0"
  by (simp add: remn_def flip: dvd_eq_mod_eq_0)

text \<open>A quotient, from its remainder.\<close>

lemma div_is: "a = b * q + r \<Longrightarrow> 0 \<le> r \<Longrightarrow> r < b \<Longrightarrow> a div b = q" for a b q r :: int
  by (simp add: int_div_pos_eq)

lemma div_bounds: "0 \<le> a \<Longrightarrow> a < b * (n + 1) \<Longrightarrow> 0 < b \<Longrightarrow> 0 \<le> a div b \<and> a div b \<le> n" for a b n :: int
proof -
  assume a: "0 \<le> a" "a < b * (n + 1)" "0 < b"
  have "a div b \<le> n"
  proof (rule ccontr)
    assume "\<not> a div b \<le> n"
    with a have "b * (n + 1) \<le> b * (a div b)" by (intro mult_left_mono) simp_all
    also have "\<dots> \<le> a" using a mult_div_mod_eq [of b a] pos_mod_sign [of b a] by linarith
    finally show False using a by simp
  qed
  with a show ?thesis by (simp add: pos_imp_zdiv_nonneg_iff)
qed

lemma days_in_month_leap:
  "days_in_month y m = (if m = 2 then (if is_leap y then 29 else 28)
     else if m = 4 \<or> m = 6 \<or> m = 9 \<or> m = 11 then 30 else 31)"
  by (auto simp: days_in_month_def is_leap_def remn_zero_iff)

lemma is_leap_period [simp]: "is_leap (y + 400 * k) \<longleftrightarrow> is_leap y"
proof -
  have "(y + 400 * k) mod 4 = y mod 4" "(y + 400 * k) mod 100 = y mod 100"
    using mod_mult_self2 [of y 4 "100 * k"] mod_mult_self2 [of y 100 "4 * k"] by simp_all
  then show ?thesis by (simp add: is_leap_def)
qed

section \<open>The year of an era\<close>

text \<open>
  A day of an era is \<open>36524 * c + 1461 * q + s\<close>: whole centuries, whole four-year cycles and
  a rest.  The closed formula of the code gives the year this decomposition names.
\<close>

lemma year_of_era_parts:
  assumes "0 \<le> c" "c \<le> 3" "0 \<le> q" "q \<le> 24" "0 \<le> s" "s \<le> 1460"
    and "q = 24 \<Longrightarrow> s < 1460 \<or> c = 3"
  shows "year_of_era (36524 * c + 1461 * q + s) = 100 * c + 4 * q + min 3 (s div 365)"
proof (cases "c = 3 \<and> q = 24 \<and> s = 1460")
  case True
  then show ?thesis by (simp add: year_of_era_def)
next
  case False
  define doe where "doe = 36524 * c + 1461 * q + s"
  have r: "1461 * q + s < 36524" using assms False by (cases "q = 24") auto
  have small: "doe < 146096" and nn: "0 \<le> doe" unfolding doe_def using assms r by simp_all
  have cdiv: "doe div 36524 = c"
    by (rule div_is [of _ _ _ "1461 * q + s"]) (use assms r in \<open>simp_all add: doe_def\<close>)
  have edge: "doe div 146096 = 0" using small nn by simp
  define e where "e = (if 1460 \<le> 24 * c + q + s then 1 else (0::int))"
  have b: "0 \<le> 24 * c + q" "24 * c + q \<le> 96" using assms by simp_all
  have fdiv: "doe div 1460 = 25 * c + q + e"
    by (rule div_is [of _ _ _ "24 * c + q + s - 1460 * e"])
       (use b assms in \<open>simp_all add: doe_def e_def\<close>)
  have body: "doe - quot doe 1460 + quot doe 36524 - quot doe 146096 = 36500 * c + 1460 * q + (s - e)"
    unfolding quot_nonneg [OF nn] cdiv edge fdiv by (simp add: doe_def)
  have se: "0 \<le> s - e" "(s - e) div 365 = min 3 (s div 365)"
  proof -
    consider "s < 1095" | "1095 \<le> s" by linarith
    then show "(s - e) div 365 = min 3 (s div 365)"
    proof cases
      case 1
      then have "e = 0" using b by (simp add: e_def)
      moreover have "s div 365 \<le> 2" using div_bounds [of s 365 2] 1 assms by simp
      ultimately show ?thesis by simp
    next
      case 2
      then have "3 \<le> s div 365" using zdiv_mono1 [of 1095 s 365] by simp
      moreover have "(s - e) div 365 = 3"
        by (rule div_is [of _ _ _ "s - e - 1095"]) (use 2 b assms in \<open>auto simp: e_def\<close>)
      ultimately show ?thesis by simp
    qed
    show "0 \<le> s - e" using b assms by (auto simp: e_def)
  qed
  have "(36500 * c + 1460 * q + (s - e)) div 365 = 100 * c + 4 * q + (s - e) div 365"
    by (rule div_is [of _ _ _ "(s - e) mod 365"]) simp_all
  moreover have "0 \<le> 36500 * c + 1460 * q + (s - e)" using assms se(1) by simp
  ultimately show ?thesis
    unfolding year_of_era_def doe_def [symmetric] body se(2) [symmetric] by (simp only: quot_nonneg)
qed

lemma era_parts:
  assumes "0 \<le> doe" "doe < 146097"
  obtains c q s :: int where "doe = 36524 * c + 1461 * q + s" "0 \<le> c" "c \<le> 3" "0 \<le> q" "q \<le> 24"
    "0 \<le> s" "s \<le> 1460" "q = 24 \<Longrightarrow> s < 1460 \<or> c = 3"
proof (cases "doe = 146096")
  case True
  then show ?thesis using that [of 3 24 1460] by simp
next
  case False
  define r where "r = doe mod 36524"
  have r: "0 \<le> r" "r < 36524" by (simp_all add: r_def)
  have eq: "doe = 36524 * (doe div 36524) + 1461 * (r div 1461) + r mod 1461"
    using mult_div_mod_eq [of 36524 doe] mult_div_mod_eq [of 1461 r] by (simp add: r_def)
  have c: "0 \<le> doe div 36524" "doe div 36524 \<le> 3"
    using div_bounds [of doe 36524 3] assms False by simp_all
  have q: "0 \<le> r div 1461" "r div 1461 \<le> 24" using div_bounds [of r 1461 24] r by simp_all
  have s: "0 \<le> r mod 1461" "r mod 1461 \<le> 1460" using pos_mod_bound [of 1461 r] by simp_all
  have last: "r mod 1461 < 1460 \<or> doe div 36524 = 3" if "r div 1461 = 24"
    using that r mult_div_mod_eq [of 1461 r] by simp
  show ?thesis by (rule that [OF eq c q s last])
qed

text \<open>The number of days before a year of an era, and the day of the year.\<close>

definition days_before :: "int \<Rightarrow> int" where
  "days_before yoe = 365 * yoe + yoe div 4 - yoe div 100"

lemma days_before_parts:
  assumes "0 \<le> c" "0 \<le> q" "q \<le> 24" "0 \<le> t" "t \<le> 3"
  shows "days_before (100 * c + 4 * q + t) = 36524 * c + 1461 * q + 365 * t"
proof -
  have "(100 * c + 4 * q + t) div 4 = 25 * c + q"
    by (rule div_is [of _ _ _ t]) (use assms in simp_all)
  moreover have "(100 * c + 4 * q + t) div 100 = c"
    by (rule div_is [of _ _ _ "4 * q + t"]) (use assms in simp_all)
  ultimately show ?thesis by (simp add: days_before_def)
qed

lemma year_of_era_bounds:
  assumes "0 \<le> doe" "doe < 146097"
  shows "0 \<le> year_of_era doe" "year_of_era doe < 400"
    "0 \<le> doe - days_before (year_of_era doe)" "doe - days_before (year_of_era doe) \<le> 365"
    "doe - days_before (year_of_era doe) = 365 \<Longrightarrow> is_leap (year_of_era doe + 1)"
proof -
  obtain c q s :: int where p: "doe = 36524 * c + 1461 * q + s" "0 \<le> c" "c \<le> 3" "0 \<le> q" "q \<le> 24"
    "0 \<le> s" "s \<le> 1460" "q = 24 \<Longrightarrow> s < 1460 \<or> c = 3"
    using era_parts [OF assms] by blast
  define t where "t = min 3 (s div 365)"
  have t: "0 \<le> t" "t \<le> 3" "0 \<le> s - 365 * t" "s - 365 * t \<le> 365"
  proof -
    have "0 \<le> s div 365" using p by (simp add: pos_imp_zdiv_nonneg_iff)
    then show "0 \<le> t" "t \<le> 3" by (simp_all add: t_def)
    have "s = 365 * (s div 365) + s mod 365" "0 \<le> s mod 365" "s mod 365 < 365" by simp_all
    then show "0 \<le> s - 365 * t" "s - 365 * t \<le> 365" using p(7) unfolding t_def by linarith+
  qed
  have y: "year_of_era doe = 100 * c + 4 * q + t" unfolding p(1) t_def using p by (intro year_of_era_parts) auto
  from y p t show "0 \<le> year_of_era doe" "year_of_era doe < 400" by simp_all
  from days_before_parts [OF p(2,4,5) t(1,2)] y p(1)
  have doy: "doe - days_before (year_of_era doe) = s - 365 * t" by simp
  from doy t show "0 \<le> doe - days_before (year_of_era doe)" "doe - days_before (year_of_era doe) \<le> 365"
    by simp_all
  assume "doe - days_before (year_of_era doe) = 365"
  with doy have s: "s = 365 * t + 365" by simp
  have "t = 3"
  proof (rule ccontr)
    assume "t \<noteq> 3"
    then have "t = s div 365" by (simp add: t_def min_def split: if_splits)
    with s show False by simp
  qed
  with s have "s = 1460" by simp
  have y': "year_of_era doe + 1 = 4 * (25 * c + q + 1)" using y \<open>t = 3\<close> by simp
  show "is_leap (year_of_era doe + 1)"
  proof (cases "q = 24")
    case True
    with p(8) \<open>s = 1460\<close> have "c = 3" by simp
    with True y' show ?thesis by (simp add: is_leap_def)
  next
    case False
    have "(4 * (q + 1) + 100 * c) mod 100 = 4 * (q + 1)"
      using False p(4,5) by (simp only: mod_mult_self2) simp
    moreover have "4 * (25 * c + q + 1) = 4 * (q + 1) + 100 * c" by simp
    ultimately have e: "(4 * (25 * c + q + 1)) mod 100 = 4 * (q + 1)" by (simp only:)
    have "(4 * (25 * c + q + 1)) mod 100 \<noteq> 0" unfolding e using p(4) by simp
    then show ?thesis unfolding is_leap_def y' by simp
  qed
qed

text \<open>Months counted from March: the first day of each, and the month of a day of the year.\<close>

definition month_ok :: "int \<Rightarrow> bool" where
  "month_ok doy \<longleftrightarrow> (let mp = (5 * doy + 2) div 153; day = doy - (153 * mp + 2) div 5 + 1
     in 0 \<le> mp \<and> mp \<le> 11 \<and> 1 \<le> day \<and> day \<le> 31
        \<and> (mp = 11 \<longrightarrow> day \<le> 29 \<and> (day = 29 \<longrightarrow> doy = 365))
        \<and> (mp = 1 \<or> mp = 3 \<or> mp = 6 \<or> mp = 8 \<longrightarrow> day \<le> 30))"

definition day_ok :: "int \<Rightarrow> int \<Rightarrow> bool" where
  "day_ok mp d \<longleftrightarrow>
     (let doy = (153 * mp + 2) div 5 + d - 1 in 0 \<le> doy \<and> (5 * doy + 2) div 153 = mp)"

definition month_length :: "int \<Rightarrow> int" where
  "month_length mp = (if mp = 11 then 29 else if mp = 1 \<or> mp = 3 \<or> mp = 6 \<or> mp = 8 then 30 else 31)"

lemma twelve_cases:
  assumes "0 \<le> mp" "mp \<le> (11::int)"
  obtains "mp = 0" | "mp = 1" | "mp = 2" | "mp = 3" | "mp = 4" | "mp = 5" | "mp = 6" | "mp = 7" | "mp = 8"
    | "mp = 9" | "mp = 10" | "mp = 11"
proof -
  have "mp \<in> set [0..11]" using assms by simp
  moreover have "[0..11] = [0, 1, 2, 3, 4, 5, 6, 7, 8, 9, 10, 11 :: int]" by (simp add: upto.simps)
  ultimately show thesis using that by auto
qed

lemma month_ok:
  assumes "0 \<le> doy" "doy \<le> 365"
  shows "month_ok doy"
proof -
  define mp where "mp = (5 * doy + 2) div 153"
  have mp: "0 \<le> mp" "mp \<le> 11" using div_bounds [of "5 * doy + 2" 153 11] assms by (simp_all add: mp_def)
  have lo: "153 * mp \<le> 5 * doy + 2" and hi: "5 * doy + 2 \<le> 153 * mp + 152"
    using mult_div_mod_eq [of 153 "5 * doy + 2"] pos_mod_bound [of 153 "5 * doy + 2"]
      pos_mod_sign [of 153 "5 * doy + 2"] unfolding mp_def by linarith+
  from mp show ?thesis
    unfolding month_ok_def Let_def mp_def [symmetric]
    by (cases rule: twelve_cases) (use lo hi assms in simp_all)
qed

lemma day_ok:
  assumes "0 \<le> mp" "mp \<le> 11" "1 \<le> d" "d \<le> month_length mp"
  shows "day_ok mp d"
proof -
  define doy where "doy = (153 * mp + 2) div 5 + d - 1"
  have "0 \<le> doy \<and> 153 * mp \<le> 5 * doy + 2 \<and> 5 * doy + 2 < 153 * mp + 153"
    using assms(1,2)
    by (cases rule: twelve_cases) (use assms(3,4) in \<open>simp_all add: doy_def month_length_def\<close>)
  moreover from this have "(5 * doy + 2) div 153 = mp"
    by (intro div_is [of _ _ _ "5 * doy + 2 - 153 * mp"]) simp_all
  ultimately show ?thesis by (simp add: day_ok_def Let_def doy_def [symmetric])
qed

section \<open>The two conversions are inverse\<close>

text \<open>The parts a civil date is made from, shared by both directions.\<close>

lemma days_from_civil_parts:
  assumes "0 \<le> mp" "mp \<le> 11" "0 \<le> yoe" "yoe < 400"
    and "month = (if mp < 10 then mp + 3 else mp - 9)"
    and "year = (if month \<le> 2 then yoe + era * 400 + 1 else yoe + era * 400)"
  shows "days_from_civil year month day =
     era * 146097 + (days_before yoe + ((153 * mp + 2) div 5 + day - 1)) - 719468"
proof -
  have y: "(if month \<le> 2 then year - 1 else year) = yoe + era * 400" using assms(6) by simp
  have m: "remn (month + 9) 12 = mp"
  proof (cases "mp < 10")
    case True
    then have "month + 9 = 12 + mp" using assms(5) by simp
    with assms(1,2) show ?thesis by (simp add: mod_add_self1)
  next
    case False
    then have "month + 9 = mp" using assms(5) by simp
    with assms(1,2) show ?thesis by simp
  qed
  have "(yoe + era * 400) div 400 = era" "(yoe + era * 400) mod 400 = yoe" using assms(3,4) by simp_all
  with y m assms(1,3) show ?thesis
    by (simp add: days_from_civil_def Let_def days_before_def)
qed

lemma civil_from_days_parts:
  assumes "0 \<le> yoe" "yoe < 400" "0 \<le> doy" "doy \<le> 365"
    and "year_of_era (days_before yoe + doy) = yoe" "0 \<le> days_before yoe + doy" "days_before yoe + doy < 146097"
    and "mp = (5 * doy + 2) div 153" "month = (if mp < 10 then mp + 3 else mp - 9)"
  shows "civil_from_days (era * 146097 + (days_before yoe + doy) - 719468) =
     (if month \<le> 2 then yoe + era * 400 + 1 else yoe + era * 400, nat month,
      nat (doy - (153 * mp + 2) div 5 + 1))"
proof -
  have z: "(era * 146097 + (days_before yoe + doy)) div 146097 = era"
    "(era * 146097 + (days_before yoe + doy)) mod 146097 = days_before yoe + doy"
    using assms(6,7) by simp_all
  from month_ok [OF assms(3,4)] have mp: "0 \<le> mp" "mp \<le> 11" and d: "0 \<le> doy - (153 * mp + 2) div 5 + 1"
    "doy - (153 * mp + 2) div 5 + 1 \<le> 31"
    unfolding month_ok_def Let_def assms(8) [symmetric] by linarith+
  have y: "days_before yoe + doy - (365 * yoe + quot yoe 4 - quot yoe 100) = doy"
    using assms(1) by (simp add: days_before_def)
  have q: "quot (5 * doy + 2) 153 = mp" "quot (153 * mp + 2) 5 = (153 * mp + 2) div 5"
    using assms(3,8) mp by simp_all
  have "civil_from_days (era * 146097 + (days_before yoe + doy) - 719468) =
     (if month \<le> 2 then yoe + era * 400 + 1 else yoe + era * 400, to_u32 month,
      to_u32 (doy - (153 * mp + 2) div 5 + 1))"
    unfolding civil_from_days_def Let_def diff_add_cancel z assms(5) y q assms(9) [symmetric] by (rule refl)
  moreover have "to_u32 month = nat month" using mp by (simp add: to_u32_def assms(9))
  moreover have "to_u32 (doy - (153 * mp + 2) div 5 + 1) = nat (doy - (153 * mp + 2) div 5 + 1)"
    using d by (simp add: to_u32_def)
  ultimately show ?thesis by simp
qed

lemma civil_from_days_obtain:
  fixes days :: int
  obtains era yoe doy mp month where
    "days = era * 146097 + (days_before yoe + doy) - 719468"
    "0 \<le> yoe" "yoe < 400" "0 \<le> doy" "doy \<le> 365" "doy = 365 \<longrightarrow> is_leap (yoe + 1)"
    "era = (days + 719468) div 146097" "0 \<le> mp" "mp \<le> 11" "mp = (5 * doy + 2) div 153"
    "month = (if mp < 10 then mp + 3 else mp - 9)" "month_ok doy"
    "civil_from_days days = (if month \<le> 2 then yoe + era * 400 + 1 else yoe + era * 400, nat month,
       nat (doy - (153 * mp + 2) div 5 + 1))"
proof -
  define doe where "doe = (days + 719468) mod 146097"
  define era where "era = (days + 719468) div 146097"
  define yoe where "yoe = year_of_era doe"
  define doy where "doy = doe - days_before yoe"
  define mp where "mp = (5 * doy + 2) div 153"
  define month where "month = (if mp < 10 then mp + 3 else mp - 9)"
  have doe: "0 \<le> doe" "doe < 146097" by (simp_all add: doe_def)
  note b = year_of_era_bounds [OF doe, folded yoe_def, folded doy_def]
  have split: "days_before yoe + doy = doe" by (simp add: doy_def)
  have days: "days = era * 146097 + (days_before yoe + doy) - 719468"
    unfolding split by (simp add: doe_def era_def)
  note ok = month_ok [OF b(3,4)]
  then have mp: "0 \<le> mp" "mp \<le> 11" unfolding month_ok_def Let_def mp_def [symmetric] by linarith+
  have "civil_from_days days = (if month \<le> 2 then yoe + era * 400 + 1 else yoe + era * 400,
      nat month, nat (doy - (153 * mp + 2) div 5 + 1))"
    unfolding days
    by (rule civil_from_days_parts [OF b(1-4) _ _ _ mp_def month_def]) (use split doe yoe_def in simp_all)
  moreover have "doy = 365 \<longrightarrow> is_leap (yoe + 1)" using b(5) by blast
  ultimately show thesis using that days b(1-4) era_def mp mp_def month_def ok by blast
qed

lemma month_day_ok:
  assumes "month_ok doy" "mp = (5 * doy + 2) div 153"
  shows "1 \<le> doy - (153 * mp + 2) div 5 + 1" "doy - (153 * mp + 2) div 5 + 1 \<le> 31"
    "mp = 11 \<Longrightarrow> doy - (153 * mp + 2) div 5 + 1 \<le> 29"
    "mp = 11 \<Longrightarrow> doy - (153 * mp + 2) div 5 + 1 = 29 \<Longrightarrow> doy = 365"
    "mp = 1 \<or> mp = 3 \<or> mp = 6 \<or> mp = 8 \<Longrightarrow> doy - (153 * mp + 2) div 5 + 1 \<le> 30"
  using assms(1) unfolding month_ok_def Let_def assms(2) [symmetric] by blast+

lemma days_of_civil_of_days:
  "days_from_civil (fst (civil_from_days days)) (int (fst (snd (civil_from_days days))))
     (int (snd (snd (civil_from_days days)))) = days"
proof (rule civil_from_days_obtain [of days])
  fix era yoe doy mp month :: int
  assume days: "days = era * 146097 + (days_before yoe + doy) - 719468" and yoe: "0 \<le> yoe" "yoe < 400"
    and mp: "0 \<le> mp" "mp \<le> 11" "mp = (5 * doy + 2) div 153"
    and month: "month = (if mp < 10 then mp + 3 else mp - 9)" and ok: "month_ok doy"
    and civil: "civil_from_days days = (if month \<le> 2 then yoe + era * 400 + 1 else yoe + era * 400,
      nat month, nat (doy - (153 * mp + 2) div 5 + 1))"
  have "0 \<le> month" using mp(1,2) by (simp add: month)
  with civil month_day_ok(1) [OF ok mp(3)]
  have "days_from_civil (fst (civil_from_days days)) (int (fst (snd (civil_from_days days))))
     (int (snd (snd (civil_from_days days)))) =
     days_from_civil (if month \<le> 2 then yoe + era * 400 + 1 else yoe + era * 400) month
       (doy - (153 * mp + 2) div 5 + 1)" by simp
  also have "\<dots> = era * 146097 + (days_before yoe + ((153 * mp + 2) div 5 + (doy - (153 * mp + 2) div 5 + 1) - 1)) - 719468"
    by (rule days_from_civil_parts [OF mp(1,2) yoe month refl])
  also have "\<dots> = days" unfolding days by simp
  finally show ?thesis .
qed

lemma year_of_era_exact:
  assumes "0 \<le> yoe" "yoe < 400" "0 \<le> doy" "doy \<le> 365" and "doy = 365 \<Longrightarrow> is_leap (yoe + 1)"
  shows "year_of_era (days_before yoe + doy) = yoe" "0 \<le> days_before yoe + doy"
    "days_before yoe + doy < 146097"
proof -
  define c where "c = yoe div 100"
  define r where "r = yoe mod 100"
  define q where "q = r div 4"
  define t where "t = r mod 4"
  have r: "0 \<le> r" "r < 100" by (simp_all add: r_def)
  have yoe: "yoe = 100 * c + 4 * q + t"
    using mult_div_mod_eq [of 100 yoe] mult_div_mod_eq [of 4 r] by (simp add: c_def q_def t_def r_def)
  have c: "0 \<le> c" "c \<le> 3" using div_bounds [of yoe 100 3] assms(1,2) by (simp_all add: c_def)
  have q: "0 \<le> q" "q \<le> 24" using div_bounds [of r 4 24] r by (simp_all add: q_def)
  have t: "0 \<le> t" "t \<le> 3" using pos_mod_bound [of 4 r] by (simp_all add: t_def)
  have leap: "t = 3 \<and> (q = 24 \<longrightarrow> c = 3)" if "doy = 365"
  proof -
    from assms(5) [OF that] have l: "(yoe + 1) mod 4 = 0" "(yoe + 1) mod 100 \<noteq> 0 \<or> (yoe + 1) mod 400 = 0"
      by (auto simp: is_leap_def)
    from l(1) yoe have "(t + 1) mod 4 = 0" by presburger
    with t have "t = 3" by presburger
    moreover have "c = 3" if "q = 24"
    proof -
      from yoe that \<open>t = 3\<close> have y: "yoe + 1 = 100 * (c + 1)" by simp
      with l(2) have l2: "(100 * (c + 1)) mod 400 = 0" by simp
      from c consider "c = 0" | "c = 1" | "c = 2" | "c = 3" by linarith
      then show ?thesis using l2 by cases simp_all
    qed
    ultimately show ?thesis by simp
  qed
  have s: "365 * t + doy \<le> 1460" "q = 24 \<Longrightarrow> 365 * t + doy < 1460 \<or> c = 3" "0 \<le> 365 * t + doy"
    using t assms(3,4) leap by (cases "doy = 365"; force)+
  have "min 3 ((365 * t + doy) div 365) = t"
  proof (cases "doy = 365")
    case True
    with leap show ?thesis by simp
  next
    case False
    then have "(365 * t + doy) div 365 = t"
      by (intro div_is [of _ _ _ doy]) (use assms(3,4) in simp_all)
    with t show ?thesis by simp
  qed
  moreover have doe: "days_before yoe + doy = 36524 * c + 1461 * q + (365 * t + doy)"
    unfolding yoe days_before_parts [OF c(1) q t] by simp
  ultimately show "year_of_era (days_before yoe + doy) = yoe"
    unfolding doe using year_of_era_parts [OF c q s(3,1,2)] yoe by simp
  show "0 \<le> days_before yoe + doy" "days_before yoe + doy < 146097"
    unfolding doe using c q s(1,3) by linarith+
qed

lemma civil_of_days_of_civil:
  assumes "valid_date y m d"
  shows "civil_from_days (days_from_civil y m d) = (y, nat m, nat d)"
proof -
  define mp where "mp = (if m \<le> 2 then m + 9 else m - 3)"
  define y' where "y' = (if m \<le> 2 then y - 1 else y)"
  define yoe where "yoe = y' mod 400"
  define era where "era = y' div 400"
  define doy where "doy = (153 * mp + 2) div 5 + d - 1"
  have m: "1 \<le> m" "m \<le> 12" and d: "1 \<le> d" "d \<le> days_in_month y m" using assms by (simp_all add: valid_date_def)
  have mp: "0 \<le> mp" "mp \<le> 11" and month: "m = (if mp < 10 then mp + 3 else mp - 9)"
    using m by (auto simp: mp_def)
  have yoe: "0 \<le> yoe" "yoe < 400" and y': "y' = yoe + era * 400" by (simp_all add: yoe_def era_def)
  have year: "y = (if m \<le> 2 then yoe + era * 400 + 1 else yoe + era * 400)"
    using y' by (simp add: y'_def split: if_splits)
  have len: "d \<le> month_length mp"
    using d(2) m month mp by (auto simp: days_in_month_leap month_length_def split: if_splits)
  from day_ok [OF mp d(1) len] have doy: "0 \<le> doy" and mp_doy: "mp = (5 * doy + 2) div 153"
    unfolding day_ok_def Let_def doy_def [symmetric] by simp_all
  have "doy \<le> 365 \<and> (doy = 365 \<longrightarrow> mp = 11 \<and> d = 29)"
    using mp by (cases rule: twelve_cases) (use len in \<open>auto simp: doy_def month_length_def\<close>)
  moreover have "is_leap (yoe + 1)" if "mp = 11" "d = 29"
  proof -
    from that month have "m = 2" by simp
    with d(2) that have "is_leap y" by (auto simp: days_in_month_leap split: if_splits)
    moreover from year \<open>m = 2\<close> have "y = yoe + 1 + 400 * era" by simp
    ultimately show ?thesis by simp
  qed
  ultimately have doy': "doy \<le> 365" and leap: "doy = 365 \<Longrightarrow> is_leap (yoe + 1)" by blast+
  have "days_from_civil y m d = era * 146097 + (days_before yoe + doy) - 719468"
    using days_from_civil_parts [OF mp yoe month year, of d] by (simp add: doy_def)
  moreover have "civil_from_days (era * 146097 + (days_before yoe + doy) - 719468) =
      (if m \<le> 2 then yoe + era * 400 + 1 else yoe + era * 400, nat m, nat (doy - (153 * mp + 2) div 5 + 1))"
    by (rule civil_from_days_parts [OF yoe doy doy' year_of_era_exact [OF yoe doy doy' leap] mp_doy month])
  ultimately show ?thesis using year by (simp add: doy_def)
qed

lemma civil_from_days_valid:
  assumes "civil_from_days days = (y, m, d)"
  shows "valid_date y (int m) (int d)"
proof (rule civil_from_days_obtain [of days])
  fix era yoe doy mp month :: int
  assume leap: "doy = 365 \<longrightarrow> is_leap (yoe + 1)"
    and mp: "0 \<le> mp" "mp \<le> 11" "mp = (5 * doy + 2) div 153"
    and month: "month = (if mp < 10 then mp + 3 else mp - 9)" and ok: "month_ok doy"
    and civil: "civil_from_days days = (if month \<le> 2 then yoe + era * 400 + 1 else yoe + era * 400,
      nat month, nat (doy - (153 * mp + 2) div 5 + 1))"
  define day where "day = doy - (153 * mp + 2) div 5 + 1"
  note day = month_day_ok [OF ok mp(3), folded day_def]
  have y: "y = (if month \<le> 2 then yoe + 1 + 400 * era else yoe + 400 * era)"
    and md: "m = nat month" "d = nat day" using civil assms by (auto simp: day_def split: if_splits)
  have m: "1 \<le> month" "month \<le> 12" using mp(1,2) by (auto simp: month)
  have feb: "day \<le> (if is_leap y then 29 else 28)" if "month = 2"
  proof -
    from that mp(1,2) have "mp = 11" by (auto simp: month split: if_splits)
    with day(3,4) leap have "day \<le> 29" "day = 29 \<Longrightarrow> is_leap (yoe + 1)" by simp_all
    with y that show ?thesis by (cases "day = 29") auto
  qed
  have "day \<le> 30" if "month = 4 \<or> month = 6 \<or> month = 9 \<or> month = 11"
    using that day(5) mp(1,2) by (auto simp: month split: if_splits)
  with feb day(2) have "day \<le> days_in_month y month" by (simp add: days_in_month_leap)
  with md m day(1) show ?thesis by (simp add: valid_date_def)
qed

text \<open>From the first day of the year zero on, the year is not negative.\<close>

lemma year_nonneg:
  assumes "- 719528 \<le> days"
  shows "0 \<le> fst (civil_from_days days)"
proof (rule civil_from_days_obtain [of days])
  fix era yoe doy mp month :: int
  assume days: "days = era * 146097 + (days_before yoe + doy) - 719468"
    and yoe: "0 \<le> yoe" "yoe < 400" and doy: "0 \<le> doy" "doy \<le> 365"
    and era: "era = (days + 719468) div 146097"
    and mp: "0 \<le> mp" "mp \<le> 11" "mp = (5 * doy + 2) div 153"
    and month: "month = (if mp < 10 then mp + 3 else mp - 9)"
    and civil: "civil_from_days days = (if month \<le> 2 then yoe + era * 400 + 1 else yoe + era * 400,
      nat month, nat (doy - (153 * mp + 2) div 5 + 1))"
  have "- 1 \<le> era" unfolding era using zdiv_mono1 [of "- 60" "days + 719468" 146097] assms by simp
  show ?thesis
  proof (cases "era = - 1")
    case False
    with \<open>- 1 \<le> era\<close> yoe civil show ?thesis by simp
  next
    case True
    have b: "0 \<le> yoe div 4" "yoe div 4 \<le> 99" "0 \<le> yoe div 100" "yoe div 100 \<le> 3"
      using div_bounds [of yoe 4 99] div_bounds [of yoe 100 3] yoe by simp_all
    have late: "146037 \<le> days_before yoe + doy" using days assms True by simp
    then have "399 \<le> yoe" using b doy unfolding days_before_def by linarith
    then have "yoe = 399" using yoe by simp
    with late have "306 \<le> doy" by (simp add: days_before_def)
    then have "10 \<le> mp" unfolding mp(3) using zdiv_mono1 [of 1530 "5 * doy + 2" 153] by simp
    with mp(2) have "month \<le> 2" by (simp add: month)
    with True \<open>yoe = 399\<close> civil show ?thesis by simp
  qed
qed

section \<open>RFC 3339 text\<close>

text \<open>\<open>{:0w}\<close> on a signed integer.\<close>

definition show_int_pad :: "nat \<Rightarrow> int \<Rightarrow> string" where
  "show_int_pad w n = (if n < 0 then CHR ''-'' # show_pad (w - 1) (nat (- n)) else show_pad w (nat n))"

definition rfc3339_from_parts :: "int \<Rightarrow> nat \<Rightarrow> string" where
  "rfc3339_from_parts secs nanos =
     (let seconds_of_day = secs mod 86400;
          hours = seconds_of_day div 3600;
          minutes = (seconds_of_day mod 3600) div 60;
          seconds = seconds_of_day mod 60;
          (year, month, day) = civil_from_days (secs div 86400)
      in show_int_pad 4 year @ ''-'' @ show_pad 2 month @ ''-'' @ show_pad 2 day @ ''T'' @
         show_int_pad 2 hours @ '':'' @ show_int_pad 2 minutes @ '':'' @ show_int_pad 2 seconds @ ''.'' @
         show_pad 9 nanos @ ''Z'')"

definition utc_calendar_from_epoch_secs :: "int \<Rightarrow> string" where
  "utc_calendar_from_epoch_secs secs =
     (let seconds_of_day = secs mod 86400;
          (year, month, day) = civil_from_days (secs div 86400)
      in show_int_pad 4 year @ ''-'' @ show_pad 2 month @ ''-'' @ show_pad 2 day @ '' '' @
         show_int_pad 2 (seconds_of_day div 3600) @ '':'' @ show_int_pad 2 ((seconds_of_day mod 3600) div 60) @
         '':'' @ show_int_pad 2 (seconds_of_day mod 60))"

definition three_numbers :: "string \<Rightarrow> char \<Rightarrow> (int \<times> int \<times> int) option" where
  "three_numbers text sep =
     (case map parse_i64 (split_on sep text) of
        [Some a, Some b, Some c] \<Rightarrow> Some (a, b, c)
      | _ \<Rightarrow> None)"

definition epoch_secs_from_rfc3339 :: "string \<Rightarrow> int option" where
  "epoch_secs_from_rfc3339 text =
     Option.bind (strip_suffix ''Z'' text) (\<lambda>body.
     Option.bind (split_once (CHR ''T'') body) (\<lambda>(date, time).
     Option.bind (three_numbers date (CHR ''-'')) (\<lambda>(year, month, day).
     Option.bind (three_numbers (hd (split_on (CHR ''.'') time)) (CHR '':'')) (\<lambda>(hours, minutes, seconds).
       Some (days_from_civil year month day * 86400 + hours * 3600 + minutes * 60 + seconds)))))"

definition epoch_secs_from_civil :: "int \<Rightarrow> int \<Rightarrow> int \<Rightarrow> int \<Rightarrow> int \<Rightarrow> int" where
  "epoch_secs_from_civil year month day hours minutes =
     days_from_civil year month day * 86400 + hours * 3600 + minutes * 60"

lemma digit_char_not [simp]: "is_digit c \<Longrightarrow> c \<noteq> CHR ''-''" "is_digit c \<Longrightarrow> c \<noteq> CHR ''+''"
  "is_digit c \<Longrightarrow> c \<noteq> CHR '':''" "is_digit c \<Longrightarrow> c \<noteq> CHR ''.''" "is_digit c \<Longrightarrow> c \<noteq> CHR ''T''"
  by (auto simp: is_digit_def)

lemma show_pad_not_digit: "\<not> is_digit c \<Longrightarrow> c \<notin> set (show_pad w n)"
  using show_pad_digits [of w n] by (auto simp: list_all_iff)

lemma not_digits [simp]: "\<not> is_digit (CHR ''-'')" "\<not> is_digit (CHR ''+'')" "\<not> is_digit (CHR '':'')"
  "\<not> is_digit (CHR ''.'')" "\<not> is_digit (CHR ''T'')" "\<not> is_digit (CHR ''Z'')"
  by (simp_all add: is_digit_def)

lemma parse_i64_show_pad:
  assumes "n \<le> 9223372036854775807"
  shows "parse_i64 (show_pad w n) = Some (int n)"
proof -
  obtain c cs where c: "show_pad w n = c # cs" by (cases "show_pad w n") auto
  with show_pad_digits [of w n] have "is_digit c" by simp
  then have "c \<noteq> CHR ''-''" "c \<noteq> CHR ''+''" by auto
  with c have "parse_i64 (show_pad w n) = parse_i64 (c # cs) \<and> digits_val (c # cs) = n \<and> list_all is_digit (c # cs)"
    using digits_val_show_pad [of w n] show_pad_digits [of w n] by simp
  with \<open>c \<noteq> CHR ''-''\<close> \<open>c \<noteq> CHR ''+''\<close> assms show ?thesis by (simp add: parse_i64_def Let_def)
qed

lemma three_numbers_show:
  assumes "\<not> is_digit c" "a \<le> 9223372036854775807" "b \<le> 9223372036854775807" "d \<le> 9223372036854775807"
  shows "three_numbers (show_pad u a @ c # show_pad v b @ c # show_pad w d) c = Some (int a, int b, int d)"
  using assms
  by (simp add: three_numbers_def split_on_append_sep split_on_absent show_pad_not_digit parse_i64_show_pad)

text \<open>Years of at most eleven digits keep the whole computation inside \<open>i64\<close>.\<close>

lemma days_bound:
  assumes "\<bar>year\<bar> \<le> 99999999999" "1 \<le> month" "month \<le> 12" "1 \<le> day" "day \<le> 31"
  shows "\<bar>days_from_civil year month day\<bar> \<le> 36600000000000"
proof -
  define mp where "mp = (if month \<le> 2 then month + 9 else month - 3)"
  define y where "y = (if month \<le> 2 then year - 1 else year)"
  have mp: "0 \<le> mp" "mp \<le> 11" and month: "month = (if mp < 10 then mp + 3 else mp - 9)"
    using assms(2,3) by (auto simp: mp_def)
  have yoe: "0 \<le> y mod 400" "y mod 400 < 400" and y: "y = y mod 400 + y div 400 * 400" by simp_all
  then have year: "year = (if month \<le> 2 then y mod 400 + y div 400 * 400 + 1 else y mod 400 + y div 400 * 400)"
    by (auto simp: y_def)
  define t where "t = days_before (y mod 400) + ((153 * mp + 2) div 5 + day - 1)"
  have "\<bar>y\<bar> \<le> 100000000000" using assms(1) by (auto simp: y_def)
  with y yoe have era: "- 250000001 \<le> y div 400" "y div 400 \<le> 250000000" by linarith+
  have "0 \<le> y mod 400 div 4" "y mod 400 div 4 \<le> 99" "0 \<le> y mod 400 div 100" "y mod 400 div 100 \<le> 3"
    using div_bounds [of "y mod 400" 4 99] div_bounds [of "y mod 400" 100 3] yoe by simp_all
  moreover have "0 \<le> (153 * mp + 2) div 5" "(153 * mp + 2) div 5 \<le> 337"
    using div_bounds [of "153 * mp + 2" 5 337] mp by simp_all
  ultimately have t: "- 3 \<le> t" "t \<le> 147000" using yoe assms(4,5) unfolding t_def days_before_def by linarith+
  have "days_from_civil year month day = y div 400 * 146097 + t - 719468"
    using days_from_civil_parts [OF mp yoe month year, of day] by (simp add: t_def)
  with era t show ?thesis unfolding abs_le_iff by linarith
qed

section \<open>Properties\<close>

text \<open>
  The two calendar conversions are inverse to each other: every day number names a real
  date of the Gregorian calendar whose day number it is, and every real date is the date of
  its day number.
\<close>

theorem civil_days_bijection:
  "(let (y, m, d) = civil_from_days days in
      valid_date y (int m) (int d) \<and> days_from_civil y (int m) (int d) = days)
   \<and> (valid_date y m d \<longrightarrow> civil_from_days (days_from_civil y m d) = (y, nat m, nat d))"
  using civil_from_days_valid [of days] days_of_civil_of_days [of days] civil_of_days_of_civil [of y m d]
  by (cases "civil_from_days days") simp

theorem civil_days_bijection_witness:
  "civil_from_days (days_from_civil 2000 2 29) = (2000, 2, 29)"
  using civil_days_bijection [of 0 2000 2 29] by (simp add: valid_date_def days_in_month_def remn_def)

lemma show_int_pad_nonneg [simp]: "0 \<le> n \<Longrightarrow> show_int_pad w n = show_pad w (nat n)"
  by (simp add: show_int_pad_def)

lemma time_of_day:
  "(s mod 86400) div 3600 * 3600 + (s mod 86400) mod 3600 div 60 * 60 + (s mod 86400) mod 60 = s mod (86400::int)"
proof -
  define r where "r = s mod 86400"
  have "r mod 3600 mod 60 = r mod 60" by (rule mod_mod_cancel) simp
  then show ?thesis
    using mult_div_mod_eq [of 3600 r] mult_div_mod_eq [of 60 "r mod 3600"] unfolding r_def [symmetric] by linarith
qed

lemma civil_u32:
  assumes "civil_from_days days = (y, m, d)"
  shows "1 \<le> m" "m \<le> 12" "1 \<le> d" "d \<le> 31"
  using civil_from_days_valid [OF assms]
  by (auto simp: valid_date_def days_in_month_leap split: if_splits)

text \<open>
  RFC 3339 text read back: from the first second of the year zero on, and as long as the
  year fits in \<open>i64\<close>, reading the text that was written for an instant gives its seconds.
\<close>

theorem rfc3339_roundtrip:
  assumes "- 62167219200 \<le> secs" and "fst (civil_from_days (secs div 86400)) \<le> 9223372036854775807"
  shows "epoch_secs_from_rfc3339 (rfc3339_from_parts secs nanos) = Some secs"
proof -
  obtain y m d where c: "civil_from_days (secs div 86400) = (y, m, d)" by (metis prod_cases3)
  have "- 719528 \<le> secs div 86400" using zdiv_mono1 [OF assms(1), of 86400] by simp
  from year_nonneg [OF this] c have y: "0 \<le> y" by simp
  define h where "h = (secs mod 86400) div 3600"
  define mi where "mi = (secs mod 86400) mod 3600 div 60"
  define se where "se = (secs mod 86400) mod 60"
  have time: "0 \<le> h" "h < 24" "0 \<le> mi" "mi < 60" "0 \<le> se" "se < 60"
    using div_bounds [of "secs mod 86400" 3600 23] div_bounds [of "(secs mod 86400) mod 3600" 60 59]
    by (simp_all add: h_def mi_def se_def)
  define date where "date = show_pad 4 (nat y) @ ''-'' @ show_pad 2 m @ ''-'' @ show_pad 2 d"
  define clock where "clock = show_pad 2 (nat h) @ '':'' @ show_pad 2 (nat mi) @ '':'' @ show_pad 2 (nat se)"
  define body where "body = date @ ''T'' @ clock @ ''.'' @ show_pad 9 nanos"
  have written: "rfc3339_from_parts secs nanos = body @ ''Z''"
    using y time unfolding rfc3339_from_parts_def Let_def c h_def [symmetric] mi_def [symmetric] se_def [symmetric]
    by (simp add: body_def date_def clock_def)
  have strip: "strip_suffix ''Z'' (body @ ''Z'') = Some body" by (simp add: strip_suffix_def)
  have noT: "CHR ''T'' \<notin> set date" by (simp add: date_def show_pad_not_digit)
  have once: "split_once t (a @ t # b) = Some (a, b)" if "t \<notin> set a" for t :: char and a b
    using that by (induction a) auto
  have cut: "split_once (CHR ''T'') body = Some (date, clock @ ''.'' @ show_pad 9 nanos)"
    using once [OF noT] by (simp add: body_def)
  have whole: "hd (split_on (CHR ''.'') (clock @ CHR ''.'' # show_pad 9 nanos)) = clock"
    by (simp add: clock_def split_on_append_sep show_pad_not_digit flip: append_assoc)
  have d: "three_numbers date (CHR ''-'') = Some (y, int m, int d)"
    using three_numbers_show [of "CHR ''-''" "nat y" m d 4 2 2] y assms(2) c civil_u32 [OF c]
    by (simp add: date_def)
  have t: "three_numbers clock (CHR '':'') = Some (h, mi, se)"
    using three_numbers_show [of "CHR '':''" "nat h" "nat mi" "nat se" 2 2 2] time by (simp add: clock_def)
  have days: "days_from_civil y (int m) (int d) = secs div 86400"
    using days_of_civil_of_days [of "secs div 86400"] c by simp
  have "secs div 86400 * 86400 + (h * 3600 + mi * 60 + se) = secs"
    using time_of_day [of secs] unfolding h_def mi_def se_def by simp
  then show ?thesis
    unfolding written epoch_secs_from_rfc3339_def
    by (simp add: strip cut whole d t days algebra_simps)
qed

theorem rfc3339_roundtrip_witness:
  "epoch_secs_from_rfc3339 (rfc3339_from_parts 1794128400 7) = Some 1794128400
   \<and> rfc3339_from_parts 1794128400 7 = ''2026-11-08T09:00:00.000000007Z''"
proof -
  have "fst (civil_from_days (1794128400 div 86400)) \<le> 9223372036854775807" by code_simp
  from rfc3339_roundtrip [OF _ this, of 7] show ?thesis by (simp; code_simp)
qed

end
