(* ===== verification/At_Time.thy ===== *)
theory At_Time
  imports Calendar
begin

text \<open>
  \<open>src/src/domain/agent/at.rs\<close>: the absolute time of a one-shot agent, parsed from
  \<open>YYYY-MM-DDTHH:MM\<close> with an optional offset.  Slicing by byte positions is on the byte list;
  a slice that ends inside a character never consists of the ASCII bytes asked for, so the
  character-boundary check of \<open>str::get\<close> never decides.
\<close>

record at_time =
  at_year :: int
  at_month :: int
  at_day :: int
  at_hour :: int
  at_minute :: int
  at_offset :: "int option"

definition max_offset_minutes :: int where
  "max_offset_minutes = 14 * 60"

definition str_get :: "string \<Rightarrow> nat \<Rightarrow> nat \<Rightarrow> string option" where
  "str_get s a b = (if a \<le> b \<and> b \<le> length s then Some (take (b - a) (drop a s)) else None)"

definition at_digits :: "string \<Rightarrow> nat \<Rightarrow> nat \<Rightarrow> int option" where
  "at_digits s a b =
     Option.bind (str_get s a b) (\<lambda>part.
       if part = [] \<or> \<not> list_all is_digit part then None else parse_i64 part)"

definition separator :: "string \<Rightarrow> nat \<Rightarrow> char \<Rightarrow> unit option" where
  "separator s at expected =
     Option.bind (str_get s at (at + 1)) (\<lambda>part. if part = [expected] then Some () else None)"

definition offset_of :: "string \<Rightarrow> int option option" where
  "offset_of tail =
     (if tail = [] then Some None
      else if tail = ''Z'' then Some (Some 0)
      else Option.bind (str_get tail 0 1) (\<lambda>sg.
        if sg \<noteq> ''+'' \<and> sg \<noteq> ''-'' then None
        else let sign = (if sg = ''+'' then 1 else - 1) in
          Option.bind (separator tail 3 (CHR '':'')) (\<lambda>_.
            if length tail \<noteq> 6 then None
            else Option.bind (at_digits tail 1 3) (\<lambda>hours.
              Option.bind (at_digits tail 4 6) (\<lambda>minutes.
                let total = hours * 60 + minutes in
                if minutes < 60 \<and> total \<le> max_offset_minutes then Some (Some (sign * total)) else None)))))"

definition is_relative :: "string \<Rightarrow> bool" where
  "is_relative s \<longleftrightarrow> list_ex (\<lambda>u.
     case strip_suffix [u] s of None \<Rightarrow> False | Some n \<Rightarrow> n \<noteq> [] \<and> list_all is_digit n) ''smhdw''"

definition at_parts :: "string \<Rightarrow> at_time option" where
  "at_parts s =
     Option.bind (separator s 4 (CHR ''-'')) (\<lambda>_.
     Option.bind (separator s 7 (CHR ''-'')) (\<lambda>_.
     Option.bind (separator s 10 (CHR ''T'')) (\<lambda>_.
     Option.bind (separator s 13 (CHR '':'')) (\<lambda>_.
     Option.bind (at_digits s 0 4) (\<lambda>y.
     Option.bind (at_digits s 5 7) (\<lambda>mo.
     Option.bind (at_digits s 8 10) (\<lambda>d.
     Option.bind (at_digits s 11 13) (\<lambda>h.
     Option.bind (at_digits s 14 16) (\<lambda>mi.
     Option.bind (str_get s 16 (length s)) (\<lambda>tail.
     Option.bind (offset_of tail) (\<lambda>off.
       Some \<lparr>at_year = y, at_month = mo, at_day = d, at_hour = h, at_minute = mi, at_offset = off\<rparr>)))))))))))"

definition at_real :: "at_time \<Rightarrow> bool" where
  "at_real t \<longleftrightarrow> 1970 \<le> at_year t \<and> at_year t \<le> 9999 \<and> 1 \<le> at_month t \<and> at_month t \<le> 12
     \<and> 1 \<le> at_day t \<and> at_day t \<le> days_in_month (at_year t) (at_month t)
     \<and> at_hour t < 24 \<and> at_minute t < 60"

definition at_parse :: "string \<Rightarrow> string + at_time" where
  "at_parse s =
     (if is_relative s then
        Inl (quoted s @ '' is relative; write an absolute time like 2026-11-08T09:00 or 2026-11-08T09:00-03:00'')
      else (case at_parts s of
         None \<Rightarrow> Inl (quoted s @ '' is not an absolute time like 2026-11-08T09:00 or 2026-11-08T09:00-03:00 (minute precision)'')
       | Some t \<Rightarrow> if at_real t then Inr t else Inl (quoted s @ '' is not a real calendar time'')))"

definition civil_secs :: "at_time \<Rightarrow> int" where
  "civil_secs t = epoch_secs_from_civil (at_year t) (at_month t) (at_day t) (at_hour t) (at_minute t)"

definition at_wall :: "at_time \<Rightarrow> string" where
  "at_wall t = show_int_pad 4 (at_year t) @ ''-'' @ show_int_pad 2 (at_month t) @ ''-'' @
     show_int_pad 2 (at_day t) @ '' '' @ show_int_pad 2 (at_hour t) @ '':'' @ show_int_pad 2 (at_minute t)"

definition file_stamp :: "at_time \<Rightarrow> string" where
  "file_stamp t = show_int_pad 4 (at_year t) @ ''-'' @ show_int_pad 2 (at_month t) @ ''-'' @
     show_int_pad 2 (at_day t) @ ''T'' @ show_int_pad 2 (at_hour t) @ show_int_pad 2 (at_minute t)"

definition at_on_calendar :: "at_time \<Rightarrow> string" where
  "at_on_calendar t =
     (case at_offset t of
        None \<Rightarrow> at_wall t @ '':00''
      | Some off \<Rightarrow> utc_calendar_from_epoch_secs (civil_secs t - off * 60) @ '' UTC'')"

definition at_epoch_secs :: "(string \<Rightarrow> int option) \<Rightarrow> at_time \<Rightarrow> int option" where
  "at_epoch_secs local t =
     (case at_offset t of
        Some off \<Rightarrow> Some (civil_secs t - off * 60)
      | None \<Rightarrow> local (at_wall t))"

definition at_display :: "at_time \<Rightarrow> string" where
  "at_display t =
     show_int_pad 4 (at_year t) @ ''-'' @ show_int_pad 2 (at_month t) @ ''-'' @
     show_int_pad 2 (at_day t) @ ''T'' @ show_int_pad 2 (at_hour t) @ '':'' @ show_int_pad 2 (at_minute t) @
     (case at_offset t of
        None \<Rightarrow> []
      | Some off \<Rightarrow> if off = 0 then ''Z''
          else [if off < 0 then CHR ''-'' else CHR ''+''] @ show_int_pad 2 (quot (abs off) 60) @ '':'' @
               show_int_pad 2 (remn (abs off) 60))"

section \<open>What the parser accepts\<close>

text \<open>The values a parsed time can have.\<close>

definition at_valid :: "at_time \<Rightarrow> bool" where
  "at_valid t \<longleftrightarrow> at_real t \<and> 0 \<le> at_hour t \<and> 0 \<le> at_minute t
     \<and> (case at_offset t of None \<Rightarrow> True | Some off \<Rightarrow> - max_offset_minutes \<le> off \<and> off \<le> max_offset_minutes)"

lemma parse_i64_digits:
  assumes "part \<noteq> []" "list_all is_digit part"
  shows "parse_i64 part = (if digits_val part \<le> 9223372036854775807 then Some (int (digits_val part)) else None)"
proof -
  obtain c cs where c: "part = c # cs" using assms(1) by (cases part) auto
  with assms(2) have "c \<noteq> CHR ''-''" "c \<noteq> CHR ''+''" by auto
  with c assms show ?thesis by (simp add: parse_i64_def Let_def)
qed

lemma at_digits_nonneg: "at_digits s a b = Some n \<Longrightarrow> 0 \<le> n"
  by (auto simp: at_digits_def parse_i64_digits bind_eq_Some_conv split: if_splits)

lemma offset_of_bound:
  "offset_of tail = Some (Some off) \<Longrightarrow> - max_offset_minutes \<le> off \<and> off \<le> max_offset_minutes"
  by (auto simp: offset_of_def bind_eq_Some_conv Let_def max_offset_minutes_def
      dest!: at_digits_nonneg split: if_splits)

lemma at_parse_valid:
  assumes "at_parse s = Inr t"
  shows "at_valid t"
proof -
  have real: "at_real t" and parts: "at_parts s = Some t"
    using assms by (auto simp: at_parse_def split: if_splits option.splits)
  then show ?thesis
    by (auto simp: at_valid_def at_parts_def bind_eq_Some_conv dest: at_digits_nonneg offset_of_bound
        split: option.splits)
qed

section \<open>Reading back what was displayed\<close>

lemma show_pad_two:
  assumes "0 \<le> n" "n < 100"
  obtains a b where "show_int_pad 2 n = [a, b]" "is_digit a" "is_digit b" "parse_i64 [a, b] = Some n"
proof -
  have l: "length (show_int_pad 2 n) = 2" using length_show_pad [of "nat n" 1] assms by (simp add: numeral_2_eq_2)
  then obtain a b where ab: "show_int_pad 2 n = [a, b]"
    by (auto simp: numeral_2_eq_2 length_Suc_conv)
  with assms show_pad_digits [of 2 "nat n"] parse_i64_show_pad [of "nat n" 2] that show thesis by auto
qed

lemma show_pad_four:
  assumes "0 \<le> n" "n < 10000"
  obtains a b c d where "show_int_pad 4 n = [a, b, c, d]" "is_digit a" "is_digit b" "is_digit c" "is_digit d"
    "parse_i64 [a, b, c, d] = Some n"
proof -
  have l: "length (show_int_pad 4 n) = 4" using length_show_pad [of "nat n" 3] assms by simp
  then obtain a b c d where ab: "show_int_pad 4 n = [a, b, c, d]"
    by (auto simp: numeral_eq_Suc length_Suc_conv)
  with assms show_pad_digits [of 4 "nat n"] parse_i64_show_pad [of "nat n" 4] that show thesis by auto
qed

definition offset_text :: "int option \<Rightarrow> string" where
  "offset_text o' = (case o' of
        None \<Rightarrow> []
      | Some off \<Rightarrow> if off = 0 then ''Z''
          else [if off < 0 then CHR ''-'' else CHR ''+''] @ show_int_pad 2 (quot (abs off) 60) @ '':'' @
               show_int_pad 2 (remn (abs off) 60))"

lemma offset_of_signed:
  assumes "list_all is_digit [h1, h2, m1, m2]" "parse_i64 [h1, h2] = Some h" "parse_i64 [m1, m2] = Some m"
    and "m < 60" "h * 60 + m \<le> max_offset_minutes" "sg = CHR ''+'' \<or> sg = CHR ''-''"
  shows "offset_of [sg, h1, h2, CHR '':'', m1, m2] = Some (Some ((if sg = CHR ''+'' then 1 else - 1) * (h * 60 + m)))"
  using assms by (auto simp: offset_of_def str_get_def at_digits_def separator_def)

lemma offset_of_text:
  assumes "case off of None \<Rightarrow> True | Some n \<Rightarrow> - max_offset_minutes \<le> n \<and> n \<le> max_offset_minutes"
  shows "offset_of (offset_text off) = Some off"
proof (cases off)
  case (Some n)
  show ?thesis
  proof (cases "n = 0")
    case False
    define a where "a = abs n"
    have a: "0 \<le> a" "a \<le> 840" using assms Some by (auto simp: a_def max_offset_minutes_def)
    have h: "0 \<le> a div 60" "a div 60 < 100" using div_bounds [of a 60 14] a by simp_all
    obtain h1 h2 where hh: "show_int_pad 2 (a div 60) = [h1, h2]" "is_digit h1" "is_digit h2"
      "parse_i64 [h1, h2] = Some (a div 60)" using show_pad_two [OF h] by blast
    have m: "0 \<le> a mod 60" "a mod 60 < 100" using pos_mod_bound [of 60 a] by simp_all
    obtain m1 m2 where mm: "show_int_pad 2 (a mod 60) = [m1, m2]" "is_digit m1" "is_digit m2"
      "parse_i64 [m1, m2] = Some (a mod 60)" using show_pad_two [OF m] by blast
    define sg where "sg = (if n < 0 then CHR ''-'' else CHR ''+'')"
    have txt_eq: "offset_text off = [sg, h1, h2, CHR '':'', m1, m2]"
      using Some False hh(1) mm(1) a(1) by (simp add: offset_text_def sg_def flip: a_def)
    have whole: "a div 60 * 60 + a mod 60 = a" by simp
    have "offset_of (offset_text off) = Some (Some ((if sg = CHR ''+'' then 1 else - 1) * (a div 60 * 60 + a mod 60)))"
      unfolding txt_eq
      by (rule offset_of_signed) (use hh mm a in \<open>auto simp: sg_def max_offset_minutes_def\<close>)
    moreover have "(if sg = CHR ''+'' then 1 else - 1) * a = n" using False by (auto simp: sg_def a_def)
    ultimately show ?thesis unfolding whole using Some by simp
  qed (simp add: Some offset_text_def offset_of_def)
qed (simp add: offset_text_def offset_of_def)

lemma at_parts_text:
  assumes "list_all is_digit [y1, y2, y3, y4, o1, o2, d1, d2, h1, h2, m1, m2]"
    and "parse_i64 [y1, y2, y3, y4] = Some y" "parse_i64 [o1, o2] = Some mo" "parse_i64 [d1, d2] = Some d"
    and "parse_i64 [h1, h2] = Some h" "parse_i64 [m1, m2] = Some mi" "offset_of tail = Some off"
  shows "at_parts ([y1, y2, y3, y4, CHR ''-'', o1, o2, CHR ''-'', d1, d2, CHR ''T'', h1, h2, CHR '':'', m1, m2] @ tail)
    = Some \<lparr>at_year = y, at_month = mo, at_day = d, at_hour = h, at_minute = mi, at_offset = off\<rparr>"
  using assms by (simp add: at_parts_def str_get_def at_digits_def separator_def)

lemma not_relative:
  assumes "CHR ''-'' \<in> set s"
  shows "\<not> is_relative s"
proof
  assume "is_relative s"
  then obtain u n where u: "u \<in> set ''smhdw''" "strip_suffix [u] s = Some n" "list_all is_digit n"
    by (auto simp: is_relative_def list_ex_iff split: option.splits)
  then have "s = n @ [u]" by (auto simp: strip_suffix_def suffix_def split: if_splits)
  with assms u show False by (auto simp: list_all_iff)
qed

section \<open>Properties\<close>

text \<open>
  What the parser accepts is a real time and nothing is lost in it: an accepted text
  gives a time of the calendar with an offset of at most fourteen hours, and parsing the
  text that time displays gives the same time again.
\<close>

theorem at_time_parse_display:
  "(at_parse s = Inr t \<longrightarrow> at_valid t) \<and> (at_valid t \<longrightarrow> at_parse (at_display t) = Inr t)"
proof (intro conjI impI)
  assume v: "at_valid t"
  then have r: "at_real t" and hm: "0 \<le> at_hour t" "0 \<le> at_minute t" by (simp_all add: at_valid_def)
  have ry: "0 \<le> at_year t" "at_year t < 10000" and rm: "0 \<le> at_month t" "at_month t < 100"
    and rd: "0 \<le> at_day t" "at_day t < 100" and rh: "at_hour t < 100" and rmi: "at_minute t < 100"
    using r by (auto simp: at_real_def days_in_month_def split: if_splits)
  obtain y1 y2 y3 y4 where y: "show_int_pad 4 (at_year t) = [y1, y2, y3, y4]" "is_digit y1" "is_digit y2"
    "is_digit y3" "is_digit y4" "parse_i64 [y1, y2, y3, y4] = Some (at_year t)"
    using show_pad_four [OF ry] by blast
  obtain o1 o2 where mo: "show_int_pad 2 (at_month t) = [o1, o2]" "is_digit o1" "is_digit o2"
    "parse_i64 [o1, o2] = Some (at_month t)" using show_pad_two [OF rm] by blast
  obtain d1 d2 where d: "show_int_pad 2 (at_day t) = [d1, d2]" "is_digit d1" "is_digit d2"
    "parse_i64 [d1, d2] = Some (at_day t)" using show_pad_two [OF rd] by blast
  obtain h1 h2 where h: "show_int_pad 2 (at_hour t) = [h1, h2]" "is_digit h1" "is_digit h2"
    "parse_i64 [h1, h2] = Some (at_hour t)" using show_pad_two [OF hm(1) rh] by blast
  obtain m1 m2 where m: "show_int_pad 2 (at_minute t) = [m1, m2]" "is_digit m1" "is_digit m2"
    "parse_i64 [m1, m2] = Some (at_minute t)" using show_pad_two [OF hm(2) rmi] by blast
  have disp: "at_display t = [y1, y2, y3, y4, CHR ''-'', o1, o2, CHR ''-'', d1, d2, CHR ''T'', h1, h2, CHR '':'', m1, m2]
      @ offset_text (at_offset t)"
    unfolding at_display_def y(1) mo(1) d(1) h(1) m(1) offset_text_def by simp
  have off: "offset_of (offset_text (at_offset t)) = Some (at_offset t)"
    by (rule offset_of_text) (use v in \<open>simp add: at_valid_def\<close>)
  have "at_parts (at_display t) = Some t"
    unfolding disp using at_parts_text [OF _ y(6) mo(4) d(4) h(4) m(4) off] y mo d h m by simp
  moreover have "\<not> is_relative (at_display t)" by (rule not_relative) (simp add: disp)
  ultimately show "at_parse (at_display t) = Inr t" using r by (simp add: at_parse_def)
qed (rule at_parse_valid)

theorem at_time_parse_display_witness:
  "at_parse ''2026-11-08T09:00-03:00'' =
     Inr \<lparr>at_year = 2026, at_month = 11, at_day = 8, at_hour = 9, at_minute = 0, at_offset = Some (- 180)\<rparr>"
proof -
  define t where "t = \<lparr>at_year = 2026, at_month = 11, at_day = 8, at_hour = 9, at_minute = 0, at_offset = Some (- 180 :: int)\<rparr>"
  have "at_valid t" unfolding t_def by code_simp
  moreover have "at_display t = ''2026-11-08T09:00-03:00''" unfolding t_def by code_simp
  ultimately show ?thesis using at_time_parse_display [of "[]" t] t_def by simp
qed

end
