(* ===== verification/Cron.thy ===== *)
theory Cron
  imports Prelude
begin

text \<open>
  \<open>src/src/domain/agent/cron.rs\<close>: a five-field cron expression and the systemd \<open>OnCalendar\<close>
  text it becomes.  A \<open>BTreeSet<u32>\<close> is the ascending list of its elements.
  \<open>term_values\<close> is the abstract meaning of a field; \<open>cron_field_meaning\<close> says the parser
  computes it and \<open>cron_render_parse\<close> that the rendered field denotes the same set.
\<close>

record cron_field =
  cf_name :: string
  cf_min :: nat
  cf_max :: nat
  cf_names :: "string list"

definition minute_field :: cron_field where
  "minute_field = \<lparr>cf_name = ''minute'', cf_min = 0, cf_max = 59, cf_names = []\<rparr>"

definition hour_field :: cron_field where
  "hour_field = \<lparr>cf_name = ''hour'', cf_min = 0, cf_max = 23, cf_names = []\<rparr>"

definition day_of_month_field :: cron_field where
  "day_of_month_field = \<lparr>cf_name = ''day-of-month'', cf_min = 1, cf_max = 31, cf_names = []\<rparr>"

definition month_field :: cron_field where
  "month_field = \<lparr>cf_name = ''month'', cf_min = 1, cf_max = 12,
     cf_names = [''jan'', ''feb'', ''mar'', ''apr'', ''may'', ''jun'', ''jul'', ''aug'', ''sep'', ''oct'', ''nov'', ''dec'']\<rparr>"

definition day_of_week_field :: cron_field where
  "day_of_week_field = \<lparr>cf_name = ''day-of-week'', cf_min = 0, cf_max = 7,
     cf_names = [''sun'', ''mon'', ''tue'', ''wed'', ''thu'', ''fri'', ''sat'']\<rparr>"

definition systemd_days :: "string list" where
  "systemd_days = [''Sun'', ''Mon'', ''Tue'', ''Wed'', ''Thu'', ''Fri'', ''Sat'']"

record cron_expr =
  ce_source :: string
  ce_on_calendar :: string

type_synonym cron_error = string

definition expand_macro :: "string \<Rightarrow> cron_error + string" where
  "expand_macro t =
     (if t = ''@hourly'' then Inr ''0 * * * *''
      else if t = ''@daily'' then Inr ''0 0 * * *''
      else if t = ''@weekly'' then Inr ''0 0 * * 0''
      else if t = ''@monthly'' then Inr ''0 0 1 * *''
      else if t = ''@yearly'' \<or> t = ''@annually'' then Inr ''0 0 1 1 *''
      else Inl (quoted t @ '' has no systemd timer equivalent; use a 5-field expression''))"

text \<open>The position of a name, counted from the smallest value of the field.\<close>

fun named_value :: "string list \<Rightarrow> nat \<Rightarrow> string \<Rightarrow> nat option" where
  "named_value [] n s = None"
| "named_value (x # xs) n s = (if x = s then Some n else named_value xs (n + 1) s)"

definition cron_value :: "string \<Rightarrow> cron_field \<Rightarrow> cron_error + nat" where
  "cron_value t f =
     and_then
       (case named_value (cf_names f) (cf_min f) (map to_lower t) of
          Some n \<Rightarrow> Inr n
        | None \<Rightarrow> (case parse_uint u32_max t of
            Some n \<Rightarrow> Inr n
          | None \<Rightarrow> Inl (cf_name f @ '' '' @ quoted t @ '' is not a number'')))
       (\<lambda>n. if n < cf_min f \<or> n > cf_max f
            then Inl (cf_name f @ '' '' @ show_nat n @ '' is outside '' @ show_nat (cf_min f) @ ''-'' @ show_nat (cf_max f))
            else Inr n)"

definition term_parts :: "string \<Rightarrow> string \<times> string option" where
  "term_parts t = (case split_once (CHR ''/'') t of Some (b, s) \<Rightarrow> (b, Some s) | None \<Rightarrow> (t, None))"

definition term_range :: "string \<Rightarrow> bool \<Rightarrow> cron_field \<Rightarrow> cron_error + (nat \<times> nat)" where
  "term_range base stepped f =
     (if base = ''*'' then Inr (cf_min f, cf_max f)
      else (case split_once (CHR ''-'') base of
              Some (a, b) \<Rightarrow>
                and_then (cron_value a f) (\<lambda>x. and_then (cron_value b f) (\<lambda>y.
                  if x > y then Inl (cf_name f @ '' range '' @ show_nat x @ ''-'' @ show_nat y @ '' runs backwards'')
                  else Inr (x, y)))
            | None \<Rightarrow> and_then (cron_value base f) (\<lambda>x. Inr (x, if stepped then cf_max f else x))))"

definition term_step :: "string option \<Rightarrow> cron_field \<Rightarrow> cron_error + nat" where
  "term_step step f =
     and_then
       (case step of
          None \<Rightarrow> Inr 1
        | Some s \<Rightarrow> (case parse_uint u64_max s of
            Some n \<Rightarrow> Inr n
          | None \<Rightarrow> Inl (cf_name f @ '' step '' @ quoted s @ '' is not a number'')))
       (\<lambda>n. if n = 0 then Inl (cf_name f @ '' step must be at least 1'') else Inr n)"

text \<open>\<open>(start..=end).step_by(step)\<close>, and \<open>BTreeSet::extend\<close>.\<close>

definition step_by :: "nat \<Rightarrow> nat \<Rightarrow> nat \<Rightarrow> nat list" where
  "step_by start stop step = filter (\<lambda>v. (v - start) mod step = 0) [start..<stop + 1]"

definition set_extend :: "nat list \<Rightarrow> nat list \<Rightarrow> nat list" where
  "set_extend xs vs = fold insort_insert vs xs"

fun parse_terms :: "cron_field \<Rightarrow> string list \<Rightarrow> nat list \<Rightarrow> cron_error + nat list" where
  "parse_terms f [] acc = Inr acc"
| "parse_terms f (t # ts) acc =
     (let (base, step) = term_parts t in
      and_then (term_range base (step \<noteq> None) f) (\<lambda>(a, b).
      and_then (term_step step f) (\<lambda>n.
        parse_terms f ts (set_extend acc (step_by a b n)))))"

definition parse_field :: "string \<Rightarrow> cron_field \<Rightarrow> cron_error + nat list" where
  "parse_field t f = parse_terms f (split_on (CHR '','') t) []"

definition render_field :: "nat list \<Rightarrow> cron_field \<Rightarrow> string" where
  "render_field vs f =
     (if list_all (\<lambda>v. v \<in> set vs) [cf_min f..<cf_max f + 1] then ''*''
      else join '','' (map (show_pad 2) vs))"

definition cron_parse :: "string \<Rightarrow> cron_error + cron_expr" where
  "cron_parse t =
     (let trimmed = trim t in
      and_then (if prefix ''@'' trimmed then expand_macro trimmed else Inr trimmed) (\<lambda>expanded.
      case split_whitespace expanded of
        [minute, hour, dm, month, dw] \<Rightarrow>
          (let dow_restricted = (dw \<noteq> ''*'') in
           if dm \<noteq> ''*'' \<and> dow_restricted
           then Inl ''day-of-month and day-of-week are both restricted; cron matches either, systemd would require both''
           else and_then (parse_field minute minute_field) (\<lambda>minutes.
             and_then (parse_field hour hour_field) (\<lambda>hours.
             and_then (parse_field dm day_of_month_field) (\<lambda>doms.
             and_then (parse_field month month_field) (\<lambda>months.
             and_then (parse_field dw day_of_week_field) (\<lambda>dows.
               let days = map (\<lambda>d. d mod 7) dows;
                   pre = (if dow_restricted
                          then join '','' (map fst (filter (\<lambda>(_, d). d \<in> set days) (zip systemd_days [0..<7]))) @ '' ''
                          else [])
               in Inr \<lparr>ce_source = t,
                       ce_on_calendar = pre @ ''*-'' @ render_field months month_field @ ''-'' @
                         render_field doms day_of_month_field @ '' '' @ render_field hours hour_field @ '':'' @
                         render_field minutes minute_field @ '':00''\<rparr>))))))
      | parts \<Rightarrow> Inl (''expected 5 fields, found '' @ show_nat (length parts))))"

section \<open>The meaning of a field\<close>

text \<open>A value is in a term when it is in the range at a multiple of the step from its start.\<close>

definition in_term :: "cron_field \<Rightarrow> string \<Rightarrow> nat \<Rightarrow> bool" where
  "in_term f t v \<longleftrightarrow> (let (base, step) = term_parts t in
     \<exists>a b n. term_range base (step \<noteq> None) f = Inr (a, b) \<and> term_step step f = Inr n
       \<and> a \<le> v \<and> v \<le> b \<and> n dvd (v - a))"

definition field_ok :: "cron_field \<Rightarrow> bool" where
  "field_ok f \<longleftrightarrow> cf_min f \<le> cf_max f \<and> cf_max f < 100
     \<and> (\<forall>nm \<in> set (cf_names f). nm \<noteq> [] \<and> \<not> is_digit (hd nm))"

lemma fields_ok: "field_ok minute_field" "field_ok hour_field" "field_ok day_of_month_field"
  "field_ok month_field" "field_ok day_of_week_field"
  by (simp_all add: field_ok_def minute_field_def hour_field_def day_of_month_field_def month_field_def
      day_of_week_field_def is_digit_def)

lemma set_step_by: "v \<in> set (step_by a b n) \<longleftrightarrow> a \<le> v \<and> v \<le> b \<and> n dvd (v - a)"
  by (auto simp: step_by_def mod_eq_0_iff_dvd)

lemma set_extend_set [simp]: "set (set_extend xs vs) = set xs \<union> set vs"
  unfolding set_extend_def by (induction vs arbitrary: xs) (auto simp: set_insort_insert)

lemma set_extend_sorted: "sorted xs \<Longrightarrow> distinct xs \<Longrightarrow> sorted (set_extend xs vs) \<and> distinct (set_extend xs vs)"
  unfolding set_extend_def
  by (induction vs arbitrary: xs) (simp_all add: sorted_insort_insert distinct_insort_insert)

lemma cron_value_range: "cron_value t f = Inr n \<Longrightarrow> cf_min f \<le> n \<and> n \<le> cf_max f"
  by (auto simp: cron_value_def result_simps split: if_splits)

lemma term_range_bounds:
  "term_range base st f = Inr (a, b) \<Longrightarrow> field_ok f \<Longrightarrow> cf_min f \<le> a \<and> a \<le> b \<and> b \<le> cf_max f"
  by (auto simp: term_range_def result_simps field_ok_def dest!: cron_value_range split: if_splits option.splits)

lemma parse_terms_meaning:
  "parse_terms f ts acc = Inr vs \<Longrightarrow> v \<in> set vs \<longleftrightarrow> v \<in> set acc \<or> (\<exists>t \<in> set ts. in_term f t v)"
proof (induction f ts acc rule: parse_terms.induct)
  case (2 f t ts acc)
  obtain base step where p: "term_parts t = (base, step)" by (cases "term_parts t")
  from 2(2) p obtain a b n where ok: "term_range base (step \<noteq> None) f = Inr (a, b)"
    "term_step step f = Inr n" "parse_terms f ts (set_extend acc (step_by a b n)) = Inr vs"
    by (auto simp: result_simps)
  from 2(1) [OF refl p [symmetric] ok(3)]
  show ?case using p ok by (auto simp: set_step_by in_term_def)
qed simp

lemma parse_terms_sorted:
  "parse_terms f ts acc = Inr vs \<Longrightarrow> sorted acc \<and> distinct acc \<Longrightarrow> sorted vs \<and> distinct vs"
  by (induction f ts acc rule: parse_terms.induct)
     (auto simp: result_simps set_extend_sorted split: prod.splits)

lemma in_term_first: "field_ok f \<Longrightarrow> term_range base (step \<noteq> None) f = Inr (a, b) \<Longrightarrow> term_step step f = Inr n \<Longrightarrow>
    term_parts t = (base, step) \<Longrightarrow> in_term f t a"
  using term_range_bounds [of base "step \<noteq> None" f a b] by (auto simp: in_term_def)

lemma parse_terms_nonempty:
  assumes "field_ok f" "parse_terms f ts acc = Inr vs" "ts \<noteq> []"
  shows "vs \<noteq> []"
proof -
  obtain t ts' where ts: "ts = t # ts'" using assms(3) by (cases ts) auto
  obtain base step where p: "term_parts t = (base, step)" by (cases "term_parts t")
  from assms(2) p ts obtain a b n where "term_range base (step \<noteq> None) f = Inr (a, b)" "term_step step f = Inr n"
    by (auto simp: result_simps)
  from in_term_first [OF assms(1) this p] parse_terms_meaning [OF assms(2), of a] ts show ?thesis by auto
qed

lemma in_term_range: "in_term f t v \<Longrightarrow> field_ok f \<Longrightarrow> cf_min f \<le> v \<and> v \<le> cf_max f"
  using term_range_bounds by (fastforce simp: in_term_def Let_def split: prod.splits)

section \<open>A rendered field\<close>

lemma digits_no_char: "\<not> is_digit c \<Longrightarrow> c \<notin> set (show_pad w n)"
  using show_pad_digits [of w n] by (auto simp: list_all_iff)

lemma named_value_digits:
  assumes "\<forall>nm \<in> set names. nm \<noteq> [] \<and> \<not> is_digit (hd nm)" "is_digit (hd s)" 
  shows "named_value names n s = None"
  using assms by (induction names arbitrary: n) auto

lemma to_lower_digit: "is_digit c \<Longrightarrow> to_lower c = c"
  by (simp add: to_lower_def is_digit_def is_upper_def)

lemma cron_value_show:
  assumes "field_ok f" "cf_min f \<le> v" "v \<le> cf_max f"
  shows "cron_value (show_pad 2 v) f = Inr v"
proof -
  obtain c cs where c: "show_pad 2 v = c # cs" "is_digit c"
    using show_pad_digits [of 2 v] by (cases "show_pad 2 v") auto
  then have "named_value (cf_names f) (cf_min f) (map to_lower (show_pad 2 v)) = None"
    using assms(1) by (intro named_value_digits) (auto simp: field_ok_def to_lower_digit)
  moreover have "parse_uint u32_max (show_pad 2 v) = Some v"
    using assms by (intro parse_uint_show_pad) (simp add: field_ok_def)
  ultimately show ?thesis using assms by (simp add: cron_value_def)
qed

lemma term_show:
  assumes "field_ok f" "cf_min f \<le> v" "v \<le> cf_max f"
  shows "term_parts (show_pad 2 v) = (show_pad 2 v, None)"
    and "term_range (show_pad 2 v) False f = Inr (v, v)"
proof -
  have "CHR ''/'' \<notin> set (show_pad 2 v)" "CHR ''-'' \<notin> set (show_pad 2 v)" "CHR ''*'' \<notin> set (show_pad 2 v)"
    by (rule digits_no_char, simp add: is_digit_def)+
  then show "term_parts (show_pad 2 v) = (show_pad 2 v, None)"
    and "term_range (show_pad 2 v) False f = Inr (v, v)"
    using cron_value_show [OF assms]
    by (auto simp: term_parts_def term_range_def split_once_None_iff [THEN iffD2])
qed

lemma parse_terms_show:
  assumes "field_ok f" "\<forall>v \<in> set vs. cf_min f \<le> v \<and> v \<le> cf_max f"
  shows "\<exists>ws. parse_terms f (map (show_pad 2) vs) acc = Inr ws \<and> set ws = set acc \<union> set vs"
  using assms(2)
proof (induction vs arbitrary: acc)
  case (Cons v vs)
  then have "cf_min f \<le> v" "v \<le> cf_max f" by auto
  note t = term_show [OF assms(1) this]
  have "set (step_by v v 1) = {v}" by (auto simp: set_step_by)
  moreover obtain ws where "parse_terms f (map (show_pad 2) vs) (set_extend acc (step_by v v 1)) = Inr ws"
    "set ws = set (set_extend acc (step_by v v 1)) \<union> set vs"
    using Cons by (metis list.set_intros(2))
  ultimately show ?case using t by (simp add: term_step_def)
qed simp

section \<open>Properties\<close>

text \<open>
  A field is parsed to its meaning: an accepted field is a strictly ascending,
  non-empty list of values inside the field's range, and a value is in it exactly when one
  of the comma-separated terms covers it.
\<close>

theorem cron_field_meaning:
  assumes "field_ok f" and "parse_field t f = Inr vs"
  shows "sorted_wrt (<) vs \<and> vs \<noteq> [] \<and> (\<forall>v \<in> set vs. cf_min f \<le> v \<and> v \<le> cf_max f)
    \<and> (\<forall>v. v \<in> set vs \<longleftrightarrow> (\<exists>u \<in> set (split_on (CHR '','') t). in_term f u v))"
proof -
  have m: "\<forall>v. v \<in> set vs \<longleftrightarrow> (\<exists>u \<in> set (split_on (CHR '','') t). in_term f u v)"
    using parse_terms_meaning [of f _ "[]" vs] assms(2) by (auto simp: parse_field_def)
  moreover have "sorted_wrt (<) vs"
    using parse_terms_sorted [of f _ "[]" vs] assms(2) by (simp add: parse_field_def strict_sorted_iff)
  moreover have "vs \<noteq> []"
    using parse_terms_nonempty [OF assms(1)] assms(2) by (auto simp: parse_field_def)
  moreover have "\<forall>v \<in> set vs. cf_min f \<le> v \<and> v \<le> cf_max f"
    using m in_term_range [OF _ assms(1)] by blast
  ultimately show ?thesis by blast
qed

text \<open>
  The systemd text of a field denotes the same set: the rendering of a parsed field is
  itself accepted for that field and gives the same values.
\<close>

theorem cron_render_parse:
  assumes "field_ok f" and "parse_field t f = Inr vs"
  shows "parse_field (render_field vs f) f = Inr vs"
proof -
  have sd: "sorted vs" "distinct vs" and ne: "vs \<noteq> []"
    using parse_terms_sorted [of f _ "[]" vs] parse_terms_nonempty [OF assms(1)] assms(2)
    by (auto simp: parse_field_def)
  have rng: "\<forall>v \<in> set vs. cf_min f \<le> v \<and> v \<le> cf_max f"
    using parse_terms_meaning [of f _ "[]" vs] assms(2) in_term_range [OF _ assms(1)]
    by (auto simp: parse_field_def)
  have unique: "ws = vs" if "parse_field u f = Inr ws" "set ws = set vs" for u ws
    using parse_terms_sorted [of f _ "[]" ws] that sd
    by (intro sorted_distinct_set_unique) (auto simp: parse_field_def)
  show ?thesis
  proof (cases "list_all (\<lambda>v. v \<in> set vs) [cf_min f..<cf_max f + 1]")
    case True
    then have "\<forall>v. cf_min f \<le> v \<and> v \<le> cf_max f \<longrightarrow> v \<in> set vs"
      unfolding list_all_iff set_upt by (auto simp: less_Suc_eq_le)
    with rng have "\<And>v. v \<in> set vs \<longleftrightarrow> v \<in> {cf_min f..cf_max f}"
      unfolding atLeastAtMost_iff by blast
    then have "set vs = {cf_min f..cf_max f}" by (rule set_eqI)
    moreover have "set (step_by (cf_min f) (cf_max f) 1) = {cf_min f..cf_max f}"
      by (rule set_eqI) (simp add: set_step_by)
    ultimately have "set vs = set (step_by (cf_min f) (cf_max f) 1)" by simp
    moreover have "parse_field ''*'' f = Inr (set_extend [] (step_by (cf_min f) (cf_max f) 1))"
      by (simp add: parse_field_def term_parts_def term_range_def term_step_def)
    ultimately have "parse_field ''*'' f = Inr vs" using unique by simp
    with True show ?thesis by (simp only: render_field_def if_True)
  next
    case False
    have "split_on (CHR '','') (join '','' (map (show_pad 2) vs)) = map (show_pad 2) vs"
      using ne by (intro split_on_join) (auto intro!: digits_no_char simp: is_digit_def)
    then obtain ws where "parse_field (join '','' (map (show_pad 2) vs)) f = Inr ws" "set ws = set vs"
      using parse_terms_show [OF assms(1) rng, of "[]"] by (auto simp: parse_field_def)
    with False unique show ?thesis by (simp add: render_field_def)
  qed
qed

theorem cron_field_meaning_witness:
  "(\<forall>v. v \<in> set [1, 3, 5, 10] \<longleftrightarrow> (\<exists>u \<in> set (split_on (CHR '','') ''jan-5/2,oct''). in_term month_field u v))"
proof -
  have "parse_field ''jan-5/2,oct'' month_field = Inr [1, 3, 5, 10]" by code_simp
  from cron_field_meaning [OF fields_ok(4) this] show ?thesis by simp
qed

theorem cron_render_parse_witness:
  "parse_field (render_field [0, 15, 30, 45] minute_field) minute_field = Inr [0, 15, 30, 45]
   \<and> render_field [0, 15, 30, 45] minute_field = ''00,15,30,45''"
proof -
  have "parse_field ''*/15'' minute_field = Inr [0, 15, 30, 45]" by code_simp
  from cron_render_parse [OF fields_ok(1) this] show ?thesis by (simp; code_simp)
qed

end
