(* ===== verification/Approvals.thy ===== *)
theory Approvals
  imports Names
begin

text \<open>
  The plan gates: \<open>src/src/domain/feature/approval.rs\<close> (the gates, their records and
  \<open>ApprovalState\<close>) and the verbs over them in \<open>src/src/action/plan/mod.rs\<close> and
  \<open>approve.rs\<close>.  The files of the plan directory are the argument \<open>art\<close>: the fingerprint of
  a gate's artifact, \<open>None\<close> when the file does not exist, so \<open>artifact_exists\<close> is
  \<open>art g \<noteq> None\<close>.  The stored \<open>approvals.json\<close> is the explicit state of the verbs.
\<close>

section \<open>Gates and their records\<close>

datatype gate = Requirements | Analysis | Plan

definition gate_all :: "gate list" where
  "gate_all = [Requirements, Analysis, Plan]"

fun gate_upstream :: "gate \<Rightarrow> gate option" where
  "gate_upstream Requirements = None"
| "gate_upstream Analysis = Some Requirements"
| "gate_upstream Plan = Some Analysis"

fun and_downstream :: "gate \<Rightarrow> gate list" where
  "and_downstream Requirements = [Requirements, Analysis, Plan]"
| "and_downstream Analysis = [Analysis, Plan]"
| "and_downstream Plan = [Plan]"

fun gate_index :: "gate \<Rightarrow> nat" where
  "gate_index Requirements = 0"
| "gate_index Analysis = 1"
| "gate_index Plan = 2"

definition gate_parse :: "string \<Rightarrow> string + gate" where
  "gate_parse v =
     (if v = ''requirements'' then Inr Requirements
      else if v = ''analysis'' then Inr Analysis
      else if v = ''plan'' then Inr Plan
      else Inl v)"

fun gate_display :: "gate \<Rightarrow> string" where
  "gate_display Requirements = ''requirements''"
| "gate_display Analysis = ''analysis''"
| "gate_display Plan = ''plan''"

datatype gate_state = Pending | Approved | NeedsRevision

fun gate_state_display :: "gate_state \<Rightarrow> string" where
  "gate_state_display Pending = ''pending''"
| "gate_state_display Approved = ''approved''"
| "gate_state_display NeedsRevision = ''needs-revision''"

definition unknown_gate :: "string \<Rightarrow> failure" where
  "unknown_gate v =
     with_fix (fix_safe ''plan.valid_gate'' ''Use one of: requirements, analysis, plan.'')
       (blocked ''plan.unknown_gate''
         (''unknown gate '' @ quoted v @ '' '' @ em_dash @ '' expected one of: requirements, analysis, plan''))"

record gate_record =
  gr_gate :: gate
  gr_state :: gate_state
  gr_fingerprint :: "string option"

type_synonym approvals = "gate_record list"

definition pending_record :: "gate \<Rightarrow> gate_record" where
  "pending_record g = \<lparr>gr_gate = g, gr_state = Pending, gr_fingerprint = None\<rparr>"

definition approvals_fresh :: approvals where
  "approvals_fresh = map pending_record gate_all"

definition gate_record_of :: "approvals \<Rightarrow> gate \<Rightarrow> gate_record option" where
  "gate_record_of a g = find (\<lambda>r. gr_gate r = g) a"

definition gate_state_of :: "approvals \<Rightarrow> gate \<Rightarrow> gate_state option" where
  "gate_state_of a g = map_option gr_state (gate_record_of a g)"

text \<open>\<open>record_mut\<close> applied: change the first record of a gate, when there is one.\<close>

fun update_record :: "gate \<Rightarrow> (gate_record \<Rightarrow> gate_record) \<Rightarrow> approvals \<Rightarrow> approvals" where
  "update_record g f [] = []"
| "update_record g f (r # rs) = (if gr_gate r = g then f r # rs else r # update_record g f rs)"

definition approvals_set :: "gate \<Rightarrow> gate_state \<Rightarrow> string option \<Rightarrow> approvals \<Rightarrow> approvals" where
  "approvals_set g st fp a =
     (case gate_record_of a g of
        Some _ \<Rightarrow> update_record g (\<lambda>r. r\<lparr>gr_state := st, gr_fingerprint := fp\<rparr>) a
      | None \<Rightarrow> a @ [\<lparr>gr_gate = g, gr_state = st, gr_fingerprint = fp\<rparr>])"

definition approvals_normalize :: "approvals \<Rightarrow> approvals" where
  "approvals_normalize a =
     sort_key (\<lambda>r. gate_index (gr_gate r))
       (foldl (\<lambda>acc g. if list_ex (\<lambda>r. gr_gate r = g) acc then acc else acc @ [pending_record g]) a gate_all)"

definition invalidate_one :: "gate \<Rightarrow> approvals \<Rightarrow> approvals" where
  "invalidate_one g = update_record g (\<lambda>r. r\<lparr>gr_state := NeedsRevision, gr_fingerprint := None\<rparr>)"

definition invalidate_from :: "gate \<Rightarrow> approvals \<Rightarrow> approvals" where
  "invalidate_from g a = fold invalidate_one (and_downstream g) a"

section \<open>Drift and coherence\<close>

type_synonym artifacts = "gate \<Rightarrow> string option"

fun blocking_scan :: "approvals \<Rightarrow> artifacts \<Rightarrow> gate \<Rightarrow> gate list \<Rightarrow> gate option" where
  "blocking_scan a art g [] = None"
| "blocking_scan a art g (c # cs) =
     (if c = g then None
      else if art c = None then blocking_scan a art g cs
      else if gate_state_of a c \<noteq> Some Approved then Some c
      else blocking_scan a art g cs)"

definition first_blocking_upstream :: "approvals \<Rightarrow> artifacts \<Rightarrow> gate \<Rightarrow> gate option" where
  "first_blocking_upstream a art g = blocking_scan a art g gate_all"

definition incoherent_approvals :: "approvals \<Rightarrow> artifacts \<Rightarrow> gate list" where
  "incoherent_approvals a art =
     filter (\<lambda>g. gate_state_of a g = Some Approved \<and> first_blocking_upstream a art g \<noteq> None) gate_all"

definition drifted_gates :: "approvals \<Rightarrow> artifacts \<Rightarrow> gate list" where
  "drifted_gates a art =
     map gr_gate (filter (\<lambda>r. gr_state r = Approved \<and> art (gr_gate r) \<noteq> gr_fingerprint r) a)"

definition reconciled :: "approvals \<Rightarrow> artifacts \<Rightarrow> approvals" where
  "reconciled a art =
     (let out = approvals_normalize a;
          out = fold invalidate_from (drifted_gates out art) out
      in fold invalidate_from (incoherent_approvals out art) out)"

definition effective_gate :: "approvals option \<Rightarrow> artifacts \<Rightarrow> gate \<Rightarrow> gate_state" where
  "effective_gate stored art g =
     (case gate_state_of (reconciled (case stored of None \<Rightarrow> approvals_fresh | Some a \<Rightarrow> a) art) g of
        None \<Rightarrow> Pending | Some st \<Rightarrow> st)"

definition load_approvals :: "approvals option \<Rightarrow> approvals" where
  "load_approvals stored = approvals_normalize (case stored of None \<Rightarrow> approvals_fresh | Some a \<Rightarrow> a)"

section \<open>The verbs\<close>

definition visible_gates :: "approvals \<Rightarrow> artifacts \<Rightarrow> gate list" where
  "visible_gates a art =
     filter (\<lambda>g. (case gate_state_of a g of None \<Rightarrow> False | Some st \<Rightarrow> st \<noteq> Pending) \<or> art g \<noteq> None) gate_all"

record approve_outcome =
  ao_gate :: gate
  ao_approvals :: approvals
  ao_visible :: "gate list"

record invalidate_outcome =
  io_gate :: gate
  io_cascaded :: "gate list"
  io_approvals :: approvals
  io_visible :: "gate list"

definition artifact_missing :: "feature_name \<Rightarrow> string \<Rightarrow> gate \<Rightarrow> failure" where
  "artifact_missing f path g =
     with_fix (fix_safe ''plan.create_first''
         (''Write the artifact, then approve again. `ivar plan create '' @ feature_str f @ ''` scaffolds it.''))
       (with_actual (''no artifact for the '' @ quoted (gate_display g) @ '' gate'')
         (with_expected (''the gate'' @ [CHR 0x27] @ ''s SPDD artifact to have been written'')
           (blocked ''plan.artifact_missing'' (quoted path @ '' does not exist''))))"

definition upstream_not_approved :: "feature_name \<Rightarrow> approvals \<Rightarrow> gate \<Rightarrow> gate \<Rightarrow> failure" where
  "upstream_not_approved f a g b =
     with_fix (fix_safe ''plan.approve_upstream''
         (''Approve it first: `ivar plan approve '' @ feature_str f @ '' '' @ gate_display b @ ''`.''))
       (with_actual (quoted (gate_display b) @ '' is '' @
           gate_state_display (case gate_state_of a b of None \<Rightarrow> Pending | Some st \<Rightarrow> st))
         (with_expected (''every written upstream gate to be approved first; '' @ quoted (gate_display b) @ '' is not'')
           (blocked ''plan.upstream_not_approved''
             (''cannot approve '' @ quoted (gate_display g) @ '' for '' @ quoted (feature_str f) @
              '': the upstream gate '' @ quoted (gate_display b) @ '' is written but not approved''))))"

text \<open>
  \<open>approve\<close> from the loaded approvals on: the result and the approvals left on disk.
  \<open>plan_check\<close> is the outcome of \<open>require_known_repos\<close> and \<open>require_runnable_commands\<close>,
  and \<open>path\<close> the artifact's path for the message.
\<close>

definition approve :: "feature_name \<Rightarrow> gate \<Rightarrow> (gate \<Rightarrow> string) \<Rightarrow> artifacts \<Rightarrow> failure + unit \<Rightarrow>
    approvals option \<Rightarrow> (failure + approve_outcome) \<times> approvals option" where
  "approve f g path art plan_check stored =
     (let loaded = load_approvals stored;
          a = reconciled loaded art;
          disk = (if a \<noteq> loaded then Some a else stored)
      in case art g of
           None \<Rightarrow> (Inl (artifact_missing f (path g) g), disk)
         | Some fp \<Rightarrow>
             (case first_blocking_upstream a art g of
                Some b \<Rightarrow> (Inl (upstream_not_approved f a g b), disk)
              | None \<Rightarrow>
                  (case (if g = Plan then plan_check else Inr ()) of
                     Inl e \<Rightarrow> (Inl e, disk)
                   | Inr _ \<Rightarrow>
                       (let a' = approvals_set g Approved (Some fp) a
                        in (Inr \<lparr>ao_gate = g, ao_approvals = a', ao_visible = visible_gates a' art\<rparr>, Some a')))))"

definition invalidate :: "gate \<Rightarrow> artifacts \<Rightarrow> approvals option \<Rightarrow> invalidate_outcome \<times> approvals option" where
  "invalidate g art stored =
     (let a = load_approvals stored;
          already = map gr_gate (filter (\<lambda>r. gr_state r = NeedsRevision) a);
          a' = invalidate_from g a
      in (\<lparr>io_gate = g, io_cascaded = filter (\<lambda>d. d \<notin> set already) (and_downstream g),
           io_approvals = a', io_visible = visible_gates a' art\<rparr>, Some a'))"

section \<open>Lookups after each operation\<close>

abbreviation needs_revision :: "gate_record \<Rightarrow> gate_record" where
  "needs_revision r \<equiv> r\<lparr>gr_state := NeedsRevision, gr_fingerprint := None\<rparr>"

lemma gate_all [simp]: "g \<in> set gate_all"
  by (cases g) (simp_all add: gate_all_def)

lemma downstream_refl [simp]: "g \<in> set (and_downstream g)"
  by (cases g) simp_all

lemma downstream_trans:
  "h \<in> set (and_downstream g) \<Longrightarrow> k \<in> set (and_downstream h) \<Longrightarrow> k \<in> set (and_downstream g)"
  by (cases g; cases h; cases k) simp_all

lemma find_filter: "find P xs = (case filter P xs of [] \<Rightarrow> None | x # _ \<Rightarrow> Some x)"
  by (induction xs) auto

lemma record_of_gate: "gate_record_of a g = Some r \<Longrightarrow> gr_gate r = g \<and> r \<in> set a"
  by (auto simp: gate_record_of_def find_Some_iff)

lemma record_of_None: "gate_record_of a g = None \<longleftrightarrow> g \<notin> gr_gate ` set a"
  by (auto simp: gate_record_of_def find_None_iff)

lemma record_of_sort:
  "gate_record_of (sort_key (\<lambda>r. gate_index (gr_gate r)) a) g = gate_record_of a g"
proof -
  have idx: "gate_index (gr_gate r) = gate_index g \<longleftrightarrow> gr_gate r = g" for r
    by (cases "gr_gate r"; cases g) simp_all
  have "sort_key (\<lambda>r. gate_index (gr_gate r)) (filter (\<lambda>r. gr_gate r = g) a) = filter (\<lambda>r. gr_gate r = g) a"
    by (rule sort_key_id_if_sorted) (induction a, auto)
  then show ?thesis by (simp add: gate_record_of_def find_filter filter_sort)
qed

lemma record_of_append:
  "gate_record_of (a @ b) g = (case gate_record_of a g of Some r \<Rightarrow> Some r | None \<Rightarrow> gate_record_of b g)"
  by (induction a) (auto simp: gate_record_of_def)

lemma record_of_normalize:
  "gate_record_of (approvals_normalize a) g =
     (case gate_record_of a g of Some r \<Rightarrow> Some r | None \<Rightarrow> Some (pending_record g))"
proof -
  define add where "add = (\<lambda>acc h. if list_ex (\<lambda>r. gr_gate r = h) acc then acc else acc @ [pending_record h])"
  have ex: "list_ex (\<lambda>r. gr_gate r = h) acc \<longleftrightarrow> gate_record_of acc h \<noteq> None" for acc h
    by (induction acc) (auto simp: gate_record_of_def)
  have one: "gate_record_of [pending_record h] g = (if h = g then Some (pending_record g) else None)" for h
    by (simp add: gate_record_of_def pending_record_def)
  have step: "gate_record_of (add acc h) g =
      (if h = g \<and> gate_record_of acc g = None then Some (pending_record g) else gate_record_of acc g)" for acc h
    by (auto simp: add_def ex record_of_append one split: option.splits)
  have "gate_record_of (foldl add a hs) g = (if gate_record_of a g = None \<and> g \<in> set hs
      then Some (pending_record g) else gate_record_of a g)" for hs
    by (induction hs arbitrary: a) (auto simp: step)
  then show ?thesis
    by (simp add: approvals_normalize_def record_of_sort add_def [symmetric] split: option.splits)
qed

lemma record_of_update:
  "(\<And>r. gr_gate (f r) = gr_gate r) \<Longrightarrow>
     gate_record_of (update_record g f a) h =
       (if h = g then map_option f (gate_record_of a g) else gate_record_of a h)"
  by (induction a) (auto simp: gate_record_of_def)

lemma record_of_invalidate_one:
  "gate_record_of (invalidate_one g a) h =
     (if h = g then map_option needs_revision (gate_record_of a h) else gate_record_of a h)"
  by (simp add: invalidate_one_def record_of_update)

lemma record_of_invalidate:
  "gate_record_of (invalidate_from g a) h =
     (if h \<in> set (and_downstream g) then map_option needs_revision (gate_record_of a h) else gate_record_of a h)"
  by (cases g) (simp_all add: invalidate_from_def record_of_invalidate_one)

lemma record_of_invalidate_all:
  "gate_record_of (fold invalidate_from gs a) h =
     (if \<exists>g \<in> set gs. h \<in> set (and_downstream g) then map_option needs_revision (gate_record_of a h)
      else gate_record_of a h)"
  by (induction gs arbitrary: a) (auto simp: record_of_invalidate option.map_comp comp_def)

lemma state_of_invalidate_all:
  "gate_state_of (fold invalidate_from gs a) h = Some Approved \<longleftrightarrow>
     gate_state_of a h = Some Approved \<and> \<not> (\<exists>g \<in> set gs. h \<in> set (and_downstream g))"
  by (auto simp: gate_state_of_def record_of_invalidate_all)

lemma no_blocking_iff:
  "first_blocking_upstream a art g = None \<longleftrightarrow>
     (\<forall>c. c \<noteq> g \<and> g \<in> set (and_downstream c) \<and> art c \<noteq> None \<longrightarrow> gate_state_of a c = Some Approved)"
proof -
  have "(\<forall>c. P c) \<longleftrightarrow> P Requirements \<and> P Analysis \<and> P Plan" for P :: "gate \<Rightarrow> bool"
    by (metis gate.exhaust)
  then show ?thesis by (cases g) (auto simp: first_blocking_upstream_def gate_all_def)
qed

section \<open>Reconciliation\<close>

lemma reconciled_approved:
  assumes "gate_state_of (reconciled a art) g = Some Approved"
  shows "gate_record_of (reconciled a art) g = gate_record_of a g"
    and "\<exists>r. gate_record_of a g = Some r \<and> gr_state r = Approved \<and> gr_fingerprint r = art g"
    and "first_blocking_upstream (reconciled a art) art g = None"
proof -
  define n where "n = approvals_normalize a"
  define d where "d = fold invalidate_from (drifted_gates n art) n"
  have out: "reconciled a art = fold invalidate_from (incoherent_approvals d art) d"
    by (simp add: reconciled_def n_def d_def Let_def)
  from assms have d_app: "gate_state_of d g = Some Approved"
    and coh: "\<not> (\<exists>h \<in> set (incoherent_approvals d art). g \<in> set (and_downstream h))"
    unfolding out state_of_invalidate_all by blast+
  then have n_app: "gate_state_of n g = Some Approved"
    and same: "\<not> (\<exists>h \<in> set (drifted_gates n art). g \<in> set (and_downstream h))"
    unfolding d_def state_of_invalidate_all by blast+
  obtain r where r: "gate_record_of n g = Some r" "gr_state r = Approved"
    using n_app by (auto simp: gate_state_of_def)
  from r have a_rec: "gate_record_of a g = Some r"
    by (auto simp: n_def record_of_normalize pending_record_def split: option.splits)
  show "gate_record_of (reconciled a art) g = gate_record_of a g"
    using coh same r a_rec unfolding out d_def by (simp add: record_of_invalidate_all)
  have "gr_fingerprint r = art g"
  proof (rule ccontr)
    assume "gr_fingerprint r \<noteq> art g"
    with r record_of_gate [OF r(1)] have "g \<in> set (drifted_gates n art)"
      by (force simp: drifted_gates_def)
    with same show False by auto
  qed
  with a_rec r show "\<exists>r. gate_record_of a g = Some r \<and> gr_state r = Approved \<and> gr_fingerprint r = art g" by blast
  have "first_blocking_upstream d art g = None"
    using coh d_app by (fastforce simp: incoherent_approvals_def)
  then show "first_blocking_upstream (reconciled a art) art g = None"
    using coh downstream_trans unfolding no_blocking_iff out state_of_invalidate_all by blast
qed

lemma update_fixed: "(\<And>r. gate_record_of a g = Some r \<Longrightarrow> f r = r) \<Longrightarrow> update_record g f a = a"
  by (induction a) (auto simp: gate_record_of_def)

lemma invalidate_fixed:
  "(\<And>h r. h \<in> set (and_downstream g) \<Longrightarrow> gate_record_of a h = Some r \<Longrightarrow> needs_revision r = r) \<Longrightarrow>
     invalidate_from g a = a"
proof -
  assume "\<And>h r. h \<in> set (and_downstream g) \<Longrightarrow> gate_record_of a h = Some r \<Longrightarrow> needs_revision r = r"
  then have "invalidate_one h a = a" if "h \<in> set (and_downstream g)" for h
    using that unfolding invalidate_one_def by (intro update_fixed) blast
  then show ?thesis by (cases g) (simp_all add: invalidate_from_def)
qed

lemma update_gates: "(\<And>r. gr_gate (f r) = gr_gate r) \<Longrightarrow> map gr_gate (update_record g f a) = map gr_gate a"
  by (induction a) auto

lemma invalidate_gates [simp]: "map gr_gate (fold invalidate_from gs a) = map gr_gate a"
proof (induction gs arbitrary: a)
  case (Cons g gs)
  have "map gr_gate (invalidate_from g a) = map gr_gate a"
    by (cases g) (simp_all add: invalidate_from_def invalidate_one_def update_gates)
  with Cons show ?case by simp
qed simp

lemma update_members: "r \<in> set (update_record g f a) \<Longrightarrow> r \<in> set a \<or> (\<exists>q. r = f q)"
  by (induction a) (auto split: if_splits)

lemma invalidate_members:
  "r \<in> set (fold invalidate_from gs a) \<Longrightarrow> gr_state r = Approved \<Longrightarrow> r \<in> set a"
proof (induction gs arbitrary: a)
  case (Cons g gs)
  then have "r \<in> set (invalidate_from g a)" by simp
  moreover have "r \<in> set (invalidate_one h b) \<Longrightarrow> r \<in> set b" for h b
    using update_members [of r h needs_revision b] Cons.prems(2) by (auto simp: invalidate_one_def)
  ultimately show ?case by (cases g) (auto simp: invalidate_from_def)
qed simp

lemma normalized_gates:
  "sorted (map gate_index (map gr_gate (approvals_normalize a)))" "gr_gate ` set (approvals_normalize a) = UNIV"
proof -
  show "sorted (map gate_index (map gr_gate (approvals_normalize a)))"
    by (simp add: approvals_normalize_def comp_def)
  have "gate_record_of (approvals_normalize a) g \<noteq> None" for g
    by (simp add: record_of_normalize split: option.splits)
  then show "gr_gate ` set (approvals_normalize a) = UNIV" unfolding record_of_None by blast
qed

lemma normalize_fixed:
  assumes "sorted (map gate_index (map gr_gate a))" "set (map gr_gate a) = UNIV"
  shows "approvals_normalize a = a"
proof -
  have "list_ex (\<lambda>r. gr_gate r = g) a" for g
  proof -
    have "g \<in> set (map gr_gate a)" using assms(2) by simp
    then show ?thesis by (auto simp: list_ex_iff)
  qed
  then have "foldl (\<lambda>acc g. if list_ex (\<lambda>r. gr_gate r = g) acc then acc else acc @ [pending_record g]) a gs = a" for gs
    by (induction gs) simp_all
  then show ?thesis
    using assms(1) by (simp add: approvals_normalize_def sort_key_id_if_sorted comp_def)
qed

lemma reconciled_idem: "reconciled (reconciled a art) art = reconciled a art"
proof -
  define n where "n = approvals_normalize a"
  define d where "d = fold invalidate_from (drifted_gates n art) n"
  define r where "r = fold invalidate_from (incoherent_approvals d art) d"
  have out: "reconciled a art = r" by (simp add: reconciled_def n_def d_def r_def Let_def)
  have gates: "map gr_gate r = map gr_gate n" by (simp add: r_def d_def)
  have norm: "approvals_normalize r = r"
    by (rule normalize_fixed) (use normalized_gates [of a] gates in \<open>simp_all add: n_def\<close>)
  have "fold invalidate_from gs r = r" if "set gs \<subseteq> set (drifted_gates n art)" for gs
    using that
  proof (induction gs)
    case (Cons g gs)
    have "invalidate_from g r = r"
    proof (rule invalidate_fixed)
      fix h q assume h: "h \<in> set (and_downstream g)" and q: "gate_record_of r h = Some q"
      have "\<exists>q'. q = needs_revision q'"
        using q h Cons.prems unfolding r_def d_def record_of_invalidate_all
        by (auto split: if_splits)
      then show "needs_revision q = q" by auto
    qed
    with Cons show ?case by simp
  qed simp
  moreover have "set (drifted_gates r art) \<subseteq> set (drifted_gates n art)"
  proof
    fix g assume "g \<in> set (drifted_gates r art)"
    then obtain q where q: "q \<in> set r" "gr_state q = Approved" "art (gr_gate q) \<noteq> gr_fingerprint q" "g = gr_gate q"
      by (auto simp: drifted_gates_def)
    then have "q \<in> set n" unfolding r_def d_def by (meson invalidate_members)
    with q show "g \<in> set (drifted_gates n art)" by (auto simp: drifted_gates_def)
  qed
  ultimately have drift: "fold invalidate_from (drifted_gates r art) r = r" by blast
  have "incoherent_approvals r art = []"
    using reconciled_approved(3) [of a art] unfolding out
    by (auto simp: incoherent_approvals_def filter_empty_conv)
  with norm drift show ?thesis unfolding out by (simp add: reconciled_def [of r] Let_def)
qed

lemma record_of_set:
  "gate_record_of (approvals_set g st fp a) h =
     (if h = g then Some \<lparr>gr_gate = g, gr_state = st, gr_fingerprint = fp\<rparr> else gate_record_of a h)"
proof (cases "gate_record_of a g")
  case None
  have "gate_record_of [\<lparr>gr_gate = g, gr_state = st, gr_fingerprint = fp\<rparr>] h =
      (if h = g then Some \<lparr>gr_gate = g, gr_state = st, gr_fingerprint = fp\<rparr> else None)"
    by (simp add: gate_record_of_def)
  with None show ?thesis by (auto simp: approvals_set_def record_of_append split: option.splits)
next
  case (Some r)
  then have "gr_gate r = g" using record_of_gate by blast
  with Some show ?thesis by (auto simp: approvals_set_def record_of_update)
qed

section \<open>Properties\<close>

text \<open>
  C25: a reconciled approval stands: the record is the one that was stored, its fingerprint
  is that of the artifact on disk, and every upstream gate whose artifact exists is itself
  approved at the fingerprint of its artifact.
\<close>

theorem reconciled_approval_stands:
  assumes "gate_state_of (reconciled a art) g = Some Approved"
  shows "gate_record_of (reconciled a art) g = gate_record_of a g
    \<and> (\<exists>r. gate_record_of (reconciled a art) g = Some r \<and> gr_fingerprint r = art g)
    \<and> (\<forall>c. c \<noteq> g \<and> g \<in> set (and_downstream c) \<and> art c \<noteq> None \<longrightarrow>
         (\<exists>r. gate_record_of (reconciled a art) c = Some r \<and> gr_state r = Approved \<and> gr_fingerprint r = art c))"
proof -
  have own: "\<exists>r. gate_record_of (reconciled a art) h = Some r \<and> gr_state r = Approved \<and> gr_fingerprint r = art h"
    if "gate_state_of (reconciled a art) h = Some Approved" for h
    using reconciled_approved(1,2) [OF that] by simp
  show ?thesis
    using own [OF assms] reconciled_approved(1) [OF assms]
      reconciled_approved(3) [OF assms] own unfolding no_blocking_iff by blast
qed

text \<open>Reconciling is idempotent: it settles all drift and all incoherence at once.\<close>

theorem reconciled_idempotent:
  "reconciled (reconciled a art) art = reconciled a art"
  by (rule reconciled_idem)

text \<open>
  C26: a successful approval is of an artifact that exists, over upstream gates that are all
  approved at their current content, and what it leaves on disk reconciles to itself at
  that gate: the gate is effective until a file changes.
\<close>

theorem approve_success:
  assumes "approve f g path art plan_check stored = (Inr out, disk)"
  shows "\<exists>fp a. art g = Some fp \<and> disk = Some a \<and> ao_approvals out = a
    \<and> gate_record_of a g = Some \<lparr>gr_gate = g, gr_state = Approved, gr_fingerprint = Some fp\<rparr>
    \<and> (\<forall>c. c \<noteq> g \<and> g \<in> set (and_downstream c) \<and> art c \<noteq> None \<longrightarrow>
          (\<exists>r. gate_record_of a c = Some r \<and> gr_state r = Approved \<and> gr_fingerprint r = art c))
    \<and> (g = Plan \<longrightarrow> plan_check = Inr ())"
proof -
  define a where "a = reconciled (load_approvals stored) art"
  obtain fp where fp: "art g = Some fp" and nb: "first_blocking_upstream a art g = None"
    and ok: "(if g = Plan then plan_check else Inr ()) = Inr ()"
    and out: "disk = Some (approvals_set g Approved (Some fp) a)"
      "ao_approvals out = approvals_set g Approved (Some fp) a"
    using assms by (auto simp: approve_def Let_def a_def split: option.splits sum.splits if_splits)
  have up: "\<exists>r. gate_record_of a c = Some r \<and> gr_state r = Approved \<and> gr_fingerprint r = art c"
    if "c \<noteq> g" "g \<in> set (and_downstream c)" "art c \<noteq> None" for c
  proof -
    have "gate_state_of a c = Some Approved" using nb that unfolding no_blocking_iff by blast
    then show ?thesis using reconciled_approved(1,2) unfolding a_def by fastforce
  qed
  show ?thesis
    using fp out ok up by (intro exI [of _ fp] exI [of _ "approvals_set g Approved (Some fp) a"])
      (auto simp: record_of_set split: if_splits)
qed

text \<open>
  A refused approval never leaves more approved than there was: every gate that is
  approved on disk afterwards was approved before, with the same fingerprint.
\<close>

theorem approve_refusal_is_honest:
  assumes "approve f g path art plan_check (Some a) = (Inl e, Some a')"
    and "gate_state_of a' h = Some Approved"
  shows "gate_record_of a' h = gate_record_of a h"
proof -
  have norm: "gate_record_of (load_approvals (Some a)) h = gate_record_of a h"
    if "gate_state_of (load_approvals (Some a)) h = Some Approved"
    using that by (auto simp: load_approvals_def gate_state_of_def record_of_normalize pending_record_def
        split: option.splits)
  have "a' = a \<or> a' = reconciled (load_approvals (Some a)) art"
    using assms(1) by (auto simp: approve_def Let_def split: option.splits sum.splits if_splits)
  then show ?thesis
  proof
    assume a': "a' = reconciled (load_approvals (Some a)) art"
    from assms(2) have "gate_record_of a' h = gate_record_of (load_approvals (Some a)) h"
      "gate_state_of (load_approvals (Some a)) h = Some Approved"
      unfolding a' using reconciled_approved(1,2) [of "load_approvals (Some a)" art h]
      by (auto simp: gate_state_of_def)
    with norm show ?thesis by simp
  qed simp
qed

text \<open>
  Invalidating a gate takes it and everything downstream of it out of approval and
  changes nothing upstream; the gates it reports are exactly those that were not already
  waiting for a revision.
\<close>

theorem invalidate_cascades:
  assumes "invalidate g art stored = (out, Some a)"
  shows "(\<forall>h. gate_record_of a h =
      (if h \<in> set (and_downstream g)
       then Some \<lparr>gr_gate = h, gr_state = NeedsRevision, gr_fingerprint = None\<rparr>
       else gate_record_of (load_approvals stored) h))
    \<and> io_cascaded out =
        filter (\<lambda>d. \<forall>r \<in> set (load_approvals stored). gr_gate r = d \<longrightarrow> gr_state r \<noteq> NeedsRevision)
          (and_downstream g)"
proof (intro conjI allI)
  have a: "a = invalidate_from g (load_approvals stored)"
    using assms by (auto simp: invalidate_def Let_def)
  fix h
  have "gate_record_of (load_approvals stored) h \<noteq> None"
    unfolding load_approvals_def record_of_normalize by (simp split: option.splits)
  then obtain r where r: "gate_record_of (load_approvals stored) h = Some r" "gr_gate r = h"
    using record_of_gate by blast
  then have "needs_revision r = \<lparr>gr_gate = h, gr_state = NeedsRevision, gr_fingerprint = None\<rparr>"
    by (cases r) simp
  with r show "gate_record_of a h =
      (if h \<in> set (and_downstream g)
       then Some \<lparr>gr_gate = h, gr_state = NeedsRevision, gr_fingerprint = None\<rparr>
       else gate_record_of (load_approvals stored) h)"
    unfolding a record_of_invalidate by simp
next
  show "io_cascaded out = filter (\<lambda>d. \<forall>r \<in> set (load_approvals stored). gr_gate r = d \<longrightarrow> gr_state r \<noteq> NeedsRevision)
           (and_downstream g)"
    using assms by (auto simp: invalidate_def Let_def intro!: filter_cong)
qed

section \<open>Witnesses\<close>

definition sample_art :: artifacts where
  "sample_art g = (case g of Requirements \<Rightarrow> Some ''h1'' | Analysis \<Rightarrow> None | Plan \<Rightarrow> Some ''h3'')"

definition sample_approvals :: approvals where
  "sample_approvals =
     [\<lparr>gr_gate = Requirements, gr_state = Approved, gr_fingerprint = Some ''h1''\<rparr>,
      \<lparr>gr_gate = Analysis, gr_state = Pending, gr_fingerprint = None\<rparr>,
      \<lparr>gr_gate = Plan, gr_state = Approved, gr_fingerprint = Some ''old''\<rparr>]"

lemma sample_reconciled: "gate_state_of (reconciled sample_approvals sample_art) Requirements = Some Approved"
  by code_simp

theorem reconciled_approval_stands_witness:
  "gate_record_of (reconciled sample_approvals sample_art) Requirements = gate_record_of sample_approvals Requirements"
  using reconciled_approval_stands [OF sample_reconciled] by blast

theorem approve_success_witness:
  "\<exists>out disk. approve (FeatureName ''checkout'') Plan (\<lambda>_. ''plan.md'') sample_art (Inr ()) (Some sample_approvals) = (Inr out, disk)
     \<and> (\<exists>a. disk = Some a \<and> gate_record_of a Plan = Some \<lparr>gr_gate = Plan, gr_state = Approved, gr_fingerprint = Some ''h3''\<rparr>)"
proof -
  have "is_ok (fst (approve (FeatureName ''checkout'') Plan (\<lambda>_. ''plan.md'') sample_art (Inr ()) (Some sample_approvals)))"
    by code_simp
  then obtain out disk where eq: "approve (FeatureName ''checkout'') Plan (\<lambda>_. ''plan.md'') sample_art (Inr ()) (Some sample_approvals)
      = (Inr out, disk)"
    by (auto simp: is_ok_iff prod_eq_iff)
  from approve_success [OF eq] eq show ?thesis by (auto simp: sample_art_def)
qed

theorem approve_refusal_is_honest_witness:
  "\<exists>e a'. approve (FeatureName ''checkout'') Analysis (\<lambda>_. ''analysis.md'') sample_art (Inr ()) (Some sample_approvals) = (Inl e, Some a')
     \<and> gate_record_of a' Requirements = gate_record_of sample_approvals Requirements"
proof -
  define res where "res = approve (FeatureName ''checkout'') Analysis (\<lambda>_. ''analysis.md'') sample_art (Inr ()) (Some sample_approvals)"
  have "\<not> is_ok (fst res) \<and> snd res = Some (reconciled sample_approvals sample_art)"
    unfolding res_def by code_simp
  then obtain e where "res = (Inl e, Some (reconciled sample_approvals sample_art))"
    by (cases res; cases "fst res") auto
  from approve_refusal_is_honest [OF this [unfolded res_def] sample_reconciled] this show ?thesis
    unfolding res_def by blast
qed

theorem invalidate_cascades_witness:
  "gate_record_of (invalidate_from Analysis (load_approvals (Some sample_approvals))) Plan =
     Some \<lparr>gr_gate = Plan, gr_state = NeedsRevision, gr_fingerprint = None\<rparr>"
proof -
  obtain out where "invalidate Analysis sample_art (Some sample_approvals) =
      (out, Some (invalidate_from Analysis (load_approvals (Some sample_approvals))))"
    by (simp add: invalidate_def Let_def)
  from invalidate_cascades [OF this] show ?thesis by simp
qed

end
