(* ===== verification/Integration.thy ===== *)
theory Integration
  imports Names
begin

text \<open>
  \<open>src/src/domain/feature/integration.rs\<close>: how a child feature integrates into its parent,
  the evidence and the receipt an integration leaves, and the classification of a feature
  from its close record and the freshness of its receipts.
\<close>

section \<open>Policy\<close>

datatype integration_via = ViaPr | ViaLocal

definition via_parse :: "string \<Rightarrow> string + integration_via" where
  "via_parse v = (if v = ''pr'' then Inr ViaPr else if v = ''local'' then Inr ViaLocal else Inl v)"

fun via_display :: "integration_via \<Rightarrow> string" where
  "via_display ViaPr = ''pr''"
| "via_display ViaLocal = ''local''"

datatype integration_strategy = StrategyMerge | StrategySquash | StrategyRebase

definition strategy_parse :: "string \<Rightarrow> string + integration_strategy" where
  "strategy_parse v =
     (if v = ''squash'' then Inr StrategySquash
      else if v = ''merge'' then Inr StrategyMerge
      else if v = ''rebase'' then Inr StrategyRebase
      else Inl v)"

fun strategy_display :: "integration_strategy \<Rightarrow> string" where
  "strategy_display StrategyMerge = ''merge''"
| "strategy_display StrategySquash = ''squash''"
| "strategy_display StrategyRebase = ''rebase''"

record integration_override =
  iv_via :: "integration_via option"
  iv_strategy :: "integration_strategy option"

definition override_default :: integration_override where
  "override_default = \<lparr>iv_via = None, iv_strategy = None\<rparr>"

record integration_policy =
  ip_via :: integration_via
  ip_strategy :: integration_strategy

text \<open>\<open>Option::or\<close> and \<open>unwrap_or\<close>.\<close>

fun opt_or :: "'a option \<Rightarrow> 'a option \<Rightarrow> 'a option" where
  "opt_or (Some x) _ = Some x"
| "opt_or None y = y"

fun unwrap_or :: "'a \<Rightarrow> 'a option \<Rightarrow> 'a" where
  "unwrap_or d None = d"
| "unwrap_or d (Some x) = x"

definition policy_resolve ::
    "integration_override \<Rightarrow> integration_override \<Rightarrow> integration_policy \<Rightarrow> integration_policy" where
  "policy_resolve cli feature hall =
     \<lparr>ip_via = unwrap_or (ip_via hall) (opt_or (iv_via cli) (iv_via feature)),
      ip_strategy = unwrap_or (ip_strategy hall) (opt_or (iv_strategy cli) (iv_strategy feature))\<rparr>"

definition policy_default :: integration_policy where
  "policy_default = \<lparr>ip_via = ViaLocal, ip_strategy = StrategySquash\<rparr>"

section \<open>Evidence and receipts\<close>

record verification_result =
  vr_command :: string
  vr_success :: bool
  vr_exit_code :: "int option"
  vr_diagnostic :: string

definition verification_passed :: "string \<Rightarrow> int option \<Rightarrow> string \<Rightarrow> verification_result" where
  "verification_passed c e d = \<lparr>vr_command = c, vr_success = True, vr_exit_code = e, vr_diagnostic = d\<rparr>"

definition verification_failed :: "string \<Rightarrow> int option \<Rightarrow> string \<Rightarrow> verification_result" where
  "verification_failed c e d = \<lparr>vr_command = c, vr_success = False, vr_exit_code = e, vr_diagnostic = d\<rparr>"

record pr_check_result =
  pk_name :: string
  pk_bucket :: string

definition pr_check_passed :: "string \<Rightarrow> pr_check_result" where
  "pr_check_passed n = \<lparr>pk_name = n, pk_bucket = ''pass''\<rparr>"

record verification_evidence =
  ve_fingerprint :: string
  ve_child :: "verification_result list"
  ve_parent :: "verification_result list"
  ve_pr_checks :: "pr_check_result list"
  ve_verified_at :: string

definition evidence_passed :: "verification_evidence \<Rightarrow> bool" where
  "evidence_passed e \<longleftrightarrow> list_all vr_success (ve_child e) \<and> list_all vr_success (ve_parent e)"

record integration_receipt =
  ir_source_sha :: string
  ir_target_branch :: branch_name
  ir_result_sha :: string
  ir_via :: integration_via
  ir_strategy :: integration_strategy
  ir_pr_url :: "string option"
  ir_verification :: verification_evidence

text \<open>
  \<open>run\<close> of \<open>src/src/action/feature/verification.rs\<close>: the checks in order, stopping after the
  first that fails.  \<open>exec\<close> runs one command in the shell: its result, or why it could not
  be spawned.
\<close>

fun run_checks :: "(string \<Rightarrow> string + (bool \<times> int option \<times> string)) \<Rightarrow> string list \<Rightarrow> verification_result list" where
  "run_checks exec [] = []"
| "run_checks exec (c # cs) =
     (let r = (case exec c of
                 Inr (ok, code, diag) \<Rightarrow> \<lparr>vr_command = c, vr_success = ok, vr_exit_code = code, vr_diagnostic = diag\<rparr>
               | Inl e \<Rightarrow> \<lparr>vr_command = c, vr_success = False, vr_exit_code = None, vr_diagnostic = e\<rparr>)
      in r # (if vr_success r then run_checks exec cs else []))"

section \<open>Classification\<close>

datatype promotion_outcome = OutcomeDelivered | OutcomeIntegrated | OutcomeAbandoned

definition promotion_outcome_parse :: "string \<Rightarrow> string + promotion_outcome" where
  "promotion_outcome_parse v =
     (if v = ''delivered'' then Inr OutcomeDelivered
      else if v = ''integrated'' then Inr OutcomeIntegrated
      else if v = ''abandoned'' then Inr OutcomeAbandoned
      else Inl v)"

fun promotion_outcome_display :: "promotion_outcome \<Rightarrow> string" where
  "promotion_outcome_display OutcomeDelivered = ''delivered''"
| "promotion_outcome_display OutcomeIntegrated = ''integrated''"
| "promotion_outcome_display OutcomeAbandoned = ''abandoned''"

definition unknown_outcome :: "string \<Rightarrow> failure" where
  "unknown_outcome v =
     with_fix (fix_safe ''feature.valid_outcome'' ''Use one of: delivered, integrated, abandoned.'')
       (blocked ''feature.unknown_outcome''
         (''unknown outcome '' @ quoted v @ '' '' @ em_dash @
          '' expected one of: delivered, integrated, abandoned''))"

datatype integration_state =
  StActive | StIntegrated | StFailed | StStale | StAbandoned | StDelivered

fun integration_state_display :: "integration_state \<Rightarrow> string" where
  "integration_state_display StActive = ''active''"
| "integration_state_display StIntegrated = ''integrated''"
| "integration_state_display StFailed = ''failed''"
| "integration_state_display StStale = ''stale''"
| "integration_state_display StAbandoned = ''abandoned''"
| "integration_state_display StDelivered = ''delivered''"

record classification_facts =
  cl_fully_receipted :: bool
  cl_any_failed :: bool
  cl_any_stale :: bool

definition facts_active :: classification_facts where
  "facts_active = \<lparr>cl_fully_receipted = False, cl_any_failed = False, cl_any_stale = False\<rparr>"

definition facts_integrated :: classification_facts where
  "facts_integrated = \<lparr>cl_fully_receipted = True, cl_any_failed = False, cl_any_stale = False\<rparr>"

definition facts_failed :: classification_facts where
  "facts_failed = \<lparr>cl_fully_receipted = True, cl_any_failed = True, cl_any_stale = False\<rparr>"

definition facts_stale :: classification_facts where
  "facts_stale = \<lparr>cl_fully_receipted = True, cl_any_failed = False, cl_any_stale = True\<rparr>"

definition classify :: "promotion_outcome option \<Rightarrow> classification_facts \<Rightarrow> integration_state" where
  "classify out facts =
     (case out of
        Some OutcomeDelivered \<Rightarrow> StDelivered
      | Some OutcomeAbandoned \<Rightarrow> StAbandoned
      | Some OutcomeIntegrated \<Rightarrow> StIntegrated
      | None \<Rightarrow>
          if \<not> cl_fully_receipted facts then StActive
          else if cl_any_failed facts then StFailed
          else if cl_any_stale facts then StStale
          else StIntegrated)"

definition unknown_via :: "string \<Rightarrow> failure" where
  "unknown_via v =
     with_fix (fix_safe ''feature.valid_integration_via'' ''Use one of: pr, local.'')
       (blocked ''feature.unknown_integration_via''
         (''unknown integration via '' @ quoted v @ '' '' @ em_dash @ '' expected one of: pr, local''))"

definition unknown_strategy :: "string \<Rightarrow> failure" where
  "unknown_strategy v =
     with_fix (fix_safe ''feature.valid_integration_strategy'' ''Use one of: squash, merge, rebase.'')
       (blocked ''feature.unknown_integration_strategy''
         (''unknown integration strategy '' @ quoted v @ '' '' @ em_dash @
          '' expected one of: squash, merge, rebase''))"

lemma via_roundtrip [simp]: "via_parse (via_display v) = Inr v"
  by (cases v) (simp_all add: via_parse_def)

lemma strategy_roundtrip [simp]: "strategy_parse (strategy_display s) = Inr s"
  by (cases s) (simp_all add: strategy_parse_def)

lemma promotion_outcome_roundtrip [simp]: "promotion_outcome_parse (promotion_outcome_display x) = Inr x"
  by (cases x) (simp_all add: promotion_outcome_parse_def)

interpretation via_codec: word_codec via_display via_parse
proof
  show "via_parse t = Inr x \<Longrightarrow> t = via_display x" for t x
    by (auto simp: via_parse_def split: if_splits)
qed (rule via_roundtrip)

interpretation strategy_codec: word_codec strategy_display strategy_parse
proof
  show "strategy_parse t = Inr x \<Longrightarrow> t = strategy_display x" for t x
    by (auto simp: strategy_parse_def split: if_splits)
qed (rule strategy_roundtrip)

interpretation outcome_codec: word_codec promotion_outcome_display promotion_outcome_parse
proof
  show "promotion_outcome_parse t = Inr x \<Longrightarrow> t = promotion_outcome_display x" for t x
    by (auto simp: promotion_outcome_parse_def split: if_splits)
qed (rule promotion_outcome_roundtrip)

lemma run_checks_passed:
  "list_all vr_success (run_checks exec cs) \<longleftrightarrow> (\<forall>c \<in> set cs. \<exists>code diag. exec c = Inr (True, code, diag))"
  by (induction cs) (auto simp: Let_def split: sum.splits prod.splits)

lemma run_checks_commands: "prefix (map vr_command (run_checks exec cs)) cs"
  by (induction cs) (auto simp: Let_def split: sum.splits prod.splits)

end
