(* ===== verification/Features.thy ===== *)
theory Features
  imports Integration Ordered_Map
begin

text \<open>
  \<open>src/src/domain/feature/feature.rs\<close> and \<open>base.rs\<close>: the feature record, its promotions (one per
  repository) and what a receipt freezes; \<open>src/src/action/feature/mutation.rs\<close>: the guards
  every mutating verb calls.  Whether the feature's close record says \<open>integrated\<close>
  (\<open>is_fully_integrated\<close>) is read from disk and is an argument of the guards.
\<close>

section \<open>The feature record\<close>

datatype worktree_state = WtPending | WtReady | WtFailed

record promotion =
  pr_worktree :: worktree_state
  pr_base :: "branch_name option"
  pr_pr_url :: "string option"
  pr_receipt :: "integration_receipt option"
  pr_reason :: "string option"

record feature =
  ft_version :: nat
  ft_name :: feature_name
  ft_branch :: branch_name
  ft_promotions :: "(repo_name, promotion) btree"
  ft_base :: "branch_name option"
  ft_parent :: "feature_name option"
  ft_integration :: integration_override

definition feature_new :: "feature_name \<Rightarrow> branch_name \<Rightarrow> feature" where
  "feature_new n b =
     \<lparr>ft_version = 3, ft_name = n, ft_branch = b, ft_promotions = bt_empty, ft_base = None,
      ft_parent = None, ft_integration = override_default\<rparr>"

definition feature_promote :: "repo_name \<Rightarrow> feature \<Rightarrow> feature" where
  "feature_promote repo f = f\<lparr>ft_promotions := bt_insert repo
     \<lparr>pr_worktree = WtPending, pr_base = None, pr_pr_url = None, pr_receipt = None, pr_reason = None\<rparr>
     (ft_promotions f)\<rparr>"

definition has_any_receipt :: "feature \<Rightarrow> bool" where
  "has_any_receipt f \<longleftrightarrow> list_ex (\<lambda>(_, p). pr_receipt p \<noteq> None) (ft_promotions f)"

definition receipt_passed :: "integration_receipt option \<Rightarrow> bool" where
  "receipt_passed r = (case r of None \<Rightarrow> False | Some r \<Rightarrow> evidence_passed (ir_verification r))"

definition promotion_has_successful_receipt :: "feature \<Rightarrow> repo_name \<Rightarrow> bool" where
  "promotion_has_successful_receipt f repo =
     (case bt_get (ft_promotions f) repo of None \<Rightarrow> False | Some p \<Rightarrow> receipt_passed (pr_receipt p))"

definition all_promotions_have_passing_receipts :: "feature \<Rightarrow> bool" where
  "all_promotions_have_passing_receipts f \<longleftrightarrow>
     ft_promotions f \<noteq> [] \<and> list_all (\<lambda>(_, p). receipt_passed (pr_receipt p)) (ft_promotions f)"

definition set_worktree_state :: "repo_name \<Rightarrow> worktree_state \<Rightarrow> feature \<Rightarrow> feature" where
  "set_worktree_state repo st f = f\<lparr>ft_promotions := bt_update repo (\<lambda>p. p\<lparr>pr_worktree := st\<rparr>) (ft_promotions f)\<rparr>"

definition feature_demote :: "repo_name \<Rightarrow> feature \<Rightarrow> bool \<times> feature" where
  "feature_demote repo f =
     (bt_contains (ft_promotions f) repo, f\<lparr>ft_promotions := bt_remove repo (ft_promotions f)\<rparr>)"

definition is_promoted :: "feature \<Rightarrow> repo_name \<Rightarrow> bool" where
  "is_promoted f repo = bt_contains (ft_promotions f) repo"

definition worktree_state_of :: "feature \<Rightarrow> repo_name \<Rightarrow> worktree_state option" where
  "worktree_state_of f repo = map_option pr_worktree (bt_get (ft_promotions f) repo)"

definition count_worktrees :: "feature \<Rightarrow> worktree_state \<Rightarrow> nat" where
  "count_worktrees f st = length (filter (\<lambda>(_, p). pr_worktree p = st) (ft_promotions f))"

definition effective_base :: "branch_name option \<Rightarrow> branch_name \<Rightarrow> branch_name" where
  "effective_base declared default_branch = unwrap_or default_branch declared"

section \<open>What a receipt freezes\<close>

definition pinned_receipts :: "feature \<Rightarrow> json list" where
  "pinned_receipts f = concat (map (\<lambda>(repo, p). case pr_receipt p of
       None \<Rightarrow> []
     | Some r \<Rightarrow> [JObject [(''repo'', JString (repo_str repo)), (''source_sha'', JString (ir_source_sha r)),
                          (''result_sha'', JString (ir_result_sha r))]]) (ft_promotions f))"

definition integration_immutable :: "feature \<Rightarrow> failure" where
  "integration_immutable f =
     with_fix (fix_command (''ivar feature status '' @ feature_str (ft_name f) @ '' --recursive'')
         (fix_safe ''feature.status'' (''Inspect the feature'' @ [CHR 0x27] @ ''s tree health.'')))
       (with_details (JObject [(''pinned'', JArray (pinned_receipts f))])
         (with_actual (''the close record says `integrated`, which is final '' @ em_dash @ '' there is no reopen command'')
           (with_expected ''a feature that has not closed as `integrated`''
             (blocked ''feature.integration_immutable''
               (''feature '' @ quoted (feature_str (ft_name f)) @ '' is fully integrated and cannot be mutated'')))))"

definition structure_frozen :: "feature \<Rightarrow> failure" where
  "structure_frozen f =
     with_fix (fix_safe ''feature.reparent_before_work''
         (''Reparent or change membership only while the child is pristine '' @ em_dash @ '' before any receipt.''))
       (with_details (JObject [(''pinned'', JArray (pinned_receipts f))])
         (with_actual ''at least one promotion carries a receipt''
           (with_expected ''a feature with no integration receipt yet''
             (blocked ''feature.integration_structure_frozen''
               (''feature '' @ quoted (feature_str (ft_name f)) @
                '' has begun integrating; its parent, base, policy, and promotion membership are frozen'')))))"

definition promotion_immutable :: "feature \<Rightarrow> repo_name \<Rightarrow> failure" where
  "promotion_immutable f repo =
     (let receipt = Option.bind (bt_get (ft_promotions f) repo) pr_receipt;
          source = unwrap_or [] (map_option ir_source_sha receipt);
          result = unwrap_or [] (map_option ir_result_sha receipt)
      in with_fix (fix_safe ''feature.leave_locked_promotion''
           ''Leave this promotion alone; repair and resume only unreceipted or failed promotions.'')
         (with_details (JObject [(''repo'', JString (repo_str repo)), (''source_sha'', JString source),
                                 (''result_sha'', JString result)])
           (with_actual (quoted (repo_str repo) @ [CHR 0x27] @ ''s receipt pins source '' @ source @ '' and result '' @ result)
             (with_expected ''a promotion without successful integration evidence''
               (blocked ''feature.promotion_integration_immutable''
                 (quoted (repo_str repo) @ [CHR 0x27] @ ''s promotion in feature '' @ quoted (feature_str (ft_name f)) @
                  '' carries a successful integration receipt and cannot be mutated''))))))"

definition session_unrestricted_blocked :: "feature \<Rightarrow> repo_name \<Rightarrow> failure" where
  "session_unrestricted_blocked f repo =
     with_fix (fix_safe ''feature.finish_integration''
         ''Finish integration before starting another unrestricted session.'')
       (with_actual (quoted (repo_str repo) @ '' is locked by its receipt'')
         (with_expected ''no successful receipt''
           (blocked ''feature.session_unrestricted_blocked''
             (''feature '' @ quoted (feature_str (ft_name f)) @ '' carries a successful integration receipt (on '' @
              quoted (repo_str repo) @ ''); an unrestricted session could write a locked promotion''))))"

definition ensure_not_fully_integrated :: "bool \<Rightarrow> feature \<Rightarrow> failure + unit" where
  "ensure_not_fully_integrated integrated f = (if integrated then Inl (integration_immutable f) else Inr ())"

definition ensure_structure_mutable :: "bool \<Rightarrow> feature \<Rightarrow> failure + unit" where
  "ensure_structure_mutable integrated f =
     (if integrated then Inl (integration_immutable f)
      else if has_any_receipt f then Inl (structure_frozen f)
      else Inr ())"

definition ensure_promotion_mutable :: "bool \<Rightarrow> feature \<Rightarrow> repo_name \<Rightarrow> failure + unit" where
  "ensure_promotion_mutable integrated f repo =
     (if integrated then Inl (integration_immutable f)
      else if promotion_has_successful_receipt f repo then Inl (promotion_immutable f repo)
      else Inr ())"

definition ensure_unrestricted_session_allowed :: "bool \<Rightarrow> feature \<Rightarrow> failure + unit" where
  "ensure_unrestricted_session_allowed integrated f =
     (if integrated then Inl (integration_immutable f)
      else (case find (\<lambda>(_, p). receipt_passed (pr_receipt p)) (ft_promotions f) of
              Some (repo, _) \<Rightarrow> Inl (session_unrestricted_blocked f repo)
            | None \<Rightarrow> Inr ()))"

text \<open>The record update of \<open>src/src/action/feature/demote.rs\<close> (\<open>demote\<close>, its closure).\<close>

definition not_promoted :: "feature_name \<Rightarrow> repo_name \<Rightarrow> failure" where
  "not_promoted fn repo =
     with_fix (fix_safe ''feature.promote_first''
         (''Run `ivar feature promote '' @ feature_str fn @ '' '' @ repo_str repo @ ''` first.''))
       (with_actual ''this repo has no promotion record here''
         (with_expected ''a repo currently promoted into this feature''
           (blocked ''feature.not_promoted''
             (quoted (repo_str repo) @ '' is not promoted into '' @ quoted (feature_str fn)))))"

definition demote_record :: "bool \<Rightarrow> feature_name \<Rightarrow> repo_name \<Rightarrow> feature \<Rightarrow> failure + feature" where
  "demote_record integrated fn repo f =
     and_then (ensure_promotion_mutable integrated f repo) (\<lambda>_.
       case feature_demote repo f of
         (True, f') \<Rightarrow> Inr f'
       | (False, _) \<Rightarrow> Inl (not_promoted fn repo))"

section \<open>Lemmas\<close>

definition feature_wf :: "feature \<Rightarrow> bool" where
  "feature_wf f \<longleftrightarrow> bt_sorted (ft_promotions f)"

lemma feature_wf_ops:
  "feature_wf (feature_new n b)"
  "feature_wf f \<Longrightarrow> feature_wf (feature_promote repo f)"
  "feature_wf f \<Longrightarrow> feature_wf (set_worktree_state repo st f)"
  "feature_wf f \<Longrightarrow> feature_wf (snd (feature_demote repo f))"
  by (simp_all add: feature_wf_def feature_new_def feature_promote_def set_worktree_state_def feature_demote_def
      bt.invar_empty bt.invar_insert bt.invar_remove)

lemma promotion_lookup:
  "feature_wf f \<Longrightarrow> bt_get (ft_promotions (feature_promote repo f)) r =
     (if r = repo then Some \<lparr>pr_worktree = WtPending, pr_base = None, pr_pr_url = None, pr_receipt = None, pr_reason = None\<rparr>
      else bt_get (ft_promotions f) r)"
  "bt_get (ft_promotions (set_worktree_state repo st f)) r =
     (if r = repo then map_option (\<lambda>p. p\<lparr>pr_worktree := st\<rparr>) (bt_get (ft_promotions f) r)
      else bt_get (ft_promotions f) r)"
  "feature_wf f \<Longrightarrow> bt_get (ft_promotions (snd (feature_demote repo f))) r =
     (if r = repo then None else bt_get (ft_promotions f) r)"
  by (auto simp: feature_wf_def feature_promote_def set_worktree_state_def feature_demote_def
      bt.get_insert bt.get_remove bt_get_update)

lemma no_receipt_iff:
  assumes "feature_wf f"
  shows "has_any_receipt f \<longleftrightarrow> (\<exists>r p. bt_get (ft_promotions f) r = Some p \<and> pr_receipt p \<noteq> None)"
  using bt.get_Some_iff [OF assms [unfolded feature_wf_def]]
  by (auto simp: has_any_receipt_def list_ex_iff)

section \<open>Properties\<close>

text \<open>
  What a receipt freezes: the structure guard passes exactly when the feature is not
  integrated and no promotion has a receipt; the promotion guard exactly when it is not
  integrated and that promotion has no passing receipt; and an unrestricted session is
  allowed exactly when no promotion would be locked.
\<close>

theorem mutation_guards_exact:
  assumes "feature_wf f"
  shows "(ensure_structure_mutable integrated f = Inr () \<longleftrightarrow>
           \<not> integrated \<and> (\<forall>r p. bt_get (ft_promotions f) r = Some p \<longrightarrow> pr_receipt p = None))
    \<and> (ensure_promotion_mutable integrated f repo = Inr () \<longleftrightarrow>
           \<not> integrated \<and> (\<forall>p rc. bt_get (ft_promotions f) repo = Some p \<longrightarrow> pr_receipt p = Some rc \<longrightarrow>
              \<not> evidence_passed (ir_verification rc)))
    \<and> (ensure_unrestricted_session_allowed integrated f = Inr () \<longleftrightarrow>
           (\<forall>r. ensure_promotion_mutable integrated f r = Inr ()) \<and> \<not> integrated)"
proof (intro conjI)
  show "ensure_structure_mutable integrated f = Inr () \<longleftrightarrow>
      \<not> integrated \<and> (\<forall>r p. bt_get (ft_promotions f) r = Some p \<longrightarrow> pr_receipt p = None)"
    using no_receipt_iff [OF assms] by (auto simp: ensure_structure_mutable_def)
  show "ensure_promotion_mutable integrated f repo = Inr () \<longleftrightarrow>
      \<not> integrated \<and> (\<forall>p rc. bt_get (ft_promotions f) repo = Some p \<longrightarrow> pr_receipt p = Some rc \<longrightarrow>
         \<not> evidence_passed (ir_verification rc))"
    by (auto simp: ensure_promotion_mutable_def promotion_has_successful_receipt_def receipt_passed_def
        split: option.splits)
  have ex: "(\<exists>r. promotion_has_successful_receipt f r) \<longleftrightarrow>
      find (\<lambda>(_, p). receipt_passed (pr_receipt p)) (ft_promotions f) \<noteq> None"
  proof -
    have "(\<exists>r. promotion_has_successful_receipt f r) \<longleftrightarrow>
        (\<exists>r p. (r, p) \<in> set (ft_promotions f) \<and> receipt_passed (pr_receipt p))"
    proof -
      have "promotion_has_successful_receipt f r \<longleftrightarrow>
          (\<exists>p. bt_get (ft_promotions f) r = Some p \<and> receipt_passed (pr_receipt p))" for r
        by (simp add: promotion_has_successful_receipt_def split: option.splits)
      then show ?thesis using bt.get_Some_iff [OF assms [unfolded feature_wf_def]] by simp
    qed
    then show ?thesis by (auto simp: find_None_iff)
  qed
  show "ensure_unrestricted_session_allowed integrated f = Inr () \<longleftrightarrow>
      (\<forall>r. ensure_promotion_mutable integrated f r = Inr ()) \<and> \<not> integrated"
    using ex
    by (auto simp: ensure_unrestricted_session_allowed_def ensure_promotion_mutable_def split: option.splits)
qed

text \<open>
  A demotion takes out exactly the named promotion and never one that carries a passing
  receipt; every other promotion and the rest of the record stay as they are.
\<close>

theorem demote_keeps_locked_promotions:
  assumes "feature_wf f" and "demote_record integrated fn repo f = Inr f'"
  shows "feature_wf f' \<and> \<not> integrated \<and> \<not> promotion_has_successful_receipt f repo \<and> is_promoted f repo
    \<and> (\<forall>r. bt_get (ft_promotions f') r = (if r = repo then None else bt_get (ft_promotions f) r))
    \<and> f' = f\<lparr>ft_promotions := ft_promotions f'\<rparr>"
proof -
  from assms(2) have ok: "\<not> integrated" "\<not> promotion_has_successful_receipt f repo"
    and d: "fst (feature_demote repo f)" "f' = snd (feature_demote repo f)"
    by (auto simp: demote_record_def result_simps ensure_promotion_mutable_def split: if_splits prod.splits bool.splits)
  have "\<forall>r. bt_get (ft_promotions f') r = (if r = repo then None else bt_get (ft_promotions f) r)"
    using promotion_lookup(3) [OF assms(1)] d(2) by simp
  with ok d feature_wf_ops(4) [OF assms(1)] show ?thesis
    by (simp add: feature_demote_def is_promoted_def)
qed

section \<open>Witnesses\<close>

definition sample_evidence :: "bool \<Rightarrow> verification_evidence" where
  "sample_evidence ok =
     \<lparr>ve_fingerprint = ''f'', ve_child = [\<lparr>vr_command = ''make'', vr_success = ok, vr_exit_code = Some 0, vr_diagnostic = []\<rparr>],
      ve_parent = [], ve_pr_checks = [], ve_verified_at = ''t''\<rparr>"

definition sample_receipt :: "bool \<Rightarrow> integration_receipt" where
  "sample_receipt ok =
     \<lparr>ir_source_sha = ''a1'', ir_target_branch = BranchName ''main'', ir_result_sha = ''b2'', ir_via = ViaLocal,
      ir_strategy = StrategySquash, ir_pr_url = None, ir_verification = sample_evidence ok\<rparr>"

definition sample_feature :: feature where
  "sample_feature =
     (let f = feature_promote (RepoName ''web'') (feature_promote (RepoName ''api'') (feature_new (FeatureName ''checkout'') (BranchName ''checkout'')))
      in f\<lparr>ft_promotions := bt_update (RepoName ''api'') (\<lambda>p. p\<lparr>pr_receipt := Some (sample_receipt True)\<rparr>) (ft_promotions f)\<rparr>)"

lemma sample_feature_wf: "feature_wf sample_feature"
  unfolding sample_feature_def Let_def feature_wf_def
  by (simp add: feature_wf_ops [unfolded feature_wf_def])

theorem mutation_guards_exact_witness:
  "ensure_structure_mutable False sample_feature \<noteq> Inr ()
   \<and> ensure_promotion_mutable False sample_feature (RepoName ''web'') = Inr ()"
proof -
  have a: "bt_get (ft_promotions sample_feature) (RepoName ''api'') \<noteq> None \<and>
      pr_receipt (the (bt_get (ft_promotions sample_feature) (RepoName ''api''))) \<noteq> None" by code_simp
  have w: "bt_get (ft_promotions sample_feature) (RepoName ''web'') =
      Some \<lparr>pr_worktree = WtPending, pr_base = None, pr_pr_url = None, pr_receipt = None, pr_reason = None\<rparr>" by code_simp
  from a w show ?thesis
    using mutation_guards_exact [OF sample_feature_wf, of False "RepoName ''web''"] by auto
qed

theorem demote_keeps_locked_promotions_witness:
  "\<exists>f'. demote_record False (FeatureName ''checkout'') (RepoName ''web'') sample_feature = Inr f'
     \<and> promotion_has_successful_receipt f' (RepoName ''api'')"
proof -
  have "is_ok (demote_record False (FeatureName ''checkout'') (RepoName ''web'') sample_feature)
      \<and> promotion_has_successful_receipt sample_feature (RepoName ''api'')" by code_simp
  then obtain f' where f': "demote_record False (FeatureName ''checkout'') (RepoName ''web'') sample_feature = Inr f'"
    and "promotion_has_successful_receipt sample_feature (RepoName ''api'')" by (auto simp: is_ok_iff)
  with demote_keeps_locked_promotions [OF sample_feature_wf f'] show ?thesis
    by (auto simp: promotion_has_successful_receipt_def)
qed

end
