(* ===== verification/Feature_Tree.thy ===== *)
theory Feature_Tree
  imports Features
begin

text \<open>
  The tree of features: the map, its validation, the walk over descendants and the forest of
  \<open>src/src/action/feature/relations.rs\<close>.  The features on disk are the list the verbs read.
  The walk has no bound in the code, so it is a partial function.  \<open>tree_valid\<close> is the
  specification of the validation: every parent exists and the parent relation is acyclic.
\<close>

section \<open>The map of features and its validation\<close>

type_synonym features_by_name = "(feature_name, feature) btree"

definition feature_map :: "feature list \<Rightarrow> features_by_name" where
  "feature_map fs = bt_of (map (\<lambda>f. (ft_name f, f)) fs)"

definition parent_cycle :: "feature_name \<Rightarrow> feature_name \<Rightarrow> failure" where
  "parent_cycle start n =
     with_fix (fix_safe ''feature.fix_parent_reference''
         ''Repair the hand-edited `parent` fields so no feature is its own ancestor.'')
       (with_actual (''walking parents from '' @ quoted (feature_str start) @ '' revisited '' @ quoted (feature_str n))
         (with_expected ''every parent chain to end at a root (a feature with no parent)''
           (blocked ''feature.parent_cycle''
             (''feature '' @ quoted (feature_str start) @ '' is part of a parent cycle''))))"

definition parent_missing :: "feature_name \<Rightarrow> feature_name \<Rightarrow> failure" where
  "parent_missing start n =
     with_fix (fix_safe ''feature.fix_parent_reference''
         (''Repair '' @ quoted (feature_str start) @ [CHR 0x27] @ ''s `parent` field, or create the missing '' @
          quoted (feature_str n) @ '' feature.''))
       (with_actual (quoted (feature_str n) @ '' has no feature.json'')
         (with_expected ''every parent reference to resolve to an existing feature''
           (blocked ''feature.parent_missing''
             (''feature '' @ quoted (feature_str start) @ '' names parent '' @ quoted (feature_str n) @
              '', which does not exist''))))"

lemma bt_get_key: "bt_get m n = Some f \<Longrightarrow> n \<in> fst ` set m \<and> f \<in> snd ` set m"
  by (force simp: bt_get_def dest: map_of_SomeD)

text \<open>The inner loop of \<open>validate_tree\<close>: \<open>seen\<close> is the hash set, \<open>current\<close> the cursor.\<close>

function validate_chain ::
    "features_by_name \<Rightarrow> feature_name \<Rightarrow> feature_name list \<Rightarrow> feature_name option \<Rightarrow> failure + unit" where
  "validate_chain m start seen None = Inr ()"
| "validate_chain m start seen (Some n) =
     (if n \<in> set seen then Inl (parent_cycle start n)
      else (case bt_get m n of
              None \<Rightarrow> Inl (parent_missing start n)
            | Some f \<Rightarrow> validate_chain m start (n # seen) (ft_parent f)))"
  by pat_completeness auto

termination
proof (relation "measure (\<lambda>(m, start, seen, cur).
    2 * card (fst ` set m - set seen) + (case cur of None \<Rightarrow> 0 | Some _ \<Rightarrow> 1))")
  fix m :: features_by_name and start n :: feature_name and seen and f
  assume new: "n \<notin> set seen" and get: "bt_get m n = Some f"
  have "fst ` set m - set (n # seen) \<subset> fst ` set m - set seen"
    using new bt_get_key [OF get] by auto
  then have "card (fst ` set m - set (n # seen)) < card (fst ` set m - set seen)"
    by (intro psubset_card_mono) simp_all
  then show "((m, start, n # seen, ft_parent f), m, start, seen, Some n)
      \<in> measure (\<lambda>(m, start, seen, cur). 2 * card (fst ` set m - set seen) + (case cur of None \<Rightarrow> 0 | Some _ \<Rightarrow> 1))"
    by (simp split: option.splits)
qed simp

fun validate_each :: "features_by_name \<Rightarrow> feature list \<Rightarrow> failure + unit" where
  "validate_each m [] = Inr ()"
| "validate_each m (f # fs) =
     and_then (validate_chain m (ft_name f) [] (Some (ft_name f))) (\<lambda>_. validate_each m fs)"

definition validate_tree :: "feature list \<Rightarrow> failure + unit" where
  "validate_tree fs = validate_each (feature_map fs) fs"

section \<open>Walking the tree\<close>

text \<open>\<open>sort_by\<close> on names in descending order is stable.\<close>

definition sort_names :: "feature list \<Rightarrow> feature list" where
  "sort_names fs = sort_key ft_name fs"

definition sort_names_desc :: "feature list \<Rightarrow> feature list" where
  "sort_names_desc fs = rev (sort_key ft_name (rev fs))"

definition children_of :: "features_by_name \<Rightarrow> feature_name \<Rightarrow> feature list" where
  "children_of m n = filter (\<lambda>f. ft_parent f = Some n) (map snd m)"

text \<open>The explicit stack of \<open>descendants_from_values\<close>; a \<open>Vec\<close> is popped at its end.\<close>

partial_function (option) dfs ::
    "features_by_name \<Rightarrow> (nat \<times> feature) list \<Rightarrow> (nat \<times> feature) list \<Rightarrow> (nat \<times> feature) list option" where
  [code]: "dfs m stack result =
     (if stack = [] then Some result
      else (let (depth, f) = last stack in
        dfs m (butlast stack @ map (Pair (depth + 1)) (sort_names_desc (children_of m (ft_name f))))
          (result @ [(depth, f)])))"

definition descendants_from_values :: "features_by_name \<Rightarrow> feature_name \<Rightarrow> (nat \<times> feature) list option" where
  "descendants_from_values m n = dfs m (map (Pair 1) (sort_names_desc (children_of m n))) []"

definition forest_roots :: "features_by_name \<Rightarrow> feature list" where
  "forest_roots m = sort_names (filter (\<lambda>f. case ft_parent f of None \<Rightarrow> True | Some p \<Rightarrow> \<not> bt_contains m p) (map snd m))"

fun forest_from :: "features_by_name \<Rightarrow> feature list \<Rightarrow> (nat \<times> feature) list option" where
  "forest_from m [] = Some []"
| "forest_from m (r # rs) =
     Option.bind (descendants_from_values m (ft_name r)) (\<lambda>ds.
     Option.bind (forest_from m rs) (\<lambda>rest. Some ((0, r) # ds @ rest)))"

definition forest :: "features_by_name \<Rightarrow> (nat \<times> feature) list option" where
  "forest m = forest_from m (forest_roots m)"

function depth_loop ::
    "features_by_name \<Rightarrow> feature_name list \<Rightarrow> nat \<Rightarrow> feature \<Rightarrow> nat option" where
  "depth_loop m seen depth f =
     (case ft_parent f of
        None \<Rightarrow> Some depth
      | Some p \<Rightarrow>
          (case bt_get m p of
             None \<Rightarrow> Some depth
           | Some pf \<Rightarrow>
               if ft_name pf \<in> set seen then None
               else depth_loop m (ft_name pf # seen) (depth + 1) pf))"
  by pat_completeness auto

termination
proof (relation "measure (\<lambda>(m, seen, depth, f). card (ft_name ` snd ` set m - set seen))")
  fix m :: features_by_name and seen and f pf :: feature and p
  assume "bt_get m p = Some pf" "ft_name pf \<notin> set seen"
  then have "ft_name pf \<in> ft_name ` snd ` set m" "ft_name pf \<notin> set seen"
    using bt_get_key [of m p pf] by blast+
  then have "ft_name ` snd ` set m - set (ft_name pf # seen) \<subset> ft_name ` snd ` set m - set seen" by auto
  then have "card (ft_name ` snd ` set m - set (ft_name pf # seen)) < card (ft_name ` snd ` set m - set seen)"
    by (intro psubset_card_mono) simp_all
  then show "((m, ft_name pf # seen, depth + 1, pf), m, seen, depth, f)
      \<in> measure (\<lambda>(m, seen, depth, f). card (ft_name ` snd ` set m - set seen))" for depth :: nat by simp
qed simp

definition depth_with_map :: "features_by_name \<Rightarrow> feature \<Rightarrow> failure + nat" where
  "depth_with_map m f =
     (case depth_loop m [] 0 f of
        Some d \<Rightarrow> Inr d
      | None \<Rightarrow> Inl (with_actual ''walking parents revisited a feature''
          (with_expected ''every parent chain to end at a root''
            (blocked ''feature.parent_cycle''
              (''feature '' @ quoted (feature_str (ft_name f)) @ '' is part of a parent cycle'')))))"

section \<open>The parent relation\<close>

definition up :: "features_by_name \<Rightarrow> (feature_name \<times> feature_name) set" where
  "up m = {(n, p). \<exists>f. bt_get m n = Some f \<and> ft_parent f = Some p}"

text \<open>What the code keeps of a map: sorted, and every feature under its own name.\<close>

definition map_ok :: "features_by_name \<Rightarrow> bool" where
  "map_ok m \<longleftrightarrow> bt_sorted m \<and> (\<forall>n f. bt_get m n = Some f \<longrightarrow> ft_name f = n)"

text \<open>\<open>depth_is m n d\<close>: the chain of \<open>n\<close> ends, after \<open>d\<close> steps, at a feature with no parent in the map.\<close>

inductive depth_is :: "features_by_name \<Rightarrow> feature_name \<Rightarrow> nat \<Rightarrow> bool" for m where
  root: "bt_get m n = Some f \<Longrightarrow> Option.bind (ft_parent f) (bt_get m) = None \<Longrightarrow> depth_is m n 0"
| child: "bt_get m n = Some f \<Longrightarrow> ft_parent f = Some p \<Longrightarrow> depth_is m p d \<Longrightarrow> depth_is m n (Suc d)"

inductive_simps depth_is_0: "depth_is m n 0"
inductive_simps depth_is_Suc: "depth_is m n (Suc d)"

lemma feature_map_ok: "map_ok (feature_map fs)"
proof -
  have "ft_name f = n" if "bt_get (feature_map fs) n = Some f" for n f
    using map_of_SomeD [OF that [unfolded feature_map_def bt_get_of]] by auto
  moreover have "bt_sorted (feature_map fs)" unfolding feature_map_def by (rule bt_sorted_of)
  ultimately show ?thesis unfolding map_ok_def by blast
qed

lemma feature_map_dom: "bt_get (feature_map fs) n \<noteq> None \<longleftrightarrow> n \<in> ft_name ` set fs"
  unfolding feature_map_def bt_get_of map_of_eq_None_iff by force

lemma depth_is_in_map: "depth_is m n d \<Longrightarrow> bt_get m n \<noteq> None"
  by (induction rule: depth_is.induct) auto

lemma depth_is_absent: "bt_get m n = None \<Longrightarrow> \<not> depth_is m n d"
  using depth_is_in_map [of m n d] by blast

lemma depth_is_unique: "depth_is m n d \<Longrightarrow> depth_is m n e \<Longrightarrow> d = e"
proof (induction arbitrary: e rule: depth_is.induct)
  case (root n f)
  then show ?case by (cases e) (auto simp: depth_is_Suc depth_is_absent)
next
  case (child n f p d)
  from depth_is_in_map [OF child.hyps(3)] obtain pf where "bt_get m p = Some pf" by blast
  with child.prems child.hyps obtain e' where "e = Suc e'" "depth_is m p e'"
    by (cases e) (auto simp: depth_is_0 depth_is_Suc)
  with child.IH show ?case by simp
qed

lemma up_single_valued: "single_valued (up m)"
  by (auto simp: single_valued_def up_def)

lemma finite_up: "finite (up m)"
proof (rule finite_subset)
  show "up m \<subseteq> (\<lambda>(n, f). (n, the (ft_parent f))) ` set m"
    by (force simp: up_def bt_get_def dest: map_of_SomeD)
qed simp

lemma depth_is_up: "depth_is m p d \<Longrightarrow> (n, p) \<in> up m \<Longrightarrow> depth_is m n (Suc d)"
  by (auto simp: up_def intro: depth_is.child)

text \<open>A parent in the map is one step nearer to the root.\<close>

lemma depth_is_parent:
  "depth_is m n d \<Longrightarrow> (n, p) \<in> up m \<Longrightarrow> bt_get m p \<noteq> None \<Longrightarrow> \<exists>d'. d = Suc d' \<and> depth_is m p d'"
  by (cases d) (auto simp: up_def depth_is_0 depth_is_Suc)

lemma in_up_trancl_fst: "(a, b) \<in> (up m)\<^sup>+ \<Longrightarrow> bt_get m a \<noteq> None"
  by (induction rule: trancl_induct) (auto simp: up_def)

lemma depth_is_trancl:
  "(a, b) \<in> (up m)\<^sup>+ \<Longrightarrow> depth_is m a d \<Longrightarrow> bt_get m b \<noteq> None \<Longrightarrow> \<exists>e < d. depth_is m b e"
proof (induction arbitrary: rule: trancl_induct)
  case (base b)
  from depth_is_parent [OF base(2) base(1) base(3)] show ?case by auto
next
  case (step b c)
  then have "bt_get m b \<noteq> None" by (auto simp: up_def)
  with step obtain e where e: "e < d" "depth_is m b e" by blast
  from depth_is_parent [OF e(2) step.hyps(2) step.prems(2)] e(1) show ?case using Suc_lessD by blast
qed

lemma depth_not_on_cycle: "depth_is m n d \<Longrightarrow> (n, n) \<notin> (up m)\<^sup>+"
  using depth_is_trancl [of n n m d] depth_is_in_map [of m n d] depth_is_unique [of m n d] by blast

text \<open>Off every cycle the chain ends, so there is a depth.\<close>

lemma acyclic_has_depth:
  assumes "acyclic (up m)" and "bt_get m n \<noteq> None"
  shows "\<exists>d. depth_is m n d"
proof -
  have "wf ((up m)\<inverse>)" by (rule finite_acyclic_wf_converse [OF finite_up assms(1)])
  then show ?thesis
    using assms(2)
  proof (induction n rule: wf_induct_rule)
    case (less n)
    then obtain f where f: "bt_get m n = Some f" by blast
    show ?case
    proof (cases "Option.bind (ft_parent f) (bt_get m)")
      case None
      with f show ?thesis by (blast intro: depth_is.root)
    next
      case (Some pf)
      then obtain p where p: "ft_parent f = Some p" "bt_get m p = Some pf" by (auto simp: bind_eq_Some_conv)
      with f have "(p, n) \<in> (up m)\<inverse>" by (auto simp: up_def)
      with less.IH p(2) obtain d where "depth_is m p d" by blast
      with f p(1) show ?thesis by (blast intro: depth_is.child)
    qed
  qed
qed

section \<open>Validation\<close>

lemma validate_chain_sound:
  "validate_chain m s seen cur = Inr () \<Longrightarrow> cur = Some n \<Longrightarrow>
     \<exists>d. depth_is m n d \<and> (\<forall>k p. (n, k) \<in> (up m)\<^sup>* \<longrightarrow> (k, p) \<in> up m \<longrightarrow> bt_get m p \<noteq> None)"
proof (induction m s seen cur arbitrary: n rule: validate_chain.induct)
  case (2 m s seen n')
  then have new: "n \<notin> set seen" and nn: "n' = n" by (auto split: if_splits)
  with "2.prems" obtain f where f: "bt_get m n = Some f" "validate_chain m s (n # seen) (ft_parent f) = Inr ()"
    by (auto split: option.splits)
  show ?case
  proof (cases "ft_parent f")
    case None
    with f(1) have "(n, p) \<notin> up m" for p by (auto simp: up_def)
    then have "k = n \<and> (k, p) \<notin> up m" if "(n, k) \<in> (up m)\<^sup>*" for k p
      using that by (auto elim: converse_rtranclE)
    with None f(1) show ?thesis by (fastforce intro: depth_is.root)
  next
    case (Some p)
    from "2.IH" [OF new [folded nn], of f p] f nn Some obtain d where d: "depth_is m p d"
      and up: "\<And>k q. (p, k) \<in> (up m)\<^sup>* \<Longrightarrow> (k, q) \<in> up m \<Longrightarrow> bt_get m q \<noteq> None" by auto
    have "bt_get m q \<noteq> None" if "(n, k) \<in> (up m)\<^sup>*" "(k, q) \<in> up m" for k q
    proof (cases "k = n")
      case True
      with that(2) f(1) Some have "q = p" by (auto simp: up_def)
      with depth_is_in_map [OF d] show ?thesis by simp
    next
      case False
      with that(1) obtain z where "(n, z) \<in> up m" "(z, k) \<in> (up m)\<^sup>*" by (auto elim: converse_rtranclE)
      moreover from this(1) f(1) Some have "z = p" by (auto simp: up_def)
      ultimately show ?thesis using up that(2) by blast
    qed
    with d f(1) Some show ?thesis by (blast intro: depth_is.child)
  qed
qed simp

lemma validate_chain_complete:
  assumes "depth_is m n d" and "\<forall>k p. (k, p) \<in> up m \<longrightarrow> bt_get m p \<noteq> None"
    and "\<forall>x \<in> set seen. \<exists>e > d. depth_is m x e"
  shows "validate_chain m s seen (Some n) = Inr ()"
  using assms
proof (induction arbitrary: seen rule: depth_is.induct)
  case (root n f)
  have new: "n \<notin> set seen"
    using root depth_is_unique [of m n 0] depth_is.root [OF root(1,2)] by blast
  have "ft_parent f = None"
  proof (cases "ft_parent f")
    case (Some p)
    with root(1) have "(n, p) \<in> up m" by (simp add: up_def)
    with root.prems(1) have "bt_get m p \<noteq> None" by blast
    with root(2) Some show ?thesis by simp
  qed
  with new root(1) show ?case by simp
next
  case (child n f p d)
  have dn: "depth_is m n (Suc d)" using child.hyps by (rule depth_is.child)
  then have new: "n \<notin> set seen" using child.prems(2) depth_is_unique [of m n "Suc d"] by blast
  have "\<exists>e > d. depth_is m x e" if "x \<in> set (n # seen)" for x
  proof (cases "x = n")
    case True
    with dn show ?thesis using lessI by blast
  next
    case False
    with that child.prems(2) obtain e where "e > Suc d" "depth_is m x e" by auto
    then show ?thesis by (intro exI [of _ e]) simp
  qed
  then have "validate_chain m s (n # seen) (Some p) = Inr ()" using child.IH child.prems(1) by blast
  with new child.hyps show ?case by simp
qed

lemma validate_each_iff:
  "validate_each m fs = Inr () \<longleftrightarrow> (\<forall>f \<in> set fs. validate_chain m (ft_name f) [] (Some (ft_name f)) = Inr ())"
  by (induction fs) (auto simp: result_simps split: sum.splits)

text \<open>The specification of a valid tree: every parent exists and no feature is its own ancestor.\<close>

definition tree_valid :: "features_by_name \<Rightarrow> bool" where
  "tree_valid m \<longleftrightarrow> (\<forall>n p. (n, p) \<in> up m \<longrightarrow> bt_get m p \<noteq> None) \<and> acyclic (up m)"

lemma tree_valid_has_depth: "tree_valid m \<Longrightarrow> bt_get m n \<noteq> None \<Longrightarrow> \<exists>d. depth_is m n d"
  by (simp add: tree_valid_def acyclic_has_depth)

lemma validate_tree_iff: "validate_tree fs = Inr () \<longleftrightarrow> tree_valid (feature_map fs)"
proof
  let ?m = "feature_map fs"
  assume ok: "validate_tree fs = Inr ()"
  have each: "validate_chain ?m n [] (Some n) = Inr ()" if "bt_get ?m n \<noteq> None" for n
    using that ok unfolding feature_map_dom validate_tree_def validate_each_iff by blast
  have "bt_get ?m p \<noteq> None" if "(n, p) \<in> up ?m" for n p
  proof -
    have "bt_get ?m n \<noteq> None" using that by (auto simp: up_def)
    from validate_chain_sound [OF each [OF this] refl] that show ?thesis by blast
  qed
  moreover have "(n, n) \<notin> (up ?m)\<^sup>+" for n
  proof
    assume c: "(n, n) \<in> (up ?m)\<^sup>+"
    from validate_chain_sound [OF each [OF in_up_trancl_fst [OF c]] refl] depth_not_on_cycle [of ?m n] c
    show False by blast
  qed
  ultimately show "tree_valid ?m" by (auto simp: tree_valid_def acyclic_def)
next
  let ?m = "feature_map fs"
  assume v: "tree_valid ?m"
  have "validate_chain ?m (ft_name f) [] (Some (ft_name f)) = Inr ()" if "f \<in> set fs" for f
  proof -
    from that have "bt_get ?m (ft_name f) \<noteq> None" unfolding feature_map_dom by simp
    from tree_valid_has_depth [OF v this] obtain d where d: "depth_is ?m (ft_name f) d" by blast
    have closed: "\<forall>k p. (k, p) \<in> up ?m \<longrightarrow> bt_get ?m p \<noteq> None" using v unfolding tree_valid_def by blast
    show ?thesis by (rule validate_chain_complete [OF d closed]) simp
  qed
  then show "validate_tree fs = Inr ()" by (simp add: validate_tree_def validate_each_iff del: validate_chain.simps)
qed

end
