(* ===== verification/Feature_Walk.thy ===== *)
theory Feature_Walk
  imports Feature_Tree "HOL-Library.Multiset"
begin

text \<open>
  The walks of \<open>src/src/action/feature/relations.rs\<close> meet their specification: the depth-first
  walk returns exactly when its start is on no parent cycle and is then the preorder of the
  subtree; the forest always returns, whatever is on disk, and lists every feature whose
  chain ends, once, at its depth.
\<close>

section \<open>The preorder of a subtree\<close>

inductive preorder :: "features_by_name \<Rightarrow> nat \<Rightarrow> feature \<Rightarrow> (nat \<times> feature) list \<Rightarrow> bool" for m where
  preorder: "list_all2 (preorder m (Suc d)) (sort_names (children_of m (ft_name f))) yss \<Longrightarrow>
     preorder m d f ((d, f) # concat yss)"
  monos list.rel_mono_strong

text \<open>The rows of all the children of a name.\<close>

definition preorders :: "features_by_name \<Rightarrow> nat \<Rightarrow> feature_name \<Rightarrow> (nat \<times> feature) list \<Rightarrow> bool" where
  "preorders m d n ys \<longleftrightarrow> (\<exists>yss. list_all2 (preorder m d) (sort_names (children_of m n)) yss \<and> ys = concat yss)"

lemma preorder_iff: "preorder m d f ys \<longleftrightarrow> (\<exists>zs. preorders m (Suc d) (ft_name f) zs \<and> ys = (d, f) # zs)"
  by (subst preorder.simps) (auto simp: preorders_def)

section \<open>The map and its features\<close>

lemma map_ok_mem: "map_ok m \<Longrightarrow> f \<in> snd ` set m \<longleftrightarrow> bt_get m (ft_name f) = Some f"
  using bt.get_Some_iff [of m] by (force simp: map_ok_def)

lemma children_of_iff: "map_ok m \<Longrightarrow> c \<in> set (children_of m n) \<longleftrightarrow> bt_get m (ft_name c) = Some c \<and> ft_parent c = Some n"
  using map_ok_mem [of m c] by (auto simp: children_of_def)

lemma map_ok_names: "map_ok m \<Longrightarrow> map (ft_name \<circ> snd) m = map fst m"
  using bt.get_Some_iff [of m] by (auto simp: map_ok_def intro: map_cong)

lemma map_ok_distinct: "map_ok m \<Longrightarrow> distinct (map ft_name (map snd m))"
  using map_ok_names [of m] bt.entries_distinct [of m] unfolding map_ok_def map_map by metis

lemma children_distinct: "map_ok m \<Longrightarrow> distinct (map ft_name (children_of m n))"
  unfolding children_of_def by (rule distinct_map_filter) (rule map_ok_distinct)

lemma sort_names_desc_rev: "distinct (map ft_name fs) \<Longrightarrow> sort_names_desc fs = rev (sort_names fs)"
proof -
  assume d: "distinct (map ft_name fs)"
  have "sort_key ft_name (rev fs) = sort_key ft_name fs"
    using d by (intro sort_key_inj_key_eq) (simp_all add: distinct_map)
  then show ?thesis by (simp add: sort_names_desc_def sort_names_def)
qed

lemma set_sort_names [simp]: "set (sort_names fs) = set fs"
  by (simp add: sort_names_def)

section \<open>The explicit stack computes the preorder\<close>

lemma dfs_Nil: "dfs m [] acc = Some acc"
  by (subst dfs.simps) simp

lemma dfs_snoc:
  assumes "map_ok m"
  shows "dfs m (st @ [(d, f)]) acc =
     dfs m (st @ rev (map (Pair (Suc d)) (sort_names (children_of m (ft_name f))))) (acc @ [(d, f)])"
  by (subst dfs.simps) (simp add: sort_names_desc_rev [OF children_distinct [OF assms]] rev_map)

lemma dfs_rows:
  "list_all2 (\<lambda>c ys. \<forall>st acc. dfs m (st @ [(d, c)]) acc = dfs m st (acc @ ys)) cs yss \<Longrightarrow>
     dfs m (st @ rev (map (Pair d) cs)) acc = dfs m st (acc @ concat yss)"
proof (induction cs yss arbitrary: st acc rule: list_all2_induct)
  case (Cons c cs ys yss)
  have "dfs m (st @ rev (map (Pair d) (c # cs))) acc = dfs m ((st @ rev (map (Pair d) cs)) @ [(d, c)]) acc" by simp
  also have "\<dots> = dfs m (st @ rev (map (Pair d) cs)) (acc @ ys)" using Cons.hyps by blast
  also have "\<dots> = dfs m st (acc @ concat (ys # yss))" using Cons.IH [of st "acc @ ys"] by simp
  finally show ?case .
qed simp

lemma dfs_preorder:
  assumes "map_ok m" and "preorder m d f ys"
  shows "dfs m (st @ [(d, f)]) acc = dfs m st (acc @ ys)"
  using assms(2)
proof (induction arbitrary: st acc rule: preorder.induct)
  case (preorder d f yss)
  then have "list_all2 (\<lambda>c ys. \<forall>st acc. dfs m (st @ [(Suc d, c)]) acc = dfs m st (acc @ ys))
      (sort_names (children_of m (ft_name f))) yss"
    by (auto elim: list.rel_mono_strong)
  from dfs_rows [OF this] show ?case by (simp add: dfs_snoc [OF assms(1)])
qed

lemma descendants_preorders:
  assumes "map_ok m" and "preorders m 1 n ys"
  shows "descendants_from_values m n = Some ys"
proof -
  from assms(2) obtain yss where y: "list_all2 (preorder m 1) (sort_names (children_of m n)) yss" "ys = concat yss"
    by (auto simp: preorders_def)
  then have "list_all2 (\<lambda>c ys. \<forall>st acc. dfs m (st @ [(1, c)]) acc = dfs m st (acc @ ys))
      (sort_names (children_of m n)) yss"
    by (auto elim!: list.rel_mono_strong simp: dfs_preorder [OF assms(1)])
  from dfs_rows [OF this, of "[]" "[]"] show ?thesis
    by (simp add: descendants_from_values_def sort_names_desc_rev [OF children_distinct [OF assms(1)]]
        rev_map y(2) dfs_Nil)
qed

section \<open>Cycles of the parent relation\<close>

text \<open>Parents are unique, so everything above a feature on a cycle is on that cycle.\<close>

lemma cycle_above:
  assumes "(x, x) \<in> (up m)\<^sup>+" and "(x, n) \<in> (up m)\<^sup>*"
  shows "(n, x) \<in> (up m)\<^sup>*"
  using assms(2)
proof (induction rule: rtrancl_induct)
  case (step y z)
  have "(y, x) \<in> (up m)\<^sup>+" using step.IH assms(1) by (auto simp: rtrancl_eq_or_trancl)
  then obtain z' where "(y, z') \<in> up m" "(z', x) \<in> (up m)\<^sup>*" by (meson tranclD)
  with step.hyps(2) up_single_valued [of m] show ?case by (auto simp: single_valued_def)
qed simp

lemma cycle_above_trancl:
  assumes "(x, x) \<in> (up m)\<^sup>+" and "(x, n) \<in> (up m)\<^sup>+"
  shows "(n, n) \<in> (up m)\<^sup>+"
  using cycle_above [OF assms(1) trancl_into_rtrancl [OF assms(2)]] assms(2) by (rule rtrancl_trancl_trancl)

lemma below_wf:
  assumes "(n, n) \<notin> (up m)\<^sup>+"
  shows "wf {(c, p) \<in> up m. (c, n) \<in> (up m)\<^sup>+}" (is "wf ?U")
proof (rule finite_acyclic_wf)
  show "finite ?U" by (rule finite_subset [OF _ finite_up [of m]]) auto
  show "acyclic ?U"
  proof (rule acyclicI, rule allI, rule notI)
    fix x assume c: "(x, x) \<in> ?U\<^sup>+"
    then have "(x, x) \<in> (up m)\<^sup>+" by (rule trancl_mono) auto
    moreover have "(x, n) \<in> (up m)\<^sup>+" using c by (auto dest: tranclD)
    ultimately show False using assms cycle_above_trancl by blast
  qed
qed

lemma off_cycle_child: "(c, n) \<in> up m \<Longrightarrow> (n, n) \<notin> (up m)\<^sup>+ \<Longrightarrow> (c, c) \<notin> (up m)\<^sup>+"
  using cycle_above_trancl [of c m n] by blast

lemma child_up: "map_ok m \<Longrightarrow> c \<in> set (children_of m n) \<Longrightarrow> (ft_name c, n) \<in> up m"
  by (auto simp: children_of_iff up_def)

lemma up_child:
  assumes "map_ok m" "(y, n) \<in> up m"
  shows "\<exists>c \<in> set (children_of m n). ft_name c = y"
proof -
  from assms(2) obtain c where c: "bt_get m y = Some c" "ft_parent c = Some n" by (auto simp: up_def)
  with assms(1) have "ft_name c = y" by (auto simp: map_ok_def)
  with c have "c \<in> set (children_of m n)" by (simp add: children_of_iff [OF assms(1)])
  with \<open>ft_name c = y\<close> show ?thesis by blast
qed

section \<open>The walk returns off every cycle, and only there\<close>

lemma list_all2_choice: "(\<And>x. x \<in> set xs \<Longrightarrow> \<exists>y. P x y) \<Longrightarrow> \<exists>ys. list_all2 P xs ys"
proof (induction xs)
  case (Cons x xs)
  obtain y where y: "P x y" using Cons.prems [of x] by auto
  obtain ys where "list_all2 P xs ys" using Cons.IH Cons.prems by auto
  with y have "list_all2 P (x # xs) (y # ys)" by simp
  then show ?case by blast
qed (rule exI [of _ "[]"], simp)

lemma preorders_exist:
  assumes ok: "map_ok m" and off: "(n, n) \<notin> (up m)\<^sup>+"
  shows "\<exists>ys. preorders m d n ys"
proof -
  have "(x, n) \<in> (up m)\<^sup>* \<Longrightarrow> \<exists>ys. preorders m d x ys" for x d
  proof (induction x arbitrary: d rule: wf_induct_rule [OF below_wf [OF off]])
    case (1 x)
    have "\<exists>ys. preorder m d c ys" if "c \<in> set (sort_names (children_of m x))" for c
    proof -
      have c: "(ft_name c, x) \<in> up m" using child_up [OF ok] that by simp
      then have "(ft_name c, n) \<in> (up m)\<^sup>+" using "1.prems" by (rule rtrancl_into_trancl2)
      with c "1.IH" [of "ft_name c" "Suc d"] obtain zs where "preorders m (Suc d) (ft_name c) zs"
        by (auto dest: trancl_into_rtrancl)
      then show ?thesis by (auto simp: preorder_iff)
    qed
    then have "\<exists>yss. list_all2 (preorder m d) (sort_names (children_of m x)) yss"
      by (rule list_all2_choice)
    then show ?case by (auto simp: preorders_def)
  qed
  then show ?thesis by simp
qed

text \<open>What a finished walk has collected is closed under children.\<close>

definition walk_closed ::
    "features_by_name \<Rightarrow> (nat \<times> feature) list \<Rightarrow> (nat \<times> feature) list \<Rightarrow> (nat \<times> feature) list \<Rightarrow> bool" where
  "walk_closed m st acc r \<longleftrightarrow> set st \<subseteq> set r \<and> set acc \<subseteq> set r
     \<and> (\<forall>d f. (d, f) \<in> set r \<longrightarrow> (d, f) \<notin> set acc \<longrightarrow> (\<forall>c \<in> set (children_of m (ft_name f)). (Suc d, c) \<in> set r))"

lemma dfs_closed: "dfs m st acc = Some r \<Longrightarrow> walk_closed m st acc r"
proof (rule dfs.raw_induct [where P = walk_closed])
  fix dfs' m st acc r
  assume hyp: "\<And>st acc m r. dfs' st acc m = Some r \<Longrightarrow> walk_closed st acc m r"
    and body: "(if st = [] then Some acc
      else let (depth, f) = last st in dfs' m (butlast st @ map (Pair (depth + 1)) (sort_names_desc (children_of m (ft_name f))))
             (acc @ [(depth, f)])) = Some r"
  show "walk_closed m st acc r"
  proof (cases "st = []")
    case True
    with body show ?thesis by (auto simp: walk_closed_def)
  next
    case False
    obtain d f where l: "last st = (d, f)" by fastforce
    let ?cs = "map (Pair (d + 1)) (sort_names_desc (children_of m (ft_name f)))"
    have st: "set st = insert (d, f) (set (butlast st))"
      using append_butlast_last_id [OF False] l by (metis list.set(1,2) set_append Un_insert_right sup_bot_right)
    have cs: "set ?cs = Pair (Suc d) ` set (children_of m (ft_name f))" by (simp add: sort_names_desc_def)
    from False l body have "dfs' m (butlast st @ ?cs) (acc @ [(d, f)]) = Some r" by simp
    from hyp [OF this] cs have w: "set (butlast st) \<subseteq> set r" "Pair (Suc d) ` set (children_of m (ft_name f)) \<subseteq> set r"
      "set acc \<subseteq> set r" "(d, f) \<in> set r"
      "\<And>e g. (e, g) \<in> set r \<Longrightarrow> (e, g) \<notin> set acc \<Longrightarrow> (e, g) \<noteq> (d, f) \<Longrightarrow>
         \<forall>c \<in> set (children_of m (ft_name g)). (Suc e, c) \<in> set r"
      by (simp_all add: walk_closed_def)
    have "\<forall>c \<in> set (children_of m (ft_name g)). (Suc e, c) \<in> set r"
      if "(e, g) \<in> set r" "(e, g) \<notin> set acc" for e g
      using w(2) w(5) [OF that] by (cases "(e, g) = (d, f)") auto
    with w(1,3,4) st show ?thesis by (simp add: walk_closed_def)
  qed
qed

lemma descendants_walk: "descendants_from_values m n = Some r \<Longrightarrow> walk_closed m (map (Pair 1) (sort_names_desc (children_of m n))) [] r"
  unfolding descendants_from_values_def by (rule dfs_closed)

lemma descendants_closed:
  assumes ok: "map_ok m" and r: "descendants_from_values m n = Some r"
  shows "(x, n) \<in> up m ^^ Suc j \<Longrightarrow> bt_get m x = Some f \<Longrightarrow> (Suc j, f) \<in> set r"
proof (induction j arbitrary: x f)
  case 0
  from descendants_walk [OF r] have "set (map (Pair 1) (sort_names_desc (children_of m n))) \<subseteq> set r"
    by (simp add: walk_closed_def)
  moreover have "f \<in> set (children_of m n)"
    using 0 ok by (auto simp: children_of_iff up_def map_ok_def)
  ultimately show ?case by (auto simp: sort_names_desc_def)
next
  case (Suc j)
  from Suc.prems(1) obtain y where y: "(x, y) \<in> up m" "(y, n) \<in> up m ^^ Suc j" by (rule relpow_Suc_E2)
  from y(2) obtain g where g: "bt_get m y = Some g" by (cases rule: relpow_Suc_E2) (auto simp: up_def)
  from Suc.IH [OF y(2) g] have "(Suc j, g) \<in> set r" .
  moreover have "f \<in> set (children_of m (ft_name g))"
    using y(1) g Suc.prems(2) ok by (auto simp: children_of_iff up_def map_ok_def)
  ultimately show ?case using descendants_walk [OF r] by (simp add: walk_closed_def)
qed

lemma descendants_diverge:
  assumes ok: "map_ok m" and cyc: "(n, n) \<in> (up m)\<^sup>+"
  shows "descendants_from_values m n = None"
proof (rule ccontr)
  assume "descendants_from_values m n \<noteq> None"
  then obtain r where r: "descendants_from_values m n = Some r" by blast
  from in_up_trancl_fst [OF cyc] obtain f where f: "bt_get m n = Some f" by blast
  from cyc obtain k where k: "(n, n) \<in> up m ^^ Suc k" by (metis trancl_power gr0_implies_Suc)
  have many: "(n, n) \<in> up m ^^ (Suc k * i)" for i
  proof (induction i)
    case (Suc i)
    have "Suc k * Suc i = Suc k + Suc k * i" by simp
    then have "up m ^^ (Suc k * Suc i) = up m ^^ Suc k O up m ^^ (Suc k * i)" by (simp only: relpow_add)
    with relcompI [OF k Suc] show ?case by simp
  qed simp
  have "(Suc k * Suc i, f) \<in> set r" for i
    using descendants_closed [OF ok r, of n "i + k + k * i"] f many [of "Suc i"] by (simp add: algebra_simps)
  then have "range (\<lambda>i. (Suc k * Suc i, f)) \<subseteq> set r" by blast
  moreover have "inj (\<lambda>i. (Suc k * Suc i, f))"
    by (rule injI) (simp only: prod.inject Suc_mult_cancel1 nat.inject)
  ultimately show False using finite_imageD [of "\<lambda>i. (Suc k * Suc i, f)" UNIV] finite_subset [OF _ finite_set] by auto
qed

section \<open>What the walk lists\<close>

lemma concat_rows:
  "list_all2 (\<lambda>c ys. \<forall>x. x \<in> set ys \<longleftrightarrow> Q c x) cs yss \<Longrightarrow> x \<in> set (concat yss) \<longleftrightarrow> (\<exists>c \<in> set cs. Q c x)"
  by (induction cs yss rule: list_all2_induct) auto

lemma relpow_child_iff:
  assumes "map_ok m"
  shows "(g, n) \<in> up m ^^ Suc k \<longleftrightarrow> (\<exists>c \<in> set (children_of m n). (g, ft_name c) \<in> up m ^^ k)"
proof
  assume "(g, n) \<in> up m ^^ Suc k"
  then obtain y where y: "(g, y) \<in> up m ^^ k" "(y, n) \<in> up m" by auto
  from up_child [OF assms y(2)] y(1) show "\<exists>c \<in> set (children_of m n). (g, ft_name c) \<in> up m ^^ k" by blast
qed (use child_up [OF assms] in \<open>auto intro: relcompI\<close>)

lemma ex_nat_cases: "(\<exists>k. P k) \<longleftrightarrow> P 0 \<or> (\<exists>k. P (Suc k))"
  by (metis not0_implies_Suc)

lemma preorder_rows:
  assumes ok: "map_ok m"
  shows "preorder m d f ys \<Longrightarrow> bt_get m (ft_name f) = Some f \<Longrightarrow> \<forall>e g.
     (e, g) \<in> set ys \<longleftrightarrow> (\<exists>k. e = d + k \<and> bt_get m (ft_name g) = Some g \<and> (ft_name g, ft_name f) \<in> up m ^^ k)"
proof (induction rule: preorder.induct)
  case (preorder d f yss)
  let ?Q = "\<lambda>d c x. \<exists>k. fst x = d + k \<and> bt_get m (ft_name (snd x)) = Some (snd x) \<and> (ft_name (snd x), ft_name c) \<in> up m ^^ k"
  have "list_all2 (\<lambda>c ys. \<forall>x. x \<in> set ys \<longleftrightarrow> ?Q (Suc d) c x) (sort_names (children_of m (ft_name f))) yss"
    by (rule list.rel_mono_strong [OF preorder.IH]) (auto simp: children_of_iff [OF ok])
  note cat = concat_rows [OF this]
  have rows: "(e, g) \<in> set (concat yss) \<longleftrightarrow>
      (\<exists>k. e = d + Suc k \<and> bt_get m (ft_name g) = Some g \<and> (ft_name g, ft_name f) \<in> up m ^^ Suc k)"
    for e g unfolding cat [of "(e, g)"] relpow_child_iff [OF ok] by auto
  have first: "(e, g) = (d, f) \<longleftrightarrow> e = d + 0 \<and> bt_get m (ft_name g) = Some g \<and> (ft_name g, ft_name f) \<in> up m ^^ 0"
    for e g using preorder.prems by auto
  show ?case
  proof (intro allI)
    fix e g
    show "(e, g) \<in> set ((d, f) # concat yss) \<longleftrightarrow>
        (\<exists>k. e = d + k \<and> bt_get m (ft_name g) = Some g \<and> (ft_name g, ft_name f) \<in> up m ^^ k)"
      unfolding ex_nat_cases [of "\<lambda>k. e = d + k \<and> bt_get m (ft_name g) = Some g \<and> (ft_name g, ft_name f) \<in> up m ^^ k"]
        list.set(2) insert_iff first rows by (rule refl)
  qed
qed

lemma preorders_rows:
  assumes ok: "map_ok m" and ys: "preorders m d n ys"
  shows "(e, g) \<in> set ys \<longleftrightarrow> (\<exists>k. e = d + k \<and> bt_get m (ft_name g) = Some g \<and> (ft_name g, n) \<in> up m ^^ Suc k)"
proof -
  let ?Q = "\<lambda>c x. \<exists>k. fst x = d + k \<and> bt_get m (ft_name (snd x)) = Some (snd x) \<and> (ft_name (snd x), ft_name c) \<in> up m ^^ k"
  from ys obtain yss where y: "list_all2 (preorder m d) (sort_names (children_of m n)) yss" "ys = concat yss"
    by (auto simp: preorders_def)
  from y(1) have "list_all2 (\<lambda>c ys. \<forall>x. x \<in> set ys \<longleftrightarrow> ?Q c x) (sort_names (children_of m n)) yss"
    by (rule list.rel_mono_strong) (auto simp: children_of_iff [OF ok] preorder_rows [OF ok])
  from concat_rows [OF this, of "(e, g)"] show ?thesis
    unfolding y(2) relpow_child_iff [OF ok] by auto
qed

section \<open>No feature is listed twice\<close>

text \<open>Two names that are above one feature are above one another.\<close>

lemma above_linear: "(g, a) \<in> (up m)\<^sup>* \<Longrightarrow> (g, b) \<in> (up m)\<^sup>* \<Longrightarrow> (a, b) \<in> (up m)\<^sup>* \<or> (b, a) \<in> (up m)\<^sup>*"
  by (rule single_valued_confluent [OF up_single_valued])

lemma sibling_disjoint:
  assumes off: "(n, n) \<notin> (up m)\<^sup>+" and a: "(a, n) \<in> up m" and b: "(b, n) \<in> up m" and ab: "a \<noteq> b"
    and ga: "(g, a) \<in> (up m)\<^sup>*" and gb: "(g, b) \<in> (up m)\<^sup>*"
  shows False
proof -
  have "(x, y) \<notin> (up m)\<^sup>*" if "(x, n) \<in> up m" "(y, n) \<in> up m" "x \<noteq> y" for x y
  proof
    assume "(x, y) \<in> (up m)\<^sup>*"
    with that(3) obtain z where "(x, z) \<in> up m" "(z, y) \<in> (up m)\<^sup>*" by (auto elim: converse_rtranclE)
    with that(1) up_single_valued [of m] have "(n, y) \<in> (up m)\<^sup>*" by (auto simp: single_valued_def)
    with that(2) off show False by (meson rtrancl_into_trancl1)
  qed
  with above_linear [OF ga gb] a b ab show False by blast
qed

lemma concat_distinct:
  "list_all2 (\<lambda>c ys. distinct (map snd ys) \<and> (\<forall>x \<in> set ys. Q c (snd x))) cs yss \<Longrightarrow> distinct cs \<Longrightarrow>
   \<forall>c \<in> set cs. \<forall>c' \<in> set cs. c \<noteq> c' \<longrightarrow> (\<forall>g. Q c g \<longrightarrow> \<not> Q c' g) \<Longrightarrow>
   distinct (map snd (concat yss)) \<and> (\<forall>x \<in> set (concat yss). \<exists>c \<in> set cs. Q c (snd x))"
proof (induction cs yss rule: list_all2_induct)
  case (Cons c cs ys yss)
  have "distinct cs" using Cons.prems(1) by simp
  moreover have "\<forall>c \<in> set cs. \<forall>c' \<in> set cs. c \<noteq> c' \<longrightarrow> (\<forall>g. Q c g \<longrightarrow> \<not> Q c' g)"
    using Cons.prems(2) by (meson list.set_intros(2))
  ultimately have "distinct (map snd (concat yss)) \<and> (\<forall>x \<in> set (concat yss). \<exists>c \<in> set cs. Q c (snd x))"
    by (rule Cons.IH)
  then have ih: "distinct (map snd (concat yss))" "\<forall>x \<in> set (concat yss). \<exists>c \<in> set cs. Q c (snd x)"
    by blast+
  have "snd ` set ys \<inter> snd ` set (concat yss) = {}"
  proof (rule ccontr)
    assume "snd ` set ys \<inter> snd ` set (concat yss) \<noteq> {}"
    then obtain g x y where "x \<in> set ys" "y \<in> set (concat yss)" "g = snd x" "g = snd y" by blast
    then have xy: "x \<in> set ys" "y \<in> set (concat yss)" "snd x = snd y" by simp_all
    from ih(2) xy(2) obtain c' where c': "c' \<in> set cs" "Q c' (snd x)" unfolding xy(3) by blast
    have "c' \<noteq> c" using c'(1) Cons.prems(1) by auto
    have "Q c (snd x)" using Cons.hyps(1) xy(1) by blast
    moreover have "\<not> Q c' (snd x)" if "Q c (snd x)"
      using Cons.prems(2) c'(1) \<open>c' \<noteq> c\<close> that by (meson list.set_intros)
    ultimately show False using c'(2) by blast
  qed
  with ih Cons.hyps(1) show ?case by auto
qed simp

lemma distinct_names: "distinct (map ft_name fs) \<Longrightarrow> distinct (sort_names fs)"
  by (simp add: sort_names_def distinct_map)

lemma siblings_distinct:
  assumes ok: "map_ok m" and off: "(n, n) \<notin> (up m)\<^sup>+"
    and each: "list_all2 (\<lambda>c ys. distinct (map snd ys) \<and> (\<forall>x \<in> set ys. (ft_name (snd x), ft_name c) \<in> (up m)\<^sup>*))
      (sort_names (children_of m n)) yss"
  shows "distinct (map snd (concat yss)) \<and> (\<forall>x \<in> set (concat yss). (ft_name (snd x), n) \<in> (up m)\<^sup>+)"
proof -
  have "distinct (map snd (concat yss)) \<and>
      (\<forall>x \<in> set (concat yss). \<exists>c \<in> set (sort_names (children_of m n)). (ft_name (snd x), ft_name c) \<in> (up m)\<^sup>*)"
  proof (rule concat_distinct [OF each])
    show "distinct (sort_names (children_of m n))" by (rule distinct_names [OF children_distinct [OF ok]])
    have "(ft_name g, ft_name c') \<notin> (up m)\<^sup>*"
      if "c \<in> set (children_of m n)" "c' \<in> set (children_of m n)" "c \<noteq> c'"
        and g: "(ft_name g, ft_name c) \<in> (up m)\<^sup>*" for c c' g
    proof -
      have "ft_name c \<noteq> ft_name c'" using that by (auto simp: children_of_iff [OF ok])
      with sibling_disjoint [OF off child_up [OF ok that(1)] child_up [OF ok that(2)] _ g] show ?thesis by blast
    qed
    then show "\<forall>c \<in> set (sort_names (children_of m n)). \<forall>c' \<in> set (sort_names (children_of m n)). c \<noteq> c' \<longrightarrow>
        (\<forall>g. (ft_name g, ft_name c) \<in> (up m)\<^sup>* \<longrightarrow> (ft_name g, ft_name c') \<notin> (up m)\<^sup>*)"
      unfolding set_sort_names by blast
  qed
  then show ?thesis using child_up [OF ok] by (fastforce intro: rtrancl_into_trancl1)
qed

lemma preorder_distinct:
  assumes ok: "map_ok m"
  shows "preorder m d f ys \<Longrightarrow> (ft_name f, ft_name f) \<notin> (up m)\<^sup>+ \<Longrightarrow>
     distinct (map snd ys) \<and> (\<forall>x \<in> set ys. (ft_name (snd x), ft_name f) \<in> (up m)\<^sup>*)"
proof (induction rule: preorder.induct)
  case (preorder d f yss)
  have off: "(ft_name c, ft_name c) \<notin> (up m)\<^sup>+" if "c \<in> set (children_of m (ft_name f))" for c
    by (rule off_cycle_child [OF child_up [OF ok that] preorder.prems])
  have "list_all2 (\<lambda>c ys. distinct (map snd ys) \<and> (\<forall>x \<in> set ys. (ft_name (snd x), ft_name c) \<in> (up m)\<^sup>*))
      (sort_names (children_of m (ft_name f))) yss"
    by (rule list.rel_mono_strong [OF preorder.IH]) (simp add: off)
  from siblings_distinct [OF ok preorder.prems this]
  have d: "distinct (map snd (concat yss))" "\<forall>x \<in> set (concat yss). (ft_name (snd x), ft_name f) \<in> (up m)\<^sup>+" by blast+
  have "f \<notin> snd ` set (concat yss)" using d(2) preorder.prems by auto
  with d show ?case by (auto intro: trancl_into_rtrancl)
qed

lemma preorders_distinct:
  assumes ok: "map_ok m" and ys: "preorders m d n ys" and off: "(n, n) \<notin> (up m)\<^sup>+"
  shows "distinct (map snd ys)"
proof -
  from ys obtain yss where y: "list_all2 (preorder m d) (sort_names (children_of m n)) yss" "ys = concat yss"
    by (auto simp: preorders_def)
  have "list_all2 (\<lambda>c ys. distinct (map snd ys) \<and> (\<forall>x \<in> set ys. (ft_name (snd x), ft_name c) \<in> (up m)\<^sup>*))
      (sort_names (children_of m n)) yss"
    by (rule list.rel_mono_strong [OF y(1)])
      (simp add: preorder_distinct [OF ok] off_cycle_child [OF child_up [OF ok] off])
  from siblings_distinct [OF ok off this] show ?thesis unfolding y(2) by blast
qed

section \<open>The forest\<close>

lemma forest_roots_iff: "map_ok m \<Longrightarrow> r \<in> set (forest_roots m) \<longleftrightarrow> bt_get m (ft_name r) = Some r \<and> depth_is m (ft_name r) 0"
  using map_ok_mem [of m r] by (auto simp: forest_roots_def depth_is_0 bt_contains_def split: option.splits)

lemma forest_roots_distinct: "map_ok m \<Longrightarrow> distinct (forest_roots m)"
  unfolding forest_roots_def by (intro distinct_names distinct_map_filter map_ok_distinct)

lemma depth_is_forest:
  assumes ok: "map_ok m"
  shows "depth_is m n d \<longleftrightarrow> (\<exists>r \<in> set (forest_roots m). (n, ft_name r) \<in> up m ^^ d)"
proof (induction d arbitrary: n)
  case 0
  show ?case
  proof
    assume "depth_is m n 0"
    moreover from this obtain f where "bt_get m n = Some f" by (auto simp: depth_is_0)
    moreover from this ok have "ft_name f = n" by (auto simp: map_ok_def)
    ultimately show "\<exists>r \<in> set (forest_roots m). (n, ft_name r) \<in> up m ^^ 0"
      using forest_roots_iff [OF ok, of f] by auto
  qed (auto simp: forest_roots_iff [OF ok])
next
  case (Suc d)
  have "depth_is m n (Suc d) \<longleftrightarrow> (\<exists>p. (n, p) \<in> up m \<and> depth_is m p d)"
    by (auto simp: depth_is_Suc up_def)
  also have "\<dots> \<longleftrightarrow> (\<exists>r \<in> set (forest_roots m). (n, ft_name r) \<in> up m ^^ Suc d)"
    unfolding Suc by (meson relpow_Suc_D2 relpow_Suc_I2)
  finally show ?case .
qed

lemma forest_from_rows:
  assumes ok: "map_ok m" and off: "\<forall>r \<in> set rs. (ft_name r, ft_name r) \<notin> (up m)\<^sup>+"
  shows "\<exists>yss. list_all2 (preorder m 0) rs yss \<and> forest_from m rs = Some (concat yss)"
  using off
proof (induction rs)
  case (Cons r rs)
  then obtain yss where y: "list_all2 (preorder m 0) rs yss" "forest_from m rs = Some (concat yss)" by auto
  from preorders_exist [OF ok, of "ft_name r" 1] Cons.prems obtain ds where d: "preorders m 1 (ft_name r) ds" by auto
  have "preorder m 0 r ((0, r) # ds)" using d by (simp add: preorder_iff [of m 0 r])
  with y have "list_all2 (preorder m 0) (r # rs) (((0, r) # ds) # yss)" by simp
  moreover have "forest_from m (r # rs) = Some (concat (((0, r) # ds) # yss))"
    using y(2) descendants_preorders [OF ok d] by simp
  ultimately show ?case by blast
qed simp

lemma forest_rows:
  assumes ok: "map_ok m"
  shows "\<exists>ys. forest m = Some ys \<and> distinct (map snd ys)
    \<and> (\<forall>d f. (d, f) \<in> set ys \<longleftrightarrow> bt_get m (ft_name f) = Some f \<and> depth_is m (ft_name f) d)"
proof -
  let ?rs = "forest_roots m"
  have off: "(ft_name r, ft_name r) \<notin> (up m)\<^sup>+" if "r \<in> set ?rs" for r
    using that depth_not_on_cycle [of m "ft_name r" 0] by (simp add: forest_roots_iff [OF ok])
  then obtain yss where y: "list_all2 (preorder m 0) ?rs yss" "forest m = Some (concat yss)"
    using forest_from_rows [OF ok] unfolding forest_def by blast
  have "list_all2 (\<lambda>c ys. \<forall>x. x \<in> set ys \<longleftrightarrow>
      (bt_get m (ft_name (snd x)) = Some (snd x) \<and> (ft_name (snd x), ft_name c) \<in> up m ^^ fst x)) ?rs yss"
    by (rule list.rel_mono_strong [OF y(1)]) (simp add: forest_roots_iff [OF ok] preorder_rows [OF ok])
  note cat = concat_rows [OF this]
  have "(d, f) \<in> set (concat yss) \<longleftrightarrow> bt_get m (ft_name f) = Some f \<and> depth_is m (ft_name f) d" for d f
    unfolding cat [of "(d, f)"] depth_is_forest [OF ok] by auto
  moreover have "distinct (map snd (concat yss))"
  proof -
    let ?Q = "\<lambda>c g. (ft_name g, ft_name c) \<in> (up m)\<^sup>*"
    have each: "list_all2 (\<lambda>c ys. distinct (map snd ys) \<and> (\<forall>x \<in> set ys. ?Q c (snd x))) ?rs yss"
      by (rule list.rel_mono_strong [OF y(1)]) (simp add: off preorder_distinct [OF ok])
    have "\<not> ?Q c' g"
      if "c \<in> set ?rs" "c' \<in> set ?rs" "c \<noteq> c'" "(ft_name g, ft_name c) \<in> (up m)\<^sup>*" for c c' g
    proof
      assume "(ft_name g, ft_name c') \<in> (up m)\<^sup>*"
      from above_linear [OF that(4) this] have "\<exists>a b. {a, b} = {c, c'} \<and> (ft_name a, ft_name b) \<in> (up m)\<^sup>*" by blast
      then obtain a b where ab: "{a, b} = {c, c'}" "(ft_name a, ft_name b) \<in> (up m)\<^sup>*" by blast
      then have r: "a \<in> set ?rs" "b \<in> set ?rs" "a \<noteq> b" using that(1-3) by (auto simp: doubleton_eq_iff)
      then have "ft_name a \<noteq> ft_name b" by (auto simp: forest_roots_iff [OF ok])
      with ab(2) obtain p where "(ft_name a, p) \<in> up m" "(p, ft_name b) \<in> (up m)\<^sup>*" by (auto elim: converse_rtranclE)
      moreover from this(2) r(2) have "bt_get m p \<noteq> None"
        by (auto simp: rtrancl_eq_or_trancl forest_roots_iff [OF ok] dest: in_up_trancl_fst)
      ultimately show False using r(1) by (auto simp: forest_roots_iff [OF ok] depth_is_0 up_def)
    qed
    then have "\<forall>c \<in> set ?rs. \<forall>c' \<in> set ?rs. c \<noteq> c' \<longrightarrow> (\<forall>g. ?Q c g \<longrightarrow> \<not> ?Q c' g)" by blast
    from concat_distinct [OF each forest_roots_distinct [OF ok] this] show ?thesis by blast
  qed
  ultimately show ?thesis using y(2) by blast
qed

lemma depth_loop_depth:
  assumes ok: "map_ok m"
  shows "depth_is m n d \<Longrightarrow> bt_get m n = Some f \<Longrightarrow> \<forall>x \<in> set seen. \<exists>e \<ge> d. depth_is m x e \<Longrightarrow>
    depth_loop m seen acc f = Some (acc + d)"
proof (induction arbitrary: f seen acc rule: depth_is.induct)
  case (root n f')
  then have b: "Option.bind (ft_parent f) (bt_get m) = None" by simp
  then show ?case by (subst depth_loop.simps) (cases "ft_parent f"; simp)
next
  case (child n f' p d)
  from depth_is_in_map [OF child.hyps(3)] obtain pf where pf: "bt_get m p = Some pf" by blast
  with ok have name: "ft_name pf = p" by (auto simp: map_ok_def)
  have "p \<notin> set seen"
    using child.prems(2) depth_is_unique [OF child.hyps(3)] by (metis Suc_n_not_le_n)
  moreover have "\<forall>x \<in> set (p # seen). \<exists>e \<ge> d. depth_is m x e"
    using child.hyps(3) child.prems(2) by (metis Suc_leD le_refl set_ConsD)
  from child.IH [OF pf this, of "acc + 1"] have "depth_loop m (p # seen) (acc + 1) pf = Some (acc + Suc d)" by simp
  moreover have "ft_parent f = Some p" using child.prems(1) child.hyps(1,2) by simp
  ultimately show ?case using pf name by (subst depth_loop.simps) simp
qed

section \<open>Properties\<close>

text \<open>
  Reading the tree accepts the features on disk exactly when every parent names a
  feature that exists and no feature is its own ancestor.
\<close>

theorem validate_tree_exact:
  "validate_tree fs = Inr () \<longleftrightarrow>
     Range (up (feature_map fs)) \<subseteq> {p. bt_get (feature_map fs) p \<noteq> None} \<and> acyclic (up (feature_map fs))"
  unfolding validate_tree_iff tree_valid_def by blast

text \<open>
  The unbounded stack loop of \<open>descendants_from_values\<close> returns exactly when its start
  is not its own ancestor, for any map of features, valid or not.
\<close>

theorem descendants_return_off_cycles:
  "(\<exists>ys. descendants_from_values (feature_map fs) n = Some ys) \<longleftrightarrow> (n, n) \<notin> (up (feature_map fs))\<^sup>+"
  using descendants_preorders [OF feature_map_ok] preorders_exist [OF feature_map_ok]
    descendants_diverge [OF feature_map_ok] by (metis option.distinct(1))

text \<open>
  C31: on a validated tree the walk over descendants returns, and lists the preorder of the
  subtree, siblings in name order: every feature below the start, once, with its distance as
  the depth.
\<close>

theorem descendants_exact:
  assumes "validate_tree fs = Inr ()"
  shows "\<exists>ys. descendants_from_values (feature_map fs) n = Some ys \<and> preorders (feature_map fs) 1 n ys
    \<and> distinct (map snd ys)
    \<and> (\<forall>d f. (d, f) \<in> set ys \<longleftrightarrow> 0 < d \<and> bt_get (feature_map fs) (ft_name f) = Some f
              \<and> (ft_name f, n) \<in> up (feature_map fs) ^^ d)"
proof -
  let ?m = "feature_map fs"
  have off: "(n, n) \<notin> (up ?m)\<^sup>+"
    using assms by (auto simp: validate_tree_iff tree_valid_def acyclic_def)
  from preorders_exist [OF feature_map_ok off] obtain ys where ys: "preorders ?m 1 n ys" by blast
  have "(d, f) \<in> set ys \<longleftrightarrow> 0 < d \<and> bt_get ?m (ft_name f) = Some f \<and> (ft_name f, n) \<in> up ?m ^^ d" for d f
    unfolding preorders_rows [OF feature_map_ok ys] by (cases d) auto
  with ys descendants_preorders [OF feature_map_ok ys] preorders_distinct [OF feature_map_ok ys off]
  show ?thesis by blast
qed

text \<open>
  \<open>feature list\<close> never loops and never fails on the depth, whatever is on disk: the
  forest returns, and it lists exactly the features whose parent chain ends, each once and
  at the depth \<open>depth_with_map\<close> computes.
\<close>

theorem forest_complete:
  "\<exists>ys. forest (feature_map fs) = Some ys \<and> distinct (map snd ys)
    \<and> (\<forall>d f. (d, f) \<in> set ys \<longleftrightarrow> bt_get (feature_map fs) (ft_name f) = Some f \<and> depth_is (feature_map fs) (ft_name f) d)
    \<and> list_all (\<lambda>(d, f). depth_with_map (feature_map fs) f = Inr d) ys"
proof -
  from forest_rows [OF feature_map_ok] obtain ys where ys: "forest (feature_map fs) = Some ys" "distinct (map snd ys)"
    "\<forall>d f. (d, f) \<in> set ys \<longleftrightarrow> bt_get (feature_map fs) (ft_name f) = Some f \<and> depth_is (feature_map fs) (ft_name f) d"
    by blast
  have "depth_with_map (feature_map fs) f = Inr d" if "(d, f) \<in> set ys" for d f
    using depth_loop_depth [OF feature_map_ok, of fs "ft_name f" d f "[]" 0] that ys(3)
    by (simp add: depth_with_map_def del: depth_loop.simps)
  with ys show ?thesis by (auto simp: list_all_iff)
qed

section \<open>Witnesses\<close>

definition sample_tree :: "feature list" where
  "sample_tree =
     (let f = (\<lambda>n p. (feature_new (FeatureName n) (BranchName n))\<lparr>ft_parent := map_option FeatureName p\<rparr>)
      in [f ''api'' (Some ''shop''), f ''shop'' None, f ''tax'' (Some ''api''), f ''cart'' (Some ''shop'')])"

lemma sample_tree_valid: "validate_tree sample_tree = Inr ()"
proof -
  have "is_ok (validate_tree sample_tree)" by code_simp
  then show ?thesis by (auto simp: is_ok_iff)
qed

theorem descendants_exact_witness:
  "\<exists>ys. descendants_from_values (feature_map sample_tree) (FeatureName ''shop'') = Some ys
     \<and> preorders (feature_map sample_tree) 1 (FeatureName ''shop'') ys"
  using descendants_exact [OF sample_tree_valid, of "FeatureName ''shop''"] by blast

lemma sample_tree_walk:
  "map_option (map (\<lambda>(d, f). (d, feature_str (ft_name f)))) (forest (feature_map sample_tree)) =
     Some [(0, ''shop''), (1, ''api''), (2, ''tax''), (1, ''cart'')]"
  by code_simp

end
