(* ===== verification/Layout_Paths.thy ===== *)
theory Layout_Paths
  imports Layouts Run_Types
begin

text \<open>
  The other paths of \<open>src/src/store/layout/hall.rs\<close> and \<open>layout/features.rs\<close>, and the search
  for the hall a directory belongs to (\<open>Layout::discover\<close>).  Canonicalising the start and
  asking whether a file exists are arguments.
\<close>

section \<open>Paths\<close>

definition state_file :: "layout \<Rightarrow> string" where
  "state_file l = path_join (ivar_dir l) ''state.json''"

definition feedback_dir :: "layout \<Rightarrow> string" where
  "feedback_dir l = path_join (ivar_dir l) ''feedback''"

definition feedback_doc :: "layout \<Rightarrow> string \<Rightarrow> string" where
  "feedback_doc l doc = path_join (feedback_dir l) (doc @ ''.md'')"

definition review_comments_file :: "layout \<Rightarrow> feature_name \<Rightarrow> string" where
  "review_comments_file l feature = path_join (path_join (feature_dir l feature) ''review'') ''comments.json''"

definition feature_workspace :: "layout \<Rightarrow> feature_name \<Rightarrow> string" where
  "feature_workspace l feature = path_join (feature_dir l feature) (feature_str feature @ ''.code-workspace'')"

definition execution_dir :: "layout \<Rightarrow> feature_name \<Rightarrow> string" where
  "execution_dir l feature = path_join (feature_dir l feature) ''execution''"

definition run_receipt_file :: "layout \<Rightarrow> feature_name \<Rightarrow> string" where
  "run_receipt_file l feature = path_join (execution_dir l feature) ''run.json''"

definition run_archive_dir :: "layout \<Rightarrow> feature_name \<Rightarrow> string" where
  "run_archive_dir l feature = path_join (execution_dir l feature) ''archive''"

definition run_archive_runs_dir :: "layout \<Rightarrow> feature_name \<Rightarrow> string" where
  "run_archive_runs_dir l feature = path_join (run_archive_dir l feature) ''runs''"

definition archived_run :: "layout \<Rightarrow> feature_name \<Rightarrow> run_id \<Rightarrow> string" where
  "archived_run l feature run = path_join (run_archive_runs_dir l feature) (run_id_str run @ ''.json'')"

definition board_archive_dir :: "layout \<Rightarrow> feature_name \<Rightarrow> string" where
  "board_archive_dir l feature = path_join (run_archive_dir l feature) ''boards''"

definition archived_board :: "layout \<Rightarrow> feature_name \<Rightarrow> string \<Rightarrow> string" where
  "archived_board l feature source_hash = path_join (board_archive_dir l feature) (source_hash @ ''.json'')"

definition integration_dir :: "layout \<Rightarrow> feature_name \<Rightarrow> repo_name \<Rightarrow> string" where
  "integration_dir l feature repo = path_join (path_join (feature_dir l feature) ''integration'') (repo_str repo)"

definition integration_candidate :: "layout \<Rightarrow> feature_name \<Rightarrow> repo_name \<Rightarrow> string" where
  "integration_candidate l feature repo = path_join (integration_dir l feature repo) ''candidate''"

definition integration_source :: "layout \<Rightarrow> feature_name \<Rightarrow> repo_name \<Rightarrow> string" where
  "integration_source l feature repo = path_join (integration_dir l feature repo) ''source''"

definition planning_dir :: "layout \<Rightarrow> feature_name \<Rightarrow> string" where
  "planning_dir l feature = path_join (feature_dir l feature) ''planning''"

definition feature_session :: "layout \<Rightarrow> feature_name \<Rightarrow> session_id \<Rightarrow> string" where
  "feature_session l feature session = path_join (path_join (feature_dir l feature) ''sessions'') (session_str session)"

definition discovery_session :: "layout \<Rightarrow> session_id \<Rightarrow> string" where
  "discovery_session l session = path_join (path_join (ivar_dir l) ''sessions'') (session_str session)"

definition mcp_secrets_env :: "layout \<Rightarrow> string" where
  "mcp_secrets_env l = path_join (secrets_dir l) ''mcp.env''"

definition agents_dir :: "layout \<Rightarrow> string" where
  "agents_dir l = path_join (lay_root l) ''agents''"

definition agents_done_dir :: "layout \<Rightarrow> string" where
  "agents_done_dir l = path_join (agents_dir l) ''done''"

definition agent_file :: "layout \<Rightarrow> string \<Rightarrow> string" where
  "agent_file l name = path_join (agents_dir l) (name @ ''.md'')"

definition agent_state_dir :: "layout \<Rightarrow> string" where
  "agent_state_dir l = path_join (ivar_dir l) ''agents''"

definition agent_runs_dir :: "layout \<Rightarrow> string \<Rightarrow> string" where
  "agent_runs_dir l agent = path_join (path_join (agent_state_dir l) ''runs'') agent"

definition agent_run_receipt :: "layout \<Rightarrow> string \<Rightarrow> string \<Rightarrow> string" where
  "agent_run_receipt l agent run_id = path_join (agent_runs_dir l agent) (run_id @ ''.json'')"

definition agent_lock :: "layout \<Rightarrow> string \<Rightarrow> string" where
  "agent_lock l agent = path_join (path_join (agent_state_dir l) ''locks'') (agent @ ''.lock'')"

definition agent_tool_state :: "layout \<Rightarrow> string \<Rightarrow> string \<Rightarrow> string" where
  "agent_tool_state l agent tool = path_join (path_join (path_join (agent_state_dir l) ''state'') agent) tool"

definition agent_run_scratch :: "layout \<Rightarrow> string \<Rightarrow> string" where
  "agent_run_scratch l run_id = path_join (path_join (agent_state_dir l) ''tmp'') run_id"

definition agent_secrets_env :: "layout \<Rightarrow> string" where
  "agent_secrets_env l = path_join (secrets_dir l) ''agents.env''"

definition plan_dir :: "layout \<Rightarrow> feature_name \<Rightarrow> string" where
  "plan_dir l feature = feature_dir l feature"

definition discovery_doc :: "layout \<Rightarrow> feature_name \<Rightarrow> string" where
  "discovery_doc l feature = path_join (feature_dir l feature) ''discovery.md''"

definition docs_memory_dir :: "layout \<Rightarrow> string" where
  "docs_memory_dir l = path_join (path_join (lay_root l) ''docs'') ''memory''"

definition harness_dir :: "layout \<Rightarrow> provider \<Rightarrow> string" where
  "harness_dir l provider = path_join (lay_root l) (config_dir provider)"

definition commands_dir :: "layout \<Rightarrow> provider \<Rightarrow> string" where
  "commands_dir l provider = path_join (lay_root l) (provider_commands_dir provider)"

definition skills_dir :: "layout \<Rightarrow> provider \<Rightarrow> string" where
  "skills_dir l provider = path_join (lay_root l) (provider_skills_dir provider)"

definition hall_instructions :: "layout \<Rightarrow> string" where
  "hall_instructions l = path_join (lay_root l) ''HALL.md''"

definition instruction_alias :: "layout \<Rightarrow> provider \<Rightarrow> string" where
  "instruction_alias l provider = path_join (lay_root l) (instruction_file provider)"

definition gitignore_path :: "layout \<Rightarrow> string" where
  "gitignore_path l = path_join (lay_root l) ''.gitignore''"

definition graph_db :: "layout \<Rightarrow> string" where
  "graph_db l = path_join (ivar_dir l) ''graph.db''"

definition graph_lock :: "layout \<Rightarrow> string" where
  "graph_lock l = path_join (ivar_dir l) ''graph.lock''"

definition memory_db :: "layout \<Rightarrow> string" where
  "memory_db l = path_join (ivar_dir l) ''memory.db''"

definition memory_lock :: "layout \<Rightarrow> string" where
  "memory_lock l = path_join (ivar_dir l) ''memory.lock''"

definition memory_spool_dir :: "layout \<Rightarrow> string" where
  "memory_spool_dir l = path_join (path_join (ivar_dir l) ''spool'') ''memory''"


definition plugins_dir :: "layout \<Rightarrow> provider \<Rightarrow> string option" where
  "plugins_dir l provider = map_option (path_join (lay_root l)) (provider_plugins_dir provider)"

definition gitignore_lines :: "string list" where
  "gitignore_lines =
     [''.ivar/*'', ''!.ivar/skills/'', ''!.ivar/setups/'', ''!.ivar/scripts/'',
      ''.claude/commands/ivar-*.md'', ''.opencode/commands/ivar-*.md'', ''.omp/commands/ivar-*.md'',
      ''.claude/skills/'', ''.opencode/skills/'', ''.omp/skills/'', ''.tmp/'']"

section \<open>Finding the hall\<close>

text \<open>The text of a list of components, and the parent of a path given by its components, the last first.\<close>

definition path_of :: "component list \<Rightarrow> string" where
  "path_of cs =
     (case cs of
        RootDir # ds \<Rightarrow> ''/'' @ join ''/'' (map show_component ds)
      | _ \<Rightarrow> join ''/'' (map show_component cs))"

definition has_manifest :: "(string \<Rightarrow> bool) \<Rightarrow> component list \<Rightarrow> bool" where
  "has_manifest is_file cs \<longleftrightarrow> is_file (path_join (path_of cs) ''ivar.json'')"

fun discover_up :: "(string \<Rightarrow> bool) \<Rightarrow> component list \<Rightarrow> layout option" where
  "discover_up is_file [] = None"
| "discover_up is_file (c # cs) =
     (if has_manifest is_file (rev (c # cs)) then Some (layout_at (path_of (rev (c # cs))))
      else if cs = [] then None
      else discover_up is_file cs)"

datatype discover_error = Unresolvable string string

definition discover ::
    "(string \<Rightarrow> string + string) \<Rightarrow> (string \<Rightarrow> bool) \<Rightarrow> string \<Rightarrow> discover_error + layout option" where
  "discover canonicalize is_file from_dir =
     (case canonicalize from_dir of
        Inl source \<Rightarrow> Inl (Unresolvable from_dir source)
      | Inr current \<Rightarrow> Inr (discover_up is_file (rev (components current))))"

definition discover_failure :: "discover_error \<Rightarrow> failure" where
  "discover_failure e =
     (case e of Unresolvable path source \<Rightarrow>
        with_fix (fix_safe ''layout.check_starting_path''
            (''Check that '' @ quoted path @ '' exists and is reachable, then try again.''))
          (with_actual source
            (with_expected ''a starting directory that exists and is reachable''
              (blocked ''layout.discover_unresolvable''
                (''could not resolve '' @ quoted path @ '' to look for a hall'')))))"

lemma discover_up_Some:
  "discover_up is_file rs = Some l \<Longrightarrow>
     \<exists>hall below. rev rs = hall @ below \<and> hall \<noteq> [] \<and> l = layout_at (path_of hall) \<and> has_manifest is_file hall
       \<and> (\<forall>n \<le> length below. 0 < n \<longrightarrow> \<not> has_manifest is_file (hall @ take n below))"
proof (induction rs)
  case (Cons c cs)
  show ?case
  proof (cases "has_manifest is_file (rev (c # cs))")
    case True
    with Cons.prems have "l = layout_at (path_of (rev (c # cs)))" by simp
    with True show ?thesis by (intro exI [of _ "rev (c # cs)"] exI [of _ "[]"]) simp
  next
    case False
    with Cons.prems have "discover_up is_file cs = Some l" by (simp split: if_splits)
    with Cons.IH obtain hall below where h: "rev cs = hall @ below" "hall \<noteq> []" "l = layout_at (path_of hall)"
      "has_manifest is_file hall" "\<forall>n \<le> length below. 0 < n \<longrightarrow> \<not> has_manifest is_file (hall @ take n below)" by blast
    have "\<not> has_manifest is_file (hall @ take n (below @ [c]))" if "n \<le> length (below @ [c])" "0 < n" for n
    proof (cases "n \<le> length below")
      case True
      with h(5) that show ?thesis by simp
    next
      case long: False
      with that False h(1) show ?thesis by simp
    qed
    with h(1-4) show ?thesis by (intro exI [of _ hall] exI [of _ "below @ [c]"]) simp
  qed
qed simp

lemma discover_up_None:
  "discover_up is_file rs = None \<longleftrightarrow> (\<forall>n \<le> length rs. 0 < n \<longrightarrow> \<not> has_manifest is_file (take n (rev rs)))"
proof (induction rs)
  case (Cons c cs)
  have "(\<forall>n \<le> length (c # cs). 0 < n \<longrightarrow> \<not> has_manifest is_file (take n (rev (c # cs)))) \<longleftrightarrow>
      \<not> has_manifest is_file (rev (c # cs)) \<and> (\<forall>n \<le> length cs. 0 < n \<longrightarrow> \<not> has_manifest is_file (take n (rev cs)))"
    (is "?l \<longleftrightarrow> ?r")
  proof
    assume l: ?l
    from l [rule_format, of "length (c # cs)"] have "\<not> has_manifest is_file (rev (c # cs))" by simp
    moreover have "\<not> has_manifest is_file (take n (rev cs))" if "n \<le> length cs" "0 < n" for n
      using l [rule_format, of n] that by simp
    ultimately show ?r by blast
  next
    assume r: ?r
    show ?l
    proof (intro allI impI)
      fix n assume n: "n \<le> length (c # cs)" "0 < n"
      show "\<not> has_manifest is_file (take n (rev (c # cs)))"
        using r n by (cases "n \<le> length cs") simp_all
    qed
  qed
  with Cons.IH show ?case by auto
qed simp

section \<open>Properties\<close>

text \<open>
  The hall of a directory is the nearest one: discovery returns the deepest ancestor
  (the directory itself included) that holds a manifest, and returns nothing exactly when
  no ancestor holds one.
\<close>

theorem discover_nearest_hall:
  assumes "canonicalize from_dir = Inr current"
  shows "(\<forall>l. discover canonicalize is_file from_dir = Inr (Some l) \<longrightarrow>
           (\<exists>hall below. components current = hall @ below \<and> hall \<noteq> [] \<and> l = layout_at (path_of hall)
             \<and> has_manifest is_file hall
             \<and> (\<forall>n \<le> length below. 0 < n \<longrightarrow> \<not> has_manifest is_file (hall @ take n below))))
    \<and> (discover canonicalize is_file from_dir = Inr None \<longleftrightarrow>
        (\<forall>n \<le> length (components current). 0 < n \<longrightarrow> \<not> has_manifest is_file (take n (components current))))"
  using assms discover_up_Some [of is_file "rev (components current)"]
    discover_up_None [of is_file "rev (components current)"]
  by (simp add: discover_def)

theorem discover_nearest_hall_witness:
  "\<exists>hall below. components ''/w/.ivar/repos/api'' = hall @ below \<and> layout_at ''/w'' = layout_at (path_of hall)
     \<and> has_manifest (\<lambda>p. p = ''/w/ivar.json'') hall"
proof -
  have "discover (\<lambda>p. Inr p) (\<lambda>p. p = ''/w/ivar.json'') ''/w/.ivar/repos/api'' = Inr (Some (layout_at ''/w''))" by code_simp
  with discover_nearest_hall [of "\<lambda>p. Inr p" "''/w/.ivar/repos/api''" "''/w/.ivar/repos/api''" "\<lambda>p. p = ''/w/ivar.json''"]
  show ?thesis by blast
qed

end
