(* ===== verification/Feature_Store.thy ===== *)
theory Feature_Store
  imports Features Versioned Layout_Paths Approvals
begin

text \<open>
  \<open>src/src/store/feature.rs\<close>: the versioned files of a feature (\<open>feature.json\<close> and
  \<open>planning/approvals.json\<close>), their migration chains, and the read-modify-write of
  \<open>Feature::update\<close>.  The codec of the stored type is an argument; the exclusive lock makes
  one update at a time, so an update is a function of the file it finds.
\<close>

section \<open>Migrations\<close>

text \<open>\<open>entry(k).or_insert(v)\<close>.\<close>

definition obj_or_insert :: "string \<Rightarrow> json \<Rightarrow> (string \<times> json) list \<Rightarrow> (string \<times> json) list" where
  "obj_or_insert k v m = (if obj_get m k = None then obj_insert k v m else m)"

definition feature_v0_to_v1 :: "json \<Rightarrow> string + json" where
  "feature_v0_to_v1 v = Inr v"

definition feature_v1_to_v2 :: "json \<Rightarrow> string + json" where
  "feature_v1_to_v2 v = Inr v"

definition receipt_entry :: "json \<Rightarrow> string + json" where
  "receipt_entry p =
     (case p of JObject m \<Rightarrow> Inr (JObject (obj_or_insert ''integration_receipt'' JNull m))
      | _ \<Rightarrow> Inl ''promotion must be an object'')"

definition feature_v2_to_v3 :: "json \<Rightarrow> string + json" where
  "feature_v2_to_v3 v =
     (case v of
        JObject m \<Rightarrow>
          (let root = obj_or_insert ''integration'' (JObject []) (obj_or_insert ''parent'' JNull m)
           in case obj_get root ''promotions'' of
                Some (JObject ps) \<Rightarrow>
                  and_then (try_map (\<lambda>(k, p). and_then (receipt_entry p) (\<lambda>p'. Inr (k, p'))) ps) (\<lambda>ps'.
                    Inr (JObject (obj_insert ''promotions'' (JObject ps') root)))
              | _ \<Rightarrow> Inl ''feature is missing promotions'')
      | _ \<Rightarrow> Inl ''feature must be an object'')"

definition retired_gate_json :: "json \<Rightarrow> bool" where
  "retired_gate_json r = (case r of JObject m \<Rightarrow> obj_get m ''gate'' = Some (JString ''execution_graph'') | _ \<Rightarrow> False)"

definition approvals_v1_to_v2 :: "json \<Rightarrow> string + json" where
  "approvals_v1_to_v2 v =
     (case v of
        JObject m \<Rightarrow>
          (case obj_get m ''gates'' of
             Some (JArray gates) \<Rightarrow>
               Inr (JObject (obj_insert ''gates'' (JArray (filter (\<lambda>r. \<not> retired_gate_json r) gates)) m))
           | _ \<Rightarrow> Inl ''approval state is missing gates'')
      | _ \<Rightarrow> Inl ''approval state must be an object'')"

section \<open>The stores\<close>

definition feature_store :: "layout \<Rightarrow> feature_name \<Rightarrow> store option" where
  "feature_store lay n =
     store_new (path_join (feature_dir lay n) ''feature.json'')
       [\<lparr>mg_from = 0, mg_to = 1, mg_migrate = feature_v0_to_v1\<rparr>,
        \<lparr>mg_from = 1, mg_to = 2, mg_migrate = feature_v1_to_v2\<rparr>,
        \<lparr>mg_from = 2, mg_to = 3, mg_migrate = feature_v2_to_v3\<rparr>] 3 Local"

definition approvals_store :: "layout \<Rightarrow> feature_name \<Rightarrow> store option" where
  "approvals_store lay n =
     store_new (path_join (planning_dir lay n) ''approvals.json'')
       [\<lparr>mg_from = 1, mg_to = 2, mg_migrate = approvals_v1_to_v2\<rparr>] 2 Local"

definition feature_not_found :: "feature_name \<Rightarrow> failure" where
  "feature_not_found n =
     with_fix (fix_safe ''feature.create_first''
         (''Create it first with `ivar feature create '' @ feature_str n @ ''`.''))
       (with_actual (quoted (feature_str n) @ '' has no feature.json'')
         (with_expected ''an existing feature''
           (blocked ''feature.not_found'' (''feature '' @ quoted (feature_str n) @ '' does not exist''))))"

text \<open>
  \<open>Feature::read\<close>, \<open>write\<close> and \<open>update\<close> on the file of a feature; \<open>None\<close> stands for the
  panic of \<open>Store::new\<close>, which \<open>feature_store_valid\<close> rules out.
\<close>

definition feature_read ::
    "feature codec \<Rightarrow> layout \<Rightarrow> feature_name \<Rightarrow> disk_file \<Rightarrow> ((failure + feature option) \<times> disk_file) option" where
  "feature_read c lay n d =
     map_option (\<lambda>s. case store_read c s d of (Inl e, d') \<Rightarrow> (Inl (store_error_failure e), d') | (Inr x, d') \<Rightarrow> (Inr x, d'))
       (feature_store lay n)"

definition feature_read_or_not_found ::
    "feature codec \<Rightarrow> layout \<Rightarrow> feature_name \<Rightarrow> disk_file \<Rightarrow> ((failure + feature) \<times> disk_file) option" where
  "feature_read_or_not_found c lay n d =
     map_option (\<lambda>r. case r of
         (Inl e, d') \<Rightarrow> (Inl e, d')
       | (Inr None, d') \<Rightarrow> (Inl (feature_not_found n), d')
       | (Inr (Some f), d') \<Rightarrow> (Inr f, d'))
       (feature_read c lay n d)"

definition feature_write :: "feature codec \<Rightarrow> layout \<Rightarrow> feature \<Rightarrow> disk_file \<Rightarrow> ((failure + unit) \<times> disk_file) option" where
  "feature_write c lay f d =
     map_option (\<lambda>s. case store_write c s f d of (Inl e, d') \<Rightarrow> (Inl (store_error_failure e), d') | (Inr x, d') \<Rightarrow> (Inr x, d'))
       (feature_store lay (ft_name f))"

definition feature_update ::
    "feature codec \<Rightarrow> layout \<Rightarrow> feature_name \<Rightarrow> bool \<Rightarrow> (feature \<Rightarrow> failure + 'r \<times> feature) \<Rightarrow> disk_file \<Rightarrow>
     ((failure + 'r) \<times> disk_file) option" where
  "feature_update c lay n is_dir f d =
     (if \<not> is_dir then Some (Inl (feature_not_found n), d)
      else Option.bind (feature_read_or_not_found c lay n d) (\<lambda>r.
        case r of
          (Inl e, d') \<Rightarrow> Some (Inl e, d')
        | (Inr cur, d') \<Rightarrow>
            (case f cur of
               Inl e \<Rightarrow> Some (Inl e, d')
             | Inr (out, new) \<Rightarrow>
                 map_option (\<lambda>w. case w of (Inl e, d'') \<Rightarrow> (Inl e, d'') | (Inr _, d'') \<Rightarrow> (Inr out, d''))
                   (feature_write c lay new d'))))"

section \<open>Lemmas\<close>

lemma feature_store_valid: "\<exists>s. feature_store lay n = Some s \<and> vs_current s = 3 \<and> vs_policy s = Local"
  by (simp add: feature_store_def store_new_def)

lemma approvals_store_valid: "\<exists>s. approvals_store lay n = Some s \<and> vs_current s = 2 \<and> vs_policy s = Local"
  by (simp add: approvals_store_def store_new_def)

lemma obj_get_or_insert:
  "obj_get (obj_or_insert k v m) k' = (if k' = k \<and> obj_get m k = None then Some v else obj_get m k')"
  by (simp add: obj_or_insert_def obj_get_insert)

lemma obj_or_insert_present: "obj_get m k \<noteq> None \<Longrightarrow> obj_or_insert k v m = m"
  unfolding obj_or_insert_def by (rule if_not_P)

lemma obj_insert_same: "obj_get m k = Some v \<Longrightarrow> obj_insert k v m = m"
  by (induction m) (auto simp: obj_get_def split: if_splits)

definition has_receipt_entry :: "json \<Rightarrow> bool" where
  "has_receipt_entry p \<longleftrightarrow> (\<exists>m. p = JObject m \<and> obj_get m ''integration_receipt'' \<noteq> None)"

lemma receipt_entry_idem: "has_receipt_entry p \<Longrightarrow> receipt_entry p = Inr p"
  by (auto simp: has_receipt_entry_def receipt_entry_def obj_or_insert_present)

lemma receipt_entry_has: "receipt_entry p = Inr p' \<Longrightarrow> has_receipt_entry p'"
  by (auto simp: receipt_entry_def has_receipt_entry_def obj_get_or_insert split: json.splits)

lemma try_map_receipts:
  "try_map (\<lambda>(k, p). and_then (receipt_entry p) (\<lambda>p'. Inr (k, p'))) ps = Inr ps' \<Longrightarrow>
     map fst ps' = map fst ps \<and> list_all (\<lambda>e. has_receipt_entry (snd e)) ps'"
proof (induction ps arbitrary: ps')
  case (Cons e ps)
  obtain k p where e: "e = (k, p)" by fastforce
  with Cons.prems obtain p' rest where "receipt_entry p = Inr p'" "ps' = (k, p') # rest"
    "try_map (\<lambda>(k, p). and_then (receipt_entry p) (\<lambda>p'. Inr (k, p'))) ps = Inr rest"
    by (auto simp: result_simps)
  with Cons.IH e show ?case by (simp add: receipt_entry_has)
qed simp

lemma try_map_receipts_idem:
  "list_all (\<lambda>e. has_receipt_entry (snd e)) ps \<Longrightarrow>
     try_map (\<lambda>(k, p). and_then (receipt_entry p) (\<lambda>p'. Inr (k, p'))) ps = Inr ps"
  by (induction ps) (auto simp: receipt_entry_idem result_simps)

section \<open>Properties\<close>

text \<open>
  The migration of a feature record to version 3 adds what is missing and nothing else:
  every member the document had, except \<open>promotions\<close>, keeps its value; \<open>parent\<close>,
  \<open>integration\<close> and, in each promotion, \<open>integration_receipt\<close> exist afterwards; the
  promoted repositories stay; and migrating again changes nothing.
\<close>

theorem feature_migration_adds_only:
  assumes "feature_v2_to_v3 (JObject m) = Inr v"
  shows "\<exists>m' ps ps'. v = JObject m'
    \<and> (\<forall>k. k \<noteq> ''promotions'' \<longrightarrow> obj_get m k \<noteq> None \<longrightarrow> obj_get m' k = obj_get m k)
    \<and> obj_get m' ''parent'' \<noteq> None \<and> obj_get m' ''integration'' \<noteq> None
    \<and> obj_get m ''promotions'' = Some (JObject ps) \<and> obj_get m' ''promotions'' = Some (JObject ps')
    \<and> map fst ps' = map fst ps \<and> list_all (\<lambda>e. has_receipt_entry (snd e)) ps'
    \<and> feature_v2_to_v3 v = Inr v"
proof -
  let ?root = "obj_or_insert ''integration'' (JObject []) (obj_or_insert ''parent'' JNull m)"
  have root: "obj_get ?root k = (if k = ''integration'' \<and> obj_get m k = None then Some (JObject [])
      else if k = ''parent'' \<and> obj_get m k = None then Some JNull else obj_get m k)" for k
    by (auto simp: obj_get_or_insert)
  from assms obtain ps where ps: "obj_get m ''promotions'' = Some (JObject ps)"
    using root [of "''promotions''"] by (simp add: feature_v2_to_v3_def split: option.splits json.splits)
  with assms root [of "''promotions''"] obtain ps' where
    ps': "try_map (\<lambda>(k, p). and_then (receipt_entry p) (\<lambda>p'. Inr (k, p'))) ps = Inr ps'"
    and v: "v = JObject (obj_insert ''promotions'' (JObject ps') ?root)"
    by (auto simp: feature_v2_to_v3_def result_simps)
  let ?m' = "obj_insert ''promotions'' (JObject ps') ?root"
  note r = try_map_receipts [OF ps']
  have get: "obj_get ?m' k = (if k = ''promotions'' then Some (JObject ps') else obj_get ?root k)" for k
    by (simp add: obj_get_insert)
  have stable: "obj_or_insert ''integration'' (JObject []) (obj_or_insert ''parent'' JNull ?m') = ?m'"
    using get root by (simp add: obj_or_insert_present)
  have "feature_v2_to_v3 v = Inr v"
    using get [of "''promotions''"] try_map_receipts_idem [of ps'] r
    by (simp add: feature_v2_to_v3_def v stable obj_insert_same)
  moreover have "\<forall>k. k \<noteq> ''promotions'' \<longrightarrow> obj_get m k \<noteq> None \<longrightarrow> obj_get ?m' k = obj_get m k"
    unfolding get root by auto
  moreover have "obj_get ?m' ''parent'' \<noteq> None" "obj_get ?m' ''integration'' \<noteq> None"
    unfolding get root by simp_all
  moreover have "obj_get ?m' ''promotions'' = Some (JObject ps')" unfolding get by simp
  ultimately show ?thesis using v r ps by blast
qed

section \<open>Witnesses\<close>

theorem feature_migration_adds_only_witness:
  "\<exists>v. feature_v2_to_v3 (JObject [(''name'', JString ''a''), (''promotions'', JObject [(''api'', JObject [])])]) = Inr v
     \<and> feature_v2_to_v3 v = Inr v"
proof -
  have "is_ok (feature_v2_to_v3 (JObject [(''name'', JString ''a''), (''promotions'', JObject [(''api'', JObject [])])]))"
    by code_simp
  then obtain v where v: "feature_v2_to_v3 (JObject [(''name'', JString ''a''), (''promotions'', JObject [(''api'', JObject [])])]) = Inr v"
    by (auto simp: is_ok_iff)
  with feature_migration_adds_only [OF v] show ?thesis by blast
qed

end
