(* ===== verification/Tree_State.thy ===== *)
theory Tree_State
  imports Feature_Walk Feature_Store Run_Receipt
begin

text \<open>
  The derived state of the tree, the rest of \<open>src/src/action/feature/relations.rs\<close>: how fresh a
  receipt is, the state of a feature, its tree entry, the recursive status and the
  descendants that block an integration.  What these read outside the records (git, the
  hall manifest, the plan front matter, the run history and the session directories) is the
  record \<open>tree_reads\<close>; every one of the reads can fail, and a failure ends the operation.
\<close>

section \<open>The reads\<close>

record git_reads =
  gt_revision_commit :: "string \<Rightarrow> string \<Rightarrow> string + string"
  gt_is_ancestor :: "string \<Rightarrow> string \<Rightarrow> string \<Rightarrow> string + bool"

text \<open>
  \<open>tr_fingerprint\<close> is the fingerprint of the checks the manifest declares now for a
  repository, \<open>tr_close\<close> the outcome text of the close record, \<open>tr_gate\<close> the effective plan
  gate, \<open>tr_history\<close> the runs of a feature, the newest first.
\<close>

record tree_reads =
  tr_git :: git_reads
  tr_layout :: layout
  tr_fingerprint :: "repo_name \<Rightarrow> failure + string"
  tr_close :: "feature_name \<Rightarrow> failure + string option"
  tr_gate :: "feature_name \<Rightarrow> failure + gate_state"
  tr_history :: "feature_name \<Rightarrow> failure + run_receipt list"
  tr_sessions :: "feature_name \<Rightarrow> failure + string list"

section \<open>Receipt freshness\<close>

datatype receipt_freshness = Fresh | FailedEvidence | Stale string

definition receipt_freshness_of ::
    "tree_reads \<Rightarrow> feature \<Rightarrow> feature \<Rightarrow> repo_name \<Rightarrow> integration_receipt \<Rightarrow> failure + receipt_freshness" where
  "receipt_freshness_of w child parent repo receipt =
     (let bare = repo_bare (tr_layout w) repo
      in if \<not> evidence_passed (ir_verification receipt) then Inr FailedEvidence
      else (case gt_revision_commit (tr_git w) bare (branch_str (ft_branch child)) of
          Inl e \<Rightarrow> Inr (Stale (''child branch '' @ quoted (branch_str (ft_branch child)) @ '' is missing or unreadable: '' @ e))
        | Inr tip \<Rightarrow>
            if tip \<noteq> ir_source_sha receipt then
              Inr (Stale (''child branch '' @ quoted (branch_str (ft_branch child)) @ '' moved from '' @
                     ir_source_sha receipt @ '' to '' @ tip))
            else and_then (tr_fingerprint w repo) (\<lambda>current.
              if current \<noteq> ve_fingerprint (ir_verification receipt) then
                Inr (Stale ''the verification checks changed since this receipt was recorded'')
              else (case gt_is_ancestor (tr_git w) bare (ir_result_sha receipt) (branch_str (ft_branch parent)) of
                Inr True \<Rightarrow> Inr Fresh
              | Inr False \<Rightarrow> Inr (Stale (''result '' @ ir_result_sha receipt @
                  '' is no longer in the immediate parent'' @ [CHR 0x27] @ ''s history ('' @ branch_str (ft_branch parent) @ '')''))
              | Inl e \<Rightarrow> Inr (Stale (''the parent branch '' @ quoted (branch_str (ft_branch parent)) @
                  '' is missing or unreadable: '' @ e))))))"

definition stale_receipt_failure ::
    "layout \<Rightarrow> feature \<Rightarrow> feature \<Rightarrow> repo_name \<Rightarrow> integration_receipt \<Rightarrow> string \<Rightarrow> failure" where
  "stale_receipt_failure lay child parent repo receipt reason =
     (let child_worktree = repo_worktree lay repo (ft_branch child);
          parent_worktree = repo_worktree lay repo (ft_branch parent)
      in with_fix (fix_command (''ivar feature create '' @ feature_str (ft_name child) @ ''-redo --parent '' @ feature_str (ft_name parent))
           (fix_safe ''feature.create_new_child'' ''Create a fresh child feature instead of repairing the moved branches.''))
         (with_fix (fix_command (''git -C '' @ parent_worktree @ '' merge --ff-only '' @ ir_result_sha receipt)
           (fix_unsafe ''feature.restore_result'' ''Restore the parent branch to the recorded result, then retry.''))
         (with_fix (fix_command (''git -C '' @ child_worktree @ '' reset --hard '' @ ir_source_sha receipt)
           (fix_unsafe ''feature.restore_source'' ''Restore the child branch to the recorded source, then retry.''))
         (with_actual reason
         (with_expected ''the receipt to match live state (source tip, checks, result history)''
           (blocked ''feature.receipt_stale''
             (''the integration receipt for '' @ quoted (repo_str repo) @ '' in feature '' @
              quoted (feature_str (ft_name child)) @ '' is stale: '' @ reason)))))))"

section \<open>The state of a feature\<close>

fun facts_loop ::
    "tree_reads \<Rightarrow> feature \<Rightarrow> feature \<Rightarrow> (repo_name \<times> promotion) list \<Rightarrow> classification_facts \<Rightarrow>
     failure + classification_facts" where
  "facts_loop w child parent [] facts = Inr facts"
| "facts_loop w child parent ((repo, p) # ps) facts =
     (case pr_receipt p of
        None \<Rightarrow> facts_loop w child parent ps (facts\<lparr>cl_fully_receipted := False\<rparr>)
      | Some r \<Rightarrow> and_then (receipt_freshness_of w child parent repo r) (\<lambda>fresh.
          facts_loop w child parent ps
            (case fresh of
               Fresh \<Rightarrow> facts
             | FailedEvidence \<Rightarrow> facts\<lparr>cl_any_failed := True\<rparr>
             | Stale _ \<Rightarrow> facts\<lparr>cl_any_stale := True\<rparr>)))"

definition facts_of :: "tree_reads \<Rightarrow> feature \<Rightarrow> feature \<Rightarrow> failure + classification_facts" where
  "facts_of w child parent =
     facts_loop w child parent (ft_promotions child)
       \<lparr>cl_fully_receipted = (ft_promotions child \<noteq> []), cl_any_failed = False, cl_any_stale = False\<rparr>"

text \<open>\<open>CloseRecord::known_outcome\<close>.\<close>

definition known_outcome :: "string \<Rightarrow> promotion_outcome option" where
  "known_outcome s = (case promotion_outcome_parse s of Inr out \<Rightarrow> Some out | Inl _ \<Rightarrow> None)"

lemma known_outcome_iff: "known_outcome s = Some out \<longleftrightarrow> s = promotion_outcome_display out"
  by (simp add: known_outcome_def flip: outcome_codec.parse_iff split: sum.split)

definition state_of :: "tree_reads \<Rightarrow> feature \<Rightarrow> feature option \<Rightarrow> failure + integration_state" where
  "state_of w f parent =
     and_then (tr_close w (ft_name f)) (\<lambda>record.
     and_then (case parent of Some p \<Rightarrow> facts_of w f p | None \<Rightarrow> Inr facts_active) (\<lambda>facts.
       Inr (classify (Option.bind record known_outcome) facts)))"

definition parent_in :: "features_by_name \<Rightarrow> feature \<Rightarrow> feature option" where
  "parent_in m f = Option.bind (ft_parent f) (bt_get m)"

definition feature_state_with_map :: "tree_reads \<Rightarrow> features_by_name \<Rightarrow> feature \<Rightarrow> failure + integration_state" where
  "feature_state_with_map w m f = state_of w f (parent_in m f)"

definition state_blocks :: "integration_state \<Rightarrow> bool" where
  "state_blocks s \<longleftrightarrow> s = StActive \<or> s = StFailed \<or> s = StStale"

text \<open>\<open>is_fully_integrated\<close> of \<open>src/src/action/feature/lifecycle.rs\<close>.\<close>

definition is_fully_integrated :: "tree_reads \<Rightarrow> feature \<Rightarrow> failure + bool" where
  "is_fully_integrated w f =
     and_then (tr_close w (ft_name f)) (\<lambda>record. Inr (Option.bind record known_outcome = Some OutcomeIntegrated))"

section \<open>Tree entries\<close>

record tree_run =
  tn_status :: run_status
  tn_last_wave :: "nat option"

record tree_entry =
  te_feature :: feature_name
  te_parent :: "feature_name option"
  te_depth :: nat
  te_state :: integration_state
  te_repos :: "repo_name list"
  te_blockers :: "string list"
  te_plan_gate :: gate_state
  te_run :: "tree_run option"
  te_sessions :: "string list"

definition max_option :: "nat list \<Rightarrow> nat option" where
  "max_option ns = (if ns = [] then None else Some (Max (set ns)))"

definition read_tree_run :: "tree_reads \<Rightarrow> feature_name \<Rightarrow> failure + tree_run option" where
  "read_tree_run w n =
     and_then (tr_history w n) (\<lambda>runs.
       case runs of
         [] \<Rightarrow> Inr None
       | r # _ \<Rightarrow> Inr (Some \<lparr>tn_status = rr_status r,
           tn_last_wave = max_option (map wp_number (List.map_filter ck_wave (rr_checkpoints r)))\<rparr>))"

definition make_entry ::
    "tree_reads \<Rightarrow> feature \<Rightarrow> nat \<Rightarrow> integration_state \<Rightarrow> string list \<Rightarrow> failure + tree_entry" where
  "make_entry w f depth st blockers =
     and_then (tr_gate w (ft_name f)) (\<lambda>gate.
     and_then (read_tree_run w (ft_name f)) (\<lambda>run.
     and_then (tr_sessions w (ft_name f)) (\<lambda>sessions.
       Inr \<lparr>te_feature = ft_name f, te_parent = ft_parent f, te_depth = depth, te_state = st,
            te_repos = map fst (ft_promotions f), te_blockers = blockers, te_plan_gate = gate,
            te_run = run, te_sessions = sessions\<rparr>)))"

fun blocking_loop :: "tree_reads \<Rightarrow> features_by_name \<Rightarrow> (nat \<times> feature) list \<Rightarrow> failure + tree_entry list" where
  "blocking_loop w m [] = Inr []"
| "blocking_loop w m ((depth, d) # ds) =
     and_then (state_of w d (parent_in m d)) (\<lambda>st.
       if state_blocks st then
         and_then (make_entry w d depth st []) (\<lambda>e.
         and_then (blocking_loop w m ds) (\<lambda>es. Inr (e # es)))
       else blocking_loop w m ds)"

definition blocking_entries :: "tree_reads \<Rightarrow> features_by_name \<Rightarrow> feature \<Rightarrow> (failure + tree_entry list) option" where
  "blocking_entries w m f = map_option (blocking_loop w m) (descendants_from_values m (ft_name f))"

definition blocking_descendants :: "tree_reads \<Rightarrow> feature list \<Rightarrow> feature \<Rightarrow> (failure + tree_entry list) option" where
  "blocking_descendants w fs f =
     (case validate_tree fs of
        Inl e \<Rightarrow> Some (Inl e)
      | Inr _ \<Rightarrow> blocking_entries w (feature_map fs) f)"

definition blocker_line :: "tree_entry \<Rightarrow> string" where
  "blocker_line e = feature_str (te_feature e) @ '' ('' @ integration_state_display (te_state e) @ '')''"

text \<open>The entry as \<open>serde\<close> writes it into the details of the failure.\<close>

definition tree_entry_json :: "tree_entry \<Rightarrow> json" where
  "tree_entry_json e = JObject
     ([(''feature'', JString (feature_str (te_feature e)))]
      @ (case te_parent e of None \<Rightarrow> [] | Some p \<Rightarrow> [(''parent'', JString (feature_str p))])
      @ [(''depth'', JUInt (te_depth e)),
         (''state'', JString (integration_state_display (te_state e))),
         (''repos'', JArray (map (\<lambda>r. JString (repo_str r)) (te_repos e))),
         (''blockers'', JArray (map JString (te_blockers e))),
         (''plan_gate'', JString (gate_state_display (te_plan_gate e)))]
      @ (case te_run e of None \<Rightarrow> []
         | Some r \<Rightarrow> [(''run'', JObject ((''status'', JString (run_status_display (tn_status r)))
             # (case tn_last_wave r of None \<Rightarrow> [] | Some n \<Rightarrow> [(''last_wave'', JUInt n)])))])
      @ [(''sessions'', JArray (map JString (te_sessions e)))])"

definition tree_block_failure :: "feature_name \<Rightarrow> tree_entry list \<Rightarrow> failure" where
  "tree_block_failure n blockers =
     with_fix (fix_safe ''feature.integrate_leaves_first'' ''Integrate the blocking descendants first, leaves first.'')
       (with_details (JObject [(''blockers'', JArray (map tree_entry_json blockers))])
         (with_actual (join '', '' (map blocker_line blockers))
           (with_expected ''every descendant to be integrated, verified, or abandoned''
             (blocked ''feature.descendants_block''
               (''feature '' @ quoted (feature_str n) @ '' cannot integrate while '' @ show_nat (length blockers) @
                '' descendant'' @ (if length blockers = 1 then [] else ''s'') @ '' still block'' @
                (if length blockers = 1 then ''s'' else []))))))"

section \<open>The recursive status\<close>

text \<open>
  \<open>walk\<close> recurses into the children; \<open>fuel\<close> bounds the nesting.  \<open>None\<close> is only returned
  when the fuel ends; the number of features, plus one, is always enough on a validated tree.
\<close>

fun walk :: "nat \<Rightarrow> tree_reads \<Rightarrow> features_by_name \<Rightarrow> feature \<Rightarrow> nat \<Rightarrow> (failure + tree_entry list) option"
and walk_all :: "nat \<Rightarrow> tree_reads \<Rightarrow> features_by_name \<Rightarrow> feature list \<Rightarrow> nat \<Rightarrow> (failure + tree_entry list) option" where
  "walk 0 w m f depth = None"
| "walk (Suc fuel) w m f depth =
     (case state_of w f (parent_in m f) of
        Inl e \<Rightarrow> Some (Inl e)
      | Inr st \<Rightarrow>
          Option.bind (blocking_entries w m f) (\<lambda>blocking.
            case and_then blocking (\<lambda>bs. make_entry w f depth st (map blocker_line bs)) of
              Inl e \<Rightarrow> Some (Inl e)
            | Inr entry \<Rightarrow>
                map_option (map_sum id (Cons entry))
                  (walk_all fuel w m (sort_names (children_of m (ft_name f))) (depth + 1))))"
| "walk_all fuel w m [] depth = Some (Inr [])"
| "walk_all fuel w m (c # cs) depth =
     Option.bind (walk fuel w m c depth) (\<lambda>first.
       case first of
         Inl e \<Rightarrow> Some (Inl e)
       | Inr es \<Rightarrow> map_option (map_sum id (append es)) (walk_all fuel w m cs depth))"

definition subtree_status :: "tree_reads \<Rightarrow> feature list \<Rightarrow> feature_name \<Rightarrow> (failure + tree_entry list) option" where
  "subtree_status w fs root =
     (case validate_tree fs of
        Inl e \<Rightarrow> Some (Inl e)
      | Inr _ \<Rightarrow>
          (case bt_get (feature_map fs) root of
             None \<Rightarrow> Some (Inl (feature_not_found root))
           | Some f \<Rightarrow> walk (Suc (length (feature_map fs))) w (feature_map fs) f 0))"

section \<open>Lemmas\<close>

definition receipted_fresh :: "tree_reads \<Rightarrow> feature \<Rightarrow> feature \<Rightarrow> repo_name \<times> promotion \<Rightarrow> bool" where
  "receipted_fresh w child parent e \<longleftrightarrow>
     (\<exists>r. pr_receipt (snd e) = Some r \<and> receipt_freshness_of w child parent (fst e) r = Inr Fresh)"

lemma facts_loop_ok:
  "facts_loop w child parent ps facts = Inr out \<Longrightarrow>
     (cl_fully_receipted out \<and> \<not> cl_any_failed out \<and> \<not> cl_any_stale out) \<longleftrightarrow>
     (cl_fully_receipted facts \<and> \<not> cl_any_failed facts \<and> \<not> cl_any_stale facts \<and>
      (\<forall>e \<in> set ps. receipted_fresh w child parent e))"
proof (induction w child parent ps facts rule: facts_loop.induct)
  case (2 w child parent repo p ps facts)
  show ?case
  proof (cases "pr_receipt p")
    case None
    with 2 show ?thesis by (auto simp: receipted_fresh_def)
  next
    case (Some r)
    with "2.prems" obtain fresh where fresh: "receipt_freshness_of w child parent repo r = Inr fresh"
      and rest: "facts_loop w child parent ps (case fresh of Fresh \<Rightarrow> facts
             | FailedEvidence \<Rightarrow> facts\<lparr>cl_any_failed := True\<rparr>
             | Stale _ \<Rightarrow> facts\<lparr>cl_any_stale := True\<rparr>) = Inr out"
      by (auto simp: result_simps)
    from "2.IH"(2) [OF Some rest] fresh Some show ?thesis
      by (cases fresh) (auto simp: receipted_fresh_def)
  qed
qed simp

lemma facts_of_clear:
  "facts_of w f p = Inr facts \<Longrightarrow>
     (cl_fully_receipted facts \<and> \<not> cl_any_failed facts \<and> \<not> cl_any_stale facts) \<longleftrightarrow>
     (ft_promotions f \<noteq> [] \<and> (\<forall>e \<in> set (ft_promotions f). receipted_fresh w f p e))"
  unfolding facts_of_def by (drule facts_loop_ok) simp

lemma classify_blocks:
  "state_blocks (classify out facts) \<longleftrightarrow>
     out = None \<and> \<not> (cl_fully_receipted facts \<and> \<not> cl_any_failed facts \<and> \<not> cl_any_stale facts)"
  by (auto simp: state_blocks_def classify_def split: option.splits promotion_outcome.splits)

lemma blocking_loop_features:
  "blocking_loop w m ds = Inr es \<Longrightarrow>
     (\<forall>(d, g) \<in> set ds. \<exists>s. feature_state_with_map w m g = Inr s) \<and>
     map (\<lambda>e. (te_depth e, te_feature e)) es =
       map (\<lambda>(d, g). (d, ft_name g))
         (filter (\<lambda>(d, g). \<exists>s. feature_state_with_map w m g = Inr s \<and> state_blocks s) ds)"
proof (induction w m ds arbitrary: es rule: blocking_loop.induct)
  case (2 w m d g ds)
  from "2.prems" obtain s where s: "state_of w g (parent_in m g) = Inr s" by (auto simp: result_simps)
  show ?case
  proof (cases "state_blocks s")
    case True
    with s "2.prems" obtain e rest where "make_entry w g d s [] = Inr e" "blocking_loop w m ds = Inr rest" "es = e # rest"
      by (auto simp: result_simps)
    moreover from this(1) have "te_depth e = d" "te_feature e = ft_name g" by (auto simp: make_entry_def result_simps)
    ultimately show ?thesis using "2.IH"(1) [OF True] s True by (auto simp: feature_state_with_map_def)
  next
    case False
    with s "2.prems" have "blocking_loop w m ds = Inr es" by (simp add: result_simps)
    with "2.IH"(2) [OF False] s False show ?thesis by (auto simp: feature_state_with_map_def)
  qed
qed simp

lemma blocking_entries_total: "(ft_name f, ft_name f) \<notin> (up m)\<^sup>+ \<Longrightarrow> map_ok m \<Longrightarrow> blocking_entries w m f \<noteq> None"
  using preorders_exist [of m "ft_name f" 1] descendants_preorders [of m "ft_name f"]
  by (auto simp: blocking_entries_def)

section \<open>The recursive status is the preorder\<close>

definition below :: "features_by_name \<Rightarrow> feature_name \<Rightarrow> feature_name set" where
  "below m n = {x. (x, n) \<in> (up m)\<^sup>+}"

lemma below_in_map: "below m n \<subseteq> fst ` set m"
  using bt_get_key in_up_trancl_fst by (fastforce simp: below_def)

lemma below_child:
  assumes off: "(n, n) \<notin> (up m)\<^sup>+" and c: "(c, n) \<in> up m"
  shows "card (below m c) < card (below m n)"
proof (rule psubset_card_mono)
  show "finite (below m n)" by (rule finite_subset [OF below_in_map]) simp
  have "below m c \<subseteq> below m n" using c by (auto simp: below_def intro: trancl_into_trancl)
  moreover have "c \<in> below m n" using c by (auto simp: below_def)
  moreover have "c \<notin> below m c" using off_cycle_child [OF c off] by (simp add: below_def)
  ultimately show "below m c \<subset> below m n" by blast
qed

lemma walk_total:
  assumes ok: "map_ok m"
  shows "(ft_name f, ft_name f) \<notin> (up m)\<^sup>+ \<Longrightarrow> card (below m (ft_name f)) < fuel \<Longrightarrow> walk fuel w m f d \<noteq> None"
proof (induction fuel arbitrary: f d)
  case (Suc fuel)
  have each: "walk fuel w m c e \<noteq> None" if "c \<in> set (children_of m (ft_name f))" for c e
    using Suc.IH [of c e] below_child [OF Suc.prems(1) child_up [OF ok that]]
      off_cycle_child [OF child_up [OF ok that] Suc.prems(1)] Suc.prems(2) by simp
  have all: "walk_all fuel w m cs e \<noteq> None" if "set cs \<subseteq> set (children_of m (ft_name f))" for cs e
    using that
  proof (induction cs)
    case (Cons c cs)
    then obtain r where "walk fuel w m c e = Some r" using each by fastforce
    with Cons show ?case by (cases r) auto
  qed simp
  obtain b where b: "blocking_entries w m f = Some b" using blocking_entries_total [OF Suc.prems(1) ok] by blast
  obtain rest where "walk_all fuel w m (sort_names (children_of m (ft_name f))) (d + 1) = Some rest"
    using all by fastforce
  with b show ?case by (simp split: sum.splits)
qed simp

lemma walk_step:
  assumes "walk (Suc k) w m f d = Some (Inr es)"
  shows "\<exists>st bs entry rest. make_entry w f d st bs = Inr entry
    \<and> walk_all k w m (sort_names (children_of m (ft_name f))) (Suc d) = Some (Inr rest) \<and> es = entry # rest"
proof -
  from assms obtain st where st: "state_of w f (parent_in m f) = Inr st" by (cases "state_of w f (parent_in m f)") auto
  with assms obtain b where b: "blocking_entries w m f = Some b" by (cases "blocking_entries w m f") auto
  let ?entry = "and_then b (\<lambda>bs. make_entry w f d st (map blocker_line bs))"
  from assms st b obtain entry where e: "?entry = Inr entry" by (cases ?entry) auto
  let ?rest = "walk_all k w m (sort_names (children_of m (ft_name f))) (Suc d)"
  from assms st b e have all: "map_option (map_sum id ((#) entry)) ?rest = Some (Inr es)" by simp
  then obtain r where r: "?rest = Some r" "map_sum id ((#) entry) r = Inr es" by (cases ?rest) auto
  then obtain rest where "?rest = Some (Inr rest)" "es = entry # rest" by (cases r) auto
  with e show ?thesis by (auto simp: result_simps)
qed

lemma walk_rows:
  "preorder m d f ys \<Longrightarrow> walk fuel w m f d = Some (Inr es) \<Longrightarrow>
     map (\<lambda>e. (te_depth e, te_feature e)) es = map (\<lambda>(d, g). (d, ft_name g)) ys"
proof (induction arbitrary: fuel es rule: preorder.induct)
  case (preorder d f yss)
  from preorder.prems obtain k where k: "fuel = Suc k" by (cases fuel) auto
  from walk_step [OF preorder.prems [unfolded k]] obtain st bs entry rest where
    e: "make_entry w f d st bs = Inr entry"
    and rest: "walk_all k w m (sort_names (children_of m (ft_name f))) (Suc d) = Some (Inr rest)"
    and es: "es = entry # rest" by blast
  have all: "list_all2 (\<lambda>c ys. \<forall>fuel es. walk fuel w m c (Suc d) = Some (Inr es) \<longrightarrow>
        map (\<lambda>e. (te_depth e, te_feature e)) es = map (\<lambda>(d, g). (d, ft_name g)) ys) cs zss \<Longrightarrow>
      walk_all k w m cs (Suc d) = Some (Inr rs) \<Longrightarrow>
      map (\<lambda>e. (te_depth e, te_feature e)) rs = map (\<lambda>(d, g). (d, ft_name g)) (concat zss)" for cs zss rs
  proof (induction cs zss arbitrary: rs rule: list_all2_induct)
    case (Cons c cs zs zss)
    from Cons.prems obtain a b where "walk k w m c (Suc d) = Some (Inr a)" "walk_all k w m cs (Suc d) = Some (Inr b)" "rs = a @ b"
    proof -
      from Cons.prems obtain r where r: "walk k w m c (Suc d) = Some r" by (cases "walk k w m c (Suc d)") auto
      with Cons.prems obtain a where a: "r = Inr a" by (cases r) auto
      with r Cons.prems obtain q where q: "walk_all k w m cs (Suc d) = Some q"
        by (cases "walk_all k w m cs (Suc d)") auto
      with a r Cons.prems obtain b where "q = Inr b" "rs = a @ b" by (cases q) auto
      with a r q that show thesis by blast
    qed
    with Cons.IH Cons.hyps(1) show ?case by auto
  qed simp
  have "te_depth entry = d" "te_feature entry = ft_name f" using e by (auto simp: make_entry_def result_simps)
  moreover have "map (\<lambda>e. (te_depth e, te_feature e)) rest = map (\<lambda>(d, g). (d, ft_name g)) (concat yss)"
    by (rule all [OF list.rel_mono_strong [OF preorder.IH] rest]) blast
  ultimately show ?case unfolding es by simp
qed

section \<open>Properties\<close>

text \<open>
  A receipt is fresh exactly when its evidence passed, the child branch is still at the
  recorded source, the declared checks still have the recorded fingerprint and the result
  is in the history of the parent branch; and it is reported as failed exactly when the
  recorded evidence failed, whatever the repositories look like now.
\<close>

theorem receipt_fresh_exact:
  "(receipt_freshness_of w child parent repo r = Inr Fresh \<longleftrightarrow>
     evidence_passed (ir_verification r)
     \<and> gt_revision_commit (tr_git w) (repo_bare (tr_layout w) repo) (branch_str (ft_branch child)) = Inr (ir_source_sha r)
     \<and> tr_fingerprint w repo = Inr (ve_fingerprint (ir_verification r))
     \<and> gt_is_ancestor (tr_git w) (repo_bare (tr_layout w) repo) (ir_result_sha r) (branch_str (ft_branch parent)) = Inr True)
   \<and> (receipt_freshness_of w child parent repo r = Inr FailedEvidence \<longleftrightarrow> \<not> evidence_passed (ir_verification r))"
  by (auto simp: receipt_freshness_of_def Let_def result_simps split: sum.splits bool.splits)

text \<open>
  What blocks an integration: a child blocks exactly when it was not closed with a known
  outcome and it is not fully integrated, that is, it has no promotion or some promotion
  has no fresh passing receipt.
\<close>

theorem child_blocks_exact:
  assumes "state_of w f (Some p) = Inr s" and "tr_close w (ft_name f) = Inr record"
  shows "state_blocks s \<longleftrightarrow>
     Option.bind record known_outcome = None
     \<and> \<not> (ft_promotions f \<noteq> [] \<and> (\<forall>e \<in> set (ft_promotions f). receipted_fresh w f p e))"
proof -
  from assms obtain facts where facts: "facts_of w f p = Inr facts" "s = classify (Option.bind record known_outcome) facts"
    by (auto simp: state_of_def result_simps)
  show ?thesis unfolding facts(2) classify_blocks facts_of_clear [OF facts(1)] ..
qed

text \<open>
  \<open>blocking_descendants\<close> of a valid tree always answers, and a successful answer lists, in
  preorder and with their depths, exactly the descendants whose derived state blocks; no
  state was left unread, so an empty answer means that nothing below blocks.
\<close>

theorem blocking_descendants_exact:
  assumes "validate_tree fs = Inr ()"
  shows "blocking_descendants w fs f \<noteq> None
    \<and> (\<forall>es. blocking_descendants w fs f = Some (Inr es) \<longrightarrow>
         (\<exists>ys. preorders (feature_map fs) 1 (ft_name f) ys
            \<and> (\<forall>(d, g) \<in> set ys. \<exists>s. feature_state_with_map w (feature_map fs) g = Inr s)
            \<and> map (\<lambda>e. (te_depth e, te_feature e)) es =
                map (\<lambda>(d, g). (d, ft_name g))
                  (filter (\<lambda>(d, g). \<exists>s. feature_state_with_map w (feature_map fs) g = Inr s \<and> state_blocks s) ys)))"
proof -
  let ?m = "feature_map fs"
  have off: "(ft_name f, ft_name f) \<notin> (up ?m)\<^sup>+"
    using assms by (auto simp: validate_tree_iff tree_valid_def acyclic_def)
  from preorders_exist [OF feature_map_ok off] obtain ys where ys: "preorders ?m 1 (ft_name f) ys" by blast
  then have b: "blocking_descendants w fs f = Some (blocking_loop w ?m ys)"
    using descendants_preorders [OF feature_map_ok ys] assms
    by (simp add: blocking_descendants_def blocking_entries_def)
  show ?thesis
  proof (intro conjI allI impI)
    show "blocking_descendants w fs f \<noteq> None" using b by simp
  next
    fix es assume "blocking_descendants w fs f = Some (Inr es)"
    with b have "blocking_loop w ?m ys = Inr es" by simp
    from blocking_loop_features [OF this] ys
    show "\<exists>ys. preorders ?m 1 (ft_name f) ys
        \<and> (\<forall>(d, g) \<in> set ys. \<exists>s. feature_state_with_map w ?m g = Inr s)
        \<and> map (\<lambda>e. (te_depth e, te_feature e)) es =
            map (\<lambda>(d, g). (d, ft_name g))
              (filter (\<lambda>(d, g). \<exists>s. feature_state_with_map w ?m g = Inr s \<and> state_blocks s) ys)" by blast
  qed
qed

text \<open>
  The recursive status of any list of features returns (the recursion never outgrows the
  number of features), and when it succeeds its rows are the queried feature at depth 0
  followed by exactly what \<open>descendants_from_values\<close> lists, in the same order: the
  recursive walk and the walk with the explicit stack agree.
\<close>

theorem subtree_status_agrees:
  "subtree_status w fs root \<noteq> None
   \<and> (\<forall>es. subtree_status w fs root = Some (Inr es) \<longrightarrow>
        (\<exists>ys. descendants_from_values (feature_map fs) root = Some ys
          \<and> map (\<lambda>e. (te_depth e, te_feature e)) es = (0, root) # map (\<lambda>(d, g). (d, ft_name g)) ys))"
proof (cases "validate_tree fs")
  case (Inl e)
  then show ?thesis by (simp add: subtree_status_def)
next
  case (Inr u)
  let ?m = "feature_map fs"
  from Inr have v: "tree_valid ?m" by (simp flip: validate_tree_iff)
  show ?thesis
  proof (cases "bt_get ?m root")
    case None
    with Inr show ?thesis by (simp add: subtree_status_def)
  next
    case (Some f)
    with feature_map_ok [of fs] have n: "ft_name f = root" by (simp add: map_ok_def)
    have off: "(root, root) \<notin> (up ?m)\<^sup>+" using v by (auto simp: tree_valid_def acyclic_def)
    have s: "subtree_status w fs root = walk (Suc (length ?m)) w ?m f 0"
      using Inr Some by (simp add: subtree_status_def del: walk.simps)
    have "card (below ?m root) \<le> card (fst ` set ?m)" by (rule card_mono [OF _ below_in_map]) simp
    also have "\<dots> \<le> length ?m" by (meson card_image_le card_length finite_set le_trans)
    finally have "subtree_status w fs root \<noteq> None"
      using walk_total [OF feature_map_ok, of f fs "Suc (length ?m)" w 0] off n unfolding s by simp
    moreover from preorders_exist [OF feature_map_ok off] obtain ys where ys: "preorders ?m 1 root ys" by blast
    then have p: "preorder ?m 0 f ((0, f) # ys)" using n by (simp add: preorder_iff [of ?m 0 f])
    have "descendants_from_values ?m root = Some ys" by (rule descendants_preorders [OF feature_map_ok ys])
    moreover have "map (\<lambda>e. (te_depth e, te_feature e)) es = (0, root) # map (\<lambda>(d, g). (d, ft_name g)) ys"
      if "subtree_status w fs root = Some (Inr es)" for es
      using walk_rows [OF p that [unfolded s]] n by simp
    ultimately show ?thesis by blast
  qed
qed

section \<open>Witnesses\<close>

text \<open>A hall where one child of \<open>shop\<close> is integrated and the other two features have no promotion.\<close>

definition sample_reads :: tree_reads where
  "sample_reads =
     \<lparr>tr_git = \<lparr>gt_revision_commit = (\<lambda>bare rev. Inr ''a1''), gt_is_ancestor = (\<lambda>bare a b. Inr True)\<rparr>,
      tr_layout = layout_at ''/h'', tr_fingerprint = (\<lambda>r. Inr ''f''),
      tr_close = (\<lambda>n. Inr (if n = FeatureName ''cart'' then Some ''abandoned'' else None)),
      tr_gate = (\<lambda>n. Inr Approved), tr_history = (\<lambda>n. Inr []), tr_sessions = (\<lambda>n. Inr [])\<rparr>"

theorem child_blocks_exact_witness:
  "\<exists>s. state_of sample_reads (sample_feature\<lparr>ft_parent := Some (FeatureName ''shop'')\<rparr>) (Some sample_feature) = Inr s \<and> state_blocks s"
proof -
  let ?f = "sample_feature\<lparr>ft_parent := Some (FeatureName ''shop'')\<rparr>"
  have s: "state_of sample_reads ?f (Some sample_feature) = Inr StActive" by code_simp
  have c: "tr_close sample_reads (ft_name ?f) = Inr None" by code_simp
  have "(RepoName ''web'', \<lparr>pr_worktree = WtPending, pr_base = None, pr_pr_url = None, pr_receipt = None, pr_reason = None\<rparr>)
      \<in> set (ft_promotions ?f)" by code_simp
  then have "\<not> (\<forall>e \<in> set (ft_promotions ?f). receipted_fresh sample_reads ?f sample_feature e)"
    by (force simp: receipted_fresh_def)
  with child_blocks_exact [OF s c] s show ?thesis by auto
qed

theorem blocking_descendants_exact_witness:
  "\<exists>es. blocking_descendants sample_reads sample_tree (feature_new (FeatureName ''shop'') (BranchName ''shop'')) = Some (Inr es)
     \<and> map te_feature es = [FeatureName ''api'', FeatureName ''tax'']"
proof -
  let ?f = "feature_new (FeatureName ''shop'') (BranchName ''shop'')"
  have "(case blocking_descendants sample_reads sample_tree ?f of Some (Inr es) \<Rightarrow> map te_feature es = [FeatureName ''api'', FeatureName ''tax'']
      | _ \<Rightarrow> False)" by code_simp
  then show ?thesis
    using blocking_descendants_exact [OF sample_tree_valid, of sample_reads ?f] by (auto split: option.splits sum.splits)
qed

theorem subtree_status_agrees_witness:
  "\<exists>es ys. subtree_status sample_reads sample_tree (FeatureName ''shop'') = Some (Inr es)
     \<and> descendants_from_values (feature_map sample_tree) (FeatureName ''shop'') = Some ys \<and> length es = Suc (length ys)"
proof -
  let ?s = "subtree_status sample_reads sample_tree (FeatureName ''shop'')"
  have "(case ?s of Some (Inr es) \<Rightarrow> True | _ \<Rightarrow> False)" by code_simp
  then obtain es where es: "?s = Some (Inr es)" by (auto split: option.splits sum.splits)
  then have "\<exists>ys. descendants_from_values (feature_map sample_tree) (FeatureName ''shop'') = Some ys
      \<and> map (\<lambda>e. (te_depth e, te_feature e)) es = (0, FeatureName ''shop'') # map (\<lambda>(d, g). (d, ft_name g)) ys"
    using subtree_status_agrees [of sample_reads sample_tree "FeatureName ''shop''"] by meson
  then obtain ys where ys: "descendants_from_values (feature_map sample_tree) (FeatureName ''shop'') = Some ys"
    "map (\<lambda>e. (te_depth e, te_feature e)) es = (0, FeatureName ''shop'') # map (\<lambda>(d, g). (d, ft_name g)) ys" by (elim exE conjE)
  from arg_cong [OF ys(2), of length] es ys(1) show ?thesis by simp
qed

end
