(* ===== verification/Effects.thy ===== *)
theory Effects
  imports Errors
begin

text \<open>
  Verbs that read and write a state and may stop with a failure: a computation is a function
  from the state to a result and the state it leaves, so that what was written before a
  failure is visible.  \<open>bind_s\<close> is the sequencing with \<open>?\<close> of the code.
\<close>

type_synonym ('s, 'a) eff = "'s \<Rightarrow> (failure + 'a) \<times> 's"

definition return_s :: "'a \<Rightarrow> ('s, 'a) eff" where
  "return_s x s = (Inr x, s)"

definition fail_s :: "failure \<Rightarrow> ('s, 'a) eff" where
  "fail_s e s = (Inl e, s)"

definition bind_s :: "('s, 'a) eff \<Rightarrow> ('a \<Rightarrow> ('s, 'b) eff) \<Rightarrow> ('s, 'b) eff" where
  "bind_s m f s = (case m s of (Inl e, s') \<Rightarrow> (Inl e, s') | (Inr x, s') \<Rightarrow> f x s')"

text \<open>A result computed without touching the state, and one that looks at it.\<close>

definition lift_s :: "failure + 'a \<Rightarrow> ('s, 'a) eff" where
  "lift_s r s = (r, s)"

definition gets_s :: "('s \<Rightarrow> failure + 'a) \<Rightarrow> ('s, 'a) eff" where
  "gets_s f s = (f s, s)"

definition guard_s :: "bool \<Rightarrow> failure \<Rightarrow> ('s, unit) eff" where
  "guard_s ok e s = (if ok then (Inr (), s) else (Inl e, s))"

definition modify_s :: "('s \<Rightarrow> 's) \<Rightarrow> ('s, unit) eff" where
  "modify_s f s = (Inr (), f s)"

text \<open>A \<open>for\<close> loop whose body may stop it.\<close>

fun for_s :: "('a \<Rightarrow> ('s, unit) eff) \<Rightarrow> 'a list \<Rightarrow> ('s, unit) eff" where
  "for_s f [] = return_s ()"
| "for_s f (x # xs) = bind_s (f x) (\<lambda>_. for_s f xs)"

text \<open>Run a computation on a part of the state.\<close>

definition zoom_s :: "('s \<Rightarrow> 't) \<Rightarrow> ('t \<Rightarrow> 's \<Rightarrow> 's) \<Rightarrow> ('t, 'a) eff \<Rightarrow> ('s, 'a) eff" where
  "zoom_s get put m s = (case m (get s) of (r, t) \<Rightarrow> (r, put t s))"

named_theorems effect_simps "when a computation ends well"

lemma return_s_iff [effect_simps]: "return_s x s = (Inr y, s') \<longleftrightarrow> y = x \<and> s' = s"
  by (auto simp: return_s_def)

lemma fail_s_iff [effect_simps]: "fail_s e s = (Inr y, s') \<longleftrightarrow> False"
  by (simp add: fail_s_def)

lemma bind_s_iff [effect_simps]: "bind_s m f s = (Inr y, s') \<longleftrightarrow> (\<exists>x t. m s = (Inr x, t) \<and> f x t = (Inr y, s'))"
  by (auto simp: bind_s_def split: prod.splits sum.splits)

lemma lift_s_iff [effect_simps]: "lift_s r s = (Inr y, s') \<longleftrightarrow> r = Inr y \<and> s' = s"
  by (auto simp: lift_s_def)

lemma gets_s_iff [effect_simps]: "gets_s f s = (Inr y, s') \<longleftrightarrow> f s = Inr y \<and> s' = s"
  by (auto simp: gets_s_def)

lemma guard_s_iff [effect_simps]: "guard_s ok e s = (Inr y, s') \<longleftrightarrow> ok \<and> s' = s"
  by (auto simp: guard_s_def)

lemma modify_s_iff [effect_simps]: "modify_s f s = (Inr y, s') \<longleftrightarrow> s' = f s"
  by (auto simp: modify_s_def)

section \<open>A logic of computations\<close>

text \<open>
  Started where \<open>P\<close> holds, a computation keeps what must always hold, moves the state as \<open>rel\<close>
  says whether or not it fails, and ends well only with \<open>Q\<close>.
\<close>

definition ends_in ::
    "('s \<Rightarrow> bool) \<Rightarrow> ('s \<Rightarrow> 's \<Rightarrow> bool) \<Rightarrow> ('s \<Rightarrow> bool) \<Rightarrow> ('s, 'a) eff \<Rightarrow> ('a \<Rightarrow> 's \<Rightarrow> bool) \<Rightarrow> bool" where
  "ends_in always rel P m Q \<longleftrightarrow> (\<forall>s r s'. always s \<and> P s \<and> m s = (r, s') \<longrightarrow>
     always s' \<and> rel s s' \<and> (\<forall>x. r = Inr x \<longrightarrow> Q x s'))"

text \<open>
  What a component has to say about its state for its steps to be composed: how the state may
  move is reflexive and transitive.
\<close>

locale effect_logic =
  fixes always :: "'s \<Rightarrow> bool"
    and rel :: "'s \<Rightarrow> 's \<Rightarrow> bool"
  assumes rel_refl: "always s \<Longrightarrow> rel s s"
    and rel_trans: "rel s t \<Longrightarrow> rel t u \<Longrightarrow> rel s u"
begin

lemma ends_inI:
  "(\<And>s r s'. always s \<Longrightarrow> P s \<Longrightarrow> m s = (r, s') \<Longrightarrow> always s' \<and> rel s s' \<and> (\<forall>x. r = Inr x \<longrightarrow> Q x s')) \<Longrightarrow> ends_in always rel P m Q"
  unfolding ends_in_def by blast

lemma ends_inD:
  "ends_in always rel P m Q \<Longrightarrow> always s \<Longrightarrow> P s \<Longrightarrow> m s = (r, s') \<Longrightarrow> always s' \<and> rel s s' \<and> (\<forall>x. r = Inr x \<longrightarrow> Q x s')"
  unfolding ends_in_def by blast

lemma ends_bind:
  assumes m: "ends_in always rel P m Q" and k: "\<And>x. ends_in always rel (Q x) (k x) S"
  shows "ends_in always rel P (bind_s m k) S"
proof (rule ends_inI)
  fix s r s'
  assume s: "always s" "P s" and run: "bind_s m k s = (r, s')"
  obtain x t where x: "m s = (x, t)" by fastforce
  note first = ends_inD [OF m s x]
  show "always s' \<and> rel s s' \<and> (\<forall>x. r = Inr x \<longrightarrow> S x s')"
  proof (cases x)
    case (Inl e)
    with run x first show ?thesis by (auto simp: bind_s_def)
  next
    case (Inr y)
    with run x have rest: "k y t = (r, s')" by (simp add: bind_s_def)
    from first Inr have "always t" "Q y t" by blast+
    note second = ends_inD [OF k this rest]
    with first show ?thesis using rel_trans by blast
  qed
qed

lemma ends_weaken:
  "ends_in always rel P m Q \<Longrightarrow> (\<And>s. always s \<Longrightarrow> P' s \<Longrightarrow> P s) \<Longrightarrow> (\<And>x s. Q x s \<Longrightarrow> Q' x s) \<Longrightarrow> ends_in always rel P' m Q'"
  unfolding ends_in_def by blast

lemma ends_lift: "ends_in always rel P (lift_s r) (\<lambda>x s. P s \<and> r = Inr x)"
  by (rule ends_inI) (auto simp: lift_s_def rel_refl)

lemma ends_return: "(\<And>s. P s \<Longrightarrow> Q x s) \<Longrightarrow> ends_in always rel P (return_s x) Q"
  by (rule ends_inI) (auto simp: return_s_def rel_refl)

lemma ends_fail: "ends_in always rel P (fail_s e) Q"
  by (rule ends_inI) (auto simp: fail_s_def rel_refl)

lemma ends_guard: "ends_in always rel P (guard_s g e) (\<lambda>_ s. P s \<and> g)"
  by (rule ends_inI) (auto simp: guard_s_def rel_refl split: if_splits)

lemma ends_gets: "ends_in always rel P (gets_s g) (\<lambda>x s. P s \<and> g s = Inr x)"
  by (rule ends_inI) (auto simp: gets_s_def rel_refl)

lemma ends_modify:
  "(\<And>s. always s \<Longrightarrow> P s \<Longrightarrow> always (f s) \<and> rel s (f s) \<and> Q () (f s)) \<Longrightarrow> ends_in always rel P (modify_s f) Q"
  by (rule ends_inI) (auto simp: modify_s_def)

lemma ends_for: "(\<And>x. x \<in> set xs \<Longrightarrow> ends_in always rel P (f x) (\<lambda>_. P)) \<Longrightarrow> ends_in always rel P (for_s f xs) (\<lambda>_. P)"
  by (induction xs) (auto intro: ends_return ends_bind)

end

text \<open>A part of the state that a computation leaves as it is.\<close>

locale effect_frame =
  fixes part :: "'s \<Rightarrow> 'p"

sublocale effect_frame \<subseteq> effect_logic "\<lambda>_. True" "\<lambda>s s'. part s' = part s"
  by unfold_locales simp_all

context effect_frame
begin

lemma leaves_iff:
  "(\<forall>s. part (snd (m s)) = part s) \<longleftrightarrow> ends_in (\<lambda>_. True) (\<lambda>s s'. part s' = part s) (\<lambda>_. True) m (\<lambda>_ _. True)"
  unfolding ends_in_def by (metis prod.collapse snd_conv)

lemma leaves_bind:
  assumes "\<And>s. part (snd (m s)) = part s" and "\<And>x s. part (snd (f x s)) = part s"
  shows "part (snd (bind_s m f s)) = part s"
  using ends_bind [where P = "\<lambda>_. True" and Q = "\<lambda>_ _. True" and S = "\<lambda>_ _. True" and m = m and k = f, folded leaves_iff] assms
  by blast

end

section \<open>Invariants\<close>

text \<open>
  An invariant of the state is kept by a sequence when each part keeps it, whether or not
  the sequence fails.
\<close>

definition keeps :: "('s \<Rightarrow> bool) \<Rightarrow> ('s, 'a) eff \<Rightarrow> bool" where
  "keeps P m \<longleftrightarrow> (\<forall>s. P s \<longrightarrow> P (snd (m s)))"

interpretation keep_logic: effect_logic P "\<lambda>_ _. True" for P :: "'s \<Rightarrow> bool"
  by unfold_locales simp_all

lemma keeps_ends: "keeps P m \<longleftrightarrow> ends_in P (\<lambda>_ _. True) (\<lambda>_. True) m (\<lambda>_ _. True)"
  unfolding keeps_def ends_in_def by (metis prod.collapse snd_conv)

lemma keeps_return [intro, simp]: "keeps P (return_s x)"
  unfolding keeps_ends by (rule keep_logic.ends_return) simp

lemma keeps_fail [intro, simp]: "keeps P (fail_s e)"
  unfolding keeps_ends by (rule keep_logic.ends_fail)

lemma keeps_lift [intro, simp]: "keeps P (lift_s r)"
  by (simp add: keeps_def lift_s_def)

lemma keeps_gets [intro, simp]: "keeps P (gets_s f)"
  by (simp add: keeps_def gets_s_def)

lemma keeps_guard [intro, simp]: "keeps P (guard_s ok e)"
  by (simp add: keeps_def guard_s_def)

lemma keeps_modify: "(\<And>s. P s \<Longrightarrow> P (f s)) \<Longrightarrow> keeps P (modify_s f)"
  unfolding keeps_ends by (rule keep_logic.ends_modify) simp

lemma keeps_bind: "keeps P m \<Longrightarrow> (\<And>x. keeps P (f x)) \<Longrightarrow> keeps P (bind_s m f)"
  unfolding keeps_ends by (rule keep_logic.ends_bind)

lemma keeps_if: "keeps P a \<Longrightarrow> keeps P b \<Longrightarrow> keeps P (if c then a else b)"
  by simp

lemma keeps_for: "(\<And>x. x \<in> set xs \<Longrightarrow> keeps P (f x)) \<Longrightarrow> keeps P (for_s f xs)"
  unfolding keeps_ends by (rule keep_logic.ends_for)

lemma keepsD: "keeps P m \<Longrightarrow> P s \<Longrightarrow> m s = (r, s') \<Longrightarrow> P s'"
  unfolding keeps_def by (metis snd_conv)

end
