(* ===== verification/Git_Ops.thy ===== *)
theory Git_Ops
  imports Effects Features Layouts
begin

text \<open>
  The interface \<open>src/src/git/mod.rs\<close> gives the verbs.  The repositories are a program the code
  runs (git), so they are an abstract state \<open>'g\<close> and the operations of the trait \<open>Git\<close> that
  the modelled verbs use are the fields of a record: a read is a function of the state, a
  mutation also returns the state it leaves.  An error is its message.  On top of them:
  the worktree lookups of \<open>git/mod.rs\<close>, and \<open>src/src/action/feature/base.rs\<close>, which decides
  whether a branch still has commits that its base lacks.
\<close>

text \<open>The first two carry their own message and failure, from the process and file modules.\<close>

datatype git_error =
    GitSpawn string failure
  | GitFs string failure
  | GitRefused string string
  | NotARepository string string
  | DetachedHead string
  | NotUtf8 string

datatype target_state = TargetAbsent | TargetRepository | TargetOccupied

record worktree_entry =
  we_path :: string
  we_branch :: "string option"
  we_detached :: bool
  we_prunable :: bool

text \<open>The commits two branches do not share, by sha and subject.\<close>

record commit_info =
  cm_sha :: string
  cm_subject :: string

record divergence =
  dv_local_only :: "commit_info list"
  dv_remote_only :: "commit_info list"

definition divergence_ahead :: "divergence \<Rightarrow> nat" where
  "divergence_ahead d = length (dv_local_only d)"

definition divergence_behind :: "divergence \<Rightarrow> nat" where
  "divergence_behind d = length (dv_remote_only d)"

record 'g git =
  g_is_dir :: "'g \<Rightarrow> string \<Rightarrow> git_error + bool"
  g_target_state :: "'g \<Rightarrow> string \<Rightarrow> git_error + target_state"
  g_list_branches :: "'g \<Rightarrow> string \<Rightarrow> git_error + string list"
  g_list_worktrees :: "'g \<Rightarrow> string \<Rightarrow> git_error + worktree_entry list"
  g_worktree_dirty :: "'g \<Rightarrow> string \<Rightarrow> git_error + bool"
  g_commits_ahead :: "'g \<Rightarrow> string \<Rightarrow> string \<Rightarrow> string \<Rightarrow> git_error + nat"
  g_is_ancestor :: "'g \<Rightarrow> string \<Rightarrow> string \<Rightarrow> string \<Rightarrow> git_error + bool"
  g_divergence :: "'g \<Rightarrow> string \<Rightarrow> string \<Rightarrow> string \<Rightarrow> git_error + divergence"
  g_merge_base :: "'g \<Rightarrow> string \<Rightarrow> string \<Rightarrow> string \<Rightarrow> git_error + string"
  g_commit_patch_id :: "'g \<Rightarrow> string \<Rightarrow> string \<Rightarrow> git_error + string"
  g_diff_patch_id :: "'g \<Rightarrow> string \<Rightarrow> string \<Rightarrow> string \<Rightarrow> git_error + string"
  g_revision_commit :: "'g \<Rightarrow> string \<Rightarrow> string \<Rightarrow> git_error + string"
  g_remote_branch_tip :: "'g \<Rightarrow> string \<Rightarrow> string \<Rightarrow> string \<Rightarrow> git_error + string option"
  g_add_worktree :: "string \<Rightarrow> string \<Rightarrow> string \<Rightarrow> 'g \<Rightarrow> (git_error + unit) \<times> 'g"
  g_create_branch_and_worktree :: "string \<Rightarrow> string \<Rightarrow> string \<Rightarrow> string \<Rightarrow> 'g \<Rightarrow> (git_error + unit) \<times> 'g"
  g_worktree_git_dir :: "'g \<Rightarrow> string \<Rightarrow> git_error + string"
  g_remove_worktree :: "string \<Rightarrow> string \<Rightarrow> 'g \<Rightarrow> (git_error + unit) \<times> 'g"
  g_prune_worktrees :: "string \<Rightarrow> 'g \<Rightarrow> (git_error + unit) \<times> 'g"
  g_delete_branch :: "string \<Rightarrow> string \<Rightarrow> 'g \<Rightarrow> (git_error + unit) \<times> 'g"
  g_rename_branch :: "string \<Rightarrow> string \<Rightarrow> string \<Rightarrow> 'g \<Rightarrow> (git_error + unit) \<times> 'g"
  g_move_worktree :: "string \<Rightarrow> string \<Rightarrow> string \<Rightarrow> 'g \<Rightarrow> (git_error + unit) \<times> 'g"
  g_push :: "string \<Rightarrow> string \<Rightarrow> string \<Rightarrow> string \<Rightarrow> 'g \<Rightarrow> (git_error + unit) \<times> 'g"
  g_delete_remote_branch :: "string \<Rightarrow> string \<Rightarrow> string \<Rightarrow> string \<Rightarrow> 'g \<Rightarrow> (git_error + unit) \<times> 'g"

section \<open>Errors\<close>

definition git_error_display :: "git_error \<Rightarrow> string" where
  "git_error_display e =
     (case e of
        GitSpawn shown _ \<Rightarrow> shown
      | GitFs shown _ \<Rightarrow> shown
      | GitRefused command detail \<Rightarrow> quoted command @ '' failed: '' @ detail
      | NotARepository path detail \<Rightarrow> quoted path @ '' is not a git repository ('' @ detail @ '')''
      | DetachedHead path \<Rightarrow> quoted path @ '' has no branch checked out (HEAD is detached)''
      | NotUtf8 display \<Rightarrow> ''git reported a path that is not valid UTF-8: '' @ display)"

definition lacks_an_identity :: "string \<Rightarrow> bool" where
  "lacks_an_identity detail \<longleftrightarrow> sublist ''user.name'' detail \<and> sublist ''user.email'' detail"

definition git_failure :: "git_error \<Rightarrow> failure" where
  "git_failure e =
     (let what = git_error_display e in
      case e of
        GitSpawn _ source \<Rightarrow> source
      | GitFs _ source \<Rightarrow> source
      | GitRefused _ detail \<Rightarrow>
          if lacks_an_identity detail then
            with_fix (fix_command ''git config --global user.name \"Your Name\" && git config --global user.email \"you@example.com\"''
                (fix_safe ''git.set_identity'' (''Tell git who you are '' @ em_dash @
                   '' `ivar` deliberately does not supply a name of its own, because a commit landing in your repository must carry your authorship.'')))
              (with_actual detail
                (with_expected ''`user.name` and `user.email` to be set, globally or for this repository''
                  (blocked ''git.identity_missing'' ''git has no author identity configured, so it cannot record a commit'')))
          else
            with_fix (fix_safe ''git.read_the_error''
                (''Run the command shown above by hand '' @ em_dash @ '' git'' @ [CHR 0x27] @ ''s own message names what it needs.''))
              (with_actual detail (with_expected ''git to complete the operation'' (failed ''git.command_failed'' what)))
      | NotARepository path detail \<Rightarrow>
          with_fix (fix_command ''ivar sync'' (fix_safe ''git.resync_hall'' ''Run `ivar sync` to rebuild what is missing under `.ivar/`.''))
            (with_actual detail (with_expected (quoted path @ '' to be a git repository'') (blocked ''git.not_a_repository'' what)))
      | DetachedHead path \<Rightarrow>
          with_fix (fix_unsafe ''git.checkout_a_branch''
              (''Check out a branch in that worktree '' @ em_dash @ '' ivar cannot pick one for you.''))
            (with_actual (quoted path @ '' has a detached HEAD'') (with_expected ''HEAD to name a branch'' (blocked ''git.detached_head'' what)))
      | NotUtf8 display \<Rightarrow>
          with_fix (fix_unsafe ''git.rename_to_utf8'' ''Rename the offending path to valid UTF-8.'')
            (with_actual display (with_expected ''a path that is valid UTF-8'' (blocked ''git.path_not_utf8'' what))))"

section \<open>Running the operations\<close>

text \<open>
  The state of a verb is a pair: the git state (with everything else outside the records) and
  the records.  An operation on one of the two, and a reading of git.
\<close>

definition on_git :: "('g \<Rightarrow> (git_error + 'a) \<times> 'g) \<Rightarrow> ('g \<times> 'h, 'a) eff" where
  "on_git op s = (case op (fst s) of (r, g) \<Rightarrow> (map_sum git_failure id r, (g, snd s)))"

definition on_outside :: "('g \<Rightarrow> (failure + 'a) \<times> 'g) \<Rightarrow> ('g \<times> 'h, 'a) eff" where
  "on_outside op s = (case op (fst s) of (r, g) \<Rightarrow> (r, (g, snd s)))"

definition on_hall :: "('h \<Rightarrow> (failure + 'a) \<times> 'h) \<Rightarrow> ('g \<times> 'h, 'a) eff" where
  "on_hall op s = (case op (snd s) of (r, m) \<Rightarrow> (r, (fst s, m)))"

definition read_git :: "('g \<Rightarrow> git_error + 'a) \<Rightarrow> ('g \<times> 'h, 'a) eff" where
  "read_git f = gets_s (\<lambda>s. map_sum git_failure id (f (fst s)))"

lemma keeps_read_git [intro, simp]: "keeps P (read_git f)"
  by (simp add: read_git_def)

lemma keeps_on_git [intro, simp]: "keeps (\<lambda>s. P (snd s)) (on_git op)"
  by (simp add: keeps_def on_git_def split: prod.splits)

lemma keeps_on_outside [intro, simp]: "keeps (\<lambda>s. P (snd s)) (on_outside op)"
  by (simp add: keeps_def on_outside_def split: prod.splits)

lemma keeps_on_hall:
  "(\<And>m. P m \<Longrightarrow> P (snd (op m))) \<Longrightarrow> keeps (\<lambda>s. P (snd s)) (on_hall op)"
  by (simp add: keeps_def on_hall_def split: prod.splits) (metis snd_conv)

section \<open>Worktrees\<close>

definition resolve_worktree :: "'g git \<Rightarrow> 'g \<Rightarrow> string \<Rightarrow> string \<Rightarrow> git_error + worktree_entry option" where
  "resolve_worktree git g bare branch =
     and_then (g_list_worktrees git g bare) (\<lambda>es. Inr (find (\<lambda>e. we_branch e = Some branch) es))"

definition lookup_worktree :: "'g git \<Rightarrow> 'g \<Rightarrow> string \<Rightarrow> string \<Rightarrow> git_error + worktree_entry option" where
  "lookup_worktree git g bare branch =
     and_then (g_is_dir git g bare) (\<lambda>dir. if dir then resolve_worktree git g bare branch else Inr None)"

definition remove_worktree_entry :: "'g git \<Rightarrow> string \<Rightarrow> worktree_entry \<Rightarrow> 'g \<Rightarrow> (git_error + unit) \<times> 'g" where
  "remove_worktree_entry git bare entry g =
     (if we_prunable entry then g_prune_worktrees git bare g else g_remove_worktree git bare (we_path entry) g)"

section \<open>Commits the base lacks\<close>

definition base_resolve :: "feature \<Rightarrow> promotion \<Rightarrow> branch_name \<Rightarrow> branch_name" where
  "base_resolve f p default_branch = unwrap_or (effective_base (ft_base f) default_branch) (pr_base p)"

fun all_patches_in :: "'g git \<Rightarrow> 'g \<Rightarrow> string \<Rightarrow> string set \<Rightarrow> commit_info list \<Rightarrow> git_error + bool" where
  "all_patches_in git g bare base_ids [] = Inr True"
| "all_patches_in git g bare base_ids (c # cs) =
     and_then (g_commit_patch_id git g bare (cm_sha c)) (\<lambda>i.
       if i \<notin> base_ids then Inr False else all_patches_in git g bare base_ids cs)"

definition landed_under_new_identity :: "'g git \<Rightarrow> 'g \<Rightarrow> string \<Rightarrow> string \<Rightarrow> string \<Rightarrow> git_error + bool" where
  "landed_under_new_identity git g bare base branch =
     and_then (g_divergence git g bare branch base) (\<lambda>d.
     and_then (try_map (\<lambda>c. g_commit_patch_id git g bare (cm_sha c)) (dv_remote_only d)) (\<lambda>base_ids.
     and_then (g_merge_base git g bare base branch) (\<lambda>mb.
     and_then (g_diff_patch_id git g bare mb branch) (\<lambda>whole.
       if whole \<in> set base_ids then Inr True
       else all_patches_in git g bare (set base_ids) (dv_local_only d)))))"

text \<open>\<open>unwrap_or(false)\<close> of a fallible check.\<close>

definition ok_true :: "'e + bool \<Rightarrow> bool" where
  "ok_true r = (case r of Inl _ \<Rightarrow> False | Inr b \<Rightarrow> b)"

definition unmerged_commits :: "'g git \<Rightarrow> 'g \<Rightarrow> string \<Rightarrow> string \<Rightarrow> string \<Rightarrow> git_error + nat" where
  "unmerged_commits git g bare base branch =
     and_then (g_commits_ahead git g bare base branch) (\<lambda>ahead.
       if ahead = 0 \<or> ok_true (landed_under_new_identity git g bare base branch) then Inr 0 else Inr ahead)"

text \<open>
  The recursion over parents.  \<open>read\<close> reads a feature, \<open>declared\<close> gives the default branch of a
  repository the manifest declares.  The code counts hops up to 32; the fuel counts them down
  from there, so fuel 0 is the cut-off of \<open>MAX_PARENT_HOPS\<close>.
\<close>

definition max_parent_hops :: nat where
  "max_parent_hops = 32"

fun unmerged_inner ::
    "nat \<Rightarrow> 'g git \<Rightarrow> 'g \<Rightarrow> layout \<Rightarrow> (repo_name \<Rightarrow> branch_name option) \<Rightarrow> (feature_name \<Rightarrow> failure + feature option) \<Rightarrow>
     feature \<Rightarrow> repo_name \<Rightarrow> branch_name \<Rightarrow> git_error + nat"
and integration_landed ::
    "nat \<Rightarrow> 'g git \<Rightarrow> 'g \<Rightarrow> layout \<Rightarrow> (repo_name \<Rightarrow> branch_name option) \<Rightarrow> (feature_name \<Rightarrow> failure + feature option) \<Rightarrow>
     feature \<Rightarrow> repo_name \<Rightarrow> branch_name \<Rightarrow> bool" where
  "unmerged_inner left git g lay declared read f repo base =
     and_then (unmerged_commits git g (repo_bare lay repo) (branch_str base) (branch_str (ft_branch f))) (\<lambda>ahead.
       if ahead > 0 \<and> integration_landed left git g lay declared read f repo base then Inr 0 else Inr ahead)"
| "integration_landed left git g lay declared read f repo base =
     (case Option.bind (bt_get (ft_promotions f) repo) pr_receipt of
        None \<Rightarrow> False
      | Some receipt \<Rightarrow>
          (case ft_parent f of
             None \<Rightarrow> False
           | Some parent_name \<Rightarrow>
               if \<not> evidence_passed (ir_verification receipt) \<or> ir_target_branch receipt \<noteq> base then False
               else if g_revision_commit git g (repo_bare lay repo) (branch_str (ft_branch f)) \<noteq> Inr (ir_source_sha receipt) then False
               else if ok_true (g_is_ancestor git g (repo_bare lay repo) (ir_result_sha receipt) (branch_str base)) then True
               else (case left of
                 0 \<Rightarrow> False
               | Suc left' \<Rightarrow>
                   (case read parent_name of
                      Inr (Some parent) \<Rightarrow>
                        (case bt_get (ft_promotions parent) repo of
                           None \<Rightarrow> False
                         | Some pp \<Rightarrow>
                             (case declared repo of
                                None \<Rightarrow> False
                              | Some db \<Rightarrow>
                                  unmerged_inner left' git g lay declared read parent repo (base_resolve parent pp db) = Inr 0))
                    | _ \<Rightarrow> False))))"

definition unmerged_commits_with_integration ::
    "'g git \<Rightarrow> 'g \<Rightarrow> layout \<Rightarrow> (repo_name \<Rightarrow> branch_name option) \<Rightarrow> (feature_name \<Rightarrow> failure + feature option) \<Rightarrow>
     feature \<Rightarrow> repo_name \<Rightarrow> branch_name \<Rightarrow> git_error + nat" where
  "unmerged_commits_with_integration git g lay declared read f repo base =
     unmerged_inner max_parent_hops git g lay declared read f repo base"

end
