(* ===== verification/Hall_Verbs.thy ===== *)
theory Hall_Verbs
  imports Tree_State Git_Ops
begin

text \<open>
  The verbs that change the tree of features: \<open>create.rs\<close> and \<open>reparent.rs\<close> of
  \<open>src/src/action/feature\<close>.  The state is the map from feature directory to feature record,
  which is what \<open>read_all\<close> reads; a verb returns its result with the map it leaves behind,
  also when it fails.  The files beside the records are arguments.
\<close>

section \<open>Reading the features\<close>

type_synonym hall = features_by_name

text \<open>A record under another name than its own is passed over.\<close>

definition read_all :: "hall \<Rightarrow> failure + feature list" where
  "read_all m =
     (let fs = map snd (filter (\<lambda>(n, f). ft_name f = n) m) in and_then (validate_tree fs) (\<lambda>_. Inr fs))"

definition read_feature :: "hall \<Rightarrow> feature_name \<Rightarrow> failure + feature" where
  "read_feature m n = (case bt_get m n of None \<Rightarrow> Inl (feature_not_found n) | Some f \<Rightarrow> Inr f)"

definition descendants :: "hall \<Rightarrow> feature_name \<Rightarrow> (failure + feature list) option" where
  "descendants m n =
     (case read_all m of
        Inl e \<Rightarrow> Some (Inl e)
      | Inr fs \<Rightarrow> map_option (\<lambda>ds. Inr (map snd ds)) (descendants_from_values (feature_map fs) n))"

text \<open>\<open>Feature::update\<close>: read, change, write; a failing change writes nothing.\<close>

definition update_feature :: "feature_name \<Rightarrow> (feature \<Rightarrow> failure + feature) \<Rightarrow> hall \<Rightarrow> (failure + unit) \<times> hall" where
  "update_feature n f m =
     (case read_feature m n of
        Inl e \<Rightarrow> (Inl e, m)
      | Inr cur \<Rightarrow>
          (case f cur of
             Inl e \<Rightarrow> (Inl e, m)
           | Inr new \<Rightarrow> (Inr (), bt_insert n new m)))"

definition named :: "invalid_name + 'n \<Rightarrow> failure + 'n" where
  "named = map_sum invalid_name_failure id"

section \<open>Create\<close>

record create_input =
  ci_name :: string
  ci_branch :: "string option"
  ci_base :: "string option"
  ci_parent :: "string option"
  ci_via :: "string option"
  ci_strategy :: "string option"

record create_outcome =
  co_root :: string
  co_name :: feature_name
  co_branch :: branch_name
  co_base :: "branch_name option"
  co_parent :: "feature_name option"

definition create_conflict :: "feature_name \<Rightarrow> failure" where
  "create_conflict n =
     with_fix (fix_safe ''feature.pick_one_base_source''
         (''Use `--parent <feature>` for a subfeature, or `--base <branch>` for an explicit base '' @ em_dash @ '' not both.''))
       (with_actual ''both were provided''
         (with_expected ''`--parent` (which derives the base from the parent's branch) or `--base`, not both''
           (blocked ''feature.create_parent_and_base_conflict''
             (''feature '' @ quoted (feature_str n) @ '' cannot be created with both `--parent` and `--base`''))))"

definition already_exists :: "layout \<Rightarrow> feature_name \<Rightarrow> failure" where
  "already_exists lay n =
     with_fix (fix_safe ''feature.use_existing'' ''Use the existing feature, or pick a different name.'')
       (with_actual (quoted (feature_dir lay n) @ '' already holds a feature record'')
         (with_expected ''a feature name that has not been used before''
           (blocked ''feature.already_exists'' (''feature '' @ quoted (feature_str n) @ '' already exists''))))"

definition branch_taken :: "branch_name \<Rightarrow> feature_name \<Rightarrow> failure" where
  "branch_taken b owner =
     with_fix (fix_safe ''feature.pick_branch''
         ''Pass a different `--branch`, or keep working in the feature that owns it.'')
       (with_actual (quoted (feature_str owner) @ '' records '' @ quoted (branch_str b))
         (with_expected ''a branch no other feature records''
           (blocked ''feature.branch_taken''
             (''branch '' @ quoted (branch_str b) @ '' already belongs to feature '' @ quoted (feature_str owner)))))"

text \<open>\<open>Option<String>\<close> with a fallible parser: \<open>map(parse).transpose()\<close>.\<close>

fun transpose_map :: "('a \<Rightarrow> 'e + 'b) \<Rightarrow> 'a option \<Rightarrow> 'e + 'b option" where
  "transpose_map f None = Inr None"
| "transpose_map f (Some x) = and_then (f x) (\<lambda>y. Inr (Some y))"

definition create_lineage ::
    "hall \<Rightarrow> create_input \<Rightarrow> failure + branch_name option \<times> feature_name option" where
  "create_lineage m i =
     (case ci_parent i of
        Some raw \<Rightarrow>
          and_then (named (feature_name_new raw)) (\<lambda>p.
          and_then (read_feature m p) (\<lambda>pf. Inr (Some (ft_branch pf), Some p)))
      | None \<Rightarrow> and_then (transpose_map (\<lambda>b. named (branch_name_new b)) (ci_base i)) (\<lambda>b. Inr (b, None)))"

definition create_feature :: "layout \<Rightarrow> hall \<Rightarrow> create_input \<Rightarrow> failure + feature" where
  "create_feature lay m i =
     and_then (named (feature_name_new (ci_name i))) (\<lambda>n.
     and_then (named (branch_name_new (unwrap_or (ci_name i) (ci_branch i)))) (\<lambda>b.
     and_then (if ci_base i \<noteq> None \<and> ci_parent i \<noteq> None then Inl (create_conflict n) else Inr ()) (\<lambda>_.
     and_then (create_lineage m i) (\<lambda>(base, parent).
     and_then (transpose_map (\<lambda>v. map_sum unknown_via id (via_parse v)) (ci_via i)) (\<lambda>via.
     and_then (transpose_map (\<lambda>v. map_sum unknown_strategy id (strategy_parse v)) (ci_strategy i)) (\<lambda>strategy.
     and_then (if bt_get m n \<noteq> None then Inl (already_exists lay n) else Inr ()) (\<lambda>_.
     and_then (read_all m) (\<lambda>fs.
     and_then (case find (\<lambda>g. ft_branch g = b) fs of
                 Some owner \<Rightarrow> Inl (branch_taken b (ft_name owner)) | None \<Rightarrow> Inr ()) (\<lambda>_.
       Inr ((feature_new n b)\<lparr>ft_base := base, ft_parent := parent,
                              ft_integration := \<lparr>iv_via = via, iv_strategy = strategy\<rparr>\<rparr>))))))))))"

definition create :: "layout \<Rightarrow> create_input \<Rightarrow> hall \<Rightarrow> (failure + create_outcome) \<times> hall" where
  "create lay i m =
     (case create_feature lay m i of
        Inl e \<Rightarrow> (Inl e, m)
      | Inr f \<Rightarrow>
          (Inr \<lparr>co_root = lay_root lay, co_name = ft_name f, co_branch = ft_branch f,
                co_base = ft_base f, co_parent = ft_parent f\<rparr>,
           bt_insert (ft_name f) f m))"

section \<open>Reparent\<close>

record file_reads =
  fr_exists :: "string \<Rightarrow> failure + bool"
  fr_dir :: "string \<Rightarrow> failure + string list option"

definition working_doc_artifacts :: "string list" where
  "working_doc_artifacts = [''requirements.md'', ''analysis.md'', ''plan.md'', ''tasks'', ''discovery.md'']"

fun any_fallible :: "('a \<Rightarrow> failure + bool) \<Rightarrow> 'a list \<Rightarrow> failure + bool" where
  "any_fallible p [] = Inr False"
| "any_fallible p (x # xs) = and_then (p x) (\<lambda>b. if b then Inr True else any_fallible p xs)"

definition work_started :: "tree_reads \<Rightarrow> file_reads \<Rightarrow> feature \<Rightarrow> feature list \<Rightarrow> failure + bool" where
  "work_started w fr child below_child =
     (if ft_promotions child \<noteq> [] then Inr True
      else if below_child \<noteq> [] then Inr True
      else and_then (tr_close w (ft_name child)) (\<lambda>record.
        if record \<noteq> None then Inr True
        else and_then (any_fallible (\<lambda>a. fr_exists fr (path_join (feature_dir (tr_layout w) (ft_name child)) a))
                         working_doc_artifacts) (\<lambda>found.
          if found then Inr True
          else any_fallible (\<lambda>d. and_then (fr_dir fr d) (\<lambda>es. Inr (es \<noteq> None \<and> es \<noteq> Some [])))
                 [execution_dir (tr_layout w) (ft_name child), feature_sessions_dir (tr_layout w) (ft_name child)])))"

record reparent_outcome =
  ro_root :: string
  ro_child :: feature_name
  ro_old_parent :: "feature_name option"
  ro_new_parent :: feature_name
  ro_base :: branch_name

definition reparent_self_parent :: "feature_name \<Rightarrow> failure" where
  "reparent_self_parent c =
     with_fix (fix_safe ''feature.reparent_pick_another'' ''Pick a parent that is not the child itself.'')
       (with_actual ''the child was named as its own parent''
         (with_expected ''a different parent than the child itself''
           (blocked ''feature.reparent_self_parent'' (''cannot reparent '' @ quoted (feature_str c) @ '' under itself''))))"

definition reparent_same_parent :: "feature_name \<Rightarrow> feature_name \<Rightarrow> failure" where
  "reparent_same_parent c p =
     with_fix (fix_safe ''feature.reparent_pick_another'' ''Pick a parent the child does not already sit under.'')
       (with_actual (''the child'' @ [CHR 0x27] @ ''s current parent was named again'')
         (with_expected ''a different parent than the child already has''
           (blocked ''feature.reparent_same_parent''
             (''feature '' @ quoted (feature_str c) @ '' is already a subfeature of '' @ quoted (feature_str p)))))"

definition reparent_parent_not_found :: "feature_name \<Rightarrow> feature_name \<Rightarrow> failure" where
  "reparent_parent_not_found c p =
     with_fix (fix_safe ''feature.create_parent_first''
         (''Create '' @ quoted (feature_str p) @ '' first, or pick a parent that exists.''))
       (with_actual (quoted (feature_str p) @ '' has no feature.json'')
         (with_expected ''the new parent to be an existing feature''
           (blocked ''feature.reparent_parent_not_found''
             (''cannot reparent '' @ quoted (feature_str c) @ '': parent '' @ quoted (feature_str p) @ '' does not exist''))))"

definition reparent_cycle :: "feature_name \<Rightarrow> feature_name \<Rightarrow> failure" where
  "reparent_cycle c p =
     with_fix (fix_safe ''feature.reparent_pick_ancestor'' (''Pick a parent outside the child'' @ [CHR 0x27] @ ''s own subtree.''))
       (with_actual (quoted (feature_str p) @ '' lies below '' @ quoted (feature_str c))
         (with_expected ''a new parent that is not the child or one of its descendants''
           (blocked ''feature.reparent_cycle''
             (''cannot reparent '' @ quoted (feature_str c) @ '' under '' @ quoted (feature_str p) @
              '': the proposed parent is one of the child'' @ [CHR 0x27] @ ''s own descendants''))))"

definition reparent_work_started :: "feature_name \<Rightarrow> failure" where
  "reparent_work_started c =
     with_fix (fix_safe ''feature.reparent_before_work''
         ''Reparent a freshly created child before any work starts; afterwards the parent is immutable.'')
       (with_actual ''at least one work fact exists''
         (with_expected (''a pristine child '' @ em_dash @
             '' no promotions, receipts, working documents, execution/session state, close record, or descendants'')
           (blocked ''feature.reparent_work_started''
             (''cannot reparent '' @ quoted (feature_str c) @ '': work has started''))))"

text \<open>
  The checks of \<open>reparent\<close>, up to its single write: the child and the new parent, found
  before the walk over the descendants, and then the checks on them.  \<open>None\<close> would be the
  walk not returning.
\<close>

definition reparent_found ::
    "tree_reads \<Rightarrow> string \<Rightarrow> string \<Rightarrow> hall \<Rightarrow> failure + feature \<times> feature" where
  "reparent_found w child_text parent_text m =
     and_then (named (feature_name_new child_text)) (\<lambda>c.
     and_then (named (feature_name_new parent_text)) (\<lambda>p.
     and_then (read_all m) (\<lambda>_.
     and_then (read_feature m c) (\<lambda>child.
     and_then (is_fully_integrated w child) (\<lambda>integrated.
     and_then (ensure_structure_mutable integrated child) (\<lambda>_.
       if c = p then Inl (reparent_self_parent c)
       else if ft_parent child = Some p then Inl (reparent_same_parent c p)
       else (case read_feature m p of
               Inl _ \<Rightarrow> Inl (reparent_parent_not_found c p)
             | Inr parent \<Rightarrow> Inr (child, parent))))))))"

definition reparent_checked ::
    "tree_reads \<Rightarrow> file_reads \<Rightarrow> string \<Rightarrow> string \<Rightarrow> hall \<Rightarrow> (failure + feature \<times> feature) option" where
  "reparent_checked w fr child_text parent_text m =
     (case reparent_found w child_text parent_text m of
        Inl e \<Rightarrow> Some (Inl e)
      | Inr (child, parent) \<Rightarrow>
          map_option (\<lambda>ds. and_then ds (\<lambda>ds.
              if list_ex (\<lambda>d. ft_name d = ft_name parent) ds then Inl (reparent_cycle (ft_name child) (ft_name parent))
              else and_then (work_started w fr child ds) (\<lambda>started.
                if started then Inl (reparent_work_started (ft_name child)) else Inr (child, parent))))
            (descendants m (ft_name child)))"

definition reparent ::
    "tree_reads \<Rightarrow> file_reads \<Rightarrow> string \<Rightarrow> string \<Rightarrow> hall \<Rightarrow> ((failure + reparent_outcome) \<times> hall) option" where
  "reparent w fr child_text parent_text m =
     map_option (\<lambda>r. case r of
         Inl e \<Rightarrow> (Inl e, m)
       | Inr (child, parent) \<Rightarrow>
           (case update_feature (ft_name child)
                   (\<lambda>f. Inr (f\<lparr>ft_parent := Some (ft_name parent), ft_base := Some (ft_branch parent)\<rparr>)) m of
              (Inl e, m') \<Rightarrow> (Inl e, m')
            | (Inr _, m') \<Rightarrow>
                (Inr \<lparr>ro_root = lay_root (tr_layout w), ro_child = ft_name child, ro_old_parent = ft_parent child,
                      ro_new_parent = ft_name parent, ro_base = ft_branch parent\<rparr>, m')))
       (reparent_checked w fr child_text parent_text m)"

section \<open>The invariant of a hall\<close>

text \<open>
  Every feature is stored under its name, the tree is valid, no two features record the same
  branch, and the promotions of a feature are a map.
\<close>

definition hall_ok :: "hall \<Rightarrow> bool" where
  "hall_ok m \<longleftrightarrow> map_ok m \<and> tree_valid m
     \<and> (\<forall>a b f g. bt_get m a = Some f \<longrightarrow> bt_get m b = Some g \<longrightarrow> ft_branch f = ft_branch g \<longrightarrow> a = b)
     \<and> (\<forall>n f. bt_get m n = Some f \<longrightarrow> feature_wf f)"

lemma hall_ok_facts:
  assumes "hall_ok m"
  shows "map_ok m" "tree_valid m" "bt_sorted m"
  using assms by (simp_all add: hall_ok_def map_ok_def)

lemma feature_map_values:
  assumes "map_ok m"
  shows "feature_map (map snd m) = m"
proof -
  have "ft_name (snd e) = fst e" if "e \<in> set m" for e
    using that assms bt.get_Some_iff [of m "fst e" "snd e"] by (simp add: map_ok_def)
  then have e: "map (\<lambda>f. (ft_name f, f)) (map snd m) = m"
    by (auto intro!: map_idI simp: prod_eq_iff)
  have s: "bt_sorted m" using assms by (simp add: map_ok_def)
  have "bt_get (bt_of m) k = bt_get m k" for k
    using bt_get_of_distinct [OF bt.entries_distinct [OF s], of k] by (simp add: bt_get_def)
  from bt.get_ext [OF bt_sorted_of s this] show ?thesis
    unfolding feature_map_def e by simp
qed

lemma map_ok_filter:
  assumes "map_ok m"
  shows "filter (\<lambda>(n, f). ft_name f = n) m = m"
proof -
  have "ft_name (snd e) = fst e" if "e \<in> set m" for e
    using that assms bt.get_Some_iff [of m "fst e" "snd e"] by (simp add: map_ok_def)
  then show ?thesis by (auto simp: filter_id_conv split: prod.splits)
qed

lemma read_all_iff: "map_ok m \<Longrightarrow> read_all m = Inr fs \<longleftrightarrow> tree_valid m \<and> fs = map snd m"
  by (auto simp: read_all_def result_simps validate_tree_iff feature_map_values map_ok_filter Let_def)

lemma hall_read_all: "hall_ok m \<Longrightarrow> read_all m = Inr (map snd m)"
  by (simp add: read_all_iff hall_ok_facts)

text \<open>What the invariant looks at.\<close>

definition skeleton :: "hall \<Rightarrow> feature_name \<Rightarrow> (feature_name \<times> branch_name \<times> branch_name option \<times> feature_name option) option" where
  "skeleton m n = map_option (\<lambda>f. (ft_name f, ft_branch f, ft_base f, ft_parent f)) (bt_get m n)"

lemma skeleton_up: "skeleton m = skeleton m' \<Longrightarrow> up m = up m'"
proof -
  have "up m = {(n, p). \<exists>a b c. skeleton m n = Some (a, b, c, Some p)}" for m
    by (auto simp: up_def skeleton_def)
  then show "skeleton m = skeleton m' \<Longrightarrow> up m = up m'" by simp
qed

lemma skeleton_dom:
  assumes "skeleton m = skeleton m'"
  shows "bt_get m n = None \<longleftrightarrow> bt_get m' n = None"
proof -
  have "skeleton m n = None \<longleftrightarrow> bt_get m n = None" for m by (simp add: skeleton_def)
  with assms show ?thesis by metis
qed

lemma skeleton_get:
  assumes "skeleton m' = skeleton m" and "bt_get m' n = Some f"
  shows "\<exists>g. bt_get m n = Some g \<and> ft_name g = ft_name f \<and> ft_branch g = ft_branch f"
proof -
  have "skeleton m n = Some (ft_name f, ft_branch f, ft_base f, ft_parent f)"
    using assms(2) unfolding assms(1) [symmetric] by (simp add: skeleton_def)
  then show ?thesis unfolding skeleton_def map_option_eq_Some by (elim exE conjE) simp
qed

lemma skeleton_hall_ok:
  assumes ok: "hall_ok m" and sk: "skeleton m' = skeleton m" and sorted: "bt_sorted m'"
    and wf: "\<forall>n f. bt_get m' n = Some f \<longrightarrow> feature_wf f"
  shows "hall_ok m'"
proof -
  have get: "\<exists>g. bt_get m n = Some g \<and> ft_name g = ft_name f \<and> ft_branch g = ft_branch f" if "bt_get m' n = Some f" for n f
    using skeleton_get [OF sk that] by blast
  have "ft_name f = n" if "bt_get m' n = Some f" for n f
    using get [OF that] hall_ok_facts(1) [OF ok] unfolding map_ok_def by metis
  then have "map_ok m'" using sorted unfolding map_ok_def by blast
  moreover have "tree_valid m'"
    using hall_ok_facts(2) [OF ok] skeleton_up [OF sk] skeleton_dom [OF sk] by (simp add: tree_valid_def)
  moreover have "a = b" if "bt_get m' a = Some f" "bt_get m' b = Some g" "ft_branch f = ft_branch g" for a b f g
    using get [OF that(1)] get [OF that(2)] that(3) ok unfolding hall_ok_def by metis
  ultimately show ?thesis using wf unfolding hall_ok_def by blast
qed

section \<open>Create\<close>

lemma up_insert_new:
  "bt_sorted m \<Longrightarrow> bt_get m n = None \<Longrightarrow>
     up (bt_insert n f m) = up m \<union> (case ft_parent f of None \<Rightarrow> {} | Some p \<Rightarrow> {(n, p)})"
  by (auto simp: up_def bt.get_insert split: option.splits if_splits)

lemma hall_ok_insert:
  assumes ok: "hall_ok m" and new: "bt_get m (ft_name f) = None"
    and parent: "\<forall>p. ft_parent f = Some p \<longrightarrow> bt_get m p \<noteq> None"
    and branch: "\<forall>n g. bt_get m n = Some g \<longrightarrow> ft_branch g \<noteq> ft_branch f"
    and wf: "feature_wf f"
  shows "hall_ok (bt_insert (ft_name f) f m)"
proof -
  let ?n = "ft_name f" and ?m = "bt_insert (ft_name f) f m"
  note s = hall_ok_facts(3) [OF ok] and v = hall_ok_facts(2) [OF ok]
  have get: "bt_get ?m k = (if k = ?n then Some f else bt_get m k)" for k by (simp add: bt.get_insert [OF s])
  have up: "up ?m = up m \<union> (case ft_parent f of None \<Rightarrow> {} | Some p \<Rightarrow> {(?n, p)})" by (rule up_insert_new [OF s new])
  have no_in: "(x, ?n) \<notin> up m" for x using v new unfolding tree_valid_def by blast
  have "acyclic (up ?m)"
  proof (cases "ft_parent f")
    case None
    with up v show ?thesis by (simp add: tree_valid_def)
  next
    case (Some p)
    with parent new have "p \<noteq> ?n" by auto
    then have "(p, ?n) \<notin> (up m)\<^sup>*" using no_in by (auto elim: rtranclE)
    with up Some v show ?thesis by (simp add: tree_valid_def acyclic_insert)
  qed
  moreover have closed: "bt_get ?m p \<noteq> None" if "(k, p) \<in> up ?m" for k p
    using that v parent unfolding up get tree_valid_def by (auto split: option.splits)
  moreover have "map_ok ?m"
    using ok bt.invar_insert [OF s] get by (auto simp: map_ok_def hall_ok_def)
  ultimately show ?thesis
  proof -
    have "a = b" if "bt_get ?m a = Some g" "bt_get ?m b = Some h" "ft_branch g = ft_branch h" for a b g h
      using that branch ok unfolding get hall_ok_def by (metis option.inject)
    moreover have "feature_wf g" if "bt_get ?m a = Some g" for a g
      using that wf ok unfolding get hall_ok_def by (metis option.inject)
    ultimately show ?thesis using \<open>map_ok ?m\<close> \<open>acyclic (up ?m)\<close> closed unfolding hall_ok_def tree_valid_def by blast
  qed
qed

lemma create_feature_ok:
  assumes ok: "hall_ok m" and f: "create_feature lay m i = Inr f"
  shows "bt_get m (ft_name f) = None" "\<forall>p. ft_parent f = Some p \<longrightarrow> bt_get m p \<noteq> None"
    "\<forall>n g. bt_get m n = Some g \<longrightarrow> ft_branch g \<noteq> ft_branch f" "feature_wf f"
    "\<forall>p. ft_parent f = Some p \<longrightarrow> (\<exists>pf. bt_get m p = Some pf \<and> ft_base f = Some (ft_branch pf))"
proof -
  from f obtain n b base parent via strategy fs where
    lineage: "create_lineage m i = Inr (base, parent)" and new: "bt_get m n = None"
    and fs: "read_all m = Inr fs" and none: "find (\<lambda>g. ft_branch g = b) fs = None"
    and feq: "f = (feature_new n b)\<lparr>ft_base := base, ft_parent := parent,
                              ft_integration := \<lparr>iv_via = via, iv_strategy = strategy\<rparr>\<rparr>"
    by (auto simp: create_feature_def result_simps split: prod.splits if_splits option.splits)
  have lin: "\<forall>p. parent = Some p \<longrightarrow> (\<exists>pf. bt_get m p = Some pf \<and> base = Some (ft_branch pf))"
    using lineage by (auto simp: create_lineage_def result_simps read_feature_def split: option.splits)
  show "bt_get m (ft_name f) = None" using new by (simp add: feq feature_new_def)
  show l: "\<forall>p. ft_parent f = Some p \<longrightarrow> (\<exists>pf. bt_get m p = Some pf \<and> ft_base f = Some (ft_branch pf))"
    using lin by (simp add: feq)
  then show "\<forall>p. ft_parent f = Some p \<longrightarrow> bt_get m p \<noteq> None" by auto
  have "fs = map snd m" using fs by (simp add: read_all_iff hall_ok_facts [OF ok])
  then show "\<forall>n g. bt_get m n = Some g \<longrightarrow> ft_branch g \<noteq> ft_branch f"
    using none bt.get_Some_iff [OF hall_ok_facts(3) [OF ok]] by (auto simp: feq feature_new_def find_None_iff)
  show "feature_wf f" using feature_wf_ops(1) [of n b] by (simp add: feq feature_wf_def)
qed

lemma create_keeps_hall: "hall_ok m \<Longrightarrow> hall_ok (snd (create lay i m))"
  using create_feature_ok [of m lay i] hall_ok_insert [of m] by (simp add: create_def split: sum.splits)

section \<open>Reparent\<close>

lemma update_feature_skeleton_free:
  assumes "update_feature n f m = (r, m')"
  shows "m' = m \<or> (\<exists>cur new. bt_get m n = Some cur \<and> f cur = Inr new \<and> m' = bt_insert n new m \<and> r = Inr ())"
  using assms by (auto simp: update_feature_def read_feature_def split: option.splits sum.splits)

lemma reparent_found_ok:
  assumes "reparent_found w ct pt m = Inr (child, parent)"
  shows "\<exists>c p. read_feature m c = Inr child \<and> read_feature m p = Inr parent \<and> c \<noteq> p"
proof -
  from assms obtain c p integrated x where c: "read_feature m c = Inr x"
    and rest: "(if c = p then Inl (reparent_self_parent c)
       else if ft_parent x = Some p then Inl (reparent_same_parent c p)
       else (case read_feature m p of
               Inl _ \<Rightarrow> Inl (reparent_parent_not_found c p)
             | Inr parent \<Rightarrow> Inr (x, parent))) = (Inr (child, parent) :: failure + feature \<times> feature)"
    unfolding reparent_found_def and_then_eq_Inr by blast
  from rest have "c \<noteq> p" "read_feature m p = Inr parent" "x = child"
    by (cases "read_feature m p"; simp split: if_splits)+
  with c show ?thesis by blast
qed

lemma reparent_checked_ok:
  assumes "reparent_checked w fr ct pt m = Some (Inr (child, parent))"
  shows "\<exists>ds. reparent_found w ct pt m = Inr (child, parent) \<and> descendants m (ft_name child) = Some (Inr ds)
     \<and> \<not> list_ex (\<lambda>d. ft_name d = ft_name parent) ds \<and> work_started w fr child ds = Inr False"
proof -
  from assms obtain c p where "reparent_found w ct pt m = Inr (c, p)"
    by (cases "reparent_found w ct pt m") (auto simp: reparent_checked_def)
  moreover from this assms obtain q where "descendants m (ft_name c) = Some q"
    by (cases "descendants m (ft_name c)") (auto simp: reparent_checked_def)
  moreover from calculation assms obtain ds where "q = Inr ds"
    by (cases q) (auto simp: reparent_checked_def)
  moreover from calculation assms obtain b where "work_started w fr c ds = Inr b"
    by (cases "work_started w fr c ds") (auto simp: reparent_checked_def split: if_splits)
  ultimately show ?thesis using assms by (cases b) (auto simp: reparent_checked_def split: if_splits)
qed

lemma reparent_success:
  assumes ok: "hall_ok m" and r: "reparent w fr ct pt m = Some (Inr out, m')"
  shows "\<exists>child parent. bt_get m (ft_name child) = Some child \<and> bt_get m (ft_name parent) = Some parent
    \<and> ft_name child \<noteq> ft_name parent \<and> ft_promotions child = [] \<and> children_of m (ft_name child) = []
    \<and> m' = bt_insert (ft_name child) (child\<lparr>ft_parent := Some (ft_name parent), ft_base := Some (ft_branch parent)\<rparr>) m
    \<and> ro_child out = ft_name child \<and> ro_new_parent out = ft_name parent \<and> ro_old_parent out = ft_parent child
    \<and> ro_base out = ft_branch parent"
proof -
  note mok = hall_ok_facts(1) [OF ok]
  from r obtain q where q: "reparent_checked w fr ct pt m = Some q"
    by (cases "reparent_checked w fr ct pt m") (simp_all add: reparent_def)
  with r obtain x where "q = Inr x" by (cases q) (simp_all add: reparent_def)
  with q obtain child parent where rc: "reparent_checked w fr ct pt m = Some (Inr (child, parent))" by (cases x) simp
  from reparent_checked_ok [OF rc] obtain ds where found: "reparent_found w ct pt m = Inr (child, parent)"
    and ds: "descendants m (ft_name child) = Some (Inr ds)" and started: "work_started w fr child ds = Inr False"
    by blast
  from reparent_found_ok [OF found] obtain c p where
    cp: "read_feature m c = Inr child" "read_feature m p = Inr parent" "c \<noteq> p" by blast
  then have get: "bt_get m c = Some child" "bt_get m p = Some parent" by (auto simp: read_feature_def split: option.splits)
  with mok have names: "ft_name child = c" "ft_name parent = p" by (auto simp: map_ok_def)
  from started have pristine: "ft_promotions child = []" "ds = []"
    by (auto simp: work_started_def result_simps split: if_splits)
  have desc: "descendants_from_values m c = Some []"
    using ds pristine(2) by (auto simp: descendants_def hall_read_all [OF ok] feature_map_values [OF mok] names)
  have none: "children_of m c = []"
  proof -
    have "x \<notin> set (children_of m c)" for x
    proof
      assume x: "x \<in> set (children_of m c)"
      then have "(ft_name x, c) \<in> up m ^^ Suc 0" "bt_get m (ft_name x) = Some x"
        using child_up [OF mok x] by (simp_all add: children_of_iff [OF mok])
      from descendants_closed [OF mok desc this] show False by simp
    qed
    then show ?thesis by (cases "children_of m c") auto
  qed
  have m': "m' = bt_insert c (child\<lparr>ft_parent := Some p, ft_base := Some (ft_branch parent)\<rparr>) m"
    and out: "ro_child out = c" "ro_new_parent out = p" "ro_old_parent out = ft_parent child" "ro_base out = ft_branch parent"
    using r by (auto simp: reparent_def rc names update_feature_def cp)
  show ?thesis
    using get names cp(3) pristine none m' out by (intro exI [of _ child] exI [of _ parent]) auto
qed

lemma up_insert_existing:
  assumes "bt_sorted m"
  shows "up (bt_insert n f m) \<subseteq> up m \<union> (case ft_parent f of None \<Rightarrow> {} | Some p \<Rightarrow> {(n, p)})"
  using assms by (auto simp: up_def bt.get_insert split: option.splits if_splits)

lemma reparent_failure:
  assumes r: "reparent w fr ct pt m = Some (Inl e, m')"
  shows "m' = m"
proof -
  from r obtain q where q: "reparent_checked w fr ct pt m = Some q"
    by (cases "reparent_checked w fr ct pt m") (simp_all add: reparent_def)
  show ?thesis
  proof (cases q)
    case (Inl e')
    with q r show ?thesis by (simp add: reparent_def)
  next
    case (Inr x)
    then obtain child parent where x: "q = Inr (child, parent)" by (cases x) simp
    let ?u = "update_feature (ft_name child) (\<lambda>f. Inr (f\<lparr>ft_parent := Some (ft_name parent), ft_base := Some (ft_branch parent)\<rparr>)) m"
    obtain a b where u: "?u = (a, b)" by fastforce
    with q r x have "a = Inl e \<and> b = m'" by (cases a) (simp_all add: reparent_def)
    with update_feature_skeleton_free [OF u] show ?thesis by auto
  qed
qed

lemma reparent_keeps_hall:
  assumes ok: "hall_ok m" and r: "reparent w fr ct pt m = Some (res, m')"
  shows "hall_ok m'"
proof (cases res)
  case (Inl e)
  with r reparent_failure ok show ?thesis by blast
next
  case (Inr out)
  with reparent_success [OF ok, of w fr ct pt out m'] r obtain child parent where
    get: "bt_get m (ft_name child) = Some child" "bt_get m (ft_name parent) = Some parent"
    and ne: "ft_name child \<noteq> ft_name parent" and leaf: "children_of m (ft_name child) = []"
    and m': "m' = bt_insert (ft_name child) (child\<lparr>ft_parent := Some (ft_name parent), ft_base := Some (ft_branch parent)\<rparr>) m"
    by blast
  note s = hall_ok_facts(3) [OF ok] and v = hall_ok_facts(2) [OF ok] and mok = hall_ok_facts(1) [OF ok]
  let ?c = "ft_name child" and ?p = "ft_name parent"
  have get': "bt_get m' k = (if k = ?c then Some (child\<lparr>ft_parent := Some ?p, ft_base := Some (ft_branch parent)\<rparr>) else bt_get m k)" for k
    by (simp add: m' bt.get_insert [OF s])
  have up: "up m' \<subseteq> insert (?c, ?p) (up m)"
    using up_insert_existing [OF s, of ?c "child\<lparr>ft_parent := Some ?p, ft_base := Some (ft_branch parent)\<rparr>"]
    by (simp add: m')
  have "(x, ?c) \<notin> up m" for x using up_child [OF mok, of x ?c] leaf by auto
  then have "(?p, ?c) \<notin> (up m)\<^sup>*" using ne by (auto elim: rtranclE)
  then have "acyclic (insert (?c, ?p) (up m))" using v by (simp add: tree_valid_def acyclic_insert)
  then have "acyclic (up m')" using up by (rule acyclic_subset)
  moreover have "bt_get m' q \<noteq> None" if "(k, q) \<in> up m'" for k q
    using that up v get ne unfolding get' tree_valid_def by (auto split: if_splits)
  moreover have "map_ok m'" using mok bt.invar_insert [OF s] get' unfolding m' by (auto simp: map_ok_def)
  moreover have "feature_wf child" using ok get(1) by (auto simp: hall_ok_def)
  moreover have "a = b" if "bt_get m' a = Some f" "bt_get m' b = Some g" "ft_branch f = ft_branch g" for a b f g
  proof -
    have "\<exists>f0. bt_get m a = Some f0 \<and> ft_branch f0 = ft_branch f" if "bt_get m' a = Some f" for a f
      using that get(1) unfolding get' by (auto split: if_splits)
    with that ok show ?thesis unfolding hall_ok_def by metis
  qed
  moreover have "feature_wf f" if "bt_get m' k = Some f" for k f
    using that ok \<open>feature_wf child\<close> unfolding get' hall_ok_def
    by (cases "k = ?c") (auto simp: feature_wf_def)
  ultimately show ?thesis unfolding hall_ok_def tree_valid_def by blast
qed

end
