(* ===== verification/Promotions.thy ===== *)
theory Promotions
  imports Hall_Verbs
begin

text \<open>
  The verbs that change the promotions of a feature: \<open>promote.rs\<close> with \<open>parent_promotion.rs\<close>,
  and \<open>demote.rs\<close>, of \<open>src/src/action/feature\<close>.  A verb works on the git state and the
  map of features; the setup script, the links of live sessions and the terminal are
  arguments.
\<close>

section \<open>Promote\<close>

text \<open>
  What promote uses beside git: the default branch of each declared repository, the creation
  of directories, the setup script (whether it ran, and its warning and reason when it
  failed), the relinking of live sessions, and the question to the user.
\<close>

record 'g verb_env =
  vn_git :: "'g git"
  vn_reads :: tree_reads
  vn_declared :: "repo_name \<Rightarrow> branch_name option"
  vn_ensure_parent :: "string \<Rightarrow> 'g \<Rightarrow> (failure + unit) \<times> 'g"
  vn_setup :: "feature \<Rightarrow> repo_name \<Rightarrow> 'g \<Rightarrow> (failure + bool \<times> (warning \<times> string) option) \<times> 'g"
  vn_repoint :: "feature \<Rightarrow> 'g \<Rightarrow> (failure + warning list) \<times> 'g"
  vn_confirm :: "string \<Rightarrow> failure + bool"

type_synonym ('g, 'a) verb = "('g \<times> hall, 'a) eff"

record promote_input =
  pi_feature :: string
  pi_repo :: string
  pi_base :: "string option"

record promote_outcome =
  po_root :: string
  po_feature :: feature_name
  po_repo :: repo_name
  po_branch :: string
  po_adopted_branch :: bool
  po_setup_ran :: bool

definition not_in_manifest :: "repo_name \<Rightarrow> failure" where
  "not_in_manifest r =
     with_fix (fix_safe ''repo.add_first''
         (''Add '' @ quoted (repo_str r) @ '' with `ivar repo add '' @ repo_str r @ '' <url>` first.''))
       (with_actual (quoted (repo_str r) @ '' does not appear in `repos`'')
         (with_expected ''a repo declared in the manifest''
           (blocked ''repo.not_in_manifest'' (quoted (repo_str r) @ '' is not in ivar.json''))))"

definition already_promoted :: "repo_name \<Rightarrow> feature_name \<Rightarrow> failure" where
  "already_promoted r n =
     with_fix (fix_safe ''feature.demote_first''
         (''Run `ivar feature demote '' @ feature_str n @ '' '' @ repo_str r @ ''` to remove it first.''))
       (with_actual (''this repo'' @ [CHR 0x27] @ ''s promotion record already exists and its worktree is ready'')
         (with_expected ''a repo not yet promoted into this feature''
           (blocked ''feature.already_promoted''
             (quoted (repo_str r) @ '' is already promoted into '' @ quoted (feature_str n)))))"

definition ensure_repo_cloned :: "target_state \<Rightarrow> string \<Rightarrow> repo_name \<Rightarrow> failure + unit" where
  "ensure_repo_cloned t bare r =
     (case t of
        TargetRepository \<Rightarrow> Inr ()
      | TargetOccupied \<Rightarrow>
          Inl (with_fix (fix_safe ''repo.sync_first'' ''Run `ivar sync` to rebuild what is missing under `.ivar/`.'')
            (with_actual ''a directory git does not recognise''
              (with_expected ''a bare clone, produced by `ivar sync`''
                (blocked ''repo.bare_not_cloned'' (quoted bare @ '' exists but is not a git repository'')))))
      | TargetAbsent \<Rightarrow>
          Inl (with_fix (fix_safe ''repo.sync_first'' ''Run `ivar sync` to clone the repo, then promote again.'')
            (with_actual (quoted bare @ '' does not exist'')
              (with_expected ''the repo to have been cloned by `ivar sync`''
                (blocked ''repo.bare_not_cloned'' (quoted (repo_str r) @ '' has no bare clone yet''))))))"

definition resolve_base_and_warn ::
    "string list \<Rightarrow> branch_name option \<Rightarrow> branch_name \<Rightarrow> branch_name \<Rightarrow> repo_name \<Rightarrow> branch_name \<times> warning option" where
  "resolve_base_and_warn existing declared candidate default_branch r =
     (if declared \<noteq> None \<and> branch_str candidate \<notin> set existing then
        (default_branch, Some (warning_new ''feature.base_absent'' (repo_str r)
           (''declared base '' @ quoted (branch_str candidate) @ '' does not exist in '' @ quoted (repo_str r) @
            ''; used '' @ quoted (branch_str default_branch) @ '' instead'')))
      else (candidate, None))"

definition setup_or_adopt_branch ::
    "'g git \<Rightarrow> string \<Rightarrow> string \<Rightarrow> feature \<Rightarrow> bool \<Rightarrow> branch_name \<Rightarrow> ('g, unit) verb" where
  "setup_or_adopt_branch git bare worktree f adopted base =
     (if adopted then on_git (g_add_worktree git bare worktree (branch_str (ft_branch f)))
      else on_git (g_create_branch_and_worktree git bare (branch_str (ft_branch f)) (branch_str base) worktree))"

definition ready_promotion :: "repo_name \<Rightarrow> branch_name \<Rightarrow> feature \<Rightarrow> feature" where
  "ready_promotion r base f =
     (let f = (if bt_contains (ft_promotions f) r then f else feature_promote r f)
      in f\<lparr>ft_promotions := bt_update r (\<lambda>p. p\<lparr>pr_base := Some base, pr_worktree := WtReady, pr_reason := None\<rparr>)
                              (ft_promotions f)\<rparr>)"

definition record_ready :: "feature_name \<Rightarrow> repo_name \<Rightarrow> branch_name \<Rightarrow> ('g, feature) verb" where
  "record_ready n r base =
     bind_s (on_hall (update_feature n (\<lambda>f. Inr (ready_promotion r base f)))) (\<lambda>_.
       gets_s (\<lambda>s. read_feature (snd s) n))"

definition record_setup_failure :: "feature_name \<Rightarrow> repo_name \<Rightarrow> string \<Rightarrow> ('g, unit) verb" where
  "record_setup_failure n r reason =
     on_hall (update_feature n (\<lambda>f. Inr (f\<lparr>ft_promotions :=
       bt_update r (\<lambda>p. p\<lparr>pr_worktree := WtFailed, pr_reason := Some reason\<rparr>) (ft_promotions f)\<rparr>)))"

text \<open>
  \<open>parent_promotion.rs\<close>: asks before promoting the repository into the parent.  The texts
  that depend on the caller are given for both callers.
\<close>

datatype caller = CallerIntegrate | CallerPromote

fun caller_required_code :: "caller \<Rightarrow> string" where
  "caller_required_code CallerIntegrate = ''integration.parent_promotion_required''"
| "caller_required_code CallerPromote = ''feature.parent_promotion_required''"

fun caller_failed_code :: "caller \<Rightarrow> string" where
  "caller_failed_code CallerIntegrate = ''integration.parent_promotion_failed''"
| "caller_failed_code CallerPromote = ''feature.parent_promotion_failed''"

fun caller_promote_parent_fix :: "caller \<Rightarrow> string" where
  "caller_promote_parent_fix CallerIntegrate = ''integration.promote_parent''"
| "caller_promote_parent_fix CallerPromote = ''feature.promote_parent''"

fun caller_promote_manually_fix :: "caller \<Rightarrow> string" where
  "caller_promote_manually_fix CallerIntegrate = ''integration.promote_manually''"
| "caller_promote_manually_fix CallerPromote = ''feature.promote_manually''"

fun caller_stake :: "caller \<Rightarrow> feature \<Rightarrow> feature \<Rightarrow> repo_name \<Rightarrow> string" where
  "caller_stake CallerIntegrate child parent r = quoted (repo_str r) @ [CHR 0x27] @ ''s work will land on its branch''"
| "caller_stake CallerPromote child parent r =
     quoted (feature_str (ft_name child)) @ '' branches from '' @ quoted (feature_str (ft_name parent)) @ '' in '' @ quoted (repo_str r)"

fun caller_retry :: "caller \<Rightarrow> string" where
  "caller_retry CallerIntegrate = ''integrate again''"
| "caller_retry CallerPromote = ''promote the child again''"

fun caller_not_recorded :: "caller \<Rightarrow> feature \<Rightarrow> string" where
  "caller_not_recorded CallerIntegrate child = ''no receipt was recorded''"
| "caller_not_recorded CallerPromote child = quoted (feature_str (ft_name child)) @ '' was not promoted''"

definition promote_command :: "feature \<Rightarrow> repo_name \<Rightarrow> string" where
  "promote_command parent r = ''ivar feature promote '' @ feature_str (ft_name parent) @ '' '' @ repo_str r"

definition parent_promotion_required :: "caller \<Rightarrow> feature \<Rightarrow> feature \<Rightarrow> repo_name \<Rightarrow> failure" where
  "parent_promotion_required c child parent r =
     with_fix (fix_command (promote_command parent r)
         (fix_safe (caller_promote_parent_fix c)
           (''Promote '' @ quoted (repo_str r) @ '' into '' @ quoted (feature_str (ft_name parent)) @ '', then '' @ caller_retry c @ ''.'')))
       (with_actual (quoted (repo_str r) @ '' is missing from '' @ quoted (feature_str (ft_name parent)))
         (with_expected ''the parent to promote every repo the child promotes''
           (blocked (caller_required_code c)
             (quoted (repo_str r) @ '' is not promoted into '' @ quoted (feature_str (ft_name parent)) @ '', which '' @
              (case c of
                 CallerIntegrate \<Rightarrow> ''must receive '' @ quoted (feature_str (ft_name child)) @ [CHR 0x27] @ ''s work''
               | CallerPromote \<Rightarrow> quoted (feature_str (ft_name child)) @ '' branches from'')))))"

definition parent_promotion_failed :: "caller \<Rightarrow> feature \<Rightarrow> feature \<Rightarrow> repo_name \<Rightarrow> failure \<Rightarrow> failure" where
  "parent_promotion_failed c child parent r cause =
     with_fix (fix_command (promote_command parent r)
         (fix_safe (caller_promote_manually_fix c)
           (''Run `'' @ promote_command parent r @ ''`, then '' @ caller_retry c @ ''.'')))
       (with_actual (fl_what cause)
         (failed (caller_failed_code c)
           (''promoting '' @ quoted (repo_str r) @ '' into '' @ quoted (feature_str (ft_name parent)) @ '' failed; '' @
            caller_not_recorded c child)))"

definition map_failure :: "(failure \<Rightarrow> failure) \<Rightarrow> ('s, 'a) eff \<Rightarrow> ('s, 'a) eff" where
  "map_failure f m s = (case m s of (r, s') \<Rightarrow> (map_sum f id r, s'))"

definition ensure_parent_promoted ::
    "'g verb_env \<Rightarrow> (promote_input \<Rightarrow> ('g, promote_outcome \<times> warning list) verb) \<Rightarrow> caller \<Rightarrow> feature \<Rightarrow> feature \<Rightarrow>
     repo_name \<Rightarrow> ('g, warning list) verb" where
  "ensure_parent_promoted env promote_verb c child parent r =
     bind_s (lift_s (vn_confirm env
         (''Feature '' @ quoted (feature_str (ft_name parent)) @ '' does not promote '' @ quoted (repo_str r) @ '', but '' @
          caller_stake c child parent r @ ''. Promote '' @ quoted (repo_str r) @ '' into '' @
          quoted (feature_str (ft_name parent)) @ ''?''))) (\<lambda>yes.
       if \<not> yes then fail_s (parent_promotion_required c child parent r)
       else bind_s (map_failure (parent_promotion_failed c child parent r)
              (promote_verb \<lparr>pi_feature = feature_str (ft_name parent), pi_repo = repo_str r, pi_base = None\<rparr>)) (\<lambda>(_, ws).
            return_s ws))"

text \<open>
  \<open>promote\<close>, with the verb it calls for the parent as an argument; \<open>promote\<close> below closes the
  recursion over the parents with fuel.
\<close>

definition promote_parents ::
    "'g verb_env \<Rightarrow> (promote_input \<Rightarrow> ('g, promote_outcome \<times> warning list) verb) \<Rightarrow> promote_input \<Rightarrow> feature \<Rightarrow> repo_name \<Rightarrow>
     ('g, warning list) verb" where
  "promote_parents env promote_verb i f r =
     (if bt_get (ft_promotions f) r = None \<and> pi_base i = None then
        (case ft_parent f of
           None \<Rightarrow> return_s []
         | Some pn \<Rightarrow>
             bind_s (gets_s (\<lambda>s. read_feature (snd s) pn)) (\<lambda>parent.
               if bt_contains (ft_promotions parent) r then return_s []
               else ensure_parent_promoted env promote_verb CallerPromote f parent r))
      else return_s [])"

definition promote_guard :: "'g verb_env \<Rightarrow> feature \<Rightarrow> repo_name \<Rightarrow> bool \<Rightarrow> failure + unit" where
  "promote_guard env f r present =
     (case bt_get (ft_promotions f) r of
        Some p \<Rightarrow> (if pr_worktree p \<noteq> WtFailed \<and> present then Inl (already_promoted r (ft_name f)) else Inr ())
      | None \<Rightarrow> and_then (is_fully_integrated (vn_reads env) f) (\<lambda>i. ensure_structure_mutable i f))"

definition promote_base ::
    "feature \<Rightarrow> repo_name \<Rightarrow> branch_name option \<Rightarrow> branch_name \<Rightarrow> string list \<Rightarrow> branch_name \<times> warning option" where
  "promote_base f r base_override default_branch existing =
     (let declared = opt_or base_override (ft_base f);
          candidate = effective_base declared default_branch
      in case Option.bind (bt_get (ft_promotions f) r) pr_base of
           Some recorded \<Rightarrow> (recorded, None)
         | None \<Rightarrow> resolve_base_and_warn existing declared candidate default_branch r)"

definition opt_list :: "'a option \<Rightarrow> 'a list" where
  "opt_list x = (case x of None \<Rightarrow> [] | Some a \<Rightarrow> [a])"

definition promote_with ::
    "'g verb_env \<Rightarrow> (promote_input \<Rightarrow> ('g, promote_outcome \<times> warning list) verb) \<Rightarrow> promote_input \<Rightarrow>
     ('g, promote_outcome \<times> warning list) verb" where
  "promote_with env promote_verb i =
     bind_s (lift_s (named (feature_name_new (pi_feature i)))) (\<lambda>n.
     bind_s (lift_s (named (repo_name_new (pi_repo i)))) (\<lambda>r.
     bind_s (gets_s (\<lambda>s. read_feature (snd s) n)) (\<lambda>f.
     bind_s (lift_s (case vn_declared env r of None \<Rightarrow> Inl (not_in_manifest r) | Some b \<Rightarrow> Inr b)) (\<lambda>default_branch.
     let lay = tr_layout (vn_reads env); bare = repo_bare lay r; worktree = repo_worktree lay r (ft_branch f)
     in
     bind_s (read_git (\<lambda>g. g_target_state (vn_git env) g worktree)) (\<lambda>target.
     let present = (target = TargetRepository) in
     bind_s (lift_s (promote_guard env f r present)) (\<lambda>_.
     bind_s (promote_parents env promote_verb i f r) (\<lambda>parent_warnings.
     bind_s (lift_s (transpose_map (\<lambda>b. named (branch_name_new b)) (pi_base i))) (\<lambda>base_override.
     bind_s (read_git (\<lambda>g. g_target_state (vn_git env) g bare)) (\<lambda>bare_state.
     bind_s (lift_s (ensure_repo_cloned bare_state bare r)) (\<lambda>_.
     bind_s (on_outside (vn_ensure_parent env worktree)) (\<lambda>_.
     bind_s (read_git (\<lambda>g. g_list_branches (vn_git env) g bare)) (\<lambda>existing.
     let adopted = branch_str (ft_branch f) \<in> set existing;
         (base, base_warning) = promote_base f r base_override default_branch existing
     in
     bind_s (if present then return_s ()
             else bind_s (on_git (g_prune_worktrees (vn_git env) bare)) (\<lambda>_.
                    setup_or_adopt_branch (vn_git env) bare worktree f adopted base)) (\<lambda>_.
     bind_s (record_ready n r base) (\<lambda>stored.
     bind_s (on_outside (vn_setup env stored r)) (\<lambda>(ran, setup_failure).
     bind_s (case setup_failure of
               None \<Rightarrow> return_s ()
             | Some (_, reason) \<Rightarrow> record_setup_failure n r reason) (\<lambda>_.
     bind_s (on_outside (vn_repoint env stored)) (\<lambda>relinked.
       return_s (\<lparr>po_root = lay_root lay, po_feature = n, po_repo = r, po_branch = branch_str (ft_branch stored),
                  po_adopted_branch = adopted, po_setup_ran = ran\<rparr>,
         parent_warnings @ opt_list base_warning @ opt_list (map_option fst setup_failure) @ relinked))))))))))))))))))"

text \<open>
  The recursion goes up one parent at a time; fuel \<open>n + 1\<close> serves a feature at depth \<open>n\<close>
  (\<open>promote_fuel\<close>), so the refusal at fuel 0 is never reached on a tree without cycles.
\<close>

definition promote_out_of_fuel :: failure where
  "promote_out_of_fuel = failed ''feature.parent_cycle'' ''parents do not end''"

fun promote :: "nat \<Rightarrow> 'g verb_env \<Rightarrow> promote_input \<Rightarrow> ('g, promote_outcome \<times> warning list) verb" where
  "promote 0 env i = fail_s promote_out_of_fuel"
| "promote (Suc fuel) env i = promote_with env (promote fuel env) i"

section \<open>Demote\<close>

record demote_input =
  di_feature :: string
  di_repo :: string
  di_remove_worktree :: bool

record demote_outcome =
  dm_root :: string
  dm_feature :: feature_name
  dm_repo :: repo_name
  dm_worktree_removed :: bool
  dm_branch_deleted :: bool

text \<open>The manifest entry the removal needs: the remote and the default branch of the repository.\<close>

record 'g demote_env =
  dv_git :: "'g git"
  dv_reads :: tree_reads
  dv_manifest :: "failure + (repo_name \<Rightarrow> (string \<times> branch_name) option)"
  dv_prune_parents :: "string \<Rightarrow> string \<Rightarrow> 'g \<Rightarrow> 'g"

definition worktree_blockers :: "'g git \<Rightarrow> 'g \<Rightarrow> string \<Rightarrow> string \<Rightarrow> string list" where
  "worktree_blockers git g bare branch =
     (case lookup_worktree git g bare branch of
        Inl e \<Rightarrow> [''cannot look up the worktree: '' @ git_error_display e]
      | Inr None \<Rightarrow> []
      | Inr (Some w) \<Rightarrow>
          if we_prunable w then []
          else (case g_worktree_dirty git g (we_path w) of
                  Inr True \<Rightarrow> [''the worktree has uncommitted or untracked changes'']
                | Inr False \<Rightarrow> []
                | Inl e \<Rightarrow> [''cannot read the worktree: '' @ git_error_display e]))"

definition branch_blockers :: "'g git \<Rightarrow> 'g \<Rightarrow> string \<Rightarrow> feature \<Rightarrow> repo_name \<Rightarrow> string \<Rightarrow> branch_name \<Rightarrow> string list" where
  "branch_blockers git g bare f r url default_branch =
     (let branch = branch_str (ft_branch f) in
      if \<not> is_ok (g_revision_commit git g bare branch) then []
      else
        (let base = (case bt_get (ft_promotions f) r of
                       Some p \<Rightarrow> base_resolve f p default_branch
                     | None \<Rightarrow> effective_base (ft_base f) default_branch)
         in (case unmerged_commits git g bare (branch_str base) branch of
               Inr n \<Rightarrow> (if n = 0 then [] else
                 [''the branch has '' @ show_nat n @ '' commit(s) beyond '' @ quoted (branch_str base)])
             | Inl e \<Rightarrow> [''cannot compare the branch with '' @ quoted (branch_str base) @ '': '' @ git_error_display e])
            @ (case g_remote_branch_tip git g bare url branch of
                 Inr None \<Rightarrow> []
               | Inr (Some _) \<Rightarrow> [''the branch is published on the remote'']
               | Inl e \<Rightarrow> [''cannot check the remote: '' @ git_error_display e])))"

definition demote_repo_unknown :: "repo_name \<Rightarrow> failure" where
  "demote_repo_unknown r =
     with_actual ''the repo is not declared''
       (with_expected ''a repo declared in ivar.json, so its base and remote are known''
         (blocked ''feature.demote_repo_unknown''
           (''cannot remove the worktree of '' @ quoted (repo_str r) @ '': it is not in ivar.json'')))"

definition demote_not_removable :: "feature \<Rightarrow> repo_name \<Rightarrow> string list \<Rightarrow> failure" where
  "demote_not_removable f r blockers =
     with_fix (fix_safe ''feature.demote_keep_worktree''
         (''Resolve the blockers, or run `ivar feature demote '' @ feature_str (ft_name f) @ '' '' @ repo_str r @
          ''` without `--remove-worktree`.''))
       (with_actual (join ''; '' blockers)
         (with_expected ''a clean worktree, no commits beyond the base, and an unpublished branch''
           (blocked ''feature.demote_worktree_not_removable''
             (''cannot remove the worktree of '' @ quoted (repo_str r) @ '': removing it would lose work''))))"

definition ensure_removable :: "'g demote_env \<Rightarrow> 'g \<Rightarrow> feature \<Rightarrow> repo_name \<Rightarrow> failure + unit" where
  "ensure_removable env g f r =
     and_then (dv_manifest env) (\<lambda>declared.
       case declared r of
         None \<Rightarrow> Inl (demote_repo_unknown r)
       | Some (url, default_branch) \<Rightarrow>
           (let bare = repo_bare (tr_layout (dv_reads env)) r;
                blockers = worktree_blockers (dv_git env) g bare (branch_str (ft_branch f))
                  @ branch_blockers (dv_git env) g bare f r url default_branch
            in if blockers = [] then Inr () else Inl (demote_not_removable f r blockers)))"

definition removal_target :: "'g demote_env \<Rightarrow> feature_name \<Rightarrow> repo_name \<Rightarrow> 'g \<times> hall \<Rightarrow> failure + feature option" where
  "removal_target env n r s =
     (case bt_get (snd s) n of
        None \<Rightarrow> Inr None
      | Some f \<Rightarrow>
          if \<not> is_promoted f r
             \<and> (case lookup_worktree (dv_git env) (fst s) (repo_bare (tr_layout (dv_reads env)) r) (branch_str (ft_branch f)) of
                  Inr (Some _) \<Rightarrow> False | _ \<Rightarrow> True)
          then Inr None
          else and_then (ensure_removable env (fst s) f r) (\<lambda>_. Inr (Some f)))"

definition demote_worktree ::
    "'g demote_env \<Rightarrow> feature \<Rightarrow> repo_name \<Rightarrow> 'g \<Rightarrow> (bool \<times> warning list) \<times> 'g" where
  "demote_worktree env f r g =
     (let bare = repo_bare (tr_layout (dv_reads env)) r;
          warn = (\<lambda>e. [warning_new ''feature.demote_worktree_failed'' (repo_str r) (git_error_display e)])
      in case lookup_worktree (dv_git env) g bare (branch_str (ft_branch f)) of
           Inr (Some entry) \<Rightarrow>
             (case remove_worktree_entry (dv_git env) bare entry g of
                (Inr _, g') \<Rightarrow> ((True, []), dv_prune_parents env (we_path entry) (repo_dir (tr_layout (dv_reads env)) r) g')
              | (Inl e, g') \<Rightarrow> ((False, warn e), g'))
         | Inr None \<Rightarrow> ((True, []), g)
         | Inl e \<Rightarrow> ((False, warn e), g))"

definition remove_worktree_and_branch ::
    "'g demote_env \<Rightarrow> feature \<Rightarrow> repo_name \<Rightarrow> 'g \<Rightarrow> (bool \<times> bool \<times> warning list) \<times> 'g" where
  "remove_worktree_and_branch env f r g =
     (let bare = repo_bare (tr_layout (dv_reads env)) r; branch = branch_str (ft_branch f);
          ((removed, ws), g') = demote_worktree env f r g
      in if removed \<and> is_ok (g_revision_commit (dv_git env) g' bare branch) then
           (case g_delete_branch (dv_git env) bare branch g' of
              (Inr _, g'') \<Rightarrow> ((removed, True, ws), g'')
            | (Inl e, g'') \<Rightarrow>
                ((removed, False, ws @ [warning_new ''feature.demote_branch_failed'' (repo_str r) (git_error_display e)]), g''))
         else ((removed, False, ws), g'))"

definition demote :: "'g demote_env \<Rightarrow> demote_input \<Rightarrow> ('g, demote_outcome \<times> warning list) verb" where
  "demote env i =
     bind_s (lift_s (named (feature_name_new (di_feature i)))) (\<lambda>n.
     bind_s (lift_s (named (repo_name_new (di_repo i)))) (\<lambda>r.
     bind_s (if di_remove_worktree i then gets_s (removal_target env n r) else return_s None) (\<lambda>target.
     bind_s (if target \<noteq> None \<and> \<not> is_promoted (the target) r then return_s ()
             else on_hall (update_feature n (\<lambda>f.
               and_then (is_fully_integrated (dv_reads env) f) (\<lambda>integrated. demote_record integrated n r f)))) (\<lambda>_.
     bind_s (case target of
               None \<Rightarrow> return_s (False, False, [])
             | Some f \<Rightarrow> on_outside (\<lambda>g. case remove_worktree_and_branch env f r g of (x, g') \<Rightarrow> (Inr x, g'))) (\<lambda>(removed, deleted, ws).
       return_s (\<lparr>dm_root = lay_root (tr_layout (dv_reads env)), dm_feature = n, dm_repo = r,
                  dm_worktree_removed = removed, dm_branch_deleted = deleted\<rparr>, ws))))))"

end
