(* ===== verification/Delivery_Event.thy ===== *)
theory Delivery_Event
  imports Features
begin

text \<open>
  What the hall remembers about a delivery: the kinds of event and their weight
  (\<open>src/src/domain/observation.rs\<close>), and the events of a delivery with the JSON body that is
  kept of each (\<open>src/src/domain/delivery_event.rs\<close>).  The hash of an event id is SHA-256 and
  the rendering of a body is \<open>serde_json\<close>; both are arguments.
\<close>

section \<open>Sources of events\<close>

datatype source_event =
    SessionStarted | SessionPrompted | SessionTool | SessionEnded
  | DeliveryRefused | DeliveryPushed | DeliveryPr | DeliveryLanded | DeliveryChecks
  | DeliveryRebased | DeliveryIntegrated | DeliveryMerged | DeliveryCleaned | DeliveryClosed
  | DeliveryDeleted
  | MemoryPageWritten | MemoryReviewed | MemoryReviewSkipped
  | HandoffOpened | HandoffAccepted | HandoffCancelled | HandoffExpired
  | MessageSent | MessagePopped | AgentTaskConcluded

definition source_event_all :: "source_event list" where
  "source_event_all =
     [SessionStarted, SessionPrompted, SessionTool, SessionEnded, DeliveryRefused, DeliveryPushed,
      DeliveryPr, DeliveryLanded, DeliveryChecks, DeliveryRebased, DeliveryIntegrated, DeliveryMerged,
      DeliveryCleaned, DeliveryClosed, DeliveryDeleted, MemoryPageWritten, MemoryReviewed,
      MemoryReviewSkipped, HandoffOpened, HandoffAccepted, HandoffCancelled, HandoffExpired,
      MessageSent, MessagePopped, AgentTaskConcluded]"

fun source_event_str :: "source_event \<Rightarrow> string" where
  "source_event_str SessionStarted = ''session.started''"
| "source_event_str SessionPrompted = ''session.prompted''"
| "source_event_str SessionTool = ''session.tool''"
| "source_event_str SessionEnded = ''session.ended''"
| "source_event_str DeliveryRefused = ''delivery.refused''"
| "source_event_str DeliveryPushed = ''delivery.pushed''"
| "source_event_str DeliveryPr = ''delivery.pr''"
| "source_event_str DeliveryLanded = ''delivery.landed''"
| "source_event_str DeliveryChecks = ''delivery.checks''"
| "source_event_str DeliveryRebased = ''delivery.rebased''"
| "source_event_str DeliveryIntegrated = ''delivery.integrated''"
| "source_event_str DeliveryMerged = ''delivery.merged''"
| "source_event_str DeliveryCleaned = ''delivery.cleaned''"
| "source_event_str DeliveryClosed = ''delivery.closed''"
| "source_event_str DeliveryDeleted = ''delivery.deleted''"
| "source_event_str MemoryPageWritten = ''memory.page_written''"
| "source_event_str MemoryReviewed = ''memory.reviewed''"
| "source_event_str MemoryReviewSkipped = ''memory.review_skipped''"
| "source_event_str HandoffOpened = ''handoff.opened''"
| "source_event_str HandoffAccepted = ''handoff.accepted''"
| "source_event_str HandoffCancelled = ''handoff.cancelled''"
| "source_event_str HandoffExpired = ''handoff.expired''"
| "source_event_str MessageSent = ''message.sent''"
| "source_event_str MessagePopped = ''message.popped''"
| "source_event_str AgentTaskConcluded = ''agent_task.concluded''"

definition source_event_parse :: "string \<Rightarrow> source_event option" where
  "source_event_parse s = find (\<lambda>e. source_event_str e = s) source_event_all"

datatype event_origin = OriginUser | OriginHarness

fun origin_str :: "event_origin \<Rightarrow> string" where
  "origin_str OriginUser = ''user''"
| "origin_str OriginHarness = ''harness''"

definition origin_parse :: "string \<Rightarrow> event_origin option" where
  "origin_parse s = find (\<lambda>x. origin_str x = s) [OriginUser, OriginHarness]"

datatype tool_effect = ToolFailed | ToolWrites | ToolReads

text \<open>The weights, each the byte the code gives it.\<close>

definition importance_session_started :: nat where "importance_session_started = 1"
definition importance_session_ended :: nat where "importance_session_ended = 1"

fun importance_session_prompted :: "event_origin \<Rightarrow> nat" where
  "importance_session_prompted OriginUser = 5"
| "importance_session_prompted OriginHarness = 1"

fun importance_session_tool :: "tool_effect \<Rightarrow> nat" where
  "importance_session_tool ToolFailed = 6"
| "importance_session_tool ToolWrites = 4"
| "importance_session_tool ToolReads = 2"

definition importance_delivery_failure :: nat where "importance_delivery_failure = 7"
definition importance_delivery_merged :: nat where "importance_delivery_merged = 6"
definition importance_delivery_routine :: nat where "importance_delivery_routine = 4"

definition importance_agent_task_concluded :: "bool \<Rightarrow> nat" where
  "importance_agent_task_concluded ok = (if ok then 4 else 7)"

text \<open>The parts of a hashed key are separated by U+001F.\<close>

definition unit_sep :: char where "unit_sep = CHR 0x1F"

definition event_id :: "(string \<Rightarrow> string) \<Rightarrow> string \<Rightarrow> source_event \<Rightarrow> string \<Rightarrow> nat \<Rightarrow> string" where
  "event_id digest native e at pid =
     digest (join [unit_sep] [native, source_event_str e, at, show_nat pid])"

definition delivery_event_id :: "(string \<Rightarrow> string) \<Rightarrow> string \<Rightarrow> source_event \<Rightarrow> string \<Rightarrow> nat \<Rightarrow> string" where
  "delivery_event_id digest attempt e repo n =
     digest (join [unit_sep] [attempt, source_event_str e, repo, show_nat n])"

definition merged_event_id :: "(string \<Rightarrow> string) \<Rightarrow> string \<Rightarrow> string \<Rightarrow> string \<Rightarrow> string" where
  "merged_event_id digest repo url commit = digest (join [unit_sep] [''delivery.merged'', repo, url, commit])"

definition agent_task_event_id :: "(string \<Rightarrow> string) \<Rightarrow> string \<Rightarrow> string \<Rightarrow> string" where
  "agent_task_event_id digest agent run = digest (join [unit_sep] [''agent_task.concluded'', agent, run])"

section \<open>Delivery events\<close>

datatype observed_by = ObservedByCleanup | ObservedByIntegrate

fun observed_by_str :: "observed_by \<Rightarrow> string" where
  "observed_by_str ObservedByCleanup = ''cleanup''"
| "observed_by_str ObservedByIntegrate = ''integrate''"

record delivery_scope =
  sk_feature :: string
  sk_parent :: string
  sk_repo :: string
  sk_branch :: string
  sk_head :: string

definition scope_for_repo :: "feature \<Rightarrow> string \<Rightarrow> string \<Rightarrow> delivery_scope" where
  "scope_for_repo f repo head =
     \<lparr>sk_feature = feature_str (ft_name f),
      sk_parent = (case ft_parent f of Some p \<Rightarrow> feature_str p | None \<Rightarrow> []),
      sk_repo = repo, sk_branch = branch_str (ft_branch f), sk_head = head\<rparr>"

definition scope_for_feature :: "feature \<Rightarrow> delivery_scope" where
  "scope_for_feature f = scope_for_repo f [] []"

datatype delivery_event =
    EvRefused string "string list" string
  | EvPushed bool "string option" string
  | EvPr string nat string bool
  | EvLanded bool bool "string option"
  | EvChecks bool "string list"
  | EvRebased bool "string option" "string option" "string option" "string option"
  | EvIntegrated bool string string "string option"
  | EvMerged nat string "string option" "string option" observed_by
  | EvCleaned string string
  | EvClosed string
  | EvDeleted "string list"

fun delivery_source_event :: "delivery_event \<Rightarrow> source_event" where
  "delivery_source_event (EvRefused _ _ _) = DeliveryRefused"
| "delivery_source_event (EvPushed _ _ _) = DeliveryPushed"
| "delivery_source_event (EvPr _ _ _ _) = DeliveryPr"
| "delivery_source_event (EvLanded _ _ _) = DeliveryLanded"
| "delivery_source_event (EvChecks _ _) = DeliveryChecks"
| "delivery_source_event (EvRebased _ _ _ _ _) = DeliveryRebased"
| "delivery_source_event (EvIntegrated _ _ _ _) = DeliveryIntegrated"
| "delivery_source_event (EvMerged _ _ _ _ _) = DeliveryMerged"
| "delivery_source_event (EvCleaned _ _) = DeliveryCleaned"
| "delivery_source_event (EvClosed _) = DeliveryClosed"
| "delivery_source_event (EvDeleted _) = DeliveryDeleted"

definition by_success :: "bool \<Rightarrow> nat" where
  "by_success ok = (if ok then importance_delivery_routine else importance_delivery_failure)"

definition delivery_importance :: "delivery_event \<Rightarrow> nat" where
  "delivery_importance e =
     (case e of
        EvRefused _ _ _ \<Rightarrow> importance_delivery_failure
      | EvPushed ok _ _ \<Rightarrow> by_success ok
      | EvIntegrated ok _ _ _ \<Rightarrow> by_success ok
      | EvChecks passed _ \<Rightarrow> by_success passed
      | EvLanded merged pushed _ \<Rightarrow> by_success (merged \<and> pushed)
      | EvRebased conflicted _ _ _ _ \<Rightarrow> by_success (\<not> conflicted)
      | EvMerged _ _ _ _ _ \<Rightarrow> importance_delivery_merged
      | EvPr _ _ _ _ \<Rightarrow> importance_delivery_routine
      | EvCleaned _ _ \<Rightarrow> importance_delivery_routine
      | EvClosed _ \<Rightarrow> importance_delivery_routine
      | EvDeleted _ \<Rightarrow> importance_delivery_routine)"

definition json_opt :: "string option \<Rightarrow> json" where
  "json_opt x = (case x of Some s \<Rightarrow> JString s | None \<Rightarrow> JNull)"

definition json_strings :: "string list \<Rightarrow> json" where
  "json_strings xs = JArray (map JString xs)"

fun delivery_fields :: "delivery_event \<Rightarrow> (string \<times> json) list" where
  "delivery_fields (EvRefused code blockers fp) =
     [(''code'', JString code), (''blockers'', json_strings blockers), (''fingerprint'', JString fp)]"
| "delivery_fields (EvPushed ok detail base) =
     [(''ok'', JBool ok), (''detail'', json_opt detail), (''base'', JString base)]"
| "delivery_fields (EvPr action n url draft) =
     [(''action'', JString action), (''number'', JUInt n), (''url'', JString url), (''draft'', JBool draft)]"
| "delivery_fields (EvLanded merged pushed detail) =
     [(''merged'', JBool merged), (''pushed'', JBool pushed), (''detail'', json_opt detail)]"
| "delivery_fields (EvChecks passed bad) = [(''passed'', JBool passed), (''failed'', json_strings bad)]"
| "delivery_fields (EvRebased conflicted onto source before after) =
     [(''conflicted'', JBool conflicted), (''onto'', json_opt onto), (''base_source'', json_opt source),
      (''sha_before'', json_opt before), (''sha_after'', json_opt after)]"
| "delivery_fields (EvIntegrated ok via source commit) =
     [(''ok'', JBool ok), (''via'', JString via), (''source_sha'', JString source), (''merge_commit'', json_opt commit)]"
| "delivery_fields (EvMerged n url commit at by) =
     [(''number'', JUInt n), (''url'', JString url), (''merge_commit'', json_opt commit),
      (''merged_at'', json_opt at), (''observed_by'', JString (observed_by_str by))]"
| "delivery_fields (EvCleaned path docs) = [(''record_path'', JString path), (''docs'', JString docs)]"
| "delivery_fields (EvClosed outcome) = [(''outcome'', JString outcome)]"
| "delivery_fields (EvDeleted repos) = [(''repos'', json_strings repos)]"

section \<open>The body of an event\<close>

definition max_listed :: nat where "max_listed = 10"
definition max_text_chars :: nat where "max_text_chars = 200"
definition max_body_bytes :: nat where "max_body_bytes = 4000"

text \<open>The first \<open>n\<close> characters of a UTF-8 text.\<close>

definition take_chars :: "nat \<Rightarrow> string \<Rightarrow> string" where
  "take_chars n s = concat (take n (str_chars s))"

fun bounded :: "nat \<Rightarrow> nat \<Rightarrow> json \<Rightarrow> json" where
  "bounded chars items (JString s) = JString (take_chars chars s)"
| "bounded chars items (JArray xs) = JArray (take items (map (bounded chars items) xs))"
| "bounded chars items (JObject ms) = JObject (map (\<lambda>(k, v). (k, bounded chars items v)) ms)"
| "bounded chars items v = v"

text \<open>
  The two loops of \<open>within_byte_bound\<close>, halving first the length of the texts and then that of
  the lists; \<open>render\<close> is \<open>Value::to_string\<close>.
\<close>

fun shrink_chars :: "(json \<Rightarrow> string) \<Rightarrow> json \<Rightarrow> nat \<Rightarrow> nat \<Rightarrow> string \<Rightarrow> nat \<times> string" where
  "shrink_chars render body items chars t =
     (if length t > max_body_bytes \<and> chars > 0
      then shrink_chars render body items (chars div 2) (render (bounded (chars div 2) items body))
      else (chars, t))"

fun shrink_items :: "(json \<Rightarrow> string) \<Rightarrow> json \<Rightarrow> nat \<Rightarrow> nat \<Rightarrow> string \<Rightarrow> string" where
  "shrink_items render body chars items t =
     (if length t > max_body_bytes \<and> items > 0
      then shrink_items render body chars (items div 2) (render (bounded chars (items div 2) body))
      else t)"

declare shrink_chars.simps [simp del]
declare shrink_items.simps [simp del]

definition within_byte_bound :: "(json \<Rightarrow> string) \<Rightarrow> json \<Rightarrow> string" where
  "within_byte_bound render body =
     (case shrink_chars render body max_listed max_text_chars (render body) of
        (chars, t) \<Rightarrow> shrink_items render body chars max_listed t)"

definition delivery_body :: "(json \<Rightarrow> string) \<Rightarrow> delivery_event \<Rightarrow> delivery_scope \<Rightarrow> string" where
  "delivery_body render e sc =
     (let fields = (case bounded max_text_chars max_listed (JObject (delivery_fields e)) of JObject ms \<Rightarrow> ms | _ \<Rightarrow> []);
          head = [(''branch'', JString (sk_branch sc)), (''head_sha'', JString (sk_head sc))]
      in within_byte_bound render (JObject (fold (\<lambda>(k, v) m. obj_insert k v m) fields head)))"

section \<open>Lemmas\<close>

lemma shrink_chars_shape:
  "shrink_chars render body items chars t = (chars', t')
   \<Longrightarrow> length t' \<le> max_body_bytes \<or> chars' = 0"
proof (induction render body items chars t rule: shrink_chars.induct)
  case (1 render body items chars t)
  show ?case
  proof (cases "length t > max_body_bytes \<and> chars > 0")
    case True
    with 1 show ?thesis by (subst (asm) (2) shrink_chars.simps) simp
  next
    case False
    with "1.prems"(1) show ?thesis by (subst (asm) shrink_chars.simps) auto
  qed
qed

lemma shrink_items_shape:
  "length (shrink_items render body 0 items t) \<le> max_body_bytes
   \<or> (items > 0 \<and> shrink_items render body 0 items t = render (bounded 0 0 body)) \<or> items = 0"
proof (induction render body "0 :: nat" items t rule: shrink_items.induct)
  case (1 render body items t)
  show ?case
  proof (cases "length t > max_body_bytes \<and> items > 0")
    case True
    have s: "shrink_items render body 0 items t
        = shrink_items render body 0 (items div 2) (render (bounded 0 (items div 2) body))"
      using True by (subst shrink_items.simps) simp
    show ?thesis
    proof (cases "items div 2 = 0")
      case True
      then have "shrink_items render body 0 (items div 2) (render (bounded 0 (items div 2) body)) = render (bounded 0 0 body)"
        by (subst shrink_items.simps) simp
      with s show ?thesis by (cases items) simp_all
    next
      case False
      with 1 True s show ?thesis by auto
    qed
  next
    case False
    then show ?thesis by (subst (1 2) shrink_items.simps) auto
  qed
qed

lemma source_event_parse_str: "source_event_parse (source_event_str e) = Some e"
  by (cases e) (simp_all add: source_event_parse_def source_event_all_def)

lemma source_event_no_sep: "unit_sep \<notin> set (source_event_str e)"
  by (cases e) (simp_all add: unit_sep_def)

lemma show_nat_no_sep: "unit_sep \<notin> set (show_nat n)"
  using show_nat_digits [of n] by (auto simp: list_all_iff is_digit_def unit_sep_def)

text \<open>
  The body kept of a delivery event has at most 4000 bytes, unless even the body with every
  text and every list in it emptied is longer, which is then what is kept.
\<close>

theorem delivery_body_bounded:
  "length (delivery_body render e sc) \<le> max_body_bytes
   \<or> (\<exists>body. delivery_body render e sc = render (bounded 0 0 body))"
proof -
  have "length (within_byte_bound render b) \<le> max_body_bytes \<or> within_byte_bound render b = render (bounded 0 0 b)" for b
  proof -
    obtain chars t where c: "shrink_chars render b max_listed max_text_chars (render b) = (chars, t)" by fastforce
    show ?thesis
    proof (cases "length t \<le> max_body_bytes")
      case True
      then have "shrink_items render b chars max_listed t = t" by (subst shrink_items.simps) simp
      with c True show ?thesis by (simp add: within_byte_bound_def)
    next
      case False
      with shrink_chars_shape [OF c] have "chars = 0" by auto
      with c shrink_items_shape [of render b max_listed t] show ?thesis
        by (auto simp: within_byte_bound_def max_listed_def)
    qed
  qed
  then show ?thesis by (auto simp: delivery_body_def Let_def)
qed

text \<open>
  Distinct events of a delivery get distinct ids: under a digest without collisions, and
  with attempts and repositories whose names have no separator in them, an id determines the
  attempt, the kind of event, the repository and the number of the event.
\<close>

theorem delivery_event_ids_distinct:
  assumes "inj digest" and "unit_sep \<notin> set a" and "unit_sep \<notin> set r" and "unit_sep \<notin> set a'" and "unit_sep \<notin> set r'"
    and "delivery_event_id digest a e r n = delivery_event_id digest a' e' r' n'"
  shows "a = a' \<and> e = e' \<and> r = r' \<and> n = n'"
proof -
  let ?k = "\<lambda>a e r n. [a, source_event_str e, r, show_nat n]"
  have k: "split_on unit_sep (join [unit_sep] (?k a e r n)) = ?k a e r n"
    if "unit_sep \<notin> set a" "unit_sep \<notin> set r" for a e r n
    using that show_nat_no_sep source_event_no_sep by (intro split_on_join) auto
  have "join [unit_sep] (?k a e r n) = join [unit_sep] (?k a' e' r' n')"
    using assms(1,6) by (simp add: delivery_event_id_def inj_eq)
  from arg_cong [OF this, of "split_on unit_sep"] have "?k a e r n = ?k a' e' r' n'"
    by (simp only: k [OF assms(2,3)] k [OF assms(4,5)])
  then have "a = a'" "source_event_str e = source_event_str e'" "r = r'" "show_nat n = show_nat n'" by simp_all
  moreover from arg_cong [OF \<open>show_nat n = show_nat n'\<close>, of digits_val] have "n = n'" by simp
  moreover from arg_cong [OF \<open>source_event_str e = source_event_str e'\<close>, of source_event_parse] have "e = e'"
    by (simp add: source_event_parse_str)
  ultimately show ?thesis by simp
qed

theorem delivery_event_ids_distinct_witness:
  "delivery_event_id id ''a'' DeliveryPushed ''r'' 1 \<noteq> delivery_event_id id ''a'' DeliveryPushed ''r'' 2"
  using delivery_event_ids_distinct [of id "''a''" "''r''" "''a''" "''r''" DeliveryPushed 1 DeliveryPushed 2]
  by (auto simp: unit_sep_def)

end
