(* ===== verification/Deletion.thy ===== *)
theory Deletion
  imports Promotions Delivery_Event
begin

text \<open>
  \<open>delete.rs\<close>, \<open>delete/teardown.rs\<close> and \<open>tree.rs\<close> of \<open>src/src/action/feature\<close>: the deletion of a
  feature with everything below it, leaves first.  The walk of the file system that finds
  directories which cannot be removed is an argument.
\<close>

section \<open>Delete\<close>

datatype descendants_mode = DescRefuse | DescAsk | DescConsented

record worktree_removal =
  wr_repo :: repo_name
  wr_removed :: bool
  wr_detail :: "string option"

record deleted_feature =
  df_name :: feature_name
  df_worktrees :: "worktree_removal list"
  df_removed :: bool

record delete_outcome =
  de_root :: string
  de_name :: feature_name
  de_worktrees :: "worktree_removal list"
  de_removed :: bool
  de_descendants :: "deleted_feature list"

text \<open>\<open>tree_prefixes\<close> of \<open>tree.rs\<close>: the drawing in front of each row, from the depths alone.\<close>

definition tree_bar :: string where "tree_bar = map char_of [226, 148, 130, 32, 32, 32 :: nat]"
definition tree_tee :: string where "tree_tee = map char_of [226, 148, 156, 226, 148, 128, 226, 148, 128, 32 :: nat]"
definition tree_corner :: string where "tree_corner = map char_of [226, 148, 148, 226, 148, 128, 226, 148, 128, 32 :: nat]"

fun later_sibling :: "nat \<Rightarrow> nat list \<Rightarrow> bool" where
  "later_sibling k [] = False"
| "later_sibling k (d # ds) = (if d < k then False else if d = k then True else later_sibling k ds)"

definition tree_prefix :: "nat \<Rightarrow> nat list \<Rightarrow> string" where
  "tree_prefix d following =
     (if d = 0 then []
      else concat (map (\<lambda>k. if later_sibling k following then tree_bar else ''    '') [1..<d])
           @ (if later_sibling d following then tree_tee else tree_corner))"

fun tree_prefixes :: "nat list \<Rightarrow> string list" where
  "tree_prefixes [] = []"
| "tree_prefixes (d # ds) = tree_prefix d ds # tree_prefixes ds"

text \<open>
  What delete reads and runs beside the records.  \<open>dl_at_risk\<close> are the sessions and dirty
  worktrees of one feature, \<open>dl_blockers\<close> the directories under a feature that cannot be
  removed (as the JSON of the failure's details), \<open>dl_remove_dir\<close> removes the feature's
  directory, \<open>dl_emit\<close> tells an event, which never fails, and \<open>dl_drop_layers\<close> forgets the
  feature in the graph.
\<close>

record 'g delete_env =
  dl_git :: "'g git"
  dl_layout :: layout
  dl_interactive :: bool
  dl_confirm :: "string \<Rightarrow> string option \<Rightarrow> failure + bool"
  dl_sessions :: "'g \<Rightarrow> feature_name \<Rightarrow> failure + session_id list"
  dl_blockers :: "'g \<Rightarrow> string \<Rightarrow> json list"
  dl_remove_dir :: "string \<Rightarrow> 'g \<Rightarrow> (string + unit) \<times> 'g"
  dl_emit :: "delivery_scope \<Rightarrow> delivery_event \<Rightarrow> 'g \<Rightarrow> 'g"
  dl_drop_layers :: "feature_name \<Rightarrow> 'g \<Rightarrow> warning option \<times> 'g"
  dl_prune_parents :: "string \<Rightarrow> string \<Rightarrow> 'g \<Rightarrow> 'g"

definition has_descendants_failure :: "feature_name \<Rightarrow> (nat \<times> feature) list \<Rightarrow> failure" where
  "has_descendants_failure n subtree =
     with_fix (fix_safe ''feature.delete_leaves_first'' ''Delete the descendants first, leaves first.'')
       (with_actual (''descendants: '' @ join '', '' (map (\<lambda>(_, d). feature_str (ft_name d)) subtree))
         (with_expected ''every descendant to be deleted first''
           (blocked ''feature.has_descendants''
             (''cannot delete feature '' @ quoted (feature_str n) @ '': it has '' @ show_nat (length subtree) @ '' descendant(s)''))))"

definition rendered_subtree :: "feature_name \<Rightarrow> (nat \<times> feature) list \<Rightarrow> string" where
  "rendered_subtree n subtree =
     join [CHR 0x0A] (map (\<lambda>(name, prefix). prefix @ feature_str name)
       (zip (n # map (\<lambda>(_, d). ft_name d) subtree) (tree_prefixes (0 # map fst subtree))))"

definition needs_consent_failure :: "feature_name \<Rightarrow> (nat \<times> feature) list \<Rightarrow> bool \<Rightarrow> failure" where
  "needs_consent_failure n subtree force =
     with_fix (fix_command (''ivar feature delete '' @ feature_str n @ '' --yes'' @ (if force then '' --force'' else []))
         (fix_unsafe ''feature.delete_yes''
           ''Pass `--yes` to consent to deleting the feature together with every subfeature.''))
       (with_actual (''subtree:'' @ [CHR 0x0A] @ rendered_subtree n subtree)
         (with_expected ''explicit consent to delete the entire subtree''
           (blocked ''feature.delete_subtree_needs_consent''
             (''cannot delete feature '' @ quoted (feature_str n) @ '': it has '' @ show_nat (length subtree) @ '' descendant(s)''))))"

definition check_descendants_consent ::
    "'g delete_env \<Rightarrow> feature_name \<Rightarrow> (nat \<times> feature) list \<Rightarrow> descendants_mode \<Rightarrow> bool \<Rightarrow> failure + unit" where
  "check_descendants_consent env n subtree mode force =
     (if subtree = [] then Inr ()
      else (case mode of
        DescRefuse \<Rightarrow> Inl (has_descendants_failure n subtree)
      | DescAsk \<Rightarrow>
          if \<not> dl_interactive env then Inl (needs_consent_failure n subtree force)
          else and_then (dl_confirm env
                 (''Delete '' @ quoted (feature_str n) @ '' and its '' @ show_nat (length subtree) @ '' subfeature(s)?'')
                 (Some (rendered_subtree n subtree))) (\<lambda>yes.
               if yes then Inr ()
               else Inl (blocked ''feature.delete_declined'' (''delete declined for feature '' @ quoted (feature_str n))))
      | DescConsented \<Rightarrow> Inr ()))"

text \<open>\<open>work_at_risk\<close> and \<open>teardown_worktrees\<close> of \<open>delete/teardown.rs\<close>.\<close>

definition repo_at_risk :: "'g delete_env \<Rightarrow> 'g \<Rightarrow> feature \<Rightarrow> repo_name \<Rightarrow> string list" where
  "repo_at_risk env g f r =
     (case and_then (lookup_worktree (dl_git env) g (repo_bare (dl_layout env) r) (branch_str (ft_branch f))) (\<lambda>w.
             case w of
               Some w \<Rightarrow> (if we_prunable w then Inr False else g_worktree_dirty (dl_git env) g (we_path w))
             | None \<Rightarrow> Inr False) of
        Inr False \<Rightarrow> []
      | Inr True \<Rightarrow> [quoted (repo_str r) @ '' has uncommitted or untracked changes'']
      | Inl e \<Rightarrow> [''cannot check '' @ quoted (repo_str r) @ '': '' @ git_error_display e])"

definition work_at_risk :: "'g delete_env \<Rightarrow> 'g \<Rightarrow> feature \<Rightarrow> string list" where
  "work_at_risk env g f =
     (case dl_sessions env g (ft_name f) of
        Inr ss \<Rightarrow> map (\<lambda>s. ''session '' @ quoted (session_str s) @ '' is live'') ss
      | Inl e \<Rightarrow> [''cannot check its sessions: '' @ fl_what e])
     @ concat (map (repo_at_risk env g f) (map fst (ft_promotions f)))"

definition preflight_subtree_clean :: "'g delete_env \<Rightarrow> 'g \<Rightarrow> feature_name \<Rightarrow> feature list \<Rightarrow> bool \<Rightarrow> failure + unit" where
  "preflight_subtree_clean env g n nodes subtree_is_empty =
     (let risks = concat (map (\<lambda>f. map (\<lambda>msg. quoted (feature_str (ft_name f)) @ '': '' @ msg) (work_at_risk env g f)) nodes)
      in if risks = [] then Inr ()
         else Inl (with_fix (fix_command (''ivar feature delete '' @ feature_str n @ (if subtree_is_empty then [] else '' --yes'') @ '' --force'')
                (fix_unsafe ''feature.delete_force'' ''Commit or stop the work first, or discard it with `--force`.''))
              (with_actual (join ''; '' risks)
                (with_expected ''no live session and a clean worktree in every promoted repo''
                  (blocked ''feature.delete_unsaved_work''
                    (''cannot delete feature '' @ quoted (feature_str n) @ '': it has work that would be lost''))))))"

definition preflight_subtree_removable :: "'g delete_env \<Rightarrow> 'g \<Rightarrow> feature_name \<Rightarrow> feature list \<Rightarrow> failure + unit" where
  "preflight_subtree_removable env g n nodes =
     (let blockers = concat (map (\<lambda>f. dl_blockers env g (feature_dir (dl_layout env) (ft_name f))) nodes)
      in if blockers = [] then Inr ()
         else Inl (with_details (JArray blockers)
              (with_fix (fix_safe ''feature.fix_permissions''
                  (''Fix the permissions named above, then run `ivar feature delete '' @ feature_str n @ ''` again.''))
                (with_actual (show_nat (length blockers) @ '' path(s) could not be removed '' @ em_dash @ '' see details for paths, modes, and owners'')
                  (with_expected ''every directory under the feature directory to be writable and searchable''
                    (blocked ''feature.delete_blocked''
                      (''cannot delete feature '' @ quoted (feature_str n) @ '': '' @ show_nat (length blockers) @
                       '' path(s) under its directory are not removable'')))))))"

definition worktree_lookup_failure :: "git_error \<Rightarrow> failure" where
  "worktree_lookup_failure e =
     (case e of GitFs _ source \<Rightarrow> source
      | _ \<Rightarrow> failed ''feature.delete_worktree_lookup_failed'' (git_error_display e))"

fun teardown_worktrees ::
    "'g delete_env \<Rightarrow> feature \<Rightarrow> repo_name list \<Rightarrow> 'g \<Rightarrow> (failure + worktree_removal list \<times> warning list) \<times> 'g" where
  "teardown_worktrees env f [] g = (Inr ([], []), g)"
| "teardown_worktrees env f (r # rs) g =
     (let bare = repo_bare (dl_layout env) r in
      case lookup_worktree (dl_git env) g bare (branch_str (ft_branch f)) of
        Inl e \<Rightarrow> (Inl (worktree_lookup_failure e), g)
      | Inr found \<Rightarrow>
          (let (removal, ws, g') =
             (case found of
                None \<Rightarrow> (\<lparr>wr_repo = r, wr_removed = True, wr_detail = None\<rparr>, [], g)
              | Some entry \<Rightarrow>
                  (case remove_worktree_entry (dl_git env) bare entry g of
                     (Inr _, g') \<Rightarrow> (\<lparr>wr_repo = r, wr_removed = True, wr_detail = None\<rparr>, [],
                                     dl_prune_parents env (we_path entry) (repo_dir (dl_layout env) r) g')
                   | (Inl e, g') \<Rightarrow> (\<lparr>wr_repo = r, wr_removed = False, wr_detail = Some (git_error_display e)\<rparr>,
                                     [warning_new ''feature.delete_worktree_failed'' (repo_str r) (git_error_display e)], g')))
           in case teardown_worktrees env f rs g' of
                (Inl e, g'') \<Rightarrow> (Inl e, g'')
              | (Inr (removals, ws'), g'') \<Rightarrow> (Inr (removal # removals, ws @ ws'), g'')))"

definition remove_feature_dir :: "'g delete_env \<Rightarrow> feature \<Rightarrow> 'g \<Rightarrow> (failure + unit) \<times> 'g" where
  "remove_feature_dir env f g =
     (case dl_remove_dir env (feature_dir (dl_layout env) (ft_name f)) g of
        (r, g') \<Rightarrow> (map_sum (\<lambda>source. failed ''feature.delete_dir_failed''
           (''could not remove feature '' @ quoted (feature_str (ft_name f)) @ '': '' @ source)) id r, g'))"

definition emit_deleted :: "'g delete_env \<Rightarrow> feature \<Rightarrow> worktree_removal list \<Rightarrow> 'g \<Rightarrow> (failure + unit) \<times> 'g" where
  "emit_deleted env f removals g =
     (Inr (), dl_emit env (scope_for_feature f) (EvDeleted (map (\<lambda>w. repo_str (wr_repo w)) (filter wr_removed removals))) g)"

definition drop_feature_layers :: "'g delete_env \<Rightarrow> feature \<Rightarrow> 'g \<Rightarrow> (failure + warning option) \<times> 'g" where
  "drop_feature_layers env f g = (case dl_drop_layers env (ft_name f) g of (w, g') \<Rightarrow> (Inr w, g'))"

text \<open>
  The teardown loop over the nodes, leaves first, the deleted feature itself last.  It stops
  at the first node that keeps a worktree; the rows say what happened to each node reached.
\<close>

fun delete_loop :: "'g delete_env \<Rightarrow> feature list \<Rightarrow> ('g, deleted_feature list \<times> warning list) verb" where
  "delete_loop env [] = return_s ([], [])"
| "delete_loop env (f # fs) =
     bind_s (on_outside (teardown_worktrees env f (map fst (ft_promotions f)))) (\<lambda>(removals, ws).
       if \<not> list_all wr_removed removals
       then return_s ([\<lparr>df_name = ft_name f, df_worktrees = removals, df_removed = False\<rparr>], ws)
       else
         bind_s (on_outside (remove_feature_dir env f)) (\<lambda>_.
         bind_s (on_hall (\<lambda>m. (Inr (), bt_remove (ft_name f) m))) (\<lambda>_.
         bind_s (on_outside (emit_deleted env f removals)) (\<lambda>_.
         bind_s (on_outside (drop_feature_layers env f)) (\<lambda>layer_warning.
         bind_s (delete_loop env fs) (\<lambda>(rows, ws').
           return_s (\<lparr>df_name = ft_name f, df_worktrees = removals, df_removed = True\<rparr> # rows,
                     ws @ opt_list layer_warning @ ws')))))))"

definition delete_report :: "'g delete_env \<Rightarrow> feature_name \<Rightarrow> deleted_feature list \<Rightarrow> delete_outcome" where
  "delete_report env n rows =
     \<lparr>de_root = lay_root (dl_layout env), de_name = n,
      de_worktrees = concat (map df_worktrees (filter (\<lambda>d. df_name d = n) rows)),
      de_removed = list_ex (\<lambda>d. df_name d = n \<and> df_removed d) rows,
      de_descendants = filter (\<lambda>d. df_name d \<noteq> n) rows\<rparr>"

text \<open>\<open>None\<close> would be the walk over the descendants not returning.\<close>

definition delete ::
    "'g delete_env \<Rightarrow> string \<Rightarrow> bool \<Rightarrow> descendants_mode \<Rightarrow> 'g \<times> hall \<Rightarrow>
     ((failure + delete_outcome \<times> warning list) \<times> 'g \<times> hall) option" where
  "delete env name_text force mode s =
     (case and_then (named (feature_name_new name_text)) (\<lambda>n.
           and_then (read_feature (snd s) n) (\<lambda>f.
           and_then (read_all (snd s)) (\<lambda>fs. Inr (n, f, fs)))) of
        Inl e \<Rightarrow> Some (Inl e, s)
      | Inr (n, f, fs) \<Rightarrow>
          map_option (\<lambda>subtree.
            bind_s (lift_s (check_descendants_consent env n subtree mode force)) (\<lambda>_.
            let nodes = map snd subtree @ [f] in
            bind_s (gets_s (\<lambda>t. if force then Inr () else preflight_subtree_clean env (fst t) n nodes (subtree = []))) (\<lambda>_.
            bind_s (gets_s (\<lambda>t. preflight_subtree_removable env (fst t) n nodes)) (\<lambda>_.
            bind_s (delete_loop env (rev (map snd subtree) @ [f])) (\<lambda>(rows, ws).
              return_s (delete_report env n rows, ws))))) s)
            (descendants_from_values (feature_map fs) n))"

text \<open>
  \<open>fold_into_ancestors\<close>: drop the targets that lie below another target.  The walk up the
  parents has no bound in the code.
\<close>

partial_function (option) target_above ::
    "features_by_name \<Rightarrow> string list \<Rightarrow> feature_name option \<Rightarrow> bool option" where
  [code]: "target_above m targets current =
     (case current of
        None \<Rightarrow> Some False
      | Some p \<Rightarrow>
          if feature_str p \<in> set targets then Some True
          else target_above m targets (Option.bind (bt_get m p) ft_parent))"

fun fold_targets :: "features_by_name \<Rightarrow> string list \<Rightarrow> string list \<Rightarrow> string list option" where
  "fold_targets m all [] = Some []"
| "fold_targets m all (t # ts) =
     Option.bind (case feature_name_new t of
                    Inr n \<Rightarrow> target_above m all (Option.bind (bt_get m n) ft_parent)
                  | Inl _ \<Rightarrow> Some False) (\<lambda>above.
     Option.bind (fold_targets m all ts) (\<lambda>rest. Some (if above then rest else t # rest)))"

definition fold_into_ancestors :: "hall \<Rightarrow> string list \<Rightarrow> (failure + string list) option" where
  "fold_into_ancestors m targets =
     (case read_all m of
        Inl e \<Rightarrow> Some (Inl e)
      | Inr fs \<Rightarrow> map_option Inr (fold_targets (feature_map fs) targets targets))"

end
