(* ===== verification/Hall_Invariants.thy ===== *)
theory Hall_Invariants
  imports Deletion
begin

text \<open>
  The verbs of \<open>src/src/action/feature\<close> composed: each one keeps the invariant \<open>hall_ok\<close> of the
  records, whether it succeeds or fails half way, and so every sequence of verbs does.  The
  deletion of a subtree is shown to remove leaves first, so that a deletion that stops never
  leaves a feature without its parent.
\<close>

section \<open>Steps that do not touch the records\<close>

lemma keeps_map_failure: "keeps P m \<Longrightarrow> keeps P (map_failure f m)"
  by (simp add: keeps_def map_failure_def split: prod.splits) (metis snd_conv)

section \<open>Updating one feature\<close>

text \<open>The receipt a promotion carries.\<close>

definition receipt_of :: "hall \<Rightarrow> feature_name \<Rightarrow> repo_name \<Rightarrow> integration_receipt option" where
  "receipt_of m n r = Option.bind (bt_get m n) (\<lambda>f. Option.bind (bt_get (ft_promotions f) r) pr_receipt)"

definition same_tree :: "hall \<Rightarrow> hall \<Rightarrow> bool" where
  "same_tree m0 m \<longleftrightarrow> hall_ok m \<and> skeleton m = skeleton m0"

definition same_receipts :: "hall \<Rightarrow> hall \<Rightarrow> bool" where
  "same_receipts m0 m \<longleftrightarrow> same_tree m0 m \<and> receipt_of m = receipt_of m0"

lemma same_tree_insert:
  assumes st: "same_tree m0 m" and cur: "bt_get m n = Some cur" and wf: "feature_wf new"
    and same: "ft_name new = ft_name cur" "ft_branch new = ft_branch cur" "ft_base new = ft_base cur" "ft_parent new = ft_parent cur"
  shows "same_tree m0 (bt_insert n new m)"
proof -
  have ok: "hall_ok m" and sk: "skeleton m = skeleton m0" using st by (simp_all add: same_tree_def)
  note s = hall_ok_facts(3) [OF ok]
  have "skeleton (bt_insert n new m) k = skeleton m k" for k
    using cur same by (simp add: skeleton_def bt.get_insert [OF s])
  then have sk': "skeleton (bt_insert n new m) = skeleton m" by blast
  have "feature_wf f" if "bt_get (bt_insert n new m) k = Some f" for k f
    using that wf ok by (cases "k = n") (auto simp: bt.get_insert [OF s] hall_ok_def)
  then have "hall_ok (bt_insert n new m)"
    by (intro skeleton_hall_ok [OF ok sk' bt.invar_insert [OF s]]) blast
  with sk sk' show ?thesis by (simp add: same_tree_def)
qed

lemma same_tree_update:
  assumes st: "same_tree m0 m"
    and f: "\<And>cur new. bt_get m n = Some cur \<Longrightarrow> f cur = Inr new \<Longrightarrow> feature_wf cur \<Longrightarrow> feature_wf new
      \<and> ft_name new = ft_name cur \<and> ft_branch new = ft_branch cur \<and> ft_base new = ft_base cur \<and> ft_parent new = ft_parent cur"
  shows "same_tree m0 (snd (update_feature n f m))"
proof -
  obtain r m' where u: "update_feature n f m = (r, m')" by fastforce
  have "same_tree m0 m'"
  proof (cases "m' = m")
    case False
    with update_feature_skeleton_free [OF u] obtain cur new where
      c: "bt_get m n = Some cur" "f cur = Inr new" "m' = bt_insert n new m" by blast
    have "feature_wf cur" using st c(1) by (auto simp: same_tree_def hall_ok_def)
    from f [OF c(1,2) this] same_tree_insert [OF st c(1)] c(3) show ?thesis by blast
  qed (use st in simp)
  with u show ?thesis by simp
qed

lemma receipts_insert:
  assumes "bt_sorted m" and "bt_get m n = Some cur"
    and "\<And>r. Option.bind (bt_get (ft_promotions new) r) pr_receipt = Option.bind (bt_get (ft_promotions cur) r) pr_receipt"
  shows "receipt_of (bt_insert n new m) = receipt_of m"
  using assms by (intro ext) (simp add: receipt_of_def bt.get_insert)

lemma same_receipts_update:
  assumes st: "same_receipts m0 m"
    and f: "\<And>cur new. bt_get m n = Some cur \<Longrightarrow> f cur = Inr new \<Longrightarrow> feature_wf cur \<Longrightarrow> feature_wf new
      \<and> ft_name new = ft_name cur \<and> ft_branch new = ft_branch cur \<and> ft_base new = ft_base cur \<and> ft_parent new = ft_parent cur"
    and rc: "\<And>cur new r. f cur = Inr new \<Longrightarrow> feature_wf cur \<Longrightarrow>
      Option.bind (bt_get (ft_promotions new) r) pr_receipt = Option.bind (bt_get (ft_promotions cur) r) pr_receipt"
  shows "same_receipts m0 (snd (update_feature n f m))"
proof -
  have tree: "same_tree m0 m" and r0: "receipt_of m = receipt_of m0" using st by (simp_all add: same_receipts_def)
  then have ok: "hall_ok m" by (simp add: same_tree_def)
  obtain r m' where u: "update_feature n f m = (r, m')" by fastforce
  have "receipt_of m' = receipt_of m"
  proof (cases "m' = m")
    case False
    with update_feature_skeleton_free [OF u] obtain cur new where
      c: "bt_get m n = Some cur" "f cur = Inr new" "m' = bt_insert n new m" by blast
    have "feature_wf cur" using ok c(1) by (auto simp: hall_ok_def)
    from receipts_insert [OF hall_ok_facts(3) [OF ok] c(1) rc [OF c(2) this]] c(3) show ?thesis by simp
  qed simp
  moreover have "same_tree m0 m'" using same_tree_update [OF tree, of n f] f u by (metis snd_conv)
  ultimately show ?thesis using u r0 by (simp add: same_receipts_def)
qed

section \<open>Promote\<close>

lemma bind_map_receipt:
  "(\<And>p. pr_receipt (h p) = pr_receipt p) \<Longrightarrow> Option.bind (map_option h x) pr_receipt = Option.bind x pr_receipt"
  by (cases x) simp_all

lemma ready_promotion_same:
  assumes wf: "feature_wf f"
  shows "feature_wf (ready_promotion r b f) \<and> ft_name (ready_promotion r b f) = ft_name f
    \<and> ft_branch (ready_promotion r b f) = ft_branch f \<and> ft_base (ready_promotion r b f) = ft_base f
    \<and> ft_parent (ready_promotion r b f) = ft_parent f"
  using wf bt.invar_insert [of "ft_promotions f"]
  by (auto simp: ready_promotion_def Let_def feature_promote_def feature_wf_def)

lemma ready_promotion_receipt:
  assumes wf: "feature_wf f"
  shows "Option.bind (bt_get (ft_promotions (ready_promotion r b f)) k) pr_receipt = Option.bind (bt_get (ft_promotions f) k) pr_receipt"
  using promotion_lookup(1) [OF wf, of r]
  by (auto simp: ready_promotion_def Let_def bt_get_update bt_contains_def bind_map_receipt split: option.splits)

lemma keeps_record_ready: "keeps (\<lambda>s. same_receipts m0 (snd s)) (record_ready n r b)"
  unfolding record_ready_def
  by (intro keeps_bind keeps_on_hall keeps_gets same_receipts_update)
     (auto simp: ready_promotion_same ready_promotion_receipt)

lemma keeps_record_setup_failure: "keeps (\<lambda>s. same_receipts m0 (snd s)) (record_setup_failure n r reason)"
  unfolding record_setup_failure_def
  by (intro keeps_on_hall same_receipts_update)
     (auto simp: feature_wf_def bt_get_update bind_map_receipt)

lemma keeps_promote_parents:
  assumes "\<And>j. keeps (\<lambda>s. same_receipts m0 (snd s)) (P j)"
  shows "keeps (\<lambda>s. same_receipts m0 (snd s)) (promote_parents env P i f r)"
  unfolding promote_parents_def ensure_parent_promoted_def
  by (auto intro!: keeps_if keeps_bind keeps_map_failure keeps_gets keeps_lift assms split: option.split prod.split)

lemma keeps_promote_with:
  assumes "\<And>j. keeps (\<lambda>s. same_receipts m0 (snd s)) (P j)"
  shows "keeps (\<lambda>s. same_receipts m0 (snd s)) (promote_with env P i)"
  unfolding promote_with_def Let_def setup_or_adopt_branch_def
  by (auto intro!: keeps_if keeps_bind keeps_gets keeps_lift keeps_on_git keeps_on_outside keeps_return keeps_read_git
        keeps_record_ready keeps_record_setup_failure keeps_promote_parents assms split: option.split prod.split)

lemma keeps_promote: "keeps (\<lambda>s. same_receipts m0 (snd s)) (promote k env i)"
  by (induction k arbitrary: i) (auto intro: keeps_promote_with)
text \<open>
  Fuel: the verb called for a parent is only asked about the parent of a known feature, in
  the state the call began with.
\<close>

lemma named_feature_text: "named (feature_name_new t) = Inr n \<Longrightarrow> feature_str n = t"
  by (cases "validate_feature t") (auto simp: named_def feature_name_new_def validated_new_def)

lemma bind_s_cong:
  assumes "m s = m' s'" and "\<And>x t. m s = (Inr x, t) \<Longrightarrow> f x t = f' x t"
  shows "bind_s m f s = bind_s m' f' s'"
  unfolding bind_s_def assms(1) [symmetric] using assms(2) by (cases "m s"; cases "fst (m s)") auto

lemma promote_parents_cong:
  assumes "\<And>pn parent. ft_parent f = Some pn \<Longrightarrow> read_feature (snd s) pn = Inr parent \<Longrightarrow>
      P \<lparr>pi_feature = feature_str (ft_name parent), pi_repo = repo_str r, pi_base = None\<rparr> s =
      Q \<lparr>pi_feature = feature_str (ft_name parent), pi_repo = repo_str r, pi_base = None\<rparr> s"
  shows "promote_parents env P i f r s = promote_parents env Q i f r s"
proof (cases "ft_parent f")
  case None
  then show ?thesis by (simp add: promote_parents_def)
next
  case (Some pn)
  show ?thesis
  proof (cases "read_feature (snd s) pn")
    case (Inl e)
    with Some show ?thesis by (simp add: promote_parents_def bind_s_def gets_s_def)
  next
    case (Inr parent)
    from assms [OF Some Inr]
    have "ensure_parent_promoted env P c f parent r s = ensure_parent_promoted env Q c f parent r s" for c
      unfolding ensure_parent_promoted_def
      by (intro bind_s_cong) (auto simp: map_failure_def bind_s_def lift_s_def)
    with Some Inr show ?thesis by (simp add: promote_parents_def bind_s_def gets_s_def)
  qed
qed

lemma promote_with_cong:
  assumes "\<And>n f pn parent r. named (feature_name_new (pi_feature i)) = Inr n \<Longrightarrow> read_feature (snd s) n = Inr f \<Longrightarrow>
      ft_parent f = Some pn \<Longrightarrow> read_feature (snd s) pn = Inr parent \<Longrightarrow>
      P \<lparr>pi_feature = feature_str (ft_name parent), pi_repo = repo_str r, pi_base = None\<rparr> s =
      Q \<lparr>pi_feature = feature_str (ft_name parent), pi_repo = repo_str r, pi_base = None\<rparr> s"
  shows "promote_with env P i s = promote_with env Q i s"
  unfolding promote_with_def Let_def
proof ((rule refl bind_s_cong)+, goal_cases)
  case (1 n t1 r t2 f t3 db t4 target t5 u t6)
  then show ?case
    by (auto simp: effect_simps read_git_def intro!: bind_s_cong promote_parents_cong assms)
qed (auto simp: effect_simps)

text \<open>\<open>promote\<close> is \<open>promote_with\<close> iterated, with the refusal for want of fuel at the bottom.\<close>

lemma promote_iterates: "promote k env = (promote_with env ^^ k) (\<lambda>_. fail_s promote_out_of_fuel)"
proof (induction k)
  case (Suc k)
  have "promote (Suc k) env = promote_with env (promote k env)" by (rule ext) simp
  with Suc.IH show ?case by simp
qed auto

text \<open>Whatever verb \<open>P\<close> stands at the bottom: above the depth of the feature it is never asked.\<close>

lemma promote_bottom_unused:
  assumes ok: "map_ok (snd s)"
  shows "depth_is (snd s) n d \<Longrightarrow> named (feature_name_new (pi_feature i)) = Inr n \<Longrightarrow> d < k \<Longrightarrow>
     (promote_with env ^^ k) P i s = promote (Suc d) env i s"
proof (induction d arbitrary: n k i)
  case (0 n)
  then obtain k' where k: "k = Suc k'" by (cases k) auto
  have "promote_with env ((promote_with env ^^ k') P) i s = promote_with env (promote 0 env) i s"
  proof (rule promote_with_cong)
    fix n' f pn parent
    assume "named (feature_name_new (pi_feature i)) = Inr n'" "read_feature (snd s) n' = Inr f" "ft_parent f = Some pn"
      "read_feature (snd s) pn = Inr parent"
    with 0 show "(promote_with env ^^ k') P j s = promote 0 env j s" for j
      by (auto simp: depth_is_0 read_feature_def split: option.splits)
  qed
  with k show ?case by simp
next
  case (Suc d)
  then obtain k' where k: "k = Suc k'" "d < k'" by (cases k) auto
  have "promote_with env ((promote_with env ^^ k') P) i s = promote_with env (promote (Suc d) env) i s"
  proof (rule promote_with_cong)
    fix n' f pn and parent :: feature and r :: repo_name
    let ?j = "\<lparr>pi_feature = feature_str (ft_name parent), pi_repo = repo_str r, pi_base = None\<rparr>"
    assume a: "named (feature_name_new (pi_feature i)) = Inr n'" "read_feature (snd s) n' = Inr f" "ft_parent f = Some pn"
      "read_feature (snd s) pn = Inr parent"
    then have get: "bt_get (snd s) n = Some f" "bt_get (snd s) pn = Some parent" "n' = n"
      using Suc.prems(2) by (auto simp: read_feature_def split: option.splits)
    then have pn: "ft_name parent = pn" using ok by (simp add: map_ok_def)
    have dp: "depth_is (snd s) pn d"
      using Suc.prems(1) get(1) a(3) by (auto simp: depth_is_Suc)
    show "(promote_with env ^^ k') P ?j s = promote (Suc d) env ?j s"
    proof (cases "named (feature_name_new (pi_feature ?j))")
      case (Inl e)
      obtain k'' where "k' = Suc k''" using k(2) by (cases k') auto
      with Inl show ?thesis by (simp add: promote_with_def bind_s_def lift_s_def)
    next
      case (Inr q)
      then have "q = pn" using named_feature_text [OF Inr] pn by (cases q; cases pn) simp
      with Suc.IH [OF dp, of ?j k'] Inr k(2) show ?thesis by simp
    qed
  qed
  with k(1) show ?case by simp
qed

text \<open>What a successful promotion recorded.\<close>

lemma record_ready_result:
  assumes "record_ready n r b s = (Inr f, s')"
  shows "\<exists>cur. bt_get (snd s) n = Some cur \<and> s' = (fst s, bt_insert n (ready_promotion r b cur) (snd s)) \<and> bt_get (snd s') n = Some f"
proof -
  from assms obtain u t where u: "on_hall (update_feature n (\<lambda>f. Inr (ready_promotion r b f))) s = (Inr u, t)"
    and t: "read_feature (snd t) n = Inr f" "s' = t"
    unfolding record_ready_def by (auto simp: effect_simps)
  from u have "\<exists>cur. bt_get (snd s) n = Some cur \<and> t = (fst s, bt_insert n (ready_promotion r b cur) (snd s))"
    by (auto simp: on_hall_def update_feature_def read_feature_def split: option.splits prod.splits sum.splits)
  with t show ?thesis by (auto simp: read_feature_def split: option.splits)
qed

section \<open>Demote\<close>

text \<open>A demotion takes out one promotion without a passing receipt, or leaves the records alone.\<close>

lemma demote_record_same:
  assumes "and_then (is_fully_integrated w cur) (\<lambda>integrated. demote_record integrated n r cur) = Inr new" and "feature_wf cur"
  shows "feature_wf new \<and> ft_name new = ft_name cur \<and> ft_branch new = ft_branch cur \<and> ft_base new = ft_base cur
      \<and> ft_parent new = ft_parent cur"
proof -
  from assms(1) have "new = snd (feature_demote r cur)"
    by (auto simp: result_simps demote_record_def split: prod.splits bool.splits)
  with feature_wf_ops(4) [OF assms(2), of r] show ?thesis by (simp add: feature_demote_def)
qed

lemma keeps_demote_tree: "keeps (\<lambda>s. same_tree m0 (snd s)) (demote env i)"
  unfolding demote_def
  by (auto intro!: keeps_if keeps_bind keeps_gets keeps_lift keeps_on_outside keeps_on_hall keeps_return
        same_tree_update demote_record_same split: option.split prod.split)

section \<open>Delete\<close>

text \<open>Every feature comes before its children.\<close>

fun parents_first :: "hall \<Rightarrow> feature list \<Rightarrow> bool" where
  "parents_first m [] \<longleftrightarrow> True"
| "parents_first m (f # fs) \<longleftrightarrow> set (children_of m (ft_name f)) \<subseteq> set fs \<and> parents_first m fs"

lemma parents_first_append:
  "parents_first m xs \<Longrightarrow> parents_first m ys \<Longrightarrow> parents_first m (xs @ ys)"
  by (induction xs) auto

lemma preorder_head: "preorder m d f ys \<Longrightarrow> (d, f) \<in> set ys"
  by (auto simp: preorder_iff)

lemma children_in_rows: "list_all2 (preorder m d) cs yss \<Longrightarrow> set cs \<subseteq> snd ` set (concat yss)"
  by (induction rule: list_all2_induct) (force dest: preorder_head)+

lemma rows_parents_first:
  "list_all2 (\<lambda>c ys. parents_first m (map snd ys)) cs yss \<Longrightarrow> parents_first m (map snd (concat yss))"
  by (induction rule: list_all2_induct) (auto intro: parents_first_append)

lemma preorder_parents_first: "preorder m d f ys \<Longrightarrow> parents_first m (map snd ys)"
proof (induction rule: preorder.induct)
  case (preorder d f yss)
  then have rows: "list_all2 (preorder m (Suc d)) (sort_names (children_of m (ft_name f))) yss"
    and each: "list_all2 (\<lambda>c ys. parents_first m (map snd ys)) (sort_names (children_of m (ft_name f))) yss"
    by (auto elim!: list_all2_mono)
  from children_in_rows [OF rows] rows_parents_first [OF each] show ?case by simp
qed

lemma subtree_parents_first:
  assumes "preorders m (Suc d) (ft_name f) ys"
  shows "parents_first m (f # map snd ys)"
proof -
  have "preorder m d f ((d, f) # ys)" using assms by (simp add: preorder_iff)
  from preorder_parents_first [OF this] show ?thesis by simp
qed

text \<open>Each feature has no child left when its turn comes.\<close>

fun leaves_first :: "hall \<Rightarrow> feature list \<Rightarrow> bool" where
  "leaves_first m [] \<longleftrightarrow> True"
| "leaves_first m (f # fs) \<longleftrightarrow> bt_get m (ft_name f) = Some f \<and> children_of m (ft_name f) = []
     \<and> leaves_first (bt_remove (ft_name f) m) fs"

lemma map_ok_remove:
  assumes "map_ok m"
  shows "map_ok (bt_remove n m)"
proof -
  have s: "bt_sorted m" using assms by (simp add: map_ok_def)
  have "ft_name f = k" if "bt_get (bt_remove n m) k = Some f" for k f
    using that assms unfolding bt.get_remove [OF s] map_ok_def by (simp split: if_splits)
  with bt.invar_remove [OF s] show ?thesis unfolding map_ok_def by blast
qed

lemma children_remove:
  assumes "map_ok m"
  shows "set (children_of (bt_remove n m) k) = {c \<in> set (children_of m k). ft_name c \<noteq> n}"
proof (intro set_eqI)
  fix c
  have s: "bt_sorted m" using assms by (simp add: map_ok_def)
  show "c \<in> set (children_of (bt_remove n m) k) \<longleftrightarrow> c \<in> {c \<in> set (children_of m k). ft_name c \<noteq> n}"
    unfolding mem_Collect_eq children_of_iff [OF assms] children_of_iff [OF map_ok_remove [OF assms]] bt.get_remove [OF s]
    by simp
qed

lemma parents_first_remove:
  "map_ok m \<Longrightarrow> parents_first m (zs @ [z]) \<Longrightarrow> parents_first (bt_remove (ft_name z) m) zs"
proof (induction zs)
  case (Cons y zs)
  have "c = z" if "c \<in> set (children_of m (ft_name y))" "c \<notin> set zs" for c
    using that Cons.prems(2) by auto
  with Cons show ?case by (auto simp: children_remove)
qed simp

lemma parents_first_last: "parents_first m (zs @ [z]) \<Longrightarrow> children_of m (ft_name z) = []"
  by (induction zs) auto

lemma parents_first_rev:
  "map_ok m \<Longrightarrow> parents_first m zs \<Longrightarrow> distinct zs \<Longrightarrow> \<forall>z \<in> set zs. bt_get m (ft_name z) = Some z \<Longrightarrow> leaves_first m (rev zs)"
proof (induction zs arbitrary: m rule: rev_induct)
  case (snoc z zs)
  have "bt_get (bt_remove (ft_name z) m) (ft_name y) = Some y" if y: "y \<in> set zs" for y
  proof -
    have "bt_get m (ft_name y) = Some y" "bt_get m (ft_name z) = Some z" "y \<noteq> z" using snoc.prems(3,4) y by auto
    from this have "ft_name y \<noteq> ft_name z" by (metis option.inject)
    moreover have "bt_sorted m" using snoc.prems(1) unfolding map_ok_def by blast
    ultimately show ?thesis using \<open>bt_get m (ft_name y) = Some y\<close> by (simp add: bt.get_remove)
  qed
  then have "leaves_first (bt_remove (ft_name z) m) (rev zs)"
    using snoc.IH [OF map_ok_remove [OF snoc.prems(1)] parents_first_remove [OF snoc.prems(1,2)]] snoc.prems(3) by auto
  with snoc.prems(4) parents_first_last [OF snoc.prems(2)] show ?case by simp
qed simp

lemma hall_ok_remove:
  assumes ok: "hall_ok m" and leaf: "children_of m n = []"
  shows "hall_ok (bt_remove n m)"
proof -
  note mok = hall_ok_facts(1) [OF ok] and v = hall_ok_facts(2) [OF ok] and s = hall_ok_facts(3) [OF ok]
  have get: "bt_get (bt_remove n m) k = (if k = n then None else bt_get m k)" for k by (simp add: bt.get_remove [OF s])
  have old: "bt_get m k = Some f" if "bt_get (bt_remove n m) k = Some f" for k f
    using that unfolding get by (simp split: if_splits)
  have sub: "up (bt_remove n m) \<subseteq> up m" using old by (auto simp: up_def)
  have "acyclic (up (bt_remove n m))" using v sub unfolding tree_valid_def by (blast intro: acyclic_subset)
  moreover have "bt_get (bt_remove n m) p \<noteq> None" if "(k, p) \<in> up (bt_remove n m)" for k p
  proof -
    have kp: "(k, p) \<in> up m" using that sub by blast
    then have "p \<noteq> n" using up_child [OF mok, of k n] leaf by auto
    with kp v show ?thesis unfolding tree_valid_def get by auto
  qed
  moreover have "a = b" if "bt_get (bt_remove n m) a = Some f" "bt_get (bt_remove n m) b = Some g" "ft_branch f = ft_branch g" for a b f g
    using old [OF that(1)] old [OF that(2)] that(3) ok unfolding hall_ok_def by blast
  moreover have "feature_wf f" if "bt_get (bt_remove n m) a = Some f" for a f
    using old [OF that] ok unfolding hall_ok_def by blast
  ultimately show ?thesis using map_ok_remove [OF mok] unfolding hall_ok_def tree_valid_def by blast
qed
text \<open>The names the loop removed, in order, are those of the rows marked so.\<close>

definition removed_names :: "deleted_feature list \<Rightarrow> feature_name set" where
  "removed_names rows = df_name ` {d \<in> set rows. df_removed d}"

lemma removed_names_Cons:
  assumes "df_removed d"
  shows "removed_names (d # rows) = insert (df_name d) (removed_names rows)"
proof -
  have "{e \<in> set (d # rows). df_removed e} = insert d {e \<in> set rows. df_removed e}" using assms by auto
  then show ?thesis by (simp only: removed_names_def image_insert)
qed

lemma delete_loop_keeps_hall:
  "leaves_first (snd s) fs \<Longrightarrow> hall_ok (snd s) \<Longrightarrow> delete_loop env fs s = (r, s') \<Longrightarrow>
     hall_ok (snd s') \<and> (\<exists>k \<le> length fs. (\<forall>n. bt_get (snd s') n =
        (if n \<in> ft_name ` set (take k fs) then None else bt_get (snd s) n))
      \<and> (\<forall>rows ws. r = Inr (rows, ws) \<longrightarrow> removed_names rows = ft_name ` set (take k fs)))"
proof (induction fs arbitrary: s r s')
  case Nil
  then show ?case by (auto simp: return_s_def removed_names_def)
next
  case (Cons f fs)
  note step = Cons.prems(3) [unfolded delete_loop.simps]
  obtain r1 s1 where one: "on_outside (teardown_worktrees env f (map fst (ft_promotions f))) s = (r1, s1)"
    by (rule prod.exhaust)
  then have s1: "snd s1 = snd s" by (auto simp: on_outside_def split: prod.splits)
  have none: ?case if "snd s' = snd s" "\<forall>rows ws. r = Inr (rows, ws) \<longrightarrow> removed_names rows = {}"
    using Cons.prems(2) that by (intro conjI exI [of _ 0]) simp_all
  show ?case
  proof (cases "\<exists>removals ws. r1 = Inr (removals, ws) \<and> list_all wr_removed removals")
    case False
    then have "snd s' = snd s1" "\<forall>rows ws. r = Inr (rows, ws) \<longrightarrow> removed_names rows = {}" using step one
      by (cases r1; auto simp: bind_s_def return_s_def removed_names_def split: prod.splits if_splits)+
    with s1 none show ?thesis by simp
  next
    case True
    then obtain removals ws where r1: "r1 = Inr (removals, ws)" "list_all wr_removed removals" by blast
    obtain r2 s2 where two: "on_outside (remove_feature_dir env f) s1 = (r2, s2)" by (rule prod.exhaust)
    then have s2: "snd s2 = snd s" using s1 by (auto simp: on_outside_def split: prod.splits)
    show ?thesis
    proof (cases r2)
      case (Inl e)
      then have "snd s' = snd s2" "\<forall>rows ws. r = Inr (rows, ws) \<longrightarrow> removed_names rows = {}"
        using step one r1 two by (auto simp: bind_s_def)
      with s2 none show ?thesis by simp
    next
      case (Inr u)
      let ?s3 = "(fst s2, bt_remove (ft_name f) (snd s))"
      have three: "on_hall (\<lambda>m. (Inr (), bt_remove (ft_name f) m)) s2 = (Inr (), ?s3)"
        by (simp add: on_hall_def s2)
      let ?g3 = "snd (emit_deleted env f removals (fst s2))"
      have told: "on_outside (emit_deleted env f removals) ?s3 = (Inr (), (?g3, bt_remove (ft_name f) (snd s)))"
        by (simp add: on_outside_def emit_deleted_def)
      obtain w g4 where layers: "dl_drop_layers env (ft_name f) ?g3 = (w, g4)" by (rule prod.exhaust)
      let ?s4 = "(g4, bt_remove (ft_name f) (snd s))"
      have four: "on_outside (drop_feature_layers env f) (?g3, bt_remove (ft_name f) (snd s)) = (Inr w, ?s4)"
        by (simp add: on_outside_def drop_feature_layers_def layers)
      obtain r5 s5 where five: "delete_loop env fs ?s4 = (r5, s5)" by (rule prod.exhaust)
      let ?row = "\<lparr>df_name = ft_name f, df_worktrees = removals, df_removed = True\<rparr>"
      have run: "(r, s') = (case r5 of Inl e \<Rightarrow> (Inl e, s5)
          | Inr (rows, ws') \<Rightarrow> (Inr (?row # rows, ws @ opt_list w @ ws'), s5))"
        using step by (cases r5) (auto simp: bind_s_def one r1 two Inr three told four five return_s_def split: prod.splits)
      then have s': "s' = s5" by (cases r5) auto
      have names: "removed_names (?row # rows) = insert (ft_name f) (removed_names rows)" for rows
        by (simp add: removed_names_Cons)
      have r: "\<exists>rows' ws'. r5 = Inr (rows', ws') \<and> removed_names rows = insert (ft_name f) (removed_names rows')"
        if "r = Inr (rows, ws)" for rows ws
        using run that names by (cases r5) auto
      have leaf: "children_of (snd s) (ft_name f) = []" "leaves_first (snd ?s4) fs" using Cons.prems(1) by simp_all
      have ok4: "hall_ok (snd ?s4)" using hall_ok_remove [OF Cons.prems(2) leaf(1)] by simp
      from Cons.IH [OF leaf(2) ok4 five] obtain k where k: "hall_ok (snd s5)" "k \<le> length fs"
        "\<forall>n. bt_get (snd s5) n = (if n \<in> ft_name ` set (take k fs) then None else bt_get (snd ?s4) n)"
        "\<forall>rows ws. r5 = Inr (rows, ws) \<longrightarrow> removed_names rows = ft_name ` set (take k fs)" by blast
      have "bt_get (snd s5) n = (if n \<in> ft_name ` set (take (Suc k) (f # fs)) then None else bt_get (snd s) n)" for n
        using k(3) hall_ok_facts(3) [OF Cons.prems(2)] by (simp add: bt.get_remove)
      moreover have "\<forall>rows ws. r = Inr (rows, ws) \<longrightarrow> removed_names rows = ft_name ` set (take (Suc k) (f # fs))"
      proof (intro allI impI)
        fix rows ws'
        assume "r = Inr (rows, ws')"
        from r [OF this] obtain rows' ws'' where "r5 = Inr (rows', ws'')" "removed_names rows = insert (ft_name f) (removed_names rows')"
          by blast
        with k(4) show "removed_names rows = ft_name ` set (take (Suc k) (f # fs))" by simp
      qed
      ultimately show ?thesis using k(1,2) s' by (intro conjI exI [of _ "Suc k"]) simp_all
    qed
  qed
qed
text \<open>The nodes of a deletion: the subtree in preorder, read from its end, and the feature itself.\<close>

lemma delete_nodes_leaves_first:
  assumes ok: "hall_ok m" and f: "bt_get m n = Some f"
  shows "\<exists>ys. descendants_from_values m n = Some ys \<and> leaves_first m (rev (map snd ys) @ [f])
     \<and> (\<forall>g. g \<in> insert f (snd ` set ys) \<longleftrightarrow> bt_get m (ft_name g) = Some g \<and> (ft_name g, n) \<in> (up m)\<^sup>*)"
proof -
  note mok = hall_ok_facts(1) [OF ok]
  have name: "ft_name f = n" using f mok unfolding map_ok_def by blast
  have off: "(n, n) \<notin> (up m)\<^sup>+" using hall_ok_facts(2) [OF ok] by (auto simp: tree_valid_def acyclic_def)
  obtain ys where ys: "preorders m 1 n ys" using preorders_exist [OF mok off] by blast
  have rows: "(e, g) \<in> set ys \<longleftrightarrow> (\<exists>k. e = 1 + k \<and> bt_get m (ft_name g) = Some g \<and> (ft_name g, n) \<in> up m ^^ Suc k)" for e g
    by (rule preorders_rows [OF mok ys])
  have below: "g \<in> snd ` set ys \<longleftrightarrow> bt_get m (ft_name g) = Some g \<and> (ft_name g, n) \<in> (up m)\<^sup>+" for g
  proof -
    have "g \<in> snd ` set ys \<longleftrightarrow> (\<exists>e. (e, g) \<in> set ys)" by force
    also have "\<dots> \<longleftrightarrow> bt_get m (ft_name g) = Some g \<and> (\<exists>k. (ft_name g, n) \<in> up m ^^ Suc k)" unfolding rows by blast
    also have "(\<exists>k. (ft_name g, n) \<in> up m ^^ Suc k) \<longleftrightarrow> (ft_name g, n) \<in> (up m)\<^sup>+"
      unfolding trancl_power gr0_conv_Suc by blast
    finally show ?thesis .
  qed
  have fresh: "f \<notin> snd ` set ys" using below [of f] off name by simp
  have all: "g \<in> insert f (snd ` set ys) \<longleftrightarrow> bt_get m (ft_name g) = Some g \<and> (ft_name g, n) \<in> (up m)\<^sup>*" for g
  proof (cases "ft_name g = n")
    case True
    with f name off below [of g] show ?thesis by auto
  next
    case False
    with below [of g] name show ?thesis by (auto simp: rtrancl_eq_or_trancl)
  qed
  have "parents_first m (f # map snd ys)" using subtree_parents_first [of m 0 f ys] ys name by simp
  moreover have "distinct (f # map snd ys)" using preorders_distinct [OF mok ys off] fresh by simp
  moreover have "\<forall>z \<in> set (f # map snd ys). bt_get m (ft_name z) = Some z" using all by auto
  ultimately have "leaves_first m (rev (f # map snd ys))" by (rule parents_first_rev [OF mok])
  then have "leaves_first m (rev (map snd ys) @ [f])" by simp
  with descendants_preorders [OF mok ys] all show ?thesis by blast
qed

lemma gets_s_eq: "gets_s f s = (f s, s)"
  by (simp add: gets_s_def)

lemma delete_result:
  assumes ok: "hall_ok (snd s)"
  shows "\<exists>r s'. delete env t force mode s = Some (r, s') \<and> hall_ok (snd s')
    \<and> (\<exists>gone. (\<forall>n. bt_get (snd s') n = (if n \<in> gone then None else bt_get (snd s) n))
        \<and> (\<forall>n \<in> gone. \<exists>k. named (feature_name_new t) = Inr k \<and> (n, k) \<in> (up (snd s))\<^sup>*))
    \<and> (\<forall>out ws. r = Inr (out, ws) \<longrightarrow> de_removed out \<longrightarrow>
        (\<forall>n. (n, de_name out) \<in> (up (snd s))\<^sup>* \<longrightarrow> bt_get (snd s') n = None))"
proof -
  let ?m = "snd s"
  note mok = hall_ok_facts(1) [OF ok]
  let ?start = "and_then (named (feature_name_new t)) (\<lambda>n. and_then (read_feature ?m n) (\<lambda>f.
           and_then (read_all ?m) (\<lambda>fs. Inr (n, f, fs))))"
  have unchanged: ?thesis if "delete env t force mode s = Some (Inl e, s)" for e
    using that ok by (intro exI [of _ "Inl e"] exI [of _ s]) (simp, intro exI [of _ "{}"], simp)
  show ?thesis
  proof (cases ?start)
    case (Inl e)
    then show ?thesis by (intro unchanged [of e]) (simp add: delete_def)
  next
    case (Inr x)
    then obtain n f fs where x: "x = (n, f, fs)" and n: "named (feature_name_new t) = Inr n"
      and f: "read_feature ?m n = Inr f" and fs: "read_all ?m = Inr fs"
      by (auto simp: result_simps)
    have get: "bt_get ?m n = Some f" using f by (auto simp: read_feature_def split: option.splits)
    have name: "ft_name f = n" using get mok unfolding map_ok_def by blast
    have fm: "feature_map fs = ?m" using fs feature_map_values [OF mok] by (simp add: hall_read_all [OF ok])
    from delete_nodes_leaves_first [OF ok get] obtain ys where ys: "descendants_from_values ?m n = Some ys"
      and lf: "leaves_first ?m (rev (map snd ys) @ [f])"
      and nodes: "\<forall>g. g \<in> insert f (snd ` set ys) \<longleftrightarrow> bt_get ?m (ft_name g) = Some g \<and> (ft_name g, n) \<in> (up ?m)\<^sup>*" by blast
    let ?fs = "rev (map snd ys) @ [f]"
    obtain r5 s5 where loop: "delete_loop env ?fs s = (r5, s5)" by (rule prod.exhaust)
    from delete_loop_keeps_hall [OF lf ok loop] obtain k where k: "hall_ok (snd s5)" "k \<le> length ?fs"
      "\<forall>q. bt_get (snd s5) q = (if q \<in> ft_name ` set (take k ?fs) then None else bt_get ?m q)"
      "\<forall>rows ws. r5 = Inr (rows, ws) \<longrightarrow> removed_names rows = ft_name ` set (take k ?fs)" by blast
    have below: "(q, n) \<in> (up ?m)\<^sup>*" if "q \<in> ft_name ` set (take k ?fs)" for q
    proof -
      from that obtain g where g: "g \<in> set ?fs" "q = ft_name g" using set_take_subset [of k ?fs] by blast
      then have "g \<in> insert f (snd ` set ys)" by auto
      with nodes g(2) show ?thesis by blast
    qed
    let ?pre = "\<lambda>s. bind_s (lift_s (check_descendants_consent env n ys mode force)) (\<lambda>_.
            bind_s (gets_s (\<lambda>t. if force then Inr () else preflight_subtree_clean env (fst t) n (map snd ys @ [f]) (ys = []))) (\<lambda>_.
            gets_s (\<lambda>t. preflight_subtree_removable env (fst t) n (map snd ys @ [f])))) s"
    have run: "delete env t force mode s = Some (case ?pre s of (Inl e, u) \<Rightarrow> (Inl e, u)
        | (Inr _, u) \<Rightarrow> bind_s (delete_loop env ?fs) (\<lambda>(rows, ws). return_s (delete_report env n rows, ws)) u)"
      using ys fm by (simp add: delete_def Inr x bind_s_def lift_s_def gets_s_def Let_def split: sum.split)
    obtain p u where pre: "?pre s = (p, u)" by (rule prod.exhaust)
    have u: "u = s" using pre by (auto simp: bind_s_def lift_s_def gets_s_def split: sum.splits)
    show ?thesis
    proof (cases p)
      case (Inl e)
      then show ?thesis using run pre u by (intro unchanged [of e]) simp
    next
      case (Inr v)
      let ?r = "case r5 of Inl e \<Rightarrow> Inl e | Inr (rows, ws) \<Rightarrow> Inr (delete_report env n rows, ws)"
      have res: "delete env t force mode s = Some (?r, s5)"
        using run pre u Inr loop by (simp add: bind_s_def return_s_def split: sum.split prod.split)
      have whole: "bt_get (snd s5) q = None"
        if "?r = Inr (out, ws)" "de_removed out" "(q, de_name out) \<in> (up ?m)\<^sup>*" for out ws q
      proof -
        note result = that(1)
        obtain rows ws' where rows: "r5 = Inr (rows, ws')" using result by (cases r5) auto
        with result have out: "out = delete_report env n rows" by simp
        then have "de_name out = n" "n \<in> removed_names rows"
          using that(2) by (auto simp: delete_report_def removed_names_def list_ex_iff)
        with rows k(4) have "n \<in> ft_name ` set (take k ?fs)" by simp
        then have gone: "bt_get (snd s5) n = None" using k(3) by simp
        have "bt_get (snd s5) q = None" if "(q, n) \<in> (up ?m)\<^sup>*" for q
          using that
        proof (induction rule: converse_rtrancl_induct)
          case base
          show ?case by (rule gone)
        next
          case (step q p)
          show ?case
          proof (rule ccontr)
            assume q: "bt_get (snd s5) q \<noteq> None"
            then have "bt_get (snd s5) q = bt_get ?m q" using k(3) by (metis (no_types))
            with step.hyps(1) q have "(q, p) \<in> up (snd s5)" by (simp add: up_def)
            with hall_ok_facts(2) [OF k(1)] step.IH show False unfolding tree_valid_def by blast
          qed
        qed
        with that(3) \<open>de_name out = n\<close> show ?thesis by simp
      qed
      from k(1,3) n below res whole show ?thesis
        by (intro exI [of _ ?r] exI [of _ s5] conjI allI impI) (blast, blast, blast, blast)
    qed
  qed
qed

section \<open>Sequences of verbs\<close>

text \<open>One call of a verb, with any environment, and whatever its result.\<close>

inductive hall_step :: "'g \<times> hall \<Rightarrow> 'g \<times> hall \<Rightarrow> bool" where
  created: "create lay i m = (r, m') \<Longrightarrow> hall_step (g, m) (g, m')"
| reparented: "reparent w fr ct pt m = Some (r, m') \<Longrightarrow> hall_step (g, m) (g, m')"
| promoted: "promote k env i s = (r, s') \<Longrightarrow> hall_step s s'"
| demoted: "demote env j s = (r, s') \<Longrightarrow> hall_step s s'"
| deleted: "delete env t force mode s = Some (r, s') \<Longrightarrow> hall_step s s'"

lemma keeps_snd: "keeps (\<lambda>s. P (snd s)) v \<Longrightarrow> v s = (r, s') \<Longrightarrow> P (snd s) \<Longrightarrow> P (snd s')"
  by (metis keepsD)

lemma promote_same: "promote k env i s = (r, s') \<Longrightarrow> hall_ok (snd s) \<Longrightarrow> same_receipts (snd s) (snd s')"
  by (rule keeps_snd [OF keeps_promote]) (simp_all add: same_receipts_def same_tree_def)

lemma demote_same: "demote env i s = (r, s') \<Longrightarrow> hall_ok (snd s) \<Longrightarrow> same_tree (snd s) (snd s')"
  by (rule keeps_snd [OF keeps_demote_tree]) (simp_all add: same_tree_def)

lemma hall_step_keeps: "hall_step s s' \<Longrightarrow> hall_ok (snd s) \<Longrightarrow> hall_ok (snd s')"
proof (induction rule: hall_step.induct)
  case (created lay i m r m' g)
  then show ?case using create_keeps_hall [of m lay i] by simp
next
  case (reparented w fr ct pt m r m' g)
  then show ?case using reparent_keeps_hall [of m w fr ct pt r m'] by simp
next
  case (promoted k env i s r s')
  from promote_same [OF this] show ?case by (simp add: same_receipts_def same_tree_def)
next
  case (demoted env j s r s')
  from demote_same [OF this] show ?case by (simp add: same_tree_def)
next
  case (deleted env t force mode s r s')
  from delete_result [OF this(2), of env t force mode] this(1) show ?case by auto
qed

lemma hall_ok_empty: "hall_ok []"
  by (simp add: hall_ok_def map_ok_def tree_valid_def up_def acyclic_def bt_get_def bt.invar_empty [unfolded bt_empty_def])

text \<open>The receipts that lock a promotion.\<close>

definition locked :: "hall \<Rightarrow> feature_name \<Rightarrow> repo_name \<Rightarrow> integration_receipt \<Rightarrow> bool" where
  "locked m n r rc \<longleftrightarrow> receipt_of m n r = Some rc \<and> evidence_passed (ir_verification rc)"

lemma receipt_of_insert:
  "bt_sorted m \<Longrightarrow> receipt_of (bt_insert k f m) n r =
     (if n = k then Option.bind (bt_get (ft_promotions f) r) pr_receipt else receipt_of m n r)"
  by (simp add: receipt_of_def bt.get_insert)

lemma receipt_of_known: "receipt_of m n r = Some rc \<Longrightarrow> bt_get m n \<noteq> None"
  by (cases "bt_get m n") (simp_all add: receipt_of_def)

lemma create_locked:
  assumes ok: "hall_ok m" and c: "create lay i m = (res, m')" and l: "locked m n r rc"
  shows "locked m' n r rc"
proof (cases "create_feature lay m i")
  case (Inl e)
  with c l show ?thesis by (simp add: create_def)
next
  case (Inr f)
  with c have m': "m' = bt_insert (ft_name f) f m" by (simp add: create_def)
  have "n \<noteq> ft_name f" using create_feature_ok(1) [OF ok Inr] l receipt_of_known [of m n r rc] by (auto simp: locked_def)
  with l show ?thesis by (simp add: m' locked_def receipt_of_insert [OF hall_ok_facts(3) [OF ok]])
qed

lemma reparent_locked:
  assumes ok: "hall_ok m" and p: "reparent w fr ct pt m = Some (res, m')" and l: "locked m n r rc"
  shows "locked m' n r rc"
proof (cases res)
  case (Inl e)
  with reparent_failure p l show ?thesis by blast
next
  case (Inr out)
  from reparent_success [OF ok p [unfolded Inr]] obtain child parent :: feature where
    get: "bt_get m (ft_name child) = Some child"
    and m': "m' = bt_insert (ft_name child) (child\<lparr>ft_parent := Some (ft_name parent), ft_base := Some (ft_branch parent)\<rparr>) m"
    by blast
  have "receipt_of m' = receipt_of m" unfolding m' by (rule receipts_insert [OF hall_ok_facts(3) [OF ok] get]) simp
  with l show ?thesis by (simp add: locked_def)
qed

lemma demote_record_locked:
  assumes wf: "feature_wf f" and d: "demote_record integrated k q f = Inr f'"
    and p: "Option.bind (bt_get (ft_promotions f) r) pr_receipt = Some rc" "evidence_passed (ir_verification rc)"
  shows "Option.bind (bt_get (ft_promotions f') r) pr_receipt = Some rc"
proof -
  from d have free: "\<not> promotion_has_successful_receipt f q" and f': "f' = snd (feature_demote q f)"
    by (auto simp: demote_record_def result_simps ensure_promotion_mutable_def split: if_splits prod.splits bool.splits)
  have "r \<noteq> q" using free p by (auto simp: promotion_has_successful_receipt_def receipt_passed_def bind_eq_Some_conv)
  with p promotion_lookup(3) [OF wf, of q r] show ?thesis by (simp add: f')
qed

lemma update_locked:
  assumes ok: "hall_ok m" and l: "locked m n r rc"
    and d: "\<And>cur new. f cur = Inr new \<Longrightarrow> \<exists>integrated q. demote_record integrated k q cur = Inr new"
  shows "locked (snd (update_feature k f m)) n r rc"
proof -
  obtain res m' where u: "update_feature k f m = (res, m')" by fastforce
  show ?thesis
  proof (cases "m' = m")
    case False
    with update_feature_skeleton_free [OF u] obtain cur new where
      c: "bt_get m k = Some cur" "f cur = Inr new" "m' = bt_insert k new m" by blast
    from d [OF c(2)] obtain integrated q where rec: "demote_record integrated k q cur = Inr new" by blast
    have "feature_wf cur" using ok c(1) unfolding hall_ok_def by blast
    from demote_record_locked [OF this rec, of r rc] l c(1) have "locked (bt_insert k new m) n r rc"
      by (cases "n = k") (simp_all add: locked_def receipt_of_def bt.get_insert [OF hall_ok_facts(3) [OF ok]])
    with u c(3) show ?thesis by simp
  qed (use u l in simp)
qed

lemma keeps_demote_locked: "keeps (\<lambda>s. same_tree m0 (snd s) \<and> locked (snd s) n r rc) (demote env i)"
proof -
  have both: "same_tree m0 (snd (update_feature k (\<lambda>f. and_then (is_fully_integrated w f) (\<lambda>b. demote_record b k q f)) m))
      \<and> locked (snd (update_feature k (\<lambda>f. and_then (is_fully_integrated w f) (\<lambda>b. demote_record b k q f)) m)) n r rc"
    if "same_tree m0 m \<and> locked m n r rc" for k w q m
  proof
    have ok: "hall_ok m" using that by (simp add: same_tree_def)
    show "locked (snd (update_feature k (\<lambda>f. and_then (is_fully_integrated w f) (\<lambda>b. demote_record b k q f)) m)) n r rc"
      using that by (intro update_locked [OF ok]) (auto simp: result_simps)
    show "same_tree m0 (snd (update_feature k (\<lambda>f. and_then (is_fully_integrated w f) (\<lambda>b. demote_record b k q f)) m))"
      using that by (intro same_tree_update demote_record_same) auto
  qed
  show ?thesis
    unfolding demote_def
    by (auto intro!: keeps_if keeps_bind keeps_gets keeps_lift keeps_return keeps_on_outside [where P = "\<lambda>m. same_tree m0 m \<and> locked m n r rc"]
         keeps_on_hall [where P = "\<lambda>m. same_tree m0 m \<and> locked m n r rc"] both split: option.split prod.split)
qed

lemma hall_step_locked:
  "hall_step s s' \<Longrightarrow> hall_ok (snd s) \<Longrightarrow> locked (snd s) n r rc \<Longrightarrow> locked (snd s') n r rc \<or> bt_get (snd s') n = None"
proof (induction rule: hall_step.induct)
  case (created lay i m res m' g)
  then show ?case using create_locked [of m lay i res m' n r rc] by simp
next
  case (reparented w fr ct pt m res m' g)
  then show ?case using reparent_locked [of m w fr ct pt res m' n r rc] by simp
next
  case (promoted k env i s res s')
  from promote_same [OF promoted(1,2)] promoted(3) show ?case by (simp add: same_receipts_def locked_def)
next
  case (demoted env j s res s')
  from keepsD [OF keeps_demote_locked [of "snd s" n r rc env j] _ demoted(1)] demoted(2,3)
  show ?case by (simp add: same_tree_def)
next
  case (deleted env t force mode s res s')
  from delete_result [OF deleted(2), of env t force mode] deleted(1) obtain gone where
    "\<forall>k. bt_get (snd s') k = (if k \<in> gone then None else bt_get (snd s) k)" by auto
  with deleted(3) show ?case by (cases "n \<in> gone") (simp_all add: locked_def receipt_of_def)
qed

lemma on_outside_hall: "on_outside op s = (r, s') \<Longrightarrow> snd s' = snd s"
  by (auto simp: on_outside_def split: prod.splits)

definition recorded :: "hall \<Rightarrow> feature_name \<Rightarrow> repo_name \<Rightarrow> bool" where
  "recorded m n r \<longleftrightarrow> (\<exists>f p. bt_get m n = Some f \<and> bt_get (ft_promotions f) r = Some p \<and> pr_base p \<noteq> None
     \<and> (pr_worktree p = WtReady \<and> pr_reason p = None \<or> pr_worktree p = WtFailed \<and> pr_reason p \<noteq> None))"

lemma ready_recorded:
  assumes ok: "hall_ok m" and cur: "bt_get m n = Some cur"
  shows "recorded (bt_insert n (ready_promotion r b cur) m) n r"
proof -
  have wf: "feature_wf cur" using ok cur unfolding hall_ok_def by blast
  obtain p where "bt_get (ft_promotions (ready_promotion r b cur)) r = Some p" "pr_base p = Some b" "pr_worktree p = WtReady" "pr_reason p = None"
    using promotion_lookup(1) [OF wf, of r r]
    by (cases "bt_get (ft_promotions cur) r") (auto simp: ready_promotion_def Let_def bt_get_update bt_contains_def)
  then show ?thesis unfolding recorded_def by (auto simp: bt.get_insert [OF hall_ok_facts(3) [OF ok]])
qed

lemma failure_recorded:
  assumes ok: "hall_ok (snd s)" and rec: "recorded (snd s) n r" and f: "record_setup_failure n r reason s = (Inr u, s')"
  shows "recorded (snd s') n r"
proof -
  from rec obtain cur p where c: "bt_get (snd s) n = Some cur" "bt_get (ft_promotions cur) r = Some p" "pr_base p \<noteq> None"
    unfolding recorded_def by blast
  have "snd s' = bt_insert n (cur\<lparr>ft_promotions := bt_update r (\<lambda>p. p\<lparr>pr_worktree := WtFailed, pr_reason := Some reason\<rparr>) (ft_promotions cur)\<rparr>) (snd s)"
    using f c(1) by (auto simp: record_setup_failure_def on_hall_def update_feature_def read_feature_def)
  with c show ?thesis unfolding recorded_def by (auto simp: bt.get_insert [OF hall_ok_facts(3) [OF ok]] bt_get_update)
qed

lemma promote_with_records:
  assumes ok: "hall_ok (snd s)" and P: "\<And>j. keeps (\<lambda>t. same_receipts (snd s) (snd t)) (P j)"
    and run: "promote_with env P i s = (Inr (out, ws), s')"
  shows "recorded (snd s') (po_feature out) (po_repo out) \<and> vn_declared env (po_repo out) \<noteq> None
     \<and> named (feature_name_new (pi_feature i)) = Inr (po_feature out) \<and> named (repo_name_new (pi_repo i)) = Inr (po_repo out)"
proof -
  note unf = run [unfolded promote_with_def Let_def read_git_def bind_s_iff lift_s_iff gets_s_iff return_s_iff case_prod_beta]
  from unf obtain n r f t1 b base present b2 u3 u1 x2 u2 x3 stored t2 x t3 u t4 w t5 where
    n: "named (feature_name_new (pi_feature i)) = Inr n" and r: "named (repo_name_new (pi_repo i)) = Inr r"
    and decl: "(case vn_declared env r of None \<Rightarrow> Inl (not_in_manifest r) | Some b \<Rightarrow> Inr b) = Inr b"
    and parents: "promote_parents env P i f r s = (Inr x2, u1)"
    and mk: "on_outside (vn_ensure_parent env (repo_worktree (tr_layout (vn_reads env)) r (ft_branch f))) u1 = (Inr x3, u2)"
    and tree: "(if present then return_s () else bind_s (on_git (g_prune_worktrees (vn_git env) (repo_bare (tr_layout (vn_reads env)) r)))
        (\<lambda>_. setup_or_adopt_branch (vn_git env) (repo_bare (tr_layout (vn_reads env)) r)
          (repo_worktree (tr_layout (vn_reads env)) r (ft_branch f)) f
          (branch_str (ft_branch f) \<in> set b2) base)) u2 = (Inr u3, t1)"
    and rec: "record_ready n r base t1 = (Inr stored, t2)"
    and su: "on_outside (vn_setup env stored r) t2 = (Inr x, t3)"
    and fail: "(case snd x of None \<Rightarrow> return_s () | Some y \<Rightarrow> record_setup_failure n r (snd y)) t3 = (Inr u, t4)"
    and re: "on_outside (vn_repoint env stored) t4 = (Inr w, t5)"
    and out: "po_feature out = n" "po_repo out = r" "s' = t5"
    by (elim exE conjE) (hypsubst_thin, rule that; (assumption | simp))
  let ?P = "\<lambda>t. same_receipts (snd s) (snd t)"
  have "?P s" using ok by (simp add: same_receipts_def same_tree_def)
  with keepsD [OF keeps_promote_parents [where P = P, OF P]] parents have "?P u1" by blast
  with on_outside_hall [OF mk] have u2: "?P u2" by simp
  have k: "keeps ?P (if present then return_s () else bind_s (on_git (g_prune_worktrees (vn_git env) (repo_bare (tr_layout (vn_reads env)) r)))
        (\<lambda>_. setup_or_adopt_branch (vn_git env) (repo_bare (tr_layout (vn_reads env)) r)
          (repo_worktree (tr_layout (vn_reads env)) r (ft_branch f)) f
          (branch_str (ft_branch f) \<in> set b2) base))"
    unfolding setup_or_adopt_branch_def by (intro keeps_if keeps_return keeps_bind keeps_on_git)
  have "?P t1" by (rule keepsD [OF k u2 tree])
  then have ok1: "hall_ok (snd t1)" by (simp add: same_receipts_def same_tree_def)
  from record_ready_result [OF rec] obtain cur where "bt_get (snd t1) n = Some cur"
    "snd t2 = bt_insert n (ready_promotion r base cur) (snd t1)" by auto
  with ready_recorded [OF ok1] have "recorded (snd t2) n r" by simp
  with on_outside_hall [OF su] have r3: "recorded (snd t3) n r" by simp
  have "?P t2" using keepsD [OF keeps_record_ready \<open>?P t1\<close> rec] .
  with on_outside_hall [OF su] have ok3: "hall_ok (snd t3)" by (simp add: same_receipts_def same_tree_def)
  have "recorded (snd t4) n r"
  proof (cases "snd x")
    case None
    with fail r3 show ?thesis by (simp add: return_s_iff)
  next
    case (Some y)
    with fail failure_recorded [OF ok3 r3] show ?thesis by simp
  qed
  with on_outside_hall [OF re] out n r decl show ?thesis by (auto split: option.splits)
qed

section \<open>Properties\<close>

text \<open>
  C1: the tree of features cannot be broken by the verbs: after any sequence of creations,
  reparentings, promotions, demotions and deletions, also of ones that failed half way,
  every feature is stored under its name, every parent exists, no feature is its own
  ancestor, no two features share a branch, and reading all of them succeeds.
\<close>

theorem verbs_keep_the_hall:
  assumes "hall_step\<^sup>*\<^sup>* (g, []) s"
  shows "read_all (snd s) = Inr (map snd (snd s)) \<and> hall_ok (snd s)"
proof -
  have "hall_ok (snd s)"
    using assms
  proof (induction rule: rtranclp_induct)
    case base
    show ?case by (simp add: hall_ok_empty)
  next
    case (step s s')
    then show ?case using hall_step_keeps by blast
  qed
  then show ?thesis by (simp add: hall_read_all)
qed

text \<open>
  C19: a promotion that carries a passing receipt keeps that receipt through create, reparent,
  promote, demote and delete, whether they fail or not; under these five it only goes with its
  whole feature.  The other verbs that write records are not in this statement.
\<close>

theorem locked_receipts_survive:
  assumes "hall_ok (snd s)" and "hall_step s s'" and "locked (snd s) n r rc"
  shows "locked (snd s') n r rc \<or> bt_get (snd s') n = None"
  using hall_step_locked [OF assms(2,1,3)] .

text \<open>
  C7: a deletion always returns, and whatever stops it, the features that go are in the
  subtree of the one named, the others are untouched, and no feature is left without its
  parent.  When it reports the feature as removed, the whole subtree is gone.
\<close>

theorem delete_takes_whole_subtree:
  assumes "hall_ok (snd s)"
  shows "\<exists>r s'. delete env t force mode s = Some (r, s') \<and> hall_ok (snd s')
    \<and> (\<exists>gone. (\<forall>n. bt_get (snd s') n = (if n \<in> gone then None else bt_get (snd s) n))
        \<and> (\<forall>n \<in> gone. \<exists>k. named (feature_name_new t) = Inr k \<and> (n, k) \<in> (up (snd s))\<^sup>*))
    \<and> (\<forall>out ws. r = Inr (out, ws) \<longrightarrow> de_removed out \<longrightarrow>
        (\<forall>n. (n, de_name out) \<in> (up (snd s))\<^sup>* \<longrightarrow> bt_get (snd s') n = None))"
  by (rule delete_result [OF assms])

text \<open>
  C28: promote asks for its parents upwards, one call for each, and stops.  The recursion is the
  step \<open>promote_with\<close> given the verb to call for a parent; iterated more often than the feature
  is deep, it never reaches the verb at the bottom: whatever that one does (an error, a change
  of the state, for all the model knows a call that never returns), the result is the same,
  and so it is the only solution of the recursive equation of the code.
\<close>

theorem promote_recursion_ends:
  assumes "hall_ok (snd s)" and "named (feature_name_new (pi_feature i)) = Inr n" and "bt_get (snd s) n \<noteq> None"
  shows "\<exists>d. depth_is (snd s) n d
    \<and> (\<forall>bottom. \<forall>k > d. (promote_with env ^^ k) bottom i s = promote (Suc d) env i s)
    \<and> (\<forall>verb. verb = promote_with env verb \<longrightarrow> verb i s = promote (Suc d) env i s)"
proof -
  from tree_valid_has_depth [OF hall_ok_facts(2) [OF assms(1)] assms(3)] obtain d where d: "depth_is (snd s) n d" by blast
  note any = promote_bottom_unused [OF hall_ok_facts(1) [OF assms(1)] d assms(2)]
  have "verb i s = promote (Suc d) env i s" if fixed: "verb = promote_with env verb" for verb
  proof -
    have "(promote_with env ^^ k) verb = verb" for k by (induction k) (use fixed in simp_all)
    with any [of "Suc d" env verb] show ?thesis by (simp del: promote.simps funpow.simps)
  qed
  with d any show ?thesis by blast
qed

text \<open>
  A successful promotion is recorded with a base, as ready or, when its setup failed, as
  failed with the reason, and only for a declared repository; and no promotion, failed or
  not, changes the tree or a receipt of any feature, the parents it promoted included.
\<close>

theorem promote_records_its_base:
  assumes "hall_ok (snd s)" and "promote k env i s = (res, s')"
  shows "skeleton (snd s') = skeleton (snd s) \<and> receipt_of (snd s') = receipt_of (snd s)
    \<and> (\<forall>out ws. res = Inr (out, ws) \<longrightarrow> recorded (snd s') (po_feature out) (po_repo out)
         \<and> vn_declared env (po_repo out) \<noteq> None
         \<and> named (feature_name_new (pi_feature i)) = Inr (po_feature out)
         \<and> named (repo_name_new (pi_repo i)) = Inr (po_repo out))"
proof -
  have "recorded (snd s') (po_feature out) (po_repo out) \<and> vn_declared env (po_repo out) \<noteq> None
      \<and> named (feature_name_new (pi_feature i)) = Inr (po_feature out)
      \<and> named (repo_name_new (pi_repo i)) = Inr (po_repo out)" if "res = Inr (out, ws)" for out ws
  proof (cases k)
    case 0
    with assms(2) that show ?thesis by (simp add: fail_s_def)
  next
    case (Suc k')
    with assms(2) that promote_with_records [OF assms(1) keeps_promote] show ?thesis by simp
  qed
  with promote_same [OF assms(2,1)] show ?thesis by (simp add: same_receipts_def same_tree_def)
qed

text \<open>
  A reparenting that succeeds moves a feature with no promotion and no child under an
  existing feature that is not below it, derives the base from the new parent's branch, and
  changes nothing else; one that fails changes nothing.
\<close>

theorem reparent_moves_pristine_leaf:
  assumes "hall_ok m" and "reparent w fr ct pt m = Some (res, m')"
  shows "case res of
      Inl e \<Rightarrow> m' = m
    | Inr out \<Rightarrow> \<exists>child parent. bt_get m (ro_child out) = Some child \<and> bt_get m (ro_new_parent out) = Some parent
        \<and> (ro_new_parent out, ro_child out) \<notin> (up m)\<^sup>* \<and> ft_promotions child = [] \<and> children_of m (ro_child out) = []
        \<and> (\<forall>n. bt_get m' n = (if n = ro_child out
              then Some (child\<lparr>ft_parent := Some (ro_new_parent out), ft_base := Some (ft_branch parent)\<rparr>) else bt_get m n))"
proof (cases res)
  case (Inl e)
  with reparent_failure assms(2) show ?thesis by simp
next
  case (Inr out)
  from reparent_success [OF assms(1) assms(2) [unfolded Inr]] obtain child parent :: feature where
    c: "bt_get m (ft_name child) = Some child" "bt_get m (ft_name parent) = Some parent" "ft_name child \<noteq> ft_name parent"
    "ft_promotions child = []" "children_of m (ft_name child) = []"
    "m' = bt_insert (ft_name child) (child\<lparr>ft_parent := Some (ft_name parent), ft_base := Some (ft_branch parent)\<rparr>) m"
    "ro_child out = ft_name child" "ro_new_parent out = ft_name parent" by blast
  have "(x, ft_name child) \<notin> up m" for x using up_child [OF hall_ok_facts(1) [OF assms(1)], of x "ft_name child"] c(5) by auto
  then have "(ft_name parent, ft_name child) \<notin> (up m)\<^sup>*" using c(3) by (auto elim: rtranclE)
  with c Inr show ?thesis by (auto simp: bt.get_insert [OF hall_ok_facts(3) [OF assms(1)]])
qed

section \<open>Witnesses\<close>

text \<open>Repositories without worktrees and with one branch, and a hall of two features.\<close>

definition sample_git :: "unit git" where
  "sample_git =
     \<lparr>g_is_dir = (\<lambda>g p. Inr False), g_target_state = (\<lambda>g p. Inr (if suffix ''.bare'' p then TargetRepository else TargetAbsent)),
      g_list_branches = (\<lambda>g p. Inr [''main'']), g_list_worktrees = (\<lambda>g p. Inr []), g_worktree_dirty = (\<lambda>g p. Inr False),
      g_commits_ahead = (\<lambda>g p a b. Inr 0), g_is_ancestor = (\<lambda>g p a b. Inr True),
      g_divergence = (\<lambda>g p a b. Inr \<lparr>dv_local_only = [], dv_remote_only = []\<rparr>), g_merge_base = (\<lambda>g p a b. Inr ''m''),
      g_commit_patch_id = (\<lambda>g p a. Inr ''i''), g_diff_patch_id = (\<lambda>g p a b. Inr ''i''),
      g_revision_commit = (\<lambda>g p a. Inr ''c''), g_remote_branch_tip = (\<lambda>g p a b. Inr None),
      g_add_worktree = (\<lambda>p a b g. (Inr (), g)), g_create_branch_and_worktree = (\<lambda>p a b c g. (Inr (), g)),
      g_worktree_git_dir = (\<lambda>g p. Inr p),
      g_remove_worktree = (\<lambda>p a g. (Inr (), g)), g_prune_worktrees = (\<lambda>p g. (Inr (), g)), g_delete_branch = (\<lambda>p a g. (Inr (), g)),
      g_rename_branch = (\<lambda>p a b g. (Inr (), g)), g_move_worktree = (\<lambda>p a b g. (Inr (), g)),
      g_push = (\<lambda>p a b c g. (Inr (), g)), g_delete_remote_branch = (\<lambda>p a b c g. (Inr (), g))\<rparr>"

definition sample_verb_env :: "unit verb_env" where
  "sample_verb_env =
     \<lparr>vn_git = sample_git, vn_reads = sample_reads, vn_declared = (\<lambda>r. Some (BranchName ''main'')),
      vn_ensure_parent = (\<lambda>p g. (Inr (), g)), vn_setup = (\<lambda>f r g. (Inr (True, None), g)),
      vn_repoint = (\<lambda>f g. (Inr [], g)), vn_confirm = (\<lambda>q. Inr True)\<rparr>"

definition sample_delete_env :: "unit delete_env" where
  "sample_delete_env =
     \<lparr>dl_git = sample_git, dl_layout = layout_at ''/h'', dl_interactive = False, dl_confirm = (\<lambda>q d. Inr True),
      dl_sessions = (\<lambda>g n. Inr []), dl_blockers = (\<lambda>g p. []), dl_remove_dir = (\<lambda>p g. (Inr (), g)), dl_emit = (\<lambda>s e g. g),
      dl_drop_layers = (\<lambda>n g. (None, g)), dl_prune_parents = (\<lambda>a b g. g)\<rparr>"

definition sample_create :: "string \<Rightarrow> string option \<Rightarrow> create_input" where
  "sample_create n p = \<lparr>ci_name = n, ci_branch = None, ci_base = None, ci_parent = p, ci_via = None, ci_strategy = None\<rparr>"

definition sample_hall :: hall where
  "sample_hall = snd (create (layout_at ''/h'') (sample_create ''cart'' (Some ''shop''))
     (snd (create (layout_at ''/h'') (sample_create ''shop'' None) [])))"

lemma sample_hall_ok: "hall_ok sample_hall"
  by (simp add: sample_hall_def create_keeps_hall hall_ok_empty)

theorem verbs_keep_the_hall_witness: "read_all sample_hall = Inr (map snd sample_hall) \<and> length sample_hall = 2"
proof -
  have step: "hall_step ((), m) ((), snd (create lay i m))" for lay i m
    by (rule hall_step.created [where r = "fst (create lay i m)"]) simp
  have "hall_step\<^sup>*\<^sup>* ((), []) ((), sample_hall)"
    unfolding sample_hall_def by (rule rtranclp.rtrancl_into_rtrancl [OF r_into_rtranclp [where r = hall_step, OF step] step])
  from verbs_keep_the_hall [OF this] have "read_all sample_hall = Inr (map snd sample_hall)" by simp
  moreover have "length sample_hall = 2" by code_simp
  ultimately show ?thesis by blast
qed

theorem delete_takes_whole_subtree_witness:
  "\<exists>r s'. delete sample_delete_env ''shop'' False DescConsented ((), sample_hall) = Some (r, s') \<and> snd s' = [] \<and> hall_ok (snd s')"
proof -
  obtain r s' where "delete sample_delete_env ''shop'' False DescConsented ((), sample_hall) = Some (r, s') \<and> hall_ok (snd s')"
    using delete_takes_whole_subtree [of "((), sample_hall)" sample_delete_env "''shop''" False DescConsented] sample_hall_ok by auto
  moreover have "map_option (\<lambda>x. snd (snd x)) (delete sample_delete_env ''shop'' False DescConsented ((), sample_hall)) = Some []"
    by code_simp
  ultimately show ?thesis by auto
qed

definition sample_promote :: promote_input where
  "sample_promote = \<lparr>pi_feature = ''cart'', pi_repo = ''api'', pi_base = None\<rparr>"

theorem promote_recursion_ends_witness:
  "\<exists>d. depth_is sample_hall (FeatureName ''cart'') d
     \<and> (\<forall>bottom. \<forall>k > d. (promote_with sample_verb_env ^^ k) bottom sample_promote ((), sample_hall)
          = promote (Suc d) sample_verb_env sample_promote ((), sample_hall))"
proof -
  have n: "named (feature_name_new (pi_feature sample_promote)) = Inr (FeatureName ''cart'')" by code_simp
  have "map_option ft_name (bt_get sample_hall (FeatureName ''cart'')) = Some (FeatureName ''cart'')" by code_simp
  then have "bt_get sample_hall (FeatureName ''cart'') \<noteq> None" by (cases "bt_get sample_hall (FeatureName ''cart'')") simp_all
  with promote_recursion_ends [of "((), sample_hall)" sample_promote "FeatureName ''cart''" sample_verb_env] sample_hall_ok n
  show ?thesis by auto
qed

theorem promote_records_its_base_witness:
  "\<exists>out ws s'. promote 2 sample_verb_env sample_promote ((), sample_hall) = (Inr (out, ws), s')
     \<and> recorded (snd s') (FeatureName ''cart'') (RepoName ''api'') \<and> skeleton (snd s') = skeleton sample_hall"
proof -
  obtain res s' where p: "promote 2 sample_verb_env sample_promote ((), sample_hall) = (res, s')" by (rule prod.exhaust)
  have "map_sum (\<lambda>_. ()) (\<lambda>(out, ws). (po_feature out, po_repo out)) (fst (promote 2 sample_verb_env sample_promote ((), sample_hall)))
      = Inr (FeatureName ''cart'', RepoName ''api'')" by code_simp
  with p obtain out ws where "res = Inr (out, ws)" "po_feature out = FeatureName ''cart''" "po_repo out = RepoName ''api''"
    by (cases res) auto
  with p promote_records_its_base [OF _ p] sample_hall_ok show ?thesis by simp
qed

theorem reparent_moves_pristine_leaf_witness:
  "\<exists>out m'. reparent sample_reads \<lparr>fr_exists = \<lambda>p. Inr False, fr_dir = \<lambda>p. Inr None\<rparr> ''wish'' ''cart''
       (snd (create (layout_at ''/h'') (sample_create ''wish'' None) sample_hall)) = Some (Inr out, m')
     \<and> map_option ft_parent (bt_get m' (FeatureName ''wish'')) = Some (Some (FeatureName ''cart''))"
proof -
  let ?m = "snd (create (layout_at ''/h'') (sample_create ''wish'' None) sample_hall)"
  let ?r = "reparent sample_reads \<lparr>fr_exists = \<lambda>p. Inr False, fr_dir = \<lambda>p. Inr None\<rparr> ''wish'' ''cart'' ?m"
  have ok: "hall_ok ?m" by (rule create_keeps_hall [OF sample_hall_ok])
  have "map_option (\<lambda>x. map_sum (\<lambda>_. ()) (\<lambda>out. (ro_child out, ro_new_parent out)) (fst x)) ?r
      = Some (Inr (FeatureName ''wish'', FeatureName ''cart''))" by code_simp
  then obtain out m' where r: "?r = Some (Inr out, m')" and n: "ro_child out = FeatureName ''wish''" "ro_new_parent out = FeatureName ''cart''"
    by (cases ?r; cases "fst (the ?r)") auto
  from reparent_moves_pristine_leaf [OF ok r] n have "map_option ft_parent (bt_get m' (FeatureName ''wish'')) = Some (Some (FeatureName ''cart''))"
    by auto
  with r show ?thesis by blast
qed

lemma sample_locked:
  "hall_ok [(FeatureName ''checkout'', sample_feature)]
   \<and> locked [(FeatureName ''checkout'', sample_feature)] (FeatureName ''checkout'') (RepoName ''api'') (sample_receipt True)"
proof
  have "[(FeatureName ''checkout'', sample_feature)] = bt_insert (ft_name sample_feature) sample_feature []" by code_simp
  moreover have "ft_parent sample_feature = None" by code_simp
  ultimately show "hall_ok [(FeatureName ''checkout'', sample_feature)]"
    using hall_ok_insert [OF hall_ok_empty, of sample_feature] sample_feature_wf by (simp add: bt_get_def)
  show "locked [(FeatureName ''checkout'', sample_feature)] (FeatureName ''checkout'') (RepoName ''api'') (sample_receipt True)"
    by code_simp
qed

theorem locked_receipts_survive_witness:
  "\<exists>m. locked m (FeatureName ''checkout'') (RepoName ''api'') (sample_receipt True) \<and> length m = 2"
proof -
  let ?m = "[(FeatureName ''checkout'', sample_feature)]"
  let ?m' = "snd (create (layout_at ''/h'') (sample_create ''shop'' None) ?m)"
  have "hall_step ((), ?m) ((), ?m')"
    by (rule hall_step.created [where r = "fst (create (layout_at ''/h'') (sample_create ''shop'' None) ?m)"]) simp
  from locked_receipts_survive [OF _ this] sample_locked
  have "locked ?m' (FeatureName ''checkout'') (RepoName ''api'') (sample_receipt True) \<or> bt_get ?m' (FeatureName ''checkout'') = None" by simp
  moreover have "map_option ft_name (bt_get ?m' (FeatureName ''checkout'')) = Some (FeatureName ''checkout'') \<and> length ?m' = 2" by code_simp
  ultimately show ?thesis by (cases "bt_get ?m' (FeatureName ''checkout'')") auto
qed

end
