(* ===== verification/Fs.thy ===== *)
theory Fs
  imports Errors Paths Ordered_Map
begin

text \<open>
  \<open>src/src/infra/fs\<close>: the errors of the file system and their failures, the data and cache
  directories of the platform, and the operations on directories and symbolic links that the
  verbs use.  A directory tree is a map from a path to an entry, a directory with some
  content or a link; the operations have the POSIX behaviour on it.
\<close>

section \<open>Errors\<close>

text \<open>The last argument is the text of the operating system's error.\<close>

datatype fs_error =
    FsNotUtf8 string
  | FsRead string string
  | FsWrite string string
  | FsCreateDir string string
  | FsReadDir string string
  | FsMetadata string string
  | FsRemove string string
  | FsRename string string string
  | FsSymlink string string string
  | FsReadSymlink string string
  | FsChmod string string

fun fs_error_display :: "fs_error \<Rightarrow> string" where
  "fs_error_display (FsNotUtf8 d) = ''path is not valid UTF-8: '' @ d"
| "fs_error_display (FsRead p s) = ''could not read '' @ p"
| "fs_error_display (FsWrite p s) = ''could not write '' @ p"
| "fs_error_display (FsCreateDir p s) = ''could not create directory '' @ p"
| "fs_error_display (FsReadDir p s) = ''could not read directory '' @ p"
| "fs_error_display (FsMetadata p s) = ''could not read metadata for '' @ p"
| "fs_error_display (FsRemove p s) = ''could not remove '' @ p"
| "fs_error_display (FsRename a b s) = ''could not rename '' @ a @ '' to '' @ b"
| "fs_error_display (FsSymlink l t s) = ''could not create symlink '' @ l @ '' -> '' @ t"
| "fs_error_display (FsReadSymlink p s) = ''could not read symlink '' @ p"
| "fs_error_display (FsChmod p s) = ''could not change permissions on '' @ p"

text \<open>Reading is a refusal, writing is a failed operation.\<close>

fun fs_failure :: "fs_error \<Rightarrow> failure" where
  "fs_failure (FsNotUtf8 d) =
     with_fix (fix_unsafe ''fs.rename_to_utf8'' ''rename the path to valid UTF-8'')
       (blocked ''fs.not_utf8'' (''path is not valid UTF-8: '' @ d))"
| "fs_failure (FsRead p s) =
     with_actual s (with_expected ''a readable file'' (blocked ''fs.read_failed'' (''could not read '' @ p @ '': '' @ s)))"
| "fs_failure (FsReadDir p s) =
     with_actual s (blocked ''fs.read_dir_failed'' (''could not read directory '' @ p @ '': '' @ s))"
| "fs_failure (FsMetadata p s) =
     with_actual s (blocked ''fs.metadata_failed'' (''could not read metadata for '' @ p @ '': '' @ s))"
| "fs_failure (FsReadSymlink p s) =
     with_actual s (blocked ''fs.read_symlink_failed'' (''could not read symlink '' @ p @ '': '' @ s))"
| "fs_failure (FsWrite p s) =
     with_actual s (failed ''fs.write_failed'' (''could not write '' @ p @ '': '' @ s))"
| "fs_failure (FsCreateDir p s) =
     with_actual s (failed ''fs.create_dir_failed'' (''could not create directory '' @ p @ '': '' @ s))"
| "fs_failure (FsRemove p s) =
     with_actual s (failed ''fs.remove_failed'' (''could not remove '' @ p @ '': '' @ s))"
| "fs_failure (FsRename a b s) =
     with_actual s (failed ''fs.rename_failed'' (''could not rename '' @ a @ '' to '' @ b @ '': '' @ s))"
| "fs_failure (FsSymlink l t s) =
     with_actual s (failed ''fs.symlink_failed'' (''could not create symlink '' @ l @ '' -> '' @ t @ '': '' @ s))"
| "fs_failure (FsChmod p s) =
     with_actual s (failed ''fs.chmod_failed'' (''could not change permissions on '' @ p @ '': '' @ s))"

section \<open>Platform directories\<close>

definition absolute_non_empty :: "string option \<Rightarrow> string option" where
  "absolute_non_empty v =
     (case v of None \<Rightarrow> None | Some p \<Rightarrow> if p = [] \<or> \<not> is_absolute p then None else Some p)"

definition non_empty :: "string option \<Rightarrow> string option" where
  "non_empty v = (case v of None \<Rightarrow> None | Some p \<Rightarrow> if p = [] then None else Some p)"

definition data_dir_failure :: failure where
  "data_dir_failure =
     with_fix (fix_safe ''fs.set_data_dir''
         ''Set $XDG_DATA_HOME (any platform), $HOME (Unix/macOS), or $APPDATA/$LOCALAPPDATA (Windows) to an absolute path.'')
       (with_actual ''no platform data-directory variable resolved to an absolute path''
         (with_expected ''$XDG_DATA_HOME set to an absolute path, $HOME set, or (on Windows) $APPDATA/$LOCALAPPDATA set''
           (failed ''fs.data_dir'' ''could not resolve a data directory'')))"

definition data_dir_from ::
    "string option \<Rightarrow> string option \<Rightarrow> string option \<Rightarrow> string option \<Rightarrow> string \<Rightarrow> failure + string" where
  "data_dir_from xdg home appdata localappdata os =
     (case absolute_non_empty xdg of
        Some p \<Rightarrow> Inr p
      | None \<Rightarrow>
          (let home = non_empty home in
           if os = ''windows'' then
             (case absolute_non_empty appdata of
                Some p \<Rightarrow> Inr p
              | None \<Rightarrow> (case absolute_non_empty localappdata of Some p \<Rightarrow> Inr p | None \<Rightarrow> Inl data_dir_failure))
           else if os = ''macos'' then
             (case home of
                Some h \<Rightarrow> Inr (path_join (path_join h ''Library'') ''Application Support'')
              | None \<Rightarrow> Inl data_dir_failure)
           else
             (case home of
                Some h \<Rightarrow> Inr (path_join (path_join h ''.local'') ''share'')
              | None \<Rightarrow> Inl data_dir_failure)))"

definition cache_dir_failure :: failure where
  "cache_dir_failure =
     blocked ''fs.cache_dir_unresolved'' ''could not resolve a cache directory: neither XDG_CACHE_HOME nor HOME is set''"

definition cache_dir_from :: "string option \<Rightarrow> string option \<Rightarrow> string \<Rightarrow> failure + string" where
  "cache_dir_from xdg home os =
     (case absolute_non_empty xdg of
        Some p \<Rightarrow> Inr p
      | None \<Rightarrow>
          (case non_empty home of
             None \<Rightarrow> Inl cache_dir_failure
           | Some h \<Rightarrow>
               if os = ''macos'' then Inr (path_join (path_join h ''Library'') ''Caches'') else Inr (path_join h ''.cache'')))"

section \<open>Directories and links\<close>

datatype 'c fs_entry = FsDir 'c | FsLink string

type_synonym 'c dirs = "(string, 'c fs_entry) btree"

datatype symlink_target = LinkAbsent | NotASymlink | LinkTarget string

fun is_link :: "symlink_target \<Rightarrow> bool" where
  "is_link (LinkTarget t) = True"
| "is_link LinkAbsent = False"
| "is_link NotASymlink = False"

definition enoent :: string where "enoent = ''No such file or directory (os error 2)''"
definition eexist :: string where "eexist = ''File exists (os error 17)''"
definition enotdir :: string where "enotdir = ''Not a directory (os error 20)''"
definition eisdir :: string where "eisdir = ''Is a directory (os error 21)''"
definition enotempty :: string where "enotempty = ''Directory not empty (os error 39)''"
definition eloop :: string where "eloop = ''Too many levels of symbolic links (os error 40)''"

text \<open>
  Where a path leads, through at most 40 links; \<open>Inl\<close> is a loop of links.
\<close>

fun follow :: "nat \<Rightarrow> 'c dirs \<Rightarrow> string \<Rightarrow> unit + (string \<times> 'c) option" where
  "follow n m p =
     (case bt_get m p of
        None \<Rightarrow> Inr None
      | Some (FsDir c) \<Rightarrow> Inr (Some (p, c))
      | Some (FsLink t) \<Rightarrow> (case n of 0 \<Rightarrow> Inl () | Suc k \<Rightarrow> follow k m t))"

definition max_links :: nat where
  "max_links = 40"

definition fs_is_dir :: "'c dirs \<Rightarrow> string \<Rightarrow> fs_error + bool" where
  "fs_is_dir m p =
     (case follow max_links m p of Inl _ \<Rightarrow> Inl (FsMetadata p eloop) | Inr found \<Rightarrow> Inr (found \<noteq> None))"

definition fs_content :: "'c dirs \<Rightarrow> string \<Rightarrow> 'c option" where
  "fs_content m p = (case follow max_links m p of Inr (Some (_, c)) \<Rightarrow> Some c | _ \<Rightarrow> None)"

definition read_symlink :: "'c dirs \<Rightarrow> string \<Rightarrow> symlink_target" where
  "read_symlink m p =
     (case bt_get m p of None \<Rightarrow> LinkAbsent | Some (FsDir _) \<Rightarrow> NotASymlink | Some (FsLink t) \<Rightarrow> LinkTarget t)"

text \<open>
  \<open>rename(2)\<close>: a directory replaces nothing but an empty directory, and the directories here
  are never empty; a link replaces a link but not a directory.
\<close>

definition fs_rename :: "string \<Rightarrow> string \<Rightarrow> 'c dirs \<Rightarrow> (fs_error + unit) \<times> 'c dirs" where
  "fs_rename a b m =
     (case bt_get m a of
        None \<Rightarrow> (Inl (FsRename a b enoent), m)
      | Some e \<Rightarrow>
          if a = b then (Inr (), m)
          else (case (e, bt_get m b) of
                  (FsDir _, Some (FsDir _)) \<Rightarrow> (Inl (FsRename a b enotempty), m)
                | (FsDir _, Some (FsLink _)) \<Rightarrow> (Inl (FsRename a b enotdir), m)
                | (FsLink _, Some (FsDir _)) \<Rightarrow> (Inl (FsRename a b eisdir), m)
                | _ \<Rightarrow> (Inr (), bt_insert b e (bt_remove a m))))"

definition create_symlink :: "string \<Rightarrow> string \<Rightarrow> 'c dirs \<Rightarrow> (fs_error + unit) \<times> 'c dirs" where
  "create_symlink t link m =
     (if bt_get m link \<noteq> None then (Inl (FsSymlink link t eexist), m) else (Inr (), bt_insert link (FsLink t) m))"

definition remove_path :: "string \<Rightarrow> 'c dirs \<Rightarrow> (fs_error + unit) \<times> 'c dirs" where
  "remove_path p m = (Inr (), bt_remove p m)"

text \<open>Writing below a directory creates it when it is absent.\<close>

definition fs_put :: "'c \<Rightarrow> string \<Rightarrow> ('c \<Rightarrow> 'c) \<Rightarrow> 'c dirs \<Rightarrow> (fs_error + unit) \<times> 'c dirs" where
  "fs_put new p f m =
     (case follow max_links m p of
        Inl _ \<Rightarrow> (Inl (FsCreateDir p eloop), m)
      | Inr None \<Rightarrow>
          (case bt_get m p of
             None \<Rightarrow> (Inr (), bt_insert p (FsDir (f new)) m)
           | Some _ \<Rightarrow> (Inl (FsCreateDir p eexist), m))
      | Inr (Some (q, c)) \<Rightarrow> (Inr (), bt_insert q (FsDir (f c)) m))"

text \<open>A change of what a directory holds, when the path leads to one.\<close>

definition fs_modify :: "string \<Rightarrow> ('c \<Rightarrow> 'c) \<Rightarrow> 'c dirs \<Rightarrow> 'c dirs" where
  "fs_modify p f m =
     (case follow max_links m p of Inr (Some (q, c)) \<Rightarrow> bt_insert q (FsDir (f c)) m | _ \<Rightarrow> m)"

end
