(* ===== verification/Rename.thy ===== *)
theory Rename
  imports Hall_Verbs Fs
begin

text \<open>
  \<open>src/src/action/feature/rename\<close>: the rename of a feature as a resumable transition.  The
  state is the git state with everything outside the feature directories, and the feature
  directories themselves: each holds the feature's record and, during a rename, the marker
  with the plan, the direction and the step; the link that stands at the old name is an entry
  of its own.  Records that cannot be decoded, and I/O errors other than those of POSIX on
  these entries, are not modelled.
\<close>

section \<open>The plan and the transition\<close>

record repo_rename_plan =
  rq_repo :: repo_name
  rq_old_worktree :: string
  rq_new_worktree :: string
  rq_old_branch :: branch_name
  rq_new_branch :: branch_name
  rq_old_remote :: "string option"
  rq_old_remote_tip :: "string option"

record rename_plan =
  rp_old_feature :: feature
  rp_new_name :: feature_name
  rp_new_branch :: branch_name
  rp_old_dir :: string
  rp_new_dir :: string
  rp_repos :: "repo_rename_plan list"

record blocker =
  bk_scope :: string
  bk_subject :: string
  bk_explanation :: string

datatype direction = Forward | RollingBack

datatype rename_step =
    Initialize | RenameBranches | MoveWorktrees | RemoteOps | MoveFeatureDir | UpdateChildren
  | UpdateFeatureLayers | MoveSessions | Finish

fun step_index :: "rename_step \<Rightarrow> nat" where
  "step_index Initialize = 0"
| "step_index RenameBranches = 1"
| "step_index MoveWorktrees = 2"
| "step_index RemoteOps = 3"
| "step_index MoveFeatureDir = 4"
| "step_index UpdateChildren = 5"
| "step_index UpdateFeatureLayers = 6"
| "step_index MoveSessions = 7"
| "step_index Finish = 8"

record transition =
  rt_version :: nat
  rt_plan :: rename_plan
  rt_direction :: direction
  rt_step :: rename_step

text \<open>A feature directory: the record, and the marker of a rename.\<close>

record feature_dir_content =
  fd_record :: "feature option"
  fd_marker :: "transition option"

definition empty_dir :: feature_dir_content where
  "empty_dir = \<lparr>fd_record = None, fd_marker = None\<rparr>"

type_synonym feature_dirs = "feature_dir_content dirs"

type_synonym ('g, 'a) rn = "('g \<times> feature_dirs, 'a) eff"

text \<open>A live session: its feature, its provider, and the rest of its state.\<close>

record live_session =
  lv_feature :: "feature_name option"
  lv_provider :: provider
  lv_rest :: string

text \<open>
  What a rename uses beside the feature directories: git, the remote of each declared
  repository, the open pull request of a branch (number and URL), the sessions of a feature
  with their view directories, and the layers of the graph.
\<close>

record 'g rename_env =
  re_git :: "'g git"
  re_layout :: layout
  re_url :: "repo_name \<Rightarrow> string option"
  re_open_pr :: "'g \<Rightarrow> string \<Rightarrow> string \<Rightarrow> string + (nat \<times> string) option"
  re_sessions :: "'g \<Rightarrow> feature_name \<Rightarrow> failure + (string \<times> live_session option) list"
  re_write_session :: "string \<Rightarrow> live_session \<Rightarrow> 'g \<Rightarrow> (failure + unit) \<times> 'g"
  re_materialise :: "feature option \<Rightarrow> provider \<Rightarrow> string \<Rightarrow> 'g \<Rightarrow> (failure + unit) \<times> 'g"
  re_rename_layers :: "feature_name \<Rightarrow> feature_name \<Rightarrow> 'g \<Rightarrow> 'g"

section \<open>Reading and writing the directories\<close>

definition on_dirs :: "(feature_dirs \<Rightarrow> (fs_error + 'a) \<times> feature_dirs) \<Rightarrow> ('g, 'a) rn" where
  "on_dirs op = on_hall (\<lambda>m. case op m of (r, m') \<Rightarrow> (map_sum fs_failure id r, m'))"

definition read_dirs :: "(feature_dirs \<Rightarrow> fs_error + 'a) \<Rightarrow> ('g, 'a) rn" where
  "read_dirs f = gets_s (\<lambda>s. map_sum fs_failure id (f (snd s)))"

definition record_at :: "feature_dirs \<Rightarrow> layout \<Rightarrow> feature_name \<Rightarrow> feature option" where
  "record_at m lay n = Option.bind (fs_content m (feature_dir lay n)) fd_record"

definition write_record :: "layout \<Rightarrow> feature \<Rightarrow> feature_dirs \<Rightarrow> (fs_error + unit) \<times> feature_dirs" where
  "write_record lay f = fs_put empty_dir (feature_dir lay (ft_name f)) (\<lambda>c. c\<lparr>fd_record := Some f\<rparr>)"

text \<open>\<open>Feature::update\<close> over the directories.\<close>

definition update_dir_record :: "layout \<Rightarrow> feature_name \<Rightarrow> (feature \<Rightarrow> feature) \<Rightarrow> ('g, unit) rn" where
  "update_dir_record lay n f =
     bind_s (read_dirs (\<lambda>m. fs_is_dir m (feature_dir lay n))) (\<lambda>dir.
       if \<not> dir then fail_s (feature_not_found n)
       else bind_s (gets_s (\<lambda>s. case record_at (snd s) lay n of None \<Rightarrow> Inl (feature_not_found n) | Some c \<Rightarrow> Inr c)) (\<lambda>cur.
            on_dirs (write_record lay (f cur))))"

text \<open>The marker is named by the directory that holds it.\<close>

definition write_marker :: "string \<Rightarrow> transition \<Rightarrow> ('g, unit) rn" where
  "write_marker dir t = on_dirs (fs_put empty_dir dir (\<lambda>c. c\<lparr>fd_marker := Some t\<rparr>))"

definition remove_marker :: "string \<Rightarrow> ('g, unit) rn" where
  "remove_marker dir = on_hall (\<lambda>m. (Inr (), fs_modify dir (\<lambda>c. c\<lparr>fd_marker := None\<rparr>) m))"

definition marker_path :: "rename_plan \<Rightarrow> feature_dirs \<Rightarrow> string" where
  "marker_path p m =
     (if ft_name (rp_old_feature p) \<noteq> rp_new_name p \<and> (case fs_is_dir m (rp_new_dir p) of Inr b \<Rightarrow> b | Inl _ \<Rightarrow> False)
      then rp_new_dir p else rp_old_dir p)"

fun find_transition_in :: "feature_dirs \<Rightarrow> feature_name \<Rightarrow> string list \<Rightarrow> failure + (string \<times> transition) option" where
  "find_transition_in m n [] = Inr None"
| "find_transition_in m n (entry # es) =
     (case fs_is_dir m entry of
        Inl _ \<Rightarrow> Inl (fs_failure (FsMetadata (path_join entry ''.renaming'') eloop))
      | Inr _ \<Rightarrow>
          (case Option.bind (fs_content m entry) fd_marker of
             Some t \<Rightarrow>
               (if ft_name (rp_old_feature (rt_plan t)) = n \<or> rp_new_name (rt_plan t) = n then Inr (Some (entry, t))
                else find_transition_in m n es)
           | None \<Rightarrow> find_transition_in m n es))"

definition find_transition :: "feature_dirs \<Rightarrow> feature_name \<Rightarrow> failure + (string \<times> transition) option" where
  "find_transition m n = find_transition_in m n (map fst m)"

section \<open>The steps\<close>

text \<open>\<open>reparent_children\<close>: every entry that is no link and holds the record of its own name.\<close>

definition reparent_entry :: "layout \<Rightarrow> feature_name \<Rightarrow> feature_name \<Rightarrow> string \<Rightarrow> ('g, unit) rn" where
  "reparent_entry lay a b entry =
     bind_s (gets_s (\<lambda>s. Inr (snd s))) (\<lambda>m.
       case read_symlink m entry of
         LinkTarget _ \<Rightarrow> return_s ()
       | _ \<Rightarrow>
           (case Option.bind (file_name entry) (\<lambda>w. case feature_name_new w of Inl _ \<Rightarrow> None | Inr n \<Rightarrow> Some n) of
              None \<Rightarrow> return_s ()
            | Some n \<Rightarrow>
                (case record_at m lay n of
                   None \<Rightarrow> return_s ()
                 | Some f \<Rightarrow>
                     if ft_name f = n \<and> ft_parent f = Some a
                     then update_dir_record lay n (\<lambda>f. f\<lparr>ft_parent := Some b\<rparr>)
                     else return_s ())))"

definition reparent_children :: "layout \<Rightarrow> feature_name \<Rightarrow> feature_name \<Rightarrow> ('g, unit) rn" where
  "reparent_children lay a b =
     bind_s (gets_s (\<lambda>s. Inr (map fst (snd s)))) (\<lambda>entries. for_s (reparent_entry lay a b) entries)"

definition rename_one_branch :: "'g rename_env \<Rightarrow> repo_name \<Rightarrow> branch_name \<Rightarrow> branch_name \<Rightarrow> ('g, unit) rn" where
  "rename_one_branch env r a b =
     (if a = b then return_s ()
      else (let bare = repo_bare (re_layout env) r in
        bind_s (gets_s (\<lambda>s. Inr (is_ok (g_revision_commit (re_git env) (fst s) bare (branch_str a))))) (\<lambda>there.
          if there then on_git (g_rename_branch (re_git env) bare (branch_str a) (branch_str b)) else return_s ())))"

definition move_one_worktree :: "'g rename_env \<Rightarrow> repo_name \<Rightarrow> string \<Rightarrow> string \<Rightarrow> ('g, unit) rn" where
  "move_one_worktree env r a b =
     (if a = b then return_s ()
      else bind_s (read_git (\<lambda>g. g_is_dir (re_git env) g a)) (\<lambda>dir.
        if dir then on_git (g_move_worktree (re_git env) (repo_bare (re_layout env) r) a b) else return_s ()))"

definition publish_one :: "'g rename_env \<Rightarrow> repo_rename_plan \<Rightarrow> ('g, unit) rn" where
  "publish_one env r =
     (case rq_old_remote r of
        None \<Rightarrow> return_s ()
      | Some remote \<Rightarrow>
          if rq_old_branch r = rq_new_branch r then return_s ()
          else (let bare = repo_bare (re_layout env) (rq_repo r); git = re_git env in
            bind_s (read_git (\<lambda>g. g_remote_branch_tip git g bare remote (branch_str (rq_old_branch r)))) (\<lambda>old_tip.
            bind_s (read_git (\<lambda>g. g_remote_branch_tip git g bare remote (branch_str (rq_new_branch r)))) (\<lambda>new_tip.
              if old_tip = None \<and> new_tip \<noteq> None then return_s ()
              else if new_tip \<noteq> None then fail_s (blocked ''rename.remote_race'' ''Remote tip changed'')
              else (case rq_old_remote_tip r of
                      None \<Rightarrow> return_s ()
                    | Some tip \<Rightarrow>
                        bind_s (on_git (g_push git bare remote tip (''refs/heads/'' @ branch_str (rq_new_branch r)))) (\<lambda>_.
                          on_git (g_delete_remote_branch git bare remote (branch_str (rq_old_branch r)) tip)))))))"

definition unpublish_one :: "'g rename_env \<Rightarrow> repo_rename_plan \<Rightarrow> ('g, unit) rn" where
  "unpublish_one env r =
     (case (rq_old_remote r, rq_old_remote_tip r) of
        (Some remote, Some tip) \<Rightarrow>
          if rq_old_branch r = rq_new_branch r then return_s ()
          else (let bare = repo_bare (re_layout env) (rq_repo r); git = re_git env in
            bind_s (gets_s (\<lambda>s. Inr (case g_remote_branch_tip git (fst s) bare remote (branch_str (rq_old_branch r)) of
                                       Inr (Some _) \<Rightarrow> True | _ \<Rightarrow> False))) (\<lambda>there.
            bind_s (if there then return_s ()
                    else on_git (g_push git bare remote tip (''refs/heads/'' @ branch_str (rq_old_branch r)))) (\<lambda>_.
            bind_s (gets_s (\<lambda>s. Inr (case g_remote_branch_tip git (fst s) bare remote (branch_str (rq_new_branch r)) of
                                       Inr (Some t) \<Rightarrow> Some t | _ \<Rightarrow> None))) (\<lambda>new_tip.
              case new_tip of
                None \<Rightarrow> return_s ()
              | Some t \<Rightarrow> on_outside (\<lambda>g. (Inr (), snd (g_delete_remote_branch git bare remote (branch_str (rq_new_branch r)) t g)))))))
      | _ \<Rightarrow> return_s ())"

definition move_one_session :: "'g rename_env \<Rightarrow> feature_name \<Rightarrow> feature option \<Rightarrow> string \<times> live_session option \<Rightarrow> ('g, unit) rn" where
  "move_one_session env n f ref =
     (case snd ref of
        None \<Rightarrow> return_s ()
      | Some s \<Rightarrow>
          bind_s (on_outside (re_write_session env (fst ref) (s\<lparr>lv_feature := Some n\<rparr>))) (\<lambda>_.
            on_outside (re_materialise env f (lv_provider s) (fst ref))))"

fun perform_step :: "'g rename_env \<Rightarrow> rename_plan \<Rightarrow> rename_step \<Rightarrow> ('g, rename_step) rn" where
  "perform_step env p Initialize = return_s RenameBranches"
| "perform_step env p RenameBranches =
     bind_s (for_s (\<lambda>r. rename_one_branch env (rq_repo r) (rq_old_branch r) (rq_new_branch r)) (rp_repos p)) (\<lambda>_.
       return_s MoveWorktrees)"
| "perform_step env p MoveWorktrees =
     bind_s (for_s (\<lambda>r. move_one_worktree env (rq_repo r) (rq_old_worktree r) (rq_new_worktree r)) (rp_repos p)) (\<lambda>_.
       return_s RemoteOps)"
| "perform_step env p RemoteOps = bind_s (for_s (publish_one env) (rp_repos p)) (\<lambda>_. return_s MoveFeatureDir)"
| "perform_step env p MoveFeatureDir =
     bind_s (if ft_name (rp_old_feature p) = rp_new_name p then return_s ()
             else bind_s (read_dirs (\<lambda>m. fs_is_dir m (rp_old_dir p))) (\<lambda>dir.
                  bind_s (if dir then on_dirs (fs_rename (rp_old_dir p) (rp_new_dir p)) else return_s ()) (\<lambda>_.
                  bind_s (gets_s (\<lambda>s. Inr (read_symlink (snd s) (rp_old_dir p)))) (\<lambda>link.
                    if link = LinkAbsent then on_dirs (create_symlink (rp_new_dir p) (rp_old_dir p)) else return_s ())))) (\<lambda>_.
     bind_s (update_dir_record (re_layout env) (rp_new_name p) (\<lambda>f. f\<lparr>ft_name := rp_new_name p, ft_branch := rp_new_branch p\<rparr>)) (\<lambda>_.
       return_s UpdateChildren))"
| "perform_step env p UpdateChildren =
     bind_s (if ft_name (rp_old_feature p) = rp_new_name p then return_s ()
             else reparent_children (re_layout env) (ft_name (rp_old_feature p)) (rp_new_name p)) (\<lambda>_.
       return_s UpdateFeatureLayers)"
| "perform_step env p UpdateFeatureLayers =
     bind_s (on_outside (\<lambda>g. (Inr (), re_rename_layers env (ft_name (rp_old_feature p)) (rp_new_name p) g))) (\<lambda>_.
       return_s MoveSessions)"
| "perform_step env p MoveSessions =
     bind_s (gets_s (\<lambda>s. Inr (record_at (snd s) (re_layout env) (rp_new_name p)))) (\<lambda>f.
     bind_s (gets_s (\<lambda>s. re_sessions env (fst s) (rp_new_name p))) (\<lambda>refs.
     bind_s (for_s (move_one_session env (rp_new_name p) f) refs) (\<lambda>_. return_s Finish)))"
| "perform_step env p Finish =
     bind_s (gets_s (\<lambda>s. Inr (read_symlink (snd s) (rp_old_dir p)))) (\<lambda>link.
     bind_s (if ft_name (rp_old_feature p) \<noteq> rp_new_name p \<and> is_link link
             then on_dirs (remove_path (rp_old_dir p)) else return_s ()) (\<lambda>_.
       return_s Finish))"

fun undo_step :: "'g rename_env \<Rightarrow> rename_plan \<Rightarrow> rename_step \<Rightarrow> ('g, rename_step) rn" where
  "undo_step env p MoveSessions =
     bind_s (read_dirs (\<lambda>m. fs_is_dir m (rp_new_dir p))) (\<lambda>moved.
     bind_s (gets_s (\<lambda>s. re_sessions env (fst s) (if moved then rp_new_name p else ft_name (rp_old_feature p)))) (\<lambda>refs.
     bind_s (for_s (move_one_session env (ft_name (rp_old_feature p)) (Some (rp_old_feature p))) refs) (\<lambda>_.
       return_s UpdateFeatureLayers)))"
| "undo_step env p UpdateFeatureLayers =
     bind_s (on_outside (\<lambda>g. (Inr (), re_rename_layers env (rp_new_name p) (ft_name (rp_old_feature p)) g))) (\<lambda>_.
       return_s UpdateChildren)"
| "undo_step env p UpdateChildren =
     bind_s (if ft_name (rp_old_feature p) = rp_new_name p then return_s ()
             else reparent_children (re_layout env) (rp_new_name p) (ft_name (rp_old_feature p))) (\<lambda>_.
       return_s MoveFeatureDir)"
| "undo_step env p MoveFeatureDir =
     bind_s (if ft_name (rp_old_feature p) = rp_new_name p then return_s ()
             else bind_s (gets_s (\<lambda>s. Inr (read_symlink (snd s) (rp_old_dir p)))) (\<lambda>link.
                  bind_s (if is_link link then on_dirs (remove_path (rp_old_dir p)) else return_s ()) (\<lambda>_.
                  bind_s (read_dirs (\<lambda>m. fs_is_dir m (rp_new_dir p))) (\<lambda>dir.
                    if dir then on_dirs (fs_rename (rp_new_dir p) (rp_old_dir p)) else return_s ())))) (\<lambda>_.
     bind_s (update_dir_record (re_layout env) (ft_name (rp_old_feature p))
               (\<lambda>f. f\<lparr>ft_name := ft_name (rp_old_feature p), ft_branch := ft_branch (rp_old_feature p)\<rparr>)) (\<lambda>_.
       return_s RemoteOps))"
| "undo_step env p RemoteOps = bind_s (for_s (unpublish_one env) (rp_repos p)) (\<lambda>_. return_s MoveWorktrees)"
| "undo_step env p MoveWorktrees =
     bind_s (for_s (\<lambda>r. move_one_worktree env (rq_repo r) (rq_new_worktree r) (rq_old_worktree r)) (rp_repos p)) (\<lambda>_.
       return_s RenameBranches)"
| "undo_step env p RenameBranches =
     bind_s (for_s (\<lambda>r. rename_one_branch env (rq_repo r) (rq_new_branch r) (rq_old_branch r)) (rp_repos p)) (\<lambda>_.
       return_s Initialize)"
| "undo_step env p Initialize = return_s Initialize"
| "undo_step env p Finish = return_s Initialize"

text \<open>Each step leads to the next one, and its inverse to the one before.\<close>

lemma perform_step_next:
  "perform_step env p st s = (Inr st', s') \<Longrightarrow> st \<noteq> Finish \<Longrightarrow> step_index st' = Suc (step_index st)"
  by (cases st) (auto simp: effect_simps)

lemma undo_step_next:
  "undo_step env p st s = (Inr st', s') \<Longrightarrow> st \<noteq> Initialize \<Longrightarrow> st \<noteq> Finish \<Longrightarrow> step_index st = Suc (step_index st')"
  by (cases st) (auto simp: effect_simps)

lemma step_index_bound: "step_index st \<le> 8" "step_index st = 8 \<longleftrightarrow> st = Finish" "step_index st = 0 \<longleftrightarrow> st = Initialize"
  by (cases st; simp)+

section \<open>Running a transition\<close>

record repo_rename_outcome =
  ro_repo :: repo_name
  ro_branch_renamed :: bool
  ro_worktree_moved :: bool
  ro_remote :: "string option"

record rename_outcome =
  rm_root :: string
  rm_old_name :: feature_name
  rm_new_name :: feature_name
  rm_old_branch :: branch_name
  rm_new_branch :: branch_name
  rm_repos :: "repo_rename_outcome list"

definition repo_outcome :: "repo_rename_plan \<Rightarrow> repo_rename_outcome" where
  "repo_outcome r =
     \<lparr>ro_repo = rq_repo r, ro_branch_renamed = (rq_old_branch r \<noteq> rq_new_branch r),
      ro_worktree_moved = (rq_old_worktree r \<noteq> rq_new_worktree r),
      ro_remote = Option.bind (rq_old_remote r) (\<lambda>remote. map_option (\<lambda>_.
        ''pushed branch '' @ quoted (branch_str (rq_new_branch r)) @ '' to '' @ remote @ '' and deleted '' @
        quoted (branch_str (rq_old_branch r))) (rq_old_remote_tip r))\<rparr>"

definition transition_outcome :: "layout \<Rightarrow> rename_plan \<Rightarrow> rename_outcome" where
  "transition_outcome lay p =
     \<lparr>rm_root = lay_root lay, rm_old_name = ft_name (rp_old_feature p), rm_new_name = rp_new_name p,
      rm_old_branch = ft_branch (rp_old_feature p), rm_new_branch = rp_new_branch p,
      rm_repos = map repo_outcome (rp_repos p)\<rparr>"

definition rolled_back :: failure where
  "rolled_back = blocked ''rename.rolled_back'' ''Rename operation failed and was rolled back''"

definition finish_transition :: "'g rename_env \<Rightarrow> transition \<Rightarrow> ('g, rename_outcome) rn" where
  "finish_transition env t =
     bind_s (perform_step env (rt_plan t) Finish) (\<lambda>_.
     bind_s (gets_s (\<lambda>s. Inr (marker_path (rt_plan t) (snd s)))) (\<lambda>anchor.
     bind_s (remove_marker anchor) (\<lambda>_. return_s (transition_outcome (re_layout env) (rt_plan t)))))"

text \<open>The loop of \<open>resume\<close>: the step moves towards one end, whatever the direction.\<close>

function resume :: "'g rename_env \<Rightarrow> string \<Rightarrow> transition \<Rightarrow> ('g, rename_outcome) rn" where
  "resume env anchor t s =
     (if rt_step t = Finish then finish_transition env t s
      else (case rt_direction t of
        Forward \<Rightarrow>
          (case perform_step env (rt_plan t) (rt_step t) s of
             (Inr st, s1) \<Rightarrow>
               (let t' = t\<lparr>rt_step := st\<rparr>; anchor' = marker_path (rt_plan t) (snd s1)
                in case write_marker anchor' t' s1 of
                     (Inl e, s2) \<Rightarrow> (Inl e, s2)
                   | (Inr _, s2) \<Rightarrow> resume env anchor' t' s2)
           | (Inl e, s1) \<Rightarrow>
               (case write_marker anchor (t\<lparr>rt_direction := RollingBack\<rparr>) s1 of
                  (Inl e', s2) \<Rightarrow> (Inl e', s2)
                | (Inr _, s2) \<Rightarrow> (Inl e, s2)))
      | RollingBack \<Rightarrow>
          if rt_step t = Initialize then bind_s (remove_marker anchor) (\<lambda>_. fail_s rolled_back) s
          else (case undo_step env (rt_plan t) (rt_step t) s of
                  (Inl e, s1) \<Rightarrow> (Inl e, s1)
                | (Inr st, s1) \<Rightarrow>
                    (let t' = t\<lparr>rt_step := st\<rparr>; anchor' = marker_path (rt_plan t) (snd s1)
                     in case write_marker anchor' t' s1 of
                          (Inl e, s2) \<Rightarrow> (Inl e, s2)
                        | (Inr _, s2) \<Rightarrow> resume env anchor' t' s2))))"
  by pat_completeness auto
termination
proof (relation "measure (\<lambda>(env, anchor, t, s). case rt_direction t of
    Forward \<Rightarrow> 8 - step_index (rt_step t) | RollingBack \<Rightarrow> step_index (rt_step t))", goal_cases)
  case 1
  show ?case by simp
next
  case (2 env anchor t s x b st y t' xa xb bb)
  then show ?case
    using perform_step_next [of env "rt_plan t" "rt_step t" s st b] step_index_bound [of st] by simp
next
  case (3 env anchor t s x b y t' xa xb bb)
  then have "undo_step env (rt_plan t) (rt_step t) s = (Inr y, b)" by simp
  from undo_step_next [OF this] 3 show ?case by simp
qed

definition run_rename :: "'g rename_env \<Rightarrow> rename_plan \<Rightarrow> ('g, rename_outcome) rn" where
  "run_rename env p =
     (let t = \<lparr>rt_version = 1, rt_plan = p, rt_direction = Forward, rt_step = Initialize\<rparr>
      in bind_s (write_marker (rp_old_dir p) t) (\<lambda>_. resume env (rp_old_dir p) t))"

section \<open>The plan\<close>

definition feature_blockers :: "layout \<Rightarrow> feature \<Rightarrow> feature_name \<Rightarrow> feature_dirs \<Rightarrow> fs_error + blocker list" where
  "feature_blockers lay source new_name m =
     (let dir = feature_dir lay new_name in
      if new_name = ft_name source then Inr []
      else map_sum id (\<lambda>b. if b then [\<lparr>bk_scope = ''feature'', bk_subject = feature_str new_name,
             bk_explanation = ''Feature directory '' @ quoted dir @ '' already exists.''\<rparr>] else []) (fs_is_dir m dir))"

definition pr_blockers :: "'g rename_env \<Rightarrow> 'g \<Rightarrow> feature \<Rightarrow> repo_name \<Rightarrow> blocker list" where
  "pr_blockers env g source r =
     (case re_open_pr env g (repo_bare (re_layout env) r) (branch_str (ft_branch source)) of
        Inr (Some (number, url)) \<Rightarrow>
          [\<lparr>bk_scope = ''pull-request'', bk_subject = repo_str r,
            bk_explanation = ''Open PR #'' @ show_nat number @ '' (URL: '' @ url @ '') targets old branch: '' @
              branch_str (ft_branch source) @ ''. Close it first.''\<rparr>]
      | Inr None \<Rightarrow> []
      | Inl e \<Rightarrow>
          [\<lparr>bk_scope = ''pull-request'', bk_subject = repo_str r, bk_explanation = ''Failed to check open PRs: '' @ e\<rparr>])"

definition worktree_blocker :: "'g rename_env \<Rightarrow> 'g \<Rightarrow> repo_name \<Rightarrow> string \<Rightarrow> blocker list" where
  "worktree_blocker env g r path =
     (if is_ok (g_worktree_git_dir (re_git env) g path) then []
      else [\<lparr>bk_scope = ''repository'', bk_subject = repo_str r,
             bk_explanation = ''Worktree '' @ quoted path @ '' is not registered by Git.''\<rparr>])"

definition target_blockers :: "'g rename_env \<Rightarrow> 'g \<Rightarrow> repo_name \<Rightarrow> bool \<Rightarrow> string \<Rightarrow> git_error + blocker list" where
  "target_blockers env g r moved path =
     (if \<not> moved then Inr []
      else map_sum id (\<lambda>b. if b then [\<lparr>bk_scope = ''repository'', bk_subject = repo_str r,
             bk_explanation = ''Target worktree '' @ quoted path @ '' already exists.''\<rparr>] else [])
             (g_is_dir (re_git env) g path))"

definition plan_repo ::
    "'g rename_env \<Rightarrow> 'g \<Rightarrow> feature \<Rightarrow> branch_name \<Rightarrow> repo_name \<Rightarrow> failure + repo_rename_plan option \<times> blocker list" where
  "plan_repo env g source new_branch r =
     (case re_url env r of
        None \<Rightarrow> Inr (None, [\<lparr>bk_scope = ''repository'', bk_subject = repo_str r,
                            bk_explanation = ''Repository not found in manifest.''\<rparr>])
      | Some url \<Rightarrow>
          (let old = repo_worktree (re_layout env) r (ft_branch source);
               new = repo_worktree (re_layout env) r new_branch
           in and_then (map_sum git_failure id (target_blockers env g r (new_branch \<noteq> ft_branch source) new)) (\<lambda>targets.
              and_then (map_sum git_failure id
                 (g_remote_branch_tip (re_git env) g (repo_bare (re_layout env) r) url (branch_str (ft_branch source)))) (\<lambda>tip.
                Inr (Some \<lparr>rq_repo = r, rq_old_worktree = old, rq_new_worktree = new, rq_old_branch = ft_branch source,
                           rq_new_branch = new_branch, rq_old_remote = Some url, rq_old_remote_tip = tip\<rparr>,
                     worktree_blocker env g r old @ targets @ (if tip \<noteq> None then pr_blockers env g source r else []))))))"

definition plan_build ::
    "'g rename_env \<Rightarrow> feature \<Rightarrow> feature_name \<Rightarrow> branch_name option \<Rightarrow> 'g \<times> feature_dirs \<Rightarrow> failure + rename_plan \<times> blocker list" where
  "plan_build env source new_name branch_input s =
     (let new_branch = unwrap_or (ft_branch source) branch_input; lay = re_layout env
      in and_then (map_sum fs_failure id (feature_blockers lay source new_name (snd s))) (\<lambda>fb.
         and_then (try_map (plan_repo env (fst s) source new_branch) (map fst (ft_promotions source))) (\<lambda>repos.
           Inr (\<lparr>rp_old_feature = source, rp_new_name = new_name, rp_new_branch = new_branch,
                 rp_old_dir = feature_dir lay (ft_name source), rp_new_dir = feature_dir lay new_name,
                 rp_repos = concat (map (\<lambda>(r, _). case r of None \<Rightarrow> [] | Some x \<Rightarrow> [x]) repos)\<rparr>,
                fb @ concat (map snd repos)))))"

section \<open>The verb\<close>

record rename_input =
  rn_feature :: string
  rn_name :: "string option"
  rn_branch :: "string option"

definition rename_noop :: "feature_name \<Rightarrow> failure" where
  "rename_noop n =
     with_fix (fix_safe ''feature.rename_change_something''
         ''Pass `--name` and/or `--branch` with a value that actually differs.'')
       (with_actual ''both supplied values equal the feature's current ones''
         (with_expected ''a new name and/or a new branch''
           (blocked ''feature.rename_noop'' (quoted (feature_str n) @ '' already has that name and branch''))))"

definition blocker_json :: "blocker \<Rightarrow> json" where
  "blocker_json b =
     JObject [(''scope'', JString (bk_scope b)), (''subject'', JString (bk_subject b)),
              (''explanation'', JString (bk_explanation b))]"

definition rename_blocked :: "blocker list \<Rightarrow> failure" where
  "rename_blocked bs =
     with_details (JArray (map blocker_json bs)) (blocked ''rename.blocked'' ''Rename blocked by preflight checks'')"

definition rename_fresh :: "'g rename_env \<Rightarrow> rename_input \<Rightarrow> feature_name \<Rightarrow> ('g, rename_outcome) rn" where
  "rename_fresh env i n =
     bind_s (lift_s (transpose_map (\<lambda>t. named (feature_name_new t)) (rn_name i))) (\<lambda>name_input.
     bind_s (lift_s (transpose_map (\<lambda>t. named (branch_name_new t)) (rn_branch i))) (\<lambda>branch_input.
     bind_s (gets_s (\<lambda>s. case record_at (snd s) (re_layout env) n of None \<Rightarrow> Inl (feature_not_found n) | Some f \<Rightarrow> Inr f)) (\<lambda>source.
     let new_name = unwrap_or n name_input; new_branch = unwrap_or (ft_branch source) branch_input in
     if new_name = ft_name source \<and> new_branch = ft_branch source then fail_s (rename_noop n)
     else bind_s (gets_s (plan_build env source new_name branch_input)) (\<lambda>(p, blockers).
       if blockers \<noteq> [] then fail_s (rename_blocked blockers) else run_rename env p))))"

definition rename :: "'g rename_env \<Rightarrow> rename_input \<Rightarrow> ('g, rename_outcome) rn" where
  "rename env i =
     bind_s (lift_s (named (feature_name_new (rn_feature i)))) (\<lambda>n.
     bind_s (gets_s (\<lambda>s. find_transition (snd s) n)) (\<lambda>found.
       case found of
         Some (anchor, t) \<Rightarrow> resume env anchor t
       | None \<Rightarrow> rename_fresh env i n))"

end
