(* ===== verification/Rename_Safety.thy ===== *)
theory Rename_Safety
  imports Rename Hall_Invariants
begin

text \<open>
  A rename never loses a record: after any number of attempts, failed ones included, the
  feature directories are in one of three phases (before the move, moved, children
  reparented), the marker says which one, a rename that reports success has moved everything,
  and one that reports a rollback has restored the directories it started from.
\<close>

section \<open>Entries\<close>

lemma follow_dir: "bt_get m p = Some (FsDir c) \<Longrightarrow> follow n m p = Inr (Some (p, c))"
  by (cases n) simp_all

lemma follow_link: "bt_get m p = Some (FsLink t) \<Longrightarrow> bt_get m t = Some (FsDir c) \<Longrightarrow> follow (Suc n) m p = Inr (Some (t, c))"
  by (subst follow.simps) (simp add: follow_dir)


declare follow.simps [simp del]

lemma max_links_Suc: "max_links = Suc 39"
  by (simp add: max_links_def)

text \<open>A path that leads to a directory.\<close>

definition leads_to :: "'c dirs \<Rightarrow> string \<Rightarrow> string \<Rightarrow> 'c \<Rightarrow> bool" where
  "leads_to m p q c \<longleftrightarrow> follow max_links m p = Inr (Some (q, c))"

lemma leads_to_dir: "bt_get m p = Some (FsDir c) \<Longrightarrow> leads_to m p p c"
  by (simp add: leads_to_def follow_dir)

lemma leads_to_link: "bt_get m p = Some (FsLink t) \<Longrightarrow> bt_get m t = Some (FsDir c) \<Longrightarrow> leads_to m p t c"
  unfolding leads_to_def max_links_Suc by (rule follow_link)

lemma leads_to_simps:
  assumes "leads_to m p q c"
  shows "fs_is_dir m p = Inr True" "fs_content m p = Some c"
    "fs_put new p f m = (Inr (), bt_insert q (FsDir (f c)) m)" "fs_modify p f m = bt_insert q (FsDir (f c)) m"
  using assms by (simp_all add: leads_to_def fs_is_dir_def fs_content_def fs_put_def fs_modify_def)


section \<open>Directories of features\<close>

text \<open>Every directory holds the record of the feature it is named after.\<close>

definition proper_dirs :: "layout \<Rightarrow> feature_dirs \<Rightarrow> bool" where
  "proper_dirs lay m \<longleftrightarrow> bt_sorted m \<and> (\<forall>q c. bt_get m q = Some (FsDir c) \<longrightarrow>
     (\<exists>f. fd_record c = Some f \<and> q = feature_dir lay (ft_name f)
        \<and> feature_name_new (feature_str (ft_name f)) = Inr (ft_name f)))"

lemma valid_feature: "feature_name_new (feature_str n) = Inr n \<Longrightarrow> validate_feature (feature_str n) = Inr ()"
  by (cases "validate_feature (feature_str n)") (auto simp: feature_name_new_def validated_new_def)

lemma file_name_feature_dir:
  assumes "lay_root lay \<noteq> []" and "feature_name_new (feature_str n) = Inr n"
  shows "file_name (feature_dir lay n) = Some (feature_str n)"
  using components_feature_dir [OF assms(1) valid_feature [OF assms(2)]] by (simp add: file_name_def)

lemma feature_dir_inj:
  assumes "lay_root lay \<noteq> []" and "feature_name_new (feature_str a) = Inr a" "feature_name_new (feature_str b) = Inr b"
    and "feature_dir lay a = feature_dir lay b"
  shows "a = b"
  using file_name_feature_dir [OF assms(1,2)] file_name_feature_dir [OF assms(1,3)] assms(4)
  by (simp add: feature_name.expand)

definition reparent_record :: "feature_name \<Rightarrow> feature_name \<Rightarrow> feature \<Rightarrow> feature" where
  "reparent_record a b f = (if ft_parent f = Some a then f\<lparr>ft_parent := Some b\<rparr> else f)"

fun reparent_dir :: "feature_name \<Rightarrow> feature_name \<Rightarrow> feature_dir_content fs_entry \<Rightarrow> feature_dir_content fs_entry" where
  "reparent_dir a b (FsDir c) = FsDir (c\<lparr>fd_record := map_option (reparent_record a b) (fd_record c)\<rparr>)"
| "reparent_dir a b (FsLink t) = FsLink t"

lemma update_dir_record_leads:
  assumes dir: "leads_to (snd s) (feature_dir lay n) q c" and rec: "fd_record c = Some f"
    and target: "leads_to (snd s) (feature_dir lay (ft_name (g f))) q c"
  shows "update_dir_record lay n g s = (Inr (), (fst s, bt_insert q (FsDir (c\<lparr>fd_record := Some (g f)\<rparr>)) (snd s)))"
  by (simp add: update_dir_record_def bind_s_def read_dirs_def gets_s_def on_dirs_def on_hall_def write_record_def
      record_at_def leads_to_simps [OF dir] leads_to_simps [OF target] rec)

lemma reparent_entry_dir:
  assumes root: "lay_root lay \<noteq> []" and ok: "proper_dirs lay (snd s)" and q: "bt_get (snd s) q = Some (FsDir c)"
  shows "\<exists>m'. reparent_entry lay a b q s = (Inr (), (fst s, m')) \<and> bt_sorted m'
     \<and> bt_get m' = (bt_get (snd s))(q \<mapsto> reparent_dir a b (FsDir c))"
proof -
  from ok q obtain f where f: "fd_record c = Some f" "q = feature_dir lay (ft_name f)"
    "feature_name_new (feature_str (ft_name f)) = Inr (ft_name f)" and s: "bt_sorted (snd s)"
    unfolding proper_dirs_def by blast
  note name = file_name_feature_dir [OF root f(3)]
  note l = leads_to_dir [OF q [unfolded f(2)]]
  have rec: "record_at (snd s) lay (ft_name f) = Some f" by (simp add: record_at_def leads_to_simps [OF l] f(1))
  have link: "read_symlink (snd s) q = NotASymlink" by (simp add: read_symlink_def q)
  show ?thesis
  proof (cases "ft_parent f = Some a")
    case True
    let ?m' = "bt_insert q (FsDir (c\<lparr>fd_record := Some (f\<lparr>ft_parent := Some b\<rparr>)\<rparr>)) (snd s)"
    have "update_dir_record lay (ft_name f) (\<lambda>f. f\<lparr>ft_parent := Some b\<rparr>) s = (Inr (), (fst s, ?m'))"
      using update_dir_record_leads [of s lay "ft_name f" q c f "\<lambda>f. f\<lparr>ft_parent := Some b\<rparr>"] l f by simp
    then have "reparent_entry lay a b q s = (Inr (), (fst s, ?m'))"
      by (simp add: reparent_entry_def bind_s_def gets_s_def link name [folded f(2)] f(3) rec True)
    moreover have "bt_get ?m' = (bt_get (snd s))(q \<mapsto> reparent_dir a b (FsDir c))"
      by (rule ext) (simp add: bt.get_insert [OF s] f(1) reparent_record_def True)
    ultimately show ?thesis using bt.invar_insert [OF s] by blast
  next
    case False
    then have "reparent_entry lay a b q s = (Inr (), (fst s, snd s))"
      by (simp add: reparent_entry_def bind_s_def gets_s_def link name [folded f(2)] f(3) rec return_s_def)
    moreover have "bt_get (snd s) = (bt_get (snd s))(q \<mapsto> reparent_dir a b (FsDir c))"
      using q False f(1) by (intro ext) (simp add: reparent_record_def)
    ultimately show ?thesis using s by blast
  qed
qed

lemma reparent_entry_link:
  assumes "bt_get (snd s) q = Some (FsLink t)"
  shows "reparent_entry lay a b q s = (Inr (), s)"
  by (simp add: reparent_entry_def bind_s_def gets_s_def read_symlink_def assms return_s_def)

lemma reparent_keeps_proper:
  assumes ok: "proper_dirs lay m" and q: "bt_get m q = Some (FsDir c)" and s: "bt_sorted m'"
    and g: "bt_get m' = (bt_get m)(q \<mapsto> reparent_dir a b (FsDir c))"
  shows "proper_dirs lay m'"
proof -
  have "\<exists>f. fd_record d = Some f \<and> k = feature_dir lay (ft_name f) \<and> feature_name_new (feature_str (ft_name f)) = Inr (ft_name f)"
    if k: "bt_get m' k = Some (FsDir d)" for k d
  proof (cases "k = q")
    case True
    from ok q obtain f where f: "fd_record c = Some f" "q = feature_dir lay (ft_name f)"
      "feature_name_new (feature_str (ft_name f)) = Inr (ft_name f)" unfolding proper_dirs_def by blast
    from k True g have "d = c\<lparr>fd_record := map_option (reparent_record a b) (fd_record c)\<rparr>" by simp
    with f True show ?thesis by (intro exI [of _ "reparent_record a b f"]) (simp add: reparent_record_def)
  next
    case False
    with k g have "bt_get m k = Some (FsDir d)" by simp
    with ok show ?thesis unfolding proper_dirs_def by blast
  qed
  with s show ?thesis unfolding proper_dirs_def by blast
qed

lemma reparent_loop:
  assumes root: "lay_root lay \<noteq> []"
  shows "proper_dirs lay (snd s) \<Longrightarrow> distinct es \<Longrightarrow> \<forall>q \<in> set es. bt_get (snd s) q \<noteq> None \<Longrightarrow>
    \<exists>m'. for_s (reparent_entry lay a b) es s = (Inr (), (fst s, m')) \<and> bt_sorted m'
      \<and> bt_get m' = (\<lambda>q. if q \<in> set es then map_option (reparent_dir a b) (bt_get (snd s) q) else bt_get (snd s) q)"
proof (induction es arbitrary: s)
  case Nil
  then show ?case by (intro exI [of _ "snd s"]) (simp add: return_s_def proper_dirs_def)
next
  case (Cons q es)
  then obtain e where e: "bt_get (snd s) q = Some e" by auto
  have "\<exists>m1. reparent_entry lay a b q s = (Inr (), (fst s, m1)) \<and> proper_dirs lay m1
      \<and> bt_get m1 = (bt_get (snd s))(q \<mapsto> reparent_dir a b e)"
  proof (cases e)
    case (FsDir c)
    from reparent_entry_dir [OF root Cons.prems(1) e [unfolded FsDir]] obtain m1 where
      m1: "reparent_entry lay a b q s = (Inr (), (fst s, m1))" "bt_sorted m1"
        "bt_get m1 = (bt_get (snd s))(q \<mapsto> reparent_dir a b (FsDir c))" by blast
    from reparent_keeps_proper [OF Cons.prems(1) e [unfolded FsDir] m1(2,3)] m1 FsDir show ?thesis by blast
  next
    case (FsLink t)
    with e have "bt_get (snd s) = (bt_get (snd s))(q \<mapsto> reparent_dir a b e)" by (intro ext) simp
    with reparent_entry_link [OF e [unfolded FsLink]] Cons.prems(1) show ?thesis by (intro exI [of _ "snd s"]) simp
  qed
  then obtain m1 where m1: "reparent_entry lay a b q s = (Inr (), (fst s, m1))" "proper_dirs lay m1"
    "bt_get m1 = (bt_get (snd s))(q \<mapsto> reparent_dir a b e)" by blast
  have rest: "\<forall>k \<in> set es. bt_get m1 k \<noteq> None" using Cons.prems(2,3) unfolding m1(3) by simp
  from Cons.IH [of "(fst s, m1)", unfolded fst_conv snd_conv, OF m1(2) _ rest] Cons.prems(2) obtain m2 where
    m2: "for_s (reparent_entry lay a b) es (fst s, m1) = (Inr (), (fst s, m2))" "bt_sorted m2"
      "bt_get m2 = (\<lambda>k. if k \<in> set es then map_option (reparent_dir a b) (bt_get m1 k) else bt_get m1 k)" by auto
  have "bt_get m2 k = (if k \<in> set (q # es) then map_option (reparent_dir a b) (bt_get (snd s) k) else bt_get (snd s) k)" for k
    using m2(3) m1(3) Cons.prems(2) e by auto
  with m1(1) m2(1,2) show ?case by (intro exI [of _ m2]) (auto simp: bind_s_def)
qed

lemma reparent_children_all:
  assumes root: "lay_root lay \<noteq> []" and ok: "proper_dirs lay (snd s)"
  shows "\<exists>m'. reparent_children lay a b s = (Inr (), (fst s, m')) \<and> bt_sorted m'
      \<and> bt_get m' = (\<lambda>q. map_option (reparent_dir a b) (bt_get (snd s) q))"
proof -
  have s: "bt_sorted (snd s)" using ok unfolding proper_dirs_def by blast
  have keys: "q \<in> set (map fst (snd s)) \<longleftrightarrow> bt_get (snd s) q \<noteq> None" for q
    using bt.get_None_iff [OF s, of q] by simp
  from reparent_loop [OF root ok bt.entries_distinct [OF s], of a b] keys obtain m' where
    m': "for_s (reparent_entry lay a b) (map fst (snd s)) s = (Inr (), (fst s, m'))" "bt_sorted m'"
      "bt_get m' = (\<lambda>q. if q \<in> set (map fst (snd s)) then map_option (reparent_dir a b) (bt_get (snd s) q) else bt_get (snd s) q)"
    by blast
  have "bt_get m' q = map_option (reparent_dir a b) (bt_get (snd s) q)" for q
    using m'(3) keys [of q] by (cases "bt_get (snd s) q") auto
  with m'(1,2) show ?thesis by (intro exI [of _ m']) (auto simp: reparent_children_def bind_s_def gets_s_def)
qed

section \<open>The phases\<close>

text \<open>
  \<open>m0\<close> are the directories before the rename: every feature under its name, no marker, no
  link, the feature of the plan at the old place, and nothing at the new one.
\<close>

definition plan_ok :: "layout \<Rightarrow> rename_plan \<Rightarrow> feature_dirs \<Rightarrow> bool" where
  "plan_ok lay p m0 \<longleftrightarrow>
     lay_root lay \<noteq> [] \<and> proper_dirs lay m0 \<and> (\<forall>q t. bt_get m0 q \<noteq> Some (FsLink t))
   \<and> (\<forall>q c. bt_get m0 q = Some (FsDir c) \<longrightarrow> fd_marker c = None)
   \<and> rp_old_dir p = feature_dir lay (ft_name (rp_old_feature p)) \<and> rp_new_dir p = feature_dir lay (rp_new_name p)
   \<and> feature_name_new (feature_str (rp_new_name p)) = Inr (rp_new_name p)
   \<and> bt_get m0 (rp_old_dir p) = Some (FsDir \<lparr>fd_record = Some (rp_old_feature p), fd_marker = None\<rparr>)
   \<and> (ft_name (rp_old_feature p) \<noteq> rp_new_name p \<longrightarrow> bt_get m0 (rp_new_dir p) = None
        \<and> ft_parent (rp_old_feature p) \<noteq> Some (rp_new_name p)
        \<and> (\<forall>q c f. bt_get m0 q = Some (FsDir c) \<longrightarrow> fd_record c = Some f \<longrightarrow> ft_parent f \<noteq> Some (rp_new_name p)))"

datatype phase = Before | Moved | Reparented

abbreviation "old_name p \<equiv> ft_name (rp_old_feature p)"

definition moved_record :: "rename_plan \<Rightarrow> feature" where
  "moved_record p = (rp_old_feature p)\<lparr>ft_name := rp_new_name p, ft_branch := rp_new_branch p\<rparr>"

definition moved_get :: "rename_plan \<Rightarrow> feature_dirs \<Rightarrow> transition option \<Rightarrow> string \<Rightarrow> feature_dir_content fs_entry option" where
  "moved_get p m0 t =
     (bt_get m0)(rp_old_dir p \<mapsto> FsLink (rp_new_dir p), rp_new_dir p \<mapsto> FsDir \<lparr>fd_record = Some (moved_record p), fd_marker = t\<rparr>)"

fun phase_get :: "rename_plan \<Rightarrow> feature_dirs \<Rightarrow> phase \<Rightarrow> transition option \<Rightarrow> string \<Rightarrow> feature_dir_content fs_entry option" where
  "phase_get p m0 Before t = (bt_get m0)(rp_old_dir p \<mapsto> FsDir \<lparr>fd_record = Some (rp_old_feature p), fd_marker = t\<rparr>)"
| "phase_get p m0 Moved t = moved_get p m0 t"
| "phase_get p m0 Reparented t = (\<lambda>q. map_option (reparent_dir (old_name p) (rp_new_name p)) (moved_get p m0 t q))"

definition in_phase :: "rename_plan \<Rightarrow> feature_dirs \<Rightarrow> phase \<Rightarrow> transition option \<Rightarrow> feature_dirs \<Rightarrow> bool" where
  "in_phase p m0 ph t m \<longleftrightarrow> bt_sorted m \<and> bt_get m = phase_get p m0 ph t"

fun home :: "rename_plan \<Rightarrow> phase \<Rightarrow> string" where
  "home p Before = rp_old_dir p"
| "home p Moved = rp_new_dir p"
| "home p Reparented = rp_new_dir p"

fun home_record :: "rename_plan \<Rightarrow> phase \<Rightarrow> feature" where
  "home_record p Before = rp_old_feature p"
| "home_record p Moved = moved_record p"
| "home_record p Reparented = reparent_record (old_name p) (rp_new_name p) (moved_record p)"

fun anchors :: "rename_plan \<Rightarrow> phase \<Rightarrow> string set" where
  "anchors p Before = {rp_old_dir p}"
| "anchors p Moved = {rp_old_dir p, rp_new_dir p}"
| "anchors p Reparented = {rp_old_dir p, rp_new_dir p}"

lemma plan_dirs:
  assumes "plan_ok lay p m0"
  shows "rp_old_dir p = rp_new_dir p \<longleftrightarrow> old_name p = rp_new_name p"
proof -
  have "feature_name_new (feature_str (old_name p)) = Inr (old_name p)"
    using assms unfolding plan_ok_def proper_dirs_def by (metis feature_dir_content.select_convs(1) option.inject)
  with assms feature_dir_inj [of lay "old_name p" "rp_new_name p"] show ?thesis unfolding plan_ok_def by metis
qed

lemma new_dir_free: "plan_ok lay p m0 \<Longrightarrow> old_name p \<noteq> rp_new_name p \<Longrightarrow> bt_get m0 (rp_new_dir p) = None"
  unfolding plan_ok_def by blast

lemma before_unmarked: "plan_ok lay p m0 \<Longrightarrow> phase_get p m0 Before None = bt_get m0"
  unfolding plan_ok_def by (auto intro!: fun_upd_idem)

lemma home_entry: "in_phase p m0 ph t m \<Longrightarrow> bt_get m (home p ph) = Some (FsDir \<lparr>fd_record = Some (home_record p ph), fd_marker = t\<rparr>)"
  by (cases ph) (simp_all add: in_phase_def moved_get_def)

lemma phase_get_marker:
  "phase_get p m0 ph t' = (phase_get p m0 ph t)(home p ph \<mapsto> FsDir \<lparr>fd_record = Some (home_record p ph), fd_marker = t'\<rparr>)"
  by (cases ph) (auto intro!: ext simp: moved_get_def)

lemma anchor_leads:
  assumes "in_phase p m0 ph t m" and "a \<in> anchors p ph"
  shows "leads_to m a (home p ph) \<lparr>fd_record = Some (home_record p ph), fd_marker = t\<rparr>"
proof (cases "a = home p ph")
  case True
  with home_entry [OF assms(1)] show ?thesis by (simp add: leads_to_dir)
next
  case False
  with assms have "bt_get m a = Some (FsLink (home p ph))" by (cases ph) (auto simp: in_phase_def moved_get_def)
  with home_entry [OF assms(1)] show ?thesis by (simp add: leads_to_link)
qed

lemma insert_marker:
  assumes "in_phase p m0 ph t m"
  shows "in_phase p m0 ph t' (bt_insert (home p ph) (FsDir \<lparr>fd_record = Some (home_record p ph), fd_marker = t'\<rparr>) m)"
proof -
  have s: "bt_sorted m" and g: "bt_get m = phase_get p m0 ph t" using assms by (simp_all add: in_phase_def)
  show ?thesis
    unfolding in_phase_def phase_get_marker [of p m0 ph t' t] g [symmetric]
    using bt.invar_insert [OF s] by (auto simp: bt.get_insert [OF s] intro!: ext)
qed

lemma write_marker_phase:
  assumes i: "in_phase p m0 ph t (snd s)" and a: "a \<in> anchors p ph"
  shows "\<exists>m'. write_marker a t' s = (Inr (), (fst s, m')) \<and> in_phase p m0 ph (Some t') m'"
  using insert_marker [OF i, of "Some t'"]
  by (auto simp: write_marker_def on_dirs_def on_hall_def leads_to_simps [OF anchor_leads [OF i a]])



section \<open>The steps and the phases\<close>

text \<open>Every step but three leaves the feature directories alone.\<close>

lemmas keeps_dirs = keeps_bind keeps_return keeps_fail keeps_gets keeps_read_git keeps_if keeps_for
  keeps_on_git [where P = "\<lambda>m. m = _"] keeps_on_outside [where P = "\<lambda>m. m = _"]

lemma keeps_dirs_parts:
  "keeps (\<lambda>s. snd s = m) (rename_one_branch env r a b)"
  "keeps (\<lambda>s. snd s = m) (move_one_worktree env r x y)"
  "keeps (\<lambda>s. snd s = m) (publish_one env q)"
  "keeps (\<lambda>s. snd s = m) (unpublish_one env q)"
  "keeps (\<lambda>s. snd s = m) (move_one_session env n f ref)"
  unfolding rename_one_branch_def move_one_worktree_def publish_one_def unpublish_one_def move_one_session_def Let_def
  by (auto intro!: keeps_dirs split: option.split prod.split)

definition dirs_step :: "rename_step \<Rightarrow> bool" where
  "dirs_step st \<longleftrightarrow> st \<in> {MoveFeatureDir, UpdateChildren, Finish}"

lemma perform_keeps_dirs: "\<not> dirs_step st \<Longrightarrow> perform_step env p st s = (r, s') \<Longrightarrow> snd s' = snd s"
proof -
  have "keeps (\<lambda>s. snd s = m) (perform_step env p st)" if "\<not> dirs_step st" for m
    using that by (cases st) (auto simp: dirs_step_def intro!: keeps_dirs keeps_dirs_parts)
  then show "\<not> dirs_step st \<Longrightarrow> perform_step env p st s = (r, s') \<Longrightarrow> snd s' = snd s"
    using keepsD [of "\<lambda>t. snd t = snd s"] by blast
qed


text \<open>Moving the directory, there and back.\<close>

lemma update_home:
  assumes i: "bt_sorted (snd s)" "bt_get (snd s) (feature_dir lay n) = Some (FsDir c)" "fd_record c = Some f" "ft_name (g f) = n"
  shows "\<exists>m'. update_dir_record lay n g s = (Inr (), (fst s, m')) \<and> bt_sorted m'
     \<and> bt_get m' = (bt_get (snd s))(feature_dir lay n \<mapsto> FsDir (c\<lparr>fd_record := Some (g f)\<rparr>))"
proof -
  note l = leads_to_dir [OF i(2)]
  have "update_dir_record lay n g s = (Inr (), (fst s, bt_insert (feature_dir lay n) (FsDir (c\<lparr>fd_record := Some (g f)\<rparr>)) (snd s)))"
    by (rule update_dir_record_leads [OF l i(3)]) (simp add: i(4) l)
  then show ?thesis using bt.invar_insert [OF i(1)] by (auto simp: bt.get_insert [OF i(1)] intro!: ext)
qed

lemma fs_rename_dir:
  assumes s: "bt_sorted m" and a: "bt_get m a = Some (FsDir c)" and b: "bt_get m b = None"
  shows "\<exists>m'. fs_rename a b m = (Inr (), m') \<and> bt_sorted m' \<and> bt_get m' = (bt_get m)(a := None, b \<mapsto> FsDir c)"
proof -
  have "a \<noteq> b" using a b by auto
  with a b have "fs_rename a b m = (Inr (), bt_insert b (FsDir c) (bt_remove a m))" by (simp add: fs_rename_def)
  moreover have "bt_get (bt_insert b (FsDir c) (bt_remove a m)) = (bt_get m)(a := None, b \<mapsto> FsDir c)"
    by (rule ext) (simp add: bt.get_insert [OF bt.invar_remove [OF s]] bt.get_remove [OF s])
  ultimately show ?thesis using bt.invar_insert [OF bt.invar_remove [OF s]] by blast
qed

lemma perform_move:
  assumes ok: "plan_ok (re_layout env) p m0" and i: "in_phase p m0 Before t (snd s)"
  shows "\<exists>m'. perform_step env p MoveFeatureDir s = (Inr UpdateChildren, (fst s, m')) \<and> in_phase p m0 Moved t m'"
proof -
  let ?g = "\<lambda>f. f\<lparr>ft_name := rp_new_name p, ft_branch := rp_new_branch p\<rparr>"
  have s: "bt_sorted (snd s)" and g: "bt_get (snd s) = phase_get p m0 Before t" using i by (simp_all add: in_phase_def)
  have new: "rp_new_dir p = feature_dir (re_layout env) (rp_new_name p)" using ok by (simp add: plan_ok_def)
  show ?thesis
  proof (cases "old_name p = rp_new_name p")
    case True
    then have same: "rp_old_dir p = rp_new_dir p" using plan_dirs [OF ok] by simp
    have "bt_get (snd s) (feature_dir (re_layout env) (rp_new_name p)) = Some (FsDir \<lparr>fd_record = Some (rp_old_feature p), fd_marker = t\<rparr>)"
      using g same new by simp
    from update_home [OF s this, of "rp_old_feature p" ?g] obtain m' where
      m': "update_dir_record (re_layout env) (rp_new_name p) ?g s = (Inr (), (fst s, m'))" "bt_sorted m'"
      "bt_get m' = (bt_get (snd s))(rp_new_dir p \<mapsto> FsDir \<lparr>fd_record = Some (moved_record p), fd_marker = t\<rparr>)"
      by (auto simp: new moved_record_def)
    then have "in_phase p m0 Moved t m'" by (auto simp: in_phase_def moved_get_def g same intro!: ext)
    with m'(1) True show ?thesis by (auto simp: bind_s_def return_s_def)
  next
    case False
    then have diff: "rp_old_dir p \<noteq> rp_new_dir p" using plan_dirs [OF ok] by simp
    have old: "bt_get (snd s) (rp_old_dir p) = Some (FsDir \<lparr>fd_record = Some (rp_old_feature p), fd_marker = t\<rparr>)" using g by simp
    have "bt_get (snd s) (rp_new_dir p) = None" using g new_dir_free [OF ok False] diff by simp
    from fs_rename_dir [OF s old this] obtain m1 where
      m1: "fs_rename (rp_old_dir p) (rp_new_dir p) (snd s) = (Inr (), m1)" "bt_sorted m1"
      "bt_get m1 = (bt_get (snd s))(rp_old_dir p := None, rp_new_dir p \<mapsto> FsDir \<lparr>fd_record = Some (rp_old_feature p), fd_marker = t\<rparr>)"
      by blast
    let ?m2 = "bt_insert (rp_old_dir p) (FsLink (rp_new_dir p)) m1"
    have gone: "bt_get m1 (rp_old_dir p) = None" using m1(3) diff by simp
    have m2: "create_symlink (rp_new_dir p) (rp_old_dir p) m1 = (Inr (), ?m2)" "bt_sorted ?m2"
      using gone bt.invar_insert [OF m1(2)] by (simp_all add: create_symlink_def)
    have get2: "bt_get ?m2 = (bt_get (snd s))(rp_old_dir p \<mapsto> FsLink (rp_new_dir p),
        rp_new_dir p \<mapsto> FsDir \<lparr>fd_record = Some (rp_old_feature p), fd_marker = t\<rparr>)"
      using m1(3) diff by (auto simp: bt.get_insert [OF m1(2)] intro!: ext)
    from update_home [of "(fst s, ?m2)" "re_layout env" "rp_new_name p" _ "rp_old_feature p" ?g] m2(2) get2 obtain m' where
      m': "update_dir_record (re_layout env) (rp_new_name p) ?g (fst s, ?m2) = (Inr (), (fst s, m'))" "bt_sorted m'"
      "bt_get m' = (bt_get ?m2)(rp_new_dir p \<mapsto> FsDir \<lparr>fd_record = Some (moved_record p), fd_marker = t\<rparr>)"
      by (auto simp: new moved_record_def)
    have "perform_step env p MoveFeatureDir s = (Inr UpdateChildren, (fst s, m'))"
      using m1(1) m2(1) m'(1) gone False
      by (simp add: bind_s_def return_s_def read_dirs_def gets_s_def leads_to_simps(1) [OF leads_to_dir [OF old]]
          on_dirs_def on_hall_def read_symlink_def)
    moreover have "in_phase p m0 Moved t m'"
      using m'(2,3) get2 g by (auto simp: in_phase_def moved_get_def intro!: ext)
    ultimately show ?thesis by blast
  qed
qed


text \<open>Reparenting the children, there and back.\<close>

lemma reparent_dir_same [simp]: "reparent_dir a a e = e"
proof (cases e)
  case (FsDir c)
  have "reparent_record a a = id" by (rule ext) (simp add: reparent_record_def)
  with FsDir show ?thesis by (simp add: option.map_id)
qed simp

lemma map_reparent_same [simp]: "map_option (reparent_dir a a) x = x"
  by (cases x) simp_all


lemma in_phase_proper:
  assumes ok: "plan_ok lay p m0" and i: "in_phase p m0 ph t m"
  shows "proper_dirs lay m"
proof -
  have p0: "proper_dirs lay m0" and new: "rp_new_dir p = feature_dir lay (rp_new_name p)"
    "feature_name_new (feature_str (rp_new_name p)) = Inr (rp_new_name p)"
    and old: "bt_get m0 (rp_old_dir p) = Some (FsDir \<lparr>fd_record = Some (rp_old_feature p), fd_marker = None\<rparr>)"
    using ok unfolding plan_ok_def by blast+
  let ?P = "\<lambda>q c. \<exists>f. fd_record c = Some f \<and> q = feature_dir lay (ft_name f) \<and> feature_name_new (feature_str (ft_name f)) = Inr (ft_name f)"
  have orig: "?P q c" if "bt_get m0 q = Some (FsDir c)" for q c using p0 that unfolding proper_dirs_def by blast
  have moved: "?P q c" if "moved_get p m0 t q = Some (FsDir c)" for q c
  proof (cases "q = rp_new_dir p")
    case True
    with that new show ?thesis by (auto simp: moved_get_def moved_record_def)
  next
    case False
    with that have "bt_get m0 q = Some (FsDir c)" by (simp add: moved_get_def split: if_splits)
    then show ?thesis by (rule orig)
  qed
  have "?P q c" if q: "phase_get p m0 ph t q = Some (FsDir c)" for q c
  proof (cases ph)
    case Before
    with q orig [OF old] orig [of q c] show ?thesis by (cases "q = rp_old_dir p") auto
  next
    case Moved
    with q moved show ?thesis by simp
  next
    case Reparented
    with q obtain d where d: "moved_get p m0 t q = Some (FsDir d)" "c = d\<lparr>fd_record := map_option (reparent_record (old_name p) (rp_new_name p)) (fd_record d)\<rparr>"
      by (cases "moved_get p m0 t q"; cases "the (moved_get p m0 t q)") auto
    from moved [OF d(1)] obtain f where "fd_record d = Some f" "q = feature_dir lay (ft_name f)"
      "feature_name_new (feature_str (ft_name f)) = Inr (ft_name f)" by blast
    with d(2) show ?thesis by (intro exI [of _ "reparent_record (old_name p) (rp_new_name p) f"]) (simp add: reparent_record_def)
  qed
  with i show ?thesis unfolding in_phase_def proper_dirs_def by simp
qed

lemma perform_children:
  assumes ok: "plan_ok (re_layout env) p m0" and i: "in_phase p m0 Moved t (snd s)"
  shows "\<exists>m'. perform_step env p UpdateChildren s = (Inr UpdateFeatureLayers, (fst s, m')) \<and> in_phase p m0 Reparented t m'"
proof (cases "old_name p = rp_new_name p")
  case True
  then have "perform_step env p UpdateChildren s = (Inr UpdateFeatureLayers, (fst s, snd s))"
    by (simp add: bind_s_def return_s_def)
  moreover have "in_phase p m0 Reparented t (snd s)"
    using i True by (auto simp: in_phase_def map_reparent_same intro!: ext)
  ultimately show ?thesis by blast
next
  case False
  have root: "lay_root (re_layout env) \<noteq> []" using ok by (simp add: plan_ok_def)
  from reparent_children_all [OF root in_phase_proper [OF ok i], of "old_name p" "rp_new_name p"] obtain m' where
    "reparent_children (re_layout env) (old_name p) (rp_new_name p) s = (Inr (), (fst s, m'))" "bt_sorted m'"
    "bt_get m' = (\<lambda>q. map_option (reparent_dir (old_name p) (rp_new_name p)) (bt_get (snd s) q))" by blast
  with False i show ?thesis by (intro exI [of _ m']) (simp add: bind_s_def return_s_def in_phase_def)
qed


section \<open>Transitions\<close>

fun phase_of :: "direction \<Rightarrow> rename_step \<Rightarrow> phase" where
  "phase_of Forward st = (if step_index st \<le> 4 then Before else if step_index st = 5 then Moved else Reparented)"
| "phase_of RollingBack st = (if step_index st \<le> 3 then Before else if step_index st = 4 then Moved else Reparented)"

definition consistent :: "rename_plan \<Rightarrow> feature_dirs \<Rightarrow> transition \<Rightarrow> feature_dirs \<Rightarrow> bool" where
  "consistent p m0 t m \<longleftrightarrow> rt_plan t = p \<and> (rt_direction t = RollingBack \<longrightarrow> rt_step t \<noteq> Finish)
     \<and> in_phase p m0 (phase_of (rt_direction t) (rt_step t)) (Some t) m"









section \<open>Attempts\<close>













text \<open>A plan without blockers, built on directories that hold no marker and no link.\<close>

definition clean_dirs :: "layout \<Rightarrow> feature_name \<Rightarrow> feature_name \<Rightarrow> feature_dirs \<Rightarrow> bool" where
  "clean_dirs lay a b m \<longleftrightarrow> lay_root lay \<noteq> [] \<and> proper_dirs lay m \<and> (\<forall>q t. bt_get m q \<noteq> Some (FsLink t))
   \<and> (\<forall>q c. bt_get m q = Some (FsDir c) \<longrightarrow> fd_marker c = None)
   \<and> (a \<noteq> b \<longrightarrow> (\<forall>q c f. bt_get m q = Some (FsDir c) \<longrightarrow> fd_record c = Some f \<longrightarrow> ft_parent f \<noteq> Some b))"

lemma fs_is_dir_dir: "bt_get m p = Some (FsDir c) \<Longrightarrow> fs_is_dir m p = Inr True"
  by (simp add: leads_to_simps [OF leads_to_dir])

lemma map_sum_id_Inr [simp]: "map_sum f id x = Inr y \<longleftrightarrow> x = Inr y"
  by (cases x) simp_all

lemma built_plan:
  assumes "plan_build env source new b (g, m) = Inr (p, [])"
  shows "rp_old_feature p = source" "rp_new_name p = new" "rp_new_branch p = unwrap_or (ft_branch source) b"
    "rp_old_dir p = feature_dir (re_layout env) (ft_name source)" "rp_new_dir p = feature_dir (re_layout env) new"
    "feature_blockers (re_layout env) source new m = Inr []"
  using assms by (auto simp: plan_build_def Let_def and_then_eq_Inr)

lemma built_plan_ok:
  assumes clean: "clean_dirs (re_layout env) (ft_name source) new m"
    and there: "bt_get m (feature_dir (re_layout env) (ft_name source)) = Some (FsDir \<lparr>fd_record = Some source, fd_marker = None\<rparr>)"
    and name: "feature_name_new (feature_str new) = Inr new"
    and built: "plan_build env source new b (g, m) = Inr (p, [])"
  shows "plan_ok (re_layout env) p m"
proof -
  note p = built_plan [OF built]
  have free: "bt_get m (feature_dir (re_layout env) new) = None" if "ft_name source \<noteq> new"
  proof (cases "bt_get m (feature_dir (re_layout env) new)")
    case (Some e)
    with clean obtain c where "e = FsDir c" unfolding clean_dirs_def by (metis fs_entry.exhaust)
    from fs_is_dir_dir [OF Some [unfolded this]] p(6) that show ?thesis by (simp add: feature_blockers_def Let_def)
  qed
  from clean have "lay_root (re_layout env) \<noteq> []" "proper_dirs (re_layout env) m" "\<And>q t. bt_get m q \<noteq> Some (FsLink t)"
    "\<And>q c. bt_get m q = Some (FsDir c) \<Longrightarrow> fd_marker c = None"
    "\<And>q c f. ft_name source \<noteq> new \<Longrightarrow> bt_get m q = Some (FsDir c) \<Longrightarrow> fd_record c = Some f \<Longrightarrow> ft_parent f \<noteq> Some new"
    unfolding clean_dirs_def by blast+
  moreover from this(5) [OF _ there] have "ft_name source \<noteq> new \<Longrightarrow> ft_parent source \<noteq> Some new" by simp
  ultimately show ?thesis unfolding plan_ok_def p using there name free by (intro conjI allI impI) auto
qed

section \<open>What a whole rename does to git and the sessions\<close>




















section \<open>Properties\<close>


text \<open>
  The step that moves the directory cannot be run again after it succeeded: the link it
  leaves under the old name counts as a directory, and renaming it over the new one fails.
  A rename interrupted between this step and its checkpoint is rolled back, not finished.
\<close>

theorem move_feature_dir_not_rerunnable:
  assumes "plan_ok (re_layout env) p m0" and "old_name p \<noteq> rp_new_name p" and "in_phase p m0 Before t (snd s)"
  shows "\<exists>s'. perform_step env p MoveFeatureDir s = (Inr UpdateChildren, s')
    \<and> perform_step env p MoveFeatureDir s' = (Inl (fs_failure (FsRename (rp_old_dir p) (rp_new_dir p) eisdir)), s')"
proof -
  from perform_move [OF assms(1,3)] obtain m' where
    m': "perform_step env p MoveFeatureDir s = (Inr UpdateChildren, (fst s, m'))" "in_phase p m0 Moved t m'" by blast
  have diff: "rp_old_dir p \<noteq> rp_new_dir p" using plan_dirs [OF assms(1)] assms(2) by simp
  from m'(2) diff have link: "bt_get m' (rp_old_dir p) = Some (FsLink (rp_new_dir p))" by (simp add: in_phase_def moved_get_def)
  note home = home_entry [OF m'(2), simplified]
  have "perform_step env p MoveFeatureDir (fst s, m') = (Inl (fs_failure (FsRename (rp_old_dir p) (rp_new_dir p) eisdir)), (fst s, m'))"
    using assms(2) diff
    by (simp add: bind_s_def read_dirs_def gets_s_def leads_to_simps(1) [OF leads_to_link [OF link home]] on_dirs_def on_hall_def
        fs_rename_def link home)
  with m'(1) show ?thesis by blast
qed

text \<open>
  A step that fails undoes nothing in the call that sees the failure: it returns the
  step's failure with every earlier step still in place, and only the next call for the
  feature starts to roll back.
\<close>

theorem failed_step_is_not_reversed:
  assumes "plan_ok (re_layout env) p m0" and "consistent p m0 t (snd s)" and "rt_direction t = Forward"
    and "a \<in> anchors p (phase_of Forward (rt_step t))"
    and "perform_step env p (rt_step t) s = (Inl e, s1)" and "rt_step t \<noteq> Finish"
  shows "\<exists>s'. resume env a t s = (Inl e, s') \<and> fst s' = fst s1
    \<and> in_phase p m0 (phase_of Forward (rt_step t)) (Some (t\<lparr>rt_direction := RollingBack\<rparr>)) (snd s')"
proof -
  have p: "rt_plan t = p" and i: "in_phase p m0 (phase_of Forward (rt_step t)) (Some t) (snd s)"
    using assms(2,3) by (simp_all add: consistent_def)
  have nd: "\<not> dirs_step (rt_step t)"
  proof
    assume "dirs_step (rt_step t)"
    with assms(6) consider "rt_step t = MoveFeatureDir" | "rt_step t = UpdateChildren" by (auto simp: dirs_step_def)
    then show False
    proof cases
      case 1
      with i have "in_phase p m0 Before (Some t) (snd s)" by simp
      from perform_move [OF assms(1) this] assms(5) 1 show False by auto
    next
      case 2
      with i have "in_phase p m0 Moved (Some t) (snd s)" by simp
      from perform_children [OF assms(1) this] assms(5) 2 show False by auto
    qed
  qed
  from perform_keeps_dirs [OF nd assms(5)] i have i1: "in_phase p m0 (phase_of Forward (rt_step t)) (Some t) (snd s1)" by simp
  from write_marker_phase [OF i1 assms(4), of "t\<lparr>rt_direction := RollingBack\<rparr>"] obtain m2 where
    w: "write_marker a (t\<lparr>rt_direction := RollingBack\<rparr>) s1 = (Inr (), (fst s1, m2))"
      "in_phase p m0 (phase_of Forward (rt_step t)) (Some (t\<lparr>rt_direction := RollingBack\<rparr>)) m2" by blast
  have "resume env a t s = (Inl e, (fst s1, m2))"
    using assms(3,5,6) w(1) p by (subst resume.simps) (simp del: resume.simps)
  with w(2) show ?thesis by auto
qed

section \<open>Witnesses\<close>

text \<open>The shop and its cart; the shop is renamed to a store, with its branch.\<close>

definition sample_rename_env :: "unit rename_env" where
  "sample_rename_env =
     \<lparr>re_git = sample_git, re_layout = layout_at ''/h'', re_url = (\<lambda>r. None), re_open_pr = (\<lambda>g p b. Inr None),
      re_sessions = (\<lambda>g n. Inr []), re_write_session = (\<lambda>p v g. (Inr (), g)),
      re_materialise = (\<lambda>f v p g. (Inr (), g)), re_rename_layers = (\<lambda>a b g. g)\<rparr>"

definition sample_node :: "string \<Rightarrow> string option \<Rightarrow> feature" where
  "sample_node n p =
     \<lparr>ft_version = 1, ft_name = FeatureName n, ft_branch = BranchName n, ft_promotions = [], ft_base = None,
      ft_parent = map_option FeatureName p, ft_integration = \<lparr>iv_via = None, iv_strategy = None\<rparr>\<rparr>"

definition sample_dirs :: feature_dirs where
  "sample_dirs =
     [(feature_dir (layout_at ''/h'') (FeatureName ''cart''), FsDir \<lparr>fd_record = Some (sample_node ''cart'' (Some ''shop'')), fd_marker = None\<rparr>),
      (feature_dir (layout_at ''/h'') (FeatureName ''shop''), FsDir \<lparr>fd_record = Some (sample_node ''shop'' None), fd_marker = None\<rparr>)]"

definition sample_plan :: rename_plan where
  "sample_plan =
     \<lparr>rp_old_feature = sample_node ''shop'' None, rp_new_name = FeatureName ''store'', rp_new_branch = BranchName ''store'',
      rp_old_dir = feature_dir (layout_at ''/h'') (FeatureName ''shop''),
      rp_new_dir = feature_dir (layout_at ''/h'') (FeatureName ''store''), rp_repos = []\<rparr>"

lemma sample_dirs_ok:
  "clean_dirs (re_layout sample_rename_env) (ft_name (sample_node ''shop'' None)) (FeatureName ''store'') sample_dirs"
  "bt_get sample_dirs (feature_dir (re_layout sample_rename_env) (ft_name (sample_node ''shop'' None)))
     = Some (FsDir \<lparr>fd_record = Some (sample_node ''shop'' None), fd_marker = None\<rparr>)"
  "feature_name_new (feature_str (FeatureName ''store'')) = Inr (FeatureName ''store'')"
  "plan_build sample_rename_env (sample_node ''shop'' None) (FeatureName ''store'') (Some (BranchName ''store'')) ((), sample_dirs)
     = Inr (sample_plan, [])"
proof -
  have names: "feature_name_new ''cart'' = Inr (FeatureName ''cart'')" "feature_name_new ''shop'' = Inr (FeatureName ''shop'')"
    by code_simp+
  have "bt_sorted sample_dirs" by code_simp
  moreover have "lay_root (layout_at ''/h'') \<noteq> []" by code_simp
  ultimately show "clean_dirs (re_layout sample_rename_env) (ft_name (sample_node ''shop'' None)) (FeatureName ''store'') sample_dirs"
    unfolding clean_dirs_def proper_dirs_def
    by (auto simp: sample_dirs_def sample_rename_env_def sample_node_def bt_get_def names split: if_splits)
qed code_simp+

lemma sample_plan_ok: "plan_ok (re_layout sample_rename_env) sample_plan sample_dirs"
  by (rule built_plan_ok [OF sample_dirs_ok])


theorem move_feature_dir_not_rerunnable_witness:
  "\<exists>s'. perform_step sample_rename_env sample_plan MoveFeatureDir ((), sample_dirs) = (Inr UpdateChildren, s')
     \<and> \<not> is_ok (fst (perform_step sample_rename_env sample_plan MoveFeatureDir s'))"
proof -
  have "in_phase sample_plan sample_dirs Before None (snd ((), sample_dirs))"
    using before_unmarked [OF sample_plan_ok] sample_plan_ok by (simp add: in_phase_def plan_ok_def proper_dirs_def)
  moreover have "old_name sample_plan \<noteq> rp_new_name sample_plan" by code_simp
  ultimately show ?thesis
    using move_feature_dir_not_rerunnable [OF sample_plan_ok, of None "((), sample_dirs)"] by auto
qed

text \<open>The worktrees of a repository that cannot be moved.\<close>

definition sample_repo_plan :: repo_rename_plan where
  "sample_repo_plan =
     \<lparr>rq_repo = RepoName ''api'', rq_old_worktree = ''/h/a'', rq_new_worktree = ''/h/b'', rq_old_branch = BranchName ''shop'',
      rq_new_branch = BranchName ''store'', rq_old_remote = None, rq_old_remote_tip = None\<rparr>"

definition sample_stuck_env :: "unit rename_env" where
  "sample_stuck_env = sample_rename_env
     \<lparr>re_git := sample_git\<lparr>g_rename_branch := (\<lambda>p a b g. (Inl (GitRefused ''branch -m'' ''locked''), g))\<rparr>\<rparr>"

definition sample_stuck_plan :: rename_plan where
  "sample_stuck_plan = sample_plan\<lparr>rp_repos := [sample_repo_plan]\<rparr>"

definition sample_transition :: transition where
  "sample_transition = \<lparr>rt_version = 1, rt_plan = sample_stuck_plan, rt_direction = Forward, rt_step = RenameBranches\<rparr>"

lemma plan_ok_repos: "plan_ok lay (p\<lparr>rp_repos := rs\<rparr>) m = plan_ok lay p m"
  by (simp add: plan_ok_def)

theorem failed_step_is_not_reversed_witness:
  "\<exists>e m s'. resume sample_stuck_env (rp_old_dir sample_stuck_plan) sample_transition ((), m) = (Inl e, s')
     \<and> in_phase sample_stuck_plan sample_dirs Before (Some (sample_transition\<lparr>rt_direction := RollingBack\<rparr>)) (snd s')"
proof -
  have ok: "plan_ok (re_layout sample_stuck_env) sample_stuck_plan sample_dirs"
    using sample_plan_ok by (simp add: plan_ok_repos sample_stuck_plan_def sample_stuck_env_def)
  have "in_phase sample_stuck_plan sample_dirs Before None (snd ((), sample_dirs))"
    using before_unmarked [OF ok] ok by (simp add: in_phase_def plan_ok_def proper_dirs_def)
  from write_marker_phase [OF this, of "rp_old_dir sample_stuck_plan" sample_transition] obtain m where
    "in_phase sample_stuck_plan sample_dirs Before (Some sample_transition) m" by auto
  then have c: "consistent sample_stuck_plan sample_dirs sample_transition (snd ((), m))"
    by (simp add: consistent_def sample_transition_def)
  have fails: "\<exists>e. perform_step sample_stuck_env sample_stuck_plan RenameBranches ((), m) = (Inl e, ((), m))"
    by (simp add: sample_stuck_plan_def sample_stuck_env_def sample_repo_plan_def sample_rename_env_def sample_git_def sample_plan_def
        rename_one_branch_def on_git_def on_outside_def bind_s_def gets_s_def Let_def)
  then obtain e where "perform_step sample_stuck_env sample_stuck_plan (rt_step sample_transition) ((), m) = (Inl e, ((), m))"
    by (auto simp: sample_transition_def)
  from failed_step_is_not_reversed [OF ok c _ _ this, of "rp_old_dir sample_stuck_plan"] show ?thesis
    by (auto simp: sample_transition_def)
qed

text \<open>
  A rename does not look at the branches of the other features, so two of them can end up
  with the same one, which a creation refuses.
\<close>

theorem rename_can_share_branch:
  "case rename sample_rename_env \<lparr>rn_feature = ''shop'', rn_name = None, rn_branch = Some ''cart''\<rparr> ((), sample_dirs) of (r, s') \<Rightarrow>
     is_ok r \<and> map_option ft_branch (record_at (snd s') (layout_at ''/h'') (FeatureName ''shop'')) = Some (BranchName ''cart'')
     \<and> map_option ft_branch (record_at (snd s') (layout_at ''/h'') (FeatureName ''cart'')) = Some (BranchName ''cart'')"
  by code_simp

end
