(* ===== verification/File_Tree.thy ===== *)
theory File_Tree
  imports Layout_Paths Fs
begin

text \<open>
  Files, directories and symbolic links as the operating system resolves them, for the code
  that asks where a path really leads: \<open>Path::exists\<close>, \<open>is_symlink\<close>, \<open>read_link\<close> and
  \<open>canonicalize\<close>, and the place a program reaches when it writes to a path.  A location is
  the list of names from the root.
\<close>

datatype node = DirNode | FileNode | LinkNode string

datatype walk_error = Enoent | Enotdir | Eloop

record files =
  fi_nodes :: "(string list \<times> node) list"
  fi_cwd :: "string list"

definition node_at :: "files \<Rightarrow> string list \<Rightarrow> node option" where
  "node_at t p = (if p = [] then Some DirNode else map_of (fi_nodes t) p)"

text \<open>The components of the target of a link, as they follow those of its directory.\<close>

definition link_components :: "string \<Rightarrow> component list" where
  "link_components p = (if is_absolute p then components p else body_components (split_on (CHR ''/'') p))"

text \<open>
  Path resolution: every link costs one of the links the system is willing to follow, and
  \<open>create\<close> says whether missing names are made on the way.  The result is a location and the
  links that are left.
\<close>

function fs_walk :: "bool \<Rightarrow> files \<Rightarrow> nat \<Rightarrow> string list \<Rightarrow> component list \<Rightarrow> walk_error + string list \<times> nat" where
  "fs_walk create t n cur [] = Inr (cur, n)"
| "fs_walk create t n cur (RootDir # cs) = fs_walk create t n [] cs"
| "fs_walk create t n cur (CurDir # cs) = (if node_at t cur = Some FileNode then Inl Enotdir else fs_walk create t n cur cs)"
| "fs_walk create t n cur (ParentDir # cs) =
     (if node_at t cur = Some FileNode then Inl Enotdir else fs_walk create t n (butlast cur) cs)"
| "fs_walk create t n cur (Normal w # cs) =
     (if node_at t cur = Some FileNode then Inl Enotdir
      else (case node_at t (cur @ [w]) of
        None \<Rightarrow> if create then fs_walk create t n (cur @ [w]) cs else Inl Enoent
      | Some (LinkNode target) \<Rightarrow>
          (case n of 0 \<Rightarrow> Inl Eloop | Suc k \<Rightarrow> fs_walk create t k cur (link_components target @ cs))
      | Some _ \<Rightarrow> fs_walk create t n (cur @ [w]) cs))"
  by pat_completeness auto
termination
  by (relation "measures [\<lambda>(create, t, n, cur, cs). n, \<lambda>(create, t, n, cur, cs). length cs]") auto

definition os_links :: nat where
  "os_links = 40"

definition canonicalize_components :: "files \<Rightarrow> component list \<Rightarrow> walk_error + string list" where
  "canonicalize_components t cs =
     (if cs = [] then Inl Enoent else map_sum id fst (fs_walk False t os_links (fi_cwd t) cs))"

definition path_exists :: "files \<Rightarrow> component list \<Rightarrow> bool" where
  "path_exists t cs = is_ok (canonicalize_components t cs)"

text \<open>\<open>symlink_metadata\<close> resolves everything but the last name.\<close>

definition lstat :: "files \<Rightarrow> component list \<Rightarrow> node option" where
  "lstat t cs =
     (case rev cs of
        Normal w # ds \<Rightarrow>
          (case (if ds = [] then Inr (fi_cwd t) else canonicalize_components t (rev ds)) of
             Inl _ \<Rightarrow> None | Inr d \<Rightarrow> node_at t (d @ [w]))
      | _ \<Rightarrow> (case canonicalize_components t cs of Inl _ \<Rightarrow> None | Inr d \<Rightarrow> node_at t d))"

definition read_link :: "files \<Rightarrow> component list \<Rightarrow> string option" where
  "read_link t cs = (case lstat t cs of Some (LinkNode target) \<Rightarrow> Some target | _ \<Rightarrow> None)"

definition is_symlink :: "files \<Rightarrow> component list \<Rightarrow> bool" where
  "is_symlink t cs \<longleftrightarrow> read_link t cs \<noteq> None"

text \<open>Where a write to the path ends up, making the directories that are missing.\<close>

definition lands :: "files \<Rightarrow> component list \<Rightarrow> walk_error + string list" where
  "lands t cs = map_sum id fst (fs_walk True t os_links (fi_cwd t) cs)"

definition location :: "string list \<Rightarrow> component list" where
  "location q = RootDir # map Normal q"

text \<open>Whatever exists is in a directory.\<close>

definition files_ok :: "files \<Rightarrow> bool" where
  "files_ok t \<longleftrightarrow> (\<forall>d w. node_at t (d @ [w]) \<noteq> None \<longrightarrow> node_at t d = Some DirNode)"

text \<open>The components of an absolute path.\<close>

definition absolute_components :: "component list \<Rightarrow> bool" where
  "absolute_components cs \<longleftrightarrow> (\<exists>b. cs = RootDir # b \<and> RootDir \<notin> set b \<and> CurDir \<notin> set b)"

section \<open>Resolution step by step\<close>

lemma fs_walk_append:
  "fs_walk b t n cur (xs @ ys) = (case fs_walk b t n cur xs of Inl e \<Rightarrow> Inl e | Inr (q, m) \<Rightarrow> fs_walk b t m q ys)"
  by (induction b t n cur xs rule: fs_walk.induct) (auto split: option.split node.split nat.split)

lemma fs_walk_links:
  "fs_walk b t n cur cs = Inr (q, m) \<Longrightarrow> m \<le> n \<and> fs_walk b t (n - m + k) cur cs = Inr (q, k)"
proof (induction b t n cur cs rule: fs_walk.induct)
  case (5 b t n cur w cs)
  show ?case
  proof (cases "\<exists>target. node_at t (cur @ [w]) = Some (LinkNode target)")
    case True
    then obtain target where link: "node_at t (cur @ [w]) = Some (LinkNode target)" by blast
    with "5.prems" obtain j where j: "n = Suc j" and rest: "fs_walk b t j cur (link_components target @ cs) = Inr (q, m)"
      and dir: "node_at t cur \<noteq> Some FileNode" by (auto split: if_splits nat.splits)
    from "5.IH"(4) [OF dir link refl j rest] have m: "m \<le> j"
      and go: "fs_walk b t (j - m + k) cur (link_components target @ cs) = Inr (q, k)" by blast+
    have "fs_walk b t (Suc (j - m + k)) cur (Normal w # cs) = Inr (q, k)" using dir link go by simp
    moreover have "n - m + k = Suc (j - m + k)" using m j by simp
    ultimately show ?thesis using m j by simp
  next
    case False
    with 5 show ?thesis by (auto split: option.splits node.splits if_splits)
  qed
qed (auto split: if_splits)

lemma fs_walk_more:
  assumes "fs_walk b t n cur cs = Inr (q, m)"
  shows "fs_walk b t (n + k) cur cs = Inr (q, m + k)"
  using fs_walk_links [OF assms, of "m + k"] by (metis add.assoc le_add_diff_inverse2)

lemma fs_walk_enoent_more: "fs_walk False t n cur cs = Inl Enoent \<Longrightarrow> fs_walk False t (n + k) cur cs = Inl Enoent"
  by (induction False t n cur cs rule: fs_walk.induct) (auto split: option.splits node.splits nat.splits if_splits)

lemma fs_walk_create: "fs_walk False t n cur cs = Inr r \<Longrightarrow> fs_walk True t n cur cs = Inr r"
  by (induction False t n cur cs rule: fs_walk.induct) (auto split: option.splits node.splits nat.splits if_splits)

lemma fs_walk_create_error: "fs_walk False t n cur cs = Inl e \<Longrightarrow> e \<noteq> Enoent \<Longrightarrow> fs_walk True t n cur cs = Inl e"
  by (induction False t n cur cs rule: fs_walk.induct) (auto split: option.splits node.splits nat.splits if_splits)

text \<open>Two successful resolutions of the same path reach the same place with the same links used.\<close>

lemma fs_walk_agree:
  assumes "fs_walk False t a cur cs = Inr (q, m)" and "fs_walk True t b cur cs = Inr (r, k)"
  shows "q = r \<and> b + m = a + k"
proof -
  from fs_walk_create [OF assms(1)] have x: "fs_walk True t a cur cs = Inr (q, m)" .
  have 1: "fs_walk True t (a + b) cur cs = Inr (q, m + b)" using fs_walk_more [OF x, of b] by simp
  have "fs_walk True t (b + a) cur cs = Inr (r, k + a)" using fs_walk_more [OF assms(2), of a] by simp
  with 1 have "q = r" "m + b = k + a" by (simp_all add: add.commute)
  then show ?thesis by simp
qed

text \<open>Below something that is missing, everything is missing.\<close>

lemma missing_below: "files_ok t \<Longrightarrow> node_at t d = None \<Longrightarrow> node_at t (d @ ws) = None"
proof (induction ws rule: rev_induct)
  case (snoc w ws)
  then have "node_at t (d @ ws) \<noteq> Some DirNode" by simp
  with snoc.prems(1) show ?case unfolding files_ok_def by (metis append.assoc)
qed simp

lemma fs_walk_missing:
  "files_ok t \<Longrightarrow> node_at t cur = None \<Longrightarrow> fs_walk True t n cur (map Normal ws) = Inr (cur @ ws, n)"
proof (induction ws arbitrary: cur)
  case (Cons w ws)
  from missing_below [OF Cons.prems, of "[w]"] Cons show ?case by simp
qed simp

lemma body_component_parts: "RootDir \<notin> set (body_components ws)" "CurDir \<notin> set (body_components ws)"
  by (auto simp: body_components_def body_component_def split: if_splits)

end
