(* ===== verification/Guard_Paths.thy ===== *)
theory Guard_Paths
  imports File_Tree
begin

text \<open>
  \<open>canonicalize_lenient\<close> of the write guard: the path a target will have once it exists,
  links followed, and nothing when that cannot be told.  The main lemma says that it is the
  place the system would reach when the tool writes to the target.
\<close>

text \<open>The loop over the ancestors of \<open>p\<close>; \<open>rs\<close> is the current one, its last component first.\<close>

function climb ::
    "files \<Rightarrow> nat \<Rightarrow> component list \<Rightarrow> component list \<Rightarrow> component list \<Rightarrow> component list" where
  "climb t hops p rs tail =
     (if path_exists t (rev rs)
      then (case canonicalize_components t (rev rs) of Inr q \<Rightarrow> location q @ tail | Inl _ \<Rightarrow> p)
      else if is_symlink t (rev rs)
      then (case read_link t (rev rs) of
              None \<Rightarrow> []
            | Some target \<Rightarrow>
                (case hops of
                   0 \<Rightarrow> []
                 | Suc h \<Rightarrow>
                     (let linked = (if is_absolute target then components target
                                    else butlast (rev rs) @ link_components target)
                      in climb t h linked (rev linked) [] @ tail)))
      else (case rs of Normal w # ds \<Rightarrow> climb t hops p ds (Normal w # tail) | _ \<Rightarrow> p))"
  by pat_completeness auto
termination
  by (relation "measures [\<lambda>(t, hops, p, rs, tail). hops, \<lambda>(t, hops, p, rs, tail). length rs]") auto

declare climb.simps [simp del]

definition canonicalize_within_hops :: "files \<Rightarrow> nat \<Rightarrow> component list \<Rightarrow> component list" where
  "canonicalize_within_hops t hops p = climb t hops p (rev p) []"

definition max_symlink_hops :: nat where
  "max_symlink_hops = 40"

definition canonicalize_lenient :: "files \<Rightarrow> string \<Rightarrow> component list" where
  "canonicalize_lenient t path =
     (let resolved = canonicalize_within_hops t max_symlink_hops (components path)
      in if ParentDir \<in> set resolved then [] else resolved)"

definition within :: "component list \<Rightarrow> component list \<Rightarrow> bool" where
  "within path root \<longleftrightarrow> root \<noteq> [] \<and> prefix root path"

section \<open>Where the guard looks is where the write lands\<close>

text \<open>What the resolution of a path may be, when the write lands at \<open>q\<close>.\<close>

definition faithful :: "files \<Rightarrow> component list \<Rightarrow> string list \<Rightarrow> component list \<Rightarrow> bool" where
  "faithful t cs q r \<longleftrightarrow> ParentDir \<in> set r \<or> (r = location q \<and> (path_exists t cs \<or> node_at t q = None))"

lemma canonicalize_eq:
  "cs \<noteq> [] \<Longrightarrow> canonicalize_components t cs = Inr q \<longleftrightarrow> (\<exists>m. fs_walk False t os_links (fi_cwd t) cs = Inr (q, m))"
  by (cases "fs_walk False t os_links (fi_cwd t) cs") (auto simp: canonicalize_components_def)

lemma path_exists_eq: "cs \<noteq> [] \<Longrightarrow> path_exists t cs \<longleftrightarrow> (\<exists>q m. fs_walk False t os_links (fi_cwd t) cs = Inr (q, m))"
  by (simp add: path_exists_def is_ok_iff canonicalize_eq)

lemma lstat_name:
  "ds \<noteq> [] \<Longrightarrow> lstat t (ds @ [Normal w]) =
     (case canonicalize_components t ds of Inl _ \<Rightarrow> None | Inr d \<Rightarrow> node_at t (d @ [w]))"
  by (simp add: lstat_def)

lemma is_symlink_name:
  assumes "ds \<noteq> []"
  shows "is_symlink t (ds @ [Normal w]) \<longleftrightarrow>
    (\<exists>d target. canonicalize_components t ds = Inr d \<and> node_at t (d @ [w]) = Some (LinkNode target)
       \<and> read_link t (ds @ [Normal w]) = Some target)"
  by (auto simp: is_symlink_def read_link_def lstat_name [OF assms] split: sum.splits option.splits node.splits)

lemma not_symlink_unresolved:
  "\<not> path_exists t cs \<Longrightarrow> cs \<noteq> [] \<Longrightarrow> \<not> (\<exists>w. last cs = Normal w) \<Longrightarrow> \<not> is_symlink t cs"
  by (cases cs rule: rev_cases)
     (auto simp: is_symlink_def read_link_def lstat_def path_exists_def split: component.splits sum.splits)

text \<open>An ancestor that exists: the rest of the path is missing.\<close>

lemma climb_exists:
  assumes ok: "files_ok t" and abs: "absolute_components ds"
    and here: "path_exists t ds" and land: "fs_walk True t n (fi_cwd t) (ds @ map Normal ws) = Inr (q, m)" "n \<le> os_links"
    and after: "ws \<noteq> [] \<Longrightarrow> \<not> path_exists t (ds @ [Normal (hd ws)]) \<and> \<not> is_symlink t (ds @ [Normal (hd ws)])"
  shows "\<exists>d. canonicalize_components t ds = Inr d \<and> q = d @ ws \<and> (ws = [] \<or> node_at t q = None)"
proof -
  from abs have ne: "ds \<noteq> []" by (auto simp: absolute_components_def)
  from here obtain d a where d: "fs_walk False t os_links (fi_cwd t) ds = Inr (d, a)" by (auto simp: path_exists_eq [OF ne])
  then have can: "canonicalize_components t ds = Inr d" by (simp add: canonicalize_eq [OF ne])
  from land(1) obtain d' b where d': "fs_walk True t n (fi_cwd t) ds = Inr (d', b)"
    and rest: "fs_walk True t b d' (map Normal ws) = Inr (q, m)" by (auto simp: fs_walk_append split: sum.splits)
  from fs_walk_agree [OF d d'] have same: "d' = d" by simp
  show ?thesis
  proof (cases ws)
    case Nil
    with rest same can show ?thesis by simp
  next
    case (Cons w us)
    with after have nx: "\<not> path_exists t (ds @ [Normal w])" "\<not> is_symlink t (ds @ [Normal w])" by simp_all
    have "node_at t d \<noteq> Some FileNode" using rest same Cons by (auto split: if_splits)
    then have "node_at t (d @ [w]) = None"
      using nx can d by (auto simp: path_exists_eq is_symlink_name [OF ne] read_link_def lstat_name [OF ne] fs_walk_append
          split: option.splits node.splits)
    from fs_walk_missing [OF ok this, of b us] rest same Cons can missing_below [OF ok \<open>node_at t (d @ [w]) = None\<close>, of us]
      \<open>node_at t d \<noteq> Some FileNode\<close> \<open>node_at t (d @ [w]) = None\<close>
    show ?thesis by simp
  qed
qed

text \<open>A dangling link: the write follows it, with one link less to spend.\<close>

definition after_link :: "component list \<Rightarrow> string \<Rightarrow> component list" where
  "after_link ds target = (if is_absolute target then components target else ds @ link_components target)"

lemma absolute_after_link: "absolute_components ds \<Longrightarrow> absolute_components (after_link ds target)"
  using body_component_parts by (auto simp: absolute_components_def after_link_def link_components_def components_def)

lemma fs_walk_after_link:
  assumes "fs_walk b t n (fi_cwd t) ds = Inr (d, k)" and "k \<le> n"
  shows "fs_walk b t n (fi_cwd t) (after_link ds target) =
    (if is_absolute target then fs_walk b t n d (link_components target) else fs_walk b t k d (link_components target))"
  using assms(1) by (simp add: after_link_def link_components_def fs_walk_append components_def)

lemma climb_link:
  assumes ok: "files_ok t" and abs: "absolute_components ds" and can: "canonicalize_components t ds = Inr d"
    and link: "node_at t (d @ [w]) = Some (LinkNode target)" and gone: "\<not> path_exists t (ds @ [Normal w])"
    and land: "fs_walk True t n (fi_cwd t) (ds @ Normal w # map Normal ws) = Inr (q, m)" "n \<le> os_links"
  obtains j q1 m1 where "n = Suc j" "fs_walk True t j (fi_cwd t) (after_link ds target) = Inr (q1, m1)"
    "\<not> path_exists t (after_link ds target)" "node_at t q1 = None \<Longrightarrow> q = q1 @ ws"
proof -
  have ne: "ds \<noteq> []" "after_link ds target \<noteq> []"
    using abs absolute_after_link [OF abs, of target] by (auto simp: absolute_components_def)
  from can obtain a where a: "fs_walk False t os_links (fi_cwd t) ds = Inr (d, a)" by (auto simp: canonicalize_eq [OF ne(1)])
  from land(1) obtain d' b where b: "fs_walk True t n (fi_cwd t) ds = Inr (d', b)"
    and rest: "fs_walk True t b d' (Normal w # map Normal ws) = Inr (q, m)" by (auto simp: fs_walk_append split: sum.splits)
  from fs_walk_agree [OF a b] have same: "d' = d" and ab: "n + a = os_links + b" by simp_all
  from rest same link obtain k where k: "b = Suc k" and dir: "node_at t d \<noteq> Some FileNode"
    and follows: "fs_walk True t k d (link_components target @ map Normal ws) = Inr (q, m)"
    by (auto split: if_splits nat.splits)
  from follows obtain q1 m1 where q1: "fs_walk True t k d (link_components target) = Inr (q1, m1)"
    and tail: "fs_walk True t m1 q1 (map Normal ws) = Inr (q, m)" by (auto simp: fs_walk_append split: sum.splits)
  from fs_walk_links [OF b, of k] same have bn: "b \<le> n" and less: "fs_walk True t (n - b + k) (fi_cwd t) ds = Inr (d, k)" by blast+
  define j where "j = n - b + k"
  have j: "n = Suc j" using bn k by (simp add: j_def)
  have "fs_walk True t j d (link_components target) = Inr (q1, m1 + (j - k))"
    using fs_walk_more [OF q1, of "j - k"] by (simp add: j_def add.commute)
  with fs_walk_after_link [OF less [folded j_def], of target] q1 j_def obtain m2 where
    go: "fs_walk True t j (fi_cwd t) (after_link ds target) = Inr (q1, m2)" by (auto split: if_splits)
  from land(2) ab k obtain a' where a': "a = Suc a'" "k \<le> a'" by (cases a) auto
  have "is_ok (fs_walk False t a' d (link_components target)) \<Longrightarrow> False"
    using gone a a' dir link ne(1) by (auto simp: path_exists_eq fs_walk_append is_ok_iff)
  then obtain e where e: "fs_walk False t a' d (link_components target) = Inl e"
    by (cases "fs_walk False t a' d (link_components target)") auto
  have "fs_walk True t a' d (link_components target) = Inr (q1, m1 + (a' - k))"
    using fs_walk_more [OF q1, of "a' - k"] a'(2) by simp
  with fs_walk_create_error [OF e] have "e = Enoent" by auto
  with e have no: "fs_walk False t a' d (link_components target) = Inl Enoent" by simp
  from fs_walk_links [OF a, of a] have "a \<le> os_links" by simp
  then have "fs_walk False t os_links d (link_components target) = Inl Enoent" "fs_walk False t a d (link_components target) = Inl Enoent"
    using fs_walk_enoent_more [OF no, of "os_links - a'"] fs_walk_enoent_more [OF no, of 1] a'(1) by simp_all
  with fs_walk_after_link [OF a \<open>a \<le> os_links\<close>, of target] have "fs_walk False t os_links (fi_cwd t) (after_link ds target) = Inl Enoent"
    by simp
  then have "\<not> path_exists t (after_link ds target)" by (simp add: path_exists_eq [OF ne(2)])
  moreover have "node_at t q1 = None \<Longrightarrow> q = q1 @ ws" using fs_walk_missing [OF ok, of q1 m1 ws] tail by simp
  ultimately show thesis by (rule that [OF j go])
qed

lemma absolute_prefix: "absolute_components (xs @ ys) \<Longrightarrow> xs \<noteq> [] \<Longrightarrow> absolute_components xs"
  by (cases xs) (auto simp: absolute_components_def)

text \<open>The whole loop, for a bound on the links.\<close>

lemma climb_faithful:
  assumes ok: "files_ok t" and abs: "absolute_components cs"
    and hop: "\<And>h cs' n' q' m'. hops = Suc h \<Longrightarrow> absolute_components cs' \<Longrightarrow> n' < n \<Longrightarrow>
        fs_walk True t n' (fi_cwd t) cs' = Inr (q', m') \<Longrightarrow> faithful t cs' q' (canonicalize_within_hops t h cs')"
    and none: "hops = 0 \<Longrightarrow> n = 0"
    and land: "fs_walk True t n (fi_cwd t) cs = Inr (q, m)" "n \<le> os_links"
  shows "cs = rev rs @ map Normal ws \<Longrightarrow>
     (ws \<noteq> [] \<Longrightarrow> \<not> path_exists t (rev rs @ [Normal (hd ws)]) \<and> \<not> is_symlink t (rev rs @ [Normal (hd ws)])) \<Longrightarrow>
     faithful t cs q (climb t hops cs rs (map Normal ws))"
proof (induction rs arbitrary: ws)
  case Nil
  with abs show ?case by (cases ws) (auto simp: absolute_components_def)
next
  case (Cons c ds)
  let ?here = "rev (c # ds)"
  have here: "absolute_components ?here"
    using absolute_prefix [of ?here "map Normal ws"] abs Cons.prems(1) by simp
  show ?case
  proof (cases "path_exists t ?here")
    case True
    from climb_exists [OF ok here True _ land(2) Cons.prems(2)] land(1) Cons.prems(1) obtain d where
      "canonicalize_components t ?here = Inr d" "q = d @ ws" "ws = [] \<or> node_at t q = None" by auto
    with True Cons.prems(1) show ?thesis by (subst climb.simps) (auto simp: faithful_def location_def)
  next
    case gone: False
    show ?thesis
    proof (cases "is_symlink t ?here")
      case True
      with not_symlink_unresolved [OF gone] obtain w where c: "c = Normal w" by auto
      with here have "rev ds \<noteq> []" by (auto simp: absolute_components_def)
      with here have ds: "rev ds \<noteq> []" "absolute_components (rev ds)" using absolute_prefix [of "rev ds" "[c]"] by simp_all
      from True c is_symlink_name [OF ds(1), of t w] obtain d target where
        t: "canonicalize_components t (rev ds) = Inr d" "node_at t (d @ [w]) = Some (LinkNode target)"
          "read_link t ?here = Some target" by auto
      from gone c have "\<not> path_exists t (rev ds @ [Normal w])" by simp
      from climb_link [OF ok ds(2) t(1,2) this _ land(2), of ws q m] land(1) Cons.prems(1) c obtain j q1 m1 where
        j: "n = Suc j" "fs_walk True t j (fi_cwd t) (after_link (rev ds) target) = Inr (q1, m1)"
          "\<not> path_exists t (after_link (rev ds) target)" "node_at t q1 = None \<Longrightarrow> q = q1 @ ws" by auto
      from none j(1) obtain h where h: "hops = Suc h" by (cases hops) auto
      let ?r = "canonicalize_within_hops t h (after_link (rev ds) target)"
      from hop [OF h absolute_after_link [OF ds(2)] _ j(2)] j(1,3)
      have "ParentDir \<in> set ?r \<or> (?r = location q1 \<and> node_at t q1 = None)" by (auto simp: faithful_def)
      moreover have "climb t hops cs (c # ds) (map Normal ws) = ?r @ map Normal ws"
        using gone True h t(3) c by (subst climb.simps) (simp add: after_link_def canonicalize_within_hops_def Let_def)
      ultimately show ?thesis
        using j(4) missing_below [OF ok, of q1 ws] by (auto simp: faithful_def location_def)
    next
      case plain: False
      show ?thesis
      proof (cases c)
        case (Normal w)
        have "faithful t cs q (climb t hops cs ds (map Normal (w # ws)))"
          using Cons.IH [of "w # ws"] Cons.prems(1) gone plain Normal by simp
        then show ?thesis using gone plain Normal by (subst climb.simps) simp
      next
        case RootDir
        with here have "?here = [RootDir]" by (cases ds rule: rev_cases) (auto simp: absolute_components_def)
        with gone show ?thesis by (simp add: path_exists_eq)
      next
        case CurDir
        with here show ?thesis by (cases ds rule: rev_cases) (auto simp: absolute_components_def)
      next
        case ParentDir
        then have "climb t hops cs (c # ds) (map Normal ws) = cs" using gone plain by (subst climb.simps) simp
        with ParentDir Cons.prems(1) show ?thesis by (simp add: faithful_def)
      qed
    qed
  qed
qed

lemma canonicalize_within_hops_faithful:
  "files_ok t \<Longrightarrow> absolute_components cs \<Longrightarrow> fs_walk True t n (fi_cwd t) cs = Inr (q, m) \<Longrightarrow> n \<le> os_links \<Longrightarrow> n \<le> hops \<Longrightarrow>
     faithful t cs q (canonicalize_within_hops t hops cs)"
proof (induction hops arbitrary: cs n q m)
  case 0
  have "faithful t cs q (climb t 0 cs (rev cs) (map Normal []))"
    by (rule climb_faithful [OF 0(1,2) _ _ 0(3,4)]) (use 0 in simp_all)
  then show ?case by (simp add: canonicalize_within_hops_def)
next
  case (Suc hops)
  have "faithful t cs q (climb t (Suc hops) cs (rev cs) (map Normal []))"
  proof (rule climb_faithful [OF Suc.prems(1,2) _ _ Suc.prems(3,4)])
    fix h cs' n' q' m'
    assume "Suc hops = Suc h" "absolute_components cs'" "n' < n" "fs_walk True t n' (fi_cwd t) cs' = Inr (q', m')"
    with Suc.IH [OF Suc.prems(1), of cs' n' q' m'] Suc.prems(4,5) show "faithful t cs' q' (canonicalize_within_hops t h cs')" by simp
  qed simp_all
  then show ?case by (simp add: canonicalize_within_hops_def)
qed

lemma canonicalize_lenient_lands:
  assumes "files_ok t" and "is_absolute p" and "lands t (components p) = Inr q"
  shows "canonicalize_lenient t p = location q \<or> canonicalize_lenient t p = []"
proof -
  have "absolute_components (components p)"
    using assms(2) body_component_parts by (simp add: absolute_components_def components_def)
  moreover from assms(3) obtain m where "fs_walk True t os_links (fi_cwd t) (components p) = Inr (q, m)"
    by (cases "fs_walk True t os_links (fi_cwd t) (components p)") (auto simp: lands_def)
  ultimately have "faithful t (components p) q (canonicalize_within_hops t max_symlink_hops (components p))"
    using canonicalize_within_hops_faithful [OF assms(1)] by (simp add: os_links_def max_symlink_hops_def)
  then show ?thesis by (auto simp: faithful_def canonicalize_lenient_def Let_def)
qed

end
