(* ===== verification/Sessions.thy ===== *)
theory Sessions
  imports Hall_Verbs File_Tree
begin

text \<open>
  Sessions: the record of \<open>src/src/domain/session.rs\<close>, the lookups of
  \<open>action/session/lookup.rs\<close> and the environment of \<open>action/session/env.rs\<close>.  The world they
  read are the files, the records of the features of each hall, and what a view directory says
  about its session.
\<close>

record session_state =
  se_version :: nat
  se_feature :: "feature_name option"
  se_provider :: provider
  se_started_at :: string
  se_feature_bound_at :: "string option"

definition session_state_new :: "provider \<Rightarrow> string \<Rightarrow> session_state" where
  "session_state_new p at =
     \<lparr>se_version = 1, se_feature = None, se_provider = p, se_started_at = at, se_feature_bound_at = None\<rparr>"

definition session_bind :: "feature_name \<Rightarrow> string \<Rightarrow> session_state \<Rightarrow> session_state" where
  "session_bind f at s = (if se_feature s = None then s\<lparr>se_feature := Some f, se_feature_bound_at := Some at\<rparr> else s)"

definition is_discovery :: "session_state \<Rightarrow> bool" where
  "is_discovery s \<longleftrightarrow> se_feature s = None"

record session_ref =
  sf_id :: session_id
  sf_feature :: "feature_name option"
  sf_view_dir :: string
  sf_state :: "session_state option"

text \<open>\<open>wo_state\<close> is \<open>SessionState::read\<close> with errors and absence as \<open>None\<close>; \<open>wo_uuid\<close> the UUID parser.\<close>

record world =
  wo_files :: files
  wo_hall :: "layout \<Rightarrow> hall"
  wo_state :: "string \<Rightarrow> session_state option"
  wo_uuid :: "string \<Rightarrow> bool"

section \<open>Asking the files\<close>

fun walk_error_text :: "walk_error \<Rightarrow> string" where
  "walk_error_text Enoent = enoent"
| "walk_error_text Enotdir = enotdir"
| "walk_error_text Eloop = eloop"

definition path_metadata :: "files \<Rightarrow> string \<Rightarrow> walk_error + node option" where
  "path_metadata t p = map_sum id (node_at t) (canonicalize_components t (components p))"

text \<open>\<open>infra::fs::is_dir\<close> and \<open>read_dir\<close>; only a missing path is not an error.\<close>

definition tree_is_dir :: "files \<Rightarrow> string \<Rightarrow> fs_error + bool" where
  "tree_is_dir t p =
     (case path_metadata t p of
        Inr n \<Rightarrow> Inr (n = Some DirNode)
      | Inl Enoent \<Rightarrow> Inr False
      | Inl e \<Rightarrow> Inl (FsMetadata p (walk_error_text e)))"

definition dir_names :: "files \<Rightarrow> string list \<Rightarrow> string list" where
  "dir_names t d = sort (remdups (map last (filter (\<lambda>q. q \<noteq> [] \<and> butlast q = d) (map fst (fi_nodes t)))))"

definition tree_read_dir :: "files \<Rightarrow> string \<Rightarrow> fs_error + string list" where
  "tree_read_dir t p =
     (case canonicalize_components t (components p) of
        Inl e \<Rightarrow> Inl (FsReadDir p (walk_error_text e))
      | Inr d \<Rightarrow>
          if node_at t d = Some DirNode then Inr (map (path_join p) (dir_names t d))
          else Inl (FsReadDir p enotdir))"

text \<open>\<open>Path::is_file\<close>, where every error is no.\<close>

definition tree_is_file :: "files \<Rightarrow> string \<Rightarrow> bool" where
  "tree_is_file t p \<longleftrightarrow> path_metadata t p = Inr (Some FileNode)"

definition canonicalize_utf8 :: "files \<Rightarrow> string \<Rightarrow> string + string" where
  "canonicalize_utf8 t p =
     map_sum walk_error_text (\<lambda>q. path_of (location q)) (canonicalize_components t (components p))"

definition world_discover :: "world \<Rightarrow> string \<Rightarrow> discover_error + layout option" where
  "world_discover w = discover (canonicalize_utf8 (wo_files w)) (tree_is_file (wo_files w))"

section \<open>Lookups\<close>

text \<open>The names that are not session ids, and the entries that are not directories, are passed over.\<close>

fun sessions_from :: "world \<Rightarrow> feature_name option \<Rightarrow> string list \<Rightarrow> fs_error + session_ref list" where
  "sessions_from w f [] = Inr []"
| "sessions_from w f (entry # es) =
     (case Option.bind (file_name entry) (\<lambda>n. case session_id_new (wo_uuid w) n of Inr i \<Rightarrow> Some i | Inl _ \<Rightarrow> None) of
        None \<Rightarrow> sessions_from w f es
      | Some i \<Rightarrow>
          and_then (tree_is_dir (wo_files w) entry) (\<lambda>d.
            if \<not> d then sessions_from w f es
            else map_sum id (\<lambda>rest. \<lparr>sf_id = i, sf_feature = f, sf_view_dir = entry, sf_state = wo_state w entry\<rparr> # rest)
                   (sessions_from w f es)))"

definition sessions_in :: "world \<Rightarrow> string \<Rightarrow> feature_name option \<Rightarrow> failure + session_ref list" where
  "sessions_in w dir f =
     map_sum fs_failure id (and_then (tree_is_dir (wo_files w) dir) (\<lambda>d.
       if \<not> d then Inr [] else and_then (tree_read_dir (wo_files w) dir) (sessions_from w f)))"

definition list_discovery :: "world \<Rightarrow> layout \<Rightarrow> failure + session_ref list" where
  "list_discovery w lay = sessions_in w (discovery_sessions_dir lay) None"

definition list_feature :: "world \<Rightarrow> layout \<Rightarrow> feature_name \<Rightarrow> failure + session_ref list" where
  "list_feature w lay f = sessions_in w (path_join (feature_dir lay f) ''sessions'') (Some f)"

text \<open>The features the entries of a directory name; the others are passed over.\<close>

definition entry_features :: "string list \<Rightarrow> feature_name list" where
  "entry_features es =
     concat (map (\<lambda>e. case Option.bind (file_name e) (\<lambda>n. case feature_name_new n of Inr f \<Rightarrow> Some f | Inl _ \<Rightarrow> None) of
                        Some f \<Rightarrow> [f] | None \<Rightarrow> []) es)"

definition list_all_sessions :: "world \<Rightarrow> layout \<Rightarrow> failure + session_ref list" where
  "list_all_sessions w lay =
     and_then (list_discovery w lay) (\<lambda>sessions.
     and_then (map_sum fs_failure id (tree_is_dir (wo_files w) (features_dir lay))) (\<lambda>d.
       if \<not> d then Inr sessions
       else and_then (map_sum fs_failure id (tree_read_dir (wo_files w) (features_dir lay))) (\<lambda>es.
            and_then (try_map (list_feature w lay) (entry_features es)) (\<lambda>ls. Inr (sessions @ concat ls)))))"

definition describe_request :: "string option \<Rightarrow> string option \<Rightarrow> string" where
  "describe_request i f =
     (case (i, f) of
        (Some i, Some f) \<Rightarrow> ''session id '' @ quoted i @ '' in feature '' @ quoted f
      | (Some i, None) \<Rightarrow> ''session id '' @ quoted i
      | (None, Some f) \<Rightarrow> ''any session in feature '' @ quoted f
      | (None, None) \<Rightarrow> ''any session'')"

definition id_matches :: "string option \<Rightarrow> session_ref \<Rightarrow> bool" where
  "id_matches p s \<longleftrightarrow> (case p of None \<Rightarrow> True | Some x \<Rightarrow> prefix x (session_str (sf_id s)))"

text \<open>The failure of a lookup that finds nothing; looking at the discovery sessions can fail too.\<close>

definition start_first :: "string \<Rightarrow> fix_action" where
  "start_first what = fix_safe ''session.start_first'' what"

definition session_not_found :: "world \<Rightarrow> layout \<Rightarrow> string option \<Rightarrow> string option \<Rightarrow> failure + failure" where
  "session_not_found w lay i feature =
     (let request = describe_request i feature;
          base = with_expected (''a live session '' @ em_dash @ '' one whose View Dir exists'')
                   (blocked ''session.not_found'' ''no live session matches'')
      in case feature of
           None \<Rightarrow> Inr (with_fix (start_first ''Start a session first with `ivar session start`.'') (with_actual request base))
         | Some f \<Rightarrow>
             and_then (list_discovery w lay) (\<lambda>ds.
             let found = map (\<lambda>s. session_str (sf_id s)) (filter (id_matches i) ds) in
             if found = []
             then Inr (with_fix (start_first (''Start a session first with `ivar session start --feature '' @ f @ ''`.''))
                         (with_actual request base))
             else Inr (with_fix (start_first (''Otherwise start a fresh one with `ivar session start --feature '' @ f @ ''`.''))
                    (with_fix (fix_command (''ivar session convert <session-id> '' @ f)
                        (fix_safe ''session.convert''
                          (''One of those discovery sessions may already hold this feature's work. '' @
                           ''Bind it with `ivar session convert <session-id> '' @ f @ ''` instead of '' @
                           ''starting a second session.'')))
                      (with_actual (request @ '', but '' @ show_nat (length found) @
                          '' unbound discovery session(s) exist: '' @ join '', '' found) base)))))"

definition lookup_needs_filter :: failure where
  "lookup_needs_filter =
     with_fix (fix_safe ''session.connect_filter'' ''Pass the session id (or a prefix of it) and/or `--feature`.'')
       (with_actual ''neither given''
         (with_expected ''at least one of `session_id` or `--feature`''
           (blocked ''session.lookup_needs_filter''
             ''name a session id (or a unique prefix) and/or a feature to search in'')))"

definition session_ambiguous :: "session_ref list \<Rightarrow> failure" where
  "session_ambiguous ms =
     with_fix (fix_safe ''session.narrow_filter'' ''Add `--feature`, or use the full session id.'')
       (with_actual (''matching sessions: '' @ join '', '' (map (\<lambda>s. session_str (sf_id s)) ms))
         (with_expected ''exactly one session''
           (blocked ''session.ambiguous'' (show_nat (length ms) @ '' sessions match''))))"

definition resolve_session :: "world \<Rightarrow> layout \<Rightarrow> string option \<Rightarrow> string option \<Rightarrow> failure + session_ref" where
  "resolve_session w lay i feature =
     (if i = None \<and> feature = None then Inl lookup_needs_filter
      else and_then (transpose_map (\<lambda>t. named (feature_name_new t)) feature) (\<lambda>name.
           and_then (case name of Some f \<Rightarrow> list_feature w lay f | None \<Rightarrow> list_all_sessions w lay) (\<lambda>candidates.
           case filter (id_matches i) candidates of
             [] \<Rightarrow> and_then (session_not_found w lay i feature) Inl
           | [s] \<Rightarrow> Inr s
           | ms \<Rightarrow> Inl (session_ambiguous ms))))"

definition resolve_in_feature :: "world \<Rightarrow> layout \<Rightarrow> feature_name \<Rightarrow> string option \<Rightarrow> failure + session_ref" where
  "resolve_in_feature w lay f preferred =
     and_then (case preferred of
                 None \<Rightarrow> Inr None
               | Some i \<Rightarrow> map_sum id (find (\<lambda>s. session_str (sf_id s) = i)) (list_feature w lay f)) (\<lambda>found.
     case found of Some s \<Rightarrow> Inr s | None \<Rightarrow> resolve_session w lay None (Some (feature_str f)))"

text \<open>The live sessions of a feature, the most recent first; the sort is stable.\<close>

definition sort_recent :: "session_ref list \<Rightarrow> session_ref list" where
  "sort_recent ss = rev (sort_key (\<lambda>s. case sf_state s of None \<Rightarrow> [] | Some st \<Rightarrow> se_started_at st) (rev ss))"

definition by_recency :: "world \<Rightarrow> layout \<Rightarrow> feature_name \<Rightarrow> failure + session_ref list" where
  "by_recency w lay f =
     map_sum id (\<lambda>ss. sort_recent (filter (\<lambda>s. sf_state s \<noteq> None) ss)) (list_feature w lay f)"

definition most_recent :: "world \<Rightarrow> layout \<Rightarrow> feature_name \<Rightarrow> failure + session_ref option" where
  "most_recent w lay f = map_sum id (\<lambda>ss. case ss of [] \<Rightarrow> None | s # _ \<Rightarrow> Some s) (by_recency w lay f)"

section \<open>The environment of a session\<close>

record session_env =
  sn_hall :: string
  sn_session_id :: string
  sn_view_dir :: string
  sn_provider :: provider
  sn_feature :: "feature_name option"

definition session_env_build :: "layout \<Rightarrow> session_id \<Rightarrow> string \<Rightarrow> session_state \<Rightarrow> session_env" where
  "session_env_build lay i view st =
     \<lparr>sn_hall = lay_root lay, sn_session_id = session_str i, sn_view_dir = view,
      sn_provider = se_provider st, sn_feature = se_feature st\<rparr>"

definition env_vars :: "session_env \<Rightarrow> (string \<times> string) list" where
  "env_vars e =
     [(''IVAR_HALL'', sn_hall e), (''IVAR_SESSION_ID'', sn_session_id e),
      (''IVAR_SESSION_PATH'', sn_view_dir e), (''IVAR_PROVIDER'', provider_id (sn_provider e))]
     @ (case sn_feature e of None \<Rightarrow> [] | Some f \<Rightarrow> [(''IVAR_FEATURE'', feature_str f)])"

definition render_shell :: "session_env \<Rightarrow> string" where
  "render_shell e = concat (map (\<lambda>(k, v). ''export '' @ k @ ''='' @ v @ [CHR 0x0A]) (env_vars e))"

definition env_json :: "session_env \<Rightarrow> json" where
  "env_json e = JObject (map (\<lambda>(k, v). (k, JString v)) (env_vars e))"

definition env_keys :: "session_env \<Rightarrow> string list" where
  "env_keys e = map fst (env_vars e)"

text \<open>
  The view directory that holds a path, itself included, walking up.  Only a discovery that
  cannot resolve its start is an error.
\<close>

fun view_dir_walk :: "world \<Rightarrow> component list \<Rightarrow> failure + session_env option" where
  "view_dir_walk w rs =
     (let here = path_of (rev rs);
          up = (case rs of [] \<Rightarrow> Inr None | c # ds \<Rightarrow> if c = RootDir \<or> ds = [] then Inr None else view_dir_walk w ds)
      in if tree_is_file (wo_files w) (path_join here ''state.json'') then
           (case Option.bind (file_name here) (\<lambda>n. case session_id_new (wo_uuid w) n of Inr i \<Rightarrow> Some i | Inl _ \<Rightarrow> None) of
              None \<Rightarrow> up
            | Some i \<Rightarrow>
                and_then (map_sum discover_failure id (world_discover w here)) (\<lambda>lay.
                  case (lay, wo_state w here) of
                    (Some l, Some st) \<Rightarrow> Inr (Some (session_env_build l i here st))
                  | _ \<Rightarrow> up))
         else up)"

definition from_view_dir_walk :: "world \<Rightarrow> string \<Rightarrow> failure + session_env option" where
  "from_view_dir_walk w p = view_dir_walk w (rev (components p))"

definition from_ambient :: "world \<Rightarrow> layout \<Rightarrow> string \<Rightarrow> session_env option" where
  "from_ambient w lay i =
     (case resolve_session w lay (Some i) None of
        Inl _ \<Rightarrow> None
      | Inr s \<Rightarrow>
          if session_str (sf_id s) \<noteq> i then None
          else map_option (session_env_build lay (sf_id s) (sf_view_dir s)) (sf_state s))"

text \<open>\<open>env.rs\<close> has a \<open>canonicalize_lenient\<close> of its own, which looks one level up at most.\<close>

definition env_canonicalize_lenient :: "files \<Rightarrow> string \<Rightarrow> component list" where
  "env_canonicalize_lenient t p =
     (case canonicalize_components t (components p) of
        Inr q \<Rightarrow> location q
      | Inl _ \<Rightarrow>
          (case (rev (components p), file_name p) of
             (_ # ds, Some n) \<Rightarrow>
               (case canonicalize_components t (rev ds) of Inr q \<Rightarrow> location q @ [Normal n] | Inl _ \<Rightarrow> components p)
           | _ \<Rightarrow> components p))"

definition in_promoted_worktree :: "(string \<Rightarrow> component list) \<Rightarrow> layout \<Rightarrow> feature \<Rightarrow> component list \<Rightarrow> bool" where
  "in_promoted_worktree canon lay f current \<longleftrightarrow>
     list_ex (\<lambda>repo. prefix (canon (repo_worktree lay repo (ft_branch f))) current) (map fst (ft_promotions f))"

fun promoted_worktree_in :: "world \<Rightarrow> layout \<Rightarrow> component list \<Rightarrow> feature_name list \<Rightarrow> failure + session_env option" where
  "promoted_worktree_in w lay current [] = Inr None"
| "promoted_worktree_in w lay current (n # ns) =
     (case bt_get (wo_hall w lay) n of
        None \<Rightarrow> promoted_worktree_in w lay current ns
      | Some f \<Rightarrow>
          if \<not> in_promoted_worktree (env_canonicalize_lenient (wo_files w)) lay f current then promoted_worktree_in w lay current ns
          else map_sum id (\<lambda>s. case s of
                   None \<Rightarrow> None
                 | Some s \<Rightarrow> map_option (session_env_build lay (sf_id s) (sf_view_dir s)) (sf_state s))
                 (most_recent w lay n))"

definition from_promoted_worktree :: "world \<Rightarrow> layout \<Rightarrow> component list \<Rightarrow> failure + session_env option" where
  "from_promoted_worktree w lay current =
     and_then (map_sum fs_failure id (tree_is_dir (wo_files w) (features_dir lay))) (\<lambda>d.
       if \<not> d then Inr None
       else and_then (map_sum fs_failure id (tree_read_dir (wo_files w) (features_dir lay))) (\<lambda>es.
              promoted_worktree_in w lay current (entry_features es)))"

text \<open>\<open>SessionEnv::resolve\<close>, with and without the target of a write.\<close>

definition resolve_env :: "world \<Rightarrow> string \<Rightarrow> string option \<Rightarrow> string option \<Rightarrow> failure + session_env option" where
  "resolve_env w cwd target ambient =
     (case canonicalize_components (wo_files w) (components cwd) of
        Inl Enoent \<Rightarrow> Inr None
      | Inl e \<Rightarrow> Inl (blocked ''fs.unresolvable''
                        (''path '' @ quoted cwd @ '' could not be resolved: '' @ walk_error_text e))
      | Inr q \<Rightarrow>
          (let current = path_of (location q) in
           and_then (from_view_dir_walk w current) (\<lambda>env.
             if env \<noteq> None then Inr env
             else and_then (map_sum discover_failure id (world_discover w current)) (\<lambda>found.
               case found of
                 None \<Rightarrow> Inr None
               | Some lay \<Rightarrow>
                   (case Option.bind target (\<lambda>t. case from_view_dir_walk w t of
                             Inr (Some e) \<Rightarrow> if components (sn_hall e) = components (lay_root lay) then Some e else None
                           | _ \<Rightarrow> None) of
                      Some e \<Rightarrow> Inr (Some e)
                    | None \<Rightarrow>
                        (case Option.bind ambient (from_ambient w lay) of
                           Some e \<Rightarrow> Inr (Some e)
                         | None \<Rightarrow> from_promoted_worktree w lay (location q)))))))"

end
