(* ===== verification/Guard.thy ===== *)
theory Guard
  imports Guard_Paths Sessions
begin

text \<open>
  The write guard, \<open>src/src/action/session/guard\<close>: the set of places a session may write, the
  decision on one tool request, and the evaluation that finds the session the request belongs
  to.  Parsing the provider's hook input and recording usage are not part of it.
\<close>

section \<open>Requests and decisions\<close>

record tool_request =
  tq_tool :: string
  tq_targets :: "string list"
  tq_writes :: bool
  tq_search_pattern :: "string option"
  tq_input :: json
  tq_agent :: "string option"
  tq_call_id :: "string option"

datatype guard_decision = Allow | Deny string

definition is_alnum :: "char \<Rightarrow> bool" where
  "is_alnum c \<longleftrightarrow> is_alpha c \<or> is_digit c"

definition is_structured_write :: "string \<Rightarrow> bool" where
  "is_structured_write tool \<longleftrightarrow>
     map to_lower (filter is_alnum tool)
       \<in> {''write'', ''edit'', ''multiedit'', ''notebookedit'', ''applypatch'', ''patch''}"

definition scheme_char :: "char \<Rightarrow> bool" where
  "scheme_char c \<longleftrightarrow> is_alnum c \<or> c = CHR ''+'' \<or> c = CHR ''-'' \<or> c = CHR ''.''"

definition has_uri_scheme :: "string \<Rightarrow> bool" where
  "has_uri_scheme s =
     (case split_once_str ''://'' s of
        None \<Rightarrow> False
      | Some (scheme, _) \<Rightarrow> (case scheme of [] \<Rightarrow> False | c # cs \<Rightarrow> is_alpha c \<and> list_all scheme_char cs))"

section \<open>The writable set\<close>

record hall_root =
  hr_root :: "component list"
  hr_ivar_dir :: "component list"
  hr_protected :: "component list list"

definition hall_root_new :: "files \<Rightarrow> layout \<Rightarrow> hall_root" where
  "hall_root_new t lay =
     \<lparr>hr_root = canonicalize_lenient t (lay_root lay), hr_ivar_dir = canonicalize_lenient t (ivar_dir lay),
      hr_protected = map (canonicalize_lenient t) (guard_protected_paths lay)\<rparr>"

definition hall_allows :: "hall_root \<Rightarrow> component list \<Rightarrow> bool" where
  "hall_allows h p \<longleftrightarrow>
     within p (hr_root h) \<and> \<not> prefix (hr_ivar_dir h) p \<and> \<not> list_ex (\<lambda>x. prefix x p) (hr_protected h)"

definition holds_protected :: "hall_root \<Rightarrow> component list \<Rightarrow> bool" where
  "holds_protected h p \<longleftrightarrow> list_ex (prefix p) (hr_protected h)"

definition hall_root_display :: "hall_root \<Rightarrow> string" where
  "hall_root_display h =
     path_of (hr_root h) @ '' (except '' @ path_of (hr_ivar_dir h)
       @ concat (map (\<lambda>p. '', '' @ path_of p) (hr_protected h)) @ '')''"

definition hall_sources :: "files \<Rightarrow> layout \<Rightarrow> component list list" where
  "hall_sources t lay =
     map (canonicalize_lenient t)
       [hall_skills lay, hall_skills_local lay, hall_setups lay, hall_scripts lay, hall_scripts_local lay]"

record writable_set =
  wt_view_dir :: "component list"
  wt_feature_dir :: "component list option"
  wt_sessions_dir :: "component list option"
  wt_worktrees :: "component list list"
  wt_desc_feature_dirs :: "component list list"
  wt_desc_sessions_dirs :: "component list list"
  wt_desc_worktrees :: "component list list"
  wt_hall_sources :: "component list list"
  wt_hall :: hall_root

definition unresolvable_view_dir :: "string \<Rightarrow> walk_error \<Rightarrow> failure" where
  "unresolvable_view_dir view e =
     failed ''guard.unresolvable_view_dir'' (''could not canonicalise view dir '' @ quoted view @ '': '' @ walk_error_text e)"

definition unresolvable_worktree :: "string \<Rightarrow> walk_error \<Rightarrow> failure" where
  "unresolvable_worktree wt e =
     failed ''guard.unresolvable_worktree'' (''could not canonicalise worktree '' @ quoted wt @ '': '' @ walk_error_text e)"

text \<open>The descendants of a feature; a failure to list them grants nothing.\<close>

definition granted_descendants :: "world \<Rightarrow> layout \<Rightarrow> feature_name \<Rightarrow> feature list" where
  "granted_descendants w lay n = (case descendants (wo_hall w lay) n of Some (Inr ds) \<Rightarrow> ds | _ \<Rightarrow> [])"

definition set_from_session :: "world \<Rightarrow> layout \<Rightarrow> feature \<Rightarrow> string \<Rightarrow> failure + writable_set" where
  "set_from_session w lay f view =
     (let t = wo_files w; ds = granted_descendants w lay (ft_name f) in
      and_then (map_sum (unresolvable_view_dir view) location (canonicalize_components t (components view))) (\<lambda>view_dir.
      and_then (try_map (\<lambda>repo. let wt = repo_worktree lay repo (ft_branch f)
                  in map_sum (unresolvable_worktree wt) location (canonicalize_components t (components wt)))
                (map fst (ft_promotions f))) (\<lambda>worktrees.
        Inr \<lparr>wt_view_dir = view_dir,
             wt_feature_dir = Some (canonicalize_lenient t (feature_dir lay (ft_name f))),
             wt_sessions_dir = Some (canonicalize_lenient t (feature_sessions_dir lay (ft_name f))),
             wt_worktrees = worktrees,
             wt_desc_feature_dirs = map (\<lambda>d. canonicalize_lenient t (feature_dir lay (ft_name d))) ds,
             wt_desc_sessions_dirs = map (\<lambda>d. canonicalize_lenient t (feature_sessions_dir lay (ft_name d))) ds,
             wt_desc_worktrees = concat (map (\<lambda>d. map (\<lambda>repo. canonicalize_lenient t (repo_worktree lay repo (ft_branch d)))
                                                    (map fst (ft_promotions d))) ds),
             wt_hall_sources = hall_sources t lay, wt_hall = hall_root_new t lay\<rparr>)))"

definition plain_set :: "world \<Rightarrow> layout \<Rightarrow> component list \<Rightarrow> writable_set" where
  "plain_set w lay view_dir =
     \<lparr>wt_view_dir = view_dir, wt_feature_dir = None, wt_sessions_dir = None, wt_worktrees = [],
      wt_desc_feature_dirs = [], wt_desc_sessions_dirs = [], wt_desc_worktrees = [],
      wt_hall_sources = hall_sources (wo_files w) lay, wt_hall = hall_root_new (wo_files w) lay\<rparr>"

definition set_from_discovery :: "world \<Rightarrow> layout \<Rightarrow> string \<Rightarrow> failure + writable_set" where
  "set_from_discovery w lay view =
     map_sum (unresolvable_view_dir view) (\<lambda>q. plain_set w lay (location q))
       (canonicalize_components (wo_files w) (components view))"

text \<open>\<open>allows\<close> on the canonical path; the target is canonicalised once more before it is asked.\<close>

definition allows_canonical :: "writable_set \<Rightarrow> component list \<Rightarrow> bool" where
  "allows_canonical s p \<longleftrightarrow>
     (if within p (wt_view_dir s) then True
      else if (case wt_sessions_dir s of None \<Rightarrow> False | Some d \<Rightarrow> prefix d p) then False
      else if list_ex (\<lambda>d. prefix d p) (wt_desc_sessions_dirs s) then False
      else if (case wt_feature_dir s of None \<Rightarrow> False | Some d \<Rightarrow> within p d) then True
      else if list_ex (within p) (wt_desc_feature_dirs s) then True
      else if list_ex (within p) (wt_worktrees s) then True
      else if list_ex (within p) (wt_desc_worktrees s) then True
      else if list_ex (within p) (wt_hall_sources s) then True
      else hall_allows (wt_hall s) p)"

definition set_allows :: "files \<Rightarrow> writable_set \<Rightarrow> component list \<Rightarrow> bool" where
  "set_allows t s p = allows_canonical s (canonicalize_lenient t (path_of p))"

definition scratch_dir :: "writable_set \<Rightarrow> string" where
  "scratch_dir s = session_scratch (path_of (wt_view_dir s))"

section \<open>Why a write is refused\<close>

definition is_scratchpad :: "string \<Rightarrow> bool" where
  "is_scratchpad s \<longleftrightarrow>
     (contains_str ''/claude-'' s \<or> contains_str [CHR 0x5C, CHR ''c'', CHR ''l'', CHR ''a'', CHR ''u'', CHR ''d'', CHR ''e'', CHR ''-''] s)
       \<and> contains_str ''/scratchpad'' s
     \<or> contains_str ''scratchpad'' s \<and> contains_str ''/tmp/'' s"

definition is_auto_memory :: "string \<Rightarrow> bool" where
  "is_auto_memory s \<longleftrightarrow> contains_str ''.claude/projects/'' s \<and> contains_str ''/memory'' s"

text \<open>The nearest ancestor that exists, the path itself included; \<open>rs\<close> is the path reversed.\<close>

fun existing_ancestor :: "files \<Rightarrow> component list \<Rightarrow> component list" where
  "existing_ancestor t rs =
     (if path_exists t (rev rs) then rev rs
      else (case rs of [] \<Rightarrow> [] | [RootDir] \<Rightarrow> rev rs | _ # ds \<Rightarrow> existing_ancestor t ds))"

declare existing_ancestor.simps [simp del]

definition hall_of_target :: "world \<Rightarrow> component list \<Rightarrow> layout option" where
  "hall_of_target w target =
     (case world_discover w (path_of (existing_ancestor (wo_files w) (rev target))) of Inr found \<Rightarrow> found | Inl _ \<Rightarrow> None)"

definition repo_denial :: "world \<Rightarrow> layout \<Rightarrow> component list \<Rightarrow> string \<Rightarrow> string" where
  "repo_denial w lay target suffix_text =
     (let named_repo = (case tree_read_dir (wo_files w) (repos_dir lay) of
            Inl _ \<Rightarrow> None
          | Inr es \<Rightarrow>
              Option.bind (find (\<lambda>e. prefix (canonicalize_lenient (wo_files w) e) target \<and> file_name e \<noteq> None) es) file_name)
      in case named_repo of
           Some r \<Rightarrow> ''repo '' @ quoted r @ '' is not promoted in this feature; run `ivar feature promote '' @ r @ ''` to make it writable'' @ suffix_text
         | None \<Rightarrow> ''this repo is not promoted in this feature; run `ivar feature promote <repo>` to make it writable'' @ suffix_text)"

definition other_view_denial :: "component list \<Rightarrow> component list \<Rightarrow> writable_set option \<Rightarrow> string \<Rightarrow> string" where
  "other_view_denial features target grants suffix_text =
     (case grants of
        None \<Rightarrow> ''writes to another session's view dir or feature are not permitted; writes belong in your own view dir or feature directory'' @ suffix_text
      | Some s \<Rightarrow>
          (case wt_feature_dir s of
             Some fd \<Rightarrow>
               if prefix features target \<and> \<not> prefix fd target
               then ''writes to another feature's directory are not permitted; writes belong in your feature directory ''
                      @ quoted (path_of fd) @ '' or view dir '' @ quoted (path_of (wt_view_dir s)) @ suffix_text
               else ''writes to another session's view dir are not permitted; writes belong in your view dir ''
                      @ quoted (path_of (wt_view_dir s)) @ suffix_text
           | None \<Rightarrow> ''writes to another session's view dir are not permitted; writes belong in your view dir ''
                      @ quoted (path_of (wt_view_dir s)) @ suffix_text))"

definition classify_layout_path_denial :: "world \<Rightarrow> component list \<Rightarrow> writable_set option \<Rightarrow> string \<Rightarrow> string option" where
  "classify_layout_path_denial w target grants suffix_text =
     Option.bind (hall_of_target w target) (\<lambda>lay. (let t = wo_files w in
       if list_ex (\<lambda>p. prefix (canonicalize_lenient t p) target) (guard_protected_paths lay)
       then Some (''this path is ivar-managed and protected; change it through the owning `ivar` command'' @ suffix_text)
       else if prefix (canonicalize_lenient t (repos_dir lay)) target then Some (repo_denial w lay target suffix_text)
       else if prefix (canonicalize_lenient t (discovery_sessions_dir lay)) target
             \<or> prefix (canonicalize_lenient t (features_dir lay)) target
       then Some (other_view_denial (canonicalize_lenient t (features_dir lay)) target grants suffix_text)
       else if prefix (canonicalize_lenient t (ivar_dir lay)) target
       then Some (''`.ivar/` state is managed by ivar; use the matching `ivar` command'' @ suffix_text)
       else None))"

definition denial_guidance :: "world \<Rightarrow> writable_set option \<Rightarrow> component list option \<Rightarrow> string option \<Rightarrow> string" where
  "denial_guidance w grants target original =
     (let asks = (\<lambda>f. (case target of None \<Rightarrow> False | Some p \<Rightarrow> f (path_of p)) \<or> (case original of None \<Rightarrow> False | Some p \<Rightarrow> f p));
          belongs = (case grants of Some s \<Rightarrow> ''temporary files belong in '' @ scratch_dir s
                     | None \<Rightarrow> ''temporary files belong in the session's scratch directory'')
      in if asks is_scratchpad then ''scratchpad writes are not permitted; '' @ belongs
         else if asks is_auto_memory
         then ''auto-memory writes outside the hall are not permitted; durable notes belong in hall docs or .ivar/skills''
         else (case Option.bind target (\<lambda>p. classify_layout_path_denial w p grants (''; '' @ belongs)) of
                 Some msg \<Rightarrow> msg
               | None \<Rightarrow> belongs))"

definition unresolved_reason :: "string list \<Rightarrow> nat \<Rightarrow> string" where
  "unresolved_reason scoped live =
     ''no ivar session resolves from the cwd or the target path''
     @ (if scoped \<noteq> [] then ''; temporary files belong in '' @ join '', '' scoped
        else if live = 0 then ''; this hall has no live session''
        else if live = 1 then ''; this hall has 1 live session''
        else ''; this hall has '' @ show_nat live @ '' live sessions'')"

definition relative_no_session_reason :: "string \<Rightarrow> string option \<Rightarrow> string" where
  "relative_no_session_reason p cwd =
     ''relative path '' @ quoted p @ '' was resolved ''
     @ (case cwd of Some c \<Rightarrow> ''against '' @ quoted c | None \<Rightarrow> ''without a cwd'')
     @ '', which belongs to no ivar session; use an absolute path inside your session's worktree or view dir''"

section \<open>The decision\<close>

datatype resolution =
    Resolved writable_set
  | Unresolved "string list" nat
  | Ambiguous "string list"

definition writable_set_text :: "writable_set \<Rightarrow> string" where
  "writable_set_text s =
     join '', '' (map path_of (wt_view_dir s # (case wt_feature_dir s of None \<Rightarrow> [] | Some f \<Rightarrow> [f])
                      @ wt_worktrees s @ wt_hall_sources s) @ [hall_root_display (wt_hall s)])"

definition decide :: "world \<Rightarrow> resolution \<Rightarrow> tool_request \<Rightarrow> component list list \<Rightarrow> guard_decision" where
  "decide w res req targets =
     (if \<not> tq_writes req then Allow
      else if tq_targets req \<noteq> [] \<and> list_all has_uri_scheme (tq_targets req) then Allow
      else (case res of
        Resolved s \<Rightarrow>
          if targets = [] then Deny (''writable set: '' @ writable_set_text s @ ''; '' @ denial_guidance w (Some s) None None)
          else (case find (\<lambda>t. \<not> set_allows (wo_files w) s t) targets of
                  None \<Rightarrow> Allow
                | Some t \<Rightarrow>
                    Deny (quoted (path_of t) @ '' is outside the writable set; writable set: '' @ writable_set_text s @ ''; ''
                      @ denial_guidance w (Some s) (Some t)
                          (find (\<lambda>orig. orig = path_of t \<or> suffix (components orig) t) (tq_targets req))))
      | Unresolved scoped live \<Rightarrow> Deny (unresolved_reason scoped live)
      | Ambiguous features \<Rightarrow>
          Deny (''write target matches session-specific roots of multiple conflicting features: '' @ join '', '' features)))"

section \<open>Finding the session of a request\<close>

text \<open>A URI has no target, and a relative path none without a working directory.\<close>

definition resolve_target :: "files \<Rightarrow> string option \<Rightarrow> string \<Rightarrow> component list option" where
  "resolve_target t cwd path =
     (if has_uri_scheme path then None
      else map_option (canonicalize_lenient t)
             (if is_absolute path then Some path else map_option (\<lambda>c. path_join c path) cwd))"

datatype target_resolution =
    NoSession
  | SharedHall writable_set
  | Unique writable_set
  | AmbiguousTarget "string list"

definition feature_entries :: "world \<Rightarrow> layout \<Rightarrow> (feature_name \<times> feature) list" where
  "feature_entries w lay =
     (case tree_read_dir (wo_files w) (features_dir lay) of
        Inl _ \<Rightarrow> []
      | Inr es \<Rightarrow> concat (map (\<lambda>n. case bt_get (wo_hall w lay) n of None \<Rightarrow> [] | Some f \<Rightarrow> [(n, f)]) (entry_features es)))"

definition live_view_matches :: "files \<Rightarrow> component list \<Rightarrow> session_ref \<Rightarrow> bool" where
  "live_view_matches t target s \<longleftrightarrow> sf_state s \<noteq> None \<and> prefix (canonicalize_lenient t (sf_view_dir s)) target"

definition match_feature_session :: "world \<Rightarrow> layout \<Rightarrow> component list \<Rightarrow> feature_name \<Rightarrow> feature \<Rightarrow> session_ref option" where
  "match_feature_session w lay target n f =
     (let t = wo_files w in
      case (case list_feature w lay n of Inl _ \<Rightarrow> None | Inr ss \<Rightarrow> find (live_view_matches t target) ss) of
        Some s \<Rightarrow> Some s
      | None \<Rightarrow>
          if (prefix (canonicalize_lenient t (feature_dir lay n)) target
                \<and> \<not> prefix (canonicalize_lenient t (feature_sessions_dir lay n)) target)
              \<or> in_promoted_worktree (canonicalize_lenient t) lay f target
          then (case most_recent w lay n of
                  Inr (Some s) \<Rightarrow> if sf_state s \<noteq> None then Some s else None
                | _ \<Rightarrow> None)
          else None)"

text \<open>One session at most per feature: the loop pushes the first match and stops.\<close>

definition match_feature_sessions :: "world \<Rightarrow> layout \<Rightarrow> component list \<Rightarrow> (feature_name \<times> session_ref) list" where
  "match_feature_sessions w lay target =
     concat (map (\<lambda>(n, f). case match_feature_session w lay target n f of None \<Rightarrow> [] | Some s \<Rightarrow> [(n, s)]) (feature_entries w lay))"

definition match_discovery_sessions :: "world \<Rightarrow> layout \<Rightarrow> component list \<Rightarrow> session_ref list" where
  "match_discovery_sessions w lay target =
     filter (live_view_matches (wo_files w) target) (case list_discovery w lay of Inl _ \<Rightarrow> [] | Inr ss \<Rightarrow> ss)"

definition resolve_writable_set :: "world \<Rightarrow> session_env \<Rightarrow> writable_set option" where
  "resolve_writable_set w e =
     (case world_discover w (sn_view_dir e) of
        Inr (Some lay) \<Rightarrow>
          (case (case sn_feature e of
                   None \<Rightarrow> set_from_discovery w lay (sn_view_dir e)
                 | Some n \<Rightarrow>
                     (case bt_get (wo_hall w lay) n of
                        None \<Rightarrow> Inl (feature_not_found n) | Some f \<Rightarrow> set_from_session w lay f (sn_view_dir e))) of
             Inr s \<Rightarrow> Some s | Inl _ \<Rightarrow> None)
      | _ \<Rightarrow> None)"

definition resolve_session_writable_set :: "world \<Rightarrow> layout \<Rightarrow> session_ref \<Rightarrow> writable_set option" where
  "resolve_session_writable_set w lay s =
     Option.bind (sf_state s) (\<lambda>st. resolve_writable_set w (session_env_build lay (sf_id s) (sf_view_dir s) st))"

text \<open>The first session of every feature, in the order of the feature names.\<close>

definition unique_features :: "(feature_name \<times> session_ref) list \<Rightarrow> (string, session_ref) btree" where
  "unique_features ms =
     fold (\<lambda>(n, s) m. if bt_get m (feature_str n) = None then bt_insert (feature_str n) s m else m) ms []"

definition shared_hall_set :: "world \<Rightarrow> layout \<Rightarrow> writable_set" where
  "shared_hall_set w lay = plain_set w lay (components (lay_root lay))"

definition resolve_set_by_target :: "world \<Rightarrow> component list \<Rightarrow> target_resolution" where
  "resolve_set_by_target w target =
     (case hall_of_target w target of
        None \<Rightarrow> NoSession
      | Some lay \<Rightarrow>
          (let features = unique_features (match_feature_sessions w lay target);
               ds = match_discovery_sessions w lay target;
               t = wo_files w;
               of_feature = (case features of [] \<Rightarrow> None | (_, s) # _ \<Rightarrow> resolve_session_writable_set w lay s);
               of_discovery = (case ds of [] \<Rightarrow> None | s # _ \<Rightarrow> resolve_session_writable_set w lay s)
           in if length features + length ds > 1
              then AmbiguousTarget (sort (map fst features @ map (\<lambda>s. session_str (sf_id s)) ds))
              else (case of_feature of
                      Some s \<Rightarrow> Unique s
                    | None \<Rightarrow>
                        (case of_discovery of
                           Some s \<Rightarrow> Unique s
                         | None \<Rightarrow>
                             if hall_allows (hall_root_new t lay) target \<or> list_ex (within target) (hall_sources t lay)
                             then SharedHall (shared_hall_set w lay) else NoSession))))"

text \<open>The scratch directories of the live sessions of the feature a path belongs to.\<close>

fun feature_scratch_in :: "world \<Rightarrow> layout \<Rightarrow> component list \<Rightarrow> (feature_name \<times> feature) list \<Rightarrow> string list" where
  "feature_scratch_in w lay target [] = []"
| "feature_scratch_in w lay target ((n, f) # fs) =
     (let live = (case list_feature w lay n of
            Inl _ \<Rightarrow> []
          | Inr ss \<Rightarrow> map (\<lambda>s. session_scratch (sf_view_dir s)) (filter (\<lambda>s. sf_state s \<noteq> None) ss))
      in if (prefix (canonicalize_lenient (wo_files w) (feature_dir lay n)) target
              \<or> in_promoted_worktree (canonicalize_lenient (wo_files w)) lay f target) \<and> live \<noteq> []
         then live else feature_scratch_in w lay target fs)"

definition feature_scratch_dirs :: "world \<Rightarrow> layout \<Rightarrow> component list \<Rightarrow> string list" where
  "feature_scratch_dirs w lay target =
     feature_scratch_in w lay (canonicalize_lenient (wo_files w) (path_of target)) (feature_entries w lay)"

definition live_session_count :: "world \<Rightarrow> layout \<Rightarrow> nat" where
  "live_session_count w lay =
     length (filter (\<lambda>s. sf_state s \<noteq> None) (case list_all_sessions w lay of Inl _ \<Rightarrow> [] | Inr ss \<Rightarrow> ss))"

section \<open>The evaluation of a request\<close>

definition first_absolute :: "tool_request \<Rightarrow> string option" where
  "first_absolute req = find is_absolute (tq_targets req)"

text \<open>The session of the request, by its working directory and, for a write, its first absolute target.\<close>

definition session_env_of :: "world \<Rightarrow> tool_request \<Rightarrow> string option \<Rightarrow> string option \<Rightarrow> session_env option" where
  "session_env_of w req cwd ambient =
     (let owner = (if tq_writes req then Option.bind (first_absolute req) (resolve_target (wo_files w) cwd) else None)
      in Option.bind cwd (\<lambda>c. case resolve_env w c (map_option path_of owner) ambient of Inr e \<Rightarrow> e | Inl _ \<Rightarrow> None))"

definition by_target :: "world \<Rightarrow> tool_request \<Rightarrow> string option \<Rightarrow> target_resolution" where
  "by_target w req cwd =
     (if \<not> tq_writes req then NoSession
      else (case Option.bind (first_absolute req) (resolve_target (wo_files w) cwd) of
              None \<Rightarrow> NoSession | Some target \<Rightarrow> resolve_set_by_target w target))"

definition writable_set_of :: "world \<Rightarrow> tool_request \<Rightarrow> string option \<Rightarrow> string option \<Rightarrow> target_resolution" where
  "writable_set_of w req cwd ambient =
     (case Option.bind (session_env_of w req cwd ambient) (resolve_writable_set w) of
        Some s \<Rightarrow> Unique s
      | None \<Rightarrow> by_target w req cwd)"

definition unresolved :: "world \<Rightarrow> string option \<Rightarrow> component list list \<Rightarrow> resolution" where
  "unresolved w cwd targets =
     (case Option.bind cwd (\<lambda>c. case world_discover w c of Inr found \<Rightarrow> found | Inl _ \<Rightarrow> None) of
        None \<Rightarrow> Unresolved [] 0
      | Some lay \<Rightarrow>
          Unresolved (case targets of [] \<Rightarrow> [] | t # _ \<Rightarrow> feature_scratch_dirs w lay t) (live_session_count w lay))"

definition request_targets :: "world \<Rightarrow> tool_request \<Rightarrow> string option \<Rightarrow> component list list" where
  "request_targets w req cwd = List.map_filter (resolve_target (wo_files w) cwd) (tq_targets req)"

definition evaluate :: "world \<Rightarrow> tool_request \<Rightarrow> string option \<Rightarrow> string option \<Rightarrow> guard_decision" where
  "evaluate w req cwd ambient =
     (let targets = request_targets w req cwd;
          found = writable_set_of w req cwd ambient;
          res = (case found of
                   Unique s \<Rightarrow> Resolved s
                 | SharedHall s \<Rightarrow> Resolved s
                 | AmbiguousTarget features \<Rightarrow> Ambiguous features
                 | NoSession \<Rightarrow> unresolved w cwd targets);
          no_set = (case found of Unique _ \<Rightarrow> False | SharedHall _ \<Rightarrow> False | _ \<Rightarrow> True)
      in case (if no_set \<and> tq_writes req
               then find (\<lambda>p. \<not> is_absolute p \<and> \<not> has_uri_scheme p) (tq_targets req) else None) of
           Some rel \<Rightarrow> Deny (relative_no_session_reason rel cwd)
         | None \<Rightarrow> decide w res req targets)"

section \<open>The roots a sandbox may write\<close>

definition unreadable_hall_root :: "string \<Rightarrow> fs_error \<Rightarrow> failure" where
  "unreadable_hall_root dir e =
     failed ''guard.unreadable_hall_root'' (''could not read hall dir '' @ quoted dir @ '': '' @ fs_error_display e)"

text \<open>
  The loop of \<open>expand\<close> over the entries of a directory.  A directory that holds a protected path
  is granted entry by entry; nothing in the code bounds the descent.
\<close>

partial_function (option) expand_entries ::
    "files \<Rightarrow> hall_root \<Rightarrow> string list \<Rightarrow> (failure + component list list) option" where
  [code]: "expand_entries t h es =
     (case es of
        [] \<Rightarrow> Some (Inr [])
      | e # rest \<Rightarrow>
          (let c = canonicalize_lenient t e in
           if c = hr_root h \<or> \<not> hall_allows h c then expand_entries t h rest
           else if \<not> holds_protected h c
           then Option.bind (expand_entries t h rest) (\<lambda>r. Some (map_sum id (\<lambda>gs. c # gs) r))
           else if lstat t (components e) = Some DirNode
           then (case tree_read_dir t e of
                   Inl err \<Rightarrow> Some (Inl (unreadable_hall_root e err))
                 | Inr sub \<Rightarrow>
                     Option.bind (expand_entries t h sub) (\<lambda>r. case r of
                         Inl err \<Rightarrow> Some (Inl err)
                       | Inr gs \<Rightarrow> Option.bind (expand_entries t h rest) (\<lambda>r'. Some (map_sum id (\<lambda>hs. gs @ hs) r'))))
           else expand_entries t h rest))"

definition hall_entries :: "files \<Rightarrow> hall_root \<Rightarrow> (failure + component list list) option" where
  "hall_entries t h =
     (case tree_read_dir t (path_of (hr_root h)) of
        Inl err \<Rightarrow> Some (Inl (unreadable_hall_root (path_of (hr_root h)) err))
      | Inr es \<Rightarrow> expand_entries t h es)"

definition set_roots :: "files \<Rightarrow> writable_set \<Rightarrow> (failure + component list list) option" where
  "set_roots t s =
     map_option (map_sum id (\<lambda>hall.
         wt_view_dir s # (case wt_feature_dir s of None \<Rightarrow> [] | Some f \<Rightarrow> [f]) @ wt_desc_feature_dirs s
         @ wt_worktrees s @ wt_desc_worktrees s @ wt_hall_sources s @ hall))
       (hall_entries t (wt_hall s))"

end
