(* ===== verification/Guard_Safety.thy ===== *)
theory Guard_Safety
  imports Guard
begin

text \<open>
  What the guard guarantees: the path it decides on is where the write lands, and what it lets
  through lands in the places granted to the session.
\<close>

section \<open>Canonical paths are their own canonical path\<close>

definition plain_name :: "string \<Rightarrow> bool" where
  "plain_name w \<longleftrightarrow> w \<noteq> [] \<and> w \<noteq> ''.'' \<and> w \<noteq> ''..'' \<and> CHR ''/'' \<notin> set w"

lemma body_components_plain: "\<forall>w \<in> set ws. CHR ''/'' \<notin> set w \<Longrightarrow> Normal v \<in> set (body_components ws) \<Longrightarrow> plain_name v"
  by (auto simp: body_components_def body_component_def plain_name_def split: if_splits)

lemma components_plain: "Normal v \<in> set (components p) \<Longrightarrow> plain_name v"
  using body_components_plain [of "split_on (CHR ''/'') p" v] body_components_plain [of "tl (split_on (CHR ''/'') p)" v]
    split_on_no_sep [of _ "CHR ''/''" p]
  by (cases "split_on (CHR ''/'') p") (auto simp: components_def body_component_def plain_name_def split: if_splits)

lemma link_components_plain: "Normal v \<in> set (link_components p) \<Longrightarrow> plain_name v"
  using components_plain [of v p] body_components_plain [of "split_on (CHR ''/'') p" v] split_on_no_sep [of _ "CHR ''/''" p]
  by (auto simp: link_components_def split: if_splits)

lemma components_location: "\<forall>w \<in> set q. plain_name w \<Longrightarrow> components (path_of (location q)) = location q"
proof -
  assume plain: "\<forall>w \<in> set q. plain_name w"
  then have names: "map show_component (map Normal q) = q" "body_components q = map Normal q"
    by (induction q) (simp_all add: body_component_def plain_name_def)
  show ?thesis
  proof (cases "q = []")
    case True
    then show ?thesis by (simp add: location_def path_of_def components_def is_absolute_def body_component_def)
  next
    case False
    with plain have "split_on (CHR ''/'') (''/'' @ join ''/'' q) = [] # q"
      using split_on_join [of q "CHR ''/''"] split_on_append_sep [of "CHR ''/''" "[]" "join ''/'' q"]
      by (simp add: plain_name_def)
    with names show ?thesis
      by (simp add: location_def path_of_def components_def is_absolute_def body_component_def del: map_map)
  qed
qed

text \<open>A place reached by a resolution, whose names are plain and which no link leads away from.\<close>

definition settled_at :: "files \<Rightarrow> string list \<Rightarrow> bool" where
  "settled_at t q \<longleftrightarrow> (\<forall>w \<in> set q. plain_name w)
     \<and> (\<forall>a l. prefix a q \<longrightarrow> node_at t a \<noteq> Some (LinkNode l))
     \<and> (\<forall>a. strict_prefix a q \<longrightarrow> node_at t a \<noteq> Some FileNode)"

lemma settled_at_Nil [simp]: "settled_at t []"
  by (simp add: settled_at_def node_at_def)

lemma settled_at_prefix: "settled_at t (q @ ws) \<Longrightarrow> settled_at t q"
  unfolding settled_at_def by (auto intro: prefix_prefix) (metis prefix_order.less_le_trans prefixI)

lemma settled_at_snoc:
  "settled_at t q \<Longrightarrow> plain_name w \<Longrightarrow> node_at t q \<noteq> Some FileNode \<Longrightarrow> (\<And>l. node_at t (q @ [w]) \<noteq> Some (LinkNode l)) \<Longrightarrow>
     settled_at t (q @ [w])"
  unfolding settled_at_def by (auto simp: strict_prefix_def)

lemma settled_at_butlast: "settled_at t q \<Longrightarrow> settled_at t (butlast q)"
  by (cases q rule: rev_cases) (auto dest: settled_at_prefix)

lemma fs_walk_settled_from: "settled_at t (a @ b) \<Longrightarrow> fs_walk True t n a (map Normal b) = Inr (a @ b, n)"
proof (induction b arbitrary: a)
  case (Cons w b)
  have "strict_prefix a (a @ w # b)" "prefix (a @ [w]) (a @ w # b)" by (auto simp: strict_prefix_def)
  with Cons.prems have "node_at t a \<noteq> Some FileNode" "\<And>l. node_at t (a @ [w]) \<noteq> Some (LinkNode l)"
    unfolding settled_at_def by blast+
  with Cons.IH [of "a @ [w]"] Cons.prems show ?case by (auto split: option.split node.split)
qed simp

lemma fs_walk_reaches_settled:
  "fs_walk b t n cur cs = Inr (q, m) \<Longrightarrow> settled_at t cur \<Longrightarrow> (\<And>w. Normal w \<in> set cs \<Longrightarrow> plain_name w) \<Longrightarrow> settled_at t q"
proof (induction b t n cur cs rule: fs_walk.induct)
  case (4 b t n cur cs)
  then show ?case by (auto split: if_splits dest: settled_at_butlast)
next
  case (5 b t n cur w cs)
  have dir: "node_at t cur \<noteq> Some FileNode" using "5.prems"(1) by (auto split: if_splits)
  have plain: "plain_name w" "\<And>v. Normal v \<in> set cs \<Longrightarrow> plain_name v" using "5.prems"(3) by simp_all
  show ?case
  proof (cases "\<exists>target. node_at t (cur @ [w]) = Some (LinkNode target)")
    case True
    then obtain target where link: "node_at t (cur @ [w]) = Some (LinkNode target)" by blast
    with "5.prems"(1) dir obtain j where j: "n = Suc j" and rest: "fs_walk b t j cur (link_components target @ cs) = Inr (q, m)"
      by (auto split: nat.splits)
    from "5.IH"(4) [OF dir link refl j rest "5.prems"(2)] plain(2) link_components_plain show ?thesis by auto
  next
    case False
    then have "settled_at t (cur @ [w])" using settled_at_snoc [OF "5.prems"(2) plain(1) dir] by blast
    with 5 False dir plain(2) show ?thesis by (auto split: option.splits node.splits if_splits)
  qed
qed (auto split: if_splits)

lemma lands_settled: "fi_cwd t = [] \<or> is_absolute p \<Longrightarrow> lands t (components p) = Inr q \<Longrightarrow> settled_at t q"
proof -
  assume "fi_cwd t = [] \<or> is_absolute p" and land: "lands t (components p) = Inr q"
  then obtain m where "fs_walk True t os_links (fi_cwd t) (components p) = Inr (q, m)"
    by (cases "fs_walk True t os_links (fi_cwd t) (components p)") (auto simp: lands_def)
  with \<open>fi_cwd t = [] \<or> is_absolute p\<close> have "fs_walk True t os_links [] (components p) = Inr (q, m)"
    by (auto simp: components_def)
  from fs_walk_reaches_settled [OF this settled_at_Nil] components_plain show ?thesis by blast
qed

text \<open>A path without links on it is its own canonical path, whatever of it exists.\<close>

definition unlinked_at :: "files \<Rightarrow> string list \<Rightarrow> bool" where
  "unlinked_at t q \<longleftrightarrow> (\<forall>a l. prefix a q \<longrightarrow> node_at t a \<noteq> Some (LinkNode l))"

lemma unlinked_at_prefix: "unlinked_at t (q @ ws) \<Longrightarrow> unlinked_at t q"
  unfolding unlinked_at_def by (auto intro: prefix_prefix)

lemma fs_walk_unlinked: "unlinked_at t (a @ b) \<Longrightarrow> fs_walk False t n a (map Normal b) = Inr (d, m) \<Longrightarrow> d = a @ b"
proof (induction b arbitrary: a)
  case (Cons w b)
  have "prefix (a @ [w]) (a @ w # b)" by simp
  with Cons.prems(1) have "\<And>l. node_at t (a @ [w]) \<noteq> Some (LinkNode l)" unfolding unlinked_at_def by blast
  with Cons.IH [of "a @ [w]"] Cons.prems show ?case by (auto split: option.splits node.splits if_splits)
qed simp

lemma canonicalize_unlinked:
  assumes "unlinked_at t a" and "canonicalize_components t (location a) = Inr d"
  shows "d = a"
proof -
  from assms(2) obtain m where "fs_walk False t os_links [] (map Normal a) = Inr (d, m)"
    by (cases "fs_walk False t os_links [] (map Normal a)") (auto simp: canonicalize_components_def location_def)
  from fs_walk_unlinked [OF _ this] assms(1) show ?thesis by simp
qed

lemma location_split:
  assumes "location q = xs @ map Normal ws" and "xs \<noteq> []"
  obtains a where "q = a @ ws" "xs = location a"
proof -
  from assms obtain ys where ys: "xs = RootDir # ys" "map Normal q = ys @ map Normal ws" by (cases xs) (auto simp: location_def)
  from ys(2) obtain us vs where "q = us @ vs" "map Normal us = ys" "map Normal vs = map Normal ws"
    by (auto simp: map_eq_append_conv)
  moreover have "inj Normal" by (simp add: inj_def)
  with \<open>map Normal vs = map Normal ws\<close> have "vs = ws" by (simp add: inj_map_eq_map)
  ultimately show thesis using that ys(1) by (simp add: location_def)
qed

lemma climb_unlinked:
  "unlinked_at t q \<Longrightarrow> location q = rev rs @ map Normal ws \<Longrightarrow> climb t hops p rs (map Normal ws) = location q"
proof (induction rs arbitrary: ws)
  case Nil
  then show ?case by (cases ws) (simp_all add: location_def)
next
  case (Cons c ds)
  obtain a where q: "q = a @ ws" and here: "rev (c # ds) = location a"
    using location_split [OF Cons.prems(2)] by auto
  from Cons.prems(1) q have a: "unlinked_at t a" by (auto dest: unlinked_at_prefix)
  show ?case
  proof (cases "path_exists t (rev (c # ds))")
    case True
    then obtain d where "canonicalize_components t (location a) = Inr d" unfolding here by (auto simp: path_exists_def is_ok_iff)
    with canonicalize_unlinked [OF a this] True q show ?thesis
      by (subst climb.simps) (simp only: here if_True sum.case, simp add: location_def)
  next
    case False
    have "\<not> path_exists t (location a)" using False unfolding here .
    then have "a \<noteq> []" by (auto simp: location_def path_exists_eq)
    then obtain b w where b: "a = b @ [w]" by (cases a rule: rev_cases) auto
    with here have c: "c = Normal w" "rev ds = location b" by (simp_all add: location_def)
    have "unlinked_at t b" using a b by (auto dest: unlinked_at_prefix)
    have "node_at t (b @ [w]) \<noteq> Some (LinkNode l)" for l using a b by (simp add: unlinked_at_def)
    moreover have "location b \<noteq> []" by (simp add: location_def)
    ultimately have "\<not> is_symlink t (location b @ [Normal w])"
      using canonicalize_unlinked [OF \<open>unlinked_at t b\<close>] by (auto simp: is_symlink_name)
    then have "\<not> is_symlink t (rev (c # ds))" using c by simp
    moreover have "climb t hops p ds (map Normal (w # ws)) = location q"
      using Cons.IH [OF Cons.prems(1), of "w # ws"] Cons.prems(2) c by simp
    ultimately show ?thesis using False c by (subst climb.simps) simp
  qed
qed

lemma canonicalize_lenient_unlinked:
  assumes "components p = location q" and "unlinked_at t q"
  shows "canonicalize_lenient t p = location q"
proof -
  have "canonicalize_within_hops t max_symlink_hops (location q) = location q"
    using climb_unlinked [OF assms(2), of "rev (location q)" "[]"] by (simp add: canonicalize_within_hops_def)
  moreover have "ParentDir \<notin> set (location q)" by (auto simp: location_def)
  ultimately show ?thesis by (simp add: canonicalize_lenient_def assms(1) Let_def)
qed

lemma canonical_again: "settled_at t q \<Longrightarrow> canonicalize_lenient t (path_of (location q)) = location q"
  by (rule canonicalize_lenient_unlinked [OF components_location]) (auto simp: settled_at_def unlinked_at_def)

section \<open>What an allowed write may reach\<close>

text \<open>
  The places granted to a session: its view directory; outside the session directories of the
  feature and of its descendants, the directories and worktrees of those, the sources of the
  hall, and the hall itself without its state and without the protected paths.
\<close>

definition granted :: "writable_set \<Rightarrow> component list \<Rightarrow> bool" where
  "granted s p \<longleftrightarrow>
     within p (wt_view_dir s)
   \<or> ((\<forall>d \<in> set_option (wt_sessions_dir s) \<union> set (wt_desc_sessions_dirs s). \<not> prefix d p)
      \<and> ((\<exists>d \<in> set_option (wt_feature_dir s) \<union> set (wt_desc_feature_dirs s @ wt_worktrees s @ wt_desc_worktrees s @ wt_hall_sources s). within p d)
          \<or> within p (hr_root (wt_hall s)) \<and> \<not> prefix (hr_ivar_dir (wt_hall s)) p
              \<and> (\<forall>d \<in> set (hr_protected (wt_hall s)). \<not> prefix d p)))"

lemma allows_granted: "allows_canonical s p \<longleftrightarrow> granted s p"
  unfolding allows_canonical_def granted_def hall_allows_def list_ex_iff
  by (cases "wt_sessions_dir s"; cases "wt_feature_dir s"; simp; blast)

text \<open>The absolute path of a target, and whether it has one.\<close>

definition absolute_target :: "string option \<Rightarrow> string \<Rightarrow> string option" where
  "absolute_target cwd p = (if is_absolute p then Some p else map_option (\<lambda>c. path_join c p) cwd)"

lemma resolve_target_lands:
  assumes ok: "files_ok t" and cwd: "\<And>c. cwd = Some c \<Longrightarrow> is_absolute c"
    and p: "\<not> has_uri_scheme p" "absolute_target cwd p = Some a" and land: "lands t (components a) = Inr q"
  shows "\<exists>r. resolve_target t cwd p = Some r \<and> (r = location q \<or> r = [])"
proof -
  have "is_absolute a"
    using p(2) cwd by (auto simp: absolute_target_def path_join_def is_absolute_append split: if_splits) (auto simp: is_absolute_def)
  from canonicalize_lenient_lands [OF ok this land] p show ?thesis
    by (auto simp: resolve_target_def absolute_target_def split: if_splits)
qed

lemma climb_nil [simp]: "climb t hops [] [] [] = []"
  by (subst climb.simps) (simp add: path_exists_def canonicalize_components_def is_symlink_def read_link_def lstat_def)

lemma canonicalize_lenient_empty [simp]: "canonicalize_lenient t [] = []"
  by (simp add: canonicalize_lenient_def components_def is_absolute_def body_component_def canonicalize_within_hops_def)

lemma within_nil [simp]: "\<not> within [] d"
  by (simp add: within_def)

lemma granted_empty [simp]: "\<not> granted s []"
  by (simp add: granted_def)

lemma path_of_nil [simp]: "path_of [] = []"
  by (simp add: path_of_def)

lemma set_allows_granted:
  assumes "files_ok t" and "settled_at t q" and "r = location q \<or> r = []" and "set_allows t s r"
  shows "granted s (location q)"
  using assms canonical_again [OF assms(2)] by (auto simp: set_allows_def allows_granted)

lemma decide_allow:
  assumes "decide w res req targets = Allow" and "tq_writes req" and "\<not> list_all has_uri_scheme (tq_targets req)"
  shows "\<exists>s. res = Resolved s \<and> targets \<noteq> [] \<and> (\<forall>t \<in> set targets. set_allows (wo_files w) s t)"
  using assms by (cases res) (auto simp: decide_def find_None_iff split: if_splits option.splits)

section \<open>Sessions in a hall without links\<close>

definition as_written :: "files \<Rightarrow> string \<Rightarrow> bool" where
  "as_written t p \<longleftrightarrow> (\<exists>q. components p = location q \<and> unlinked_at t q)"

lemma canonicalize_as_written: "as_written t p \<Longrightarrow> canonicalize_lenient t p = components p"
  by (auto simp: as_written_def canonicalize_lenient_unlinked)

lemma canonical_as_written:
  "as_written t p \<Longrightarrow> canonicalize_components t (components p) = Inr d \<Longrightarrow> location d = components p"
  by (auto simp: as_written_def dest: canonicalize_unlinked)

definition worktree_paths :: "layout \<Rightarrow> feature \<Rightarrow> string list" where
  "worktree_paths lay f = map (\<lambda>repo. repo_worktree lay repo (ft_branch f)) (map fst (ft_promotions f))"

text \<open>The paths a session of \<open>f\<close> is granted beside its view directory and the hall root.\<close>

definition granted_paths :: "world \<Rightarrow> layout \<Rightarrow> feature \<Rightarrow> string list" where
  "granted_paths w lay f =
     concat (map (\<lambda>g. feature_dir lay (ft_name g) # worktree_paths lay g) (f # granted_descendants w lay (ft_name f)))
     @ [hall_skills lay, hall_skills_local lay, hall_setups lay, hall_scripts lay, hall_scripts_local lay]"

lemma list_all2_mem: "list_all2 P xs ys \<Longrightarrow> y \<in> set ys \<Longrightarrow> \<exists>x \<in> set xs. P x y"
  by (induction rule: list_all2_induct) auto

lemma set_from_session_parts:
  assumes "set_from_session w lay f view = Inr s"
  shows "wt_sessions_dir s = Some (canonicalize_lenient (wo_files w) (feature_sessions_dir lay (ft_name f)))"
    "wt_feature_dir s = Some (canonicalize_lenient (wo_files w) (feature_dir lay (ft_name f)))"
    "wt_desc_sessions_dirs s =
       map (\<lambda>d. canonicalize_lenient (wo_files w) (feature_sessions_dir lay (ft_name d))) (granted_descendants w lay (ft_name f))"
    "wt_desc_feature_dirs s =
       map (\<lambda>d. canonicalize_lenient (wo_files w) (feature_dir lay (ft_name d))) (granted_descendants w lay (ft_name f))"
    "wt_desc_worktrees s =
       concat (map (\<lambda>d. map (canonicalize_lenient (wo_files w)) (worktree_paths lay d)) (granted_descendants w lay (ft_name f)))"
    "wt_hall_sources s = hall_sources (wo_files w) lay" "wt_hall s = hall_root_new (wo_files w) lay"
  using assms by (auto simp: set_from_session_def Let_def and_then_eq_Inr worktree_paths_def comp_def)

lemma set_from_session_worktree:
  assumes "set_from_session w lay f view = Inr s" and "x \<in> set (wt_worktrees s)"
  shows "\<exists>p d. p \<in> set (worktree_paths lay f) \<and> canonicalize_components (wo_files w) (components p) = Inr d \<and> x = location d"
proof -
  from assms(1) have "try_map (\<lambda>repo. map_sum (unresolvable_worktree (repo_worktree lay repo (ft_branch f))) location
      (canonicalize_components (wo_files w) (components (repo_worktree lay repo (ft_branch f))))) (map fst (ft_promotions f)) = Inr (wt_worktrees s)"
    by (auto simp: set_from_session_def Let_def and_then_eq_Inr)
  from list_all2_mem [OF this [unfolded try_map_Inr_iff] assms(2)] show ?thesis
    by (auto simp: map_sum_Inr worktree_paths_def)
qed

text \<open>No protected path is under \<open>.ivar\<close>.\<close>

lemma protected_components:
  assumes "lay_root lay \<noteq> []"
  shows "map components (guard_protected_paths lay) =
    map (\<lambda>r. components (lay_root lay) @ map Normal r)
      [[''.git'', ''hooks''], [''.git'', ''config''], [''.env''],
       [''.claude'', ''settings.json''], [''.claude'', ''settings.local.json''], [''.opencode'', ''plugins''], [''.opencode'', ''node_modules''],
       [''.omp'', ''hooks''], [''.omp'', ''extensions''], [''.mcp.json''], [''opencode.json''], [''.omp'', ''mcp.json'']]"
  using assms
  by (simp add: guard_protected_paths_def Let_def provider_all_def mcp_config_def components_join is_absolute_def body_component_def)

lemma protected_not_state:
  assumes "lay_root lay \<noteq> []" and "d \<in> set (guard_protected_paths lay)" and "prefix (components d) p"
  shows "\<not> prefix (components (ivar_dir lay)) p"
proof
  assume state: "prefix (components (ivar_dir lay)) p"
  from assms(2) have "components d \<in> set (map components (guard_protected_paths lay))" by simp
  then obtain x r where d: "components d = components (lay_root lay) @ Normal x # r" "x \<noteq> ''.ivar''"
    unfolding protected_components [OF assms(1)] by auto
  have "components (ivar_dir lay) = components (lay_root lay) @ [Normal ''.ivar'']"
    using assms(1) by (simp add: ivar_dir_def components_join is_absolute_def body_component_def)
  with state d assms(3) show False by (auto simp: prefix_def)
qed

lemma granted_dir_in_state:
  assumes made: "set_from_session w lay f view = Inr s"
    and written: "\<forall>x \<in> set (granted_paths w lay f). as_written (wo_files w) x \<and> path_starts_with x (ivar_dir lay)"
    and x: "x \<in> set_option (wt_feature_dir s) \<union> set (wt_desc_feature_dirs s @ wt_worktrees s @ wt_desc_worktrees s @ wt_hall_sources s)"
  shows "prefix (components (ivar_dir lay)) x"
proof -
  note parts = set_from_session_parts [OF made]
  have "\<exists>p \<in> set (granted_paths w lay f). x = components p"
  proof (cases "x \<in> set (wt_worktrees s)")
    case True
    from set_from_session_worktree [OF made this] obtain p d where p: "p \<in> set (worktree_paths lay f)"
      "canonicalize_components (wo_files w) (components p) = Inr d" "x = location d" by blast
    then have "p \<in> set (granted_paths w lay f)" by (simp add: granted_paths_def)
    with written canonical_as_written p show ?thesis by fastforce
  next
    case False
    with x parts obtain p where p: "p \<in> set (granted_paths w lay f)" "x = canonicalize_lenient (wo_files w) p"
      by (auto simp: granted_paths_def hall_sources_def)
    with written canonicalize_as_written show ?thesis by fastforce
  qed
  with written show ?thesis by (auto simp: path_starts_with_def)
qed

lemma find_snoc: "find P (xs @ [x]) = (case find P xs of None \<Rightarrow> if P x then Some x else None | Some y \<Rightarrow> Some y)"
  by (induction xs) auto

section \<open>Properties\<close>

text \<open>
  C3: the path the guard decides on is the path the system would reach: if a write to an
  absolute path, following links and making the missing directories, ends at a place, then
  the canonical path of the guard is that place, or nothing, which every session is refused.
\<close>

theorem guard_sees_where_writes_land:
  assumes "files_ok t" and "is_absolute p" and "lands t (components p) = Inr q"
  shows "(canonicalize_lenient t p = location q \<or> canonicalize_lenient t p = [])
    \<and> \<not> set_allows t s []"
  using canonicalize_lenient_lands [OF assms] by (simp add: set_allows_def allows_granted)

text \<open>
  C2: a write that the guard lets through ends in a place granted to the session: whatever
  links are on the way, each target that has an absolute path lands in the view directory, or
  outside all session directories in a directory, worktree or source of the session's
  features, or in the hall outside its state and its protected paths.
\<close>

theorem guard_allow_confines:
  assumes "files_ok (wo_files w)" and "\<And>c. cwd = Some c \<Longrightarrow> is_absolute c"
    and "evaluate w req cwd ambient = Allow" and "tq_writes req"
    and "p \<in> set (tq_targets req)" and "\<not> has_uri_scheme p"
    and "absolute_target cwd p = Some a" and "lands (wo_files w) (components a) = Inr q"
  shows "\<exists>s. writable_set_of w req cwd ambient \<in> {Unique s, SharedHall s} \<and> granted s (location q)"
proof -
  from resolve_target_lands [OF assms(1,2,6,7,8)] obtain r where r: "resolve_target (wo_files w) cwd p = Some r"
    "r = location q \<or> r = []" by blast
  then have target: "r \<in> set (request_targets w req cwd)"
    using assms(5) by (force simp: request_targets_def List.map_filter_def)
  have "\<not> list_all has_uri_scheme (tq_targets req)" using assms(5,6) by (auto simp: list_all_iff)
  with assms(3,4) obtain s where s: "writable_set_of w req cwd ambient \<in> {Unique s, SharedHall s}"
    "\<forall>t \<in> set (request_targets w req cwd). set_allows (wo_files w) s t"
    by (auto simp: evaluate_def Let_def unresolved_def split: option.splits target_resolution.splits dest!: decide_allow)
  have "is_absolute a"
    using assms(7) assms(2) by (auto simp: absolute_target_def path_join_def is_absolute_append split: if_splits) (auto simp: is_absolute_def)
  with lands_settled assms(8) have "settled_at (wo_files w) q" by blast
  from set_allows_granted [OF assms(1) this r(2)] s target show ?thesis by blast
qed

text \<open>
  C4: where the paths granted to a session and the protected paths of the hall are as they are
  written, with no link on the way, where the granted ones lie in the state of the hall
  (\<open>.ivar\<close>) and the view directory of the session does too, a session of a feature never gets
  at the launch configuration of the hall nor at the view directory of another session of its
  features.  A granted directory that is a link into a protected one, or one outside the state,
  is not covered.
\<close>

theorem session_never_writes_protected:
  assumes "set_from_session w lay f view = Inr s" and "lay_root lay \<noteq> []"
    and "\<forall>x \<in> set (granted_paths w lay f). as_written (wo_files w) x \<and> path_starts_with x (ivar_dir lay)"
    and "\<forall>x \<in> set (guard_protected_paths lay). as_written (wo_files w) x"
    and "prefix (components (ivar_dir lay)) (wt_view_dir s)" and "allows_canonical s p"
  shows "(\<forall>d \<in> set (guard_protected_paths lay). \<not> prefix (components d) p)
    \<and> (\<forall>g \<in> insert (ft_name f) (ft_name ` set (granted_descendants w lay (ft_name f))).
         prefix (canonicalize_lenient (wo_files w) (feature_sessions_dir lay g)) p \<longrightarrow> within p (wt_view_dir s))"
proof (intro conjI ballI impI notI)
  note parts = set_from_session_parts [OF assms(1)]
  note grant = assms(6) [unfolded allows_granted]
  fix d assume d: "d \<in> set (guard_protected_paths lay)" and under: "prefix (components d) p"
  note out = protected_not_state [OF assms(2) d under]
  have "components d \<in> set (hr_protected (wt_hall s))"
    using d assms(4) canonicalize_as_written by (force simp: parts hall_root_new_def)
  with under have not_hall: "\<not> (\<forall>d \<in> set (hr_protected (wt_hall s)). \<not> prefix d p)" by blast
  have "\<not> within p (wt_view_dir s)" using out assms(5) prefix_order.trans by (auto simp: within_def)
  moreover have "\<not> within p x"
    if "x \<in> set_option (wt_feature_dir s) \<union> set (wt_desc_feature_dirs s @ wt_worktrees s @ wt_desc_worktrees s @ wt_hall_sources s)" for x
    using granted_dir_in_state [OF assms(1,3) that] out prefix_order.trans by (auto simp: within_def)
  ultimately show False using grant not_hall unfolding granted_def by blast
next
  note parts = set_from_session_parts [OF assms(1)]
  fix g assume "g \<in> insert (ft_name f) (ft_name ` set (granted_descendants w lay (ft_name f)))"
    and "prefix (canonicalize_lenient (wo_files w) (feature_sessions_dir lay g)) p"
  with assms(6) show "within p (wt_view_dir s)" by (auto simp: granted_def parts allows_granted)
qed

text \<open>
  C32: a write outside any session whose first target is in the shared part of the hall is
  allowed to touch the whole hall with its other targets, the protected paths and the state of
  other sessions included: the set made for it takes the hall root for its view directory.
\<close>

theorem shared_hall_grants_everything:
  assumes "writable_set_of w req cwd ambient = SharedHall s" and "wt_view_dir s = location r"
  shows "\<exists>lay. s = shared_hall_set w lay \<and> components (lay_root lay) = location r
    \<and> (\<forall>q. prefix r q \<longrightarrow> allows_canonical s (location q))"
proof -
  from assms(1) obtain lay where s: "s = shared_hall_set w lay"
    by (auto simp: writable_set_of_def by_target_def resolve_set_by_target_def Let_def
        split: option.splits if_splits list.splits prod.splits)
  with assms(2) have "components (lay_root lay) = location r" by (simp add: shared_hall_set_def plain_set_def)
  moreover have "allows_canonical s (location q)" if "prefix r q" for q
    using that assms(2) by (auto simp: allows_granted granted_def within_def location_def prefix_def)
  ultimately show ?thesis using s by blast
qed

text \<open>
  Without a working directory the relative targets of a write are not looked at, as soon as
  the other targets are allowed.
\<close>

theorem relative_target_unchecked:
  assumes "evaluate w req None ambient = Allow" and "tq_writes req" and "\<not> list_all has_uri_scheme (tq_targets req)"
    and "\<not> is_absolute rel" and "\<not> has_uri_scheme rel"
  shows "evaluate w (req\<lparr>tq_targets := tq_targets req @ [rel]\<rparr>) None ambient = Allow"
proof -
  let ?req = "req\<lparr>tq_targets := tq_targets req @ [rel]\<rparr>"
  have first: "first_absolute ?req = first_absolute req" using assms(4) by (simp add: first_absolute_def find_snoc split: option.split)
  have targets: "request_targets w ?req None = request_targets w req None"
    using assms(4) by (simp add: request_targets_def List.map_filter_def resolve_target_def)
  have found: "writable_set_of w ?req None ambient = writable_set_of w req None ambient"
    by (simp add: writable_set_of_def session_env_of_def by_target_def first)
  from assms(1-3) obtain s where s: "writable_set_of w req None ambient \<in> {Unique s, SharedHall s}"
    and dec: "decide w (Resolved s) req (request_targets w req None) = Allow"
    by (auto simp: evaluate_def Let_def unresolved_def split: option.splits target_resolution.splits dest: decide_allow)
  from decide_allow [OF dec assms(2,3)] have "request_targets w req None \<noteq> []"
    "\<forall>t \<in> set (request_targets w req None). set_allows (wo_files w) s t" by auto
  then have "decide w (Resolved s) ?req (request_targets w req None) = Allow"
    using assms(2,5) by (auto simp: decide_def find_None_iff split: option.splits)
  with s found targets show ?thesis by (auto simp: evaluate_def Let_def)
qed

section \<open>Witnesses\<close>

text \<open>A hall at \<open>/h\<close> with a feature, one session of it, and a link out of the hall.\<close>

definition sample_files :: files where
  "sample_files =
     \<lparr>fi_nodes = map (\<lambda>p. (p, DirNode))
         [[''h''], [''h'', ''.ivar''], [''h'', ''.ivar'', ''features''], [''h'', ''.ivar'', ''features'', ''shop''],
          [''h'', ''.ivar'', ''features'', ''shop'', ''sessions''], [''h'', ''.ivar'', ''features'', ''shop'', ''sessions'', ''s1''],
          [''h'', ''.git''], [''h'', ''.git'', ''hooks''], [''out'']]
       @ map (\<lambda>p. (p, FileNode)) [[''h'', ''ivar.json''], [''h'', ''README.md'']],
      fi_cwd = []\<rparr>"

definition sample_linked :: files where
  "sample_linked = sample_files\<lparr>fi_nodes := ([''h'', ''docs''], LinkNode ''../out/notes'') # fi_nodes sample_files\<rparr>"

definition sample_shop :: feature where
  "sample_shop = feature_new (FeatureName ''shop'') (BranchName ''shop'')"

definition sample_world :: world where
  "sample_world =
     \<lparr>wo_files = sample_files, wo_hall = (\<lambda>l. [(FeatureName ''shop'', sample_shop)]), wo_state = (\<lambda>p. None), wo_uuid = (\<lambda>i. False)\<rparr>"

definition sample_write :: "string list \<Rightarrow> tool_request" where
  "sample_write ts =
     \<lparr>tq_tool = ''apply_patch'', tq_targets = ts, tq_writes = True, tq_search_pattern = None, tq_input = JObject [],
      tq_agent = None, tq_call_id = None\<rparr>"

text \<open>A finite set of nodes is checked node by node.\<close>

lemma files_okI:
  assumes "list_all (\<lambda>(p, n). p \<noteq> [] \<and> node_at t (butlast p) = Some DirNode) (fi_nodes t)"
  shows "files_ok t"
  unfolding files_ok_def
proof (intro allI impI)
  fix d w assume "node_at t (d @ [w]) \<noteq> None"
  then obtain n where "map_of (fi_nodes t) (d @ [w]) = Some n" by (auto simp: node_at_def)
  then have "(d @ [w], n) \<in> set (fi_nodes t)" by (rule map_of_SomeD)
  with assms show "node_at t d = Some DirNode" by (auto simp: list_all_iff)
qed

lemma sample_files_ok: "files_ok sample_files" "files_ok sample_linked"
  by (rule files_okI; code_simp)+

definition written_check :: "files \<Rightarrow> string \<Rightarrow> bool" where
  "written_check t p \<longleftrightarrow>
     (case components p of RootDir # cs \<Rightarrow> list_all is_plain cs | _ \<Rightarrow> False)
   \<and> list_all (\<lambda>(_, n). case n of LinkNode _ \<Rightarrow> False | _ \<Rightarrow> True) (fi_nodes t)"

lemma written_check: "written_check t p \<Longrightarrow> as_written t p"
proof -
  assume w: "written_check t p"
  then obtain cs where cs: "components p = RootDir # cs" "list_all is_plain cs"
    by (auto simp: written_check_def split: list.splits component.splits)
  from cs(2) have "\<exists>q. cs = map Normal q"
  proof (induction cs)
    case (Cons c cs)
    then obtain q v where "cs = map Normal q" "c = Normal v" by (cases c) (auto simp: is_plain_def)
    then show ?case by (intro exI [of _ "v # q"]) simp
  qed simp
  moreover have "node_at t a \<noteq> Some (LinkNode l)" for a l
    using w by (auto simp: written_check_def node_at_def list_all_iff dest!: map_of_SomeD)
  ultimately show ?thesis using cs(1) by (auto simp: as_written_def unlinked_at_def location_def)
qed

theorem guard_sees_where_writes_land_witness:
  "canonicalize_lenient sample_linked ''/h/docs/new.md'' = location [''out'', ''notes'', ''new.md'']"
proof -
  have "lands sample_linked (components ''/h/docs/new.md'') = Inr [''out'', ''notes'', ''new.md'']" by code_simp
  moreover have "is_absolute ''/h/docs/new.md''" "canonicalize_lenient sample_linked ''/h/docs/new.md'' \<noteq> []" by code_simp+
  ultimately show ?thesis using guard_sees_where_writes_land [OF sample_files_ok(2)] by blast
qed

text \<open>What the guard decides on the sample hall, evaluated at once.\<close>

lemma sample_decisions:
  shows sample_hall_write: "evaluate sample_world (sample_write [''/h/README.md'', ''/h/.git/hooks/pre-commit'']) None None = Allow"
    and sample_hall_set: "case writable_set_of sample_world (sample_write [''/h/README.md'', ''/h/.git/hooks/pre-commit'']) None None of
        SharedHall s \<Rightarrow> wt_view_dir s = location [''h''] | _ \<Rightarrow> False"
    and sample_hook_refused: "evaluate sample_world (sample_write [''/h/.git/hooks/pre-commit'']) None None \<noteq> Allow"
    and sample_one_write: "evaluate sample_world (sample_write [''/h/README.md'']) None None = Allow"
    and sample_session_set: "case set_from_session sample_world (layout_at ''/h'') sample_shop ''/h/.ivar/features/shop/sessions/s1'' of
        Inr s \<Rightarrow> prefix (components (ivar_dir (layout_at ''/h''))) (wt_view_dir s) \<and> allows_canonical s (location [''h'', ''README.md''])
      | Inl _ \<Rightarrow> False"
    and sample_granted: "list_all (\<lambda>x. written_check (wo_files sample_world) x \<and> path_starts_with x (ivar_dir (layout_at ''/h'')))
        (granted_paths sample_world (layout_at ''/h'') sample_shop)"
    and sample_protected: "list_all (written_check (wo_files sample_world)) (guard_protected_paths (layout_at ''/h''))"
    and sample_entries: "hall_entries sample_files (hall_root_new sample_files (layout_at ''/h''))
        = Some (Inr [location [''h'', ''README.md''], location [''h'', ''ivar.json'']])"
proof -
  let ?w = sample_world and ?lay = "layout_at ''/h''"
  have all: "evaluate ?w (sample_write [''/h/README.md'', ''/h/.git/hooks/pre-commit'']) None None = Allow
    \<and> (case writable_set_of ?w (sample_write [''/h/README.md'', ''/h/.git/hooks/pre-commit'']) None None of
        SharedHall s \<Rightarrow> wt_view_dir s = location [''h''] | _ \<Rightarrow> False)
    \<and> evaluate ?w (sample_write [''/h/.git/hooks/pre-commit'']) None None \<noteq> Allow
    \<and> evaluate ?w (sample_write [''/h/README.md'']) None None = Allow
    \<and> (case set_from_session ?w ?lay sample_shop ''/h/.ivar/features/shop/sessions/s1'' of
        Inr s \<Rightarrow> prefix (components (ivar_dir ?lay)) (wt_view_dir s) \<and> allows_canonical s (location [''h'', ''README.md''])
      | Inl _ \<Rightarrow> False)
    \<and> list_all (\<lambda>x. written_check (wo_files ?w) x \<and> path_starts_with x (ivar_dir ?lay)) (granted_paths ?w ?lay sample_shop)
    \<and> list_all (written_check (wo_files ?w)) (guard_protected_paths ?lay)
    \<and> hall_entries sample_files (hall_root_new sample_files ?lay)
        = Some (Inr [location [''h'', ''README.md''], location [''h'', ''ivar.json'']])"
    by code_simp
  show "evaluate ?w (sample_write [''/h/README.md'', ''/h/.git/hooks/pre-commit'']) None None = Allow"
    "case writable_set_of ?w (sample_write [''/h/README.md'', ''/h/.git/hooks/pre-commit'']) None None of
        SharedHall s \<Rightarrow> wt_view_dir s = location [''h''] | _ \<Rightarrow> False"
    "evaluate ?w (sample_write [''/h/.git/hooks/pre-commit'']) None None \<noteq> Allow"
    "evaluate ?w (sample_write [''/h/README.md'']) None None = Allow"
    "case set_from_session ?w ?lay sample_shop ''/h/.ivar/features/shop/sessions/s1'' of
        Inr s \<Rightarrow> prefix (components (ivar_dir ?lay)) (wt_view_dir s) \<and> allows_canonical s (location [''h'', ''README.md''])
      | Inl _ \<Rightarrow> False"
    "list_all (\<lambda>x. written_check (wo_files ?w) x \<and> path_starts_with x (ivar_dir ?lay)) (granted_paths ?w ?lay sample_shop)"
    "list_all (written_check (wo_files ?w)) (guard_protected_paths ?lay)"
    "hall_entries sample_files (hall_root_new sample_files ?lay) = Some (Inr [location [''h'', ''README.md''], location [''h'', ''ivar.json'']])"
    using all by (iprover dest: conjunct1 conjunct2)+
qed

theorem guard_allow_confines_witness:
  "\<exists>s. writable_set_of sample_world (sample_write [''/h/README.md'', ''/h/.git/hooks/pre-commit'']) None None \<in> {Unique s, SharedHall s}
     \<and> granted s (location [''h'', ''README.md''])"
proof -
  have "\<not> has_uri_scheme ''/h/README.md''" "absolute_target None ''/h/README.md'' = Some ''/h/README.md''"
    "lands (wo_files sample_world) (components ''/h/README.md'') = Inr [''h'', ''README.md'']" by code_simp+
  with guard_allow_confines [OF _ _ sample_hall_write, of "''/h/README.md''"] sample_files_ok(1)
  show ?thesis by (simp add: sample_write_def sample_world_def)
qed

theorem shared_hall_grants_everything_witness:
  "(\<exists>s. writable_set_of sample_world (sample_write [''/h/README.md'', ''/h/.git/hooks/pre-commit'']) None None = SharedHall s
      \<and> allows_canonical s (location [''h'', ''.git'', ''hooks'', ''pre-commit'']))
   \<and> evaluate sample_world (sample_write [''/h/README.md'', ''/h/.git/hooks/pre-commit'']) None None = Allow
   \<and> evaluate sample_world (sample_write [''/h/.git/hooks/pre-commit'']) None None \<noteq> Allow"
proof (intro conjI)
  let ?r = "sample_write [''/h/README.md'', ''/h/.git/hooks/pre-commit'']"
  from sample_hall_set obtain s where s: "writable_set_of sample_world ?r None None = SharedHall s" "wt_view_dir s = location [''h'']"
    by (cases "writable_set_of sample_world ?r None None") auto
  from shared_hall_grants_everything [OF this] have "allows_canonical s (location [''h'', ''.git'', ''hooks'', ''pre-commit''])" by auto
  with s(1) show "\<exists>s. writable_set_of sample_world ?r None None = SharedHall s \<and> allows_canonical s (location [''h'', ''.git'', ''hooks'', ''pre-commit''])"
    by blast
  show "evaluate sample_world ?r None None = Allow" by (rule sample_hall_write)
  show "evaluate sample_world (sample_write [''/h/.git/hooks/pre-commit'']) None None \<noteq> Allow" by (rule sample_hook_refused)
qed

theorem relative_target_unchecked_witness:
  "evaluate sample_world (sample_write [''/h/README.md'', ''../etc/passwd'']) None None = Allow"
proof -
  have "\<not> list_all has_uri_scheme [''/h/README.md'']"
    "\<not> is_absolute ''../etc/passwd''" "\<not> has_uri_scheme ''../etc/passwd''" by code_simp+
  with sample_one_write relative_target_unchecked [of sample_world "sample_write [''/h/README.md'']" None "''../etc/passwd''"]
  show ?thesis by (simp add: sample_write_def)
qed

theorem session_never_writes_protected_witness:
  "\<exists>s. set_from_session sample_world (layout_at ''/h'') sample_shop ''/h/.ivar/features/shop/sessions/s1'' = Inr s
     \<and> allows_canonical s (location [''h'', ''README.md''])
     \<and> (\<forall>d \<in> set (guard_protected_paths (layout_at ''/h'')). \<not> prefix (components d) (location [''h'', ''README.md'']))"
proof -
  let ?lay = "layout_at ''/h''" and ?view = "''/h/.ivar/features/shop/sessions/s1''"
  from sample_session_set obtain s where s: "set_from_session sample_world ?lay sample_shop ?view = Inr s"
    "prefix (components (ivar_dir ?lay)) (wt_view_dir s)" "allows_canonical s (location [''h'', ''README.md''])"
    by (cases "set_from_session sample_world ?lay sample_shop ?view") auto
  have "lay_root ?lay \<noteq> []" by code_simp
  moreover from sample_granted sample_protected have "\<forall>x \<in> set (granted_paths sample_world ?lay sample_shop). as_written (wo_files sample_world) x \<and> path_starts_with x (ivar_dir ?lay)"
    "\<forall>x \<in> set (guard_protected_paths ?lay). as_written (wo_files sample_world) x" using written_check by (auto simp: list_all_iff)
  ultimately show ?thesis using session_never_writes_protected [OF s(1) _ _ _ s(2,3)] s(1,3) by blast
qed

section \<open>The sandbox\<close>

lemma expand_entries_granted:
  assumes "expand_entries t h es = Some r"
  shows "\<forall>gs g. r = Inr gs \<longrightarrow> g \<in> set gs \<longrightarrow> g \<noteq> hr_root h \<and> hall_allows h g \<and> \<not> holds_protected h g"
proof (rule expand_entries.raw_induct [where P = "\<lambda>t h es r. \<forall>gs g. r = Inr gs \<longrightarrow> g \<in> set gs \<longrightarrow>
    g \<noteq> hr_root h \<and> hall_allows h g \<and> \<not> holds_protected h g", OF _ assms])
  fix expand t h es r
  assume 1: "\<And>t h es r. expand t h es = Some r \<Longrightarrow> \<forall>gs g. r = Inr gs \<longrightarrow> g \<in> set gs \<longrightarrow>
      g \<noteq> hr_root h \<and> hall_allows h g \<and> \<not> holds_protected h g"
    and body: "(case es of
        [] \<Rightarrow> Some (Inr [])
      | e # rest \<Rightarrow>
          (let c = canonicalize_lenient t e in
           if c = hr_root h \<or> \<not> hall_allows h c then expand t h rest
           else if \<not> holds_protected h c
           then Option.bind (expand t h rest) (\<lambda>r. Some (map_sum id (\<lambda>gs. c # gs) r))
           else if lstat t (components e) = Some DirNode
           then (case tree_read_dir t e of
                   Inl err \<Rightarrow> Some (Inl (unreadable_hall_root e err))
                 | Inr sub \<Rightarrow>
                     Option.bind (expand t h sub) (\<lambda>r. case r of
                         Inl err \<Rightarrow> Some (Inl err)
                       | Inr gs \<Rightarrow> Option.bind (expand t h rest) (\<lambda>r'. Some (map_sum id (\<lambda>hs. gs @ hs) r'))))
           else expand t h rest)) = Some r"
  show "\<forall>gs g. r = Inr gs \<longrightarrow> g \<in> set gs \<longrightarrow> g \<noteq> hr_root h \<and> hall_allows h g \<and> \<not> holds_protected h g"
  proof (cases es)
    case Nil
    with body show ?thesis by auto
  next
    case (Cons e rest)
    let ?c = "canonicalize_lenient t e"
    consider (skip) "expand t h rest = Some r"
      | (take) gs where "?c \<noteq> hr_root h" "hall_allows h ?c" "\<not> holds_protected h ?c" "expand t h rest = Some gs" "r = map_sum id ((#) ?c) gs"
      | (err) x where "r = Inl x"
      | (both) sub gs r' where "expand t h sub = Some (Inr gs)" "expand t h rest = Some r'" "r = map_sum id ((@) gs) r'"
      using body Cons by (auto simp: Let_def bind_eq_Some_conv split: if_splits sum.split_asm) (metis sum.exhaust)
    then show ?thesis
    proof cases
      case skip
      from 1 [OF this] show ?thesis .
    next
      case take
      from 1 [OF take(4)] take show ?thesis by (cases gs) auto
    next
      case both
      from 1 [OF both(1)] 1 [OF both(2)] both(3) show ?thesis by (cases r') auto
    qed simp
  qed
qed

text \<open>
  C5: what the sandbox is given of the hall is what the guard allows: everything at or below a
  granted entry is in the hall and neither state nor protected, when the state is a directory
  of the hall itself.
\<close>

theorem sandbox_grants_what_guard_allows:
  assumes "hall_entries t h = Some (Inr gs)" and "g \<in> set gs" and "prefix g p"
    and "hr_ivar_dir h = hr_root h @ [c]"
  shows "hall_allows h p"
proof -
  from assms(1,2) have g: "g \<noteq> hr_root h" "hall_allows h g" "\<not> holds_protected h g"
    using expand_entries_granted by (auto simp: hall_entries_def split: sum.splits)
  then have root: "hr_root h \<noteq> []" "prefix (hr_root h) g" by (auto simp: hall_allows_def within_def)
  have "\<not> prefix (hr_ivar_dir h) p"
  proof
    assume "prefix (hr_ivar_dir h) p"
    with assms(3) have "prefix (hr_ivar_dir h) g \<or> prefix g (hr_ivar_dir h)" using prefix_same_cases by blast
    with g(1,2) root(2) assms(4) show False by (auto simp: hall_allows_def)
  qed
  moreover have "\<not> prefix x p" if "x \<in> set (hr_protected h)" for x
  proof
    assume "prefix x p"
    with assms(3) have "prefix x g \<or> prefix g x" using prefix_same_cases by blast
    with g(2,3) that show False by (auto simp: hall_allows_def holds_protected_def list_ex_iff)
  qed
  ultimately show ?thesis using root assms(3) prefix_order.trans [of "hr_root h" g p]
    by (auto simp: hall_allows_def within_def list_ex_iff)
qed

theorem sandbox_grants_what_guard_allows_witness:
  "\<exists>gs. hall_entries sample_files (hall_root_new sample_files (layout_at ''/h'')) = Some (Inr gs)
     \<and> location [''h'', ''README.md''] \<in> set gs \<and> hall_allows (hall_root_new sample_files (layout_at ''/h'')) (location [''h'', ''README.md''])"
proof -
  let ?h = "hall_root_new sample_files (layout_at ''/h'')"
  have "hr_ivar_dir ?h = hr_root ?h @ [Normal ''.ivar'']" by code_simp
  with sample_entries sandbox_grants_what_guard_allows [OF sample_entries _ _ this, of "location [''h'', ''README.md'']"] show ?thesis by auto
qed

end
