(* ===== verification/Legacy_Board.thy ===== *)
theory Legacy_Board
  imports Feature_Store Run_Receipt
begin

text \<open>
  The execution board of \<open>src/src/store/feature/run/legacy.rs\<close>: the steps that bring a
  \<open>board.json\<close> of any version to the last one, and the evidence a receipt keeps of it.  The
  board as the private types read it (\<open>BoardDto\<close>, every field with a default) is a record; the
  derived deserialiser is an argument.
\<close>

section \<open>The migration steps\<close>

definition board_file_version :: nat where
  "board_file_version = 3"

definition board_v0_to_v1 :: "json \<Rightarrow> string + json" where
  "board_v0_to_v1 v = Inr v"

definition workstream_v2 :: "json \<Rightarrow> string + json" where
  "workstream_v2 v =
     (case v of
        JObject m \<Rightarrow> Inr (JObject (obj_or_insert ''agent'' JNull (obj_or_insert ''provider'' JNull m)))
      | _ \<Rightarrow> Inl ''workstream not an object'')"

definition journal_entry_v2 :: "nat \<Rightarrow> json \<Rightarrow> string + json" where
  "journal_entry_v2 i v =
     (case v of
        JObject m \<Rightarrow>
          (let n = i + 1;
               kind = (case obj_get m ''kind'' of Some (JString k) \<Rightarrow> k | _ \<Rightarrow> ''unknown'')
           in Inr (JObject (obj_or_insert ''event_id'' (JString (''migrated.v1.'' @ kind @ ''.'' @ show_nat n))
                     (obj_or_insert ''seq'' (JUInt n) m))))
      | _ \<Rightarrow> Inl ''journal entry not an object'')"

fun journal_v2 :: "nat \<Rightarrow> json list \<Rightarrow> string + json list" where
  "journal_v2 i [] = Inr []"
| "journal_v2 i (v # vs) =
     and_then (journal_entry_v2 i v) (\<lambda>w. and_then (journal_v2 (i + 1) vs) (\<lambda>ws. Inr (w # ws)))"

text \<open>The array under a key of an object, changed in place when it is there.\<close>

definition with_array :: "string \<Rightarrow> (json list \<Rightarrow> string + json list) \<Rightarrow> (string \<times> json) list \<Rightarrow> string + (string \<times> json) list" where
  "with_array k f m =
     (case obj_get m k of
        Some (JArray vs) \<Rightarrow> map_sum id (\<lambda>ws. obj_insert k (JArray ws) m) (f vs)
      | _ \<Rightarrow> Inr m)"

definition with_workstreams :: "(string \<times> json) list \<Rightarrow> string + (string \<times> json) list" where
  "with_workstreams m =
     (case obj_get m ''graph'' of
        Some (JObject g) \<Rightarrow>
          map_sum id (\<lambda>g'. obj_insert ''graph'' (JObject g') m) (with_array ''workstreams'' (try_map workstream_v2) g)
      | _ \<Rightarrow> Inr m)"

definition journal_length :: "(string \<times> json) list \<Rightarrow> nat" where
  "journal_length m = (case obj_get m ''journal'' of Some (JArray vs) \<Rightarrow> length vs | _ \<Rightarrow> 0)"

definition board_v1_to_v2 :: "json \<Rightarrow> string + json" where
  "board_v1_to_v2 v =
     (case v of
        JObject m \<Rightarrow>
          and_then (with_workstreams m) (\<lambda>m.
          and_then (with_array ''journal'' (journal_v2 0) m) (\<lambda>m.
            Inr (JObject (obj_or_insert ''sessions'' (JObject [])
              (obj_or_insert ''blocked_by'' JNull
                (obj_or_insert ''next_event_seq'' (JUInt (journal_length m + 1)) m))))))
      | _ \<Rightarrow> Inl ''board must be an object'')"

definition journal_entry_v3 :: "json \<Rightarrow> string + json" where
  "journal_entry_v3 v =
     (case v of
        JObject m \<Rightarrow> Inr (JObject (obj_or_insert ''revision'' JNull m))
      | _ \<Rightarrow> Inl ''journal entry not an object'')"

definition board_v2_to_v3 :: "json \<Rightarrow> string + json" where
  "board_v2_to_v3 v =
     (case v of
        JObject m \<Rightarrow> map_sum id JObject (with_array ''journal'' (try_map journal_entry_v3) m)
      | _ \<Rightarrow> Inl ''board must be an object'')"

definition board_steps :: "(nat \<times> nat \<times> (json \<Rightarrow> string + json)) list" where
  "board_steps = [(0, 1, board_v0_to_v1), (1, 2, board_v1_to_v2), (2, 3, board_v2_to_v3)]"

definition board_too_new :: "string \<Rightarrow> nat \<Rightarrow> failure" where
  "board_too_new path detected =
     with_fix (fix_command ''ivar upgrade'' (fix_safe ''store.upgrade_ivar''
         ''Upgrade ivar to a version that understands this hall.''))
       (with_actual (''v'' @ show_nat detected)
         (with_expected (''v'' @ show_nat board_file_version @ '' or older'')
           (blocked ''store.version_too_new''
             (path @ '' is schema v'' @ show_nat detected @ ''; this ivar understands execution boards up to v''
              @ show_nat board_file_version))))"

definition board_step_failed :: "string \<Rightarrow> nat \<Rightarrow> nat \<Rightarrow> string \<Rightarrow> failure" where
  "board_step_failed path a b reason =
     blocked ''store.migration_failed''
       (path @ '': migrating from v'' @ show_nat a @ '' to v'' @ show_nat b @ '' failed: '' @ reason)"

fun run_board_steps :: "string \<Rightarrow> nat \<Rightarrow> (nat \<times> nat \<times> (json \<Rightarrow> string + json)) list \<Rightarrow> json \<Rightarrow> failure + json" where
  "run_board_steps path detected [] v = Inr v"
| "run_board_steps path detected ((a, b, step) # steps) v =
     (if detected \<le> a
      then (case step v of
              Inl reason \<Rightarrow> Inl (board_step_failed path a b reason)
            | Inr w \<Rightarrow> run_board_steps path detected steps w)
      else run_board_steps path detected steps v)"

text \<open>A board that is not an object is left without a version.\<close>

definition board_normalize :: "string \<Rightarrow> json \<Rightarrow> failure + json" where
  "board_normalize path v =
     (let detected = detect_version v in
      if detected > board_file_version then Inl (board_too_new path detected)
      else map_sum id (stamp_version board_file_version) (run_board_steps path detected board_steps v))"

section \<open>The evidence of a board\<close>

record board_dto =
  bd_status :: string
  bd_fingerprint :: "string option"
  bd_workstreams :: "legacy_workstream list"
  bd_journal :: "legacy_journal_entry list"
  bd_sessions :: "(string, string) btree"

definition board_unreadable :: "string \<Rightarrow> failure" where
  "board_unreadable e =
     with_fix (fix_unsafe ''execute.inspect_board'' ''Open the board and check it against the format ivar last wrote.'')
       (blocked ''execute.board_unreadable'' (''the execution board does not match any shape ivar has written: '' @ e))"

definition board_evidence :: "(json \<Rightarrow> string + board_dto) \<Rightarrow> json \<Rightarrow> string \<Rightarrow> string \<Rightarrow> failure + legacy_evidence" where
  "board_evidence from_value normalized source_hash archived =
     and_then (map_sum board_unreadable id (from_value normalized)) (\<lambda>b. Inr
       \<lparr>le_source_hash = source_hash, le_board_status = bd_status b,
        le_plan_fingerprint = (case bd_fingerprint b of Some fp \<Rightarrow> if fp = [] then None else Some fp | None \<Rightarrow> None),
        le_workstreams = bd_workstreams b, le_sessions = bd_sessions b, le_journal = bd_journal b,
        le_archived_board = archived\<rparr>)"

end
