(* ===== verification/Run_Store.thy ===== *)
theory Run_Store
  imports Legacy_Board Effects Layout_Paths
begin

text \<open>
  \<open>src/src/store/feature/run.rs\<close> and the import of \<open>run/legacy.rs\<close>: the current receipt of a
  feature, the archive of its ended runs, and the board it may still have.  The state is what
  the execution directory of each feature holds; every file is a file of the versioned store.
  The disk may refuse any write or removal (\<open>rv_io\<close>); one that it accepts is atomic.
\<close>

section \<open>The execution directories\<close>

record run_disk =
  ru_current :: disk_file
  ru_archive :: "(string, disk_file) btree"
  ru_board :: disk_file
  ru_boards :: "(string, string) btree"

type_synonym run_disks = "feature_name \<Rightarrow> run_disk"

text \<open>The writes and removals, by the feature whose directory they touch.\<close>

datatype run_io =
    EnsureExecutionDir feature_name
  | WriteCurrent feature_name
  | RemoveCurrent feature_name
  | EnsureArchiveDir feature_name
  | WriteArchive feature_name run_id
  | EnsureBoardDir feature_name
  | WriteBoardArchive feature_name string
  | RemoveBoard feature_name

text \<open>
  \<open>rv_canonical\<close> and \<open>rv_parse\<close> are \<open>json::to_canonical_string\<close> and \<open>serde_json::from_str\<close>,
  \<open>rv_hash\<close> is \<open>hash::text\<close>, \<open>rv_uuid_ok\<close> the UUID parser.
\<close>

record run_env =
  rv_layout :: layout
  rv_codec :: "run_receipt codec"
  rv_uuid_ok :: "string \<Rightarrow> bool"
  rv_io :: "run_io \<Rightarrow> failure option"
  rv_hash :: "string \<Rightarrow> string"
  rv_canonical :: "json \<Rightarrow> failure + string"
  rv_parse :: "string \<Rightarrow> string + json"
  rv_board_dto :: "json \<Rightarrow> string + board_dto"

type_synonym 'a run_eff = "(run_disks, 'a) eff"

definition run_store_at :: "string \<Rightarrow> store" where
  "run_store_at path =
     \<lparr>vs_path = path, vs_migrations = run_store_migrations, vs_current = run_current_version, vs_policy = Local\<rparr>"

lemma run_store_at_new: "store_new path run_store_migrations run_current_version Local = Some (run_store_at path)"
  by (simp add: store_new_def run_store_at_def run_store_migrations_def run_current_version_def)

definition disk_s :: "run_env \<Rightarrow> run_io \<Rightarrow> unit run_eff" where
  "disk_s e a = lift_s (case rv_io e a of Some err \<Rightarrow> Inl err | None \<Rightarrow> Inr ())"

text \<open>A file of the store, as an effect on the file alone.\<close>

definition file_result :: "(store_error + 'a) \<times> disk_file \<Rightarrow> (failure + 'a) \<times> disk_file" where
  "file_result r = (case r of (Inl e, d) \<Rightarrow> (Inl (store_error_failure e), d) | (Inr x, d) \<Rightarrow> (Inr x, d))"

definition read_slot :: "run_env \<Rightarrow> string \<Rightarrow> (disk_file, run_receipt option) eff" where
  "read_slot e path d = file_result (store_read (rv_codec e) (run_store_at path) d)"

definition write_slot :: "run_env \<Rightarrow> string \<Rightarrow> run_receipt \<Rightarrow> (disk_file, unit) eff" where
  "write_slot e path r d = file_result (store_write (rv_codec e) (run_store_at path) r d)"

definition get_current :: "feature_name \<Rightarrow> run_disks \<Rightarrow> disk_file" where
  "get_current f s = ru_current (s f)"

definition put_current :: "feature_name \<Rightarrow> disk_file \<Rightarrow> run_disks \<Rightarrow> run_disks" where
  "put_current f d s = s(f := (s f)\<lparr>ru_current := d\<rparr>)"

definition archive_name :: "run_id \<Rightarrow> string" where
  "archive_name i = run_id_str i @ ''.json''"

definition get_archived :: "feature_name \<Rightarrow> run_id \<Rightarrow> run_disks \<Rightarrow> disk_file" where
  "get_archived f i s = (case bt_get (ru_archive (s f)) (archive_name i) of None \<Rightarrow> NoFile | Some d \<Rightarrow> d)"

text \<open>A file that is not there stays away.\<close>

definition put_archived :: "feature_name \<Rightarrow> run_id \<Rightarrow> disk_file \<Rightarrow> run_disks \<Rightarrow> run_disks" where
  "put_archived f i d s =
     (if d = NoFile then s else s(f := (s f)\<lparr>ru_archive := bt_insert (archive_name i) d (ru_archive (s f))\<rparr>))"

section \<open>Reading and writing receipts\<close>

definition receipt_read :: "run_env \<Rightarrow> feature_name \<Rightarrow> run_receipt option run_eff" where
  "receipt_read e f = zoom_s (get_current f) (put_current f) (read_slot e (run_receipt_file (rv_layout e) f))"

definition receipt_write :: "run_env \<Rightarrow> run_receipt \<Rightarrow> unit run_eff" where
  "receipt_write e r =
     bind_s (disk_s e (EnsureExecutionDir (rr_feature r))) (\<lambda>_.
     bind_s (disk_s e (WriteCurrent (rr_feature r))) (\<lambda>_.
       zoom_s (get_current (rr_feature r)) (put_current (rr_feature r))
         (write_slot e (run_receipt_file (rv_layout e) (rr_feature r)) r)))"

definition read_archived :: "run_env \<Rightarrow> feature_name \<Rightarrow> run_id \<Rightarrow> run_receipt option run_eff" where
  "read_archived e f i = zoom_s (get_archived f i) (put_archived f i) (read_slot e (archived_run (rv_layout e) f i))"

definition write_archived :: "run_env \<Rightarrow> feature_name \<Rightarrow> run_id \<Rightarrow> run_receipt \<Rightarrow> unit run_eff" where
  "write_archived e f i r =
     bind_s (disk_s e (WriteArchive f i)) (\<lambda>_.
       zoom_s (get_archived f i) (put_archived f i) (write_slot e (archived_run (rv_layout e) f i) r))"

definition receipt_find :: "run_env \<Rightarrow> feature_name \<Rightarrow> run_id \<Rightarrow> run_receipt option run_eff" where
  "receipt_find e f i =
     bind_s (receipt_read e f) (\<lambda>found. case found of
         Some r \<Rightarrow> if rr_id r = i then return_s (Some r) else read_archived e f i
       | None \<Rightarrow> read_archived e f i)"

section \<open>The archive\<close>

definition archive_live_run :: "run_receipt \<Rightarrow> failure" where
  "archive_live_run r =
     with_fix (fix_safe ''execute.finish_run''
         (''Finish the run with `ivar feature execute finish <feature> --report-json <path> '' @
          ''--outcome <outcome>`, or abandon it with `ivar feature execute start <feature> --plan <path> --restart`.''))
       (with_actual (run_status_display (rr_status r))
         (with_expected ''a run that has succeeded, failed, or been interrupted''
           (blocked ''execute.archive_live_run''
             (''run '' @ run_id_str (rr_id r) @ '' is '' @ run_status_display (rr_status r) @ '' and cannot be archived''))))"

definition archive_conflict :: "run_receipt \<Rightarrow> string \<Rightarrow> failure" where
  "archive_conflict r path =
     with_fix (fix_unsafe ''execute.inspect_archived_run''
         (''Inspect both with `ivar feature execute status '' @ feature_str (rr_feature r) @ '' --run '' @ run_id_str (rr_id r)
          @ ''` and move '' @ path @ '' aside by hand if the archived copy is wrong.''))
       (with_actual (''a different receipt already at '' @ path)
         (with_expected ''an archive entry identical to the receipt being archived''
           (blocked ''execute.archive_conflict''
             (''run '' @ run_id_str (rr_id r) @ '' is already archived with different content''))))"

definition archive_run :: "run_env \<Rightarrow> run_receipt \<Rightarrow> string run_eff" where
  "archive_run e r =
     (let f = rr_feature r; path = archived_run (rv_layout e) f (rr_id r) in
      if \<not> is_terminal (rr_status r) then fail_s (archive_live_run r)
      else bind_s (read_archived e f (rr_id r)) (\<lambda>existing. case existing of
          Some x \<Rightarrow> if x = r then return_s path else fail_s (archive_conflict r path)
        | None \<Rightarrow>
            bind_s (disk_s e (EnsureArchiveDir f)) (\<lambda>_.
            bind_s (write_archived e f (rr_id r) r) (\<lambda>_. return_s path))))"

definition remove_current :: "run_env \<Rightarrow> feature_name \<Rightarrow> unit run_eff" where
  "remove_current e f = bind_s (disk_s e (RemoveCurrent f)) (\<lambda>_. modify_s (put_current f NoFile))"

definition archive_current :: "run_env \<Rightarrow> feature_name \<Rightarrow> run_id option run_eff" where
  "archive_current e f =
     bind_s (receipt_read e f) (\<lambda>found. case found of
         None \<Rightarrow> return_s None
       | Some r \<Rightarrow>
           bind_s (archive_run e r) (\<lambda>_.
           bind_s (remove_current e f) (\<lambda>_. return_s (Some (rr_id r)))))"

text \<open>The archived runs in the order of the directory; names that are not run ids are passed over.\<close>

fun archived_from :: "run_env \<Rightarrow> feature_name \<Rightarrow> string list \<Rightarrow> run_receipt list run_eff" where
  "archived_from e f [] = return_s []"
| "archived_from e f (name # names) =
     (case Option.bind (strip_suffix ''.json'' name) (\<lambda>raw. case run_id_new (rv_uuid_ok e) raw of Inr i \<Rightarrow> Some i | Inl _ \<Rightarrow> None) of
        None \<Rightarrow> archived_from e f names
      | Some i \<Rightarrow>
          bind_s (read_archived e f i) (\<lambda>found.
          bind_s (archived_from e f names) (\<lambda>rest.
            return_s ((case found of None \<Rightarrow> [] | Some r \<Rightarrow> [r]) @ rest))))"

text \<open>By start time and then by id, the latest first; a stable sort.\<close>

definition sort_history :: "run_receipt list \<Rightarrow> run_receipt list" where
  "sort_history rs = rev (sort_key rr_started_at (sort_key rr_id (rev rs)))"

definition run_history :: "run_env \<Rightarrow> feature_name \<Rightarrow> run_receipt list run_eff" where
  "run_history e f =
     bind_s (receipt_read e f) (\<lambda>current.
     bind_s (\<lambda>s. archived_from e f (map fst (ru_archive (s f))) s) (\<lambda>archived.
       return_s (sort_history ((case current of None \<Rightarrow> [] | Some r \<Rightarrow> [r]) @ archived))))"

section \<open>Importing a board\<close>

definition board_path :: "layout \<Rightarrow> feature_name \<Rightarrow> string" where
  "board_path lay f = path_join (execution_dir lay f) ''board.json''"

record import_done =
  im_receipt :: run_receipt
  im_archived_board :: string
  im_resumed :: bool

definition imported_from :: "run_receipt \<Rightarrow> string \<Rightarrow> bool" where
  "imported_from r source_hash \<longleftrightarrow>
     rr_provenance r = LegacyImported \<and> (case rr_legacy r of None \<Rightarrow> False | Some l \<Rightarrow> le_source_hash l = source_hash)"

definition find_import :: "run_env \<Rightarrow> feature_name \<Rightarrow> string \<Rightarrow> run_receipt option run_eff" where
  "find_import e f h =
     bind_s (receipt_read e f) (\<lambda>current.
       case (case current of Some r \<Rightarrow> if imported_from r h then Some r else None | None \<Rightarrow> None) of
         Some r \<Rightarrow> return_s (Some r)
       | None \<Rightarrow> bind_s (run_history e f) (\<lambda>rs. return_s (find (\<lambda>r. imported_from r h) rs)))"

definition legacy_source_conflict :: "layout \<Rightarrow> feature_name \<Rightarrow> string \<Rightarrow> run_receipt \<Rightarrow> failure" where
  "legacy_source_conflict lay f h r =
     with_fix (fix_unsafe ''execute.remove_stale_board''
         (''The import that produced run '' @ run_id_str (rr_id r) @ '' is complete. Move '' @ board_path lay f
          @ '' aside by hand to confirm the newer board should be discarded.''))
       (with_actual (''a receipt imported from ''
           @ (case rr_legacy r of None \<Rightarrow> ''an unrecorded board'' | Some l \<Rightarrow> le_source_hash l))
         (with_expected (''a board hashing to '' @ h)
           (blocked ''execute.legacy_source_conflict''
             (run_receipt_file lay f @ '' was imported from a different board than the one on disk now''))))"

definition legacy_import_blocked :: "feature_name \<Rightarrow> run_receipt \<Rightarrow> failure" where
  "legacy_import_blocked f r =
     with_fix (fix_safe ''execute.finish_run''
         (''Finish or abandon run '' @ run_id_str (rr_id r) @ '' first: `ivar feature execute finish '' @ feature_str f
          @ '' --report-json <path> --outcome <outcome>` or `ivar feature execute start '' @ feature_str f
          @ '' --plan <path> --restart`.''))
       (with_actual (run_status_display (rr_status r))
         (with_expected ''no run in flight''
           (blocked ''execute.legacy_import_blocked''
             (''run '' @ run_id_str (rr_id r) @ '' is '' @ run_status_display (rr_status r) @ '' '' @ em_dash @
              '' a legacy board cannot be imported while a run is in flight''))))"

definition import_conflict :: "layout \<Rightarrow> feature_name \<Rightarrow> string \<Rightarrow> run_receipt option \<Rightarrow> failure + unit" where
  "import_conflict lay f h current =
     (case current of
        None \<Rightarrow> Inr ()
      | Some r \<Rightarrow>
          if imported_from r h then Inr ()
          else if rr_provenance r = LegacyImported then Inl (legacy_source_conflict lay f h r)
          else if holds_lock (rr_status r) then Inl (legacy_import_blocked f r)
          else Inr ())"

definition guard_conflict :: "run_env \<Rightarrow> feature_name \<Rightarrow> string \<Rightarrow> unit run_eff" where
  "guard_conflict e f h = bind_s (receipt_read e f) (\<lambda>current. lift_s (import_conflict (rv_layout e) f h current))"

definition board_archive_conflict :: "string \<Rightarrow> failure" where
  "board_archive_conflict path =
     with_fix (fix_unsafe ''execute.inspect_board_archive'' (''Move '' @ path @ '' aside by hand after checking what it holds.''))
       (with_actual ''different bytes under the same hash''
         (with_expected ''a content-addressed archive to match its own hash''
           (blocked ''execute.board_archive_conflict'' (path @ '' already holds different content''))))"

definition board_archive_unreadable :: "string \<Rightarrow> failure" where
  "board_archive_unreadable e =
     failed ''execute.board_archive_unreadable'' (''the normalized board did not round-trip through JSON: '' @ e)"

definition archive_board :: "run_env \<Rightarrow> feature_name \<Rightarrow> string \<Rightarrow> string \<Rightarrow> string run_eff" where
  "archive_board e f h canonical =
     (let path = archived_board (rv_layout e) f h in
      bind_s (gets_s (\<lambda>s. Inr (bt_get (ru_boards (s f)) h))) (\<lambda>existing. case existing of
          Some t \<Rightarrow> if trim_end t = trim_end canonical then return_s path else fail_s (board_archive_conflict path)
        | None \<Rightarrow>
            bind_s (disk_s e (EnsureBoardDir f)) (\<lambda>_.
            bind_s (lift_s (map_sum board_archive_unreadable id (rv_parse e canonical))) (\<lambda>v.
            bind_s (lift_s (rv_canonical e v)) (\<lambda>t.
            bind_s (disk_s e (WriteBoardArchive f h)) (\<lambda>_.
            bind_s (modify_s (\<lambda>s. s(f := (s f)\<lparr>ru_boards := bt_insert h t (ru_boards (s f))\<rparr>))) (\<lambda>_.
              return_s path)))))))"

text \<open>The receipt of the import: the one an earlier attempt made, or a new one.\<close>

definition import_receipt ::
    "run_env \<Rightarrow> feature_name \<Rightarrow> string \<Rightarrow> run_id \<Rightarrow> string \<Rightarrow> json \<Rightarrow> string \<Rightarrow> string \<Rightarrow> run_receipt option \<Rightarrow>
     failure + run_receipt" where
  "import_receipt e f plan i at normalized h archived existing =
     (case existing of
        Some r \<Rightarrow> Inr r
      | None \<Rightarrow>
          and_then (board_evidence (rv_board_dto e) normalized h archived) (\<lambda>ev.
            case legacy_outcome_of (le_board_status ev) of (st, out) \<Rightarrow>
              Inr (run_from_legacy i f plan st out ev at)))"

definition import_store :: "run_env \<Rightarrow> feature_name \<Rightarrow> run_receipt \<Rightarrow> unit run_eff" where
  "import_store e f r =
     bind_s (read_archived e f (rr_id r)) (\<lambda>found.
     bind_s (if found = None then receipt_write e r else return_s ()) (\<lambda>_.
     bind_s (archive_run e r) (\<lambda>_.
     bind_s (gets_s (\<lambda>s. Inr (get_current f s \<noteq> NoFile))) (\<lambda>there.
     bind_s (if there then remove_current e f else return_s ()) (\<lambda>_.
     bind_s (disk_s e (RemoveBoard f)) (\<lambda>_.
       modify_s (\<lambda>s. s(f := (s f)\<lparr>ru_board := NoFile\<rparr>))))))))"

definition run_import ::
    "run_env \<Rightarrow> feature_name \<Rightarrow> string \<Rightarrow> run_id \<Rightarrow> string \<Rightarrow> import_done option run_eff" where
  "run_import e f plan i at =
     bind_s (gets_s (\<lambda>s. map_sum store_error_failure id (json_read (ru_board (s f))))) (\<lambda>raw. case raw of
         None \<Rightarrow> return_s None
       | Some v \<Rightarrow>
           bind_s (lift_s (board_normalize (board_path (rv_layout e) f) v)) (\<lambda>normalized.
           bind_s (lift_s (rv_canonical e normalized)) (\<lambda>canonical.
             let h = rv_hash e canonical in
             bind_s (find_import e f h) (\<lambda>existing.
             bind_s (guard_conflict e f h) (\<lambda>_.
             bind_s (archive_board e f h canonical) (\<lambda>archived.
             bind_s (lift_s (import_receipt e f plan i at normalized h archived existing)) (\<lambda>r.
             bind_s (import_store e f r) (\<lambda>_.
               return_s (Some \<lparr>im_receipt = r, im_archived_board = archived, im_resumed = (existing \<noteq> None)\<rparr>)))))))))"

end
