(* ===== verification/Snapshot.thy ===== *)
theory Snapshot
  imports Run_Types
begin

text \<open>
  \<open>src/src/action/execute/snapshot.rs\<close>: the state of the worktrees when a run starts and the
  difference when it finishes.  What git and the files answer is the argument
  \<open>snapshot_reads\<close>, its errors already converted to failures; the names of the fields are the
  functions the code calls.
\<close>

record blob_evidence =
  be_mode :: nat
  be_sha256 :: string

record snapshot_reads =
  sr_head_commit :: "string \<Rightarrow> failure + string"
  sr_changed_paths :: "string \<Rightarrow> failure + string list"
  sr_committed_since :: "string \<Rightarrow> string \<Rightarrow> failure + string list"
  sr_path_at_commit :: "string \<Rightarrow> string \<Rightarrow> string \<Rightarrow> failure + blob_evidence option"
  sr_exists :: "string \<Rightarrow> failure + bool"
  sr_stat_mode :: "string \<Rightarrow> failure + nat option"
  sr_is_symlink :: "string \<Rightarrow> failure + bool"
  sr_read_link :: "string \<Rightarrow> failure + string"
  sr_hash_file :: "string \<Rightarrow> failure + string"
  sr_hash_bytes :: "string \<Rightarrow> string"
  sr_join :: "string \<Rightarrow> string \<Rightarrow> string"

text \<open>\<open>exists\<close> and \<open>stat\<close> follow links; the mode is masked with \<open>0o177_777\<close>, 16 bits.\<close>

definition path_evidence_of :: "snapshot_reads \<Rightarrow> string \<Rightarrow> failure + path_evidence" where
  "path_evidence_of g p =
     and_then (sr_exists g p) (\<lambda>there.
       if \<not> there then Inr evidence_absent
       else and_then (sr_stat_mode g p) (\<lambda>st. case st of
         None \<Rightarrow> Inr evidence_absent
       | Some mode \<Rightarrow>
           and_then (sr_is_symlink g p) (\<lambda>linked.
             if linked then and_then (sr_read_link g p) (\<lambda>target. Inr (evidence_symlink (sr_hash_bytes g target)))
             else and_then (sr_hash_file g p) (\<lambda>h. Inr (evidence_file (mode mod 65536) h)))))"

definition commit_evidence :: "snapshot_reads \<Rightarrow> repo_baseline \<Rightarrow> string \<Rightarrow> failure + path_evidence" where
  "commit_evidence g repo p =
     and_then (sr_path_at_commit g (rb_worktree repo) (rb_head repo) p) (\<lambda>b. Inr
       (case b of
          Some blob \<Rightarrow> if be_mode blob = 40960 then evidence_symlink (be_sha256 blob)
                       else evidence_file (be_mode blob) (be_sha256 blob)
        | None \<Rightarrow> evidence_absent))"

fun dirty_evidence :: "snapshot_reads \<Rightarrow> string \<Rightarrow> string list \<Rightarrow> failure + (string, path_evidence) btree" where
  "dirty_evidence g w ps =
     and_then (try_map (\<lambda>p. and_then (path_evidence_of g (sr_join g w p)) (\<lambda>e. Inr (p, e))) ps) (\<lambda>es. Inr (bt_of es))"

definition repo_baseline_of :: "snapshot_reads \<Rightarrow> string \<Rightarrow> failure + repo_baseline" where
  "repo_baseline_of g w =
     and_then (sr_head_commit g w) (\<lambda>head.
     and_then (sr_changed_paths g w) (\<lambda>ps.
     and_then (dirty_evidence g w ps) (\<lambda>dirty.
       Inr \<lparr>rb_worktree = w, rb_head = head, rb_dirty = dirty\<rparr>)))"

definition snapshot_baseline :: "snapshot_reads \<Rightarrow> (string, string) btree \<Rightarrow> failure + run_baseline" where
  "snapshot_baseline g worktrees =
     and_then (try_map (\<lambda>(name, w). and_then (repo_baseline_of g w) (\<lambda>b. Inr (name, b))) worktrees) (\<lambda>bs. Inr (bt_of bs))"

text \<open>
  What a path held at the start: what was recorded, or what the starting commit holds, or
  nothing when that cannot be read.
\<close>

definition initial_evidence :: "snapshot_reads \<Rightarrow> repo_baseline \<Rightarrow> string \<Rightarrow> path_evidence" where
  "initial_evidence g repo p =
     (case bt_get (rb_dirty repo) p of
        Some e \<Rightarrow> e
      | None \<Rightarrow> (case commit_evidence g repo p of Inr e \<Rightarrow> e | Inl _ \<Rightarrow> evidence_absent))"

definition path_change_of :: "snapshot_reads \<Rightarrow> repo_baseline \<Rightarrow> string \<Rightarrow> failure + path_change option" where
  "path_change_of g repo p =
     and_then (commit_evidence g repo p) (\<lambda>commit.
     and_then (path_evidence_of g (sr_join g (rb_worktree repo) p)) (\<lambda>final.
       Inr (map_option (\<lambda>k. \<lparr>pc_kind = k, pc_final = final\<rparr>)
              (classify_change (initial_evidence g repo p) commit final))))"

fun changes_loop :: "snapshot_reads \<Rightarrow> repo_baseline \<Rightarrow> string list \<Rightarrow> (string, path_change) btree \<Rightarrow>
    failure + (string, path_change) btree" where
  "changes_loop g repo [] acc = Inr acc"
| "changes_loop g repo (p # ps) acc =
     and_then (path_change_of g repo p) (\<lambda>c.
       changes_loop g repo ps (case c of None \<Rightarrow> acc | Some pc \<Rightarrow> bt_insert p pc acc))"

definition candidate_paths :: "snapshot_reads \<Rightarrow> repo_baseline \<Rightarrow> failure + string list" where
  "candidate_paths g repo =
     and_then (sr_changed_paths g (rb_worktree repo)) (\<lambda>changed.
     and_then (sr_committed_since g (rb_worktree repo) (rb_head repo)) (\<lambda>committed.
       Inr (sort (remdups (map fst (rb_dirty repo) @ changed @ committed)))))"

definition repo_diff_of :: "snapshot_reads \<Rightarrow> repo_baseline \<Rightarrow> failure + repo_diff" where
  "repo_diff_of g repo =
     and_then (candidate_paths g repo) (\<lambda>paths.
     and_then (changes_loop g repo paths []) (\<lambda>changes.
     and_then (sr_head_commit g (rb_worktree repo)) (\<lambda>head.
       Inr \<lparr>rd_head = head, rd_changes = changes\<rparr>)))"

definition snapshot_diff :: "snapshot_reads \<Rightarrow> run_baseline \<Rightarrow> failure + run_diff" where
  "snapshot_diff g base =
     and_then (try_map (\<lambda>(name, repo). and_then (repo_diff_of g repo) (\<lambda>d. Inr (name, d))) base) (\<lambda>ds. Inr (bt_of ds))"

section \<open>Lemmas\<close>

lemma changes_loop_get:
  assumes "changes_loop g repo ps acc = Inr cs" and "distinct ps" and "bt_sorted acc" and "\<forall>p \<in> set ps. bt_get acc p = None"
  shows "bt_sorted cs \<and> (\<forall>p. bt_get cs p =
     (if p \<in> set ps then (case path_change_of g repo p of Inr c \<Rightarrow> c | Inl _ \<Rightarrow> None) else bt_get acc p))
     \<and> (\<forall>p \<in> set ps. \<exists>c. path_change_of g repo p = Inr c)"
  using assms
proof (induction ps arbitrary: acc)
  case (Cons p ps)
  then obtain c where c: "path_change_of g repo p = Inr c"
    "changes_loop g repo ps (case c of None \<Rightarrow> acc | Some pc \<Rightarrow> bt_insert p pc acc) = Inr cs"
    by (auto simp: and_then_eq_Inr)
  let ?acc = "case c of None \<Rightarrow> acc | Some pc \<Rightarrow> bt_insert p pc acc"
  have acc: "bt_sorted ?acc" "\<And>q. bt_get ?acc q = (if q = p then (case c of None \<Rightarrow> bt_get acc p | Some pc \<Rightarrow> Some pc) else bt_get acc q)"
    using Cons.prems(3) by (auto simp: bt_sorted_insert bt_get_insert split: option.split)
  from Cons.IH [OF c(2) _ acc(1)] Cons.prems acc(2) have
    "bt_sorted cs \<and> (\<forall>q. bt_get cs q =
       (if q \<in> set ps then (case path_change_of g repo q of Inr c \<Rightarrow> c | Inl _ \<Rightarrow> None) else bt_get ?acc q))
     \<and> (\<forall>q \<in> set ps. \<exists>c. path_change_of g repo q = Inr c)"
    by auto
  with acc(2) c(1) Cons.prems show ?case by (auto split: option.split)
qed simp

lemma try_map_keyed:
  "try_map (\<lambda>(k, x). and_then (f x) (\<lambda>y. Inr (k, y))) xs = Inr ys \<Longrightarrow>
     map fst ys = map fst xs \<and> (\<forall>k. map_option Inr (map_of ys k) = map_option f (map_of xs k))"
proof (induction xs arbitrary: ys)
  case (Cons kx xs)
  obtain k x where kx: "kx = (k, x)" by (cases kx)
  with Cons.prems obtain y zs where yz: "f x = Inr y"
      "try_map (\<lambda>(k, x). and_then (f x) (\<lambda>y. Inr (k, y))) xs = Inr zs" "ys = (k, y) # zs"
    by (auto simp: and_then_eq_Inr)
  with Cons.IH [OF yz(2)] kx show ?case by auto
qed simp

lemma sorted_keys: "bt_sorted m \<Longrightarrow> distinct (map fst m)"
  using bt.entries_distinct by blast

text \<open>The difference of one repository, path by path.\<close>

lemma repo_diff_get:
  assumes "repo_diff_of g repo = Inr d"
  shows "\<exists>paths. candidate_paths g repo = Inr paths
     \<and> (\<forall>p. bt_get (rd_changes d) p =
          (if p \<in> set paths then (case path_change_of g repo p of Inr c \<Rightarrow> c | Inl _ \<Rightarrow> None) else None))"
proof -
  from assms obtain paths cs where p: "candidate_paths g repo = Inr paths" "changes_loop g repo paths [] = Inr cs" "rd_changes d = cs"
    by (auto simp: repo_diff_of_def and_then_eq_Inr)
  then have "distinct paths" by (auto simp: candidate_paths_def and_then_eq_Inr)
  with changes_loop_get [OF p(2)] p(1,3) show ?thesis by (auto simp: bt_sorted_def bt_get_def)
qed

lemma snapshot_diff_get:
  assumes "snapshot_diff g base = Inr d" and "bt_sorted base" and "bt_get base name = Some repo"
  obtains rd where "bt_get d name = Some rd" "repo_diff_of g repo = Inr rd"
proof -
  from assms(1) obtain ds where ds: "try_map (\<lambda>(name, repo). and_then (repo_diff_of g repo) (\<lambda>d. Inr (name, d))) base = Inr ds"
    "d = bt_of ds" by (auto simp: snapshot_diff_def and_then_eq_Inr)
  note keyed = try_map_keyed [OF ds(1)]
  then have "bt_get d name = map_of ds name" using ds(2) sorted_keys [OF assms(2)] by (simp add: bt_get_of_distinct)
  moreover have "map_option Inr (map_of ds name) = Some (repo_diff_of g repo)"
    using keyed assms(3) by (simp add: bt_get_def)
  ultimately show thesis using that by auto
qed

text \<open>What one path contributes, its start spelled out.\<close>

lemma path_change_entry:
  assumes "path_change_of g repo p = Inr c"
  shows "\<exists>commit final. commit_evidence g repo p = Inr commit
    \<and> path_evidence_of g (sr_join g (rb_worktree repo) p) = Inr final
    \<and> c = (let start = (case bt_get (rb_dirty repo) p of Some e \<Rightarrow> e | None \<Rightarrow> commit)
        in if final = start then None else Some \<lparr>pc_kind =
             (if final = commit then Reverted
              else if \<not> evidence_exists start \<and> evidence_exists final then Added
              else if evidence_exists start \<and> \<not> evidence_exists final then Removed else Modified),
           pc_final = final\<rparr>)"
proof -
  from assms obtain commit final where cf: "commit_evidence g repo p = Inr commit"
      "path_evidence_of g (sr_join g (rb_worktree repo) p) = Inr final"
      "c = map_option (\<lambda>k. \<lparr>pc_kind = k, pc_final = final\<rparr>) (classify_change (initial_evidence g repo p) commit final)"
    by (auto simp: path_change_of_def and_then_eq_Inr)
  have "initial_evidence g repo p = (case bt_get (rb_dirty repo) p of Some e \<Rightarrow> e | None \<Rightarrow> commit)"
    using cf(1) by (cases "bt_get (rb_dirty repo) p") (simp_all add: initial_evidence_def)
  with cf show ?thesis by (auto simp: classify_change_def Let_def)
qed

section \<open>Properties\<close>

text \<open>
  C36: the difference of a run lists, for each repository of the baseline, exactly the paths
  that were dirty at the start, that git calls changed now or that were committed since the
  commit of the start, and whose state now is not the state at the start: what was recorded
  of a dirty path, what the starting commit holds of any other.  The entry carries the state
  now, and is reverted when that is the state of the starting commit, and otherwise added,
  removed or modified by whether the path existed at either end.
\<close>

theorem snapshot_diff_exact:
  assumes "snapshot_diff g base = Inr d" and "bt_sorted base" and "bt_get base name = Some repo"
  shows "\<exists>rd changed committed. bt_get d name = Some rd
    \<and> sr_changed_paths g (rb_worktree repo) = Inr changed
    \<and> sr_committed_since g (rb_worktree repo) (rb_head repo) = Inr committed
    \<and> sr_head_commit g (rb_worktree repo) = Inr (rd_head rd)
    \<and> (\<forall>p. if bt_get (rb_dirty repo) p \<noteq> None \<or> p \<in> set changed \<or> p \<in> set committed
           then \<exists>commit final. commit_evidence g repo p = Inr commit
             \<and> path_evidence_of g (sr_join g (rb_worktree repo) p) = Inr final
             \<and> (let start = (case bt_get (rb_dirty repo) p of Some e \<Rightarrow> e | None \<Rightarrow> commit)
                in bt_get (rd_changes rd) p = (if final = start then None else Some \<lparr>pc_kind =
                     (if final = commit then Reverted
                      else if \<not> evidence_exists start \<and> evidence_exists final then Added
                      else if evidence_exists start \<and> \<not> evidence_exists final then Removed else Modified),
                   pc_final = final\<rparr>))
           else bt_get (rd_changes rd) p = None)"
proof -
  obtain rd where rd: "bt_get d name = Some rd" "repo_diff_of g repo = Inr rd"
    by (rule snapshot_diff_get [OF assms])
  from rd(2) obtain paths cs where p: "candidate_paths g repo = Inr paths" "changes_loop g repo paths [] = Inr cs" "rd_changes rd = cs"
      "sr_head_commit g (rb_worktree repo) = Inr (rd_head rd)"
    by (auto simp: repo_diff_of_def and_then_eq_Inr)
  from p(1) obtain changed committed where git: "sr_changed_paths g (rb_worktree repo) = Inr changed"
      "sr_committed_since g (rb_worktree repo) (rb_head repo) = Inr committed"
    and paths: "paths = sort (remdups (map fst (rb_dirty repo) @ changed @ committed))"
    by (auto simp: candidate_paths_def and_then_eq_Inr)
  have looked: "q \<in> set paths \<longleftrightarrow> bt_get (rb_dirty repo) q \<noteq> None \<or> q \<in> set changed \<or> q \<in> set committed" for q
    by (auto simp: paths bt_get_def map_of_eq_None_iff)
  have "distinct paths" by (simp add: paths)
  from changes_loop_get [OF p(2) this] p(3)
  have get: "bt_get (rd_changes rd) q = (if q \<in> set paths then (case path_change_of g repo q of Inr c \<Rightarrow> c | Inl _ \<Rightarrow> None) else None)"
    and ok: "q \<in> set paths \<Longrightarrow> \<exists>c. path_change_of g repo q = Inr c" for q
    by (auto simp: bt_sorted_def bt_get_def)
  have listed: "if q \<in> set paths
           then \<exists>commit final. commit_evidence g repo q = Inr commit
             \<and> path_evidence_of g (sr_join g (rb_worktree repo) q) = Inr final
             \<and> (let start = (case bt_get (rb_dirty repo) q of Some e \<Rightarrow> e | None \<Rightarrow> commit)
                in bt_get (rd_changes rd) q = (if final = start then None else Some \<lparr>pc_kind =
                     (if final = commit then Reverted
                      else if \<not> evidence_exists start \<and> evidence_exists final then Added
                      else if evidence_exists start \<and> \<not> evidence_exists final then Removed else Modified),
                   pc_final = final\<rparr>))
           else bt_get (rd_changes rd) q = None" for q
  proof (cases "q \<in> set paths")
    case True
    from ok [OF this] obtain c where c: "path_change_of g repo q = Inr c" by blast
    with get True have "bt_get (rd_changes rd) q = c" by simp
    with path_change_entry [OF c] True show ?thesis unfolding Let_def by (subst if_P) blast+
  qed (simp add: get)
  from rd(1) git p(4) listed show ?thesis unfolding looked by blast
qed

text \<open>
  Work that was dirty at the start and is back at the starting commit is reported as
  modified, not as reverted, whenever the mode of the file is not literally the one git
  records, such as \<open>0o100664\<close> under a group-writable umask.
\<close>

theorem umask_hides_revert:
  assumes "snapshot_diff g base = Inr d" and "bt_sorted base" and "bt_get base name = Some repo"
    and "bt_get (rb_dirty repo) p = Some start" and "evidence_exists start"
    and "sr_path_at_commit g (rb_worktree repo) (rb_head repo) p = Inr (Some \<lparr>be_mode = 33188, be_sha256 = h\<rparr>)"
    and "sr_exists g (sr_join g (rb_worktree repo) p) = Inr True"
    and "sr_stat_mode g (sr_join g (rb_worktree repo) p) = Inr (Some m)" and "m mod 65536 \<noteq> 33188"
    and "sr_is_symlink g (sr_join g (rb_worktree repo) p) = Inr False"
    and "sr_hash_file g (sr_join g (rb_worktree repo) p) = Inr h"
    and "start \<noteq> evidence_file (m mod 65536) h"
  shows "\<exists>rd. bt_get d name = Some rd
    \<and> bt_get (rd_changes rd) p = Some \<lparr>pc_kind = Modified, pc_final = evidence_file (m mod 65536) h\<rparr>"
proof -
  obtain rd where rd: "bt_get d name = Some rd" "repo_diff_of g repo = Inr rd"
    by (rule snapshot_diff_get [OF assms(1-3)])
  from repo_diff_get [OF rd(2)] obtain paths where paths: "candidate_paths g repo = Inr paths"
    "bt_get (rd_changes rd) p = (if p \<in> set paths then (case path_change_of g repo p of Inr c \<Rightarrow> c | Inl _ \<Rightarrow> None) else None)"
    by blast
  have "p \<in> fst ` set (rb_dirty repo)" using assms(4) by (force simp: bt_get_def dest: map_of_SomeD)
  then have "p \<in> set (map fst (rb_dirty repo))" by simp
  with paths(1) have "p \<in> set paths" by (force simp: candidate_paths_def and_then_eq_Inr simp del: set_map)
  moreover have "commit_evidence g repo p = Inr (evidence_file 33188 h)" by (simp add: commit_evidence_def assms(6))
  moreover have "path_evidence_of g (sr_join g (rb_worktree repo) p) = Inr (evidence_file (m mod 65536) h)"
    by (simp add: path_evidence_of_def assms)
  moreover have "initial_evidence g repo p = start" by (simp add: initial_evidence_def assms(4))
  ultimately have "bt_get (rd_changes rd) p = Some \<lparr>pc_kind = Modified, pc_final = evidence_file (m mod 65536) h\<rparr>"
    using assms(5,9,12) paths(2)
    by (simp add: path_change_of_def classify_change_def evidence_exists_def evidence_file_def split: if_splits)
  with rd(1) show ?thesis by blast
qed

section \<open>Witnesses\<close>

text \<open>A worktree with one file, dirty at the start, whose content is the one of the commit now.\<close>

definition snapshot_sample :: "nat \<Rightarrow> snapshot_reads" where
  "snapshot_sample m =
     \<lparr>sr_head_commit = (\<lambda>_. Inr ''c1''), sr_changed_paths = (\<lambda>_. Inr []), sr_committed_since = (\<lambda>_ _. Inr []),
      sr_path_at_commit = (\<lambda>_ _ p. Inr (if p = ''a.txt'' then Some \<lparr>be_mode = 33188, be_sha256 = ''old''\<rparr> else None)),
      sr_exists = (\<lambda>_. Inr True), sr_stat_mode = (\<lambda>_. Inr (Some m)), sr_is_symlink = (\<lambda>_. Inr False),
      sr_read_link = (\<lambda>_. Inr ''''), sr_hash_file = (\<lambda>_. Inr ''old''), sr_hash_bytes = (\<lambda>b. b),
      sr_join = (\<lambda>a b. a @ ''/'' @ b)\<rparr>"

definition dirty_baseline :: run_baseline where
  "dirty_baseline = [(''shop'', \<lparr>rb_worktree = ''/w'', rb_head = ''c1'', rb_dirty = [(''a.txt'', evidence_file 33204 ''new'')]\<rparr>)]"

theorem snapshot_diff_exact_witness:
  "\<exists>d rd. snapshot_diff (snapshot_sample 33188) dirty_baseline = Inr d \<and> bt_get d ''shop'' = Some rd
     \<and> map_option pc_kind (bt_get (rd_changes rd) ''a.txt'') = Some Reverted"
proof -
  have sorted: "bt_sorted dirty_baseline" by (simp add: bt_sorted_def dirty_baseline_def)
  have "(case snapshot_diff (snapshot_sample 33188) dirty_baseline of Inl _ \<Rightarrow> False | Inr d \<Rightarrow>
      Option.bind (bt_get d ''shop'') (\<lambda>rd. map_option pc_kind (bt_get (rd_changes rd) ''a.txt'')) = Some Reverted)" by code_simp
  then obtain d where d: "snapshot_diff (snapshot_sample 33188) dirty_baseline = Inr d"
    "Option.bind (bt_get d ''shop'') (\<lambda>rd. map_option pc_kind (bt_get (rd_changes rd) ''a.txt'')) = Some Reverted"
    by (auto split: sum.splits)
  have "bt_get dirty_baseline ''shop'' = Some (snd (hd dirty_baseline))" by (simp add: dirty_baseline_def bt_get_def)
  from snapshot_diff_exact [OF d(1) sorted this] d show ?thesis by (auto simp: bind_eq_Some_conv)
qed

theorem umask_hides_revert_witness:
  "\<exists>d rd. snapshot_diff (snapshot_sample 33204) dirty_baseline = Inr d \<and> bt_get d ''shop'' = Some rd
     \<and> bt_get (rd_changes rd) ''a.txt'' = Some \<lparr>pc_kind = Modified, pc_final = evidence_file 33204 ''old''\<rparr>"
proof -
  have sorted: "bt_sorted dirty_baseline" by (simp add: bt_sorted_def dirty_baseline_def)
  have get: "bt_get dirty_baseline ''shop'' = Some (snd (hd dirty_baseline))" by (simp add: dirty_baseline_def bt_get_def)
  have "is_ok (snapshot_diff (snapshot_sample 33204) dirty_baseline)" by code_simp
  then obtain d where d: "snapshot_diff (snapshot_sample 33204) dirty_baseline = Inr d" by (auto simp: is_ok_iff)
  from umask_hides_revert [OF d sorted get, of "''a.txt''" "evidence_file 33204 ''new''" "''old''" 33204] d
  show ?thesis by (simp add: snapshot_sample_def dirty_baseline_def bt_get_def evidence_exists_def evidence_file_def)
qed

end
