(* ===== verification/Plan_Text.thy ===== *)
theory Plan_Text
  imports Errors
begin

text \<open>
  What the execution verbs read out of the text of a plan:
  \<open>src/src/action/execute/plan_fingerprint.rs\<close> (\<open>normalize_checkboxes\<close>, which takes the marks
  of progress out before the text is hashed) and \<open>plan_waves\<close> of
  \<open>src/src/action/execute/checkpoint.rs\<close>.
\<close>

section \<open>Marks of progress\<close>

text \<open>The wave-complete marker, a space and U+2705.\<close>

definition wave_mark :: string where
  "wave_mark = [CHR '' '', CHR 0xE2, CHR 0x9C, CHR 0x85]"

text \<open>The text after the first of some prefixes a line has.\<close>

fun strip_first :: "string list \<Rightarrow> string \<Rightarrow> string option" where
  "strip_first [] s = None"
| "strip_first (p # ps) s = (case strip_prefix p s of Some rest \<Rightarrow> Some rest | None \<Rightarrow> strip_first ps s)"

definition normalize_line :: "string \<Rightarrow> string" where
  "normalize_line line =
     (let trimmed = trim_start line; indent = take (length line - length trimmed) line in
      if prefix ''#'' trimmed
      then indent @ (case strip_suffix wave_mark trimmed of None \<Rightarrow> trimmed | Some t \<Rightarrow> t)
      else (case strip_first [''- [x] '', ''- [X] '', ''- [ ] ''] trimmed of
        Some rest \<Rightarrow> indent @ ''- [ ] '' @ rest
      | None \<Rightarrow>
          (case strip_first [''* [x] '', ''* [X] '', ''* [ ] ''] trimmed of
             Some rest \<Rightarrow> indent @ ''* [ ] '' @ rest
           | None \<Rightarrow>
               if contains_str ''| [x] |'' line \<or> contains_str ''| [X] |'' line
               then str_replace ''| [X] |'' ''| [ ] |'' (str_replace ''| [x] |'' ''| [ ] |'' line)
               else line)))"

fun normalize_lines :: "bool \<Rightarrow> string list \<Rightarrow> string" where
  "normalize_lines ends [] = []"
| "normalize_lines ends (l # ls) =
     normalize_line l @ (if ls \<noteq> [] \<or> ends then [newline] else []) @ normalize_lines ends ls"

definition normalize_checkboxes :: "string \<Rightarrow> string" where
  "normalize_checkboxes s =
     (if s = [] then [] else normalize_lines (last s = newline) (text_lines s))"

section \<open>The waves of a plan\<close>

text \<open>What follows one white space character, and the number of a wave heading.\<close>

definition strip_space :: "string \<Rightarrow> string option" where
  "strip_space s = (case str_chars s of [] \<Rightarrow> None | c # cs \<Rightarrow> if is_whitespace c then Some (concat cs) else None)"

definition wave_heading :: "string \<Rightarrow> string option" where
  "wave_heading trimmed =
     Option.bind (strip_prefix ''#'' trimmed) (\<lambda>heading.
     Option.bind (strip_space (dropWhile (\<lambda>c. c = CHR ''#'') heading)) (\<lambda>rest.
     Option.bind (strip_prefix ''Wave'' (trim_start rest)) strip_space))"

definition wave_number :: "string \<Rightarrow> nat option" where
  "wave_number rest = parse_uint u32_max (takeWhile is_digit (trim_start rest))"

definition is_fence :: "string \<Rightarrow> bool" where
  "is_fence trimmed \<longleftrightarrow> prefix ''```'' trimmed \<or> prefix ''~~~'' trimmed"

fun waves_loop :: "bool \<Rightarrow> nat list \<Rightarrow> string list \<Rightarrow> nat list" where
  "waves_loop in_fence waves [] = waves"
| "waves_loop in_fence waves (line # ls) =
     (let trimmed = trim_start line in
      if is_fence trimmed then waves_loop (\<not> in_fence) waves ls
      else if in_fence then waves_loop in_fence waves ls
      else (case Option.bind (wave_heading trimmed) wave_number of
              Some n \<Rightarrow> waves_loop in_fence (if n \<in> set waves then waves else waves @ [n]) ls
            | None \<Rightarrow> waves_loop in_fence waves ls))"

definition plan_waves :: "string \<Rightarrow> nat list" where
  "plan_waves plan = waves_loop False [] (text_lines plan)"

definition wave_not_in_plan :: "string \<Rightarrow> nat list \<Rightarrow> nat \<Rightarrow> failure" where
  "wave_not_in_plan plan waves wave =
     blocked ''execute.wave_not_in_plan''
       (''plan '' @ quoted plan @ '' has no Wave '' @ show_nat wave @ ''; its waves are: ''
        @ join '', '' (map (\<lambda>w. ''Wave '' @ show_nat w) waves))"

text \<open>The text is \<open>None\<close> for a plan that does not exist.\<close>

definition ensure_wave_in_plan :: "string \<Rightarrow> failure + string option \<Rightarrow> nat \<Rightarrow> failure + unit" where
  "ensure_wave_in_plan plan read wave =
     and_then read (\<lambda>found. case found of
         None \<Rightarrow> Inr ()
       | Some t \<Rightarrow> let waves = plan_waves t in
           if waves = [] \<or> wave \<in> set waves then Inr () else Inl (wave_not_in_plan plan waves wave))"

section \<open>The fingerprint\<close>

definition plan_missing :: "string \<Rightarrow> failure" where
  "plan_missing path = blocked ''execute.plan_missing'' (''plan file '' @ quoted path @ '' does not exist'')"

text \<open>\<open>hash\<close> is \<open>hash::text\<close>, SHA-256.\<close>

definition normalized_plan_fingerprint :: "(string \<Rightarrow> string) \<Rightarrow> string \<Rightarrow> failure + string option \<Rightarrow> failure + string" where
  "normalized_plan_fingerprint hash path read =
     and_then read (\<lambda>found. case found of
         None \<Rightarrow> Inl (plan_missing path)
       | Some t \<Rightarrow> Inr (hash (normalize_checkboxes t)))"

section \<open>Lemmas\<close>

text \<open>Blanks before an ASCII character that is none.\<close>

definition blank :: "char \<Rightarrow> bool" where
  "blank c \<longleftrightarrow> c = CHR '' '' \<or> c = CHR 0x09"

lemma blank_facts: "blank c \<Longrightarrow> is_whitespace [c] \<and> \<not> is_cont c"
  by (auto simp: blank_def is_whitespace_def is_cont_def)

lemma trim_start_visible:
  assumes "list_all blank ind" and "is_ascii c" and "\<not> is_whitespace [c]" and "\<not> (\<exists>d ds. s = d # ds \<and> is_cont d)"
  shows "trim_start (ind @ c # s) = c # s"
proof -
  have c: "takeWhile is_cont s = []" "dropWhile is_cont s = s" using assms(4) by (cases s; auto)+
  have "str_chars (ind @ c # s) = map (\<lambda>b. [b]) ind @ [c] # str_chars s"
    using assms(1)
  proof (induction ind)
    case (Cons b ind)
    have "\<not> is_cont (hd (ind @ c # s))"
      using Cons.prems assms(2) blank_facts is_ascii_not_cont by (cases ind) auto
    then have "takeWhile is_cont (ind @ c # s) = []" "dropWhile is_cont (ind @ c # s) = ind @ c # s"
      by (cases ind; auto)+
    with Cons show ?case by simp
  qed (simp add: c)
  moreover have "dropWhile is_whitespace (map (\<lambda>b. [b]) ind @ [c] # str_chars s) = [c] # str_chars s"
    using assms(1,3) blank_facts by (induction ind) auto
  ultimately show ?thesis by (simp add: trim_start_def)
qed

text \<open>One line is another one with more or less progress marked on it.\<close>

inductive progressed :: "string \<Rightarrow> string \<Rightarrow> bool" where
  same: "progressed l l"
| task: "list_all blank ind \<Longrightarrow> bullet \<in> {CHR ''-'', CHR ''*''} \<Longrightarrow> box \<in> {CHR ''x'', CHR ''X'', CHR '' ''}
    \<Longrightarrow> box' \<in> {CHR ''x'', CHR ''X'', CHR '' ''}
    \<Longrightarrow> progressed (ind @ bullet # '' ['' @ box # ''] '' @ rest) (ind @ bullet # '' ['' @ box' # ''] '' @ rest)"
| wave_done: "list_all blank ind \<Longrightarrow> \<not> suffix wave_mark (CHR ''#'' # h) \<Longrightarrow> \<not> (\<exists>d ds. h @ wave_mark = d # ds \<and> is_cont d)
    \<Longrightarrow> progressed (ind @ CHR ''#'' # h) (ind @ CHR ''#'' # h @ wave_mark)"
| wave_undone: "list_all blank ind \<Longrightarrow> \<not> suffix wave_mark (CHR ''#'' # h) \<Longrightarrow> \<not> (\<exists>d ds. h @ wave_mark = d # ds \<and> is_cont d)
    \<Longrightarrow> progressed (ind @ CHR ''#'' # h @ wave_mark) (ind @ CHR ''#'' # h)"

lemma normalize_task:
  assumes "list_all blank ind" and "bullet \<in> {CHR ''-'', CHR ''*''}" and "box \<in> {CHR ''x'', CHR ''X'', CHR '' ''}"
  shows "normalize_line (ind @ bullet # '' ['' @ box # ''] '' @ rest) = ind @ bullet # '' [ ] '' @ rest"
proof -
  let ?body = "'' ['' @ box # ''] '' @ rest"
  have t: "trim_start (ind @ bullet # ?body) = bullet # ?body"
    by (rule trim_start_visible) (use assms in \<open>auto simp: is_ascii_def is_whitespace_def is_cont_def\<close>)
  from assms(2,3) show ?thesis unfolding normalize_line_def Let_def t
    by (auto simp: strip_prefix_def)
qed

lemma normalize_heading:
  assumes "list_all blank ind" and "\<not> suffix wave_mark (CHR ''#'' # h)" and "\<not> (\<exists>d ds. h @ wave_mark = d # ds \<and> is_cont d)"
  shows "normalize_line (ind @ CHR ''#'' # h) = ind @ CHR ''#'' # h"
    "normalize_line (ind @ CHR ''#'' # h @ wave_mark) = ind @ CHR ''#'' # h"
proof -
  have h: "\<not> (\<exists>d ds. h = d # ds \<and> is_cont d)" using assms(3) by (auto simp: wave_mark_def)
  have t: "trim_start (ind @ CHR ''#'' # h) = CHR ''#'' # h"
    by (rule trim_start_visible) (use assms h in \<open>auto simp: is_ascii_def is_whitespace_def\<close>)
  then show "normalize_line (ind @ CHR ''#'' # h) = ind @ CHR ''#'' # h"
    using assms(2) by (simp add: normalize_line_def strip_suffix_def)
  have "trim_start (ind @ CHR ''#'' # h @ wave_mark) = CHR ''#'' # h @ wave_mark"
    by (rule trim_start_visible) (use assms in \<open>auto simp: is_ascii_def is_whitespace_def\<close>)
  then show "normalize_line (ind @ CHR ''#'' # h @ wave_mark) = ind @ CHR ''#'' # h"
    by (simp add: normalize_line_def strip_suffix_def suffix_def)
qed

lemma progressed_normalize: "progressed l l' \<Longrightarrow> normalize_line l = normalize_line l'"
  by (induction rule: progressed.induct) (simp, metis normalize_task, metis normalize_heading, metis normalize_heading)

lemma normalize_lines_concat: "normalize_lines True ls = concat (map (\<lambda>l. normalize_line l @ [newline]) ls)"
  by (induction ls) auto

text \<open>Lines as they are in a file, each with its line feed.\<close>

definition file_text :: "string list \<Rightarrow> string" where
  "file_text ls = concat (map (\<lambda>l. l @ [newline]) ls)"

definition plain_lines :: "string list \<Rightarrow> bool" where
  "plain_lines ls \<longleftrightarrow> list_all (\<lambda>l. newline \<notin> set l \<and> strip_cr l = l) ls"

lemma normalize_file_text:
  "plain_lines ls \<Longrightarrow> normalize_checkboxes (file_text ls) = concat (map (\<lambda>l. normalize_line l @ [newline]) ls)"
proof (cases "ls = []")
  case False
  then have "file_text ls \<noteq> []" "last (file_text ls) = newline"
    by (induction ls rule: rev_induct) (simp_all add: file_text_def)
  moreover assume "plain_lines ls"
  then have "text_lines (file_text ls) = ls"
    using text_lines_concat [of ls] by (simp add: plain_lines_def file_text_def list_all_iff)
  ultimately show ?thesis by (simp add: normalize_checkboxes_def normalize_lines_concat)
qed (simp add: normalize_checkboxes_def file_text_def)

text \<open>The fences before a line, and the numbers of the wave headings outside them.\<close>

definition outside_fences :: "string list \<Rightarrow> nat \<Rightarrow> bool" where
  "outside_fences ls i \<longleftrightarrow> \<not> is_fence (trim_start (ls ! i)) \<and> even (length (filter (\<lambda>l. is_fence (trim_start l)) (take i ls)))"

definition declared_waves :: "string list \<Rightarrow> nat list" where
  "declared_waves ls =
     List.map_filter (\<lambda>i. if outside_fences ls i then Option.bind (wave_heading (trim_start (ls ! i))) wave_number else None)
       [0..<length ls]"

definition first_of_each :: "'a list \<Rightarrow> 'a list" where
  "first_of_each xs = rev (remdups (rev xs))"

lemma first_of_each_snoc: "first_of_each (xs @ [x]) = (if x \<in> set xs then first_of_each xs else first_of_each xs @ [x])"
  by (simp add: first_of_each_def)

lemma map_filter_cong: "(\<And>x. x \<in> set xs \<Longrightarrow> f x = g x) \<Longrightarrow> List.map_filter f xs = List.map_filter g xs"
  by (induction xs) (simp_all add: map_filter_simps split: option.split)

lemma map_filter_snoc: "List.map_filter f (xs @ [x]) = List.map_filter f xs @ (case f x of None \<Rightarrow> [] | Some y \<Rightarrow> [y])"
  by (simp add: map_filter_def split: option.splits)

lemma declared_waves_snoc:
  "declared_waves (ls @ [l]) = declared_waves ls @
     (case (if is_fence (trim_start l) \<or> odd (length (filter (\<lambda>l. is_fence (trim_start l)) ls)) then None
            else Option.bind (wave_heading (trim_start l)) wave_number) of None \<Rightarrow> [] | Some n \<Rightarrow> [n])"
proof -
  have "outside_fences (ls @ [l]) i = outside_fences ls i \<and> (ls @ [l]) ! i = ls ! i" if "i < length ls" for i
    using that by (simp add: outside_fences_def nth_append)
  then have "List.map_filter (\<lambda>i. if outside_fences (ls @ [l]) i
        then Option.bind (wave_heading (trim_start ((ls @ [l]) ! i))) wave_number else None) [0..<length ls] = declared_waves ls"
    unfolding declared_waves_def by (intro map_filter_cong) simp
  moreover have "outside_fences (ls @ [l]) (length ls) \<longleftrightarrow>
      \<not> (is_fence (trim_start l) \<or> odd (length (filter (\<lambda>l. is_fence (trim_start l)) ls)))"
    by (simp add: outside_fences_def)
  ultimately show ?thesis unfolding declared_waves_def length_append_singleton upt_Suc_append [OF le0] map_filter_snoc
    by simp
qed

lemma waves_loop_append: "waves_loop b ws (ls @ [l]) =
    (let ws' = waves_loop b ws ls; b' = (b \<noteq> odd (length (filter (\<lambda>l. is_fence (trim_start l)) ls))) in
     if is_fence (trim_start l) \<or> b' then ws'
     else (case Option.bind (wave_heading (trim_start l)) wave_number of
             None \<Rightarrow> ws' | Some n \<Rightarrow> if n \<in> set ws' then ws' else ws' @ [n]))"
proof (induction ls arbitrary: b ws)
  case (Cons a ls)
  show ?case
  proof (cases "is_fence (trim_start a)")
    case True
    with Cons.IH [of "\<not> b" ws] show ?thesis by (cases b) (simp_all add: Let_def)
  next
    case False
    with Cons.IH show ?thesis by (cases b) (simp_all add: Let_def split: option.split)
  qed
qed (simp add: Let_def split: option.split)

lemma set_first_of_each [simp]: "set (first_of_each xs) = set xs"
  by (simp add: first_of_each_def)

lemma waves_are_declared: "waves_loop False [] ls = first_of_each (declared_waves ls)"
proof (induction ls rule: rev_induct)
  case Nil
  show ?case by (simp add: declared_waves_def first_of_each_def map_filter_simps)
next
  case (snoc l ls)
  have "set (waves_loop False [] ls) = set (declared_waves ls)" by (simp add: snoc.IH)
  with snoc.IH show ?case
    by (simp add: waves_loop_append declared_waves_snoc first_of_each_snoc Let_def split: option.split)
qed

lemma wave_number_bound: "wave_number s = Some n \<Longrightarrow> n \<le> u32_max"
  by (auto simp: wave_number_def parse_uint_def Let_def split: if_splits)

section \<open>Properties\<close>

text \<open>
  C34: marking progress in the list items and headings of a plan does not move its fingerprint:
  the same lines with other boxes ticked in their list items, and with or without the mark
  behind their headings, have the same normal form.  The boxes of table cells are not covered,
  and for two neighbouring ones it is false (\<open>neighbour_box_moves_plan\<close>).
\<close>

theorem progress_keeps_plan:
  assumes "list_all2 progressed ls ls'" and "plain_lines ls" and "plain_lines ls'"
  shows "normalize_checkboxes (file_text ls) = normalize_checkboxes (file_text ls')"
proof -
  from assms(1) have "map (\<lambda>l. normalize_line l @ [newline]) ls = map (\<lambda>l. normalize_line l @ [newline]) ls'"
    by (induction rule: list_all2_induct) (simp_all add: progressed_normalize)
  with assms(2,3) show ?thesis by (simp add: normalize_file_text)
qed

text \<open>
  In a row of a table the second of two neighbouring boxes is not normalised, because the
  bar between them is used up by the first: ticking it moves the fingerprint of any plan with
  such a row.
\<close>

theorem neighbour_box_moves_plan:
  assumes "plain_lines ls" and "plain_lines ls'"
  shows "normalize_checkboxes (file_text (ls @ [''| [x] | [x] |''] @ ls'))
       \<noteq> normalize_checkboxes (file_text (ls @ [''| [x] | [ ] |''] @ ls'))"
proof -
  have rows: "plain_lines (ls @ [''| [x] | [x] |''] @ ls')" "plain_lines (ls @ [''| [x] | [ ] |''] @ ls')"
    using assms by (simp_all add: plain_lines_def strip_cr_def)
  have "normalize_line ''| [x] | [x] |'' \<noteq> normalize_line ''| [x] | [ ] |''" by code_simp
  with rows show ?thesis by (simp add: normalize_file_text)
qed

text \<open>
  C35: the waves of a plan are the numbers of its wave headings outside fences, the first
  occurrence of each, in order, and every one fits in 32 bits.
\<close>

theorem plan_waves_bounded:
  "plan_waves p = first_of_each (declared_waves (text_lines p)) \<and> distinct (plan_waves p)
    \<and> list_all (\<lambda>n. n \<le> u32_max) (plan_waves p)"
proof -
  have "plan_waves p = first_of_each (declared_waves (text_lines p))" by (simp add: plan_waves_def waves_are_declared)
  moreover have "distinct (first_of_each xs)" for xs :: "nat list" by (simp add: first_of_each_def)
  moreover have "n \<le> u32_max" if "n \<in> set (declared_waves ls)" for n ls
    using that by (auto simp: declared_waves_def map_filter_def bind_eq_Some_conv dest: wave_number_bound split: if_splits)
  ultimately show ?thesis by (simp add: list_all_iff)
qed

section \<open>Witnesses\<close>

theorem progress_keeps_plan_witness:
  "normalize_checkboxes (file_text [''### Wave 1'' @ wave_mark, ''  - [X] build'', ''text''])
     = normalize_checkboxes (file_text [''### Wave 1'', ''  - [ ] build'', ''text''])"
proof (rule progress_keeps_plan)
  have "progressed ([] @ CHR ''#'' # ''## Wave 1'' @ wave_mark) ([] @ CHR ''#'' # ''## Wave 1'')"
    by (rule wave_undone) (code_simp, auto simp: is_cont_def wave_mark_def suffix_def)
  moreover have "progressed (''  '' @ CHR ''-'' # '' ['' @ CHR ''X'' # ''] '' @ ''build'') (''  '' @ CHR ''-'' # '' ['' @ CHR '' '' # ''] '' @ ''build'')"
    by (rule task) (auto simp: blank_def)
  ultimately show "list_all2 progressed [''### Wave 1'' @ wave_mark, ''  - [X] build'', ''text'']
      [''### Wave 1'', ''  - [ ] build'', ''text'']"
    by (simp add: progressed.same)
qed code_simp+

theorem neighbour_box_moves_plan_witness:
  "normalize_checkboxes (file_text ([''# Tasks''] @ [''| [x] | [x] |''] @ []))
     \<noteq> normalize_checkboxes (file_text ([''# Tasks''] @ [''| [x] | [ ] |''] @ []))"
  by (rule neighbour_box_moves_plan) code_simp+

end
