(* ===== verification/Execute.thy ===== *)
theory Execute
  imports Run_Store Snapshot Plan_Text Sessions Approvals
begin

text \<open>
  The verbs of \<open>src/src/action/execute/\<close> over the execution directories: \<open>start\<close>, \<open>checkpoint\<close>,
  \<open>finish\<close>, \<open>accept-revision\<close>, \<open>interrupt\<close> and \<open>status\<close>.  What they read besides the receipts
  (sessions, the feature, its approvals, the plan, the worktrees) is the environment of the
  call; the hall is already found, so its layout is part of the environment.
\<close>

record execute_env =
  xe_run :: run_env
  xe_world :: world
  xe_reads :: snapshot_reads
  xe_cwd :: string
  xe_read_text :: "string \<Rightarrow> failure + string option"
  xe_hash_file :: "string \<Rightarrow> failure + string"
  xe_feature :: "feature_name \<Rightarrow> failure + feature option"
  xe_integrated :: "feature \<Rightarrow> failure + bool"
  xe_approvals :: "feature_name \<Rightarrow> failure + approvals option"
  xe_report :: "string \<Rightarrow> string + coordinator_report"
  xe_lock :: "feature_name \<Rightarrow> failure + unit"
  xe_uuid :: string
  xe_now :: string

definition xe_layout :: "execute_env \<Rightarrow> layout" where
  "xe_layout x = rv_layout (xe_run x)"

definition transition_s :: "run_transition + 'a \<Rightarrow> 'a run_eff" where
  "transition_s r = lift_s (map_sum run_transition_failure id r)"

section \<open>What the verbs share\<close>

definition session_state_missing :: failure where
  "session_state_missing = blocked ''execute.session_state_missing'' ''feature session has no state record''"

text \<open>The session that speaks for a run: the last coordinator when its session is gone.\<close>

definition resolve_coordinator :: "execute_env \<Rightarrow> feature_name \<Rightarrow> run_receipt \<Rightarrow> failure + session_id \<times> provider" where
  "resolve_coordinator x f r =
     (let coordinator = map_option (\<lambda>c. session_str (ce_session c)) (current_coordinator r) in
      case resolve_in_feature (xe_world x) (xe_layout x) f coordinator of
        Inr s \<Rightarrow>
          (case sf_state s of
             Some st \<Rightarrow> Inr (sf_id s, se_provider st)
           | None \<Rightarrow> (case current_coordinator r of
                Some c \<Rightarrow> Inr (ce_session c, ce_provider c) | None \<Rightarrow> Inl session_state_missing))
      | Inl e \<Rightarrow>
          if fl_code e = ''session.not_found''
          then (case current_coordinator r of Some c \<Rightarrow> Inr (ce_session c, ce_provider c) | None \<Rightarrow> Inl e)
          else Inl e)"

definition plan_path :: "execute_env \<Rightarrow> feature_name \<Rightarrow> string option \<Rightarrow> string" where
  "plan_path x f plan =
     (case plan of None \<Rightarrow> path_join (plan_dir (xe_layout x) f) ''plan.md'' | Some p \<Rightarrow> path_join (xe_cwd x) p)"

definition start_run_fix :: "feature_name \<Rightarrow> fix_action" where
  "start_run_fix f =
     (let command = ''ivar feature execute start '' @ feature_str f
      in fix_command command (fix_safe ''execute.start_run'' (''Start a run with '' @ quoted command @ ''.'')))"

definition run_missing :: "feature_name \<Rightarrow> failure" where
  "run_missing f = with_fix (start_run_fix f) (blocked ''execute.run_missing'' ''no current run receipt exists'')"

definition plan_not_approved :: "feature_name \<Rightarrow> string \<Rightarrow> failure" where
  "plan_not_approved f what =
     (let command = ''ivar plan approve '' @ feature_str f @ '' plan''
      in with_fix (fix_command command (fix_safe ''execute.approve_plan''
             (''Approve the plan with '' @ quoted command @ '', then run this again.'')))
           (blocked ''execute.plan_not_approved'' what))"

definition finish_or_interrupt_fix :: "feature_name \<Rightarrow> fix_action" where
  "finish_or_interrupt_fix f =
     (let command = ''ivar feature execute interrupt '' @ feature_str f
      in fix_command command (fix_unsafe ''execute.finish_or_interrupt''
           (''Finish the run with `ivar feature execute finish '' @ feature_str f @ ''`, accept a revision with `ivar feature execute accept-revision ''
            @ feature_str f @ ''`, or abandon it with '' @ quoted command @ ''.'')))"

definition import_legacy :: "execute_env \<Rightarrow> feature_name \<Rightarrow> string \<Rightarrow> unit run_eff" where
  "import_legacy x f plan =
     bind_s (lift_s (map_sum invalid_run_id id (run_id_new (rv_uuid_ok (xe_run x)) (xe_uuid x)))) (\<lambda>i.
     bind_s (run_import (xe_run x) f plan i (xe_now x)) (\<lambda>_. return_s ()))"

definition fingerprint_of_plan :: "execute_env \<Rightarrow> string \<Rightarrow> failure + string" where
  "fingerprint_of_plan x plan = normalized_plan_fingerprint (rv_hash (xe_run x)) plan (xe_read_text x plan)"

text \<open>The plan gate holds the normalised fingerprint of the plan or, from before, the raw one.\<close>

definition plan_approved :: "approvals \<Rightarrow> string \<Rightarrow> string \<Rightarrow> bool" where
  "plan_approved a normalized raw \<longleftrightarrow>
     (case gate_record_of a Plan of
        None \<Rightarrow> False
      | Some r \<Rightarrow> gr_fingerprint r = Some normalized \<or> gr_fingerprint r = Some raw)"

definition current_approvals :: "execute_env \<Rightarrow> feature_name \<Rightarrow> failure + approvals" where
  "current_approvals x f = map_sum id (\<lambda>a. case a of None \<Rightarrow> approvals_fresh | Some b \<Rightarrow> b) (xe_approvals x f)"

definition the_current :: "execute_env \<Rightarrow> feature_name \<Rightarrow> run_receipt run_eff" where
  "the_current x f =
     bind_s (receipt_read (xe_run x) f) (\<lambda>found. case found of None \<Rightarrow> fail_s (run_missing f) | Some r \<Rightarrow> return_s r)"

section \<open>Start\<close>

record start_input =
  si_feature :: string
  si_plan :: "string option"
  si_resume :: bool
  si_restart :: bool
  si_mode :: "string option"
  si_session :: "string option"

definition resume_restart_conflict :: failure where
  "resume_restart_conflict = blocked ''execute.resume_restart_conflict'' ''--resume and --restart cannot be used together''"

definition feature_missing :: "feature_name \<Rightarrow> failure" where
  "feature_missing f = blocked ''feature.missing'' (''feature '' @ quoted (feature_str f) @ '' does not exist'')"

definition run_active :: "feature_name \<Rightarrow> run_receipt \<Rightarrow> failure" where
  "run_active f r =
     with_fix (finish_or_interrupt_fix f)
       (blocked ''execute.run_active'' (''run '' @ run_id_str (rr_id r) @ '' is '' @ run_status_display (rr_status r)))"

text \<open>Everything that is asked before the lock is taken: the session, the feature, and the plan.\<close>

record start_checked =
  sc_session :: session_id
  sc_provider :: provider
  sc_feature :: feature
  sc_fingerprint :: string

definition start_checks :: "execute_env \<Rightarrow> feature_name \<Rightarrow> start_input \<Rightarrow> string \<Rightarrow> failure + start_checked" where
  "start_checks x f i plan =
     and_then (resolve_in_feature (xe_world x) (xe_layout x) f (si_session i)) (\<lambda>s.
     and_then (case sf_state s of None \<Rightarrow> Inl session_state_missing | Some st \<Rightarrow> Inr st) (\<lambda>st.
     and_then (xe_feature x f) (\<lambda>found.
     and_then (case found of None \<Rightarrow> Inl (feature_missing f) | Some rec \<Rightarrow> Inr rec) (\<lambda>rec.
     and_then (xe_integrated x rec) (\<lambda>integrated.
     and_then (ensure_unrestricted_session_allowed integrated rec) (\<lambda>_.
     and_then (current_approvals x f) (\<lambda>a.
     and_then (fingerprint_of_plan x plan) (\<lambda>fp.
     and_then (xe_hash_file x plan) (\<lambda>raw.
       if plan_approved a fp raw
       then Inr \<lparr>sc_session = sf_id s, sc_provider = se_provider st, sc_feature = rec, sc_fingerprint = fp\<rparr>
       else Inl (plan_not_approved f ''the supplied plan is not the currently approved plan''))))))))))"

definition worktrees_of :: "layout \<Rightarrow> feature \<Rightarrow> (string, string) btree" where
  "worktrees_of lay rec = bt_of (map (\<lambda>(repo, _). (repo_str repo, repo_worktree lay repo (ft_branch rec))) (ft_promotions rec))"

definition start_new :: "execute_env \<Rightarrow> feature_name \<Rightarrow> string \<Rightarrow> run_mode option \<Rightarrow> start_checked \<Rightarrow> run_receipt run_eff" where
  "start_new x f plan mode c =
     bind_s (lift_s (snapshot_baseline (xe_reads x) (worktrees_of (xe_layout x) (sc_feature c)))) (\<lambda>base.
     bind_s (lift_s (map_sum invalid_run_id id (run_id_new (rv_uuid_ok (xe_run x)) (xe_uuid x)))) (\<lambda>i.
       let r = with_mode (case mode of None \<Rightarrow> DefaultMode | Some m \<Rightarrow> m)
                 (run_start i f plan (sc_fingerprint c) base (sc_session c) (sc_provider c) (xe_now x))
       in bind_s (receipt_write (xe_run x) r) (\<lambda>_. return_s r)))"

definition start_resume :: "execute_env \<Rightarrow> run_mode option \<Rightarrow> start_checked \<Rightarrow> run_receipt \<Rightarrow> run_receipt run_eff" where
  "start_resume x mode c r =
     bind_s (transition_s (run_resume (sc_session c) (sc_provider c) (xe_now x) r)) (\<lambda>r.
     bind_s (case mode of
               None \<Rightarrow> return_s r
             | Some m \<Rightarrow> transition_s (map_sum id snd (change_mode m (sc_session c) (sc_provider c) (xe_now x) r))) (\<lambda>r.
     bind_s (receipt_write (xe_run x) r) (\<lambda>_. return_s r)))"

definition start_restart :: "execute_env \<Rightarrow> feature_name \<Rightarrow> run_receipt \<Rightarrow> unit run_eff" where
  "start_restart x f r =
     bind_s (transition_s (run_interrupt (xe_now x) r)) (\<lambda>r.
     bind_s (receipt_write (xe_run x) r) (\<lambda>_.
     bind_s (archive_current (xe_run x) f) (\<lambda>_. return_s ())))"

definition start_locked :: "execute_env \<Rightarrow> feature_name \<Rightarrow> string \<Rightarrow> start_input \<Rightarrow> run_mode option \<Rightarrow> start_checked \<Rightarrow> run_receipt run_eff" where
  "start_locked x f plan i mode c =
     bind_s (receipt_read (xe_run x) f) (\<lambda>found. case found of
         None \<Rightarrow> start_new x f plan mode c
       | Some r \<Rightarrow>
           if si_restart i \<and> holds_lock (rr_status r)
           then bind_s (start_restart x f r) (\<lambda>_. start_new x f plan mode c)
           else if si_resume i then start_resume x mode c r
           else if holds_lock (rr_status r) then fail_s (run_active f r)
           else bind_s (archive_current (xe_run x) f) (\<lambda>_. start_new x f plan mode c))"

definition execute_start :: "execute_env \<Rightarrow> start_input \<Rightarrow> run_receipt run_eff" where
  "execute_start x i =
     bind_s (guard_s (\<not> (si_resume i \<and> si_restart i)) resume_restart_conflict) (\<lambda>_.
     bind_s (lift_s (transpose_map (\<lambda>m. map_sum unknown_run_mode id (run_mode_parse m)) (si_mode i))) (\<lambda>mode.
     bind_s (lift_s (named (feature_name_new (si_feature i)))) (\<lambda>f.
       let plan = plan_path x f (si_plan i) in
       bind_s (import_legacy x f plan) (\<lambda>_.
       bind_s (lift_s (start_checks x f i plan)) (\<lambda>c.
       bind_s (disk_s (xe_run x) (EnsureExecutionDir f)) (\<lambda>_.
       bind_s (lift_s (xe_lock x f)) (\<lambda>_. start_locked x f plan i mode c)))))))"

section \<open>Checkpoint\<close>

record checkpoint_input =
  ki_feature :: string
  ki_wave :: nat
  ki_summary :: string

definition execute_checkpoint :: "execute_env \<Rightarrow> checkpoint_input \<Rightarrow> run_receipt run_eff" where
  "execute_checkpoint x i =
     bind_s (lift_s (named (feature_name_new (ki_feature i)))) (\<lambda>f.
     bind_s (the_current x f) (\<lambda>r.
     bind_s (lift_s (resolve_coordinator x f r)) (\<lambda>(s, p).
     bind_s (lift_s (let plan = path_join (xe_cwd x) (rr_plan_path r) in
               ensure_wave_in_plan plan (xe_read_text x plan) (ki_wave i))) (\<lambda>_.
     bind_s (transition_s (checkpoint_wave (ki_wave i) (ki_summary i) s p (xe_now x) r)) (\<lambda>r.
     bind_s (receipt_write (xe_run x) r) (\<lambda>_. return_s r))))))"

section \<open>Finish\<close>

record finish_input =
  fn_feature :: string
  fn_plan :: "string option"
  fn_report_json :: string
  fn_outcome :: string

definition report_missing :: failure where
  "report_missing = blocked ''execute.report_missing'' ''report JSON does not exist''"

definition plan_diverged :: "feature_name \<Rightarrow> failure" where
  "plan_diverged f =
     (let command = ''ivar plan approve '' @ feature_str f @ '' plan''
      in with_fix (fix_command command (fix_safe ''execute.accept_revision''
             (''Approve the revised plan with '' @ quoted command @ '', then accept it with `ivar feature execute accept-revision ''
              @ feature_str f @ ''`.'')))
           (blocked ''execute.plan_diverged'' ''the approved plan changed while this run was active''))"

definition read_report :: "execute_env \<Rightarrow> string \<Rightarrow> failure + coordinator_report" where
  "read_report x path =
     and_then (xe_read_text x (path_join (xe_cwd x) path)) (\<lambda>found.
     and_then (case found of None \<Rightarrow> Inl report_missing | Some t \<Rightarrow> Inr t) (\<lambda>t.
     and_then (map_sum (blocked ''execute.report_invalid'') id (xe_report x t)) (\<lambda>rep.
     and_then (report_validate rep) (\<lambda>_. Inr rep))))"

definition finish_with ::
    "execute_env \<Rightarrow> feature_name \<Rightarrow> string \<Rightarrow> run_outcome \<Rightarrow> coordinator_report \<Rightarrow> run_diff \<Rightarrow> session_id \<Rightarrow> provider \<Rightarrow>
     run_receipt \<Rightarrow> run_receipt run_eff" where
  "finish_with x f fp out rep diff s p r =
     (if fp \<noteq> rr_fingerprint r
      then bind_s (transition_s (run_diverge fp (Some rep) s p (xe_now x) r)) (\<lambda>r.
           bind_s (receipt_write (xe_run x) r) (\<lambda>_. fail_s (plan_diverged f)))
      else if out = OutBlocked
      then bind_s (transition_s (run_block rep diff s p (xe_now x) r)) (\<lambda>r.
           bind_s (receipt_write (xe_run x) r) (\<lambda>_. return_s r))
      else bind_s (transition_s (run_terminate out rep diff s p (xe_now x) r)) (\<lambda>r.
           bind_s (receipt_write (xe_run x) r) (\<lambda>_.
           bind_s (archive_current (xe_run x) f) (\<lambda>_. return_s r))))"

definition execute_finish :: "execute_env \<Rightarrow> finish_input \<Rightarrow> run_receipt run_eff" where
  "execute_finish x i =
     bind_s (lift_s (named (feature_name_new (fn_feature i)))) (\<lambda>f.
       let plan = plan_path x f (fn_plan i) in
       bind_s (import_legacy x f plan) (\<lambda>_.
       bind_s (the_current x f) (\<lambda>r.
       bind_s (lift_s (resolve_coordinator x f r)) (\<lambda>(s, p).
       bind_s (lift_s (read_report x (fn_report_json i))) (\<lambda>rep.
       bind_s (lift_s (map_sum unknown_run_outcome id (run_outcome_parse (fn_outcome i)))) (\<lambda>out.
       bind_s (lift_s (fingerprint_of_plan x plan)) (\<lambda>fp.
       bind_s (lift_s (snapshot_diff (xe_reads x) (rr_baseline r))) (\<lambda>diff.
         finish_with x f fp out rep diff s p r))))))))"

section \<open>Accepting a revision, interrupting, and looking\<close>

definition execute_accept_revision :: "execute_env \<Rightarrow> string \<Rightarrow> string option \<Rightarrow> run_receipt run_eff" where
  "execute_accept_revision x feature plan_arg =
     bind_s (lift_s (named (feature_name_new feature))) (\<lambda>f.
       let plan = plan_path x f plan_arg in
       bind_s (import_legacy x f plan) (\<lambda>_.
       bind_s (lift_s (current_approvals x f)) (\<lambda>a.
       bind_s (lift_s (fingerprint_of_plan x plan)) (\<lambda>fp.
       bind_s (lift_s (xe_hash_file x plan)) (\<lambda>raw.
       bind_s (guard_s (plan_approved a fp raw) (plan_not_approved f ''the supplied plan is not currently approved'')) (\<lambda>_.
       bind_s (the_current x f) (\<lambda>r.
       bind_s (lift_s (resolve_coordinator x f r)) (\<lambda>(s, p).
       bind_s (transition_s (accept_revision fp s p (xe_now x) r)) (\<lambda>r.
       bind_s (receipt_write (xe_run x) r) (\<lambda>_. return_s r))))))))))"

definition run_not_active :: "run_receipt \<Rightarrow> failure" where
  "run_not_active r =
     with_fix (fix_safe ''execute.inspect_run'' ''Inspect the run with `ivar feature execute status <feature>`.'')
       (blocked ''execute.run_not_active''
         (''run '' @ run_id_str (rr_id r) @ '' is '' @ run_status_display (rr_status r) @ '' and holds no lock''))"

definition execute_interrupt :: "execute_env \<Rightarrow> string \<Rightarrow> run_receipt run_eff" where
  "execute_interrupt x feature =
     bind_s (lift_s (named (feature_name_new feature))) (\<lambda>f.
     bind_s (the_current x f) (\<lambda>r.
     bind_s (guard_s (holds_lock (rr_status r)) (run_not_active r)) (\<lambda>_.
     bind_s (lift_s (resolve_coordinator x f r)) (\<lambda>_.
     bind_s (transition_s (run_interrupt (xe_now x) r)) (\<lambda>r.
     bind_s (receipt_write (xe_run x) r) (\<lambda>_.
     bind_s (archive_current (xe_run x) f) (\<lambda>_. return_s r)))))))"

record status_input =
  ti_feature :: string
  ti_plan :: "string option"
  ti_history :: bool
  ti_run :: "string option"

definition status_receipts :: "execute_env \<Rightarrow> feature_name \<Rightarrow> status_input \<Rightarrow> run_receipt list run_eff" where
  "status_receipts x f i =
     (case ti_run i of
        Some raw \<Rightarrow>
          bind_s (lift_s (map_sum invalid_run_id id (run_id_new (rv_uuid_ok (xe_run x)) raw))) (\<lambda>run.
          bind_s (receipt_find (xe_run x) f run) (\<lambda>found. return_s (case found of None \<Rightarrow> [] | Some r \<Rightarrow> [r])))
      | None \<Rightarrow>
          bind_s (run_history (xe_run x) f) (\<lambda>rs. return_s (if ti_history i then rs else take 1 rs)))"

definition no_matching_run :: "feature_name \<Rightarrow> bool \<Rightarrow> failure" where
  "no_matching_run f asked_for_one =
     (let missing = blocked ''execute.run_missing'' ''no matching run receipt exists''
      in if asked_for_one then missing else with_fix (start_run_fix f) missing)"

definition execute_status :: "execute_env \<Rightarrow> status_input \<Rightarrow> run_receipt list run_eff" where
  "execute_status x i =
     bind_s (lift_s (named (feature_name_new (ti_feature i)))) (\<lambda>f.
     bind_s (import_legacy x f (plan_path x f (ti_plan i))) (\<lambda>_.
     bind_s (status_receipts x f i) (\<lambda>rs.
       if rs = [] then fail_s (no_matching_run f (ti_run i \<noteq> None)) else return_s rs)))"

end
