(* ===== verification/Run_Views.thy ===== *)
theory Run_Views
  imports Execute
begin

text \<open>
  What the files of the run store hold, apart from their form: a receipt read from any version
  of a file is the receipt it holds, and reading never changes that.  On this view the steps of
  the store are judged by \<open>run_ok\<close>, a small logic: what a computation needs, what it leaves, and
  that on the way, failed or not, the directories stay typed and no run is lost.
\<close>

section \<open>The receipt of a file\<close>

definition held :: "run_receipt codec \<Rightarrow> disk_file \<Rightarrow> run_receipt option" where
  "held c d = (case read_migrated c (run_store_at []) d of Inr (Some (r, _)) \<Rightarrow> Some r | _ \<Rightarrow> None)"

lemma held_NoFile [simp]: "held c NoFile = None"
  by (simp add: held_def read_migrated_def json_read_def)

lemma read_migrated_path:
  "read_migrated c (run_store_at p) d = Inr x \<Longrightarrow> read_migrated c (run_store_at q) d = Inr x"
  by (auto simp: read_migrated_def json_read_def run_store_at_def guard_not_newer_def guard_has_migration_path_def
      has_migration_path_def store_deserialize_def run_store_migrations_def run_current_version_def and_then_eq_Inr
      split: disk_file.splits if_splits sum.splits option.splits)

lemma held_read: "read_migrated c (run_store_at p) d = Inr (Some (r, n)) \<Longrightarrow> held c d = Some r"
  by (drule read_migrated_path [where q = "[]"]) (simp add: held_def)

lemma read_absent: "read_migrated c (run_store_at p) d = Inr None \<Longrightarrow> d = NoFile"
  by (auto simp: read_migrated_def json_read_def and_then_eq_Inr split: disk_file.splits)

lemma run_store_valid: "chain_valid (vs_migrations (run_store_at p)) (vs_current (run_store_at p))" "vs_current (run_store_at p) \<le> u32_max"
  by (simp_all add: run_store_at_def run_store_migrations_def run_current_version_def)

lemma persist_held:
  assumes "codec_ok c" and "persist c (run_store_at p) r d = (Inr (), d')"
  shows "held c d' = Some r \<and> d' \<noteq> NoFile"
proof -
  from read_migrated_persisted [OF assms(1) run_store_valid assms(2)] held_read
  have "held c d' = Some r" by blast
  then show ?thesis by auto
qed

lemma persist_fails: "persist c s r d = (Inl e, d') \<Longrightarrow> d' = d"
  by (auto simp: persist_def split: sum.splits)

lemma store_read_cases:
  assumes "codec_ok c" and "store_read c (run_store_at p) d = (res, d')"
  shows "held c d' = held c d \<and> (d' = NoFile \<longleftrightarrow> d = NoFile)
    \<and> (\<forall>v. res = Inr v \<longrightarrow> held c d = v \<and> (v = None \<longrightarrow> d = NoFile))"
proof (cases "read_migrated c (run_store_at p) d")
  case (Inl e)
  with assms(2) show ?thesis by (auto simp: store_read_def)
next
  case (Inr found)
  show ?thesis
  proof (cases found)
    case None
    with Inr read_absent have "d = NoFile" by blast
    with None Inr assms(2) show ?thesis by (auto simp: store_read_def)
  next
    case (Some rn)
    obtain r n where rn: "rn = (r, n)" by (cases rn)
    have held: "held c d = Some r" using held_read Inr Some rn by blast
    then have there: "d \<noteq> NoFile" by auto
    show ?thesis
    proof (cases "persist c (run_store_at p) r d")
      case (Pair w d'')
      show ?thesis
      proof (cases w)
        case (Inl e)
        with Pair have "d'' = d" by (simp add: persist_fails)
        with Inl Pair Inr Some rn assms(2) held there show ?thesis by (auto simp: store_read_def split: if_splits)
      next
        case (Inr u)
        with Pair persist_held [OF assms(1)] have "held c d'' = Some r \<and> d'' \<noteq> NoFile" by simp
        with Inr Pair \<open>read_migrated c (run_store_at p) d = Inr found\<close> Some rn assms(2) held there
        show ?thesis by (auto simp: store_read_def split: if_splits)
      qed
    qed
  qed
qed

lemma store_write_cases:
  assumes "codec_ok c" and "store_write c (run_store_at p) r d = (res, d')"
  shows "(\<exists>e. res = Inl e \<and> d' = d) \<or> (res = Inr () \<and> held c d' = Some r \<and> d' \<noteq> NoFile)"
proof (cases res)
  case (Inr u)
  then have res: "res = Inr ()" by simp
  from write_ok_persists [OF assms(2) [unfolded res]] persist_held [OF assms(1)] res show ?thesis by blast
next
  case (Inl e)
  with assms(2) have "d' = d"
    by (auto simp: store_write_def persist_def split: sum.splits option.splits if_splits)
  with Inl show ?thesis by blast
qed

lemma read_slot_cases:
  assumes "codec_ok (rv_codec e)" and "read_slot e p d = (res, d')"
  shows "held (rv_codec e) d' = held (rv_codec e) d \<and> (d' = NoFile \<longleftrightarrow> d = NoFile)
    \<and> (\<forall>v. res = Inr v \<longrightarrow> held (rv_codec e) d = v \<and> (v = None \<longrightarrow> d = NoFile))"
proof -
  obtain a b where ab: "store_read (rv_codec e) (run_store_at p) d = (a, b)" by fastforce
  with assms(2) have "b = d'" "\<forall>v. res = Inr v \<longrightarrow> a = Inr v"
    by (auto simp: read_slot_def file_result_def split: sum.splits)
  with store_read_cases [OF assms(1) ab] show ?thesis by blast
qed

lemma write_slot_cases:
  assumes "codec_ok (rv_codec e)" and "write_slot e p r d = (res, d')"
  shows "(\<exists>x. res = Inl x \<and> d' = d) \<or> (res = Inr () \<and> held (rv_codec e) d' = Some r \<and> d' \<noteq> NoFile)"
proof -
  obtain a b where ab: "store_write (rv_codec e) (run_store_at p) r d = (a, b)" by fastforce
  from store_write_cases [OF assms(1) ab] ab assms(2) show ?thesis
    by (auto simp: write_slot_def file_result_def split: sum.splits)
qed

section \<open>The directories\<close>

definition archived_as :: "run_receipt codec \<Rightarrow> run_disks \<Rightarrow> feature_name \<Rightarrow> string \<Rightarrow> run_receipt option" where
  "archived_as c s f n = Option.bind (bt_get (ru_archive (s f)) n) (held c)"

lemma held_get_archived [simp]: "held c (get_archived f i s) = archived_as c s f (archive_name i)"
  by (simp add: get_archived_def archived_as_def split: option.split)

text \<open>
  Directories are typed when each receipt is one of the feature whose directory holds it, and
  each archived one lies under its own id and has ended.
\<close>

definition runs_typed :: "run_receipt codec \<Rightarrow> run_disks \<Rightarrow> bool" where
  "runs_typed c s \<longleftrightarrow> (\<forall>f. bt_sorted (ru_archive (s f))
     \<and> (\<forall>r. held c (get_current f s) = Some r \<longrightarrow> rr_feature r = f)
     \<and> (\<forall>n r. archived_as c s f n = Some r \<longrightarrow> rr_feature r = f \<and> n = archive_name (rr_id r) \<and> is_terminal (rr_status r)))"

definition no_boards :: "run_disks \<Rightarrow> bool" where
  "no_boards s \<longleftrightarrow> (\<forall>f. ru_board (s f) = NoFile)"

definition recorded :: "run_receipt codec \<Rightarrow> run_disks \<Rightarrow> feature_name \<Rightarrow> run_receipt \<Rightarrow> bool" where
  "recorded c s f r \<longleftrightarrow> held c (get_current f s) = Some r \<or> archived_as c s f (archive_name (rr_id r)) = Some r"

text \<open>One state after another: archived runs stay, and no recorded run is lost, only taken further.\<close>

definition archive_grows :: "run_receipt codec \<Rightarrow> run_disks \<Rightarrow> run_disks \<Rightarrow> bool" where
  "archive_grows c s s' \<longleftrightarrow> (\<forall>f n r. archived_as c s f n = Some r \<longrightarrow> archived_as c s' f n = Some r)"

definition runs_continue :: "run_receipt codec \<Rightarrow> run_disks \<Rightarrow> run_disks \<Rightarrow> bool" where
  "runs_continue c s s' \<longleftrightarrow> (no_boards s \<longrightarrow> no_boards s'
     \<and> (\<forall>f r. recorded c s f r \<longrightarrow> (\<exists>r'. recorded c s' f r' \<and> rtranclp run_step r r')))"

text \<open>\<open>b\<close> says whether the runs that continue are asked for.\<close>

definition run_ok ::
    "bool \<Rightarrow> run_receipt codec \<Rightarrow> (run_disks \<Rightarrow> bool) \<Rightarrow> 'a run_eff \<Rightarrow> ('a \<Rightarrow> run_disks \<Rightarrow> bool) \<Rightarrow> bool" where
  "run_ok b c P m Q \<longleftrightarrow> (\<forall>s r s'. runs_typed c s \<and> P s \<and> m s = (r, s') \<longrightarrow>
     runs_typed c s' \<and> archive_grows c s s' \<and> (b \<longrightarrow> runs_continue c s s') \<and> (\<forall>x. r = Inr x \<longrightarrow> Q x s'))"

lemma archive_grows_refl [simp]: "archive_grows c s s"
  by (simp add: archive_grows_def)

lemma archive_grows_trans: "archive_grows c s t \<Longrightarrow> archive_grows c t u \<Longrightarrow> archive_grows c s u"
  by (simp add: archive_grows_def)

lemma runs_continue_refl [simp]: "runs_continue c s s"
  by (auto simp: runs_continue_def)

lemma runs_continue_trans: "runs_continue c s t \<Longrightarrow> runs_continue c t u \<Longrightarrow> runs_continue c s u"
  unfolding runs_continue_def by (meson rtranclp_trans)

lemma run_okI:
  "(\<And>s r s'. runs_typed c s \<Longrightarrow> P s \<Longrightarrow> m s = (r, s') \<Longrightarrow>
     runs_typed c s' \<and> archive_grows c s s' \<and> (b \<longrightarrow> runs_continue c s s') \<and> (\<forall>x. r = Inr x \<longrightarrow> Q x s'))
   \<Longrightarrow> run_ok b c P m Q"
  unfolding run_ok_def by blast

lemma run_okD:
  "run_ok b c P m Q \<Longrightarrow> runs_typed c s \<Longrightarrow> P s \<Longrightarrow> m s = (r, s') \<Longrightarrow>
     runs_typed c s' \<and> archive_grows c s s' \<and> (b \<longrightarrow> runs_continue c s s') \<and> (\<forall>x. r = Inr x \<longrightarrow> Q x s')"
  unfolding run_ok_def by blast

interpretation run_logic: effect_logic "runs_typed c" "\<lambda>s s'. archive_grows c s s' \<and> (b \<longrightarrow> runs_continue c s s')" for b c
  by unfold_locales (auto intro: archive_grows_trans runs_continue_trans)

lemma run_ok_ends: "run_ok b c P m Q \<longleftrightarrow> ends_in (runs_typed c) (\<lambda>s s'. archive_grows c s s' \<and> (b \<longrightarrow> runs_continue c s s')) P m Q"
  by (simp add: run_ok_def ends_in_def)

lemma ok_bind: "run_ok b c P m Q \<Longrightarrow> (\<And>x. run_ok b c (Q x) (k x) S) \<Longrightarrow> run_ok b c P (bind_s m k) S"
  unfolding run_ok_ends by (rule run_logic.ends_bind)

lemma ok_weaken: "run_ok b c P m Q \<Longrightarrow> (\<And>s. runs_typed c s \<Longrightarrow> P' s \<Longrightarrow> P s) \<Longrightarrow> (\<And>x s. Q x s \<Longrightarrow> Q' x s) \<Longrightarrow> run_ok b c P' m Q'"
  unfolding run_ok_ends by (rule run_logic.ends_weaken)

lemma ok_lift: "run_ok b c P (lift_s r) (\<lambda>x s. P s \<and> r = Inr x)"
  unfolding run_ok_ends by (rule run_logic.ends_lift)

lemma ok_return: "(\<And>s. P s \<Longrightarrow> Q x s) \<Longrightarrow> run_ok b c P (return_s x) Q"
  unfolding run_ok_ends by (rule run_logic.ends_return)

lemma ok_fail: "run_ok b c P (fail_s e) Q"
  unfolding run_ok_ends by (rule run_logic.ends_fail)

lemma ok_guard: "run_ok b c P (guard_s g e) (\<lambda>_ s. P s \<and> g)"
  unfolding run_ok_ends by (rule run_logic.ends_guard)

lemma ok_gets: "run_ok b c P (gets_s g) (\<lambda>x s. P s \<and> g s = Inr x)"
  unfolding run_ok_ends by (rule run_logic.ends_gets)

lemma ok_disk: "run_ok b c P (disk_s e a) (\<lambda>_. P)"
  by (rule run_okI) (auto simp: disk_s_def lift_s_def)

lemma ok_transition: "run_ok b c P (transition_s r) (\<lambda>x s. P s \<and> r = Inr x)"
  by (rule run_okI) (cases r; auto simp: transition_s_def lift_s_def)

lemma ok_if: "(g \<Longrightarrow> run_ok b c P m Q) \<Longrightarrow> (\<not> g \<Longrightarrow> run_ok b c P k Q) \<Longrightarrow> run_ok b c P (if g then m else k) Q"
  by simp


section \<open>The steps of the store\<close>

text \<open>States that differ at most in the form of the current files and in the archives.\<close>

definition same_current :: "run_receipt codec \<Rightarrow> run_disks \<Rightarrow> run_disks \<Rightarrow> bool" where
  "same_current c s s' \<longleftrightarrow> (\<forall>f. held c (get_current f s') = held c (get_current f s)
     \<and> (get_current f s' = NoFile \<longleftrightarrow> get_current f s = NoFile) \<and> ru_board (s' f) = ru_board (s f))"

text \<open>A fact that may look at the archives only outside the places \<open>X\<close>.\<close>

definition stable :: "run_receipt codec \<Rightarrow> (feature_name \<times> string) set \<Rightarrow> (run_disks \<Rightarrow> bool) \<Rightarrow> bool" where
  "stable c X P \<longleftrightarrow> (\<forall>s s'. same_current c s s' \<longrightarrow> (\<forall>g n. (g, n) \<notin> X \<longrightarrow> archived_as c s' g n = archived_as c s g n)
     \<longrightarrow> P s \<longrightarrow> P s')"

lemma stableD:
  "stable c X P \<Longrightarrow> P s \<Longrightarrow> same_current c s s' \<Longrightarrow> (\<And>g n. (g, n) \<notin> X \<Longrightarrow> archived_as c s' g n = archived_as c s g n) \<Longrightarrow> P s'"
  unfolding stable_def by blast

definition holds_now :: "run_receipt codec \<Rightarrow> feature_name \<Rightarrow> run_receipt option \<Rightarrow> run_disks \<Rightarrow> bool" where
  "holds_now c f v s \<longleftrightarrow> (case v of None \<Rightarrow> get_current f s = NoFile | Some r \<Rightarrow> held c (get_current f s) = Some r)"

lemma stable_holds_now [simp, intro]: "stable c X (holds_now c f v)"
  by (auto simp: stable_def same_current_def holds_now_def split: option.splits)

lemma stable_True [simp, intro]: "stable c X (\<lambda>_. True)"
  by (simp add: stable_def)

lemma stable_archived [intro]: "(f, n) \<notin> X \<Longrightarrow> stable c X (\<lambda>s. archived_as c s f n = v)"
  by (simp add: stable_def)

lemma stable_conj [intro]: "stable c X P \<Longrightarrow> stable c X Q \<Longrightarrow> stable c X (\<lambda>s. P s \<and> Q s)"
  unfolding stable_def by blast

lemma same_current_boards: "same_current c s s' \<Longrightarrow> no_boards s' = no_boards s"
  by (simp add: same_current_def no_boards_def)

lemma get_put_current [simp]:
  "get_current g (put_current f d s) = (if g = f then d else get_current g s)"
  "ru_archive (put_current f d s g) = ru_archive (s g)" "ru_board (put_current f d s g) = ru_board (s g)"
  "archived_as c (put_current f d s) g n = archived_as c s g n"
  by (simp_all add: get_current_def put_current_def archived_as_def)

lemma put_archived_other [simp]:
  "get_current g (put_archived f i d s) = get_current g s" "ru_board (put_archived f i d s g) = ru_board (s g)"
  by (simp_all add: get_current_def put_archived_def)

lemma put_archived_get:
  "bt_sorted (ru_archive (s f)) \<Longrightarrow> d \<noteq> NoFile \<Longrightarrow>
     archived_as c (put_archived f i d s) g n = (if g = f \<and> n = archive_name i then held c d else archived_as c s g n)"
  by (auto simp: put_archived_def archived_as_def bt_get_insert)

lemma put_archived_sorted: "bt_sorted (ru_archive (s g)) \<Longrightarrow> bt_sorted (ru_archive (put_archived f i d s g))"
  by (auto simp: put_archived_def bt_sorted_insert)

lemma typed_sorted: "runs_typed c s \<Longrightarrow> bt_sorted (ru_archive (s f))"
  by (simp add: runs_typed_def)

lemma same_view_ok:
  assumes "same_current c s s'" and "\<And>f n. archived_as c s' f n = archived_as c s f n"
    and "runs_typed c s" and "\<And>f. bt_sorted (ru_archive (s' f))"
  shows "runs_typed c s' \<and> archive_grows c s s' \<and> (b \<longrightarrow> runs_continue c s s')"
  using assms same_current_boards [OF assms(1)]
  by (auto simp: runs_typed_def archive_grows_def runs_continue_def recorded_def same_current_def)

lemma ok_current:
  assumes "rv_codec e = c" and "codec_ok c" and "stable c {} P"
  shows "run_ok b c P (receipt_read e f) (\<lambda>v s. P s \<and> holds_now c f v s)"
proof (rule run_okI)
  fix s r s' assume s: "runs_typed c s" "P s" and run: "receipt_read e f s = (r, s')"
  obtain d where d: "read_slot e (run_receipt_file (rv_layout e) f) (get_current f s) = (r, d)" "s' = put_current f d s"
    using run by (auto simp: receipt_read_def zoom_s_def split: prod.splits)
  note case_read = read_slot_cases [OF _ d(1), unfolded assms(1), OF assms(2)]
  have same: "same_current c s s'" using case_read d(2) by (simp add: same_current_def)
  have "P s'" by (rule stableD [OF assms(3) s(2) same]) (simp add: d(2))
  moreover have "holds_now c f v s'" if "r = Inr v" for v
    using case_read d(2) that by (auto simp: holds_now_def split: option.split)
  moreover have "runs_typed c s' \<and> archive_grows c s s' \<and> (b \<longrightarrow> runs_continue c s s')"
    by (rule same_view_ok [OF same _ s(1)]) (simp_all add: d(2) typed_sorted [OF s(1)])
  ultimately show "runs_typed c s' \<and> archive_grows c s s' \<and> (b \<longrightarrow> runs_continue c s s')
      \<and> (\<forall>x. r = Inr x \<longrightarrow> P s' \<and> holds_now c f x s')" by blast
qed

lemma ok_read_archived:
  assumes "rv_codec e = c" and "codec_ok c" and "stable c {} P"
  shows "run_ok b c P (read_archived e f i) (\<lambda>v s. P s \<and> archived_as c s f (archive_name i) = v
    \<and> (v = None \<longrightarrow> get_archived f i s = NoFile))"
proof (rule run_okI)
  fix s r s' assume s: "runs_typed c s" "P s" and run: "read_archived e f i s = (r, s')"
  obtain d where d: "read_slot e (archived_run (rv_layout e) f i) (get_archived f i s) = (r, d)" "s' = put_archived f i d s"
    using run by (auto simp: read_archived_def zoom_s_def split: prod.splits)
  note case_read = read_slot_cases [OF _ d(1), unfolded assms(1), OF assms(2)]
  have same: "same_current c s s'" using d(2) by (simp add: same_current_def)
  have archived: "archived_as c s' g n = archived_as c s g n" for g n
  proof (cases "d = NoFile")
    case False
    have "held c d = archived_as c s f (archive_name i)" using case_read by simp
    with False d(2) put_archived_get [OF typed_sorted [OF s(1)] False] show ?thesis by simp
  qed (simp add: d(2) put_archived_def)
  have "P s'" by (rule stableD [OF assms(3) s(2) same archived])
  moreover have "runs_typed c s' \<and> archive_grows c s s' \<and> (b \<longrightarrow> runs_continue c s s')"
    by (rule same_view_ok [OF same archived s(1)]) (simp add: d(2) put_archived_sorted typed_sorted [OF s(1)])
  moreover have "get_archived f i s' = NoFile" if "r = Inr None"
    using case_read that d(2) by (simp add: put_archived_def)
  ultimately show "runs_typed c s' \<and> archive_grows c s s' \<and> (b \<longrightarrow> runs_continue c s s')
      \<and> (\<forall>x. r = Inr x \<longrightarrow> P s' \<and> archived_as c s' f (archive_name i) = x \<and> (x = None \<longrightarrow> get_archived f i s' = NoFile))"
    using case_read archived \<open>P s'\<close> by simp
qed

text \<open>A receipt may be written over nothing, or over the receipt it continues.\<close>

definition may_write :: "run_receipt codec \<Rightarrow> run_receipt \<Rightarrow> run_disks \<Rightarrow> bool" where
  "may_write c r s \<longleftrightarrow> get_current (rr_feature r) s = NoFile
     \<or> (\<exists>q. held c (get_current (rr_feature r) s) = Some q \<and> rtranclp run_step q r)"

lemma run_steps_identity: "rtranclp run_step r r' \<Longrightarrow> rr_id r' = rr_id r \<and> rr_feature r' = rr_feature r"
  by (induction rule: rtranclp_induct) (auto dest: run_step_identity)

lemma ok_write:
  assumes "rv_codec e = c" and "codec_ok c"
    and "\<And>s. P s \<Longrightarrow> b \<Longrightarrow> no_boards s \<Longrightarrow> may_write c r s"
    and "\<And>s d. P s \<Longrightarrow> held c d = Some r \<Longrightarrow> d \<noteq> NoFile \<Longrightarrow> Q (put_current (rr_feature r) d s)"
  shows "run_ok b c P (receipt_write e r) (\<lambda>_ s. Q s \<and> holds_now c (rr_feature r) (Some r) s)"
  unfolding receipt_write_def
proof (rule ok_bind [OF ok_disk], rule ok_bind [OF ok_disk], rule run_okI)
  let ?f = "rr_feature r"
  fix s x s' assume s: "runs_typed c s" "P s"
    and run: "zoom_s (get_current ?f) (put_current ?f) (write_slot e (run_receipt_file (rv_layout e) ?f) r) s = (x, s')"
  obtain d where d: "write_slot e (run_receipt_file (rv_layout e) ?f) r (get_current ?f s) = (x, d)" "s' = put_current ?f d s"
    using run by (auto simp: zoom_s_def split: prod.splits)
  from write_slot_cases [OF _ d(1), unfolded assms(1), OF assms(2)]
  consider (failed) "\<exists>y. x = Inl y" "d = get_current ?f s" | (written) "x = Inr ()" "held c d = Some r" "d \<noteq> NoFile" by auto
  then show "runs_typed c s' \<and> archive_grows c s s' \<and> (b \<longrightarrow> runs_continue c s s')
      \<and> (\<forall>y. x = Inr y \<longrightarrow> Q s' \<and> holds_now c ?f (Some r) s')"
  proof cases
    case failed
    have "same_current c s s'" by (simp add: same_current_def d(2) failed)
    from same_view_ok [OF this _ s(1)] failed show ?thesis by (auto simp: d(2) typed_sorted [OF s(1)])
  next
    case written
    have typed: "runs_typed c s'" using s(1) written(2) by (simp add: runs_typed_def d(2))
    have grows: "archive_grows c s s'" by (simp add: archive_grows_def d(2))
    have "runs_continue c s s'" if b
      unfolding runs_continue_def
    proof (intro impI conjI allI)
      assume nb: "no_boards s"
      then show "no_boards s'" by (simp add: no_boards_def d(2))
      fix g q assume q: "recorded c s g q"
      show "\<exists>r'. recorded c s' g r' \<and> rtranclp run_step q r'"
      proof (cases "g = ?f \<and> held c (get_current g s) = Some q")
        case True
        with assms(3) [OF s(2) that nb] have "rtranclp run_step q r" by (auto simp: may_write_def)
        moreover have "recorded c s' g r" using True written(2) by (simp add: recorded_def d(2))
        ultimately show ?thesis by blast
      next
        case False
        with q have "recorded c s' g q" by (auto simp: recorded_def d(2))
        then show ?thesis by blast
      qed
    qed
    with typed grows written assms(4) [OF s(2) written(2,3)] d(2) show ?thesis by (simp add: holds_now_def)
  qed
qed

end
