(* ===== verification/Run_Safety.thy ===== *)
theory Run_Safety
  imports Run_Views
begin

text \<open>
  The verbs of the execution keep the directories typed, never touch an archived run, and never
  lose a run; the one exception is the import of a board, which is shown to lose one.
\<close>

section \<open>The archive\<close>

lemma is_terminal_step: "is_terminal (rr_status r) \<Longrightarrow> rtranclp run_step r r' \<Longrightarrow> r' = r"
  by (erule converse_rtranclpE) (auto dest: run_step_live)

lemma ok_archive:
  assumes "rv_codec e = c" and "codec_ok c" and "stable c {(rr_feature r, archive_name (rr_id r))} P"
  shows "run_ok b c P (archive_run e r) (\<lambda>_ s. P s \<and> archived_as c s (rr_feature r) (archive_name (rr_id r)) = Some r)"
proof (cases "is_terminal (rr_status r)")
  case True
  let ?f = "rr_feature r" and ?i = "rr_id r"
  have wr: "run_ok b c (\<lambda>s. P s \<and> get_archived ?f ?i s = NoFile) (write_archived e ?f ?i r)
      (\<lambda>_ s. P s \<and> archived_as c s ?f (archive_name ?i) = Some r)"
    unfolding write_archived_def
  proof (rule ok_bind [OF ok_disk], rule run_okI)
    fix s x s' assume s: "runs_typed c s" "P s \<and> get_archived ?f ?i s = NoFile"
      and run: "zoom_s (get_archived ?f ?i) (put_archived ?f ?i) (write_slot e (archived_run (rv_layout e) ?f ?i) r) s = (x, s')"
    obtain d where d: "write_slot e (archived_run (rv_layout e) ?f ?i) r (get_archived ?f ?i s) = (x, d)" "s' = put_archived ?f ?i d s"
      using run by (auto simp: zoom_s_def split: prod.splits)
    have same: "same_current c s s'" using d(2) by (simp add: same_current_def)
    from write_slot_cases [OF _ d(1), unfolded assms(1), OF assms(2)] s(2)
    consider (failed) "\<exists>y. x = Inl y" "d = NoFile" | (written) "x = Inr ()" "held c d = Some r" "d \<noteq> NoFile" by auto
    then show "runs_typed c s' \<and> archive_grows c s s' \<and> (b \<longrightarrow> runs_continue c s s')
        \<and> (\<forall>y. x = Inr y \<longrightarrow> P s' \<and> archived_as c s' ?f (archive_name ?i) = Some r)"
    proof cases
      case failed
      then have "s' = s" by (simp add: d(2) put_archived_def)
      with failed s(1) show ?thesis by auto
    next
      case written
      have view: "archived_as c s' g n = (if g = ?f \<and> n = archive_name ?i then Some r else archived_as c s g n)" for g n
        using put_archived_get [OF typed_sorted [OF s(1)] written(3)] written(2) by (simp add: d(2))
      have P: "P s'" by (rule stableD [OF assms(3) conjunct1 [OF s(2)] same]) (auto simp: view)
      have absent: "archived_as c s ?f (archive_name ?i) = None" using s(2) by (metis held_NoFile held_get_archived)
      have "runs_typed c s'"
        using s(1) True by (simp add: runs_typed_def view) (simp add: d(2) put_archived_sorted)
      moreover have grows: "archive_grows c s s'" using absent by (auto simp: archive_grows_def view)
      moreover have "runs_continue c s s'"
        using grows by (auto simp: runs_continue_def recorded_def no_boards_def archive_grows_def d(2))
      ultimately show ?thesis using P by (simp add: view)
    qed
  qed
  have stable: "stable c {} P" using assms(3) unfolding stable_def by blast
  have rest: "run_ok b c (\<lambda>s. P s \<and> get_archived ?f ?i s = NoFile)
      (bind_s (disk_s e (EnsureArchiveDir ?f)) (\<lambda>_. bind_s (write_archived e ?f ?i r) (\<lambda>_. return_s (archived_run (rv_layout e) ?f ?i))))
      (\<lambda>_ s. P s \<and> archived_as c s ?f (archive_name ?i) = Some r)"
    by (rule ok_bind [OF ok_disk], rule ok_bind [OF wr], rule ok_return)
  have "run_ok b c (\<lambda>s. P s \<and> archived_as c s ?f (archive_name ?i) = v \<and> (v = None \<longrightarrow> get_archived ?f ?i s = NoFile))
      (case v of Some x \<Rightarrow> if x = r then return_s (archived_run (rv_layout e) ?f ?i) else fail_s (archive_conflict r (archived_run (rv_layout e) ?f ?i))
        | None \<Rightarrow> bind_s (disk_s e (EnsureArchiveDir ?f)) (\<lambda>_. bind_s (write_archived e ?f ?i r) (\<lambda>_. return_s (archived_run (rv_layout e) ?f ?i))))
      (\<lambda>_ s. P s \<and> archived_as c s ?f (archive_name ?i) = Some r)" for v
    by (cases v) (auto intro: ok_fail ok_return ok_weaken [OF rest])
  from ok_bind [OF ok_read_archived [OF assms(1,2) stable] this] True show ?thesis by (simp add: archive_run_def Let_def)
qed (simp add: archive_run_def ok_fail)

lemma ok_remove:
  assumes "\<And>s. runs_typed c s \<Longrightarrow> P s \<Longrightarrow> b \<Longrightarrow> no_boards s
    \<Longrightarrow> \<forall>r. held c (get_current f s) = Some r \<longrightarrow> archived_as c s f (archive_name (rr_id r)) = Some r"
    and "\<And>s. P s \<Longrightarrow> Q (put_current f NoFile s)"
  shows "run_ok b c P (remove_current e f) (\<lambda>_ s. Q s \<and> get_current f s = NoFile)"
  unfolding remove_current_def
proof (rule ok_bind [OF ok_disk], rule run_okI)
  fix s x s' assume s: "runs_typed c s" "P s" and run: "modify_s (put_current f NoFile) s = (x, s')"
  then have s': "s' = put_current f NoFile s" by (simp add: modify_s_def)
  have "runs_typed c s'" using s(1) by (simp add: runs_typed_def s')
  moreover have "runs_continue c s s'" if b
    unfolding runs_continue_def
  proof (intro impI conjI allI)
    assume nb: "no_boards s"
    then show "no_boards s'" by (simp add: no_boards_def s')
    fix g q assume "recorded c s g q"
    with assms(1) [OF s that nb] have "recorded c s' g q" by (auto simp: recorded_def s')
    then show "\<exists>r'. recorded c s' g r' \<and> rtranclp run_step q r'" by blast
  qed
  ultimately show "runs_typed c s' \<and> archive_grows c s s' \<and> (b \<longrightarrow> runs_continue c s s')
      \<and> (\<forall>y. x = Inr y \<longrightarrow> Q s' \<and> get_current f s' = NoFile)"
    using assms(2) s(2) by (simp add: s' archive_grows_def)
qed

lemma ok_archive_current:
  assumes "rv_codec e = c" and "codec_ok c"
  shows "run_ok b c (\<lambda>_. True) (archive_current e f) (\<lambda>_ s. get_current f s = NoFile)"
proof -
  have "run_ok b c (\<lambda>s. True \<and> holds_now c f v s)
      (case v of None \<Rightarrow> return_s None
       | Some r \<Rightarrow> bind_s (archive_run e r) (\<lambda>_. bind_s (remove_current e f) (\<lambda>_. return_s (Some (rr_id r)))))
      (\<lambda>_ s. get_current f s = NoFile)" for v
  proof (cases v)
    case None
    then show ?thesis by (auto intro: ok_return simp: holds_now_def)
  next
    case (Some r)
    have "run_ok b c (\<lambda>s. holds_now c f (Some r) s \<and> archived_as c s (rr_feature r) (archive_name (rr_id r)) = Some r)
        (remove_current e f) (\<lambda>_ s. True \<and> get_current f s = NoFile)"
      by (rule ok_remove) (auto simp: holds_now_def runs_typed_def)
    then have "run_ok b c (holds_now c f (Some r))
        (bind_s (archive_run e r) (\<lambda>_. bind_s (remove_current e f) (\<lambda>_. return_s (Some (rr_id r)))))
        (\<lambda>_ s. get_current f s = NoFile)"
      by (intro ok_bind [OF ok_archive [OF assms]] ok_bind) (auto intro: ok_return)
    with Some show ?thesis by simp
  qed
  from ok_bind [OF ok_current [OF assms stable_True] this] show ?thesis by (simp add: archive_current_def)
qed

lemma ok_archived_from:
  assumes "rv_codec e = c" and "codec_ok c" and "stable c {} P"
  shows "run_ok b c P (archived_from e f names) (\<lambda>_. P)"
proof (induction names)
  case (Cons n ns)
  have "run_ok b c P (bind_s (read_archived e f i) (\<lambda>found. bind_s (archived_from e f ns) (\<lambda>rest. return_s (g found rest)))) (\<lambda>_. P)"
    for i and g :: "_ \<Rightarrow> _ \<Rightarrow> run_receipt list"
    by (rule ok_bind [OF ok_weaken [OF ok_read_archived [OF assms]]], assumption, erule conjunct1, rule ok_bind [OF Cons.IH], rule ok_return)
  then show ?case using Cons.IH by (simp split: option.split)
qed (auto intro: ok_return)

lemma ok_history:
  assumes "rv_codec e = c" and "codec_ok c" and "stable c {} P"
  shows "run_ok b c P (run_history e f) (\<lambda>_. P)"
proof -
  have "run_ok b c P (\<lambda>s. archived_from e f (map fst (ru_archive (s f))) s) (\<lambda>_. P)"
    using ok_archived_from [OF assms] unfolding run_ok_def by blast
  then have "run_ok b c (\<lambda>s. P s \<and> holds_now c f v s)
     (bind_s (\<lambda>s. archived_from e f (map fst (ru_archive (s f))) s) (\<lambda>archived.
        return_s (sort_history ((case v of None \<Rightarrow> [] | Some r \<Rightarrow> [r]) @ archived)))) (\<lambda>_. P)" for v
    by (rule ok_bind [OF ok_weaken [where Q' = "\<lambda>_. P"]]) (auto intro: ok_return)
  from ok_bind [OF ok_current [OF assms] this] show ?thesis by (simp add: run_history_def)
qed

lemma ok_find:
  assumes "rv_codec e = c" and "codec_ok c" and "stable c {} P"
  shows "run_ok b c P (receipt_find e f i) (\<lambda>_. P)"
proof -
  have arch: "run_ok b c (\<lambda>s. P s \<and> holds_now c f v s) (read_archived e f i) (\<lambda>_. P)" for v
    by (rule ok_weaken [OF ok_read_archived [OF assms]]) auto
  have "run_ok b c (\<lambda>s. P s \<and> holds_now c f v s)
     (case v of Some r \<Rightarrow> if rr_id r = i then return_s (Some r) else read_archived e f i | None \<Rightarrow> read_archived e f i) (\<lambda>_. P)" for v
    using arch [of v] by (cases v) (auto intro: ok_return)
  from ok_bind [OF ok_current [OF assms] this] show ?thesis by (simp add: receipt_find_def)
qed

section \<open>The import of a board\<close>

lemma ok_any: "run_ok b c P m Q \<Longrightarrow> run_ok b c P m (\<lambda>_ _. True)"
  unfolding run_ok_def by blast

text \<open>Writing the boards and removing one; no run is asked to continue.\<close>

lemma ok_boards:
  assumes "\<And>s g. ru_current (h s g) = ru_current (s g) \<and> ru_archive (h s g) = ru_archive (s g)"
  shows "run_ok False c (\<lambda>_. True) (modify_s h) (\<lambda>_ _. True)"
  by (rule run_okI)
     (auto simp: modify_s_def runs_typed_def archive_grows_def archived_as_def get_current_def assms)

lemmas ok_parts = ok_any [OF ok_current] ok_any [OF ok_history] ok_any [OF ok_archive] ok_any [OF ok_disk] ok_any [OF ok_lift]
  ok_any [OF ok_read_archived] ok_any [OF ok_gets] ok_any [OF ok_guard] ok_any [OF ok_transition]

lemma ok_find_import:
  assumes "rv_codec e = c" and "codec_ok c"
  shows "run_ok b c (\<lambda>_. True) (find_import e f h) (\<lambda>_ _. True)"
proof -
  have "run_ok b c (\<lambda>_. True)
      (case (case v of Some r \<Rightarrow> if imported_from r h then Some r else None | None \<Rightarrow> None) of
         Some r \<Rightarrow> return_s (Some r)
       | None \<Rightarrow> bind_s (run_history e f) (\<lambda>rs. return_s (find (\<lambda>r. imported_from r h) rs))) (\<lambda>_ _. True)" for v
    by (auto split: option.split intro!: ok_return ok_bind [OF ok_parts(2) [OF assms stable_True]])
  from ok_bind [OF ok_parts(1) [OF assms stable_True] this] show ?thesis by (simp add: find_import_def)
qed

lemma ok_archive_board: "run_ok False c (\<lambda>_. True) (archive_board e f h t) (\<lambda>_ _. True)"
proof -
  have put: "run_ok False c (\<lambda>_. True) (modify_s (\<lambda>s. s(f := (s f)\<lparr>ru_boards := bt_insert h u (ru_boards (s f))\<rparr>))) (\<lambda>_ _. True)" for u
    by (rule ok_boards) simp
  have "run_ok False c (\<lambda>_. True) (case v of
          Some u \<Rightarrow> if trim_end u = trim_end t then return_s (archived_board (rv_layout e) f h)
                    else fail_s (board_archive_conflict (archived_board (rv_layout e) f h))
        | None \<Rightarrow>
            bind_s (disk_s e (EnsureBoardDir f)) (\<lambda>_.
            bind_s (lift_s (map_sum board_archive_unreadable id (rv_parse e t))) (\<lambda>v.
            bind_s (lift_s (rv_canonical e v)) (\<lambda>t.
            bind_s (disk_s e (WriteBoardArchive f h)) (\<lambda>_.
            bind_s (modify_s (\<lambda>s. s(f := (s f)\<lparr>ru_boards := bt_insert h t (ru_boards (s f))\<rparr>))) (\<lambda>_.
              return_s (archived_board (rv_layout e) f h))))))) (\<lambda>_ _. True)" for v
    by (auto split: option.split intro!: ok_return ok_fail ok_bind [OF put] ok_bind [OF ok_parts(4)] ok_bind [OF ok_parts(5)])
  from ok_bind [OF ok_parts(7) this] show ?thesis by (simp add: archive_board_def Let_def)
qed

lemma ok_import_store:
  assumes "rv_codec e = c" and "codec_ok c"
  shows "run_ok False c (\<lambda>_. True) (import_store e f r) (\<lambda>_ _. True)"
proof -
  have wr: "run_ok False c (\<lambda>_. True) (receipt_write e r) (\<lambda>_ _. True)"
    by (rule ok_weaken [OF ok_write [OF assms, where P = "\<lambda>_. True" and Q = "\<lambda>_. True"]]) auto
  have rm: "run_ok False c (\<lambda>_. True) (remove_current e f) (\<lambda>_ _. True)"
    by (rule ok_weaken [OF ok_remove [where P = "\<lambda>_. True" and Q = "\<lambda>_. True"]]) auto
  have board: "run_ok False c (\<lambda>_. True) (modify_s (\<lambda>s. s(f := (s f)\<lparr>ru_board := NoFile\<rparr>))) (\<lambda>_ _. True)"
    by (rule ok_boards) simp
  show ?thesis unfolding import_store_def
    by (intro ok_bind [OF ok_parts(6) [OF assms stable_True]] ok_bind [OF ok_parts(3) [OF assms stable_True]]
        ok_bind [OF ok_parts(7)] ok_bind [OF ok_parts(4)] board ok_bind [OF ok_if [OF wr ok_return]] ok_bind [OF ok_if [OF rm ok_return]]) auto
qed

lemma ok_import_typed:
  assumes "rv_codec e = c" and "codec_ok c"
  shows "run_ok False c (\<lambda>_. True) (run_import e f plan i at) (\<lambda>_ _. True)"
proof -
  have guard: "run_ok False c (\<lambda>_. True) (guard_conflict e f h) (\<lambda>_ _. True)" for h
    unfolding guard_conflict_def by (rule ok_bind [OF ok_parts(1) [OF assms stable_True]], rule ok_parts(5))
  have "run_ok False c (\<lambda>_. True) (case v of
         None \<Rightarrow> return_s None
       | Some v \<Rightarrow>
           bind_s (lift_s (board_normalize (board_path (rv_layout e) f) v)) (\<lambda>normalized.
           bind_s (lift_s (rv_canonical e normalized)) (\<lambda>canonical.
             let h = rv_hash e canonical in
             bind_s (find_import e f h) (\<lambda>existing.
             bind_s (guard_conflict e f h) (\<lambda>_.
             bind_s (archive_board e f h canonical) (\<lambda>archived.
             bind_s (lift_s (import_receipt e f plan i at normalized h archived existing)) (\<lambda>r.
             bind_s (import_store e f r) (\<lambda>_.
               return_s (Some \<lparr>im_receipt = r, im_archived_board = archived, im_resumed = (existing \<noteq> None)\<rparr>))))))))) (\<lambda>_ _. True)" for v
    unfolding Let_def
    by (auto split: option.split intro!: ok_return ok_bind [OF guard] ok_bind [OF ok_import_store [OF assms]]
        ok_bind [OF ok_archive_board] ok_bind [OF ok_find_import [OF assms]] ok_bind [OF ok_parts(5)])
  from ok_bind [OF ok_parts(7) this] show ?thesis by (simp add: run_import_def)
qed

lemma import_without_board: "ru_board (s f) = NoFile \<Longrightarrow> run_import e f plan i at s = (Inr None, s)"
  by (simp add: run_import_def bind_s_def gets_s_def json_read_def return_s_def)

lemma ok_import_legacy:
  assumes "rv_codec (xe_run x) = c" and "codec_ok c"
  shows "run_ok b c (\<lambda>_. True) (import_legacy x f plan) (\<lambda>_ _. True)"
proof -
  have "run_ok b c (\<lambda>_. True) (run_import (xe_run x) f plan i (xe_now x)) (\<lambda>_ _. True)" for i
  proof (rule run_okI)
    fix s r s' assume s: "runs_typed c s" "True" and run: "run_import (xe_run x) f plan i (xe_now x) s = (r, s')"
    have "runs_continue c s s'"
    proof (cases "no_boards s")
      case True
      with import_without_board run have "s' = s" by (simp add: no_boards_def)
      then show ?thesis by simp
    qed (simp add: runs_continue_def)
    with run_okD [OF ok_import_typed [OF assms] s run]
    show "runs_typed c s' \<and> archive_grows c s s' \<and> (b \<longrightarrow> runs_continue c s s') \<and> (\<forall>y. r = Inr y \<longrightarrow> True)" by blast
  qed
  then show ?thesis unfolding import_legacy_def
    by (intro ok_bind [OF ok_parts(5)] ok_bind ok_return) auto
qed

section \<open>The verbs\<close>

lemma ok_lift_bind: "(\<And>x. r = Inr x \<Longrightarrow> run_ok b c P (k x) S) \<Longrightarrow> run_ok b c P (bind_s (lift_s r) k) S"
  by (cases r) (auto simp: bind_s_def lift_s_def run_ok_def)

lemma ok_guard_bind: "(g \<Longrightarrow> run_ok b c P (k ()) S) \<Longrightarrow> run_ok b c P (bind_s (guard_s g e) k) S"
  by (cases g) (auto simp: bind_s_def guard_s_def run_ok_def)

lemma ok_disk_bind: "run_ok b c P (k ()) S \<Longrightarrow> run_ok b c P (bind_s (disk_s e a) k) S"
  by (rule ok_bind [OF ok_disk]) simp

lemma ok_gets_bind: "(\<And>x. run_ok b c P (k x) S) \<Longrightarrow> run_ok b c P (bind_s (gets_s g) k) S"
  by (rule ok_bind [OF ok_gets], rule ok_weaken [where P = P and Q = S]) auto

lemma ok_prod: "(\<And>y z. x = (y, z) \<Longrightarrow> run_ok b c P (g y z) S) \<Longrightarrow> run_ok b c P (case x of (y, z) \<Rightarrow> g y z) S"
  by (cases x) simp

lemma ok_rewrite:
  assumes "rv_codec e = c" and "codec_ok c" and "rtranclp run_step q r"
  shows "run_ok b c (holds_now c f (Some q)) (receipt_write e r) (\<lambda>_. holds_now c f (Some r))"
proof (cases "rr_feature q = f")
  case True
  then have f: "rr_feature r = f" using run_steps_identity [OF assms(3)] by simp
  have "run_ok b c (holds_now c f (Some q)) (receipt_write e r) (\<lambda>_ s. True \<and> holds_now c (rr_feature r) (Some r) s)"
    by (rule ok_write [OF assms(1,2)]) (auto simp: may_write_def holds_now_def f intro: assms(3))
  then show ?thesis by (simp add: f)
next
  case False
  then show ?thesis by (auto simp: run_ok_def holds_now_def runs_typed_def)
qed

lemma ok_update:
  assumes "rv_codec e = c" and "codec_ok c" and "\<And>r. t = Inr r \<Longrightarrow> rtranclp run_step q r"
    and "\<And>r. run_ok b c (holds_now c f (Some r)) (k r) S"
  shows "run_ok b c (holds_now c f (Some q)) (bind_s (transition_s t) (\<lambda>r. bind_s (receipt_write e r) (\<lambda>_. k r))) S"
  unfolding transition_s_def
proof (rule ok_lift_bind)
  fix r assume "map_sum run_transition_failure id t = Inr r"
  then have "t = Inr r" by (cases t) auto
  from ok_bind [OF ok_rewrite [OF assms(1,2) assms(3) [OF this]] assms(4)]
  show "run_ok b c (holds_now c f (Some q)) (bind_s (receipt_write e r) (\<lambda>_. k r)) S" .
qed

lemma ok_end: "run_ok b c P (return_s x) (\<lambda>_ _. True)"
  by (rule ok_return) simp

lemma ok_the_current:
  assumes "rv_codec (xe_run x) = c" and "codec_ok c"
  shows "run_ok b c (\<lambda>_. True) (the_current x f) (\<lambda>r. holds_now c f (Some r))"
proof -
  have "run_ok b c (\<lambda>s. True \<and> holds_now c f v s) (case v of None \<Rightarrow> fail_s (run_missing f) | Some r \<Rightarrow> return_s r)
      (\<lambda>r. holds_now c f (Some r))" for v
    by (cases v) (auto intro: ok_fail ok_return)
  from ok_bind [OF ok_current [OF assms stable_True] this] show ?thesis by (simp add: the_current_def)
qed

lemma ok_archive_any:
  assumes "rv_codec e = c" and "codec_ok c"
  shows "run_ok b c P (archive_current e f) (\<lambda>_ s. get_current f s = NoFile)"
  by (rule ok_weaken [OF ok_archive_current [OF assms]]) auto

lemma ok_checkpoint:
  assumes "rv_codec (xe_run x) = c" and "codec_ok c"
  shows "run_ok b c (\<lambda>_. True) (execute_checkpoint x i) (\<lambda>_ _. True)"
  unfolding execute_checkpoint_def
  by (intro ok_lift_bind ok_bind [OF ok_the_current [OF assms]] ok_prod ok_update [OF assms] r_into_rtranclp run_step.wave ok_end)
     assumption

lemma ok_accept:
  assumes "rv_codec (xe_run x) = c" and "codec_ok c"
  shows "run_ok b c (\<lambda>_. True) (execute_accept_revision x fe pl) (\<lambda>_ _. True)"
  unfolding execute_accept_revision_def Let_def
  by (intro ok_lift_bind ok_bind [OF ok_import_legacy [OF assms]] ok_guard_bind ok_bind [OF ok_the_current [OF assms]] ok_prod
      ok_update [OF assms] r_into_rtranclp run_step.accept_revision ok_end) assumption

lemma ok_interrupt:
  assumes "rv_codec (xe_run x) = c" and "codec_ok c"
  shows "run_ok b c (\<lambda>_. True) (execute_interrupt x fe) (\<lambda>_ _. True)"
  unfolding execute_interrupt_def
  by (intro ok_lift_bind ok_bind [OF ok_the_current [OF assms]] ok_guard_bind ok_update [OF assms]
      r_into_rtranclp run_step.interrupt ok_bind [OF ok_archive_any [OF assms]] ok_end) assumption

lemma ok_finish:
  assumes "rv_codec (xe_run x) = c" and "codec_ok c"
  shows "run_ok b c (\<lambda>_. True) (execute_finish x i) (\<lambda>_ _. True)"
proof -
  have "run_ok b c (holds_now c f (Some r)) (finish_with x f fp out rep diff s p r) (\<lambda>_ _. True)" for f fp out rep diff s p r
    unfolding finish_with_def
    by (intro ok_if ok_update [OF assms] r_into_rtranclp ok_fail ok_bind [OF ok_archive_any [OF assms]] ok_end;
        (rule run_step.diverge run_step.block run_step.terminate, assumption)?)
  then show ?thesis
    unfolding execute_finish_def Let_def
    by (intro ok_lift_bind ok_bind [OF ok_import_legacy [OF assms]] ok_bind [OF ok_the_current [OF assms]] ok_prod)
qed

lemma ok_start_new:
  assumes "rv_codec (xe_run x) = c" and "codec_ok c"
  shows "run_ok b c (\<lambda>s. get_current f s = NoFile) (start_new x f plan mode k) (\<lambda>_ _. True)"
proof -
  have "run_ok b c (\<lambda>s. get_current f s = NoFile)
      (receipt_write (xe_run x) (with_mode m (run_start i f plan fp base se pr at))) (\<lambda>_ _. True)" for m i fp base se pr at
    by (rule ok_any [OF ok_write [OF assms, where Q = "\<lambda>_. True"]]) (simp_all add: may_write_def with_mode_def run_start_def)
  then show ?thesis unfolding start_new_def Let_def
    by (intro ok_lift_bind ok_bind) (auto intro: ok_end)
qed

lemma change_mode_step: "map_sum id snd (change_mode m s p at r) = Inr r' \<Longrightarrow> run_step r r'"
  by (cases "change_mode m s p at r") (auto intro: run_step.change_mode)

lemma ok_start_resume:
  assumes "rv_codec (xe_run x) = c" and "codec_ok c"
  shows "run_ok b c (holds_now c f (Some r)) (start_resume x mode k r) (\<lambda>_ _. True)"
  unfolding start_resume_def transition_s_def
proof (rule ok_lift_bind)
  fix r' assume "map_sum run_transition_failure id (run_resume (sc_session k) (sc_provider k) (xe_now x) r) = Inr r'"
  then have r': "run_step r r'" by (cases "run_resume (sc_session k) (sc_provider k) (xe_now x) r") (auto intro: run_step.resume)
  have wr: "run_ok b c (holds_now c f (Some r)) (bind_s (receipt_write (xe_run x) q) (\<lambda>_. return_s q)) (\<lambda>_ _. True)"
    if "rtranclp run_step r q" for q
    by (rule ok_bind [OF ok_rewrite [OF assms that] ok_end])
  show "run_ok b c (holds_now c f (Some r))
      (bind_s (case mode of None \<Rightarrow> return_s r'
        | Some m \<Rightarrow> lift_s (map_sum run_transition_failure id (map_sum id snd (change_mode m (sc_session k) (sc_provider k) (xe_now x) r'))))
       (\<lambda>r. bind_s (receipt_write (xe_run x) r) (\<lambda>_. return_s r))) (\<lambda>_ _. True)"
  proof (cases mode)
    case None
    with wr [of r'] r' show ?thesis by (auto simp: bind_s_def return_s_def run_ok_def)
  next
    case (Some m)
    have "run_ok b c (holds_now c f (Some r))
      (bind_s (lift_s (map_sum run_transition_failure id (map_sum id snd (change_mode m (sc_session k) (sc_provider k) (xe_now x) r'))))
       (\<lambda>r. bind_s (receipt_write (xe_run x) r) (\<lambda>_. return_s r))) (\<lambda>_ _. True)"
    proof (rule ok_lift_bind, rule wr)
      fix q assume "map_sum run_transition_failure id (map_sum id snd (change_mode m (sc_session k) (sc_provider k) (xe_now x) r')) = Inr q"
      then have "run_step r' q" by (cases "change_mode m (sc_session k) (sc_provider k) (xe_now x) r'") (auto intro: run_step.change_mode)
      with r' show "rtranclp run_step r q" by auto
    qed
    with Some show ?thesis by simp
  qed
qed

lemma ok_start:
  assumes "rv_codec (xe_run x) = c" and "codec_ok c"
  shows "run_ok b c (\<lambda>_. True) (execute_start x i) (\<lambda>_ _. True)"
proof -
  note fresh = ok_bind [OF ok_archive_any [OF assms] ok_start_new [OF assms]]
  have restart: "run_ok b c (holds_now c f (Some r)) (start_restart x f r) (\<lambda>_ s. get_current f s = NoFile)" for f r
    unfolding start_restart_def
    by (intro ok_update [OF assms] r_into_rtranclp ok_bind [OF ok_archive_any [OF assms]])
       (auto intro: ok_return run_step.interrupt)
  have "run_ok b c (\<lambda>s. True \<and> holds_now c f v s) (case v of
         None \<Rightarrow> start_new x f plan mode k
       | Some r \<Rightarrow>
           if si_restart i \<and> holds_lock (rr_status r)
           then bind_s (start_restart x f r) (\<lambda>_. start_new x f plan mode k)
           else if si_resume i then start_resume x mode k r
           else if holds_lock (rr_status r) then fail_s (run_active f r)
           else bind_s (archive_current (xe_run x) f) (\<lambda>_. start_new x f plan mode k)) (\<lambda>_ _. True)" for f v plan mode k
  proof (cases v)
    case None
    then show ?thesis using ok_start_new [OF assms] by (simp add: holds_now_def)
  next
    case (Some r)
    have "run_ok b c (holds_now c f (Some r)) (bind_s (start_restart x f r) (\<lambda>_. start_new x f plan mode k)) (\<lambda>_ _. True)"
      by (rule ok_bind [OF restart ok_start_new [OF assms]])
    with Some show ?thesis using fresh ok_start_resume [OF assms] by (simp add: ok_fail)
  qed
  from ok_bind [OF ok_current [OF assms stable_True] this]
  have "run_ok b c (\<lambda>_. True) (start_locked x f plan i mode k) (\<lambda>_ _. True)" for f plan mode k
    by (simp add: start_locked_def)
  then show ?thesis unfolding execute_start_def Let_def
    by (intro ok_guard_bind ok_lift_bind ok_bind [OF ok_import_legacy [OF assms]] ok_disk_bind)
qed

lemma ok_status:
  assumes "rv_codec (xe_run x) = c" and "codec_ok c"
  shows "run_ok b c (\<lambda>_. True) (execute_status x i) (\<lambda>_ _. True)"
proof -
  have "run_ok b c (\<lambda>_. True) (status_receipts x f i) (\<lambda>_ _. True)" for f
    unfolding status_receipts_def
    by (auto split: option.split intro!: ok_lift_bind ok_bind [OF ok_find [OF assms stable_True]] ok_bind [OF ok_history [OF assms stable_True]] ok_end)
  then show ?thesis unfolding execute_status_def
    by (intro ok_lift_bind ok_bind [OF ok_import_legacy [OF assms]] ok_bind) (auto intro: ok_fail ok_end)
qed

section \<open>Sequences of calls\<close>

datatype execute_verb =
    StartCall start_input
  | CheckpointCall checkpoint_input
  | FinishCall finish_input
  | AcceptCall string "string option"
  | InterruptCall string
  | StatusCall status_input

fun execute_call :: "execute_env \<Rightarrow> execute_verb \<Rightarrow> run_disks \<Rightarrow> run_disks" where
  "execute_call x (StartCall i) s = snd (execute_start x i s)"
| "execute_call x (CheckpointCall i) s = snd (execute_checkpoint x i s)"
| "execute_call x (FinishCall i) s = snd (execute_finish x i s)"
| "execute_call x (AcceptCall f p) s = snd (execute_accept_revision x f p s)"
| "execute_call x (InterruptCall f) s = snd (execute_interrupt x f s)"
| "execute_call x (StatusCall i) s = snd (execute_status x i s)"

text \<open>Each call has its own environment: the plan, the sessions and the disk may have changed.\<close>

fun execute_calls :: "(execute_env \<times> execute_verb) list \<Rightarrow> run_disks \<Rightarrow> run_disks" where
  "execute_calls [] s = s"
| "execute_calls ((x, call) # calls) s = execute_calls calls (execute_call x call s)"

lemma run_ok_state:
  "run_ok True c (\<lambda>_. True) m Q \<Longrightarrow> runs_typed c s \<Longrightarrow>
     runs_typed c (snd (m s)) \<and> archive_grows c s (snd (m s)) \<and> runs_continue c s (snd (m s))"
  using run_okD [of True c "\<lambda>_. True" m Q s "fst (m s)" "snd (m s)"] by simp

lemma execute_call_ok:
  assumes "rv_codec (xe_run x) = c" and "codec_ok c" and "runs_typed c s"
  shows "runs_typed c (execute_call x call s) \<and> archive_grows c s (execute_call x call s) \<and> runs_continue c s (execute_call x call s)"
  using run_ok_state [OF ok_start [OF assms(1,2)] assms(3)] run_ok_state [OF ok_checkpoint [OF assms(1,2)] assms(3)]
    run_ok_state [OF ok_finish [OF assms(1,2)] assms(3)] run_ok_state [OF ok_accept [OF assms(1,2)] assms(3)]
    run_ok_state [OF ok_interrupt [OF assms(1,2)] assms(3)] run_ok_state [OF ok_status [OF assms(1,2)] assms(3)]
  by (cases call) simp_all

lemma execute_calls_ok:
  assumes "\<forall>(x, _) \<in> set calls. rv_codec (xe_run x) = c" and "codec_ok c" and "runs_typed c s"
  shows "runs_typed c (execute_calls calls s) \<and> archive_grows c s (execute_calls calls s) \<and> runs_continue c s (execute_calls calls s)"
  using assms(1,3)
proof (induction calls arbitrary: s)
  case (Cons xc calls)
  obtain x call where xc: "xc = (x, call)" by (cases xc)
  with Cons.prems(1) have "rv_codec (xe_run x) = c" by simp
  note one = execute_call_ok [OF this assms(2) Cons.prems(2), of call]
  have "\<forall>(x, _) \<in> set calls. rv_codec (xe_run x) = c" using Cons.prems(1) by simp
  from Cons.IH [OF this] one show ?case
    using archive_grows_trans runs_continue_trans unfolding xc execute_calls.simps by blast
qed simp

section \<open>A board that costs a run\<close>

lemma ok_import_store_ends:
  assumes "rv_codec e = c" and "codec_ok c" and "archive_name (rr_id r) \<noteq> n"
  shows "run_ok False c (\<lambda>s. archived_as c s f n = None) (import_store e f r)
    (\<lambda>_ s. archived_as c s f n = None \<and> get_current f s = NoFile)"
proof -
  let ?P = "\<lambda>s. archived_as c s f n = None"
  have wr: "run_ok False c ?P (receipt_write e r) (\<lambda>_. ?P)"
    by (rule ok_weaken [OF ok_write [OF assms(1,2), where P = ?P and Q = ?P]]) auto
  have rm: "run_ok False c (\<lambda>s. ?P s \<and> Inr (get_current f s \<noteq> NoFile) = (Inr there :: failure + bool))
      (if there then remove_current e f else return_s ()) (\<lambda>_ s. ?P s \<and> get_current f s = NoFile)" for there
    by (rule ok_if) (auto intro!: ok_return ok_weaken [OF ok_remove [where P = ?P and Q = ?P]])
  have board: "run_ok False c (\<lambda>s. ?P s \<and> get_current f s = NoFile) (modify_s (\<lambda>s. s(f := (s f)\<lparr>ru_board := NoFile\<rparr>)))
      (\<lambda>_ s. ?P s \<and> get_current f s = NoFile)"
    by (rule run_okI) (auto simp: modify_s_def runs_typed_def archive_grows_def archived_as_def get_current_def)
  have st: "stable c {} ?P" "stable c {(rr_feature r, archive_name (rr_id r))} ?P" using assms(3) by (auto intro: stable_archived)
  have w: "run_ok False c ?P (if found = None then receipt_write e r else return_s ()) (\<lambda>_. ?P)" for found :: "run_receipt option"
    using wr by (auto intro: ok_return)
  have a: "run_ok False c ?P (archive_run e r) (\<lambda>_. ?P)"
    by (rule ok_weaken [OF ok_archive [OF assms(1,2) st(2)]]) auto
  have ra: "run_ok False c ?P (read_archived e f (rr_id r)) (\<lambda>_. ?P)"
    by (rule ok_weaken [OF ok_read_archived [OF assms(1,2) st(1)]]) auto
  show ?thesis unfolding import_store_def
    by (rule ok_bind [OF ra], rule ok_bind [OF w], rule ok_bind [OF a], rule ok_bind [OF ok_gets], rule ok_bind [OF rm],
        rule ok_disk_bind, rule board)
qed

lemma ok_find_import_kept:
  assumes "rv_codec e = c" and "codec_ok c" and "stable c {} P"
  shows "run_ok b c P (find_import e f h) (\<lambda>_. P)"
proof -
  have "run_ok b c (\<lambda>s. P s \<and> holds_now c f v s)
      (case (case v of Some r \<Rightarrow> if imported_from r h then Some r else None | None \<Rightarrow> None) of
         Some r \<Rightarrow> return_s (Some r)
       | None \<Rightarrow> bind_s (run_history e f) (\<lambda>rs. return_s (find (\<lambda>r. imported_from r h) rs))) (\<lambda>_. P)" for v
    by (auto split: option.split intro!: ok_return ok_bind [OF ok_weaken [OF ok_history [OF assms], where Q' = "\<lambda>_. P"]])
  from ok_bind [OF ok_current [OF assms] this] show ?thesis by (simp add: find_import_def)
qed

lemma ok_archive_board_kept: "run_ok False c (\<lambda>s. archived_as c s g n = v) (archive_board e f h t) (\<lambda>_ s. archived_as c s g n = v)"
proof -
  let ?P = "\<lambda>s. archived_as c s g n = v"
  have put: "run_ok False c ?P (modify_s (\<lambda>s. s(f := (s f)\<lparr>ru_boards := bt_insert h u (ru_boards (s f))\<rparr>))) (\<lambda>_. ?P)" for u
    by (rule run_okI) (auto simp: modify_s_def runs_typed_def archive_grows_def archived_as_def get_current_def)
  have "run_ok False c ?P (case w of
          Some u \<Rightarrow> if trim_end u = trim_end t then return_s (archived_board (rv_layout e) f h)
                    else fail_s (board_archive_conflict (archived_board (rv_layout e) f h))
        | None \<Rightarrow>
            bind_s (disk_s e (EnsureBoardDir f)) (\<lambda>_.
            bind_s (lift_s (map_sum board_archive_unreadable id (rv_parse e t))) (\<lambda>v.
            bind_s (lift_s (rv_canonical e v)) (\<lambda>t.
            bind_s (disk_s e (WriteBoardArchive f h)) (\<lambda>_.
            bind_s (modify_s (\<lambda>s. s(f := (s f)\<lparr>ru_boards := bt_insert h t (ru_boards (s f))\<rparr>))) (\<lambda>_.
              return_s (archived_board (rv_layout e) f h))))))) (\<lambda>_. ?P)" for w
    by (auto split: option.split intro!: ok_return ok_fail ok_bind [OF put] ok_disk_bind ok_lift_bind)
  from ok_gets_bind [OF this] show ?thesis by (simp add: archive_board_def Let_def)
qed

lemma ok_import_ends:
  assumes "rv_codec e = c" and "codec_ok c"
  shows "run_ok False c (\<lambda>s. archived_as c s f n = None) (run_import e f plan i at)
    (\<lambda>done s. \<forall>im. done = Some im \<and> archive_name (rr_id (im_receipt im)) \<noteq> n
       \<longrightarrow> archived_as c s f n = None \<and> get_current f s = NoFile)"
proof -
  let ?P = "\<lambda>s. archived_as c s f n = None"
  let ?Q = "\<lambda>done s. \<forall>im. done = Some im \<and> archive_name (rr_id (im_receipt im)) \<noteq> n \<longrightarrow> ?P s \<and> get_current f s = NoFile"
  have st: "stable c {} ?P" by (auto intro: stable_archived)
  have last: "run_ok False c ?P (bind_s (import_store e f r) (\<lambda>_. return_s (Some \<lparr>im_receipt = r, im_archived_board = a, im_resumed = m\<rparr>))) ?Q" for r a m
  proof (cases "archive_name (rr_id r) = n")
    case True
    show ?thesis
      by (rule ok_bind [OF ok_weaken [OF ok_import_store [OF assms]]], simp, assumption, rule ok_return) (simp add: True)
  next
    case False
    show ?thesis
      by (rule ok_bind [OF ok_import_store_ends [OF assms False]], rule ok_return) simp
  qed
  have guard: "run_ok False c ?P (guard_conflict e f h) (\<lambda>_. ?P)" for h
    unfolding guard_conflict_def
    by (rule ok_bind [OF ok_current [OF assms st]], rule ok_weaken [OF ok_lift [where P = ?P]]) auto
  have "run_ok False c ?P (case v of
         None \<Rightarrow> return_s None
       | Some v \<Rightarrow>
           bind_s (lift_s (board_normalize (board_path (rv_layout e) f) v)) (\<lambda>normalized.
           bind_s (lift_s (rv_canonical e normalized)) (\<lambda>canonical.
             let h = rv_hash e canonical in
             bind_s (find_import e f h) (\<lambda>existing.
             bind_s (guard_conflict e f h) (\<lambda>_.
             bind_s (archive_board e f h canonical) (\<lambda>archived.
             bind_s (lift_s (import_receipt e f plan i at normalized h archived existing)) (\<lambda>r.
             bind_s (import_store e f r) (\<lambda>_.
               return_s (Some \<lparr>im_receipt = r, im_archived_board = archived, im_resumed = (existing \<noteq> None)\<rparr>))))))))) ?Q" for v
  proof (cases v)
    case None
    then show ?thesis by (auto intro: ok_return)
  next
    case (Some w)
    show ?thesis unfolding Let_def Some option.case
      by (intro ok_lift_bind ok_bind [OF ok_find_import_kept [OF assms st]] ok_bind [OF guard] ok_bind [OF ok_archive_board_kept] last)
  qed
  from ok_gets_bind [OF this] show ?thesis by (simp add: run_import_def)
qed

section \<open>Properties\<close>

text \<open>
  C21: whatever calls are made, and whatever writes the disk refuses, the directories stay
  typed (a receipt lies in the directory of its feature; an archived one lies under its own id
  and has ended, so the only run that can be live is the current one) and an archived run is
  never changed or removed.
\<close>

theorem runs_stay_typed:
  assumes "\<forall>(x, _) \<in> set calls. rv_codec (xe_run x) = c" and "codec_ok c" and "runs_typed c s"
  shows "runs_typed c (execute_calls calls s)
    \<and> (\<forall>f n r. archived_as c s f n = Some r \<longrightarrow> archived_as c (execute_calls calls s) f n = Some r)
    \<and> (\<forall>f r. recorded c (execute_calls calls s) f r \<and> holds_lock (rr_status r)
         \<longrightarrow> held c (get_current f (execute_calls calls s)) = Some r)"
  using execute_calls_ok [OF assms]
  by (auto simp: archive_grows_def recorded_def runs_typed_def holds_lock_def)

text \<open>
  C20: without boards from an old version no run is ever lost: a run that is recorded is still
  recorded after any calls, under its id, with a receipt its operations lead to, and unchanged
  once it has ended.
\<close>

theorem no_run_lost:
  assumes "\<forall>(x, _) \<in> set calls. rv_codec (xe_run x) = c" and "codec_ok c" and "runs_typed c s"
    and "no_boards s" and "recorded c s f r"
  shows "\<exists>r'. recorded c (execute_calls calls s) f r' \<and> rr_id r' = rr_id r \<and> rtranclp run_step r r'
    \<and> (is_terminal (rr_status r) \<longrightarrow> r' = r)"
proof -
  from execute_calls_ok [OF assms(1-3)] assms(4,5)
  obtain r' where "recorded c (execute_calls calls s) f r'" "rtranclp run_step r r'" unfolding runs_continue_def by blast
  then show ?thesis using run_steps_identity is_terminal_step by blast
qed

text \<open>
  C33: importing a board loses a run: an ended run that is still the current one, because
  archiving it failed, is overwritten or removed by an import that succeeds.
\<close>

theorem import_loses_run:
  assumes "rv_codec e = c" and "codec_ok c" and "runs_typed c s" and "rr_provenance r = Native"
    and "held c (get_current f s) = Some r" and "archived_as c s f (archive_name (rr_id r)) = None"
    and "run_import e f plan i at s = (Inr (Some im), s')" and "rr_id (im_receipt im) \<noteq> rr_id r"
  shows "\<forall>r'. rr_id r' = rr_id r \<longrightarrow> \<not> recorded c s' f r'"
proof -
  have "archive_name (rr_id (im_receipt im)) \<noteq> archive_name (rr_id r)"
    using assms(8) by (auto simp: archive_name_def intro: run_id.expand)
  with run_okD [OF ok_import_ends [OF assms(1,2)] assms(3,6,7)]
  have "archived_as c s' f (archive_name (rr_id r)) = None" "get_current f s' = NoFile" by auto
  then show ?thesis by (auto simp: recorded_def)
qed

section \<open>Witnesses\<close>

text \<open>A codec that numbers the receipts it knows.\<close>

definition codec_of :: "run_receipt list \<Rightarrow> run_receipt codec" where
  "codec_of rs =
     \<lparr>cd_to_value = (\<lambda>r. case find (\<lambda>i. rs ! i = r) [0..<length rs] of
          Some i \<Rightarrow> Inr (JObject [(''receipt'', JUInt i)]) | None \<Rightarrow> Inl ''unknown receipt''),
      cd_from_value = (\<lambda>v. case v of
          JObject m \<Rightarrow> (case obj_get m ''receipt'' of Some (JUInt i) \<Rightarrow> if i < length rs then Inr (rs ! i) else Inl ''no such receipt'' | _ \<Rightarrow> Inl ''no receipt'')
        | _ \<Rightarrow> Inl ''no receipt'')\<rparr>"

lemma codec_of_ok: "codec_ok (codec_of rs)"
  unfolding codec_ok_def
proof (intro allI impI conjI)
  fix r j n assume "cd_to_value (codec_of rs) r = Inr j"
  then obtain i where i: "find (\<lambda>i. rs ! i = r) [0..<length rs] = Some i" "j = JObject [(''receipt'', JUInt i)]"
    by (auto simp: codec_of_def split: option.splits)
  then show "\<exists>m. j = JObject m" by blast
  from i(1) have "i < length rs" "rs ! i = r" by (auto simp: find_Some_iff)
  then show "cd_from_value (codec_of rs) (stamp_version n j) = Inr r"
    by (simp add: codec_of_def i(2) stamp_version_def obj_get_def)
qed

abbreviation checkout :: feature_name where "checkout \<equiv> FeatureName ''checkout''"

definition imported_run :: run_receipt where
  "imported_run = run_from_legacy (RunId ''r2'') checkout ''plan.md'' Succeeded (Some OutSucceeded)
     \<lparr>le_source_hash = ''board'', le_board_status = ''completed'', le_plan_fingerprint = None, le_workstreams = [],
      le_sessions = [], le_journal = [], le_archived_board = archived_board (layout_at ''/h'') checkout ''board''\<rparr> ''t9''"

definition sample_codec :: "run_receipt codec" where
  "sample_codec = codec_of [sample_ended, imported_run]"

definition sample_run_env :: run_env where
  "sample_run_env =
     \<lparr>rv_layout = layout_at ''/h'', rv_codec = sample_codec, rv_uuid_ok = (\<lambda>_. True), rv_io = (\<lambda>_. None),
      rv_hash = (\<lambda>_. ''board''), rv_canonical = (\<lambda>_. Inr ''{}''), rv_parse = (\<lambda>_. Inr (JObject [])),
      rv_board_dto = (\<lambda>_. Inr \<lparr>bd_status = ''completed'', bd_fingerprint = None, bd_workstreams = [], bd_journal = [], bd_sessions = []\<rparr>)\<rparr>"

definition receipt_doc :: "nat \<Rightarrow> disk_file" where
  "receipt_doc i = Doc (JObject [(''receipt'', JUInt i), (''version'', JUInt 2)])"

text \<open>An ended run whose archiving failed, and an old board.\<close>

definition sample_disks :: "disk_file \<Rightarrow> run_disks" where
  "sample_disks board = (\<lambda>f. if f = checkout then \<lparr>ru_current = receipt_doc 0, ru_archive = [], ru_board = board, ru_boards = []\<rparr>
     else \<lparr>ru_current = NoFile, ru_archive = [], ru_board = NoFile, ru_boards = []\<rparr>)"

lemma sample_held: "held sample_codec (receipt_doc 0) = Some sample_ended"
  by (simp add: held_def read_migrated_def json_read_def receipt_doc_def detect_version_def obj_get_def run_store_at_def
      guard_not_newer_def guard_has_migration_path_def has_migration_path_def run_store_migrations_def
      run_current_version_def store_deserialize_def stamp_version_def sample_codec_def codec_of_def)

lemma sample_disks_typed: "runs_typed sample_codec (sample_disks board)"
  by (auto simp: runs_typed_def sample_disks_def archived_as_def get_current_def bt_get_def bt_sorted_def sample_held)
     (simp add: sample_defs run_defs require_def push_checkpoint_def)

lemma sample_archived: "archived_as sample_codec (sample_disks board) f n = None"
  by (simp add: archived_as_def sample_disks_def bt_get_def)

theorem import_loses_run_witness:
  "\<exists>im s'. run_import sample_run_env checkout ''plan.md'' (RunId ''r2'') ''t9'' (sample_disks (Doc (JObject []))) = (Inr (Some im), s')
     \<and> recorded sample_codec (sample_disks (Doc (JObject []))) checkout sample_ended
     \<and> \<not> recorded sample_codec s' checkout sample_ended"
proof -
  let ?s = "sample_disks (Doc (JObject []))"
  let ?run = "run_import sample_run_env checkout ''plan.md'' (RunId ''r2'') ''t9'' ?s"
  have "case fst ?run of Inr (Some im) \<Rightarrow> rr_id (im_receipt im) = RunId ''r2'' | _ \<Rightarrow> False" by code_simp
  then obtain im s' where run: "?run = (Inr (Some im), s')" "rr_id (im_receipt im) = RunId ''r2''"
    by (cases ?run) (auto split: sum.splits option.splits)
  have held: "held sample_codec (get_current checkout ?s) = Some sample_ended"
    by (simp add: sample_disks_def get_current_def sample_held)
  have id: "rr_id sample_ended = RunId ''r1''" "rr_provenance sample_ended = Native"
    by (simp_all add: sample_defs run_defs require_def push_checkpoint_def)
  have "\<forall>r'. rr_id r' = rr_id sample_ended \<longrightarrow> \<not> recorded sample_codec s' checkout r'"
    by (rule import_loses_run [OF _ _ sample_disks_typed id(2) held sample_archived run(1)])
       (use run(2) id in \<open>simp_all add: sample_run_env_def codec_of_ok [unfolded sample_codec_def] sample_codec_def codec_of_ok\<close>)
  with run(1) held show ?thesis by (auto simp: recorded_def)
qed

definition sample_call_env :: execute_env where
  "sample_call_env =
     \<lparr>xe_run = sample_run_env,
      xe_world = \<lparr>wo_files = \<lparr>fi_nodes = [], fi_cwd = []\<rparr>, wo_hall = (\<lambda>_. []), wo_state = (\<lambda>_. None), wo_uuid = (\<lambda>_. True)\<rparr>,
      xe_reads = snapshot_sample 33188, xe_cwd = ''/h'', xe_read_text = (\<lambda>_. Inr None), xe_hash_file = (\<lambda>_. Inr ''''),
      xe_feature = (\<lambda>_. Inr None), xe_integrated = (\<lambda>_. Inr False), xe_approvals = (\<lambda>_. Inr None),
      xe_report = Inl, xe_lock = (\<lambda>_. Inr ()), xe_uuid = ''r3'', xe_now = ''t9''\<rparr>"

definition sample_calls :: "(execute_env \<times> execute_verb) list" where
  "sample_calls =
     [(sample_call_env, StatusCall \<lparr>ti_feature = ''checkout'', ti_plan = None, ti_history = True, ti_run = None\<rparr>),
      (sample_call_env, InterruptCall ''checkout'')]"

lemma sample_calls_codec: "\<forall>(x, _) \<in> set sample_calls. rv_codec (xe_run x) = sample_codec"
  by (simp add: sample_calls_def sample_call_env_def sample_run_env_def)

theorem runs_stay_typed_witness:
  "runs_typed sample_codec (execute_calls sample_calls (sample_disks (Doc (JObject []))))"
  using runs_stay_typed [OF sample_calls_codec _ sample_disks_typed] codec_of_ok by (simp add: sample_codec_def)

theorem no_run_lost_witness:
  "recorded sample_codec (execute_calls sample_calls (sample_disks NoFile)) checkout sample_ended"
proof -
  have nb: "no_boards (sample_disks NoFile)" by (simp add: no_boards_def sample_disks_def)
  have rec: "recorded sample_codec (sample_disks NoFile) checkout sample_ended"
    by (simp add: recorded_def sample_disks_def get_current_def sample_held)
  have "codec_ok sample_codec" by (simp add: sample_codec_def codec_of_ok)
  from no_run_lost [OF sample_calls_codec this sample_disks_typed nb rec] sample_status show ?thesis by auto
qed

end
