(* ===== verification/Cleanup_Facts.thy ===== *)
theory Cleanup_Facts
  imports Deletion Paths
begin

text \<open>
  What decides whether a feature may be cleaned up or pruned: \<open>src/src/domain/feature/cleanup.rs\<close>
  (the facts about each repository, the blockers they give, the preview) and
  \<open>cleanup/approvals.rs\<close> (the record in which a person approves the preview).
\<close>

section \<open>Delivery\<close>

record delivery_repo_facts =
  dr_repo :: repo_name
  dr_base :: "branch_name option"
  dr_clone :: bool
  dr_unmerged :: "nat option"
  dr_manifest :: bool
  dr_error :: "string option"

record delivery_facts =
  dk_repos :: "delivery_repo_facts list"
  dk_sessions :: "session_id list"
  dk_session_error :: "string option"

datatype delivery_blocker =
    DbLiveSessions "session_id list"
  | DbSessionInspectionFailed string
  | DbRepoAbsent repo_name
  | DbMissingClone repo_name
  | DbUnmerged repo_name branch_name nat
  | DbInspectionFailed repo_name string

definition delivery_blocker_display :: "delivery_blocker \<Rightarrow> string" where
  "delivery_blocker_display b =
     (case b of
        DbLiveSessions _ \<Rightarrow> ''has a live session''
      | DbSessionInspectionFailed e \<Rightarrow> ''cannot check its sessions: '' @ e
      | DbRepoAbsent r \<Rightarrow> ''repo '' @ quoted (repo_str r) @ '' is no longer in ivar.json''
      | DbMissingClone r \<Rightarrow>
          ''cannot check '' @ quoted (repo_str r) @ '' '' @ em_dash @ '' its clone is missing (run `ivar sync`)''
      | DbUnmerged r base n \<Rightarrow>
          quoted (repo_str r) @ '' has '' @ show_nat n @ '' commit(s) not merged into '' @ quoted (branch_str base)
      | DbInspectionFailed r e \<Rightarrow> ''cannot check '' @ quoted (repo_str r) @ '': '' @ e)"

datatype delivery_verdict = DeliveredVerdict | BlockedVerdict "delivery_blocker list"

definition delivery_repo_blockers :: "delivery_repo_facts \<Rightarrow> delivery_blocker list" where
  "delivery_repo_blockers r =
     (if dr_manifest r then [] else [DbRepoAbsent (dr_repo r)])
     @ (if dr_clone r then [] else [DbMissingClone (dr_repo r)])
     @ (case (dr_unmerged r, dr_base r) of
          (Some n, Some base) \<Rightarrow> if n \<ge> 1 then [DbUnmerged (dr_repo r) base n] else []
        | _ \<Rightarrow> [])
     @ (case dr_error r of Some e \<Rightarrow> [DbInspectionFailed (dr_repo r) e] | None \<Rightarrow> [])"

definition classify_delivery :: "delivery_facts \<Rightarrow> delivery_verdict" where
  "classify_delivery f =
     (let blockers =
        (if dk_sessions f = [] then [] else [DbLiveSessions (dk_sessions f)])
        @ (case dk_session_error f of Some e \<Rightarrow> [DbSessionInspectionFailed e] | None \<Rightarrow> [])
        @ concat (map delivery_repo_blockers (dk_repos f))
      in if blockers = [] then DeliveredVerdict else BlockedVerdict blockers)"

section \<open>What the forge says\<close>

datatype forge_delivery =
    ForgeMerged
  | ForgeNoPullRequest
  | ForgeMergedOtherHead nat
  | ForgeNotMerged nat string
  | ForgeUnavailable string

definition forge_detail :: "forge_delivery \<Rightarrow> string option" where
  "forge_detail d =
     (case d of
        ForgeMerged \<Rightarrow> None
      | ForgeNoPullRequest \<Rightarrow> Some ''the forge lists no pull request for this branch''
      | ForgeMergedOtherHead n \<Rightarrow>
          Some (''pull request #'' @ show_nat n @ '' merged a head other than this branch'' @ [CHR 0x27] @ ''s'')
      | ForgeNotMerged n state \<Rightarrow> Some (''pull request #'' @ show_nat n @ '' is '' @ state)
      | ForgeUnavailable reason \<Rightarrow> Some reason)"

section \<open>Cleanup facts and blockers\<close>

record cleanup_repo_facts =
  cx_repo :: repo_name
  cx_base :: "branch_name option"
  cx_feature_head :: "string option"
  cx_base_head :: "string option"
  cx_branch_exists :: bool
  cx_worktree :: bool
  cx_clone :: bool
  cx_dirty :: "bool option"
  cx_unmerged :: "nat option"
  cx_manifest :: bool
  cx_error :: "string option"
  cx_forge :: "forge_delivery option"

definition repo_delivery_facts :: "cleanup_repo_facts \<Rightarrow> delivery_repo_facts" where
  "repo_delivery_facts f =
     \<lparr>dr_repo = cx_repo f, dr_base = cx_base f, dr_clone = cx_clone f,
      dr_unmerged = (if cx_forge f = Some ForgeMerged then Some 0 else cx_unmerged f),
      dr_manifest = cx_manifest f, dr_error = cx_error f\<rparr>"

record cleanup_facts =
  cq_repos :: "cleanup_repo_facts list"
  cq_sessions :: "session_id list"
  cq_session_error :: "string option"
  cq_memory_reviewed :: bool

definition cleanup_delivery_facts :: "cleanup_facts \<Rightarrow> delivery_facts" where
  "cleanup_delivery_facts f =
     \<lparr>dk_repos = map repo_delivery_facts (cq_repos f), dk_sessions = cq_sessions f,
      dk_session_error = cq_session_error f\<rparr>"

datatype cleanup_blocker =
    CbLiveSessions "session_id list"
  | CbNotIntegrated integration_state
  | CbUnmerged repo_name branch_name nat "string option"
  | CbDirtyWorktree repo_name
  | CbMissingWorktree repo_name
  | CbMissingClone repo_name
  | CbRepoAbsent repo_name
  | CbEmptyFeature
  | CbSessionInspectionFailed string
  | CbInspectionFailed repo_name string

fun blocker_of_delivery :: "delivery_blocker \<Rightarrow> cleanup_blocker" where
  "blocker_of_delivery (DbLiveSessions ss) = CbLiveSessions ss"
| "blocker_of_delivery (DbSessionInspectionFailed e) = CbSessionInspectionFailed e"
| "blocker_of_delivery (DbRepoAbsent r) = CbRepoAbsent r"
| "blocker_of_delivery (DbMissingClone r) = CbMissingClone r"
| "blocker_of_delivery (DbUnmerged r base n) = CbUnmerged r base n None"
| "blocker_of_delivery (DbInspectionFailed r e) = CbInspectionFailed r e"

definition cleanup_blocker_display :: "cleanup_blocker \<Rightarrow> string" where
  "cleanup_blocker_display b =
     (case b of
        CbLiveSessions _ \<Rightarrow> ''has a live session''
      | CbNotIntegrated s \<Rightarrow>
          ''subfeature is '' @ quoted (integration_state_display s) @ ''; integrate or abandon it first''
      | CbUnmerged r base n forge \<Rightarrow>
          quoted (repo_str r) @ '' has '' @ show_nat n @ '' commit(s) not merged into '' @ quoted (branch_str base)
          @ (case forge of Some d \<Rightarrow> '' (forge: '' @ d @ '')'' | None \<Rightarrow> [])
      | CbDirtyWorktree r \<Rightarrow>
          ''cannot check '' @ quoted (repo_str r) @ '' '' @ em_dash @ '' it has uncommitted changes''
      | CbMissingWorktree r \<Rightarrow>
          ''cannot check '' @ quoted (repo_str r) @ '' '' @ em_dash @ '' its worktree is missing (run `ivar sync`)''
      | CbMissingClone r \<Rightarrow>
          ''cannot check '' @ quoted (repo_str r) @ '' '' @ em_dash @ '' its clone is missing (run `ivar sync`)''
      | CbRepoAbsent r \<Rightarrow> ''repo '' @ quoted (repo_str r) @ '' is no longer in ivar.json''
      | CbEmptyFeature \<Rightarrow>
          ''feature has no promoted repo and no memory review; remove it with `ivar feature delete`''
      | CbSessionInspectionFailed e \<Rightarrow> ''cannot check its sessions: '' @ e
      | CbInspectionFailed r e \<Rightarrow> ''cannot check '' @ quoted (repo_str r) @ '': '' @ e)"

definition with_forge :: "cleanup_repo_facts list \<Rightarrow> cleanup_blocker \<Rightarrow> cleanup_blocker" where
  "with_forge fs b =
     (case b of
        CbUnmerged r base n _ \<Rightarrow>
          CbUnmerged r base n
            (Option.bind (Option.bind (find (\<lambda>f. cx_repo f = r) fs) cx_forge) forge_detail)
      | _ \<Rightarrow> b)"

definition missing_or_dirty :: "cleanup_repo_facts \<Rightarrow> cleanup_blocker list" where
  "missing_or_dirty f =
     (if cx_worktree f then [] else [CbMissingWorktree (cx_repo f)])
     @ (if cx_dirty f = Some True then [CbDirtyWorktree (cx_repo f)] else [])"

definition classify_cleanup :: "cleanup_facts \<Rightarrow> cleanup_blocker list" where
  "classify_cleanup f =
     (case classify_delivery (cleanup_delivery_facts f) of
        DeliveredVerdict \<Rightarrow> []
      | BlockedVerdict bs \<Rightarrow> map (\<lambda>b. with_forge (cq_repos f) (blocker_of_delivery b)) bs)
     @ (if cq_repos f = [] \<and> \<not> cq_memory_reviewed f then [CbEmptyFeature] else [])
     @ concat (map missing_or_dirty (cq_repos f))"

record cleanup_descendant_facts =
  cz_state :: integration_state
  cz_repos :: "cleanup_repo_facts list"
  cz_sessions :: "session_id list"
  cz_session_error :: "string option"

definition descendant_repo_blockers :: "cleanup_repo_facts \<Rightarrow> cleanup_blocker list" where
  "descendant_repo_blockers f =
     (if cx_dirty f = Some True then [CbDirtyWorktree (cx_repo f)] else [])
     @ (case cx_error f of Some e \<Rightarrow> [CbInspectionFailed (cx_repo f) e] | None \<Rightarrow> [])"

definition classify_descendant_cleanup :: "cleanup_descendant_facts \<Rightarrow> cleanup_blocker list" where
  "classify_descendant_cleanup f =
     (case cz_state f of
        StIntegrated \<Rightarrow> []
      | StAbandoned \<Rightarrow> []
      | StActive \<Rightarrow> [CbNotIntegrated StActive]
      | StFailed \<Rightarrow> [CbNotIntegrated StFailed]
      | StStale \<Rightarrow> [CbNotIntegrated StStale]
      | StDelivered \<Rightarrow> [CbNotIntegrated StDelivered])
     @ (if cz_sessions f = [] then [] else [CbLiveSessions (cz_sessions f)])
     @ (case cz_session_error f of Some e \<Rightarrow> [CbSessionInspectionFailed e] | None \<Rightarrow> [])
     @ concat (map descendant_repo_blockers (cz_repos f))"

section \<open>The preview\<close>

record cleanup_repo =
  ch_repo :: repo_name
  ch_base :: branch_name
  ch_feature_head :: "string option"
  ch_base_head :: "string option"
  ch_branch_exists :: bool
  ch_worktree :: bool
  ch_delivered :: bool

record cleanup_descendant =
  cn_feature :: feature_name
  cn_branch :: branch_name
  cn_parent :: feature_name
  cn_depth :: nat
  cn_state :: integration_state
  cn_repos :: "cleanup_repo list"
  cn_blockers :: "cleanup_blocker list"
  cn_paths :: "string list"

record cleanup_preview =
  cp_feature :: feature_name
  cp_branch :: branch_name
  cp_repos :: "cleanup_repo list"
  cp_blockers :: "cleanup_blocker list"
  cp_paths :: "string list"
  cp_fingerprint :: string
  cp_descendants :: "cleanup_descendant list"

definition has_blockers :: "cleanup_preview \<Rightarrow> bool" where
  "has_blockers p \<longleftrightarrow> cp_blockers p \<noteq> [] \<or> list_ex (\<lambda>d. cn_blockers d \<noteq> []) (cp_descendants p)"

section \<open>The record of approval\<close>

definition cleanup_record_schema_version :: nat where
  "cleanup_record_schema_version = 2"

datatype documentation_decision = DocWritten | DocNotRequired

fun documentation_decision_display :: "documentation_decision \<Rightarrow> string" where
  "documentation_decision_display DocWritten = ''written''"
| "documentation_decision_display DocNotRequired = ''not_required''"

record documentation_approval =
  dx_decision :: documentation_decision
  dx_paths :: "string list"
  dx_reason :: "string option"
  dx_at :: string

text \<open>The approval of the delivery and the one of the teardown have the same fields.\<close>

record step_approval =
  sp_approved :: bool
  sp_at :: string

record cleanup_approvals =
  ca_delivery :: step_approval
  ca_documentation :: "documentation_approval option"
  ca_teardown :: step_approval

record branch_deletion =
  bx_repo :: repo_name
  bx_deleted :: bool
  bx_detail :: "string option"

record cleanup_descendant_outcome =
  cj_feature :: feature_name
  cj_branch :: branch_name
  cj_worktrees :: "worktree_removal list"
  cj_branches :: "branch_deletion list"
  cj_removed :: bool

record cleanup_apply_outcome =
  cy_feature :: feature_name
  cy_branch :: branch_name
  cy_fingerprint :: string
  cy_worktrees :: "worktree_removal list"
  cy_branches :: "branch_deletion list"
  cy_removed :: bool
  cy_descendants :: "cleanup_descendant_outcome list"

record cleanup_record =
  cg_schema :: nat
  cg_feature :: feature_name
  cg_branch :: branch_name
  cg_fingerprint :: string
  cg_approvals :: cleanup_approvals
  cg_outcome :: "cleanup_apply_outcome option"

fun check_doc_paths :: "string list \<Rightarrow> string + unit" where
  "check_doc_paths [] = Inr ()"
| "check_doc_paths (p # ps) =
     (if is_absolute p \<or> \<not> (path_starts_with p ''docs/memory'' \<or> path_starts_with p ''docs/repo-relations'')
        \<or> ParentDir \<in> set (components p)
      then Inl (''documentation path '' @ quoted p
             @ '' is not hall-relative or does not resolve inside `docs/memory/` or `docs/repo-relations/`'')
      else check_doc_paths ps)"

definition validate_documentation :: "documentation_approval \<Rightarrow> string + unit" where
  "validate_documentation d =
     and_then (case dx_decision d of
        DocWritten \<Rightarrow>
          if dx_paths d = [] then Inl ''documentation decision `written` requires non-empty `paths`''
          else if dx_reason d \<noteq> None then Inl ''documentation decision `written` requires null `reason`''
          else Inr ()
      | DocNotRequired \<Rightarrow>
          if dx_paths d \<noteq> [] then Inl ''documentation decision `not_required` requires empty `paths`''
          else (case dx_reason d of
                  Some reason \<Rightarrow> if trim reason \<noteq> [] then Inr ()
                    else Inl ''documentation decision `not_required` requires a non-empty `reason`''
                | None \<Rightarrow> Inl ''documentation decision `not_required` requires a non-empty `reason`''))
       (\<lambda>_. check_doc_paths (dx_paths d))"

definition cleanup_record_validate :: "cleanup_record \<Rightarrow> string + unit" where
  "cleanup_record_validate r =
     and_then
       (if cg_schema r = 1
        then (case ca_documentation (cg_approvals r) of
                Some d \<Rightarrow> validate_documentation d
              | None \<Rightarrow> Inl ''schema 1 requires `approvals.documentation`'')
        else if cg_schema r = 2
        then (case ca_documentation (cg_approvals r) of
                None \<Rightarrow> Inr ()
              | Some _ \<Rightarrow> Inl ''schema 2 has no `approvals.documentation`: the memory review replaces it'')
        else Inl (''unsupported schema_version '' @ quoted (show_nat (cg_schema r)) @ '' (expected 1 or 2)''))
       (\<lambda>_. if cg_outcome r \<noteq> None then Inl ''cleanup record outcome is already populated'' else Inr ())"

end
