(* ===== verification/Pull_Requests.thy ===== *)
theory Pull_Requests
  imports Integration Names
begin

text \<open>
  \<open>src/src/action/feature/pull_requests\<close>: what the verbs ask of the forge through \<open>gh\<close>.  The
  forge is an abstract state \<open>'f\<close>; running \<open>gh\<close> with a list of arguments in a directory is an
  argument that gives the output of the program, and so is reading its JSON.  The program may
  also not start, which is a failure of the process module.
\<close>

section \<open>Running gh\<close>

text \<open>\<open>Output\<close> of \<open>src/src/infra/proc/mod.rs\<close>: no code when a signal ended the program.\<close>

record proc_output =
  ou_code :: "int option"
  ou_stdout :: string
  ou_stderr :: string

definition output_success :: "proc_output \<Rightarrow> bool" where
  "output_success out \<longleftrightarrow> ou_code out = Some 0"

definition show_i32 :: "int \<Rightarrow> string" where
  "show_i32 n = (if n < 0 then ''-'' @ show_nat (nat (- n)) else show_nat (nat n))"

definition output_diagnostic :: "proc_output \<Rightarrow> string" where
  "output_diagnostic out =
     (if ou_stderr out \<noteq> [] then ou_stderr out
      else if ou_stdout out \<noteq> [] then ou_stdout out
      else (case ou_code out of
              Some code \<Rightarrow> ''exited '' @ show_i32 code @ '' with no output''
            | None \<Rightarrow> ''killed by a signal''))"

record pull_request =
  pq_url :: string
  pq_number :: nat
  pq_state :: string
  pq_head_oid :: "string option"
  pq_merge_commit :: "string option"
  pq_merged_at :: "string option"
  pq_is_draft :: bool

definition merged_state :: string where
  "merged_state = ''MERGED''"

definition is_merged :: "pull_request \<Rightarrow> bool" where
  "is_merged pr \<longleftrightarrow> pq_state pr = merged_state"

definition merged_head :: "pull_request \<Rightarrow> string \<Rightarrow> bool" where
  "merged_head pr head \<longleftrightarrow> is_merged pr \<and> pq_head_oid pr = Some head"

text \<open>The record \<open>gh\<close> prints, with its defaults filled in.\<close>

record gh_pr_record =
  gp_url :: string
  gp_number :: nat
  gp_state :: string
  gp_is_draft :: bool
  gp_merge_commit :: "string option"
  gp_head_ref_oid :: "string option"
  gp_merged_at :: "string option"

definition pr_of_record :: "gh_pr_record \<Rightarrow> pull_request" where
  "pr_of_record r =
     \<lparr>pq_url = gp_url r, pq_number = gp_number r, pq_state = gp_state r, pq_head_oid = gp_head_ref_oid r,
      pq_merge_commit = gp_merge_commit r,
      pq_merged_at = Option.bind (gp_merged_at r) (\<lambda>at. if at = [] then None else Some at),
      pq_is_draft = gp_is_draft r\<rparr>"

record gh_comment =
  gm_id :: string
  gm_body :: string
  gm_login :: string

record 'f forge =
  fo_ask :: "'f \<Rightarrow> string \<Rightarrow> string list \<Rightarrow> failure + proc_output"
  fo_run :: "string \<Rightarrow> string list \<Rightarrow> 'f \<Rightarrow> (failure + proc_output) \<times> 'f"
  fo_prs :: "string \<Rightarrow> string + gh_pr_record list"
  fo_pr :: "string \<Rightarrow> string + gh_pr_record"
  fo_checks :: "string \<Rightarrow> string + pr_check_result list"
  fo_metadata :: "string \<Rightarrow> string + string \<times> string"
  fo_comments :: "string \<Rightarrow> string + gh_comment list"

definition gh_failed :: "proc_output \<Rightarrow> string \<Rightarrow> failure" where
  "gh_failed out operation =
     with_fix (fix_safe ''pull_requests.check_gh'' ''Ensure `gh` is installed and `gh auth status` is OK.'')
       (with_actual (output_diagnostic out)
       (with_expected ''gh to be installed, authenticated, and the repository reachable''
         (failed ''pull_requests.command_failed''
           (quoted (''gh '' @ operation) @ '' failed: '' @ output_diagnostic out))))"

definition captured :: "string \<Rightarrow> failure + proc_output \<Rightarrow> failure + string" where
  "captured operation r =
     and_then r (\<lambda>out. if output_success out then Inr (ou_stdout out) else Inl (gh_failed out operation))"

definition parse_gh :: "(string \<Rightarrow> string + 'a) \<Rightarrow> string \<Rightarrow> string \<Rightarrow> failure + 'a" where
  "parse_gh decode output operation =
     map_sum (\<lambda>source. with_actual output (failed ''pull_requests.parse_failed''
                (''could not parse '' @ quoted (''gh '' @ operation) @ '' output: '' @ source))) id (decode output)"

definition crlf :: string where "crlf = [CHR 0x0D, CHR 0x0A]"

definition normalized :: "string \<Rightarrow> string" where
  "normalized t = trim (str_replace crlf [newline] t)"

text \<open>\<open>rfind\<close>: the last line that is a pull request URL.\<close>

definition pr_url :: "string \<Rightarrow> string option" where
  "pr_url out =
     find (\<lambda>l. prefix ''https://'' l \<and> contains_str ''/pull/'' l) (rev (map trim (text_lines out)))"

definition u64_max :: nat where "u64_max = 18446744073709551615"

definition pr_number :: "string \<Rightarrow> nat option" where
  "pr_number url = parse_uint u64_max (last (split_on (CHR ''/'') url))"

section \<open>Lookup\<close>

definition pr_fields :: string where
  "pr_fields = ''url,number,state,mergeCommit,headRefOid,isDraft,mergedAt''"

definition list_pull_requests :: "'f forge \<Rightarrow> 'f \<Rightarrow> string \<Rightarrow> string \<Rightarrow> string \<Rightarrow> failure + pull_request list" where
  "list_pull_requests fo f dir head state =
     and_then (captured ''pr list'' (fo_ask fo f dir
       [''pr'', ''list'', ''--head'', head, ''--state'', state, ''--json'', pr_fields])) (\<lambda>out.
     and_then (parse_gh (fo_prs fo) out ''pr list'') (\<lambda>rs. Inr (map pr_of_record rs)))"

definition find_pull_request :: "'f forge \<Rightarrow> 'f \<Rightarrow> string \<Rightarrow> string \<Rightarrow> string \<Rightarrow> failure + pull_request option" where
  "find_pull_request fo f dir head state =
     map_sum id (\<lambda>prs. case prs of [] \<Rightarrow> None | pr # _ \<Rightarrow> Some pr) (list_pull_requests fo f dir head state)"

definition existing_pr :: "'f forge \<Rightarrow> 'f \<Rightarrow> string \<Rightarrow> string \<Rightarrow> failure + pull_request option" where
  "existing_pr fo f dir branch = find_pull_request fo f dir branch ''open''"

definition view_pull_request :: "'f forge \<Rightarrow> 'f \<Rightarrow> string \<Rightarrow> string \<Rightarrow> failure + pull_request" where
  "view_pull_request fo f dir url =
     and_then (captured ''pr view'' (fo_ask fo f dir [''pr'', ''view'', url, ''--json'', pr_fields])) (\<lambda>out.
     map_sum id pr_of_record (parse_gh (fo_pr fo) out ''pr view''))"

definition pull_request_state :: "'f forge \<Rightarrow> 'f \<Rightarrow> string \<Rightarrow> string \<Rightarrow> failure + string" where
  "pull_request_state fo f dir url = map_sum id pq_state (view_pull_request fo f dir url)"

section \<open>Creating and editing\<close>

definition pr_parse_failed :: "branch_name \<Rightarrow> string \<Rightarrow> failure" where
  "pr_parse_failed head out =
     with_actual out (failed ''deliver.pr_parse_failed''
       (''could not read the PR URL `gh` printed for '' @ quoted (branch_str head)))"

definition create_pull_request ::
    "'f forge \<Rightarrow> string \<Rightarrow> branch_name \<Rightarrow> branch_name \<Rightarrow> feature_name \<Rightarrow> string option \<Rightarrow> string option \<Rightarrow> bool \<Rightarrow>
     'f \<Rightarrow> (failure + pull_request) \<times> 'f" where
  "create_pull_request fo dir head base feature title body draft f =
     (let args = [''pr'', ''create'', ''--base'', branch_str base, ''--head'', branch_str head,
                  ''--title'', unwrap_or (feature_str feature) title,
                  ''--body'', unwrap_or (''Part of feature '' @ quoted (feature_str feature) @ ''.'') body]
                 @ (if draft then [''--draft''] else []);
          (r, f') = fo_run fo dir args f
      in (and_then (captured ''pr create'' r) (\<lambda>out.
            case pr_url out of
              None \<Rightarrow> Inl (pr_parse_failed head out)
            | Some url \<Rightarrow>
                Inr \<lparr>pq_url = url, pq_number = unwrap_or 0 (pr_number url), pq_state = ''OPEN'', pq_head_oid = None,
                     pq_merge_commit = None, pq_merged_at = None, pq_is_draft = draft\<rparr>), f'))"

definition convert_to_draft :: "'f forge \<Rightarrow> string \<Rightarrow> string \<Rightarrow> 'f \<Rightarrow> (failure + unit) \<times> 'f" where
  "convert_to_draft fo dir url f =
     (case fo_run fo dir [''pr'', ''ready'', ''--undo'', url] f of
        (r, f') \<Rightarrow> (map_sum id (\<lambda>_. ()) (captured ''pr ready --undo'' r), f'))"

definition view_metadata :: "'f forge \<Rightarrow> 'f \<Rightarrow> string \<Rightarrow> string \<Rightarrow> failure + string \<times> string" where
  "view_metadata fo f dir url =
     and_then (captured ''pr view'' (fo_ask fo f dir [''pr'', ''view'', url, ''--json'', ''title,body''])) (\<lambda>out.
       parse_gh (fo_metadata fo) out ''pr view'')"

definition keep_if :: "('a \<Rightarrow> bool) \<Rightarrow> 'a option \<Rightarrow> 'a option" where
  "keep_if p x = Option.bind x (\<lambda>v. if p v then Some v else None)"

definition pr_edit_failed :: "proc_output \<Rightarrow> failure" where
  "pr_edit_failed out =
     with_fix (fix_safe ''deliver.pr_edit_retry'' ''Run `gh pr edit <url>` with corrected flags.'')
       (with_actual (output_diagnostic out) (with_expected ''gh pr edit to succeed or be a no-op''
         (failed ''deliver.pr_edit_failed'' (''`gh pr edit` failed: '' @ output_diagnostic out))))"

definition edit_pull_request ::
    "'f forge \<Rightarrow> string \<Rightarrow> string \<Rightarrow> string option \<Rightarrow> string option \<Rightarrow> 'f \<Rightarrow> (failure + unit) \<times> 'f" where
  "edit_pull_request fo dir url title body f =
     (if title = None \<and> body = None then (Inr (), f)
      else
        (let (title, body) =
           (case view_metadata fo f dir url of
              Inr (t, b) \<Rightarrow> (keep_if (\<lambda>x. normalized x \<noteq> normalized t) title, keep_if (\<lambda>x. normalized x \<noteq> normalized b) body)
            | Inl _ \<Rightarrow> (title, body))
         in if title = None \<and> body = None then (Inr (), f)
            else (case fo_run fo dir
                    ([''pr'', ''edit'', url]
                     @ (case title of Some t \<Rightarrow> [''--title'', t] | None \<Rightarrow> [])
                     @ (case body of Some b \<Rightarrow> [''--body'', b] | None \<Rightarrow> [])) f of
                    (r, f') \<Rightarrow> (and_then r (\<lambda>out. if output_success out then Inr () else Inl (pr_edit_failed out)), f'))))"

section \<open>Observing a merge\<close>

definition checks_failed :: "string \<Rightarrow> proc_output \<Rightarrow> failure" where
  "checks_failed url out =
     with_fix (fix_safe ''pull_requests.check_auth'' ''Ensure `gh auth status` is OK and the branch was pushed.'')
       (with_actual (output_diagnostic out) (with_expected ''gh to be authenticated and the PR to exist''
         (failed ''pull_requests.checks_failed'' (''`gh pr checks` could not report on '' @ url))))"

text \<open>\<open>gh\<close> exits with 8 while checks are pending.\<close>

definition required_checks :: "'f forge \<Rightarrow> 'f \<Rightarrow> string \<Rightarrow> string \<Rightarrow> failure + pr_check_result list" where
  "required_checks fo f dir url =
     and_then (fo_ask fo f dir [''pr'', ''checks'', url, ''--required'', ''--json'', ''name,bucket,state,link'']) (\<lambda>out.
       if \<not> output_success out \<and> ou_code out \<noteq> Some 8 then Inl (checks_failed url out)
       else parse_gh (fo_checks fo) (ou_stdout out) ''pr checks'')"

fun strategy_flag :: "integration_strategy \<Rightarrow> string" where
  "strategy_flag StrategyMerge = ''--merge''"
| "strategy_flag StrategySquash = ''--squash''"
| "strategy_flag StrategyRebase = ''--rebase''"

definition request_merge ::
    "'f forge \<Rightarrow> string \<Rightarrow> string \<Rightarrow> string \<Rightarrow> integration_strategy \<Rightarrow> string \<Rightarrow> 'f \<Rightarrow> (failure + unit) \<times> 'f" where
  "request_merge fo dir url source strategy subject f =
     (case fo_run fo dir
        ([''pr'', ''merge'', url, strategy_flag strategy, ''--match-head-commit'', source]
         @ (if strategy \<noteq> StrategyRebase then [''--subject'', subject] else [])) f of
        (r, f') \<Rightarrow> (map_sum id (\<lambda>_. ()) (captured ''pr merge'' r), f'))"

definition pr_closed :: "string \<Rightarrow> failure" where
  "pr_closed url =
     with_fix (fix_safe ''integration.reopen_or_recreate'' ''Reopen the PR, or create a fresh child and re-integrate.'')
       (with_actual ''the PR is closed'' (with_expected ''the PR to merge''
         (failed ''integration.pr_closed'' (''the pull request '' @ url @ '' was closed without merging''))))"

definition pr_pending :: "string \<Rightarrow> failure" where
  "pr_pending url =
     with_fix (fix_safe ''integration.observe_again'' ''Run `ivar feature integrate` again to re-observe the merge.'')
       (with_actual ''the PR is still open or queued'' (with_expected ''the PR to merge within the observation window''
         (blocked ''integration.pr_pending'' (''the pull request '' @ url @ '' has not merged yet''))))"

text \<open>
  The polling loop.  \<open>view k\<close> is what the \<open>k\<close>-th look at the pull request gives and \<open>late k\<close>
  whether the deadline has passed after it; \<open>None\<close> would be polling forever.
\<close>

partial_function (option) observe_from ::
    "(nat \<Rightarrow> failure + pull_request) \<Rightarrow> (nat \<Rightarrow> bool) \<Rightarrow> string \<Rightarrow> nat \<Rightarrow> (failure + pull_request) option" where
  [code]: "observe_from view late url k =
     (case view k of
        Inl e \<Rightarrow> Some (Inl e)
      | Inr pr \<Rightarrow>
          if is_merged pr then Some (Inr pr)
          else if pq_state pr = ''CLOSED'' then Some (Inl (pr_closed url))
          else if late k then Some (Inl (pr_pending url))
          else observe_from view late url (Suc k))"

definition observe_merge ::
    "(nat \<Rightarrow> failure + pull_request) \<Rightarrow> (nat \<Rightarrow> bool) \<Rightarrow> string \<Rightarrow> (failure + pull_request) option" where
  "observe_merge view late url = observe_from view late url 0"

section \<open>Sibling comments\<close>

definition sibling_header :: string where "sibling_header = ''## Sibling PRs:''"

definition sibling_body :: "string list \<Rightarrow> string" where
  "sibling_body others =
     sibling_header @ [newline, newline] @ ''This PR is part of feature delivery alongside:'' @ [newline, newline]
     @ concat (map (\<lambda>x. ''- '' @ x @ [newline]) others)"

definition update_query :: string where
  "update_query = ''query=mutation($id: ID!, $body: String!) { updateIssueComment(input: {id: $id, body: $body}) { clientMutationId } }''"

text \<open>The comments a pull request has already; what running \<open>gh\<close> answers is not looked at.\<close>

definition sibling_comments :: "'f forge \<Rightarrow> 'f \<Rightarrow> string \<Rightarrow> string \<Rightarrow> failure + gh_comment list" where
  "sibling_comments fo f cwd url =
     and_then (captured ''pr view'' (fo_ask fo f cwd [''pr'', ''view'', url, ''--json'', ''comments''])) (\<lambda>out.
       parse_gh (fo_comments fo) out ''pr view'')"

definition link_one :: "'f forge \<Rightarrow> string \<Rightarrow> string option \<Rightarrow> string list \<Rightarrow> nat \<Rightarrow> 'f \<Rightarrow> 'f" where
  "link_one fo cwd login urls i f =
     (let url = urls ! i; others = take i urls @ drop (Suc i) urls in
      if others = [] then f
      else
        (let body = sibling_body others in
         case sibling_comments fo f cwd url of
           Inl _ \<Rightarrow> f
         | Inr existing \<Rightarrow>
             (case find (\<lambda>c. prefix sibling_header (gm_body c) \<and> (case login of None \<Rightarrow> True | Some l \<Rightarrow> gm_login c = l)) existing of
                None \<Rightarrow> snd (fo_run fo cwd [''pr'', ''comment'', url, ''--body'', body] f)
              | Some c \<Rightarrow>
                  if normalized (gm_body c) \<noteq> normalized body
                  then snd (fo_run fo cwd [''api'', ''graphql'', ''-f'', update_query, ''-f'', ''id='' @ gm_id c, ''-f'', ''body='' @ body] f)
                  else f)))"

definition link_sibling_prs :: "'f forge \<Rightarrow> string \<Rightarrow> string list \<Rightarrow> 'f \<Rightarrow> 'f" where
  "link_sibling_prs fo cwd urls f =
     (let login = (case captured ''api user'' (fo_ask fo f cwd [''api'', ''user'', ''--jq'', ''.login'']) of
                     Inr out \<Rightarrow> Some (trim out) | Inl _ \<Rightarrow> None)
      in fold (link_one fo cwd login urls) [0..<length urls] f)"

section \<open>Lemmas\<close>

lemma observe_merge_settles:
  assumes "late n"
  shows "\<exists>r. observe_merge view late url = Some r \<and> (\<forall>pr. r = Inr pr \<longrightarrow> is_merged pr \<and> (\<exists>k \<le> n. view k = Inr pr))"
proof -
  have "\<exists>r. observe_from view late url k = Some r \<and> (\<forall>pr. r = Inr pr \<longrightarrow> is_merged pr \<and> (\<exists>j \<le> n. view j = Inr pr))"
    if "k \<le> n" for k
    using that
  proof (induction "n - k" arbitrary: k)
    case 0
    then show ?case using assms by (subst observe_from.simps) (auto split: sum.split)
  next
    case (Suc d)
    then have "\<exists>r. observe_from view late url (Suc k) = Some r
        \<and> (\<forall>pr. r = Inr pr \<longrightarrow> is_merged pr \<and> (\<exists>j \<le> n. view j = Inr pr))" by simp
    then show ?case using Suc.prems by (subst observe_from.simps) (auto split: sum.split)
  qed
  from this [of 0] show ?thesis by (simp add: observe_merge_def)
qed

text \<open>
  C38: waiting for a merge ends as soon as the deadline passes, at the latest, and only a pull
  request the forge reports as merged is ever returned.
\<close>

theorem observe_merge_ends:
  assumes "late n"
  shows "\<exists>r. observe_merge view late url = Some r \<and> (\<forall>pr. r = Inr pr \<longrightarrow> is_merged pr \<and> (\<exists>k \<le> n. view k = Inr pr))"
  using observe_merge_settles [of late n view url] assms by blast

definition sample_pr :: "string \<Rightarrow> pull_request" where
  "sample_pr state =
     \<lparr>pq_url = ''https://x/pull/1'', pq_number = 1, pq_state = state, pq_head_oid = None, pq_merge_commit = None,
      pq_merged_at = None, pq_is_draft = False\<rparr>"

theorem observe_merge_ends_witness:
  "\<exists>r. observe_merge (\<lambda>k. Inr (sample_pr (if k = 2 then ''MERGED'' else ''OPEN''))) (\<lambda>k. 5 \<le> k) ''u'' = Some r"
  using observe_merge_ends [of "\<lambda>k. 5 \<le> k" 5 "\<lambda>k. Inr (sample_pr (if k = 2 then ''MERGED'' else ''OPEN''))" "''u''"] by auto

end
