(* ===== verification/Cleanup.thy ===== *)
theory Cleanup
  imports Cleanup_Facts Pull_Requests Delivery_Event
begin

text \<open>
  \<open>src/src/action/feature/cleanup.rs\<close> with \<open>cleanup/forge.rs\<close>, \<open>preview.rs\<close>, \<open>record.rs\<close> and
  \<open>teardown.rs\<close>: the preview of a cleanup, the record that approves it and the teardown of the
  feature with everything below it, leaves first.  The state is the git state and, on the side
  of the hall, the features, the delivery events that were remembered and the records written.
\<close>

section \<open>The environment\<close>

record cleanup_hall =
  cw_features :: hall
  cw_events :: "(delivery_scope \<times> delivery_event) list"
  cw_records :: "(string \<times> cleanup_record) list"

datatype review_state = Reviewed | ReviewSkipped | ReviewMissing

type_synonym worktree_lookups = "(repo_name \<times> (failure + worktree_entry option)) list"

text \<open>
  \<open>cu_manifest\<close> gives the default branch of each repository of the manifest, \<open>cu_tree\<close> what
  the state of a feature is read from besides git, \<open>cu_prs\<close> what the forge lists for a branch,
  \<open>cu_drain\<close> and \<open>cu_review\<close> the memory of the hall, \<open>cu_digest\<close> the hash of the canonical JSON
  of a preview.  The last ones read and write the record file.
\<close>

record 'g cleanup_env =
  cu_git :: "'g git"
  cu_layout :: layout
  cu_manifest :: "failure + (repo_name \<Rightarrow> branch_name option)"
  cu_tree :: tree_reads
  cu_sessions :: "'g \<Rightarrow> feature_name \<Rightarrow> failure + session_id list"
  cu_is_dir :: "'g \<Rightarrow> string \<Rightarrow> bool"
  cu_prs :: "string \<Rightarrow> string \<Rightarrow> failure + pull_request list"
  cu_drain :: "failure + unit"
  cu_review :: "feature_name \<Rightarrow> failure + review_state"
  cu_digest :: "cleanup_preview \<Rightarrow> failure + string"
  cu_blockers :: "'g \<Rightarrow> string \<Rightarrow> json list"
  cu_remove_dir :: "string \<Rightarrow> 'g \<Rightarrow> (string + unit) \<times> 'g"
  cu_drop_layers :: "feature_name \<Rightarrow> 'g \<Rightarrow> warning option \<times> 'g"
  cu_prune_parents :: "string \<Rightarrow> string \<Rightarrow> 'g \<Rightarrow> 'g"
  cu_update_pages :: string
  cu_canonicalize :: "string \<Rightarrow> string option"
  cu_read_text :: "string \<Rightarrow> string + string option"
  cu_decode :: "string \<Rightarrow> string + cleanup_record"
  cu_write_record :: "string \<Rightarrow> cleanup_record \<Rightarrow> failure + (string + unit)"

definition git_reads_of :: "'g git \<Rightarrow> 'g \<Rightarrow> git_reads" where
  "git_reads_of git g =
     \<lparr>gt_revision_commit = (\<lambda>bare rev. map_sum git_error_display id (g_revision_commit git g bare rev)),
      gt_is_ancestor = (\<lambda>bare a b. map_sum git_error_display id (g_is_ancestor git g bare a b))\<rparr>"

definition tree_reads_of :: "'g cleanup_env \<Rightarrow> 'g \<Rightarrow> tree_reads" where
  "tree_reads_of env g = (cu_tree env)\<lparr>tr_git := git_reads_of (cu_git env) g, tr_layout := cu_layout env\<rparr>"

section \<open>The facts about a repository\<close>

definition absent_manifest_facts :: "repo_name \<Rightarrow> cleanup_repo_facts" where
  "absent_manifest_facts r =
     \<lparr>cx_repo = r, cx_base = None, cx_feature_head = None, cx_base_head = None, cx_branch_exists = False,
      cx_worktree = False, cx_clone = False, cx_dirty = None, cx_unmerged = None, cx_manifest = False,
      cx_error = None, cx_forge = None\<rparr>"

definition read_forge_answer :: "pull_request list \<Rightarrow> string \<Rightarrow> forge_delivery" where
  "read_forge_answer prs head =
     (if list_ex (\<lambda>pr. merged_head pr head) prs then ForgeMerged
      else (case (case find is_merged prs of Some pr \<Rightarrow> Some pr | None \<Rightarrow> (case prs of [] \<Rightarrow> None | pr # _ \<Rightarrow> Some pr)) of
              None \<Rightarrow> ForgeNoPullRequest
            | Some pr \<Rightarrow> if is_merged pr then ForgeMergedOtherHead (pq_number pr) else ForgeNotMerged (pq_number pr) (pq_state pr)))"

definition merged_pull_request :: "pull_request list \<Rightarrow> string \<Rightarrow> pull_request option" where
  "merged_pull_request prs head = find (\<lambda>pr. merged_head pr head) prs"

definition ask_forge :: "'g cleanup_env \<Rightarrow> string \<Rightarrow> string \<Rightarrow> string \<Rightarrow> forge_delivery \<times> pull_request option" where
  "ask_forge env bare branch head =
     (case cu_prs env bare branch of
        Inr prs \<Rightarrow> (read_forge_answer prs head, merged_pull_request prs head)
      | Inl e \<Rightarrow> (ForgeUnavailable (fl_what e), None))"

text \<open>\<open>get_or_insert\<close>: the first error is the one that is reported.\<close>

definition first_error :: "'e option \<Rightarrow> 'e option \<Rightarrow> 'e option" where
  "first_error a b = (case a of Some e \<Rightarrow> Some e | None \<Rightarrow> b)"

definition error_of :: "git_error + 'a \<Rightarrow> string option" where
  "error_of r = (case r of Inl e \<Rightarrow> Some (git_error_display e) | Inr _ \<Rightarrow> None)"

definition ok_of :: "'e + 'a \<Rightarrow> 'a option" where
  "ok_of r = (case r of Inl _ \<Rightarrow> None | Inr x \<Rightarrow> Some x)"

text \<open>
  \<open>collect_repo_facts\<close>; the pull request that turned out to be merged, which the code pushes
  into a shared list, is the second result.
\<close>

definition collect_repo_facts ::
    "'g cleanup_env \<Rightarrow> 'g \<Rightarrow> (repo_name \<Rightarrow> branch_name option) \<Rightarrow> hall \<Rightarrow> feature \<Rightarrow> repo_name \<Rightarrow> promotion \<Rightarrow>
     failure + worktree_entry option \<Rightarrow> bool \<Rightarrow> cleanup_repo_facts \<times> (repo_name \<times> pull_request) list" where
  "collect_repo_facts env g declared m f repo p lookup consult =
     (case declared repo of
        None \<Rightarrow> (absent_manifest_facts repo, [])
      | Some db \<Rightarrow>
          (let git = cu_git env; base = base_resolve f p db; bare = repo_bare (cu_layout env) repo;
               branch = branch_str (ft_branch f);
               clone = (g_target_state git g bare = Inr TargetRepository);
               head = g_revision_commit git g bare branch;
               base_head = g_revision_commit git g bare (branch_str base);
               unmerged = unmerged_commits_with_integration git g (cu_layout env) declared (\<lambda>n. Inr (bt_get m n)) f repo base;
               asked = (case (ok_of unmerged, ok_of head) of
                          (Some n, Some h) \<Rightarrow> if clone \<and> consult \<and> n \<ge> 1 then Some (ask_forge env bare branch h) else None
                        | _ \<Rightarrow> None);
               worktree = (case lookup of Inr (Some e) \<Rightarrow> if we_prunable e then None else Some e | _ \<Rightarrow> None);
               dirty = map_option (\<lambda>e. g_worktree_dirty git g (we_path e)) worktree;
               clone_error = (if clone then first_error (error_of head) (first_error (error_of base_head) (error_of unmerged)) else None);
               lookup_error = (case lookup of Inl e \<Rightarrow> Some (fl_what e) | Inr _ \<Rightarrow> None)
           in (\<lparr>cx_repo = repo, cx_base = Some base,
                cx_feature_head = (if clone then ok_of head else None),
                cx_base_head = (if clone then ok_of base_head else None),
                cx_branch_exists = (clone \<and> ok_of head \<noteq> None),
                cx_worktree = (worktree \<noteq> None),
                cx_clone = clone,
                cx_dirty = Option.bind dirty ok_of,
                cx_unmerged = (if clone then ok_of unmerged else None),
                cx_manifest = True,
                cx_error = first_error clone_error (first_error lookup_error (Option.bind dirty error_of)),
                cx_forge = map_option fst asked\<rparr>,
               (case asked of Some (_, Some pr) \<Rightarrow> [(repo, pr)] | _ \<Rightarrow> []))))"

section \<open>The preview\<close>

definition cleanup_lookup_failure :: "git_error \<Rightarrow> failure" where
  "cleanup_lookup_failure e =
     (case e of GitFs _ source \<Rightarrow> source | _ \<Rightarrow> failed ''feature.cleanup_worktree_lookup_failed'' (git_error_display e))"

definition lookup_worktrees :: "'g cleanup_env \<Rightarrow> 'g \<Rightarrow> feature \<Rightarrow> worktree_lookups" where
  "lookup_worktrees env g f =
     map (\<lambda>(repo, _). (repo, map_sum cleanup_lookup_failure id
            (lookup_worktree (cu_git env) g (repo_bare (cu_layout env) repo) (branch_str (ft_branch f))))) (ft_promotions f)"

definition lookup_of :: "worktree_lookups \<Rightarrow> repo_name \<Rightarrow> failure + worktree_entry option" where
  "lookup_of ws r = unwrap_or (Inr None) (map_of ws r)"

definition removal_paths :: "'g cleanup_env \<Rightarrow> 'g \<Rightarrow> feature \<Rightarrow> cleanup_repo list \<Rightarrow> worktree_lookups \<Rightarrow> string list" where
  "removal_paths env g f repos ws =
     concat (map (\<lambda>r.
       case map_of ws (ch_repo r) of
         Some (Inr (Some e)) \<Rightarrow> [we_path e]
       | _ \<Rightarrow> if \<not> cu_is_dir env g (repo_bare (cu_layout env) (ch_repo r))
              then [repo_worktree (cu_layout env) (ch_repo r) (ft_branch f)] else []) repos)
     @ [feature_dir (cu_layout env) (ft_name f)]"

definition live_sessions_of :: "'g cleanup_env \<Rightarrow> 'g \<Rightarrow> feature_name \<Rightarrow> string option \<Rightarrow> session_id list \<times> string option" where
  "live_sessions_of env g n own =
     (case cu_sessions env g n of
        Inr ss \<Rightarrow> (filter (\<lambda>s. own \<noteq> Some (session_str s)) ss, None)
      | Inl e \<Rightarrow> ([], Some (failure_display e)))"

definition cleanup_repo_of :: "cleanup_repo_facts \<Rightarrow> cleanup_repo option" where
  "cleanup_repo_of f =
     map_option (\<lambda>base.
       \<lparr>ch_repo = cx_repo f, ch_base = base, ch_feature_head = cx_feature_head f, ch_base_head = cx_base_head f,
        ch_branch_exists = cx_branch_exists f, ch_worktree = cx_worktree f,
        ch_delivered = (cx_manifest f \<and> cx_clone f \<and> dr_unmerged (repo_delivery_facts f) = Some 0)\<rparr>) (cx_base f)"

definition without_forge_detail :: "cleanup_blocker \<Rightarrow> cleanup_blocker" where
  "without_forge_detail b = (case b of CbUnmerged r base n _ \<Rightarrow> CbUnmerged r base n None | _ \<Rightarrow> b)"

definition fingerprinted :: "cleanup_preview \<Rightarrow> cleanup_preview" where
  "fingerprinted p =
     p\<lparr>cp_blockers := map without_forge_detail (cp_blockers p), cp_fingerprint := [],
       cp_descendants := map (\<lambda>d. d\<lparr>cn_blockers := map without_forge_detail (cn_blockers d)\<rparr>) (cp_descendants p)\<rparr>"

definition fingerprint_for :: "'g cleanup_env \<Rightarrow> cleanup_preview \<Rightarrow> failure + string" where
  "fingerprint_for env p = cu_digest env (fingerprinted p)"

record previewed_cleanup =
  cv_preview :: cleanup_preview
  cv_forge_consulted :: bool
  cv_worktrees :: worktree_lookups
  cv_descendants :: "(feature \<times> worktree_lookups) list"
  cv_merged :: "(repo_name \<times> pull_request) list"

definition repo_facts_of ::
    "'g cleanup_env \<Rightarrow> 'g \<Rightarrow> (repo_name \<Rightarrow> branch_name option) \<Rightarrow> hall \<Rightarrow> feature \<Rightarrow> worktree_lookups \<Rightarrow> bool \<Rightarrow>
     (cleanup_repo_facts \<times> (repo_name \<times> pull_request) list) list" where
  "repo_facts_of env g declared m f ws consult =
     map (\<lambda>(repo, p). collect_repo_facts env g declared m f repo p (lookup_of ws repo) consult) (ft_promotions f)"

definition descendant_of :: "'g cleanup_env \<Rightarrow> 'g \<Rightarrow> (repo_name \<Rightarrow> branch_name option) \<Rightarrow> hall \<Rightarrow> feature_name \<Rightarrow>
    string option \<Rightarrow> nat \<times> feature \<Rightarrow> integration_state \<Rightarrow> cleanup_descendant" where
  "descendant_of env g declared m root own node state =
     (case node of (depth, n) \<Rightarrow>
       (let ws = lookup_worktrees env g n; facts = map fst (repo_facts_of env g declared m n ws False);
            (sessions, error) = live_sessions_of env g (ft_name n) own;
            repos = List.map_filter cleanup_repo_of facts
        in \<lparr>cn_feature = ft_name n, cn_branch = ft_branch n, cn_parent = unwrap_or root (ft_parent n), cn_depth = depth,
            cn_state = state, cn_repos = repos,
            cn_blockers = classify_descendant_cleanup
              \<lparr>cz_state = state, cz_repos = facts, cz_sessions = sessions, cz_session_error = error\<rparr>,
            cn_paths = removal_paths env g n repos ws\<rparr>))"

definition preview_nodes ::
    "'g cleanup_env \<Rightarrow> 'g \<Rightarrow> (repo_name \<Rightarrow> branch_name option) \<Rightarrow> hall \<Rightarrow> feature list \<Rightarrow> feature_name \<Rightarrow> string option \<Rightarrow>
     (nat \<times> feature) list \<Rightarrow> failure + cleanup_descendant list" where
  "preview_nodes env g declared m fs root own nodes =
     try_map (\<lambda>node. map_sum id (descendant_of env g declared m root own node)
       (feature_state_with_map (tree_reads_of env g) (feature_map fs) (snd node))) nodes"

definition memory_reviewed :: "'g cleanup_env \<Rightarrow> feature \<Rightarrow> bool" where
  "memory_reviewed env f \<longleftrightarrow> ft_promotions f = []
     \<and> (cu_review env (ft_name f) = Inr Reviewed \<or> cu_review env (ft_name f) = Inr ReviewSkipped)"

definition root_facts :: "'g cleanup_env \<Rightarrow> 'g \<Rightarrow> (repo_name \<Rightarrow> branch_name option) \<Rightarrow> hall \<Rightarrow> feature \<Rightarrow>
    string option \<Rightarrow> cleanup_facts" where
  "root_facts env g declared m f own =
     (case live_sessions_of env g (ft_name f) own of (sessions, error) \<Rightarrow>
        \<lparr>cq_repos = map fst (repo_facts_of env g declared m f (lookup_worktrees env g f) True),
         cq_sessions = sessions, cq_session_error = error, cq_memory_reviewed = memory_reviewed env f\<rparr>)"

text \<open>\<open>None\<close> would be the walk over the descendants not returning.\<close>

definition preview_cleanup ::
    "'g cleanup_env \<Rightarrow> 'g \<Rightarrow> (repo_name \<Rightarrow> branch_name option) \<Rightarrow> hall \<Rightarrow> feature \<Rightarrow> string option \<Rightarrow>
     (failure + previewed_cleanup) option" where
  "preview_cleanup env g declared m f own =
     (let ws = lookup_worktrees env g f; facts = root_facts env g declared m f own;
          repos = List.map_filter cleanup_repo_of (cq_repos facts)
      in case read_all m of
           Inl e \<Rightarrow> Some (Inl e)
         | Inr fs \<Rightarrow>
             map_option (\<lambda>nodes.
               and_then (preview_nodes env g declared m fs (ft_name f) own nodes) (\<lambda>ds.
                 let p = \<lparr>cp_feature = ft_name f, cp_branch = ft_branch f, cp_repos = repos,
                          cp_blockers = classify_cleanup facts, cp_paths = removal_paths env g f repos ws,
                          cp_fingerprint = [], cp_descendants = ds\<rparr>
                 in and_then (fingerprint_for env p) (\<lambda>fp.
                      Inr \<lparr>cv_preview = p\<lparr>cp_fingerprint := fp\<rparr>,
                           cv_forge_consulted = list_ex (\<lambda>x. cx_forge x \<noteq> None) (cq_repos facts),
                           cv_worktrees = ws,
                           cv_descendants = map (\<lambda>(_, n). (n, lookup_worktrees env g n)) nodes,
                           cv_merged = concat (map snd (repo_facts_of env g declared m f ws True))\<rparr>)))
               (descendants_from_values (feature_map fs) (ft_name f)))"

section \<open>The record of approval\<close>

definition update_pages_failure :: "string \<Rightarrow> string \<Rightarrow> failure" where
  "update_pages_failure path pages =
     blocked ''feature.cleanup_record_outside_docs_updates''
       (''cleanup record '' @ quoted path @ '' must resolve inside '' @ quoted pages)"

definition record_not_found :: "string \<Rightarrow> failure" where
  "record_not_found path =
     blocked ''feature.cleanup_record_not_found'' (''cleanup record '' @ quoted path @ '' does not exist'')"

definition record_abs :: "'g cleanup_env \<Rightarrow> string \<Rightarrow> string" where
  "record_abs env path = (if is_absolute path then path else path_join (lay_root (cu_layout env)) path)"

definition load_and_validate_record :: "'g cleanup_env \<Rightarrow> string \<Rightarrow> failure + cleanup_record" where
  "load_and_validate_record env path =
     (case cu_canonicalize env (cu_update_pages env) of
        None \<Rightarrow> Inl (update_pages_failure path (cu_update_pages env))
      | Some pages \<Rightarrow>
          (case cu_canonicalize env (record_abs env path) of
             None \<Rightarrow> Inl (record_not_found path)
           | Some there \<Rightarrow>
               if \<not> path_starts_with there pages then Inl (update_pages_failure path (cu_update_pages env))
               else (case cu_read_text env (record_abs env path) of
                       Inl e \<Rightarrow> Inl (blocked ''feature.cleanup_record_not_found''
                                 (''failed to read cleanup record '' @ quoted path @ '': '' @ e))
                     | Inr None \<Rightarrow> Inl (record_not_found path)
                     | Inr (Some content) \<Rightarrow>
                         (case cu_decode env content of
                            Inl e \<Rightarrow> Inl (blocked ''feature.cleanup_record_malformed''
                                      (''failed to parse cleanup record '' @ quoted path @ '': '' @ e))
                          | Inr r \<Rightarrow>
                              (case cleanup_record_validate r of
                                 Inl e \<Rightarrow> Inl (blocked ''feature.cleanup_record_invalid''
                                           (''cleanup record at '' @ quoted path @ '' is invalid: '' @ e))
                               | Inr _ \<Rightarrow> Inr r)))))"

definition record_mismatch :: "cleanup_record \<Rightarrow> cleanup_preview \<Rightarrow> failure" where
  "record_mismatch r p =
     blocked ''feature.cleanup_record_feature_mismatch''
       (''cleanup record feature '' @ quoted (feature_str (cg_feature r)) @ '' (branch '' @ quoted (branch_str (cg_branch r))
        @ '') does not match feature '' @ quoted (feature_str (cp_feature p)) @ '' (branch '' @ quoted (branch_str (cp_branch p)) @ '')'')"

definition fingerprint_mismatch :: "cleanup_record \<Rightarrow> cleanup_preview \<Rightarrow> bool \<Rightarrow> failure" where
  "fingerprint_mismatch r p consulted =
     (let f = with_fix (fix_safe ''feature.cleanup_re_preview''
                (''Rerun '' @ quoted (''/ivar-feature-cleanup '' @ feature_str (cp_feature p)) @
                 '' to update the docs and record with the new fingerprint.''))
              (with_actual (''current preview fingerprint '' @ quoted (cp_fingerprint p))
              (with_expected (''record fingerprint '' @ quoted (cg_fingerprint r))
                (blocked ''feature.cleanup_fingerprint_mismatch''
                  (''the state of feature '' @ quoted (feature_str (cp_feature p)) @
                   '' has drifted since the cleanup record was written''))))
      in if consulted then with_fix (fix_safe ''feature.cleanup_forge_moved''
           (''A repo'' @ [CHR 0x27] @ ''s delivery rests on a pull-request lookup, and the forge now answers differently than it did for the record. Re-run the preview to see the forge'' @ [CHR 0x27] @ ''s current answer.'')) f
         else f)"

definition not_approved :: "string \<Rightarrow> string \<Rightarrow> cleanup_preview \<Rightarrow> failure" where
  "not_approved code which p =
     blocked code (which @ '' approval is false in cleanup record for feature '' @ quoted (feature_str (cp_feature p)))"

definition cleanup_blocked :: "cleanup_preview \<Rightarrow> failure" where
  "cleanup_blocked p =
     (let command = ''ivar feature cleanup '' @ feature_str (cp_feature p) @ '' --preview'' in
      with_fix (fix_command command (fix_safe ''feature.cleanup_resolve_blockers''
          (''List the blockers with '' @ quoted command @ '', resolve them, then clean up again.'')))
        (blocked ''feature.cleanup_blocked''
          (''feature '' @ quoted (feature_str (cp_feature p)) @ '' cannot be cleaned up due to blockers'')))"

definition validate_record_against_preview :: "cleanup_record \<Rightarrow> cleanup_preview \<Rightarrow> bool \<Rightarrow> failure + unit" where
  "validate_record_against_preview r p consulted =
     (if cg_feature r \<noteq> cp_feature p \<or> cg_branch r \<noteq> cp_branch p then Inl (record_mismatch r p)
      else if cg_fingerprint r \<noteq> cp_fingerprint p then Inl (fingerprint_mismatch r p consulted)
      else if \<not> sp_approved (ca_delivery (cg_approvals r))
        then Inl (not_approved ''feature.cleanup_delivery_not_approved'' ''delivery'' p)
      else if \<not> sp_approved (ca_teardown (cg_approvals r))
        then Inl (not_approved ''feature.cleanup_teardown_not_approved'' ''teardown'' p)
      else if has_blockers p then Inl (cleanup_blocked p)
      else Inr ())"

section \<open>The teardown\<close>

definition preflight_deletable :: "'g cleanup_env \<Rightarrow> 'g \<Rightarrow> feature \<Rightarrow> (feature \<times> worktree_lookups) list \<Rightarrow> failure + unit" where
  "preflight_deletable env g f ds =
     (let bad = concat (map (\<lambda>n. cu_blockers env g (feature_dir (cu_layout env) (ft_name n))) (f # map fst ds))
      in if bad = [] then Inr ()
         else Inl (with_details (JArray bad)
           (with_fix (fix_safe ''feature.fix_permissions'' ''Fix the permissions named above, then run apply again.'')
             (with_actual (show_nat (length bad) @ '' path(s) could not be removed '' @ em_dash @ '' see details for paths, modes, and owners'')
               (with_expected ''every directory under the feature directory to be writable and searchable''
                 (blocked ''feature.delete_blocked''
                   (''cannot clean up feature '' @ quoted (feature_str (ft_name f)) @ '': '' @ show_nat (length bad)
                    @ '' path(s) under its directory are not removable'')))))))"

type_synonym ('g, 'a) git_eff = "'g \<Rightarrow> (failure + 'a) \<times> 'g"

definition removed_worktree :: "repo_name \<Rightarrow> worktree_removal" where
  "removed_worktree r = \<lparr>wr_repo = r, wr_removed = True, wr_detail = None\<rparr>"

definition cleanup_worktree :: "'g cleanup_env \<Rightarrow> worktree_lookups \<Rightarrow> repo_name \<Rightarrow> ('g, worktree_removal \<times> warning list) git_eff" where
  "cleanup_worktree env ws r g =
     (case lookup_of ws r of
        Inl e \<Rightarrow> (Inl e, g)
      | Inr None \<Rightarrow> (Inr (removed_worktree r, []), g)
      | Inr (Some entry) \<Rightarrow>
          (case remove_worktree_entry (cu_git env) (repo_bare (cu_layout env) r) entry g of
             (Inr _, g') \<Rightarrow> (Inr (removed_worktree r, []), cu_prune_parents env (we_path entry) (repo_dir (cu_layout env) r) g')
           | (Inl e, g') \<Rightarrow>
               (let detail = git_error_display e in
                (Inr (\<lparr>wr_repo = r, wr_removed = False, wr_detail = Some detail\<rparr>,
                      [warning_new ''feature.cleanup_worktree_failed'' (repo_str r) detail]), g'))))"

fun cleanup_worktrees :: "'g cleanup_env \<Rightarrow> worktree_lookups \<Rightarrow> repo_name list \<Rightarrow> ('g, worktree_removal list \<times> warning list) git_eff" where
  "cleanup_worktrees env ws [] = return_s ([], [])"
| "cleanup_worktrees env ws (r # rs) =
     bind_s (cleanup_worktree env ws r) (\<lambda>(x, w).
     bind_s (cleanup_worktrees env ws rs) (\<lambda>(xs, w').
       return_s (x # xs, w @ w')))"

definition cleanup_branch :: "'g cleanup_env \<Rightarrow> feature \<Rightarrow> repo_name \<times> worktree_removal \<Rightarrow> 'g \<Rightarrow> (branch_deletion \<times> warning list) \<times> 'g" where
  "cleanup_branch env f x g =
     (case x of (r, removal) \<Rightarrow>
       if \<not> wr_removed removal
       then ((\<lparr>bx_repo = r, bx_deleted = False, bx_detail = Some ''worktree removal failed''\<rparr>, []), g)
       else
         (let bare = repo_bare (cu_layout env) r; branch = branch_str (ft_branch f) in
          if \<not> is_ok (g_revision_commit (cu_git env) g bare branch)
          then ((\<lparr>bx_repo = r, bx_deleted = True, bx_detail = None\<rparr>, []), g)
          else (case g_delete_branch (cu_git env) bare branch g of
                  (Inr _, g') \<Rightarrow> ((\<lparr>bx_repo = r, bx_deleted = True, bx_detail = None\<rparr>, []), g')
                | (Inl e, g') \<Rightarrow>
                    (let detail = git_error_display e in
                     ((\<lparr>bx_repo = r, bx_deleted = False, bx_detail = Some detail\<rparr>,
                       [warning_new ''feature.cleanup_branch_failed'' (repo_str r) detail]), g')))))"

fun cleanup_branches :: "'g cleanup_env \<Rightarrow> feature \<Rightarrow> (repo_name \<times> worktree_removal) list \<Rightarrow> 'g \<Rightarrow> (branch_deletion list \<times> warning list) \<times> 'g" where
  "cleanup_branches env f [] g = (([], []), g)"
| "cleanup_branches env f (x # xs) g =
     (case cleanup_branch env f x g of ((b, w), g') \<Rightarrow>
      case cleanup_branches env f xs g' of ((bs, w'), g'') \<Rightarrow> ((b # bs, w @ w'), g''))"

type_synonym ('g, 'a) cleanup_eff = "('g \<times> cleanup_hall, 'a) eff"

definition drop_record :: "feature_name \<Rightarrow> cleanup_hall \<Rightarrow> (failure + unit) \<times> cleanup_hall" where
  "drop_record n h = (Inr (), h\<lparr>cw_features := bt_remove n (cw_features h)\<rparr>)"

definition remove_node_dir :: "'g cleanup_env \<Rightarrow> feature_name \<Rightarrow> ('g, warning option) cleanup_eff" where
  "remove_node_dir env n =
     bind_s (on_outside (\<lambda>g. case cu_remove_dir env (feature_dir (cu_layout env) n) g of
         (r, g') \<Rightarrow> (map_sum (\<lambda>source. failed ''feature.cleanup_dir_failed''
                       (''could not remove feature '' @ quoted (feature_str n) @ '': '' @ source)) id r, g'))) (\<lambda>_.
     bind_s (on_hall (drop_record n)) (\<lambda>_.
       on_outside (\<lambda>g. case cu_drop_layers env n g of (w, g') \<Rightarrow> (Inr w, g'))))"

text \<open>A computation whose failure is a value.\<close>

definition catch_s :: "('s, 'a) eff \<Rightarrow> ('s, failure + 'a) eff" where
  "catch_s m s = (case m s of (r, s') \<Rightarrow> (Inr r, s'))"

record torn_down =
  td_worktrees :: "worktree_removal list"
  td_branches :: "branch_deletion list"
  td_complete :: bool
  td_warnings :: "warning list"

definition teardown_node :: "'g cleanup_env \<Rightarrow> feature \<Rightarrow> worktree_lookups \<Rightarrow> ('g, torn_down) cleanup_eff" where
  "teardown_node env f ws =
     bind_s (on_outside (cleanup_worktrees env ws (map fst (ft_promotions f)))) (\<lambda>(removals, w).
     bind_s (on_outside (\<lambda>g. case cleanup_branches env f (zip (map fst (ft_promotions f)) removals) g of (r, g') \<Rightarrow> (Inr r, g')))
       (\<lambda>(branches, w').
        return_s \<lparr>td_worktrees = removals, td_branches = branches,
                  td_complete = (list_all wr_removed removals \<and> list_all bx_deleted branches), td_warnings = w @ w'\<rparr>))"

fun teardown_descendants ::
    "'g cleanup_env \<Rightarrow> (feature \<times> worktree_lookups) list \<Rightarrow>
     ('g, cleanup_descendant_outcome list \<times> warning list \<times> bool) cleanup_eff" where
  "teardown_descendants env [] = return_s ([], [], True)"
| "teardown_descendants env ((n, ws) # ds) =
     bind_s (teardown_node env n ws) (\<lambda>td.
     bind_s (if td_complete td then catch_s (remove_node_dir env (ft_name n)) else return_s (Inr None)) (\<lambda>r.
       let removed = (td_complete td \<and> is_ok r);
           w = td_warnings td
               @ (case r of Inr x \<Rightarrow> opt_list x
                  | Inl e \<Rightarrow> [warning_new ''feature.cleanup_dir_failed'' (feature_str (ft_name n)) (fl_what e)]);
           row = \<lparr>cj_feature = ft_name n, cj_branch = ft_branch n, cj_worktrees = td_worktrees td,
                  cj_branches = td_branches td, cj_removed = removed\<rparr>
       in if \<not> removed then return_s ([row], w, False)
          else bind_s (teardown_descendants env ds) (\<lambda>(rows, w', done). return_s (row # rows, w @ w', done))))"

section \<open>Cleanup\<close>

definition emit_all :: "(delivery_scope \<times> delivery_event) list \<Rightarrow> ('g, unit) cleanup_eff" where
  "emit_all es = on_hall (\<lambda>h. (Inr (), h\<lparr>cw_events := cw_events h @ es\<rparr>))"

definition merged_event :: "pull_request \<Rightarrow> observed_by \<Rightarrow> delivery_event" where
  "merged_event pr by = EvMerged (pq_number pr) (pq_url pr) (pq_merge_commit pr) (pq_merged_at pr) by"

definition merged_events :: "feature \<Rightarrow> (repo_name \<times> pull_request) list \<Rightarrow> (delivery_scope \<times> delivery_event) list" where
  "merged_events f merged =
     map (\<lambda>(r, pr). (scope_for_repo f (repo_str r) (unwrap_or [] (pq_head_oid pr)), merged_event pr ObservedByCleanup)) merged"

definition cleaned_events ::
    "feature \<Rightarrow> string \<Rightarrow> string \<Rightarrow> cleanup_apply_outcome \<Rightarrow> (feature \<times> worktree_lookups) list \<Rightarrow>
     (delivery_scope \<times> delivery_event) list" where
  "cleaned_events f path docs out ds =
     (scope_for_feature f, EvCleaned path docs)
     # List.map_filter (\<lambda>row. map_option (\<lambda>(d, _). (scope_for_feature d, EvCleaned path docs))
         (find (\<lambda>(d, _). ft_name d = cj_feature row) ds)) (filter cj_removed (cy_descendants out))"

text \<open>\<open>memory_review\<close>: what the memory says, and warnings; it never refuses.\<close>

definition not_reviewed_warning :: "feature_name \<Rightarrow> string \<Rightarrow> warning" where
  "not_reviewed_warning n cause =
     warning_new ''cleanup.memory_not_reviewed'' (feature_str n)
       (quoted (feature_str n) @ '' has neither `memory.reviewed` nor `memory.review_skipped`: its memory was not reviewed before delivery'' @ cause)"

definition memory_review :: "'g cleanup_env \<Rightarrow> feature_name \<Rightarrow> string \<times> warning list" where
  "memory_review env n =
     (let drained = (case cu_drain env of
          Inr _ \<Rightarrow> []
        | Inl e \<Rightarrow> [warning_new ''cleanup.memory_drain_failed'' (feature_str n)
                    (''the capture spool could not be drained, so a recent review may be missed: '' @ fl_what e)])
      in case cu_review env n of
           Inr Reviewed \<Rightarrow> (''reviewed'', drained)
         | Inr ReviewSkipped \<Rightarrow> (''skipped'', drained)
         | Inr ReviewMissing \<Rightarrow> (''missing'', drained @ [not_reviewed_warning n []])
         | Inl e \<Rightarrow> (''missing'', drained @ [not_reviewed_warning n ('' (memory could not be read: '' @ fl_what e @ '')'')]))"

record cleanup_outcome =
  cs_root :: string
  cs_preview :: cleanup_preview
  cs_applied :: "cleanup_apply_outcome option"

definition write_record_outcome :: "'g cleanup_env \<Rightarrow> cleanup_record \<Rightarrow> string \<Rightarrow> cleanup_apply_outcome \<Rightarrow> ('g, unit) cleanup_eff" where
  "write_record_outcome env r path out =
     (let r' = r\<lparr>cg_outcome := Some out\<rparr> in
      bind_s (lift_s (cu_write_record env (record_abs env path) r')) (\<lambda>w.
        case w of
          Inl source \<Rightarrow> fail_s (failed ''feature.cleanup_record_write_failed''
            (''could not write cleanup outcome to record '' @ quoted path @ '': '' @ source))
        | Inr _ \<Rightarrow> on_hall (\<lambda>h. (Inr (), h\<lparr>cw_records := cw_records h @ [(record_abs env path, r')]\<rparr>))))"

definition applied_outcome ::
    "feature \<Rightarrow> cleanup_preview \<Rightarrow> worktree_removal list \<Rightarrow> branch_deletion list \<Rightarrow> cleanup_descendant_outcome list \<Rightarrow> bool \<Rightarrow>
     cleanup_apply_outcome" where
  "applied_outcome f p ws bs ds removed =
     \<lparr>cy_feature = ft_name f, cy_branch = ft_branch f, cy_fingerprint = cp_fingerprint p, cy_worktrees = ws,
      cy_branches = bs, cy_removed = removed, cy_descendants = ds\<rparr>"

definition cleanup_report :: "'g cleanup_env \<Rightarrow> cleanup_preview \<Rightarrow> cleanup_apply_outcome option \<Rightarrow> cleanup_outcome" where
  "cleanup_report env p out = \<lparr>cs_root = lay_root (cu_layout env), cs_preview = p, cs_applied = out\<rparr>"

definition doc_of_record :: "cleanup_record \<Rightarrow> string \<Rightarrow> string" where
  "doc_of_record r review =
     (case ca_documentation (cg_approvals r) of
        Some d \<Rightarrow> documentation_decision_display (dx_decision d) | None \<Rightarrow> review)"

text \<open>What follows the validation of the record: everything that destroys.\<close>

definition apply_teardown ::
    "'g cleanup_env \<Rightarrow> cleanup_record \<Rightarrow> string \<Rightarrow> feature \<Rightarrow> previewed_cleanup \<Rightarrow> string \<Rightarrow> warning list \<Rightarrow>
     ('g, cleanup_outcome \<times> warning list) cleanup_eff" where
  "apply_teardown env r path f pv review memory_warning =
     (let p = cv_preview pv in
      bind_s (teardown_descendants env (rev (cv_descendants pv))) (\<lambda>(ds, w, all_removed).
        let w = w @ memory_warning in
        if \<not> all_removed then return_s (cleanup_report env p (Some (applied_outcome f p [] [] ds False)), w)
        else
          bind_s (teardown_node env f (cv_worktrees pv)) (\<lambda>td.
            let w = w @ td_warnings td in
            if \<not> td_complete td
            then return_s (cleanup_report env p (Some (applied_outcome f p (td_worktrees td) (td_branches td) ds False)), w)
            else
              bind_s (remove_node_dir env (ft_name f)) (\<lambda>layer.
                let out = applied_outcome f p (td_worktrees td) (td_branches td) ds True in
                bind_s (write_record_outcome env r path out) (\<lambda>_.
                bind_s (emit_all (cleaned_events f path (doc_of_record r review) out (cv_descendants pv))) (\<lambda>_.
                  return_s (cleanup_report env p (Some out), w @ opt_list layer)))))))"

definition cleanup_feature :: "hall \<Rightarrow> feature_name \<Rightarrow> failure + feature" where
  "cleanup_feature m n =
     (case bt_get m n of
        None \<Rightarrow> Inl (blocked ''feature.not_found'' (''feature '' @ quoted (feature_str n) @ '' does not exist''))
      | Some f \<Rightarrow> Inr f)"

definition apply_cleanup ::
    "'g cleanup_env \<Rightarrow> string \<Rightarrow> string \<Rightarrow> string option \<Rightarrow> 'g \<times> cleanup_hall \<Rightarrow>
     ((failure + cleanup_outcome \<times> warning list) \<times> 'g \<times> cleanup_hall) option" where
  "apply_cleanup env arg path own s =
     (case and_then (load_and_validate_record env path) (\<lambda>r.
           and_then (cu_manifest env) (\<lambda>declared.
           and_then (named (feature_name_new arg)) (\<lambda>n.
           and_then (cleanup_feature (cw_features (snd s)) n) (\<lambda>f. Inr (r, declared, n, f))))) of
        Inl e \<Rightarrow> Some (Inl e, s)
      | Inr (r, declared, n, f) \<Rightarrow>
          map_option (\<lambda>previewed.
            (case memory_review env n of (review, memory_warning) \<Rightarrow>
              bind_s (lift_s previewed) (\<lambda>pv.
              bind_s (emit_all (merged_events f (cv_merged pv))) (\<lambda>_.
              bind_s (lift_s (validate_record_against_preview r (cv_preview pv) (cv_forge_consulted pv))) (\<lambda>_.
              bind_s (gets_s (\<lambda>t. preflight_deletable env (fst t) f (cv_descendants pv))) (\<lambda>_.
                apply_teardown env r path f pv review memory_warning))))) s)
            (preview_cleanup env (fst s) declared (cw_features (snd s)) f own))"

definition record_required :: failure where
  "record_required = blocked ''feature.cleanup_record_required'' ''cleanup apply requires `--record <path>`''"

definition cleanup ::
    "'g cleanup_env \<Rightarrow> string \<Rightarrow> bool \<Rightarrow> string option \<Rightarrow> string option \<Rightarrow> 'g \<times> cleanup_hall \<Rightarrow>
     ((failure + cleanup_outcome \<times> warning list) \<times> 'g \<times> cleanup_hall) option" where
  "cleanup env arg preview path own s =
     (if \<not> preview
      then (case path of None \<Rightarrow> Some (Inl record_required, s) | Some p \<Rightarrow> apply_cleanup env arg p own s)
      else
        (case and_then (cu_manifest env) (\<lambda>declared.
              and_then (named (feature_name_new arg)) (\<lambda>n.
              and_then (cleanup_feature (cw_features (snd s)) n) (\<lambda>f. Inr (declared, n, f)))) of
           Inl e \<Rightarrow> Some (Inl e, s)
         | Inr (declared, n, f) \<Rightarrow>
             map_option (\<lambda>previewed.
               bind_s (lift_s previewed) (\<lambda>pv.
               bind_s (emit_all (merged_events f (cv_merged pv))) (\<lambda>_.
                 return_s (cleanup_report env (cv_preview pv) None, snd (memory_review env n)))) s)
               (preview_cleanup env (fst s) declared (cw_features (snd s)) f own)))"

end
