(* ===== verification/Cleanup_Safety.thy ===== *)
theory Cleanup_Safety
  imports Cleanup Hall_Invariants
begin

text \<open>
  What a cleanup can destroy: nothing before an approved record that still matches, and then
  only a feature whose work has landed, with descendants that were integrated or abandoned;
  leaves first, so that whatever stops it the tree of features stays whole.
\<close>

section \<open>Blockers\<close>

lemma no_delivery_blockers:
  "classify_delivery f = DeliveredVerdict \<longleftrightarrow> dk_sessions f = [] \<and> dk_session_error f = None
     \<and> (\<forall>r \<in> set (dk_repos f). delivery_repo_blockers r = [])"
  by (auto simp: classify_delivery_def Let_def split: option.splits)

lemma no_cleanup_blockers:
  "classify_cleanup f = [] \<longleftrightarrow> classify_delivery (cleanup_delivery_facts f) = DeliveredVerdict
     \<and> (cq_repos f \<noteq> [] \<or> cq_memory_reviewed f) \<and> (\<forall>r \<in> set (cq_repos f). cx_worktree r \<and> cx_dirty r \<noteq> Some True)"
  by (auto simp: classify_cleanup_def classify_delivery_def Let_def missing_or_dirty_def split: delivery_verdict.splits if_splits)

lemma no_descendant_blockers:
  "classify_descendant_cleanup f = [] \<longleftrightarrow> (cz_state f = StIntegrated \<or> cz_state f = StAbandoned)
     \<and> cz_sessions f = [] \<and> cz_session_error f = None
     \<and> (\<forall>r \<in> set (cz_repos f). cx_dirty r \<noteq> Some True \<and> cx_error r = None)"
  by (auto simp: classify_descendant_cleanup_def descendant_repo_blockers_def
      split: integration_state.splits option.splits if_splits)

lemma first_error_None: "first_error a b = None \<longleftrightarrow> a = None \<and> b = None"
  by (auto simp: first_error_def split: option.splits)

lemma error_of_None: "error_of r = None \<longleftrightarrow> (\<exists>x. r = Inr x)"
  by (auto simp: error_of_def split: sum.splits)

text \<open>A worktree that git would remove by force is there, and what it holds is committed.\<close>

definition worktree_clean :: "'g cleanup_env \<Rightarrow> 'g \<Rightarrow> feature \<Rightarrow> repo_name \<Rightarrow> bool" where
  "worktree_clean env g f r \<longleftrightarrow>
     (case lookup_worktree (cu_git env) g (repo_bare (cu_layout env) r) (branch_str (ft_branch f)) of
        Inl _ \<Rightarrow> False
      | Inr None \<Rightarrow> True
      | Inr (Some e) \<Rightarrow> we_prunable e \<or> g_worktree_dirty (cu_git env) g (we_path e) = Inr False)"

text \<open>The commits of a branch are in its base, or the forge merged its very head.\<close>

definition branch_landed :: "'g cleanup_env \<Rightarrow> 'g \<Rightarrow> (repo_name \<Rightarrow> branch_name option) \<Rightarrow> hall \<Rightarrow> feature \<Rightarrow> repo_name \<Rightarrow> promotion \<Rightarrow> bool" where
  "branch_landed env g declared m f r p \<longleftrightarrow>
     (\<exists>db. declared r = Some db
       \<and> (let bare = repo_bare (cu_layout env) r in
          g_target_state (cu_git env) g bare = Inr TargetRepository
          \<and> (unmerged_commits_with_integration (cu_git env) g (cu_layout env) declared (\<lambda>n. Inr (bt_get m n)) f r (base_resolve f p db) = Inr 0
             \<or> (\<exists>head prs. g_revision_commit (cu_git env) g bare (branch_str (ft_branch f)) = Inr head
                  \<and> cu_prs env bare (branch_str (ft_branch f)) = Inr prs \<and> list_ex (\<lambda>pr. merged_head pr head) prs))))"

definition only_own_session :: "'g cleanup_env \<Rightarrow> 'g \<Rightarrow> feature_name \<Rightarrow> string option \<Rightarrow> bool" where
  "only_own_session env g n own \<longleftrightarrow> (\<exists>ss. cu_sessions env g n = Inr ss \<and> (\<forall>s \<in> set ss. own = Some (session_str s)))"

lemma live_sessions_none:
  "live_sessions_of env g n own = ([], None) \<longleftrightarrow> only_own_session env g n own"
  by (auto simp: live_sessions_of_def only_own_session_def filter_empty_conv split: sum.splits)

lemma facts_clean:
  assumes "fst (collect_repo_facts env g declared m f r p
      (map_sum cleanup_lookup_failure id (lookup_worktree (cu_git env) g (repo_bare (cu_layout env) r) (branch_str (ft_branch f)))) consult) = x"
    and "cx_error x = None" and "cx_dirty x \<noteq> Some True" and "declared r = Some db"
  shows "worktree_clean env g f r"
proof (cases "lookup_worktree (cu_git env) g (repo_bare (cu_layout env) r) (branch_str (ft_branch f))")
  case (Inl e)
  with assms(1,2,4) show ?thesis by (auto simp: collect_repo_facts_def Let_def first_error_None)
next
  case (Inr w)
  show ?thesis
  proof (cases "\<exists>e. w = Some e \<and> \<not> we_prunable e")
    case False
    with Inr show ?thesis by (auto simp: worktree_clean_def split: option.splits)
  next
    case True
    then obtain e where e: "w = Some e" "\<not> we_prunable e" by blast
    let ?d = "g_worktree_dirty (cu_git env) g (we_path e)"
    have "cx_dirty x = ok_of ?d" using assms(1,4) Inr e by (auto simp: collect_repo_facts_def Let_def)
    moreover have "error_of ?d = None"
      using assms(1,2,4) Inr e by (auto simp: collect_repo_facts_def Let_def first_error_None)
    ultimately have "?d = Inr False" using assms(3) by (auto simp: error_of_None ok_of_def)
    with Inr e show ?thesis by (simp add: worktree_clean_def)
  qed
qed

lemma facts_landed:
  assumes "fst (collect_repo_facts env g declared m f r p w True) = x"
    and "delivery_repo_blockers (repo_delivery_facts x) = []"
  shows "branch_landed env g declared m f r p"
proof (cases "declared r")
  case None
  with assms show ?thesis
    by (auto simp: collect_repo_facts_def absent_manifest_facts_def delivery_repo_blockers_def repo_delivery_facts_def)
next
  case (Some db)
  let ?bare = "repo_bare (cu_layout env) r"
  let ?u = "unmerged_commits_with_integration (cu_git env) g (cu_layout env) declared (\<lambda>n. Inr (bt_get m n)) f r (base_resolve f p db)"
  have clone: "g_target_state (cu_git env) g ?bare = Inr TargetRepository"
    using assms Some by (auto simp: collect_repo_facts_def Let_def delivery_repo_blockers_def repo_delivery_facts_def split: if_splits)
  have err: "cx_error x = None" using assms(2)
    by (auto simp: delivery_repo_blockers_def repo_delivery_facts_def split: option.splits if_splits)
  then obtain head n where head: "g_revision_commit (cu_git env) g ?bare (branch_str (ft_branch f)) = Inr head" and n: "?u = Inr n"
    using assms(1) Some clone by (auto simp: collect_repo_facts_def Let_def first_error_None error_of_None)
  show ?thesis
  proof (cases "n = 0")
    case True
    with Some clone n show ?thesis by (simp add: branch_landed_def)
  next
    case False
    then have f: "cx_forge x = Some (fst (ask_forge env ?bare (branch_str (ft_branch f)) head))"
      "cx_unmerged x = Some n" "cx_base x \<noteq> None"
      using assms(1) Some clone head n by (auto simp: collect_repo_facts_def Let_def ok_of_def)
    with assms(2) False have "cx_forge x = Some ForgeMerged"
      by (auto simp: delivery_repo_blockers_def repo_delivery_facts_def split: if_splits)
    with f(1) have "\<exists>prs. cu_prs env ?bare (branch_str (ft_branch f)) = Inr prs \<and> list_ex (\<lambda>pr. merged_head pr head) prs"
      by (auto simp: ask_forge_def read_forge_answer_def split: sum.splits if_splits option.splits list.splits)
    with Some clone head show ?thesis by (auto simp: branch_landed_def)
  qed
qed

section \<open>What a preview without blockers says\<close>

definition root_safe :: "'g cleanup_env \<Rightarrow> 'g \<Rightarrow> (repo_name \<Rightarrow> branch_name option) \<Rightarrow> hall \<Rightarrow> feature \<Rightarrow> string option \<Rightarrow> bool" where
  "root_safe env g declared m f own \<longleftrightarrow>
     only_own_session env g (ft_name f) own
     \<and> (ft_promotions f \<noteq> [] \<or> memory_reviewed env f)
     \<and> (\<forall>(r, p) \<in> set (ft_promotions f). branch_landed env g declared m f r p \<and> worktree_clean env g f r)"

definition descendant_safe :: "'g cleanup_env \<Rightarrow> 'g \<Rightarrow> (repo_name \<Rightarrow> branch_name option) \<Rightarrow> hall \<Rightarrow> feature \<Rightarrow> string option \<Rightarrow> bool" where
  "descendant_safe env g declared m n own \<longleftrightarrow>
     (feature_state_with_map (tree_reads_of env g) m n = Inr StIntegrated
      \<or> feature_state_with_map (tree_reads_of env g) m n = Inr StAbandoned)
     \<and> only_own_session env g (ft_name n) own
     \<and> (\<forall>(r, p) \<in> set (ft_promotions n). declared r \<noteq> None \<longrightarrow> worktree_clean env g n r)"

lemma map_of_mapped: "map_of (map (\<lambda>(k, _). (k, h k)) ps) k = (if k \<in> fst ` set ps then Some (h k) else None)"
  by (induction ps) auto

lemma lookup_of_worktrees:
  "(r, p) \<in> set (ft_promotions f) \<Longrightarrow> lookup_of (lookup_worktrees env g f) r = map_sum cleanup_lookup_failure id
    (lookup_worktree (cu_git env) g (repo_bare (cu_layout env) r) (branch_str (ft_branch f)))"
  by (force simp: lookup_of_def lookup_worktrees_def map_of_mapped)

lemma root_no_blockers:
  assumes "classify_cleanup (root_facts env g declared m f own) = []"
  shows "root_safe env g declared m f own"
proof -
  obtain sessions err where s: "live_sessions_of env g (ft_name f) own = (sessions, err)" by fastforce
  let ?ws = "lookup_worktrees env g f"
  let ?facts = "map fst (repo_facts_of env g declared m f ?ws True)"
  from assms(1) s have del: "sessions = [] \<and> err = None"
    "\<And>x. x \<in> set ?facts \<Longrightarrow> delivery_repo_blockers (repo_delivery_facts x) = [] \<and> cx_dirty x \<noteq> Some True"
    "?facts \<noteq> [] \<or> memory_reviewed env f"
    by (auto simp: root_facts_def no_cleanup_blockers no_delivery_blockers cleanup_delivery_facts_def)
  have "branch_landed env g declared m f r p \<and> worktree_clean env g f r" if rp: "(r, p) \<in> set (ft_promotions f)" for r p
  proof -
    let ?x = "fst (collect_repo_facts env g declared m f r p (lookup_of ?ws r) True)"
    have "?x \<in> set ?facts" using rp by (force simp: repo_facts_of_def)
    note b = del(2) [OF this]
    have landed: "branch_landed env g declared m f r p" by (rule facts_landed [OF refl]) (use b in blast)
    then obtain db where "declared r = Some db" by (auto simp: branch_landed_def)
    moreover have "cx_error ?x = None" using b
      by (auto simp: delivery_repo_blockers_def repo_delivery_facts_def split: option.splits if_splits)
    ultimately have "worktree_clean env g f r"
      using facts_clean [of env g declared m f r p True ?x db] b lookup_of_worktrees [OF rp, of env g] by simp
    with landed show ?thesis by blast
  qed
  with del(1,3) s live_sessions_none [of env g "ft_name f" own] show ?thesis
    by (auto simp: root_safe_def repo_facts_of_def)
qed

lemma descendant_no_blockers:
  assumes "cn_blockers (descendant_of env g declared m root own (d, n) state) = []"
    and "feature_state_with_map (tree_reads_of env g) m n = Inr state"
  shows "descendant_safe env g declared m n own"
proof -
  obtain sessions err where s: "live_sessions_of env g (ft_name n) own = (sessions, err)" by fastforce
  let ?ws = "lookup_worktrees env g n"
  let ?facts = "map fst (repo_facts_of env g declared m n ?ws False)"
  from assms(1) s have b: "state = StIntegrated \<or> state = StAbandoned" "sessions = [] \<and> err = None"
    "\<And>x. x \<in> set ?facts \<Longrightarrow> cx_dirty x \<noteq> Some True \<and> cx_error x = None"
    by (auto simp: descendant_of_def Let_def no_descendant_blockers)
  have "worktree_clean env g n r" if rp: "(r, p) \<in> set (ft_promotions n)" and db: "declared r = Some db" for r p db
  proof -
    let ?x = "fst (collect_repo_facts env g declared m n r p (lookup_of ?ws r) False)"
    have "?x \<in> set ?facts" using rp by (force simp: repo_facts_of_def)
    from b(3) [OF this] facts_clean [of env g declared m n r p False ?x db] db lookup_of_worktrees [OF rp, of env g]
    show ?thesis by simp
  qed
  with b s assms(2) live_sessions_none [of env g "ft_name n" own] show ?thesis
    by (auto simp: descendant_safe_def)
qed

lemma try_map_mem:
  assumes "try_map h xs = Inr ys" and "x \<in> set xs"
  shows "\<exists>y \<in> set ys. h x = Inr y"
  using assms by (fastforce simp: try_map_Inr_iff list_all2_conv_all_nth in_set_conv_nth)

lemma preview_without_blockers:
  assumes "preview_cleanup env g declared m f own = Some (Inr pv)" and "hall_ok m"
    and "\<not> has_blockers (cv_preview pv)"
  shows "root_safe env g declared m f own
    \<and> (\<exists>ys. descendants_from_values m (ft_name f) = Some ys
        \<and> cv_descendants pv = map (\<lambda>(_, n). (n, lookup_worktrees env g n)) ys
        \<and> (\<forall>(d, n) \<in> set ys. descendant_safe env g declared m n own))"
proof -
  have read: "read_all m = Inr (map snd m)" using hall_read_all [OF assms(2)] .
  have fm: "feature_map (map snd m) = m" using feature_map_values hall_ok_facts(1) [OF assms(2)] by blast
  let ?facts = "root_facts env g declared m f own"
  from assms(1) obtain ys ds where ys: "descendants_from_values m (ft_name f) = Some ys"
    and ds: "preview_nodes env g declared m (map snd m) (ft_name f) own ys = Inr ds"
    and pv: "cp_blockers (cv_preview pv) = classify_cleanup ?facts" "cp_descendants (cv_preview pv) = ds"
      "cv_descendants pv = map (\<lambda>(_, n). (n, lookup_worktrees env g n)) ys"
    by (auto simp: preview_cleanup_def Let_def read fm and_then_eq_Inr)
  have "descendant_safe env g declared m n own" if dn: "(d, n) \<in> set ys" for d n
  proof -
    from try_map_mem [OF ds [unfolded preview_nodes_def] dn] obtain state
      where state: "feature_state_with_map (tree_reads_of env g) m n = Inr state"
        and mem: "descendant_of env g declared m (ft_name f) own (d, n) state \<in> set ds"
      unfolding fm snd_conv by (cases "feature_state_with_map (tree_reads_of env g) m n") auto
    have "cn_blockers (descendant_of env g declared m (ft_name f) own (d, n) state) = []"
      using assms(3) mem pv(2) by (auto simp: has_blockers_def list_ex_iff)
    from descendant_no_blockers [OF this state] show ?thesis .
  qed
  moreover have "root_safe env g declared m f own"
    using root_no_blockers assms(3) pv(1) by (auto simp: has_blockers_def)
  ultimately show ?thesis using ys pv(3) by blast
qed

section \<open>What is torn down\<close>

text \<open>Nothing but the features of the hall changes, and of them only a prefix of a list goes.\<close>

definition removing :: "feature list \<Rightarrow> hall \<Rightarrow> hall" where
  "removing fs m = fold (\<lambda>f. bt_remove (ft_name f)) fs m"

lemma removing_Cons: "removing (f # fs) m = removing fs (bt_remove (ft_name f) m)"
  by (simp add: removing_def)

lemma removing_Nil [simp]: "removing [] m = m"
  by (simp add: removing_def)

lemma removing_append: "removing (fs @ gs) m = removing gs (removing fs m)"
  by (simp add: removing_def)

lemma removing_get: "bt_sorted m \<Longrightarrow> bt_get (removing fs m) n = (if n \<in> ft_name ` set fs then None else bt_get m n)"
proof (induction fs arbitrary: m)
  case (Cons f fs)
  then show ?case using bt.invar_remove [OF Cons.prems] by (simp add: removing_Cons bt.get_remove)
qed simp

lemma removing_leaves: "leaves_first m fs \<Longrightarrow> hall_ok m \<Longrightarrow> hall_ok (removing (take k fs) m)"
proof (induction fs arbitrary: m k)
  case (Cons f fs)
  then show ?case using hall_ok_remove [of m "ft_name f"] by (cases k) (simp_all add: removing_Cons)
qed simp

abbreviation hall_of :: "'g \<times> cleanup_hall \<Rightarrow> hall" where
  "hall_of s \<equiv> cw_features (snd s)"

lemma teardown_node_same: "teardown_node env f ws s = (r, s') \<Longrightarrow> snd s' = snd s"
  by (auto simp: teardown_node_def bind_s_def on_outside_def return_s_def split: prod.splits sum.splits)

lemma remove_node_dir_effect:
  assumes "remove_node_dir env n s = (r, s')"
  shows "(is_ok r \<longrightarrow> snd s' = (snd s)\<lparr>cw_features := bt_remove n (hall_of s)\<rparr>) \<and> (\<not> is_ok r \<longrightarrow> snd s' = snd s)"
  using assms
  by (auto simp: remove_node_dir_def bind_s_def on_outside_def on_hall_def drop_record_def split: prod.splits sum.splits)

lemma teardown_descendants_effect:
  "teardown_descendants env ds s = (r, s') \<Longrightarrow>
     \<exists>k \<le> length ds. snd s' = (snd s)\<lparr>cw_features := removing (take k (map fst ds)) (hall_of s)\<rparr>
       \<and> (\<forall>rows w all. r = Inr (rows, w, all) \<longrightarrow> (all \<longleftrightarrow> k = length ds)
            \<and> map cj_feature (filter cj_removed rows) = map ft_name (take k (map fst ds)))"
proof (induction ds arbitrary: s r s')
  case Nil
  then show ?case by (auto simp: return_s_def)
next
  case (Cons x ds)
  obtain n ws where x: "x = (n, ws)" by fastforce
  note run = Cons.prems [unfolded x teardown_descendants.simps]
  obtain r1 s1 where one: "teardown_node env n ws s = (r1, s1)" by (rule prod.exhaust)
  note s1 = teardown_node_same [OF one]
  have none: ?case if "snd s' = snd s" "\<forall>rows w all. r = Inr (rows, w, all) \<longrightarrow> \<not> all \<and> filter cj_removed rows = []"
    using that by (intro exI [of _ 0]) auto
  show ?case
  proof (cases "\<exists>td. r1 = Inr td \<and> td_complete td")
    case False
    then show ?thesis using run one s1
      by (intro none; cases r1) (auto simp: bind_s_def return_s_def Let_def split: if_splits)
  next
    case True
    then obtain td where td: "r1 = Inr td" "td_complete td" by blast
    obtain r2 s2 where two: "remove_node_dir env (ft_name n) s1 = (r2, s2)" by (rule prod.exhaust)
    show ?thesis
    proof (cases "is_ok r2")
      case False
      then show ?thesis using run one td two s1 remove_node_dir_effect [OF two]
        by (intro none) (auto simp: bind_s_def return_s_def catch_s_def Let_def)
    next
      case True
      obtain r3 s3 where three: "teardown_descendants env ds s2 = (r3, s3)" by (rule prod.exhaust)
      have s2: "snd s2 = (snd s)\<lparr>cw_features := bt_remove (ft_name n) (hall_of s)\<rparr>"
        using remove_node_dir_effect [OF two] True s1 by simp
      from Cons.IH [OF three] obtain k where k: "k \<le> length ds"
        "snd s3 = (snd s2)\<lparr>cw_features := removing (take k (map fst ds)) (hall_of s2)\<rparr>"
        "\<forall>rows w all. r3 = Inr (rows, w, all) \<longrightarrow> (all \<longleftrightarrow> k = length ds)
           \<and> map cj_feature (filter cj_removed rows) = map ft_name (take k (map fst ds))" by blast
      have "s' = s3" using run one td two True three
        by (cases r3) (auto simp: bind_s_def return_s_def catch_s_def Let_def split: prod.splits)
      moreover have "\<exists>rows' w' row. r3 = Inr (rows', w', all) \<and> rows = row # rows' \<and> cj_removed row \<and> cj_feature row = ft_name n"
        if "r = Inr (rows, w, all)" for rows w all
        using that run one td two True three
        by (cases r3) (auto simp: bind_s_def return_s_def catch_s_def Let_def split: prod.splits)
      ultimately show ?thesis using k s2
        by (intro exI [of _ "Suc k"]) (fastforce simp: x removing_Cons)
    qed
  qed
qed

abbreviation teardown_order :: "feature \<Rightarrow> previewed_cleanup \<Rightarrow> feature list" where
  "teardown_order f pv \<equiv> rev (map fst (cv_descendants pv)) @ [f]"

text \<open>A report says how much went, and the record is written exactly when everything did.\<close>

definition report_matches ::
    "'g cleanup_env \<Rightarrow> cleanup_record \<Rightarrow> string \<Rightarrow> cleanup_outcome \<Rightarrow> bool \<Rightarrow> (string \<times> cleanup_record) list \<Rightarrow>
     (string \<times> cleanup_record) list \<Rightarrow> bool" where
  "report_matches env r path out all before after \<longleftrightarrow>
     (\<exists>a. cs_applied out = Some a \<and> (cy_removed a \<longleftrightarrow> all)
        \<and> after = before @ (if all then [(record_abs env path, r\<lparr>cg_outcome := Some a\<rparr>)] else []))"

lemma write_record_effect:
  "write_record_outcome env r path a s = (res, s') \<Longrightarrow> hall_of s' = hall_of s
     \<and> (\<forall>u. res = Inr u \<longrightarrow> cw_records (snd s') = cw_records (snd s) @ [(record_abs env path, r\<lparr>cg_outcome := Some a\<rparr>)])"
  by (auto simp: write_record_outcome_def Let_def bind_s_def lift_s_def fail_s_def on_hall_def split: prod.splits sum.splits)

lemma finish_effect:
  assumes "bind_s (remove_node_dir env n) (\<lambda>layer.
      bind_s (write_record_outcome env r path a) (\<lambda>_.
      bind_s (emit_all (es layer)) (\<lambda>_. return_s (cleanup_report env p (Some a), w layer)))) s = (res, s')"
    and "cy_removed a"
  shows "(hall_of s' = hall_of s \<and> \<not> is_ok res) \<or> (hall_of s' = bt_remove n (hall_of s)
    \<and> (\<forall>out w. res = Inr (out, w) \<longrightarrow> report_matches env r path out True (cw_records (snd s)) (cw_records (snd s'))))"
proof -
  obtain r1 s1 where one: "remove_node_dir env n s = (r1, s1)" by (rule prod.exhaust)
  show ?thesis
  proof (cases r1)
    case (Inl e)
    with assms(1) one remove_node_dir_effect [OF one] show ?thesis by (auto simp: bind_s_def)
  next
    case (Inr layer)
    obtain r2 s2 where two: "write_record_outcome env r path a s1 = (r2, s2)" by (rule prod.exhaust)
    from remove_node_dir_effect [OF one] Inr have s1: "snd s1 = (snd s)\<lparr>cw_features := bt_remove n (hall_of s)\<rparr>" by simp
    from assms one two Inr s1 write_record_effect [OF two] show ?thesis
      by (cases r2) (auto simp: bind_s_def emit_all_def on_hall_def return_s_def cleanup_report_def report_matches_def)
  qed
qed

lemma apply_teardown_effect:
  assumes "apply_teardown env r path f pv review mw s = (res, s')"
  shows "\<exists>k \<le> length (teardown_order f pv). hall_of s' = removing (take k (teardown_order f pv)) (hall_of s)
    \<and> (\<forall>out w. res = Inr (out, w) \<longrightarrow>
         report_matches env r path out (k = length (teardown_order f pv)) (cw_records (snd s)) (cw_records (snd s')))"
proof -
  let ?ds = "rev (cv_descendants pv)" and ?L = "teardown_order f pv"
  have L: "?L = map fst ?ds @ [f]" by (simp add: rev_map)
  obtain r1 s1 where one: "teardown_descendants env ?ds s = (r1, s1)" by (rule prod.exhaust)
  from teardown_descendants_effect [OF one] obtain k where k: "k \<le> length ?ds"
    "snd s1 = (snd s)\<lparr>cw_features := removing (take k (map fst ?ds)) (hall_of s)\<rparr>"
    "\<And>rows w all. r1 = Inr (rows, w, all) \<Longrightarrow> all \<longleftrightarrow> k = length ?ds" by blast
  have stop: ?thesis if "hall_of s' = hall_of s1"
    "\<forall>out w. res = Inr (out, w) \<longrightarrow> report_matches env r path out False (cw_records (snd s1)) (cw_records (snd s'))"
    using that k(1,2) L by (intro exI [of _ k]) auto
  show ?thesis
  proof (cases "\<exists>rows w. r1 = Inr (rows, w, True)")
    case False
    then show ?thesis using assms one
      by (intro stop; cases r1) (auto simp: apply_teardown_def bind_s_def return_s_def Let_def report_matches_def
          cleanup_report_def applied_outcome_def split: prod.splits if_splits)
  next
    case True
    then obtain rows w where r1: "r1 = Inr (rows, w, True)" by blast
    obtain r2 s2 where two: "teardown_node env f (cv_worktrees pv) s1 = (r2, s2)" by (rule prod.exhaust)
    note s2 = teardown_node_same [OF two]
    show ?thesis
    proof (cases "\<exists>td. r2 = Inr td \<and> td_complete td")
      case False
      then show ?thesis using assms one r1 two s2
        by (intro stop; cases r2) (auto simp: apply_teardown_def bind_s_def return_s_def Let_def report_matches_def
            cleanup_report_def applied_outcome_def split: if_splits)
    next
      case True
      then obtain td where td: "r2 = Inr td" "td_complete td" by blast
      let ?a = "applied_outcome f (cv_preview pv) (td_worktrees td) (td_branches td) rows True"
      have run: "bind_s (remove_node_dir env (ft_name f)) (\<lambda>layer.
          bind_s (write_record_outcome env r path ?a) (\<lambda>_.
          bind_s (emit_all (cleaned_events f path (doc_of_record r review) ?a (cv_descendants pv))) (\<lambda>_.
            return_s (cleanup_report env (cv_preview pv) (Some ?a), (w @ mw) @ td_warnings td @ opt_list layer)))) s2 = (res, s')"
        using assms one r1 two td by (simp add: apply_teardown_def bind_s_def Let_def)
      from finish_effect [OF run] s2 have
        "(hall_of s' = hall_of s1 \<and> \<not> is_ok res) \<or> (hall_of s' = bt_remove (ft_name f) (hall_of s1)
          \<and> (\<forall>out w. res = Inr (out, w) \<longrightarrow> report_matches env r path out True (cw_records (snd s1)) (cw_records (snd s'))))"
        by (simp add: applied_outcome_def)
      then show ?thesis
      proof
        assume "hall_of s' = hall_of s1 \<and> \<not> is_ok res"
        then show ?thesis by (intro stop) auto
      next
        assume "hall_of s' = bt_remove (ft_name f) (hall_of s1)
          \<and> (\<forall>out w. res = Inr (out, w) \<longrightarrow> report_matches env r path out True (cw_records (snd s1)) (cw_records (snd s')))"
        moreover have "k = length ?ds" using k(3) r1 by simp
        ultimately show ?thesis using k(2) L
          by (intro exI [of _ "length ?L"]) (auto simp: removing_append removing_Cons)
      qed
    qed
  qed
qed

text \<open>A failure writes no record, also when the write of the record is what failed.\<close>

lemma write_record_fails: "write_record_outcome env r path a s = (Inl e, s') \<Longrightarrow> snd s' = snd s"
  by (auto simp: write_record_outcome_def Let_def bind_s_def lift_s_def fail_s_def on_hall_def split: prod.splits sum.splits)

lemma apply_teardown_fails:
  assumes "apply_teardown env r path f pv review mw s = (Inl e, s')"
  shows "cw_records (snd s') = cw_records (snd s)"
proof -
  obtain r1 s1 where one: "teardown_descendants env (rev (cv_descendants pv)) s = (r1, s1)" by (rule prod.exhaust)
  from teardown_descendants_effect [OF one] have s1: "cw_records (snd s1) = cw_records (snd s)" by auto
  show ?thesis
  proof (cases "\<exists>rows w. r1 = Inr (rows, w, True)")
    case False
    with assms one s1 show ?thesis
      by (cases r1) (auto simp: apply_teardown_def bind_s_def return_s_def Let_def split: prod.splits if_splits)
  next
    case True
    then obtain rows w where r1: "r1 = Inr (rows, w, True)" by blast
    obtain r2 s2 where two: "teardown_node env f (cv_worktrees pv) s1 = (r2, s2)" by (rule prod.exhaust)
    have s2: "cw_records (snd s2) = cw_records (snd s)" using teardown_node_same [OF two] s1 by simp
    show ?thesis
    proof (cases "\<exists>td. r2 = Inr td \<and> td_complete td")
      case False
      with assms one r1 two s2 show ?thesis
        by (cases r2) (auto simp: apply_teardown_def bind_s_def return_s_def Let_def split: if_splits)
    next
      case True
      then obtain td where td: "r2 = Inr td" "td_complete td" by blast
      obtain r3 s3 where three: "remove_node_dir env (ft_name f) s2 = (r3, s3)" by (rule prod.exhaust)
      have s3: "cw_records (snd s3) = cw_records (snd s)"
        using remove_node_dir_effect [OF three] s2 by (cases r3) auto
      let ?a = "applied_outcome f (cv_preview pv) (td_worktrees td) (td_branches td) rows True"
      obtain r4 s4 where four: "write_record_outcome env r path ?a s3 = (r4, s4)" by (rule prod.exhaust)
      show ?thesis
      proof (cases r3)
        case (Inl x)
        with assms one r1 two td three s3 show ?thesis by (simp add: apply_teardown_def bind_s_def Let_def)
      next
        case r3: (Inr layer)
        show ?thesis
        proof (cases r4)
          case (Inl x)
          with assms one r1 two td three r3 four have "s' = s4" by (simp add: apply_teardown_def bind_s_def Let_def)
          with write_record_fails [OF four [unfolded Inl]] s3 show ?thesis by simp
        next
          case (Inr u)
          with assms one r1 two td three r3 four show ?thesis
            by (simp add: apply_teardown_def bind_s_def Let_def emit_all_def on_hall_def return_s_def)
        qed
      qed
    qed
  qed
qed

lemma apply_cleanup_cases:
  assumes "apply_cleanup env arg path own s = Some (res, s')"
  obtains "fst s' = fst s" "hall_of s' = hall_of s" "cw_records (snd s') = cw_records (snd s)" "\<not> is_ok res"
  | r declared n f pv s1 review mw where "load_and_validate_record env path = Inr r" "cu_manifest env = Inr declared"
    "named (feature_name_new arg) = Inr n" "bt_get (hall_of s) n = Some f"
    "preview_cleanup env (fst s) declared (hall_of s) f own = Some (Inr pv)"
    "validate_record_against_preview r (cv_preview pv) (cv_forge_consulted pv) = Inr ()"
    "fst s1 = fst s" "hall_of s1 = hall_of s" "cw_records (snd s1) = cw_records (snd s)"
    "apply_teardown env r path f pv review mw s1 = (res, s')"
proof -
  let ?start = "and_then (load_and_validate_record env path) (\<lambda>r. and_then (cu_manifest env) (\<lambda>declared.
      and_then (named (feature_name_new arg)) (\<lambda>n. and_then (cleanup_feature (hall_of s) n) (\<lambda>f. Inr (r, declared, n, f)))))"
  show thesis
  proof (cases ?start)
    case (Inl e)
    with assms have "(Inl e, s) = (res, s')" by (simp add: apply_cleanup_def)
    with that(1) show thesis by auto
  next
    case (Inr x)
    then obtain r declared n f where x: "x = (r, declared, n, f)" "load_and_validate_record env path = Inr r"
      "cu_manifest env = Inr declared" "named (feature_name_new arg) = Inr n" "cleanup_feature (hall_of s) n = Inr f"
      by (auto simp: and_then_eq_Inr)
    then have f: "bt_get (hall_of s) n = Some f" by (auto simp: cleanup_feature_def split: option.splits)
    obtain review mw where m: "memory_review env n = (review, mw)" by fastforce
    from assms x Inr obtain pre where pre: "preview_cleanup env (fst s) declared (hall_of s) f own = Some pre"
      by (auto simp: apply_cleanup_def)
    show thesis
    proof (cases pre)
      case (Inl e)
      with assms x Inr pre m have "(Inl e, s) = (res, s')" by (simp add: apply_cleanup_def bind_s_def lift_s_def)
      with that(1) show thesis by auto
    next
      case pv: (Inr pv)
      let ?s1 = "(fst s, (snd s)\<lparr>cw_events := cw_events (snd s) @ merged_events f (cv_merged pv)\<rparr>)"
      let ?v = "validate_record_against_preview r (cv_preview pv) (cv_forge_consulted pv)"
      let ?p = "preflight_deletable env (fst s) f (cv_descendants pv)"
      have run: "(res, s') = (case ?v of Inl e \<Rightarrow> (Inl e, ?s1) | Inr _ \<Rightarrow>
          (case ?p of Inl e \<Rightarrow> (Inl e, ?s1) | Inr _ \<Rightarrow> apply_teardown env r path f pv review mw ?s1))"
        using assms x Inr pre m pv
        by (auto simp: apply_cleanup_def bind_s_def lift_s_def emit_all_def on_hall_def gets_s_def split: sum.splits)
      show thesis
      proof (cases "?v = Inr () \<and> ?p = Inr ()")
        case True
        with run that(2) [OF x(2-4) f pre [unfolded pv], of ?s1 review mw] show thesis by simp
      next
        case False
        with run that(1) show thesis by (cases ?v; cases ?p) auto
      qed
    qed
  qed
qed

lemma validated_record:
  "validate_record_against_preview r p c = Inr () \<Longrightarrow> cg_feature r = cp_feature p \<and> cg_fingerprint r = cp_fingerprint p
     \<and> sp_approved (ca_delivery (cg_approvals r)) \<and> sp_approved (ca_teardown (cg_approvals r)) \<and> \<not> has_blockers p"
  by (auto simp: validate_record_against_preview_def split: if_splits)

lemma cleanup_returns:
  assumes "hall_ok (hall_of s)"
  obtains res s' where "apply_cleanup env arg path own s = Some (res, s')"
proof -
  have "preview_cleanup env (fst s) declared (hall_of s) f own \<noteq> None" if "bt_get (hall_of s) n = Some f" for declared n f
  proof -
    have name: "ft_name f = n" using that hall_ok_facts(1) [OF assms] unfolding map_ok_def by blast
    have "feature_map (map snd (hall_of s)) = hall_of s" using feature_map_values hall_ok_facts(1) [OF assms] by blast
    with delete_nodes_leaves_first [OF assms that] show ?thesis
      by (auto simp: preview_cleanup_def Let_def hall_read_all [OF assms] name)
  qed
  then have "apply_cleanup env arg path own s = None \<Longrightarrow> False"
    by (auto simp: apply_cleanup_def cleanup_feature_def and_then_eq_Inr simp del: not_None_eq split: sum.splits option.splits)
  then show thesis using that by (cases "apply_cleanup env arg path own s") auto
qed

lemma descendants_exclude:
  assumes "hall_ok m" and "descendants_from_values m n = Some ys"
  shows "n \<notin> ft_name ` snd ` set ys"
proof
  assume "n \<in> ft_name ` snd ` set ys"
  then obtain d g where dg: "(d, g) \<in> set ys" "ft_name g = n" by force
  note mok = hall_ok_facts(1) [OF assms(1)]
  have off: "(n, n) \<notin> (up m)\<^sup>+" using hall_ok_facts(2) [OF assms(1)] by (auto simp: tree_valid_def acyclic_def)
  obtain zs where zs: "preorders m 1 n zs" using preorders_exist [OF mok off] by blast
  then have "zs = ys" using descendants_preorders [OF mok zs] assms(2) by simp
  with preorders_rows [OF mok zs, of d g] dg obtain k where "(n, n) \<in> up m ^^ Suc k" by auto
  then have "(n, n) \<in> (up m)\<^sup>+" unfolding trancl_power by blast
  with off show False by simp
qed

text \<open>A prefix of the teardown order: the tree stays whole, and the feature itself goes last.\<close>

lemma subtree_prefix:
  fixes n and f and ys
  defines "L \<equiv> rev (map snd ys) @ [f]"
  assumes ok: "hall_ok m" and f: "bt_get m n = Some f" and ys: "descendants_from_values m n = Some ys" and k: "k \<le> length L"
  shows "hall_ok (removing (take k L) m)"
    and "\<exists>gone. (\<forall>q. bt_get (removing (take k L) m) q = (if q \<in> gone then None else bt_get m q)) \<and> (\<forall>q \<in> gone. (q, n) \<in> (up m)\<^sup>*)"
    and "k = length L \<Longrightarrow> \<forall>q. (q, n) \<in> (up m)\<^sup>* \<longrightarrow> bt_get (removing (take k L) m) q = None"
    and "k \<noteq> length L \<Longrightarrow> bt_get (removing (take k L) m) n \<noteq> None"
proof -
  note mok = hall_ok_facts(1) [OF ok]
  from delete_nodes_leaves_first [OF ok f] ys have lf: "leaves_first m L"
    and all: "\<And>g. g \<in> insert f (snd ` set ys) \<longleftrightarrow> bt_get m (ft_name g) = Some g \<and> (ft_name g, n) \<in> (up m)\<^sup>*" by (auto simp: L_def)
  have set_L: "set L = insert f (snd ` set ys)" by (auto simp: L_def)
  note get = removing_get [OF hall_ok_facts(3) [OF ok]]
  show "hall_ok (removing (take k L) m)" by (rule removing_leaves [OF lf ok])
  have "(q, n) \<in> (up m)\<^sup>*" if "q \<in> ft_name ` set (take k L)" for q
    using that set_take_subset [of k L] all unfolding set_L by blast
  then show "\<exists>gone. (\<forall>q. bt_get (removing (take k L) m) q = (if q \<in> gone then None else bt_get m q)) \<and> (\<forall>q \<in> gone. (q, n) \<in> (up m)\<^sup>*)"
    using get by (intro exI [of _ "ft_name ` set (take k L)"]) simp
  show "\<forall>q. (q, n) \<in> (up m)\<^sup>* \<longrightarrow> bt_get (removing (take k L) m) q = None" if "k = length L"
  proof (intro allI impI)
    fix q assume q: "(q, n) \<in> (up m)\<^sup>*"
    show "bt_get (removing (take k L) m) q = None"
    proof (cases "bt_get m q")
      case (Some g)
      then have "ft_name g = q" using mok unfolding map_ok_def by blast
      with all [of g] Some q have "q \<in> ft_name ` set L" unfolding set_L by force
      with that get show ?thesis by simp
    qed (simp add: get)
  qed
  show "bt_get (removing (take k L) m) n \<noteq> None" if "k \<noteq> length L"
  proof -
    have "take k L = take k (rev (map snd ys))" using that k by (simp add: L_def)
    then have "set (take k L) \<subseteq> snd ` set ys" using set_take_subset [of k "rev (map snd ys)"] by auto
    with descendants_exclude [OF ok ys] have "n \<notin> ft_name ` set (take k L)" by blast
    with get f show ?thesis by simp
  qed
qed

section \<open>Properties\<close>

text \<open>
  C8: a cleanup destroys nothing, in git or in the hall, before a record that a person approved
  twice and whose fingerprint is that of the state now.  What was found in that state, before
  anything went: every promotion of the feature named is in a repository the manifest declares,
  its branch has landed (in its base, or the forge merged its very head) and its worktree is
  clean; every feature below it was integrated or abandoned, with clean worktrees in the
  repositories the manifest declares; and no session but the caller's own is live on any of
  them.  Of a feature below, the branches are not asked to have landed, and a worktree in a
  repository the manifest does not declare is not looked at.
\<close>

theorem cleanup_needs_approval:
  assumes "hall_ok (hall_of s)" and "apply_cleanup env arg path own s = Some (res, s')"
    and "fst s' \<noteq> fst s \<or> hall_of s' \<noteq> hall_of s"
  shows "\<exists>r declared f pv. load_and_validate_record env path = Inr r \<and> cu_manifest env = Inr declared
    \<and> sp_approved (ca_delivery (cg_approvals r)) \<and> sp_approved (ca_teardown (cg_approvals r))
    \<and> named (feature_name_new arg) = Inr (ft_name f) \<and> bt_get (hall_of s) (ft_name f) = Some f
    \<and> preview_cleanup env (fst s) declared (hall_of s) f own = Some (Inr pv)
    \<and> cg_fingerprint r = cp_fingerprint (cv_preview pv)
    \<and> root_safe env (fst s) declared (hall_of s) f own
    \<and> (\<forall>n g. (n, ft_name f) \<in> (up (hall_of s))\<^sup>+ \<longrightarrow> bt_get (hall_of s) n = Some g
         \<longrightarrow> descendant_safe env (fst s) declared (hall_of s) g own)"
  using assms(2)
proof (cases rule: apply_cleanup_cases)
  case 1
  with assms(3) show ?thesis by simp
next
  case (2 r declared n f pv s1 review mw)
  note mok = hall_ok_facts(1) [OF assms(1)]
  have name: "ft_name f = n" using 2(4) mok unfolding map_ok_def by blast
  note v = validated_record [OF 2(6)]
  from preview_without_blockers [OF 2(5) assms(1)] v
  obtain ys where ys: "root_safe env (fst s) declared (hall_of s) f own" "descendants_from_values (hall_of s) n = Some ys"
    "\<forall>(d, g) \<in> set ys. descendant_safe env (fst s) declared (hall_of s) g own" by (auto simp: name)
  have "descendant_safe env (fst s) declared (hall_of s) g own"
    if "(k, n) \<in> (up (hall_of s))\<^sup>+" "bt_get (hall_of s) k = Some g" for k g
  proof -
    from delete_nodes_leaves_first [OF assms(1) 2(4)] ys(2)
    have all: "g \<in> insert f (snd ` set ys) \<longleftrightarrow> bt_get (hall_of s) (ft_name g) = Some g \<and> (ft_name g, n) \<in> (up (hall_of s))\<^sup>*" by auto
    have g: "ft_name g = k" using that(2) mok unfolding map_ok_def by blast
    have "g \<noteq> f" using that(1) g name hall_ok_facts(2) [OF assms(1)] by (auto simp: tree_valid_def acyclic_def)
    moreover have "(k, n) \<in> (up (hall_of s))\<^sup>*" using that(1) by (rule trancl_into_rtrancl)
    ultimately have "g \<in> snd ` set ys" using all that(2) g by auto
    with ys(3) show ?thesis by auto
  qed
  with 2 v ys(1) name show ?thesis by auto
qed

text \<open>
  C9: a cleanup always returns, and whatever stops it, the features that go lie in the subtree
  of the one named, leaves first, so that every feature left has its parent.  A report that
  says removed means the whole subtree is gone and the outcome is in the record; one that does
  not leaves the feature, and the record, for another try; and a failure writes no record,
  though it may come after the whole subtree is gone, when the write of the record is what
  failed.
\<close>

theorem cleanup_leaves_first:
  assumes "hall_ok (hall_of s)"
  shows "\<exists>res s'. apply_cleanup env arg path own s = Some (res, s') \<and> hall_ok (hall_of s')
    \<and> (\<exists>gone. (\<forall>n. bt_get (hall_of s') n = (if n \<in> gone then None else bt_get (hall_of s) n))
        \<and> (\<forall>n \<in> gone. \<exists>k. named (feature_name_new arg) = Inr k \<and> (n, k) \<in> (up (hall_of s))\<^sup>*))
    \<and> (\<forall>out w. res = Inr (out, w) \<longrightarrow> (\<exists>a k r. cs_applied out = Some a \<and> named (feature_name_new arg) = Inr k
         \<and> (if cy_removed a
            then (\<forall>n. (n, k) \<in> (up (hall_of s))\<^sup>* \<longrightarrow> bt_get (hall_of s') n = None)
              \<and> cw_records (snd s') = cw_records (snd s) @ [(record_abs env path, r\<lparr>cg_outcome := Some a\<rparr>)]
            else bt_get (hall_of s') k \<noteq> None \<and> cw_records (snd s') = cw_records (snd s))))
    \<and> (\<forall>e. res = Inl e \<longrightarrow> cw_records (snd s') = cw_records (snd s))"
proof -
  obtain res s' where run: "apply_cleanup env arg path own s = Some (res, s')" by (rule cleanup_returns [OF assms])
  from run show ?thesis
  proof (cases rule: apply_cleanup_cases)
    case 1
    with run assms show ?thesis by (intro exI [of _ res] exI [of _ s']) (auto intro!: exI [of _ "{}"])
  next
    case (2 r declared n f pv s1 review mw)
    have name: "ft_name f = n" using 2(4) hall_ok_facts(1) [OF assms] unfolding map_ok_def by blast
    from validated_record [OF 2(6)] preview_without_blockers [OF 2(5) assms] obtain ys where
      ys: "descendants_from_values (hall_of s) n = Some ys" "cv_descendants pv = map (\<lambda>(_, n). (n, lookup_worktrees env (fst s) n)) ys"
      by (auto simp: name)
    let ?L = "rev (map snd ys) @ [f]"
    have L: "teardown_order f pv = ?L" using ys(2) by (simp add: comp_def case_prod_unfold)
    from apply_teardown_effect [OF 2(10)] obtain k where k: "k \<le> length ?L" "hall_of s' = removing (take k ?L) (hall_of s)"
      "\<And>out w. res = Inr (out, w) \<Longrightarrow> report_matches env r path out (k = length ?L) (cw_records (snd s)) (cw_records (snd s'))"
      unfolding L using 2(8,9) by auto
    note rest = subtree_prefix [OF assms 2(4) ys(1) k(1), folded k(2)]
    have "\<exists>a j r. cs_applied out = Some a \<and> named (feature_name_new arg) = Inr j
         \<and> (if cy_removed a
            then (\<forall>q. (q, j) \<in> (up (hall_of s))\<^sup>* \<longrightarrow> bt_get (hall_of s') q = None)
              \<and> cw_records (snd s') = cw_records (snd s) @ [(record_abs env path, r\<lparr>cg_outcome := Some a\<rparr>)]
            else bt_get (hall_of s') j \<noteq> None \<and> cw_records (snd s') = cw_records (snd s))"
      if "res = Inr (out, w)" for out w
      using k(3) [OF that] k(1) rest(3,4) 2(3) unfolding report_matches_def
      by (elim exE conjE) (rule exI, rule exI [of _ n], rule exI [of _ r], auto)
    moreover have "cw_records (snd s') = cw_records (snd s)" if "res = Inl e" for e
      using apply_teardown_fails [OF 2(10) [unfolded that]] 2(9) by simp
    ultimately show ?thesis using run rest(1,2) 2(3) by (intro exI [of _ res] exI [of _ s']) auto
  qed
qed

text \<open>
  C37: a promotion of a descendant in a repository that the manifest no longer names is not
  looked at: neither the repositories nor the blockers of the preview mention it, whatever its
  worktree holds, and the teardown removes the worktree all the same, with git's \<open>--force\<close>.
\<close>

theorem absent_repo_unchecked:
  assumes "(r, p) \<in> set (ft_promotions n)" and "declared r = None"
    and "lookup_worktree (cu_git env) g (repo_bare (cu_layout env) r) (branch_str (ft_branch n)) = Inr (Some e)"
    and "\<not> we_prunable e"
    and "g_remove_worktree (cu_git env) (repo_bare (cu_layout env) r) (we_path e) g1 = (Inr (), g2)"
  shows "let d = descendant_of env g declared m root own (k, n) state in
      r \<notin> ch_repo ` set (cn_repos d) \<and> CbDirtyWorktree r \<notin> set (cn_blockers d) \<and> CbRepoAbsent r \<notin> set (cn_blockers d)
      \<and> (\<forall>x. CbInspectionFailed r x \<notin> set (cn_blockers d))
      \<and> cleanup_worktree env (lookup_worktrees env g n) r g1
          = (Inr (removed_worktree r, []), cu_prune_parents env (we_path e) (repo_dir (cu_layout env) r) g2)"
proof -
  let ?facts = "map fst (repo_facts_of env g declared m n (lookup_worktrees env g n) False)"
  have absent: "x = absent_manifest_facts r" if "x \<in> set ?facts" "cx_repo x = r" for x
    using that assms(2) by (auto simp: repo_facts_of_def collect_repo_facts_def absent_manifest_facts_def Let_def split: option.splits)
  have harmless: "cleanup_repo_of x = None \<and> descendant_repo_blockers x = []" if "x \<in> set ?facts" "cx_repo x = r" for x
    using absent [OF that] by (simp add: absent_manifest_facts_def cleanup_repo_of_def descendant_repo_blockers_def)
  have other: "cx_repo x \<noteq> r" if "x \<in> set ?facts" "cleanup_repo_of x \<noteq> None \<or> descendant_repo_blockers x \<noteq> []" for x
    using harmless [OF that(1)] that(2) by metis
  have repos: "r \<notin> ch_repo ` set (List.map_filter cleanup_repo_of ?facts)"
  proof
    assume "r \<in> ch_repo ` set (List.map_filter cleanup_repo_of ?facts)"
    then obtain x c where "x \<in> set ?facts" "cleanup_repo_of x = Some c" "ch_repo c = r" by (force simp: map_filter_def)
    with other [of x] show False by (auto simp: cleanup_repo_of_def)
  qed
  have "b \<noteq> CbDirtyWorktree r \<and> b \<noteq> CbRepoAbsent r \<and> (\<forall>x. b \<noteq> CbInspectionFailed r x)"
    if b: "b \<in> set (concat (map descendant_repo_blockers ?facts))" for b
  proof -
    from b obtain x where x: "x \<in> set ?facts" "b \<in> set (descendant_repo_blockers x)" unfolding set_concat set_map by blast
    then have "cx_repo x \<noteq> r" using other [of x] by (cases "descendant_repo_blockers x") simp_all
    with x(2) show ?thesis by (auto simp: descendant_repo_blockers_def split: if_splits option.splits)
  qed
  with repos have "let d = descendant_of env g declared m root own (k, n) state in
      r \<notin> ch_repo ` set (cn_repos d) \<and> CbDirtyWorktree r \<notin> set (cn_blockers d) \<and> CbRepoAbsent r \<notin> set (cn_blockers d)
      \<and> (\<forall>x. CbInspectionFailed r x \<notin> set (cn_blockers d))"
    by (auto simp: descendant_of_def Let_def classify_descendant_cleanup_def split: prod.splits integration_state.splits option.splits if_splits)
  moreover have "cleanup_worktree env (lookup_worktrees env g n) r g1
      = (Inr (removed_worktree r, []), cu_prune_parents env (we_path e) (repo_dir (cu_layout env) r) g2)"
    using lookup_of_worktrees [OF assms(1), of env g] assms(3-5) by (simp add: cleanup_worktree_def remove_worktree_entry_def)
  ultimately show ?thesis by (simp add: Let_def)
qed

section \<open>Witnesses\<close>

text \<open>The hall of two features, the lower one abandoned, with a record that approves its cleanup.\<close>

definition sample_approvals :: cleanup_approvals where
  "sample_approvals =
     \<lparr>ca_delivery = \<lparr>sp_approved = True, sp_at = ''t''\<rparr>, ca_documentation = None,
      ca_teardown = \<lparr>sp_approved = True, sp_at = ''t''\<rparr>\<rparr>"

definition sample_record :: cleanup_record where
  "sample_record =
     \<lparr>cg_schema = 2, cg_feature = FeatureName ''shop'', cg_branch = BranchName ''shop'', cg_fingerprint = ''fp'',
      cg_approvals = sample_approvals, cg_outcome = None\<rparr>"

definition sample_cleanup_env :: "unit cleanup_env" where
  "sample_cleanup_env =
     \<lparr>cu_git = sample_git, cu_layout = layout_at ''/h'', cu_manifest = Inr (\<lambda>r. None), cu_tree = sample_reads,
      cu_sessions = (\<lambda>g n. Inr []), cu_is_dir = (\<lambda>g p. True), cu_prs = (\<lambda>b h. Inr []), cu_drain = Inr (),
      cu_review = (\<lambda>n. Inr Reviewed), cu_digest = (\<lambda>p. Inr ''fp''), cu_blockers = (\<lambda>g p. []),
      cu_remove_dir = (\<lambda>p g. (Inr (), g)), cu_drop_layers = (\<lambda>n g. (None, g)), cu_prune_parents = (\<lambda>a b g. g),
      cu_update_pages = ''/h/docs/updates'', cu_canonicalize = Some, cu_read_text = (\<lambda>p. Inr (Some [])),
      cu_decode = (\<lambda>t. Inr sample_record), cu_write_record = (\<lambda>p r. Inr (Inr ()))\<rparr>"

definition sample_cleanup_hall :: cleanup_hall where
  "sample_cleanup_hall = \<lparr>cw_features = sample_hall, cw_events = [], cw_records = []\<rparr>"

abbreviation sample_cleanup :: "((failure + cleanup_outcome \<times> warning list) \<times> unit \<times> cleanup_hall) option" where
  "sample_cleanup \<equiv> apply_cleanup sample_cleanup_env ''shop'' ''docs/updates/shop.json'' None ((), sample_cleanup_hall)"

lemma sample_cleanup_result:
  "map_option (\<lambda>x. (map_sum (\<lambda>_. ()) (\<lambda>(out, _). map_option cy_removed (cs_applied out)) (fst x), cw_features (snd (snd x)))) sample_cleanup
     = Some (Inr (Some True), [])"
  by code_simp

theorem cleanup_needs_approval_witness:
  "\<exists>r. load_and_validate_record sample_cleanup_env ''docs/updates/shop.json'' = Inr r \<and> sp_approved (ca_teardown (cg_approvals r))"
proof -
  from sample_cleanup_result obtain res s' where run: "sample_cleanup = Some (res, s')" "cw_features (snd s') = []"
    by (cases sample_cleanup) auto
  have "sample_hall \<noteq> []" by code_simp
  with run(2) have "hall_of s' \<noteq> hall_of ((), sample_cleanup_hall)" by (simp add: sample_cleanup_hall_def)
  with cleanup_needs_approval [of "((), sample_cleanup_hall)", OF _ run(1)] sample_hall_ok
  show ?thesis by (auto simp: sample_cleanup_hall_def)
qed

theorem cleanup_leaves_first_witness:
  "\<exists>res s'. sample_cleanup = Some (res, s') \<and> hall_ok (hall_of s') \<and> hall_of s' = []"
proof -
  obtain res s' where "sample_cleanup = Some (res, s')" "hall_ok (hall_of s')"
    using cleanup_leaves_first [of "((), sample_cleanup_hall)" sample_cleanup_env "''shop''" "''docs/updates/shop.json''" None] sample_hall_ok
    by (auto simp: sample_cleanup_hall_def)
  moreover have "hall_of s' = []" using sample_cleanup_result calculation(1) by auto
  ultimately show ?thesis by blast
qed

definition sample_worktree :: worktree_entry where
  "sample_worktree = \<lparr>we_path = ''/h/wt'', we_branch = Some ''checkout'', we_detached = False, we_prunable = False\<rparr>"

definition dirty_git :: "unit git" where
  "dirty_git = sample_git\<lparr>g_is_dir := (\<lambda>g p. Inr True), g_list_worktrees := (\<lambda>g p. Inr [sample_worktree]),
     g_worktree_dirty := (\<lambda>g p. Inr True)\<rparr>"

theorem absent_repo_unchecked_witness:
  "cn_blockers (descendant_of (sample_cleanup_env\<lparr>cu_git := dirty_git\<rparr>) () (\<lambda>r. None) [] (FeatureName ''shop'') None
       (1, sample_feature) StAbandoned) = []
   \<and> fst (cleanup_worktree (sample_cleanup_env\<lparr>cu_git := dirty_git\<rparr>)
       (lookup_worktrees (sample_cleanup_env\<lparr>cu_git := dirty_git\<rparr>) () sample_feature) (RepoName ''api'') ()) = Inr (removed_worktree (RepoName ''api''), [])"
proof -
  let ?env = "sample_cleanup_env\<lparr>cu_git := dirty_git\<rparr>"
  have "(RepoName ''api'', the (bt_get (ft_promotions sample_feature) (RepoName ''api''))) \<in> set (ft_promotions sample_feature)" by code_simp
  moreover have "lookup_worktree (cu_git ?env) () (repo_bare (cu_layout ?env) (RepoName ''api'')) (branch_str (ft_branch sample_feature))
      = Inr (Some sample_worktree)" by code_simp
  moreover have "g_remove_worktree (cu_git ?env) (repo_bare (cu_layout ?env) (RepoName ''api'')) (we_path sample_worktree) () = (Inr (), ())"
    by code_simp
  moreover have "cn_blockers (descendant_of ?env () (\<lambda>r. None) [] (FeatureName ''shop'') None (1, sample_feature) StAbandoned) = []" by code_simp
  ultimately show ?thesis
    using absent_repo_unchecked [of "RepoName ''api''" _ sample_feature "\<lambda>r. None" ?env "()" sample_worktree "()" "()" "[]"
        "FeatureName ''shop''" None 1 StAbandoned]
    by (simp add: Let_def sample_worktree_def)
qed

end
