(* ===== verification/Prune.thy ===== *)
theory Prune
  imports Cleanup_Facts Hall_Invariants
begin

text \<open>
  \<open>src/src/action/feature/prune.rs\<close>: the deletion of every feature that was delivered, leaves
  first.  It classifies each feature when its turn comes and deletes it with the verb of
  \<open>Deletion\<close>, refusing to take descendants along.
\<close>

section \<open>The verdict on a feature\<close>

datatype prune_verdict = PruneIt | KeepIt string

text \<open>
  \<open>pn_manifest\<close> is the default branch of each declared repository, \<open>pn_reaches\<close> is
  \<open>first_parent_reaches\<close> of the git interface: whether a commit is on the first-parent history
  of a branch.
\<close>

record 'g prune_env =
  pn_delete :: "'g delete_env"
  pn_manifest :: "failure + (repo_name \<Rightarrow> branch_name option)"
  pn_reaches :: "'g \<Rightarrow> string \<Rightarrow> string \<Rightarrow> string \<Rightarrow> git_error + bool"

definition prune_repo_facts ::
    "'g prune_env \<Rightarrow> 'g \<Rightarrow> (repo_name \<Rightarrow> branch_name option) \<Rightarrow> hall \<Rightarrow> feature \<Rightarrow> repo_name \<times> promotion \<Rightarrow> delivery_repo_facts" where
  "prune_repo_facts env g declared m f x =
     (case x of (repo, p) \<Rightarrow>
       (case declared repo of
          None \<Rightarrow> \<lparr>dr_repo = repo, dr_base = None, dr_clone = False, dr_unmerged = None, dr_manifest = False, dr_error = None\<rparr>
        | Some db \<Rightarrow>
            (let git = dl_git (pn_delete env); lay = dl_layout (pn_delete env); base = base_resolve f p db;
                 clone = (g_target_state git g (repo_bare lay repo) = Inr TargetRepository);
                 unmerged = unmerged_commits_with_integration git g lay declared (\<lambda>n. Inr (bt_get m n)) f repo base
             in \<lparr>dr_repo = repo, dr_base = Some base, dr_clone = clone,
                 dr_unmerged = (if clone then (case unmerged of Inr n \<Rightarrow> Some n | Inl _ \<Rightarrow> None) else None),
                 dr_manifest = True,
                 dr_error = (if clone then (case unmerged of Inl e \<Rightarrow> Some (git_error_display e) | Inr _ \<Rightarrow> None) else None)\<rparr>)))"

text \<open>Whether a tip has no commits of its own: it is the base, or a first parent of it.\<close>

definition tip_unstarted :: "'g prune_env \<Rightarrow> 'g \<Rightarrow> string \<Rightarrow> string \<Rightarrow> string \<Rightarrow> git_error + bool" where
  "tip_unstarted env g bare base branch =
     and_then (g_revision_commit (dl_git (pn_delete env)) g bare branch) (\<lambda>tip.
     and_then (g_revision_commit (dl_git (pn_delete env)) g bare base) (\<lambda>base_tip.
       if tip = base_tip then Inr True else pn_reaches env g bare base tip))"

fun unstarted_repo ::
    "'g prune_env \<Rightarrow> 'g \<Rightarrow> (repo_name \<Rightarrow> branch_name option) \<Rightarrow> feature \<Rightarrow> (repo_name \<times> promotion) list \<Rightarrow> string + repo_name option" where
  "unstarted_repo env g declared f [] = Inr None"
| "unstarted_repo env g declared f ((repo, p) # ps) =
     (if pr_receipt p \<noteq> None then unstarted_repo env g declared f ps
      else (case declared repo of
         None \<Rightarrow> unstarted_repo env g declared f ps
       | Some db \<Rightarrow>
           (case tip_unstarted env g (repo_bare (dl_layout (pn_delete env)) repo)
                   (branch_str (base_resolve f p db)) (branch_str (ft_branch f)) of
              Inl e \<Rightarrow> Inl (''cannot check '' @ quoted (repo_str repo) @ '': '' @ git_error_display e)
            | Inr True \<Rightarrow> Inr (Some repo)
            | Inr False \<Rightarrow> unstarted_repo env g declared f ps)))"

definition prune_facts :: "'g prune_env \<Rightarrow> 'g \<Rightarrow> (repo_name \<Rightarrow> branch_name option) \<Rightarrow> hall \<Rightarrow> feature \<Rightarrow> delivery_facts" where
  "prune_facts env g declared m f =
     (case dl_sessions (pn_delete env) g (ft_name f) of
        Inr ss \<Rightarrow> \<lparr>dk_repos = map (prune_repo_facts env g declared m f) (ft_promotions f), dk_sessions = ss, dk_session_error = None\<rparr>
      | Inl e \<Rightarrow> \<lparr>dk_repos = map (prune_repo_facts env g declared m f) (ft_promotions f), dk_sessions = [],
                 dk_session_error = Some (failure_display e)\<rparr>)"

definition prune_classify :: "'g prune_env \<Rightarrow> 'g \<Rightarrow> (repo_name \<Rightarrow> branch_name option) \<Rightarrow> hall \<Rightarrow> feature \<Rightarrow> prune_verdict" where
  "prune_classify env g declared m f =
     (if ft_promotions f = [] then KeepIt ''no repo is promoted, so nothing has landed''
      else (case classify_delivery (prune_facts env g declared m f) of
         DeliveredVerdict \<Rightarrow>
           (case unstarted_repo env g declared f (ft_promotions f) of
              Inr None \<Rightarrow> PruneIt
            | Inr (Some repo) \<Rightarrow> KeepIt (quoted (repo_str repo) @ '' has no commits of its own'')
            | Inl e \<Rightarrow> KeepIt e)
       | BlockedVerdict bs \<Rightarrow>
           KeepIt (case bs of [] \<Rightarrow> ''feature is kept'' | b # _ \<Rightarrow> delivery_blocker_display b)))"

section \<open>The order\<close>

text \<open>
  The depth of a feature, counted up the parents; the code stops when the depth exceeds the
  number of parents, which the fuel counts down from.
\<close>

fun prune_depth :: "nat \<Rightarrow> (feature_name, feature_name) btree \<Rightarrow> feature_name \<Rightarrow> nat" where
  "prune_depth 0 ps n = 0"
| "prune_depth (Suc k) ps n = (case bt_get ps n of None \<Rightarrow> 0 | Some p \<Rightarrow> Suc (prune_depth k ps p))"

definition parents_of :: "feature list \<Rightarrow> (feature_name, feature_name) btree" where
  "parents_of fs = bt_of (List.map_filter (\<lambda>f. map_option (\<lambda>p. (ft_name f, p)) (ft_parent f)) fs)"

definition depth_in :: "feature list \<Rightarrow> feature \<Rightarrow> nat" where
  "depth_in fs f = prune_depth (Suc (length (parents_of fs))) (parents_of fs) (ft_name f)"

text \<open>The comparison by depth, deepest first, and then by name, as two stable sorts.\<close>

definition prune_order :: "feature list \<Rightarrow> feature list" where
  "prune_order fs = sort_key (\<lambda>f. - int (depth_in fs f)) (sort_key ft_name fs)"

definition list_features :: "hall \<Rightarrow> feature list" where
  "list_features m = sort_key ft_name (map snd m)"

section \<open>Prune\<close>

record kept_feature =
  kf_feature :: feature_name
  kf_reason :: string

record prune_outcome =
  px_root :: string
  px_pruned :: "feature_name list"
  px_kept :: "kept_feature list"

type_synonym prune_rows = "feature_name list \<times> kept_feature list \<times> warning list"

definition row_kept :: "feature_name \<Rightarrow> string \<Rightarrow> prune_rows \<Rightarrow> prune_rows" where
  "row_kept n reason x = (case x of (ps, ks, ws) \<Rightarrow> (ps, \<lparr>kf_feature = n, kf_reason = reason\<rparr> # ks, ws))"

definition row_pruned :: "feature_name \<Rightarrow> warning list \<Rightarrow> prune_rows \<Rightarrow> prune_rows" where
  "row_pruned n w x = (case x of (ps, ks, ws) \<Rightarrow> (n # ps, ks, w @ ws))"

text \<open>The loop; \<open>None\<close> would be a deletion that does not return.\<close>

fun prune_loop ::
    "'g prune_env \<Rightarrow> (repo_name \<Rightarrow> branch_name option) \<Rightarrow> feature list \<Rightarrow> 'g \<times> hall \<Rightarrow>
     ((failure + prune_rows) \<times> 'g \<times> hall) option" where
  "prune_loop env declared [] s = Some (Inr ([], [], []), s)"
| "prune_loop env declared (f # fs) s =
     (case prune_classify env (fst s) declared (snd s) f of
        KeepIt reason \<Rightarrow>
          map_option (\<lambda>(r, t). (map_sum id (row_kept (ft_name f) reason) r, t)) (prune_loop env declared fs s)
      | PruneIt \<Rightarrow>
          (case delete (pn_delete env) (feature_str (ft_name f)) False DescRefuse s of
             None \<Rightarrow> None
           | Some (Inr (_, ws), s') \<Rightarrow>
               map_option (\<lambda>(r, t). (map_sum id (row_pruned (ft_name f) ws) r, t)) (prune_loop env declared fs s')
           | Some (Inl e, s') \<Rightarrow>
               if fl_status e = status.Blocked
               then map_option (\<lambda>(r, t). (map_sum id (row_kept (ft_name f) (fl_what e)) r, t)) (prune_loop env declared fs s')
               else Some (Inl e, s')))"

definition prune :: "'g prune_env \<Rightarrow> 'g \<times> hall \<Rightarrow> ((failure + prune_outcome \<times> warning list) \<times> 'g \<times> hall) option" where
  "prune env s =
     (case pn_manifest env of
        Inl e \<Rightarrow> Some (Inl e, s)
      | Inr declared \<Rightarrow>
          map_option (\<lambda>(r, t).
            (map_sum id (\<lambda>(ps, ks, ws).
               (\<lparr>px_root = lay_root (dl_layout (pn_delete env)), px_pruned = sort ps, px_kept = sort_key kf_feature ks\<rparr>, ws)) r, t))
            (prune_loop env declared (prune_order (list_features (snd s))) s))"

section \<open>Lemmas\<close>

text \<open>Delivered, and with work of its own in every repository that has no integration receipt.\<close>

definition delivered_with_work :: "'g prune_env \<Rightarrow> 'g \<Rightarrow> (repo_name \<Rightarrow> branch_name option) \<Rightarrow> hall \<Rightarrow> feature \<Rightarrow> bool" where
  "delivered_with_work env g declared m f \<longleftrightarrow>
     (let git = dl_git (pn_delete env); lay = dl_layout (pn_delete env) in
      ft_promotions f \<noteq> [] \<and> dl_sessions (pn_delete env) g (ft_name f) = Inr []
      \<and> (\<forall>(r, p) \<in> set (ft_promotions f). \<exists>db. declared r = Some db
           \<and> g_target_state git g (repo_bare lay r) = Inr TargetRepository
           \<and> unmerged_commits_with_integration git g lay declared (\<lambda>n. Inr (bt_get m n)) f r (base_resolve f p db) = Inr 0
           \<and> (pr_receipt p = None \<longrightarrow>
                tip_unstarted env g (repo_bare lay r) (branch_str (base_resolve f p db)) (branch_str (ft_branch f)) = Inr False)))"

lemma unstarted_none:
  "unstarted_repo env g declared f ps = Inr None \<Longrightarrow> (r, p) \<in> set ps \<Longrightarrow> declared r = Some db \<Longrightarrow> pr_receipt p = None \<Longrightarrow>
     tip_unstarted env g (repo_bare (dl_layout (pn_delete env)) r) (branch_str (base_resolve f p db)) (branch_str (ft_branch f)) = Inr False"
  by (induction env g declared f ps rule: unstarted_repo.induct) (auto split: if_splits option.splits sum.splits bool.splits)

lemma delivered_iff:
  "classify_delivery x = DeliveredVerdict \<longleftrightarrow> dk_sessions x = [] \<and> dk_session_error x = None
     \<and> (\<forall>r \<in> set (dk_repos x). delivery_repo_blockers r = [])"
  by (auto simp: classify_delivery_def Let_def split: option.splits)

lemma prune_facts_landed:
  assumes "delivery_repo_blockers (prune_repo_facts env g declared m f (r, p)) = []"
  shows "\<exists>db. declared r = Some db
    \<and> g_target_state (dl_git (pn_delete env)) g (repo_bare (dl_layout (pn_delete env)) r) = Inr TargetRepository
    \<and> unmerged_commits_with_integration (dl_git (pn_delete env)) g (dl_layout (pn_delete env)) declared (\<lambda>n. Inr (bt_get m n)) f r
        (base_resolve f p db) = Inr 0"
  using assms by (auto simp: prune_repo_facts_def delivery_repo_blockers_def Let_def split: option.splits if_splits sum.splits)

lemma pruned_is_delivered:
  assumes "prune_classify env g declared m f = PruneIt"
  shows "delivered_with_work env g declared m f"
proof -
  from assms have d: "ft_promotions f \<noteq> []" "classify_delivery (prune_facts env g declared m f) = DeliveredVerdict"
    "unstarted_repo env g declared f (ft_promotions f) = Inr None"
    by (auto simp: prune_classify_def split: if_splits delivery_verdict.splits sum.splits option.splits)
  then have s: "dl_sessions (pn_delete env) g (ft_name f) = Inr []"
    by (auto simp: delivered_iff prune_facts_def split: sum.splits)
  have "\<exists>db. declared r = Some db
      \<and> g_target_state (dl_git (pn_delete env)) g (repo_bare (dl_layout (pn_delete env)) r) = Inr TargetRepository
      \<and> unmerged_commits_with_integration (dl_git (pn_delete env)) g (dl_layout (pn_delete env)) declared (\<lambda>n. Inr (bt_get m n)) f r
          (base_resolve f p db) = Inr 0" if "(r, p) \<in> set (ft_promotions f)" for r p
    using that d(2) s by (intro prune_facts_landed) (auto simp: delivered_iff prune_facts_def)
  with d(1) s unstarted_none [OF d(3)] show ?thesis unfolding delivered_with_work_def Let_def by fastforce
qed

text \<open>A deletion that refuses descendants takes the feature or nothing.\<close>

lemma named_feature: "named (feature_name_new (feature_str n)) = Inr k \<Longrightarrow> k = n"
  by (cases n) (auto simp: named_def feature_name_new_def validated_new_def and_then_eq_Inr map_sum_def split: sum.splits)

lemma delete_refuse_alone:
  assumes ok: "hall_ok (snd s)" and run: "delete env t force DescRefuse s = Some (r, s')"
    and n: "named (feature_name_new t) = Inr n" and gone: "bt_get (snd s') q \<noteq> bt_get (snd s) q"
  shows "q = n \<and> children_of (snd s) n = [] \<and> bt_get (snd s') q = None"
proof -
  from delete_result [OF ok, of env t force DescRefuse] run obtain gn where gn:
    "\<And>k. bt_get (snd s') k = (if k \<in> gn then None else bt_get (snd s) k)"
    "\<And>k. k \<in> gn \<Longrightarrow> (k, n) \<in> (up (snd s))\<^sup>*" using n by auto
  have q: "q \<in> gn" using gone gn(1) [of q] by (cases "q \<in> gn") simp_all
  with gone gn(1) [of q] have none: "bt_get (snd s') q = None" "bt_get (snd s) q \<noteq> None" by simp_all
  have changed: "s' \<noteq> s" using gone by auto
  obtain f where f: "bt_get (snd s) n = Some f"
    using run changed n by (cases "bt_get (snd s) n") (auto simp: delete_def read_feature_def)
  note mok = hall_ok_facts(1) [OF ok]
  from delete_nodes_leaves_first [OF ok f] obtain ys where ys: "descendants_from_values (snd s) n = Some ys"
    "\<And>g. g \<in> insert f (snd ` set ys) \<longleftrightarrow> bt_get (snd s) (ft_name g) = Some g \<and> (ft_name g, n) \<in> (up (snd s))\<^sup>*" by blast
  have fm: "feature_map (map snd (snd s)) = snd s" using feature_map_values mok by blast
  have "ys = []"
  proof (rule ccontr)
    assume "ys \<noteq> []"
    with run n f ys(1) fm have "s' = s"
      by (auto simp: delete_def read_feature_def hall_read_all [OF ok] check_descendants_consent_def bind_s_def lift_s_def)
    with changed show False ..
  qed
  obtain g where g: "bt_get (snd s) q = Some g" "ft_name g = q" using none(2) mok unfolding map_ok_def by blast
  have "g \<in> insert f (snd ` set ys)" using ys(2) [of g] g gn(2) [OF q] by simp
  then have "g = f" using \<open>ys = []\<close> by simp
  then have "q = n" using f g mok unfolding map_ok_def by blast
  moreover have "children_of (snd s) n = []"
  proof (rule ccontr)
    assume "children_of (snd s) n \<noteq> []"
    then obtain c where "c \<in> set (children_of (snd s) n)" by (cases "children_of (snd s) n") auto
    then have c: "bt_get (snd s) (ft_name c) = Some c" "(ft_name c, n) \<in> up (snd s)"
      using children_of_iff [OF mok] by (auto simp: up_def)
    then have "c \<in> insert f (snd ` set ys)" using ys(2) [of c] by blast
    then have "c = f" using \<open>ys = []\<close> by simp
    with c(2) f mok have "(n, n) \<in> up (snd s)" unfolding map_ok_def by auto
    then show False using hall_ok_facts(2) [OF ok] by (auto simp: tree_valid_def acyclic_def)
  qed
  ultimately show ?thesis using none(1) by simp
qed

definition part_of :: "hall \<Rightarrow> hall \<Rightarrow> bool" where
  "part_of m m0 \<longleftrightarrow> (\<forall>k. bt_get m k = None \<or> bt_get m k = bt_get m0 k)"

text \<open>A feature may go at a state in which it is delivered, with work of its own, and a leaf.\<close>

definition may_go :: "'g prune_env \<Rightarrow> (repo_name \<Rightarrow> branch_name option) \<Rightarrow> hall \<Rightarrow> feature_name \<Rightarrow> bool" where
  "may_go env declared m0 n \<longleftrightarrow> (\<exists>t f. hall_ok (snd t) \<and> part_of (snd t) m0 \<and> bt_get (snd t) n = Some f
     \<and> children_of (snd t) n = [] \<and> delivered_with_work env (fst t) declared (snd t) f)"

lemma part_of_trans: "part_of a b \<Longrightarrow> part_of b c \<Longrightarrow> part_of a c"
  unfolding part_of_def by metis

lemma prune_delete:
  assumes ok: "hall_ok (snd s)" and m0: "part_of (snd s) m0" "bt_get m0 (ft_name f) = Some f"
    and d: "delivered_with_work env (fst s) declared (snd s) f"
  obtains r s' where "delete (pn_delete env) (feature_str (ft_name f)) False DescRefuse s = Some (r, s')"
    "hall_ok (snd s')" "part_of (snd s') (snd s)"
    "\<And>n. bt_get (snd s') n \<noteq> bt_get (snd s) n \<Longrightarrow> may_go env declared m0 n"
proof -
  from delete_result [OF ok, of "pn_delete env" "feature_str (ft_name f)" False DescRefuse] obtain r s' gone where
    run: "delete (pn_delete env) (feature_str (ft_name f)) False DescRefuse s = Some (r, s')" "hall_ok (snd s')"
      "\<And>k. bt_get (snd s') k = (if k \<in> gone then None else bt_get (snd s) k)"
      "\<And>k. k \<in> gone \<Longrightarrow> \<exists>n. named (feature_name_new (feature_str (ft_name f))) = Inr n" by blast
  have "may_go env declared m0 n" if n: "bt_get (snd s') n \<noteq> bt_get (snd s) n" for n
  proof -
    from n run(3) [of n] have g: "n \<in> gone" by (cases "n \<in> gone") simp_all
    from run(4) [OF g] obtain k where k: "named (feature_name_new (feature_str (ft_name f))) = Inr k" by blast
    have kf: "k = ft_name f" by (rule named_feature [OF k])
    have leaf: "n = ft_name f" "children_of (snd s) n = []" "bt_get (snd s') n = None"
      using delete_refuse_alone [OF ok run(1) k n] unfolding kf by metis+
    have "bt_get (snd s) n = Some f" using m0 n leaf unfolding part_of_def by metis
    with leaf ok m0(1) d show ?thesis unfolding may_go_def by blast
  qed
  moreover have "part_of (snd s') (snd s)" unfolding part_of_def using run(3) by simp
  ultimately show thesis using run(1,2) that by blast
qed

lemma prune_loop_result:
  "hall_ok (snd s) \<Longrightarrow> part_of (snd s) m0 \<Longrightarrow> \<forall>f \<in> set fs. bt_get m0 (ft_name f) = Some f \<Longrightarrow>
     \<exists>r s'. prune_loop env declared fs s = Some (r, s') \<and> hall_ok (snd s') \<and> part_of (snd s') (snd s)
       \<and> (\<forall>n. bt_get (snd s') n \<noteq> bt_get (snd s) n \<longrightarrow> may_go env declared m0 n)"
proof (induction fs arbitrary: s)
  case Nil
  then show ?case by (simp add: part_of_def)
next
  case (Cons f fs)
  show ?case
  proof (cases "prune_classify env (fst s) declared (snd s) f")
    case (KeepIt reason)
    have ih: "\<exists>r s'. prune_loop env declared fs s = Some (r, s') \<and> hall_ok (snd s') \<and> part_of (snd s') (snd s)
        \<and> (\<forall>n. bt_get (snd s') n \<noteq> bt_get (snd s) n \<longrightarrow> may_go env declared m0 n)"
      by (rule Cons.IH [OF Cons.prems(1,2)]) (use Cons.prems(3) in simp)
    then obtain r2 s2 where "prune_loop env declared fs s = Some (r2, s2)" and rest: "hall_ok (snd s2)" "part_of (snd s2) (snd s)"
        "\<forall>n. bt_get (snd s2) n \<noteq> bt_get (snd s) n \<longrightarrow> may_go env declared m0 n" by (elim exE conjE)
    then have "\<exists>r. prune_loop env declared (f # fs) s = Some (r, s2)"
      using KeepIt by (cases r2) (auto split: prod.splits)
    with rest show ?thesis by blast
  next
    case PruneIt
    obtain r1 s1 where del: "delete (pn_delete env) (feature_str (ft_name f)) False DescRefuse s = Some (r1, s1)"
      and s1: "hall_ok (snd s1)" "part_of (snd s1) (snd s)"
        "\<And>n. bt_get (snd s1) n \<noteq> bt_get (snd s) n \<Longrightarrow> may_go env declared m0 n"
      using prune_delete [OF Cons.prems(1,2) _ pruned_is_delivered [OF PruneIt]] Cons.prems(3) by auto
    have p1: "part_of (snd s1) m0" by (rule part_of_trans [OF s1(2) Cons.prems(2)])
    from Cons.IH [OF s1(1) p1] Cons.prems(3) obtain r2 s2 where loop: "prune_loop env declared fs s1 = Some (r2, s2)"
      and s2: "hall_ok (snd s2)" "part_of (snd s2) (snd s1)"
        "\<And>n. bt_get (snd s2) n \<noteq> bt_get (snd s1) n \<Longrightarrow> may_go env declared m0 n" by auto
    have goes: "may_go env declared m0 n" if "bt_get (snd s2) n \<noteq> bt_get (snd s) n" for n
      using that s1(3) [of n] s2(3) [of n] by (cases "bt_get (snd s2) n = bt_get (snd s1) n") simp_all
    have p2: "part_of (snd s2) (snd s)" by (rule part_of_trans [OF s2(2) s1(2)])
    show ?thesis
    proof (cases "\<exists>e. r1 = Inl e \<and> fl_status e \<noteq> status.Blocked")
      case True
      then have "\<exists>r. prune_loop env declared (f # fs) s = Some (r, s1)" using PruneIt del by auto
      with s1 show ?thesis by blast
    next
      case False
      then have "\<exists>r. prune_loop env declared (f # fs) s = Some (r, s2)"
        using PruneIt del loop by (cases r1) (auto split: prod.splits)
      with s2(1) p2 goes show ?thesis by blast
    qed
  qed
qed

section \<open>Property\<close>

text \<open>
  C14: pruning returns, keeps the tree of features whole, and every feature it takes was, at the
  moment it went, a leaf with promotions and no session, with no commit left to merge in any
  of its repositories, all of them declared and cloned, and with work of its own in each that
  has no integration receipt.  Every other feature is untouched.
\<close>

theorem prune_takes_only_delivered:
  assumes "hall_ok (snd s)" and "pn_manifest env = Inr declared"
  shows "\<exists>res s'. prune env s = Some (res, s') \<and> hall_ok (snd s')
    \<and> (\<forall>n. bt_get (snd s') n = bt_get (snd s) n \<or> (bt_get (snd s') n = None \<and> may_go env declared (snd s) n))"
proof -
  have "\<forall>f \<in> set (prune_order (list_features (snd s))). bt_get (snd s) (ft_name f) = Some f"
    using map_ok_mem [OF hall_ok_facts(1) [OF assms(1)]] by (auto simp: prune_order_def list_features_def)
  from prune_loop_result [OF assms(1) _ this, of env declared] obtain r s' where
    "prune_loop env declared (prune_order (list_features (snd s))) s = Some (r, s')" "hall_ok (snd s')" "part_of (snd s') (snd s)"
    "\<forall>n. bt_get (snd s') n \<noteq> bt_get (snd s) n \<longrightarrow> may_go env declared (snd s) n" by (auto simp: part_of_def)
  then show ?thesis using assms(2) by (auto simp: prune_def part_of_def)
qed

section \<open>Witness\<close>

text \<open>A hall of one feature, whose branch landed in \<open>main\<close> by a merge commit.\<close>

definition prune_git :: "unit git" where
  "prune_git = sample_git\<lparr>g_revision_commit := (\<lambda>g p r. Inr (if r = ''main'' then ''m'' else ''c''))\<rparr>"

definition sample_prune_env :: "unit prune_env" where
  "sample_prune_env =
     \<lparr>pn_delete = sample_delete_env\<lparr>dl_git := prune_git\<rparr>, pn_manifest = Inr (\<lambda>r. Some (BranchName ''main'')),
      pn_reaches = (\<lambda>g b base tip. Inr False)\<rparr>"

theorem prune_takes_only_delivered_witness:
  "\<exists>res s'. prune sample_prune_env ((), [(FeatureName ''checkout'', sample_feature)]) = Some (res, s') \<and> snd s' = []
     \<and> hall_ok (snd s')"
proof -
  let ?s = "((), [(FeatureName ''checkout'', sample_feature)])"
  have "map_option (\<lambda>x. snd (snd x)) (prune sample_prune_env ?s) = Some []" by code_simp
  moreover obtain res s' where "prune sample_prune_env ?s = Some (res, s')" "hall_ok (snd s')"
    using prune_takes_only_delivered [of ?s sample_prune_env "\<lambda>r. Some (BranchName ''main'')"] sample_locked
    by (auto simp: sample_prune_env_def)
  ultimately show ?thesis by auto
qed

end
