(* ===== verification/Delivery.thy ===== *)
theory Delivery
  imports Cleanup
begin

text \<open>
  The data of a delivery and everything about it that does not touch the repositories:
  \<open>src/src/domain/feature/delivery.rs\<close>, the input and its reading from the command line
  (\<open>src/src/cli/feature/delivery.rs\<close>), \<open>metadata.rs\<close>, \<open>preview.rs\<close>, \<open>memory_gate.rs\<close> and
  \<open>attribution.rs\<close> of \<open>src/src/action/feature/deliver\<close>, and the verification runner of
  \<open>src/src/action/feature/verification.rs\<close>.
\<close>

section \<open>The values of a preview\<close>

datatype delivery_mode = ModePush | ModeLand

datatype memory_review_gate = MemoryReviewed | MemoryMissing

record delivery_tree_blocker =
  tb_feature :: feature_name
  tb_depth :: nat
  tb_state :: integration_state
  tb_reason :: string

datatype draft_action = CreateAsDraft | ConvertToDraft

datatype delivery_action = NewPr | UpdatePr | PushOnly | LandOnDefault

record delivery_repo =
  dy_repo :: repo_name
  dy_local_branch :: branch_name
  dy_remote :: string
  dy_ref_prefix :: "string option"
  dy_push_refspec :: string
  dy_action :: delivery_action
  dy_base_branch :: branch_name
  dy_dependencies :: "repo_name list"
  dy_blockers :: "string list"
  dy_pending :: "string list"
  dy_pr_url :: "string option"
  dy_default_branch :: "branch_name option"
  dy_ff_possible :: "bool option"
  dy_remote_default_tip :: "string option"
  dy_pr_title :: "string option"
  dy_pr_body :: "string option"
  dy_draft :: "draft_action option"

record delivery_preview =
  dp_feature :: feature_name
  dp_mode :: delivery_mode
  dp_plan_gate :: gate_state
  dp_repos :: "delivery_repo list"
  dp_tree_blockers :: "delivery_tree_blocker list"
  dp_memory_review :: memory_review_gate
  dp_fingerprint :: string

definition remote_branch :: "delivery_repo \<Rightarrow> string \<Rightarrow> string" where
  "remote_branch r branch = unwrap_or [] (dy_ref_prefix r) @ branch"

section \<open>The base of a pull request\<close>

datatype base_verdict = BaseOk | BaseMergedAndDeleted | BaseNeverDelivered | BaseUnconfirmed | BaseMoved

definition classify_base :: "unit + string option \<Rightarrow> unit + bool \<Rightarrow> base_verdict" where
  "classify_base remote_tip secondary =
     (case remote_tip of
        Inl _ \<Rightarrow> BaseUnconfirmed
      | Inr None \<Rightarrow> if secondary = Inr True then BaseMergedAndDeleted else BaseNeverDelivered
      | Inr (Some _) \<Rightarrow> if secondary = Inr True then BaseOk else BaseMoved)"

definition base_failure :: "string \<Rightarrow> string \<Rightarrow> string \<Rightarrow> string \<Rightarrow> failure" where
  "base_failure code what fix_code fix_what = with_fix (fix_unsafe fix_code fix_what) (blocked code what)"

definition verdict_failure :: "base_verdict \<Rightarrow> feature_name \<Rightarrow> repo_name \<Rightarrow> branch_name \<Rightarrow> branch_name \<Rightarrow> failure option" where
  "verdict_failure v f repo base default_branch =
     (let r = quoted (repo_str repo); b = quoted (branch_str base); d = branch_str default_branch in
      case v of
        BaseOk \<Rightarrow> None
      | BaseMergedAndDeleted \<Rightarrow> Some (base_failure ''feature.base_merged_and_deleted''
          (r @ [CHR 0x27] @ ''s base '' @ b @ '' is gone from the remote, and looks merged into '' @ quoted d)
          ''feature.rebase_onto_default''
          (''Run `ivar feature rebase <feature> --onto '' @ d @ ''` '' @ em_dash @ '' '' @ b @ '' shipped, so this feature'' @ [CHR 0x27]
             @ ''s base collapses onto '' @ quoted d @ ''.''))
      | BaseNeverDelivered \<Rightarrow> Some (base_failure ''feature.base_never_delivered''
          (r @ [CHR 0x27] @ ''s base '' @ b @ '' is gone from the remote, and nothing confirms it was ever delivered'')
          ''feature.deliver_parent_first''
          (''Deliver the feature that owns '' @ b @ '' first, then deliver this one.''))
      | BaseUnconfirmed \<Rightarrow> Some (base_failure ''feature.base_unconfirmed''
          (r @ [CHR 0x27] @ ''s base '' @ b @ '' could not be confirmed on the remote '' @ em_dash @ '' the remote did not answer'')
          ''feature.retry_deliver'' ''The remote did not answer; retry the delivery.'')
      | BaseMoved \<Rightarrow> Some (base_failure ''feature.base_moved''
          (r @ [CHR 0x27] @ ''s branch is no longer built on '' @ b @ [CHR 0x27] @ ''s current tip'')
          ''feature.rebase_feature''
          (''Run `ivar feature rebase '' @ feature_str f @ '' --repo '' @ repo_str repo @ ''` to bring the branch back onto its base.'')))"

definition check_base :: "delivery_repo \<Rightarrow> feature_name \<Rightarrow> unit + string option \<Rightarrow> unit + bool \<Rightarrow> branch_name \<Rightarrow> failure option" where
  "check_base r f remote_tip secondary default_branch =
     verdict_failure (classify_base remote_tip secondary) f (dy_repo r) (dy_base_branch r) default_branch"

section \<open>The input\<close>

record pr_metadata =
  pm_title :: "string option"
  pm_body :: "string option"
  pm_draft :: "bool option"

definition no_metadata :: pr_metadata where
  "no_metadata = \<lparr>pm_title = None, pm_body = None, pm_draft = None\<rparr>"

record repo_override =
  ov_repo :: string
  ov_metadata :: pr_metadata

record deliver_input =
  dn_feature :: string
  dn_preview :: bool
  dn_land :: bool
  dn_fingerprint :: "string option"
  dn_global :: pr_metadata
  dn_overrides :: "repo_override list"
  dn_only :: "string list"
  dn_skip_review :: "string option"

text \<open>
  The occurrences of the four options whose position matters, in the order of the command
  line, and the grouping of them: what stands before the first \<open>--repo\<close> is global.
\<close>

datatype deliver_option = OptName string | OptBody string | OptRepo string | OptDraft

definition duplicate_option :: "string \<Rightarrow> string option \<Rightarrow> string" where
  "duplicate_option option repo =
     ''duplicate `--'' @ option @ ''`'' @ (case repo of None \<Rightarrow> [] | Some r \<Rightarrow> '' in repository group '' @ quoted r) @ [CHR 10]"

definition set_delivery_metadata :: "'a option \<Rightarrow> 'a \<Rightarrow> string \<Rightarrow> string option \<Rightarrow> string + 'a option" where
  "set_delivery_metadata slot v option repo = (if slot \<noteq> None then Inl (duplicate_option option repo) else Inr (Some v))"

definition set_option :: "deliver_option \<Rightarrow> string option \<Rightarrow> pr_metadata \<Rightarrow> string + pr_metadata" where
  "set_option x repo m =
     (case x of
        OptName t \<Rightarrow> map_sum id (\<lambda>v. m\<lparr>pm_title := v\<rparr>) (set_delivery_metadata (pm_title m) t ''name'' repo)
      | OptBody b \<Rightarrow> map_sum id (\<lambda>v. m\<lparr>pm_body := v\<rparr>) (set_delivery_metadata (pm_body m) b ''body'' repo)
      | OptDraft \<Rightarrow> map_sum id (\<lambda>v. m\<lparr>pm_draft := v\<rparr>) (set_delivery_metadata (pm_draft m) True ''draft'' repo)
      | OptRepo _ \<Rightarrow> Inr m)"

definition push_group :: "(string \<times> pr_metadata) option \<Rightarrow> repo_override list \<Rightarrow> repo_override list" where
  "push_group cur os = (case cur of None \<Rightarrow> os | Some (r, m) \<Rightarrow> os @ [\<lparr>ov_repo = r, ov_metadata = m\<rparr>])"

fun group_options ::
    "pr_metadata \<Rightarrow> repo_override list \<Rightarrow> (string \<times> pr_metadata) option \<Rightarrow> deliver_option list \<Rightarrow>
     string + pr_metadata \<times> repo_override list" where
  "group_options global os cur [] = Inr (global, push_group cur os)"
| "group_options global os cur (OptRepo r # xs) = group_options global (push_group cur os) (Some (r, no_metadata)) xs"
| "group_options global os None (x # xs) =
     and_then (set_option x None global) (\<lambda>m. group_options m os None xs)"
| "group_options global os (Some (r, m)) (x # xs) =
     and_then (set_option x (Some r) m) (\<lambda>m'. group_options global os (Some (r, m')) xs)"

definition parse_metadata :: "deliver_option list \<Rightarrow> string + pr_metadata \<times> repo_override list" where
  "parse_metadata xs = group_options no_metadata [] None xs"

section \<open>The command that applies a preview\<close>

definition single_quote :: char where "single_quote = CHR 0x27"

definition plain_char :: "char \<Rightarrow> bool" where
  "plain_char c \<longleftrightarrow> is_alpha c \<or> is_digit c \<or> c \<in> set ''-_./:=@,+''"

definition shell_word :: "string \<Rightarrow> string" where
  "shell_word v =
     (if v \<noteq> [] \<and> list_all plain_char v then v
      else [single_quote] @ str_replace [single_quote] [single_quote, CHR 0x5C, single_quote, single_quote] v @ [single_quote])"

definition push_metadata :: "pr_metadata \<Rightarrow> string list" where
  "push_metadata m =
     (case pm_title m of None \<Rightarrow> [] | Some t \<Rightarrow> [''--name'', shell_word t])
     @ (case pm_body m of None \<Rightarrow> [] | Some b \<Rightarrow> [''--body'', shell_word b])
     @ (if pm_draft m = Some True then [''--draft''] else [])"

definition apply_command :: "deliver_input \<Rightarrow> string \<Rightarrow> string" where
  "apply_command i fp = join '' ''
     ([''ivar'', ''feature'', ''deliver'', shell_word (dn_feature i)]
      @ (if dn_land i then [''--land''] else [])
      @ concat (map (\<lambda>r. [''--only'', shell_word r]) (dn_only i))
      @ [''--fingerprint'', shell_word fp]
      @ push_metadata (dn_global i)
      @ concat (map (\<lambda>s. [''--repo'', shell_word (ov_repo s)] @ push_metadata (ov_metadata s)) (dn_overrides i)))"

section \<open>Blockers and refusals\<close>

definition delivery_blockers :: "delivery_preview \<Rightarrow> bool \<Rightarrow> string list" where
  "delivery_blockers p skip =
     map (\<lambda>b. ''descendant '' @ quoted (feature_str (tb_feature b)) @ '' is '' @ integration_state_display (tb_state b)
            @ '': '' @ tb_reason b) (dp_tree_blockers p)
     @ (if dp_plan_gate p \<noteq> Approved
        then [''the plan gate is '' @ gate_state_display (dp_plan_gate p) @ '', not approved''] else [])
     @ (if dp_memory_review p = MemoryMissing \<and> \<not> skip
        then [''memory review is missing: run `memory_review` in a session of '' @ quoted (feature_str (dp_feature p))] else [])
     @ (if dp_mode p = ModeLand \<and> dp_repos p = [] then [''no repositories are promoted to land''] else [])
     @ concat (map (\<lambda>r. map (\<lambda>b. repo_str (dy_repo r) @ '': '' @ b) (dy_blockers r)) (dp_repos p))"

definition delivery_blocked :: "feature_name \<Rightarrow> string list \<Rightarrow> failure" where
  "delivery_blocked f bs =
     with_fix (fix_safe ''deliver.clear_blockers''
         (''Resolve each blocker, then run `ivar feature deliver '' @ feature_str f @ '' --preview` and apply again.''))
       (with_actual (join ''; '' bs) (with_expected ''a preview with no blockers''
         (blocked ''deliver.blocked''
           (''cannot deliver '' @ quoted (feature_str f) @ '': '' @ show_nat (length bs) @ '' blocker(s) listed by the preview''))))"

definition delivery_plan_refused :: "feature_name \<Rightarrow> gate_state \<Rightarrow> bool \<Rightarrow> failure" where
  "delivery_plan_refused f st written =
     (let n = feature_str f;
          approve = ''ivar plan approve '' @ n @ '' plan''; create = ''ivar plan create '' @ n @ '' plan'' in
      with_fix
        (if written then fix_command approve (fix_safe ''deliver.approve_plan''
            (''Approve it with '' @ quoted approve @ '', then preview and apply again.''))
         else fix_command create (fix_safe ''deliver.write_plan''
            (''Write a plan with '' @ quoted create @ '', approve it with '' @ quoted approve @ '', then preview and apply again.'')))
        (with_actual
          (quoted n @ (case st of
             Pending \<Rightarrow> [CHR 0x27] @ ''s plan gate has never been approved''
           | NeedsRevision \<Rightarrow> [CHR 0x27] @ ''s plan gate was approved, then invalidated by a revision''
           | Approved \<Rightarrow> [CHR 0x27] @ ''s plan gate is approved''))
          (with_expected ''the `plan` gate in state approved''
            (blocked ''deliver.plan_not_approved'' (''delivering '' @ quoted n @ '' needs its plan gate approved'')))))"

definition preview_required :: "feature_name \<Rightarrow> failure" where
  "preview_required f =
     with_fix (fix_safe ''deliver.preview_first''
         (''Run `ivar feature deliver '' @ feature_str f @ '' --preview` and pass its fingerprint with `--fingerprint`.''))
       (with_actual ''no `--fingerprint` was given'' (with_expected ''the fingerprint printed by `ivar feature deliver --preview`''
         (blocked ''deliver.preview_required'' (''delivering '' @ quoted (feature_str f) @ '' needs a preview fingerprint''))))"

definition fingerprint_drifted :: "feature_name \<Rightarrow> string \<Rightarrow> string \<Rightarrow> failure" where
  "fingerprint_drifted f expected current =
     with_fix (fix_safe ''deliver.re_preview''
         (''Run `ivar feature deliver '' @ feature_str f @ '' --preview` again, then apply with the new fingerprint.''))
       (with_actual (''the current state fingerprints as '' @ quoted current)
         (with_expected (''the preview fingerprint '' @ quoted expected)
           (blocked ''deliver.fingerprint_mismatch''
             (''the state of feature '' @ quoted (feature_str f) @ '' has drifted since the preview was approved''))))"

definition check_fingerprint :: "feature_name \<Rightarrow> string option \<Rightarrow> string \<Rightarrow> failure + unit" where
  "check_fingerprint f presented current =
     (case presented of
        None \<Rightarrow> Inl (preview_required f)
      | Some expected \<Rightarrow> if expected \<noteq> current then Inl (fingerprint_drifted f expected current) else Inr ())"

definition refuse_blockers :: "feature_name \<Rightarrow> delivery_preview \<Rightarrow> bool \<Rightarrow> failure + unit" where
  "refuse_blockers f p skip =
     (let remaining = delivery_blockers p skip in if remaining = [] then Inr () else Inl (delivery_blocked f remaining))"

definition blocker_reason :: "integration_state \<Rightarrow> string" where
  "blocker_reason st =
     (case st of
        StActive \<Rightarrow> ''work is still in progress''
      | StFailed \<Rightarrow> ''carries failed integration evidence''
      | StStale \<Rightarrow> ''its receipt no longer matches live state''
      | other \<Rightarrow> ''its state is '' @ quoted (integration_state_display other))"

section \<open>Selection and metadata\<close>

definition unpromoted_repo_override :: "feature \<Rightarrow> string \<Rightarrow> failure" where
  "unpromoted_repo_override f repo =
     (let n = feature_str (ft_name f) in
      with_fix (fix_safe ''deliver.remove_unpromoted_repo_override''
          (''Remove `--repo '' @ repo @ ''` or promote it with `ivar feature promote '' @ n @ '' '' @ repo @ ''`.''))
        (with_actual (''unpromoted repository '' @ quoted repo)
          (with_expected (''only repositories promoted in feature '' @ quoted n)
            (blocked ''deliver.unpromoted_repo_override''
              (''repository '' @ quoted repo @ '' is not promoted in feature '' @ quoted n)))))"

definition unpromoted_only_repo :: "feature \<Rightarrow> string \<Rightarrow> failure" where
  "unpromoted_only_repo f repo =
     (let n = feature_str (ft_name f); promoted = join '', '' (map (repo_str \<circ> fst) (ft_promotions f)) in
      with_fix (fix_safe ''deliver.fix_only_selection'' (''Pass `--only` with one of: '' @ promoted @ ''.''))
        (with_actual (''`--only '' @ repo @ ''`; promoted repositories are '' @ promoted)
          (with_expected (''`--only` to name a promoted repository: '' @ promoted)
            (blocked ''deliver.unpromoted_only_repo''
              (''repository '' @ quoted repo @ '' is not promoted in feature '' @ quoted n)))))"

definition repo_override_outside_only :: "string \<Rightarrow> failure" where
  "repo_override_outside_only repo =
     with_fix (fix_safe ''deliver.align_repo_with_only''
         (''Add `--only '' @ repo @ ''` or drop the `--repo '' @ repo @ ''` group.''))
       (with_actual (quoted repo @ '' is not among the `--only` repositories'')
         (with_expected ''every `--repo` group to name a repository selected by `--only`''
           (blocked ''deliver.repo_override_outside_only''
             (''`--repo '' @ repo @ ''` sets metadata for a repository `--only` does not deliver''))))"

text \<open>The set of the selected repositories, as a list.\<close>

definition selected_repos :: "feature \<Rightarrow> deliver_input \<Rightarrow> failure + repo_name list" where
  "selected_repos f i =
     (if dn_only i = [] then Inr (map fst (ft_promotions f))
      else try_map (\<lambda>raw.
        case repo_name_new raw of
          Inr n \<Rightarrow> if bt_contains (ft_promotions f) n then Inr n else Inl (unpromoted_only_repo f raw)
        | Inl _ \<Rightarrow> Inl (unpromoted_only_repo f raw)) (dn_only i))"

definition metadata_in_land_mode :: failure where
  "metadata_in_land_mode =
     with_fix (fix_safe ''deliver.drop_metadata_or_land''
         ''Remove pull request options when landing, or remove --land to create/update pull requests.'')
       (with_actual ''pull request options were supplied with --land''
         (with_expected ''land mode (--land) without pull request options''
           (blocked ''deliver.metadata_in_land_mode''
             ''pull request options (--name, --body, --draft, --repo) cannot be used in land mode'')))"

definition duplicate_repo_group :: "string \<Rightarrow> failure" where
  "duplicate_repo_group repo =
     with_fix (fix_safe ''deliver.remove_duplicate_repo_group''
         (''Combine metadata for '' @ quoted repo @ '' into a single --repo group.''))
       (with_actual (''repository '' @ quoted repo @ '' was repeated'')
         (with_expected ''each --repo group to name a unique repository''
           (blocked ''deliver.duplicate_repo_group''
             (''repository '' @ quoted repo @ '' is specified more than once in --repo groups''))))"

fun check_overrides :: "feature \<Rightarrow> deliver_input \<Rightarrow> string list \<Rightarrow> repo_override list \<Rightarrow> failure + unit" where
  "check_overrides f i seen [] = Inr ()"
| "check_overrides f i seen (x # xs) =
     (let r = ov_repo x in
      if r \<in> set seen then Inl (duplicate_repo_group r)
      else (case repo_name_new r of
         Inl _ \<Rightarrow> Inl (unpromoted_repo_override f r)
       | Inr n \<Rightarrow>
           if \<not> bt_contains (ft_promotions f) n then Inl (unpromoted_repo_override f r)
           else if dn_only i \<noteq> [] \<and> r \<notin> set (dn_only i) then Inl (repo_override_outside_only r)
           else check_overrides f i (r # seen) xs))"

definition validate_repo_overrides :: "feature \<Rightarrow> deliver_input \<Rightarrow> failure + unit" where
  "validate_repo_overrides f i =
     (let has_global = pm_title (dn_global i) \<noteq> None \<or> pm_body (dn_global i) \<noteq> None \<or> pm_draft (dn_global i) \<noteq> None;
          has_overrides = dn_overrides i \<noteq> [] \<or> list_ex (\<lambda>x. pm_draft (ov_metadata x) \<noteq> None) (dn_overrides i)
      in if dn_land i \<and> (has_global \<or> has_overrides) then Inl metadata_in_land_mode
         else check_overrides f i [] (dn_overrides i))"

text \<open>
  A body that looks like a path is read from it; reading fails with the text of an error, and
  the bytes read may not be UTF-8.
\<close>

type_synonym body_reader = "string \<Rightarrow> string + (string + string)"

fun drop_dot_slash :: "string \<Rightarrow> string" where
  "drop_dot_slash (a # b # s) = (if a = CHR ''.'' \<and> b = CHR ''/'' then drop_dot_slash s else a # b # s)"
| "drop_dot_slash s = s"

definition body_read_failed :: "string \<Rightarrow> string \<Rightarrow> string \<Rightarrow> failure" where
  "body_read_failed raw full e =
     with_fix (fix_safe ''deliver.check_body_file_path''
         (''Ensure '' @ quoted full @ '' exists and is readable, or pass inline text.''))
       (with_actual e (with_expected (''readable file at '' @ quoted full)
         (blocked ''deliver.body_file_read_failed'' (''failed to read pull request body file '' @ quoted raw @ '': '' @ e))))"

definition body_not_utf8 :: "string \<Rightarrow> string \<Rightarrow> string \<Rightarrow> failure" where
  "body_not_utf8 raw full e =
     with_fix (fix_safe ''deliver.convert_body_file_utf8'' (''Ensure '' @ quoted full @ '' is saved with UTF-8 encoding.''))
       (with_actual ''invalid UTF-8 byte sequence'' (with_expected ''valid UTF-8 encoded text file''
         (blocked ''deliver.body_file_not_utf8'' (''pull request body file '' @ quoted raw @ '' is not valid UTF-8: '' @ e))))"

definition resolve_body :: "body_reader \<Rightarrow> string \<Rightarrow> string option \<Rightarrow> failure + string option" where
  "resolve_body rd cwd body =
     (case body of
        None \<Rightarrow> Inr None
      | Some raw \<Rightarrow>
          if (prefix ''./'' raw \<or> prefix ''/'' raw) \<and> (suffix ''.md'' raw \<or> suffix ''.txt'' raw)
          then (let full = path_join cwd (drop_dot_slash raw) in
                case rd full of
                  Inl e \<Rightarrow> Inl (body_read_failed raw full e)
                | Inr (Inl e) \<Rightarrow> Inl (body_not_utf8 raw full e)
                | Inr (Inr content) \<Rightarrow> Inr (Some content))
          else Inr (Some raw))"

definition resolved_override :: "body_reader \<Rightarrow> string \<Rightarrow> repo_override \<Rightarrow> failure + repo_name \<times> pr_metadata" where
  "resolved_override rd cwd x =
     and_then (named (repo_name_new (ov_repo x))) (\<lambda>n.
     and_then (resolve_body rd cwd (pm_body (ov_metadata x))) (\<lambda>b.
       Inr (n, (ov_metadata x)\<lparr>pm_body := b\<rparr>)))"

definition merged_metadata :: "pr_metadata \<Rightarrow> pr_metadata option \<Rightarrow> pr_metadata" where
  "merged_metadata global own =
     \<lparr>pm_title = opt_or (Option.bind own pm_title) (pm_title global),
      pm_body = opt_or (Option.bind own pm_body) (pm_body global),
      pm_draft = opt_or (Option.bind own pm_draft) (pm_draft global)\<rparr>"

definition resolve_metadata :: "body_reader \<Rightarrow> string \<Rightarrow> feature \<Rightarrow> deliver_input \<Rightarrow> failure + (repo_name, pr_metadata) btree" where
  "resolve_metadata rd cwd f i =
     and_then (validate_repo_overrides f i) (\<lambda>_.
     and_then (resolve_body rd cwd (pm_body (dn_global i))) (\<lambda>body.
     and_then (try_map (resolved_override rd cwd) (dn_overrides i)) (\<lambda>os.
       Inr (bt_of (map (\<lambda>(r, _). (r, merged_metadata ((dn_global i)\<lparr>pm_body := body\<rparr>) (bt_get (bt_of os) r)))
         (ft_promotions f))))))"

section \<open>The memory of the feature\<close>

datatype review_answer = ReviewedAt "(string \<times> string) list" | SkippedReview | NoReview

definition moved_heads :: "feature_name \<Rightarrow> (string \<times> string) list \<Rightarrow> (string \<times> string) list \<Rightarrow> warning list" where
  "moved_heads f reviewed current =
     List.map_filter (\<lambda>(repo, head).
       case map_of reviewed repo of
         None \<Rightarrow> None
       | Some then_head \<Rightarrow>
           if then_head \<noteq> head
           then Some (warning_new ''deliver.memory_review_outdated'' repo
             (quoted repo @ '' moved from '' @ then_head @ '' to '' @ head @ '' since the memory review of '' @ quoted (feature_str f)
              @ ''; run memory_review again if the new commits change what memory says''))
           else None) current"

definition memory_gate ::
    "failure + unit \<Rightarrow> failure + review_answer \<Rightarrow> (string \<times> string) list \<Rightarrow> feature_name \<Rightarrow> memory_review_gate \<times> warning list" where
  "memory_gate drained review heads f =
     (let w1 = (case drained of Inr _ \<Rightarrow> [] | Inl e \<Rightarrow> [warning_new ''deliver.memory_drain_failed'' (feature_str f)
                  (''the capture spool could not be drained, so a recent review may be missed: '' @ fl_what e)]) in
      case review of
        Inr (ReviewedAt hs) \<Rightarrow> (MemoryReviewed, w1 @ moved_heads f hs heads)
      | Inr _ \<Rightarrow> (MemoryMissing, w1)
      | Inl e \<Rightarrow> (MemoryMissing, w1 @ [warning_new ''deliver.memory_unreadable'' (feature_str f)
                    (''memory could not be read: '' @ fl_what e)]))"

definition memory_not_reviewed :: "feature_name \<Rightarrow> failure" where
  "memory_not_reviewed f =
     (let n = quoted (feature_str f) in
      with_fix (fix_safe ''deliver.review_memory''
          (''In a session of '' @ n @ '', call the memory_review MCP tool, give each stale page a verdict and confirm; then preview and apply again.''))
        (with_actual (n @ '' has no memory review'') (with_expected ''a `memory.reviewed` observation for the feature''
          (blocked ''deliver.memory_not_reviewed'' (''delivering '' @ n @ '' needs its memory reviewed'')))))"

definition skip_with_preview :: failure where
  "skip_with_preview =
     with_fix (fix_safe ''deliver.skip_at_apply''
         (''Preview without it, then pass `--skip-memory-review '' @ [CHR 0x22] @ ''<reason>'' @ [CHR 0x22] @ ''` with `--fingerprint`.''))
       (blocked ''deliver.skip_memory_review_with_preview''
         ''`--skip-memory-review` applies a delivery; it cannot be combined with `--preview`'')"

definition skip_reason_required :: failure where
  "skip_reason_required =
     with_fix (fix_safe ''deliver.give_skip_reason''
         (''Say why this delivery needs no memory review: `--skip-memory-review '' @ [CHR 0x22] @ ''<reason>'' @ [CHR 0x22] @ ''`.''))
       (blocked ''deliver.skip_memory_review_reason_required'' ''`--skip-memory-review` needs a reason'')"

definition check_skip :: "deliver_input \<Rightarrow> failure + bool" where
  "check_skip i =
     (case dn_skip_review i of
        None \<Rightarrow> Inr False
      | Some reason \<Rightarrow>
          if dn_preview i then Inl skip_with_preview
          else if trim reason = [] then Inl skip_reason_required
          else Inr True)"

section \<open>Attribution\<close>

text \<open>
  The patterns are ASCII, and no character outside ASCII has a lower case that matters to
  them, so lowering the ASCII letters decides as \<open>to_lowercase\<close> does.
\<close>

definition robot :: string where "robot = [CHR 0xF0, CHR 0x9F, CHR 0xA4, CHR 0x96]"

definition is_attribution :: "string \<Rightarrow> bool" where
  "is_attribution line =
     (let l = map to_lower (trim line) in
      contains_str ''generated with [claude code]'' l \<or> contains_str ''generated with claude code'' l
      \<or> prefix (robot @ '' generated with'') l
      \<or> (prefix ''co-authored-by:'' l \<and> (contains_str ''noreply@anthropic.com'' l \<or> contains_str ''claude'' l)))"

definition metadata_findings :: "delivery_repo \<Rightarrow> string list" where
  "metadata_findings r =
     map (\<lambda>line. quoted (repo_str (dy_repo r)) @ '' PR metadata: '' @ trim line)
       (filter is_attribution (concat (map text_lines (List.map_filter id [dy_pr_title r, dy_pr_body r]))))"

definition commit_findings :: "delivery_repo \<Rightarrow> (string \<times> string) list \<Rightarrow> string list" where
  "commit_findings r commits =
     concat (map (\<lambda>(sha, message). map (\<lambda>line. quoted (repo_str (dy_repo r)) @ '' commit '' @ sha @ '': '' @ trim line)
       (filter is_attribution (text_lines message))) commits)"

definition ai_attribution :: "feature_name \<Rightarrow> string list \<Rightarrow> failure" where
  "ai_attribution f findings =
     with_fix (fix_safe ''deliver.remove_ai_attribution''
         (''Rewrite the listed commit messages without those lines (for example `git rebase <base> --exec '' @ [CHR 0x22]
          @ ''git log -1 --format=%B | grep -viE '' @ [CHR 0x27] @ ''co-authored-by:.*(claude|anthropic)|generated with'' @ [CHR 0x27]
          @ '' | git commit --amend -F -'' @ [CHR 0x22] @ ''`), drop them from --name/--body, then run the preview again.''))
       (with_actual (join ''; '' findings)
         (with_expected ''no AI attribution in commit messages, PR titles or PR bodies''
           (blocked ''deliver.ai_attribution'' (''feature '' @ quoted (feature_str f) @ '' carries AI attribution''))))"

definition check_attribution ::
    "(repo_name \<Rightarrow> branch_name \<Rightarrow> branch_name \<Rightarrow> git_error + (string \<times> string) list) \<Rightarrow> delivery_preview \<Rightarrow> failure + unit" where
  "check_attribution messages p =
     and_then (try_map (\<lambda>r.
         map_sum git_failure (\<lambda>cs. metadata_findings r @ commit_findings r cs)
           (messages (dy_repo r) (dy_base_branch r) (dy_local_branch r))) (dp_repos p)) (\<lambda>fss.
       if concat fss = [] then Inr () else Inl (ai_attribution (dp_feature p) (concat fss)))"

section \<open>Verification\<close>

text \<open>The checks of a repository run one after the other, until one fails.\<close>

fun run_commands ::
    "(string \<Rightarrow> string \<Rightarrow> 'g \<Rightarrow> (string + proc_output) \<times> 'g) \<Rightarrow> string \<Rightarrow> string list \<Rightarrow> 'g \<Rightarrow> verification_result list \<times> 'g" where
  "run_commands exec cwd [] g = ([], g)"
| "run_commands exec cwd (c # cs) g =
     (case exec c cwd g of
        (Inr out, g') \<Rightarrow>
          (let r = \<lparr>vr_command = c, vr_success = output_success out, vr_exit_code = ou_code out, vr_diagnostic = output_diagnostic out\<rparr>
           in if vr_success r then (case run_commands exec cwd cs g' of (rs, g'') \<Rightarrow> (r # rs, g'')) else ([r], g'))
      | (Inl e, g') \<Rightarrow> ([\<lparr>vr_command = c, vr_success = False, vr_exit_code = None, vr_diagnostic = e\<rparr>], g'))"

end
