(* ===== verification/Delivery_Command.thy ===== *)
theory Delivery_Command
  imports Delivery
begin

text \<open>
  The command a preview prints.  The reference is a POSIX shell, as far as it takes text
  literally: it refuses every character it would give a meaning to.  The words it finds are
  read the way the command line declares its options, each value option taking the next
  word, which may not start with a hyphen.
\<close>

section \<open>The shell\<close>

datatype quoting = Bare | Quote | Escape

definition literal_char :: "char \<Rightarrow> bool" where
  "literal_char c \<longleftrightarrow> is_alpha c \<or> is_digit c \<or> c \<in> set ''-_./:=@,+%''"

fun sh_split :: "quoting \<Rightarrow> bool \<Rightarrow> string \<Rightarrow> string \<Rightarrow> string list option" where
  "sh_split Bare started w [] = Some (if started then [w] else [])"
| "sh_split Quote started w [] = None"
| "sh_split Escape started w [] = None"
| "sh_split Bare started w (c # cs) =
     (if c = CHR '' '' then (if started then map_option ((#) w) (sh_split Bare False [] cs) else sh_split Bare False [] cs)
      else if c = single_quote then sh_split Quote True w cs
      else if c = CHR 0x5C then sh_split Escape True w cs
      else if literal_char c then sh_split Bare True (w @ [c]) cs
      else None)"
| "sh_split Quote started w (c # cs) =
     (if c = single_quote then sh_split Bare True w cs else sh_split Quote True (w @ [c]) cs)"
| "sh_split Escape started w (c # cs) = (if c = CHR 10 then None else sh_split Bare True (w @ [c]) cs)"

definition sh_words :: "string \<Rightarrow> string list option" where
  "sh_words s = sh_split Bare False [] s"

section \<open>The words of the command\<close>

definition metadata_words :: "pr_metadata \<Rightarrow> string list" where
  "metadata_words m =
     (case pm_title m of None \<Rightarrow> [] | Some t \<Rightarrow> [''--name'', t])
     @ (case pm_body m of None \<Rightarrow> [] | Some b \<Rightarrow> [''--body'', b])
     @ (if pm_draft m = Some True then [''--draft''] else [])"

definition override_words :: "repo_override \<Rightarrow> string list" where
  "override_words s = [''--repo'', ov_repo s] @ metadata_words (ov_metadata s)"

definition option_words :: "deliver_input \<Rightarrow> string \<Rightarrow> string list" where
  "option_words i fp =
     (if dn_land i then [''--land''] else [])
     @ concat (map (\<lambda>r. [''--only'', r]) (dn_only i))
     @ [''--fingerprint'', fp]
     @ metadata_words (dn_global i)
     @ concat (map override_words (dn_overrides i))"

text \<open>What the options say: those of the groups, the selection, the fingerprint, landing.\<close>

record option_reading =
  or_groups :: "deliver_option list"
  or_only :: "string list"
  or_fingerprints :: "string list"
  or_land :: bool

definition no_options :: option_reading where
  "no_options = \<lparr>or_groups = [], or_only = [], or_fingerprints = [], or_land = False\<rparr>"

definition is_value :: "string \<Rightarrow> bool" where
  "is_value v \<longleftrightarrow> \<not> prefix ''-'' v"

definition read_value :: "string \<Rightarrow> string \<Rightarrow> option_reading \<Rightarrow> option_reading option" where
  "read_value flag v x =
     (if \<not> is_value v then None
      else if flag = ''--name'' then Some (x\<lparr>or_groups := OptName v # or_groups x\<rparr>)
      else if flag = ''--body'' then Some (x\<lparr>or_groups := OptBody v # or_groups x\<rparr>)
      else if flag = ''--repo'' then Some (x\<lparr>or_groups := OptRepo v # or_groups x\<rparr>)
      else if flag = ''--only'' then Some (x\<lparr>or_only := v # or_only x\<rparr>)
      else if flag = ''--fingerprint'' then Some (x\<lparr>or_fingerprints := v # or_fingerprints x\<rparr>)
      else None)"

fun read_options :: "string list \<Rightarrow> option_reading option" where
  "read_options [] = Some no_options"
| "read_options (w # ws) =
     (if w = ''--draft'' then map_option (\<lambda>x. x\<lparr>or_groups := OptDraft # or_groups x\<rparr>) (read_options ws)
      else if w = ''--land'' then map_option (\<lambda>x. x\<lparr>or_land := True\<rparr>) (read_options ws)
      else (case ws of [] \<Rightarrow> None | v # vs \<Rightarrow> Option.bind (read_options vs) (read_value w v)))"

section \<open>Shell words\<close>

lemma replace_char: "str_replace [q] new s = concat (map (\<lambda>c. if c = q then new else [c]) s)"
proof (induction s)
  case Nil
  then show ?case by (simp add: str_replace.simps)
next
  case (Cons c s)
  then show ?case by (subst str_replace.simps) (auto simp: prefix_def)
qed

lemma quote_not_escape [simp]: "single_quote \<noteq> CHR 0x5C" "CHR 0x5C \<noteq> single_quote"
    "single_quote \<noteq> CHR '' ''" "CHR '' '' \<noteq> single_quote" "single_quote \<noteq> CHR 10"
  by (simp_all add: single_quote_def)

lemma split_quoted:
  "sh_split Quote True w (concat (map (\<lambda>c. if c = single_quote then [single_quote, CHR 0x5C, single_quote, single_quote] else [c]) v)
     @ single_quote # rest) = sh_split Bare True (w @ v) rest"
  by (induction v arbitrary: w) simp_all

lemma plain_literal: "plain_char c \<Longrightarrow> literal_char c \<and> c \<noteq> CHR '' '' \<and> c \<noteq> single_quote \<and> c \<noteq> CHR 0x5C"
  by (auto simp: plain_char_def literal_char_def single_quote_def is_alpha_def is_digit_def is_lower_def is_upper_def)

lemma split_plain: "list_all plain_char v \<Longrightarrow> v \<noteq> [] \<or> started \<Longrightarrow> sh_split Bare started w (v @ rest) = sh_split Bare True (w @ v) rest"
proof (induction v arbitrary: w started)
  case Nil
  then show ?case by simp
next
  case (Cons c v)
  then show ?case using plain_literal [of c] Cons.IH [of True "w @ [c]"] by simp
qed

lemma split_shell_word: "sh_split Bare False [] (shell_word v @ rest) = sh_split Bare True v rest"
proof (cases "v \<noteq> [] \<and> list_all plain_char v")
  case True
  then show ?thesis using split_plain [of v False "[]" rest] by (simp add: shell_word_def)
next
  case False
  then show ?thesis using split_quoted [of "[]" v rest] by (auto simp: shell_word_def replace_char)
qed

lemma sh_words_join: "sh_words (join '' '' (map shell_word ws)) = Some ws"
proof (induction ws rule: induct_list012)
  case 1
  then show ?case by (simp add: sh_words_def)
next
  case (2 w)
  then show ?case using split_shell_word [of w "[]"] by (simp add: sh_words_def)
next
  case (3 w v ws)
  then show ?case by (simp add: sh_words_def split_shell_word)
qed

lemma flag_words [simp]:
  "shell_word ''ivar'' = ''ivar''" "shell_word ''feature'' = ''feature''" "shell_word ''deliver'' = ''deliver''"
  "shell_word ''--land'' = ''--land''" "shell_word ''--only'' = ''--only''" "shell_word ''--fingerprint'' = ''--fingerprint''"
  "shell_word ''--name'' = ''--name''" "shell_word ''--body'' = ''--body''" "shell_word ''--draft'' = ''--draft''"
  "shell_word ''--repo'' = ''--repo''"
  by code_simp+

lemma push_metadata_words: "push_metadata m = map shell_word (metadata_words m)"
  by (simp add: push_metadata_def metadata_words_def split: option.splits)

lemma apply_command_words:
  "sh_words (apply_command i fp) = Some ([''ivar'', ''feature'', ''deliver'', dn_feature i] @ option_words i fp)"
proof -
  have "apply_command i fp = join '' '' (map shell_word ([''ivar'', ''feature'', ''deliver'', dn_feature i] @ option_words i fp))"
    by (simp add: apply_command_def option_words_def override_words_def push_metadata_words map_concat comp_def)
  then show ?thesis by (simp only: sh_words_join)
qed

section \<open>Reading the options back\<close>

definition metadata_options :: "pr_metadata \<Rightarrow> deliver_option list" where
  "metadata_options m =
     (case pm_title m of None \<Rightarrow> [] | Some t \<Rightarrow> [OptName t]) @ (case pm_body m of None \<Rightarrow> [] | Some b \<Rightarrow> [OptBody b])
     @ (if pm_draft m = Some True then [OptDraft] else [])"

definition override_options :: "repo_override \<Rightarrow> deliver_option list" where
  "override_options s = OptRepo (ov_repo s) # metadata_options (ov_metadata s)"

definition readable_metadata :: "pr_metadata \<Rightarrow> bool" where
  "readable_metadata m \<longleftrightarrow> pred_option is_value (pm_title m) \<and> pred_option is_value (pm_body m) \<and> pm_draft m \<noteq> Some False"

definition readable_input :: "deliver_input \<Rightarrow> bool" where
  "readable_input i \<longleftrightarrow> readable_metadata (dn_global i) \<and> list_all is_value (dn_only i)
     \<and> list_all (\<lambda>s. is_value (ov_repo s) \<and> readable_metadata (ov_metadata s)) (dn_overrides i)"

lemma read_metadata:
  "readable_metadata m \<Longrightarrow> read_options (metadata_words m @ ws)
     = map_option (\<lambda>x. x\<lparr>or_groups := metadata_options m @ or_groups x\<rparr>) (read_options ws)"
  by (cases "read_options ws")
    (auto simp: readable_metadata_def metadata_words_def metadata_options_def read_value_def split: option.splits)

lemma read_overrides:
  "list_all (\<lambda>s. is_value (ov_repo s) \<and> readable_metadata (ov_metadata s)) os \<Longrightarrow>
     read_options (concat (map override_words os)) = Some (no_options\<lparr>or_groups := concat (map override_options os)\<rparr>)"
  by (induction os) (simp_all add: override_words_def override_options_def read_metadata read_value_def no_options_def)

lemma read_only:
  "list_all is_value rs \<Longrightarrow> read_options (concat (map (\<lambda>r. [''--only'', r]) rs) @ ws)
     = map_option (\<lambda>x. x\<lparr>or_only := rs @ or_only x\<rparr>) (read_options ws)"
proof (induction rs)
  case Nil
  then show ?case by (cases "read_options ws") simp_all
next
  case (Cons r rs)
  then show ?case by (cases "read_options ws") (simp_all add: read_value_def)
qed

lemma read_option_words:
  assumes "readable_input i" and "is_value fp"
  shows "read_options (option_words i fp) = Some
    \<lparr>or_groups = metadata_options (dn_global i) @ concat (map override_options (dn_overrides i)),
     or_only = dn_only i, or_fingerprints = [fp], or_land = dn_land i\<rparr>"
  using assms unfolding readable_input_def option_words_def
  by (simp add: read_only read_metadata read_overrides read_value_def no_options_def)

section \<open>Grouping\<close>

lemma no_metadata_simps [simp]: "pm_title no_metadata = None" "pm_body no_metadata = None" "pm_draft no_metadata = None"
  by (simp_all add: no_metadata_def)

lemma draft_cases: "d \<noteq> Some False \<longleftrightarrow> d = None \<or> d = Some True"
  by (cases d) auto

lemma group_global:
  "pm_draft m \<noteq> Some False \<Longrightarrow>
     group_options no_metadata os None (metadata_options m @ xs) = group_options m os None xs"
  by (cases m) (auto simp: metadata_options_def set_option_def set_delivery_metadata_def no_metadata_def draft_cases split: option.splits)

lemma group_own:
  "pm_draft m \<noteq> Some False \<Longrightarrow>
     group_options g os (Some (r, no_metadata)) (metadata_options m @ xs) = group_options g os (Some (r, m)) xs"
  by (cases m) (auto simp: metadata_options_def set_option_def set_delivery_metadata_def no_metadata_def draft_cases split: option.splits)

lemma group_overrides:
  "list_all (\<lambda>s. pm_draft (ov_metadata s) \<noteq> Some False) ss \<Longrightarrow>
     group_options g os cur (concat (map override_options ss)) = Inr (g, push_group cur os @ ss)"
proof (induction ss arbitrary: os cur)
  case Nil
  then show ?case by simp
next
  case (Cons s ss)
  then show ?case by (simp add: override_options_def group_own push_group_def)
qed

section \<open>Property\<close>

text \<open>
  C13: for a delivery none of whose values, nor the fingerprint, starts with a hyphen, and none
  of whose drafts is explicitly switched off, the command a preview prints can be pasted into a
  shell: the shell splits it into the words of the delivery, without giving a meaning to any
  character of a title, a body or a name, and the command line reads back the selection, the
  fingerprint, landing, the global metadata and the metadata of every repository.  Without the
  first condition it is false (\<open>hyphen_body_unreadable\<close>).
\<close>

theorem apply_command_reads_back:
  assumes "readable_input i" and "is_value fp"
  shows "\<exists>argv x. sh_words (apply_command i fp) = Some ([''ivar'', ''feature'', ''deliver'', dn_feature i] @ argv)
    \<and> read_options argv = Some x \<and> or_only x = dn_only i \<and> or_fingerprints x = [fp] \<and> or_land x = dn_land i
    \<and> parse_metadata (or_groups x) = Inr (dn_global i, dn_overrides i)"
proof -
  have drafts: "pm_draft (dn_global i) \<noteq> Some False" "list_all (\<lambda>s. pm_draft (ov_metadata s) \<noteq> Some False) (dn_overrides i)"
    using assms(1) by (auto simp: readable_input_def readable_metadata_def list_all_iff)
  show ?thesis
    using drafts by (simp add: apply_command_words read_option_words [OF assms] parse_metadata_def group_global group_overrides push_group_def)
qed

section \<open>Witness\<close>

definition sample_deliver_input :: deliver_input where
  "sample_deliver_input =
     \<lparr>dn_feature = ''checkout'', dn_preview = True, dn_land = False, dn_fingerprint = None,
      dn_global = \<lparr>pm_title = Some [CHR ''I'', CHR ''t'', CHR 0x27, CHR ''s'', CHR '' '', CHR ''$''], pm_body = None, pm_draft = None\<rparr>,
      dn_overrides = [\<lparr>ov_repo = ''web'', ov_metadata = \<lparr>pm_title = None, pm_body = Some [], pm_draft = Some True\<rparr>\<rparr>],
      dn_only = [''web''], dn_skip_review = None\<rparr>"

theorem apply_command_reads_back_witness:
  "\<exists>argv x. sh_words (apply_command sample_deliver_input ''ab'') = Some ([''ivar'', ''feature'', ''deliver'', ''checkout''] @ argv)
    \<and> read_options argv = Some x
    \<and> parse_metadata (or_groups x) = Inr (dn_global sample_deliver_input, dn_overrides sample_deliver_input)"
proof -
  have "readable_input sample_deliver_input" "is_value ''ab''"
    by (simp_all add: readable_input_def readable_metadata_def is_value_def sample_deliver_input_def)
  from apply_command_reads_back [OF this] show ?thesis by (auto simp: sample_deliver_input_def)
qed

text \<open>
  The options of the command line do not allow values that start with a hyphen, so the
  command printed for the body \<open>- item\<close>, which \<open>--body=\<close> accepts, cannot be run.
\<close>

theorem hyphen_body_unreadable:
  "\<exists>argv. sh_words (apply_command (sample_deliver_input\<lparr>dn_global := no_metadata\<lparr>pm_body := Some ''- item''\<rparr>\<rparr>) ''ab'') = Some argv
    \<and> read_options (drop 4 argv) = None"
proof -
  have "read_options (option_words (sample_deliver_input\<lparr>dn_global := no_metadata\<lparr>pm_body := Some ''- item''\<rparr>\<rparr>) ''ab'') = None"
    by code_simp
  then show ?thesis by (simp add: apply_command_words)
qed

end
