(* ===== verification/Land.thy ===== *)
theory Land
  imports Delivery Fs "HOL-Library.Word"
begin

text \<open>
  Landing a feature: the read-only guard of \<open>src/src/infra/fs/guard.rs\<close> with its lifting, and
  \<open>src/src/action/feature/deliver/land\<close>, the preflight and the execution that fast-forwards
  every default branch or none.
\<close>

unbundle bit_operations_syntax

section \<open>The read-only guard\<close>

text \<open>
  The modes of the paths that exist, and why a path can not be inspected or changed.
  \<open>chmod\<close> sets the twelve permission bits and leaves the type of the file; the constants are
  octal 7777, 222 and 200.
\<close>

record path_modes =
  md_mode :: "string \<Rightarrow> 32 word option"
  md_stat_error :: "string \<Rightarrow> string option"
  md_chmod_error :: "string \<Rightarrow> string option"

definition permission_bits :: "32 word" where "permission_bits = 4095"
definition write_bits :: "32 word" where "write_bits = 146"
definition owner_write :: "32 word" where "owner_write = 128"

definition unix_mode :: "string \<Rightarrow> path_modes \<Rightarrow> fs_error + 32 word option" where
  "unix_mode p s = (case md_stat_error s p of Some e \<Rightarrow> Inl (FsMetadata p e) | None \<Rightarrow> Inr (md_mode s p))"

definition new_mode :: "32 word \<Rightarrow> 32 word \<Rightarrow> 32 word" where
  "new_mode old m = (old AND NOT permission_bits) OR (m AND permission_bits)"

definition chmod :: "string \<Rightarrow> 32 word \<Rightarrow> path_modes \<Rightarrow> (fs_error + unit) \<times> path_modes" where
  "chmod p m s =
     (case (md_chmod_error s p, md_mode s p) of
        (Some e, _) \<Rightarrow> (Inl (FsChmod p e), s)
      | (None, None) \<Rightarrow> (Inl (FsChmod p ''No such file or directory (os error 2)''), s)
      | (None, Some old) \<Rightarrow> (Inr (), s\<lparr>md_mode := (md_mode s)(p \<mapsto> new_mode old m)\<rparr>))"

definition clear_write_bits :: "string \<Rightarrow> path_modes \<Rightarrow> (fs_error + unit) \<times> path_modes" where
  "clear_write_bits p s =
     (case unix_mode p s of
        Inl e \<Rightarrow> (Inl e, s)
      | Inr None \<Rightarrow> (Inr (), s)
      | Inr (Some m) \<Rightarrow> if m AND write_bits \<noteq> 0 then chmod p (m AND NOT write_bits) s else (Inr (), s))"

definition restore_write_bits :: "string \<Rightarrow> path_modes \<Rightarrow> (fs_error + unit) \<times> path_modes" where
  "restore_write_bits p s =
     (case unix_mode p s of
        Inl e \<Rightarrow> (Inl e, s)
      | Inr None \<Rightarrow> (Inr (), s)
      | Inr (Some m) \<Rightarrow> if m AND write_bits = 0 then chmod p (m OR owner_write) s else (Inr (), s))"

text \<open>The guard that was lifted: the paths and their modes.  Dropping it puts them back.\<close>

type_synonym lifted_guard = "(string \<times> 32 word) list"

fun drop_guard :: "lifted_guard \<Rightarrow> path_modes \<Rightarrow> path_modes" where
  "drop_guard [] s = s"
| "drop_guard ((p, m) # g) s = drop_guard g (snd (chmod p m s))"

definition lift_failed :: "string \<Rightarrow> fs_error \<Rightarrow> failure" where
  "lift_failed p e =
     with_fix (fix_safe ''fs.check_permissions'' (''Ensure user has permission to modify permissions on '' @ quoted p @ ''.''))
       (with_actual (''chmod failed: '' @ fs_error_display e)
         (with_expected (''write permissions to be lifted on '' @ quoted p)
           (failed ''fs.lift_write_bits_failed''
             (''could not lift write permissions on '' @ quoted p @ '': '' @ fs_error_display e))))"

definition mode_unreadable :: "string \<Rightarrow> fs_error \<Rightarrow> failure" where
  "mode_unreadable p e =
     with_fix (fix_safe ''fs.check_path'' (''Ensure '' @ quoted p @ '' exists and is accessible.''))
       (with_actual (''fs error: '' @ fs_error_display e)
         (with_expected (''path '' @ quoted p @ '' to exist and be readable'')
           (failed ''fs.read_mode_failed'' (''could not inspect permissions on '' @ quoted p @ '': '' @ fs_error_display e))))"

fun lift_from :: "lifted_guard \<Rightarrow> string list \<Rightarrow> path_modes \<Rightarrow> (failure + lifted_guard) \<times> path_modes" where
  "lift_from g [] s = (Inr g, s)"
| "lift_from g (p # ps) s =
     (case unix_mode p s of
        Inl e \<Rightarrow> (Inl (mode_unreadable p e), drop_guard g s)
      | Inr None \<Rightarrow> lift_from g ps s
      | Inr (Some m) \<Rightarrow>
          if m AND write_bits = 0 then
            (case restore_write_bits p s of
               (Inl e, s') \<Rightarrow> (Inl (lift_failed p e), drop_guard g s')
             | (Inr _, s') \<Rightarrow> lift_from (g @ [(p, m)]) ps s')
          else lift_from g ps s)"

definition lift_guard :: "string list \<Rightarrow> path_modes \<Rightarrow> (failure + lifted_guard) \<times> path_modes" where
  "lift_guard ps s = lift_from [] ps s"

section \<open>Plans\<close>

text \<open>The operations of git that landing needs beside those of the other verbs.\<close>

record 'g land_git = "'g git" +
  g_head_commit :: "'g \<Rightarrow> string \<Rightarrow> git_error + string"
  g_rebase_in_progress :: "'g \<Rightarrow> string \<Rightarrow> git_error + bool"
  g_fast_forward_to :: "string \<Rightarrow> string \<Rightarrow> 'g \<Rightarrow> (git_error + unit) \<times> 'g"
  g_reset_hard :: "string \<Rightarrow> string \<Rightarrow> 'g \<Rightarrow> (git_error + unit) \<times> 'g"

record land_plan =
  ln_repo :: repo_name
  ln_worktree :: string
  ln_default_branch :: branch_name
  ln_tip :: string
  ln_remote :: string
  ln_remote_default_tip :: "string option"
  ln_original_head :: string
  ln_feature_name :: string

record land_result =
  ld_repo :: repo_name
  ld_merged :: bool
  ld_pushed :: bool
  ld_detail :: "string option"

definition land_no_repos :: "feature_name \<Rightarrow> failure" where
  "land_no_repos f =
     with_fix (fix_safe ''deliver.promote_first'' ''Promote at least one repository before delivering.'')
       (with_actual (''feature '' @ quoted (feature_str f) @ '' promotes 0 repositories'')
         (with_expected ''at least one promoted repository to land''
           (blocked ''deliver.land_no_repos'' (''feature '' @ quoted (feature_str f) @ '' promotes no repositories to land''))))"

definition land_undeclared :: "repo_name \<Rightarrow> failure" where
  "land_undeclared repo =
     with_fix (fix_safe ''deliver.declare_default_branch'' ''Declare a default branch for the repository in ivar.json before landing.'')
       (with_actual ''no default branch declared'' (with_expected ''a declared default branch in ivar.json''
         (blocked ''deliver.declare_default_branch'' (''default branch in repo '' @ quoted (repo_str repo) @ '' is not declared in ivar.json''))))"

definition land_rebasing :: "string \<Rightarrow> failure" where
  "land_rebasing wt =
     with_fix (fix_safe ''deliver.finish_rebase_first'' ''Complete or abort the in-progress rebase before landing.'')
       (with_actual (''rebase in progress in '' @ quoted wt) (with_expected ''the default branch worktree to have no active rebase''
         (blocked ''deliver.land_rebase_in_progress'' (''a rebase is in progress in '' @ quoted wt))))"

definition land_dirty :: "string \<Rightarrow> failure" where
  "land_dirty wt =
     with_fix (fix_safe ''deliver.clean_worktree_first'' ''Commit or stash your work before landing.'')
       (with_actual (''uncommitted changes in '' @ quoted wt) (with_expected ''the default worktree to be clean''
         (blocked ''deliver.land_dirty_worktree'' (''the default worktree at '' @ quoted wt @ '' has uncommitted changes''))))"

definition rebase_command :: "string \<Rightarrow> string" where
  "rebase_command f = ''ivar feature rebase '' @ f"

definition land_not_fast_forward :: "branch_name \<Rightarrow> repo_name \<Rightarrow> string \<Rightarrow> failure" where
  "land_not_fast_forward b repo f =
     (let d = quoted (branch_str b) in
      with_fix (fix_command (rebase_command f) (fix_safe ''deliver.rebase_first''
          (''Rebase the feature onto default first: '' @ quoted (rebase_command f) @ ''.'')))
        (with_actual (''default branch '' @ d @ '' has diverged or cannot fast-forward'')
          (with_expected (''default branch '' @ d @ '' to fast-forward to '' @ quoted f)
            (blocked ''deliver.land_not_fast_forward''
              (''default branch '' @ d @ '' in repo '' @ quoted (repo_str repo) @ '' cannot fast-forward to feature '' @ quoted f)))))"

definition plan_repo_land :: "'g land_git \<Rightarrow> layout \<Rightarrow> 'g \<Rightarrow> feature \<Rightarrow> delivery_repo \<Rightarrow> failure + land_plan" where
  "plan_repo_land git lay g f r =
     (case dy_default_branch r of
        None \<Rightarrow> Inl (land_undeclared (dy_repo r))
      | Some db \<Rightarrow>
          (let wt = repo_worktree lay (dy_repo r) db; bare = repo_bare lay (dy_repo r);
               ask = (\<lambda>x. map_sum git_failure id x) in
           and_then (ask (g_rebase_in_progress git g wt)) (\<lambda>rebasing. if rebasing then Inl (land_rebasing wt) else
           and_then (ask (g_worktree_dirty git g wt)) (\<lambda>dirty. if dirty then Inl (land_dirty wt) else
           and_then (map_sum git_failure id (g_is_ancestor git g bare (branch_str db) (branch_str (ft_branch f)))) (\<lambda>ff.
             if \<not> ff then Inl (land_not_fast_forward db (dy_repo r) (feature_str (ft_name f))) else
           and_then (map_sum git_failure id (g_revision_commit git g bare (branch_str (ft_branch f)))) (\<lambda>tip.
           and_then (map_sum git_failure id (g_head_commit git g wt)) (\<lambda>head.
             Inr \<lparr>ln_repo = dy_repo r, ln_worktree = wt, ln_default_branch = db, ln_tip = tip, ln_remote = dy_remote r,
                  ln_remote_default_tip = dy_remote_default_tip r, ln_original_head = head,
                  ln_feature_name = feature_str (ft_name f)\<rparr>)))))))"

definition land_preflight :: "'g land_git \<Rightarrow> layout \<Rightarrow> 'g \<Rightarrow> feature \<Rightarrow> delivery_preview \<Rightarrow> failure + land_plan list" where
  "land_preflight git lay g f p =
     (if dp_repos p = [] then Inl (land_no_repos (ft_name f))
      else try_map (plan_repo_land git lay g f) (dp_repos p))"

section \<open>Execution\<close>

text \<open>What moved on the remote since the preview; \<open>None\<close> when it is where the preview saw it.\<close>

definition moved_detail :: "string option \<Rightarrow> git_error + string option \<Rightarrow> string option" where
  "moved_detail seen current =
     (case (seen, current) of
        (Some e, Inr (Some c)) \<Rightarrow>
          if c = e then None
          else Some (''moved (preview expected '' @ quoted e @ '', current '' @ quoted c @ '')'')
      | (Some _, Inr None) \<Rightarrow> Some ''disappeared from remote''
      | (Some _, Inl e) \<Rightarrow> Some (''could not be verified: '' @ git_error_display e)
      | (None, Inr _) \<Rightarrow> Some ''absent at preview''
      | (None, Inl e) \<Rightarrow> Some (''absent at preview (remote error: '' @ git_error_display e @ '')''))"

definition plan_moved :: "'g land_git \<Rightarrow> layout \<Rightarrow> 'g \<Rightarrow> land_plan \<Rightarrow> string option" where
  "plan_moved git lay g p =
     moved_detail (ln_remote_default_tip p)
       (g_remote_branch_tip git g (repo_bare lay (ln_repo p)) (ln_remote p) (branch_str (ln_default_branch p)))"

definition moved_warning :: "land_plan \<Rightarrow> string \<Rightarrow> warning" where
  "moved_warning p detail =
     warning_new ''deliver.land_remote_moved'' (repo_str (ln_repo p))
       (''the remote default branch '' @ quoted (branch_str (ln_default_branch p)) @ '' in '' @ quoted (repo_str (ln_repo p))
        @ '': '' @ detail @ ''; the entire land batch is skipped'')"

text \<open>The reasons by repository; the last one given for a repository stands.\<close>

definition moved_reasons :: "'g land_git \<Rightarrow> layout \<Rightarrow> 'g \<Rightarrow> land_plan list \<Rightarrow> (land_plan \<times> string) list" where
  "moved_reasons git lay g ps = List.map_filter (\<lambda>p. map_option (\<lambda>d. (p, d)) (plan_moved git lay g p)) ps"

definition skipped_result :: "(land_plan \<times> string) list \<Rightarrow> land_plan \<Rightarrow> land_result" where
  "skipped_result moved p =
     \<lparr>ld_repo = ln_repo p, ld_merged = False, ld_pushed = False,
      ld_detail = Some (case map_of (rev (map (\<lambda>(q, d). (ln_repo q, d)) moved)) (ln_repo p) of
                          Some d \<Rightarrow> ''remote default branch '' @ d
                        | None \<Rightarrow> ''remote default branch validation failed for batch'')\<rparr>"

definition head_moved :: "land_plan \<Rightarrow> string \<Rightarrow> failure" where
  "head_moved p current =
     (let d = quoted (branch_str (ln_default_branch p)) in
      with_fix (fix_command (rebase_command (ln_feature_name p)) (fix_safe ''deliver.rebase_first''
          (''Rebase the feature onto '' @ d @ '': '' @ quoted (rebase_command (ln_feature_name p)) @ ''.'')))
        (with_actual (''HEAD is now '' @ quoted current)
          (with_expected (''default branch '' @ d @ '' to remain at preflight HEAD '' @ quoted (ln_original_head p))
            (blocked ''deliver.land_head_moved''
              (''default branch '' @ d @ '' in repo '' @ quoted (repo_str (ln_repo p)) @ '' moved since preflight'')))))"

definition ff_refused :: "land_plan \<Rightarrow> git_error \<Rightarrow> failure" where
  "ff_refused p e =
     (let d = quoted (branch_str (ln_default_branch p)) in
      with_fix (fix_safe ''deliver.rebase_first''
          (''Rebase the feature onto default first: '' @ quoted (rebase_command (ln_feature_name p)) @ ''.''))
        (with_actual (''git merge --ff-only failed: '' @ git_error_display e)
          (with_expected (''default branch '' @ d @ '' to fast-forward to '' @ quoted (ln_tip p))
            (failed ''git.merge_ff_only_failed''
              (''failed to fast-forward default branch '' @ d @ '' in '' @ quoted (repo_str (ln_repo p)) @ '': '' @ git_error_display e)))))"

definition ff_merge_one :: "'g land_git \<Rightarrow> layout \<Rightarrow> land_plan \<Rightarrow> 'g \<Rightarrow> (failure + unit) \<times> 'g" where
  "ff_merge_one git lay p g =
     (let checked =
        and_then (map_sum git_failure id (g_is_ancestor git g (repo_bare lay (ln_repo p)) (branch_str (ln_default_branch p)) (ln_tip p))) (\<lambda>ff.
          if \<not> ff then Inl (land_not_fast_forward (ln_default_branch p) (ln_repo p) (ln_feature_name p)) else
        and_then (map_sum git_failure id (g_worktree_dirty git g (ln_worktree p))) (\<lambda>dirty.
          if dirty then Inl (land_dirty (ln_worktree p)) else
        and_then (map_sum git_failure id (g_head_commit git g (ln_worktree p))) (\<lambda>head.
          if head \<noteq> ln_original_head p then Inl (head_moved p head) else Inr ())))
      in case checked of
           Inl e \<Rightarrow> (Inl e, g)
         | Inr _ \<Rightarrow>
             (case g_fast_forward_to git (ln_worktree p) (ln_tip p) g of
                (Inl e, g') \<Rightarrow> (Inl (ff_refused p e), g')
              | (Inr _, g') \<Rightarrow> (Inr (), g')))"

text \<open>The merges, with the plans that are merged; then the rollback of those.\<close>

fun merge_each :: "'g land_git \<Rightarrow> layout \<Rightarrow> land_plan list \<Rightarrow> land_plan list \<Rightarrow> 'g \<Rightarrow> (land_plan list \<times> land_plan \<times> failure) option \<times> 'g" where
  "merge_each git lay earlier [] g = (None, g)"
| "merge_each git lay earlier (p # ps) g =
     (case ff_merge_one git lay p g of
        (Inl e, g') \<Rightarrow> (Some (earlier, p, e), g')
      | (Inr _, g') \<Rightarrow> merge_each git lay (earlier @ [p]) ps g')"

fun rollback_each :: "'g land_git \<Rightarrow> land_plan list \<Rightarrow> 'g \<Rightarrow> string list \<times> 'g" where
  "rollback_each git [] g = ([], g)"
| "rollback_each git (p # ps) g =
     (case g_reset_hard git (ln_worktree p) (ln_original_head p) g of
        (r, g') \<Rightarrow> (case rollback_each git ps g' of (es, g'') \<Rightarrow>
          ((case r of Inr _ \<Rightarrow> es
            | Inl e \<Rightarrow> (quoted (repo_str (ln_repo p)) @ '' (target '' @ quoted (ln_original_head p) @ ''): '' @ git_error_display e) # es), g'')))"

definition land_rollback_failed :: "land_plan \<Rightarrow> failure \<Rightarrow> string list \<Rightarrow> failure" where
  "land_rollback_failed p e errors =
     with_fix (fix_safe ''deliver.manual_cleanup''
         (''Manually reset worktrees that failed rollback: '' @ join ''; '' errors @ ''.''))
       (with_actual (''original failure: '' @ fl_what e @ ''; rollback errors: '' @ join ''; '' errors)
         (with_expected ''all merged default worktrees to roll back cleanly to their original tips''
           (failed ''deliver.land_rollback_failed''
             (''local merge failed for '' @ quoted (repo_str (ln_repo p)) @ '', and rollback of earlier merges also failed: '' @ fl_what e))))"

definition rollback_merged :: "'g land_git \<Rightarrow> land_plan list \<Rightarrow> land_plan \<Rightarrow> failure \<Rightarrow> 'g \<Rightarrow> failure \<times> 'g" where
  "rollback_merged git earlier p e g =
     (case rollback_each git earlier g of
        (errors, g') \<Rightarrow> (if errors \<noteq> [] then land_rollback_failed p e errors else e, g'))"

fun push_each :: "'g land_git \<Rightarrow> layout \<Rightarrow> land_plan list \<Rightarrow> 'g \<Rightarrow> (land_result list \<times> warning list) \<times> 'g" where
  "push_each git lay [] g = (([], []), g)"
| "push_each git lay (p # ps) g =
     (case g_push git (repo_bare lay (ln_repo p)) (ln_remote p) (branch_str (ln_default_branch p))
             (''refs/heads/'' @ branch_str (ln_default_branch p)) g of
        (Inr _, g') \<Rightarrow>
          (case push_each git lay ps g' of ((rs, ws), g'') \<Rightarrow>
            ((\<lparr>ld_repo = ln_repo p, ld_merged = True, ld_pushed = True, ld_detail = None\<rparr> # rs, ws), g''))
      | (Inl e, g') \<Rightarrow>
          (case push_each git lay ps g' of ((rs, ws), g'') \<Rightarrow>
            ((\<lparr>ld_repo = ln_repo p, ld_merged = True, ld_pushed = False, ld_detail = Some (git_error_display e)\<rparr> # rs,
              warning_new ''deliver.land_push_failed'' (repo_str (ln_repo p))
                (''merged locally, push failed: '' @ git_error_display e) # ws), g'')))"

definition merge_and_push :: "'g land_git \<Rightarrow> layout \<Rightarrow> land_plan list \<Rightarrow> 'g \<Rightarrow> (failure + land_result list \<times> warning list) \<times> 'g" where
  "merge_and_push git lay ps g =
     (case merge_each git lay [] ps g of
        (Some (earlier, p, e), g') \<Rightarrow> (case rollback_merged git earlier p e g' of (e', g'') \<Rightarrow> (Inl e', g''))
      | (None, g') \<Rightarrow> (case push_each git lay ps g' of (r, g'') \<Rightarrow> (Inr r, g'')))"

definition land_execute ::
    "'g land_git \<Rightarrow> layout \<Rightarrow> land_plan list \<Rightarrow> 'g \<times> path_modes \<Rightarrow> (failure + land_result list \<times> warning list) \<times> 'g \<times> path_modes" where
  "land_execute git lay ps s =
     (case s of (g, md) \<Rightarrow>
       (let moved = moved_reasons git lay g ps in
        if moved \<noteq> [] then (Inr (map (skipped_result moved) ps, map (\<lambda>(p, d). moved_warning p d) moved), s)
        else (case lift_guard (map ln_worktree ps) md of
                (Inl e, md') \<Rightarrow> (Inl e, g, md')
              | (Inr held, md') \<Rightarrow>
                  (case merge_and_push git lay ps g of (r, g') \<Rightarrow> (r, g', drop_guard held md')))))"

end
