(* ===== verification/Deliver.thy ===== *)
theory Deliver
  imports Land Tree_State
begin

text \<open>
  \<open>src/src/action/feature/deliver\<close>: \<open>repos.rs\<close> builds the entry of each repository,
  \<open>mod.rs\<close> the preview and the checks before anything is delivered, \<open>push.rs\<close> the pushes and
  the pull requests, \<open>events.rs\<close> what the memory is told.  The state is that of git and the
  forge, the modes of the worktrees, the features and the events.
\<close>

section \<open>The environment\<close>

text \<open>\<open>Repo\<close> of \<open>src/src/store/manifest/model/repo.rs\<close>.\<close>

record manifest_repo =
  mp_name :: repo_name
  mp_url :: string
  mp_default_branch :: branch_name
  mp_checks :: "string list"
  mp_ref_prefix :: "string option"

text \<open>
  \<open>dg_tree\<close> is what the states of the tree are read from besides git, the plan gates included;
  \<open>dg_messages\<close> the messages of the commits between two branches; the digests are hashes of
  canonical JSON; \<open>dg_exec\<close> runs a check in a worktree.
\<close>

record 'g deliver_env =
  dg_git :: "'g land_git"
  dg_forge :: "'g forge"
  dg_layout :: layout
  dg_cwd :: string
  dg_manifest :: "failure + manifest_repo list"
  dg_tree :: tree_reads
  dg_body :: body_reader
  dg_drain :: "failure + unit"
  dg_review :: "feature_name \<Rightarrow> failure + review_answer"
  dg_heads :: "feature \<Rightarrow> (string \<times> string) list"
  dg_messages :: "'g \<Rightarrow> string \<Rightarrow> string \<Rightarrow> string \<Rightarrow> git_error + (string \<times> string) list"
  dg_digest :: "delivery_preview \<Rightarrow> failure + string"
  dg_commands_digest :: "string list \<Rightarrow> failure + string"
  dg_exec :: "string \<Rightarrow> string \<Rightarrow> 'g \<Rightarrow> (string + proc_output) \<times> 'g"
  dg_plan_written :: "feature_name \<Rightarrow> bool"

record 'g deliver_state =
  dw_git :: 'g
  dw_modes :: path_modes
  dw_features :: hall
  dw_events :: "(delivery_scope \<times> delivery_event) list"
  dw_skips :: "(feature_name \<times> string) list"

definition declared_repo :: "manifest_repo list \<Rightarrow> repo_name \<Rightarrow> manifest_repo option" where
  "declared_repo ms r = find (\<lambda>m. mp_name m = r) ms"

definition reads_at :: "'g deliver_env \<Rightarrow> 'g \<Rightarrow> tree_reads" where
  "reads_at env g = (dg_tree env)\<lparr>tr_git := git_reads_of (git.truncate (dg_git env)) g, tr_layout := dg_layout env\<rparr>"

section \<open>The entry of a repository\<close>

definition is_github_https :: "string \<Rightarrow> bool" where
  "is_github_https url \<longleftrightarrow> prefix ''https://github.com/'' url"

definition opens_pull_requests :: "manifest_repo \<Rightarrow> bool" where
  "opens_pull_requests m \<longleftrightarrow> mp_ref_prefix m = None \<and> is_github_https (mp_url m)"

definition from_git :: "git_error + 'a \<Rightarrow> failure + 'a" where
  "from_git r = map_sum git_failure id r"

text \<open>The blockers and what is pending.  A remote that does not answer leaves the question open.\<close>

definition push_readiness ::
    "'g land_git \<Rightarrow> 'g \<Rightarrow> string \<Rightarrow> string \<Rightarrow> feature \<Rightarrow> manifest_repo \<Rightarrow> failure + string list \<times> string list" where
  "push_readiness git g bare worktree f m =
     (let branch = branch_str (ft_branch f) in
      and_then (from_git (g_list_branches git g bare)) (\<lambda>branches.
        let there = branch \<in> set branches in
      and_then (if \<not> there then Inr 0 else from_git (g_commits_ahead git g bare (branch_str (mp_default_branch m)) branch)) (\<lambda>ahead.
        let pending =
          (if ahead = 0 then []
           else (case g_remote_branch_tip git g bare (mp_url m) branch of
                   Inr (Some tip) \<Rightarrow>
                     (let unpushed = (case g_commits_ahead git g bare tip branch of Inr n \<Rightarrow> n | Inl _ \<Rightarrow> ahead)
                      in if unpushed > 0 then [show_nat unpushed @ '' commit(s) not pushed''] else [])
                 | Inr None \<Rightarrow> [show_nat ahead @ '' commit(s) not pushed'']
                 | Inl _ \<Rightarrow> [show_nat ahead @ '' commit(s) of unconfirmed delivery '' @ em_dash @ '' the remote did not answer''])) in
      and_then (if g_target_state git g worktree = Inr TargetRepository then from_git (g_worktree_dirty git g worktree) else Inr False) (\<lambda>dirty.
        Inr ((if there then [] else [''branch not materialised; promote the repo first''])
             @ (if dirty then [''worktree has uncommitted changes''] else []), pending)))))"

record land_checks =
  lc_default_branch :: "branch_name option"
  lc_ff_possible :: "bool option"
  lc_remote_default_tip :: "string option"
  lc_blockers :: "string list"

definition land_mode_checks ::
    "'g land_git \<Rightarrow> 'g \<Rightarrow> layout \<Rightarrow> manifest_repo list \<Rightarrow> feature \<Rightarrow> repo_name \<Rightarrow> manifest_repo \<Rightarrow> failure + land_checks" where
  "land_mode_checks git g lay ms f repo m =
     (let bare = repo_bare lay repo in
      case declared_repo ms repo of
        None \<Rightarrow> Inr \<lparr>lc_default_branch = None, lc_ff_possible = Some False, lc_remote_default_tip = None,
                     lc_blockers = [''default branch in repo '' @ quoted (repo_str repo) @ '' is not declared in ivar.json'']\<rparr>
      | Some d \<Rightarrow>
          (let target = mp_default_branch d; wt = repo_worktree lay repo target in
           and_then (from_git (g_is_ancestor git g bare (branch_str target) (branch_str (ft_branch f)))) (\<lambda>ff.
             Inr \<lparr>lc_default_branch = Some target, lc_ff_possible = Some ff,
                  lc_remote_default_tip = (case g_remote_branch_tip git g bare (mp_url m) (branch_str target) of Inr t \<Rightarrow> t | Inl _ \<Rightarrow> None),
                  lc_blockers =
                    (if g_rebase_in_progress git g wt = Inr True then [''a rebase is in progress in '' @ quoted wt] else [])
                    @ (if g_worktree_dirty git g wt = Inr True
                       then [''the default worktree at '' @ quoted wt @ '' has uncommitted changes''] else [])
                    @ (if \<not> ff then [''default branch '' @ quoted (branch_str target) @ '' in repo '' @ quoted (repo_str repo)
                          @ '' cannot fast-forward to feature '' @ quoted (feature_str (ft_name f))] else [])\<rparr>)))"

definition no_land_checks :: land_checks where
  "no_land_checks = \<lparr>lc_default_branch = None, lc_ff_possible = None, lc_remote_default_tip = None, lc_blockers = []\<rparr>"

definition repo_not_in_manifest :: "feature \<Rightarrow> repo_name \<Rightarrow> failure" where
  "repo_not_in_manifest f repo =
     with_fix (fix_safe ''deliver.restore_manifest''
         ''Restore the repo to ivar.json (or demote it from the feature) before delivering.'')
       (with_actual (quoted (repo_str repo) @ '' does not appear in `repos`'')
         (with_expected ''every promoted repo to still be declared in ivar.json''
           (blocked ''deliver.repo_not_in_manifest''
             (quoted (repo_str repo) @ '' is promoted into '' @ quoted (feature_str (ft_name f)) @ '' but is no longer in ivar.json''))))"

definition resolve_declared_repo :: "manifest_repo list \<Rightarrow> feature \<Rightarrow> repo_name \<Rightarrow> failure + manifest_repo" where
  "resolve_declared_repo ms f repo =
     (case declared_repo ms repo of Some m \<Rightarrow> Inr m | None \<Rightarrow> Inl (repo_not_in_manifest f repo))"

definition ensure_cloned_for_delivery :: "'g land_git \<Rightarrow> 'g \<Rightarrow> string \<Rightarrow> repo_name \<Rightarrow> failure + unit" where
  "ensure_cloned_for_delivery git g bare repo =
     and_then (from_git (g_target_state git g bare)) (\<lambda>st.
       if st = TargetRepository then Inr ()
       else Inl (with_fix (fix_safe ''repo.sync_first'' ''Run `ivar sync` to clone the repo, then deliver again.'')
         (with_actual (quoted bare @ '' does not exist'') (with_expected ''the repo to have been cloned by `ivar sync`''
           (blocked ''repo.bare_not_cloned'' (quoted (repo_str repo) @ '' has no bare clone yet''))))))"

definition planned_action :: "delivery_mode \<Rightarrow> manifest_repo \<Rightarrow> pull_request option \<Rightarrow> delivery_action" where
  "planned_action mode m existing =
     (case mode of
        ModeLand \<Rightarrow> LandOnDefault
      | ModePush \<Rightarrow> if \<not> opens_pull_requests m then PushOnly else if existing \<noteq> None then UpdatePr else NewPr)"

definition planned_draft :: "delivery_mode \<Rightarrow> manifest_repo \<Rightarrow> pull_request option \<Rightarrow> bool option \<Rightarrow> draft_action option" where
  "planned_draft mode m existing draft =
     (if draft \<noteq> Some True \<or> mode = ModeLand \<or> \<not> opens_pull_requests m then None
      else (case existing of
              Some pr \<Rightarrow> if pq_is_draft pr then None else Some ConvertToDraft
            | None \<Rightarrow> Some CreateAsDraft))"

definition build_repo_entry ::
    "'g deliver_env \<Rightarrow> 'g \<Rightarrow> manifest_repo list \<Rightarrow> feature \<Rightarrow> delivery_mode \<Rightarrow> (repo_name, pr_metadata) btree \<Rightarrow>
     repo_name \<times> promotion \<Rightarrow> failure + delivery_repo" where
  "build_repo_entry env g ms f mode metadata x =
     (case x of (repo, promotion) \<Rightarrow>
       (let git = dg_git env; lay = dg_layout env; bare = repo_bare lay repo in
        and_then (resolve_declared_repo ms f repo) (\<lambda>m.
        and_then (ensure_cloned_for_delivery git g bare repo) (\<lambda>_.
        and_then (push_readiness git g bare (repo_worktree lay repo (ft_branch f)) f m) (\<lambda>(blockers, pending).
        and_then (if mode = ModePush \<and> opens_pull_requests m
                  then existing_pr (dg_forge env) g bare (branch_str (ft_branch f)) else Inr None) (\<lambda>existing.
        and_then (if mode = ModeLand then land_mode_checks git g lay ms f repo m else Inr no_land_checks) (\<lambda>lc.
          let own = unwrap_or no_metadata (bt_get metadata repo);
              entry = \<lparr>dy_repo = repo, dy_local_branch = ft_branch f, dy_remote = mp_url m, dy_ref_prefix = mp_ref_prefix m,
                dy_push_refspec = [], dy_action = planned_action mode m existing,
                dy_base_branch = base_resolve f promotion (mp_default_branch m), dy_dependencies = [],
                dy_blockers = blockers @ lc_blockers lc, dy_pending = pending, dy_pr_url = None,
                dy_default_branch = lc_default_branch lc, dy_ff_possible = lc_ff_possible lc,
                dy_remote_default_tip = lc_remote_default_tip lc, dy_pr_title = pm_title own, dy_pr_body = pm_body own,
                dy_draft = planned_draft mode m existing (pm_draft own)\<rparr>
          in Inr (entry\<lparr>dy_push_refspec := branch_str (ft_branch f) @ '':refs/heads/'' @ remote_branch entry (branch_str (ft_branch f))\<rparr>))))))))"

definition build_repos ::
    "'g deliver_env \<Rightarrow> 'g \<Rightarrow> manifest_repo list \<Rightarrow> feature \<Rightarrow> delivery_mode \<Rightarrow> (repo_name, pr_metadata) btree \<Rightarrow>
     repo_name list \<Rightarrow> failure + delivery_repo list" where
  "build_repos env g ms f mode metadata selection =
     try_map (build_repo_entry env g ms f mode metadata) (filter (\<lambda>x. fst x \<in> set selection) (ft_promotions f))"

text \<open>The first repository none of whose dependencies remains comes next; without one the rest follows as it is.\<close>

function order_by_dependencies :: "repo_name list \<Rightarrow> delivery_repo list \<Rightarrow> delivery_repo list" where
  "order_by_dependencies remaining rs =
     (case List.extract (\<lambda>r. list_all (\<lambda>d. d \<notin> set remaining) (dy_dependencies r)) rs of
        None \<Rightarrow> rs
      | Some (before, r, after) \<Rightarrow> r # order_by_dependencies (removeAll (dy_repo r) remaining) (before @ after))"
  by pat_completeness auto
termination
  by (relation "measure (\<lambda>(_, rs). length rs)") (auto dest!: extract_SomeE)

section \<open>The preview\<close>

definition child_requires_integration :: "feature_name \<Rightarrow> feature_name \<Rightarrow> failure" where
  "child_requires_integration f parent =
     (let n = feature_str f; command = ''ivar feature integrate '' @ n in
      with_fix (fix_command command (fix_safe ''deliver.integrate_child''
          (''Integrate the child into its parent: '' @ quoted command @ ''.'')))
        (with_actual (quoted n @ '' is a subfeature of '' @ quoted (feature_str parent))
          (with_expected ''a root feature (one with no parent) to deliver''
            (blocked ''deliver.child_requires_integration''
              (''feature '' @ quoted n @ '' is a child; it delivers into its parent, not to the remote'')))))"

definition tree_blocker_of :: "tree_entry \<Rightarrow> delivery_tree_blocker" where
  "tree_blocker_of e =
     \<lparr>tb_feature = te_feature e, tb_depth = te_depth e, tb_state = te_state e, tb_reason = blocker_reason (te_state e)\<rparr>"

definition mode_of :: "deliver_input \<Rightarrow> delivery_mode" where
  "mode_of i = (if dn_land i then ModeLand else ModePush)"

text \<open>The checks that come before the tree is walked.\<close>

definition delivered_feature ::
    "'g deliver_env \<Rightarrow> hall \<Rightarrow> deliver_input \<Rightarrow> failure + feature \<times> repo_name list \<times> (repo_name, pr_metadata) btree \<times> feature list" where
  "delivered_feature env m i =
     and_then (named (feature_name_new (dn_feature i))) (\<lambda>n.
     and_then (read_feature m n) (\<lambda>f.
     and_then (selected_repos f i) (\<lambda>selection.
     and_then (resolve_metadata (dg_body env) (dg_cwd env) f i) (\<lambda>metadata.
     and_then (case ft_parent f of Some p \<Rightarrow> Inl (child_requires_integration n p) | None \<Rightarrow> Inr ()) (\<lambda>_.
     and_then (read_all m) (\<lambda>fs. Inr (f, selection, metadata, fs)))))))"

definition finish_preview ::
    "'g deliver_env \<Rightarrow> 'g \<Rightarrow> manifest_repo list \<Rightarrow> deliver_input \<Rightarrow> feature \<Rightarrow> repo_name list \<Rightarrow> (repo_name, pr_metadata) btree \<Rightarrow>
     tree_entry list \<Rightarrow> failure + feature \<times> delivery_preview \<times> warning list" where
  "finish_preview env g ms i f selection metadata entries =
     and_then (tr_gate (dg_tree env) (ft_name f)) (\<lambda>gate.
       let (review, ws) = memory_gate (dg_drain env) (dg_review env (ft_name f)) (dg_heads env f) (ft_name f) in
     and_then (build_repos env g ms f (mode_of i) metadata selection) (\<lambda>repos.
       let sorted = sort_key dy_repo repos;
           p = \<lparr>dp_feature = ft_name f, dp_mode = mode_of i, dp_plan_gate = gate,
                dp_repos = order_by_dependencies (map dy_repo sorted) sorted,
                dp_tree_blockers = map tree_blocker_of entries, dp_memory_review = review, dp_fingerprint = []\<rparr> in
     and_then (dg_digest env p) (\<lambda>fp.
     and_then (check_attribution (\<lambda>r. \<lambda>base. \<lambda>branch. dg_messages env g (repo_bare (dg_layout env) r) (branch_str base) (branch_str branch))
                (p\<lparr>dp_fingerprint := fp\<rparr>)) (\<lambda>_.
       Inr (f, p\<lparr>dp_fingerprint := fp\<rparr>, ws)))))"

text \<open>\<open>None\<close> would be the walk over the descendants not returning.\<close>

definition preflight_and_resolve ::
    "'g deliver_env \<Rightarrow> manifest_repo list \<Rightarrow> 'g \<Rightarrow> hall \<Rightarrow> deliver_input \<Rightarrow>
     (failure + feature \<times> delivery_preview \<times> warning list) option" where
  "preflight_and_resolve env ms g m i =
     (case delivered_feature env m i of
        Inl e \<Rightarrow> Some (Inl e)
      | Inr (f, selection, metadata, fs) \<Rightarrow>
          map_option (\<lambda>r. and_then r (finish_preview env g ms i f selection metadata))
            (blocking_descendants (reads_at env g) fs f))"

end
