(* ===== verification/Deliver_Apply.thy ===== *)
theory Deliver_Apply
  imports Deliver
begin

text \<open>
  Applying a delivery: \<open>push.rs\<close>, \<open>events.rs\<close> and the second half of \<open>mod.rs\<close> of
  \<open>src/src/action/feature/deliver\<close>.
\<close>

section \<open>The outcome\<close>

record pull_request_ref =
  pf_number :: nat
  pf_url :: string
  pf_draft :: bool

record push_result =
  ps_repo :: repo_name
  ps_ok :: bool
  ps_detail :: "string option"
  ps_pr :: "pull_request_ref option"
  ps_fix :: "fix_action option"

record repo_check_result =
  rc_repo :: repo_name
  rc_passed :: bool
  rc_results :: "verification_result list"

record deliver_outcome =
  dt_root :: string
  dt_preview :: delivery_preview
  dt_blockers :: "string list"
  dt_apply_command :: "string option"
  dt_pushes :: "push_result list"
  dt_land :: "land_result list"
  dt_checks :: "repo_check_result list"

type_synonym ('g, 'a) deliver_eff = "('g deliver_state, 'a) eff"

section \<open>Events\<close>

definition pr_action :: "delivery_repo \<Rightarrow> string" where
  "pr_action r =
     (if dy_draft r = Some ConvertToDraft then ''convert-to-draft''
      else if dy_action r = NewPr then ''new'' else ''update'')"

definition repo_scope :: "'g deliver_env \<Rightarrow> feature \<Rightarrow> repo_name \<Rightarrow> 'g \<Rightarrow> delivery_scope" where
  "repo_scope env f repo g =
     scope_for_repo f (repo_str repo)
       (case g_head_commit (dg_git env) g (repo_worktree (dg_layout env) repo (ft_branch f)) of Inr h \<Rightarrow> h | Inl _ \<Rightarrow> [])"

definition tell :: "(delivery_scope \<times> delivery_event) list \<Rightarrow> 'g deliver_state \<Rightarrow> 'g deliver_state" where
  "tell es s = s\<lparr>dw_events := dw_events s @ es\<rparr>"

definition checks_event :: "repo_check_result \<Rightarrow> delivery_event" where
  "checks_event c = EvChecks (rc_passed c) (map vr_command (filter (\<lambda>r. \<not> vr_success r) (rc_results c)))"

definition emit_repo_pushed :: "'g deliver_env \<Rightarrow> feature \<Rightarrow> delivery_repo \<Rightarrow> repo_check_result \<Rightarrow> push_result \<Rightarrow> 'g deliver_state \<Rightarrow> 'g deliver_state" where
  "emit_repo_pushed env f r c p s =
     (let scope = repo_scope env f (dy_repo r) (dw_git s)
      in tell [(scope, checks_event c), (scope, EvPushed (ps_ok p) (ps_detail p) (branch_str (dy_base_branch r)))] s)"

definition emit_pr_opened :: "'g deliver_env \<Rightarrow> feature \<Rightarrow> delivery_repo \<Rightarrow> pull_request_ref \<Rightarrow> 'g deliver_state \<Rightarrow> 'g deliver_state" where
  "emit_pr_opened env f r pr s =
     tell [(repo_scope env f (dy_repo r) (dw_git s), EvPr (pr_action r) (pf_number pr) (pf_url pr) (pf_draft pr))] s"

definition emit_land_outcome :: "'g deliver_env \<Rightarrow> feature \<Rightarrow> land_result list \<Rightarrow> 'g deliver_state \<Rightarrow> 'g deliver_state" where
  "emit_land_outcome env f rs s =
     tell (map (\<lambda>r. (repo_scope env f (ld_repo r) (dw_git s), EvLanded (ld_merged r) (ld_pushed r) (ld_detail r))) rs) s"

definition emit_refused :: "string \<Rightarrow> string option \<Rightarrow> failure \<Rightarrow> 'g deliver_state \<Rightarrow> 'g deliver_state" where
  "emit_refused raw presented e s =
     (case feature_name_new raw of
        Inl _ \<Rightarrow> s
      | Inr n \<Rightarrow> (case bt_get (dw_features s) n of
          None \<Rightarrow> s
        | Some f \<Rightarrow> tell [(scope_for_feature f, EvRefused (fl_code e) [fl_what e] (unwrap_or [] presented))] s))"

section \<open>Checks\<close>

definition checks_for :: "manifest_repo list \<Rightarrow> repo_name \<Rightarrow> string list" where
  "checks_for ms repo = (case declared_repo ms repo of Some m \<Rightarrow> mp_checks m | None \<Rightarrow> [])"

text \<open>\<open>verification::run\<close>; the fingerprint of the commands is not looked at here.\<close>

definition run_repo_checks :: "'g deliver_env \<Rightarrow> manifest_repo list \<Rightarrow> feature \<Rightarrow> repo_name \<Rightarrow> 'g \<Rightarrow> (failure + repo_check_result) \<times> 'g" where
  "run_repo_checks env ms f repo g =
     (let commands = checks_for ms repo in
      case dg_commands_digest env commands of
        Inl e \<Rightarrow> (Inl e, g)
      | Inr _ \<Rightarrow>
          (case run_commands (dg_exec env) (repo_worktree (dg_layout env) repo (ft_branch f)) commands g of
             (rs, g') \<Rightarrow> (Inr \<lparr>rc_repo = repo, rc_passed = list_all vr_success rs, rc_results = rs\<rparr>, g')))"

definition land_checks_failed :: "repo_name \<Rightarrow> failure" where
  "land_checks_failed repo =
     with_fix (fix_safe ''deliver.fix_checks'' (''Fix the failing verification checks in '' @ quoted (repo_str repo) @ '' before landing.''))
       (with_actual (''verification checks failed in '' @ quoted (repo_str repo))
         (with_expected ''all verification checks to pass before landing''
           (blocked ''deliver.checks_failed'' (''verification checks failed for repo '' @ quoted (repo_str repo)))))"

fun run_land_checks ::
    "'g deliver_env \<Rightarrow> manifest_repo list \<Rightarrow> feature \<Rightarrow> delivery_repo list \<Rightarrow> ('g, repo_check_result list) deliver_eff" where
  "run_land_checks env ms f [] s = (Inr [], s)"
| "run_land_checks env ms f (r # rs) s =
     (case run_repo_checks env ms f (dy_repo r) (dw_git s) of
        (Inl e, g) \<Rightarrow> (Inl e, s\<lparr>dw_git := g\<rparr>)
      | (Inr c, g) \<Rightarrow>
          (let s1 = tell [(repo_scope env f (dy_repo r) g, checks_event c)] (s\<lparr>dw_git := g\<rparr>)
           in if \<not> rc_passed c then (Inl (land_checks_failed (dy_repo r)), s1)
              else (case run_land_checks env ms f rs s1 of (x, s2) \<Rightarrow> (map_sum id ((#) c) x, s2))))"

section \<open>Pushing\<close>

definition branch_not_materialised :: "delivery_repo \<Rightarrow> failure" where
  "branch_not_materialised r =
     with_fix (fix_safe ''deliver.promote_first''
         (''Promote '' @ quoted (repo_str (dy_repo r)) @ '' into the feature first, then deliver again.''))
       (with_actual ''the branch is not there'' (with_expected (''the feature branch to exist in the repo'' @ [CHR 0x27] @ ''s bare clone'')
         (blocked ''deliver.branch_not_materialised''
           (quoted (repo_str (dy_repo r)) @ '' has no '' @ quoted (branch_str (dy_local_branch r)) @ '' branch to push''))))"

definition push_repo :: "'g land_git \<Rightarrow> string \<Rightarrow> delivery_repo \<Rightarrow> 'g \<Rightarrow> (failure + unit) \<times> 'g" where
  "push_repo git bare r g =
     (case g_list_branches git g bare of
        Inl e \<Rightarrow> (Inl (git_failure e), g)
      | Inr branches \<Rightarrow>
          if branch_str (dy_local_branch r) \<notin> set branches then (Inl (branch_not_materialised r), g)
          else (case g_push git bare (dy_remote r) (branch_str (dy_local_branch r)) (''refs/heads/'' @ branch_str (dy_local_branch r)) g of
                  (x, g') \<Rightarrow> (map_sum git_failure id x, g')))"

definition rejected_as_non_fast_forward :: "failure \<Rightarrow> bool" where
  "rejected_as_non_fast_forward e =
     (let text = unwrap_or (fl_what e) (fl_actual e) in
      contains_str ''non-fast-forward'' text \<or> contains_str ''fetch first'' text \<or> contains_str ''Updates were rejected'' text)"

definition force_with_lease_fix :: "'g land_git \<Rightarrow> 'g \<Rightarrow> string \<Rightarrow> delivery_repo \<Rightarrow> fix_action" where
  "force_with_lease_fix git g bare r =
     (let branch = branch_str (dy_local_branch r); remote = remote_branch r branch;
          lease_ref = (if dy_ref_prefix r \<noteq> None then ''refs/heads/'' @ remote else branch);
          lease = ''--force-with-lease='' @ lease_ref
            @ (case g_remote_branch_tip git g bare (dy_remote r) branch of Inr (Some tip) \<Rightarrow> '':'' @ tip | _ \<Rightarrow> [])
      in fix_command (''git --git-dir '' @ bare @ '' push '' @ lease @ '' '' @ dy_remote r @ '' '' @ branch @ '':refs/heads/'' @ remote)
           (fix_unsafe ''deliver.force_with_lease''
             (''Review what '' @ quoted (dy_remote r) @ '' already holds on '' @ quoted remote @ '' '' @ em_dash
              @ '' this replaces it. Then push it by hand.'')))"

definition failed_push :: "delivery_repo \<Rightarrow> string \<Rightarrow> fix_action option \<Rightarrow> push_result" where
  "failed_push r detail fx = \<lparr>ps_repo = dy_repo r, ps_ok = False, ps_detail = Some detail, ps_pr = None, ps_fix = fx\<rparr>"

definition check_and_push_one ::
    "'g deliver_env \<Rightarrow> manifest_repo list \<Rightarrow> feature \<Rightarrow> delivery_repo \<Rightarrow> 'g \<Rightarrow>
     (failure + push_result \<times> repo_check_result \<times> warning list) \<times> 'g" where
  "check_and_push_one env ms f r g =
     (case run_repo_checks env ms f (dy_repo r) g of
        (Inl e, g1) \<Rightarrow> (Inl e, g1)
      | (Inr c, g1) \<Rightarrow>
          if \<not> rc_passed c then
            (Inr (failed_push r ''root checks failed'' None, c,
               [warning_new ''deliver.checks_failed'' (repo_str (dy_repo r)) ''root checks failed; this repo was not pushed'']), g1)
          else
            (let bare = repo_bare (dg_layout env) (dy_repo r) in
             case push_repo (dg_git env) bare r g1 of
               (Inr _, g2) \<Rightarrow> (Inr (\<lparr>ps_repo = dy_repo r, ps_ok = True, ps_detail = None, ps_pr = None, ps_fix = None\<rparr>, c, []), g2)
             | (Inl e, g2) \<Rightarrow>
                 (let (detail, fx) =
                    (if rejected_as_non_fast_forward e
                     then (''push rejected: the remote branch carries commits this branch does not'',
                           Some (force_with_lease_fix (dg_git env) g2 bare r))
                     else (fl_what e, None))
                  in (Inr (failed_push r detail fx, c, [warning_new ''deliver.push_failed'' (repo_str (dy_repo r)) detail]), g2))))"

text \<open>The first phase: each repository is checked, pushed and told about in turn.\<close>

fun push_phase ::
    "'g deliver_env \<Rightarrow> manifest_repo list \<Rightarrow> feature \<Rightarrow> delivery_repo list \<Rightarrow>
     ('g, push_result list \<times> repo_check_result list \<times> warning list) deliver_eff" where
  "push_phase env ms f [] s = (Inr ([], [], []), s)"
| "push_phase env ms f (r # rs) s =
     (case check_and_push_one env ms f r (dw_git s) of
        (Inl e, g) \<Rightarrow> (Inl e, s\<lparr>dw_git := g\<rparr>)
      | (Inr (p, c, ws), g) \<Rightarrow>
          (case push_phase env ms f rs (emit_repo_pushed env f r c p (s\<lparr>dw_git := g\<rparr>)) of
             (x, s') \<Rightarrow> (map_sum id (\<lambda>(ps, cs, ws'). (p # ps, c # cs, ws @ ws')) x, s')))"

section \<open>Pull requests\<close>

definition check_pr_base :: "'g land_git \<Rightarrow> 'g \<Rightarrow> manifest_repo list \<Rightarrow> string \<Rightarrow> feature_name \<Rightarrow> delivery_repo \<Rightarrow> failure option" where
  "check_pr_base git g ms bare n r =
     (case declared_repo ms (dy_repo r) of
        None \<Rightarrow> None
      | Some m \<Rightarrow>
          (let tip = map_sum (\<lambda>_. ()) id (g_remote_branch_tip git g bare (dy_remote r) (branch_str (dy_base_branch r)));
               secondary =
                 (case tip of
                    Inl _ \<Rightarrow> Inr False
                  | Inr None \<Rightarrow> map_sum (\<lambda>_. ()) id
                      (g_is_ancestor git g bare (branch_str (dy_base_branch r)) (branch_str (mp_default_branch m)))
                  | Inr (Some t) \<Rightarrow> map_sum (\<lambda>_. ()) id (g_is_ancestor git g bare t (branch_str (dy_local_branch r))))
           in check_base r n tip secondary (mp_default_branch m)))"

text \<open>Only for an action that opens or updates a pull request; the flag is whether it existed.\<close>

definition open_or_update_pr :: "'g forge \<Rightarrow> string \<Rightarrow> feature_name \<Rightarrow> delivery_repo \<Rightarrow> 'g \<Rightarrow> ((failure + pull_request) \<times> bool) \<times> 'g" where
  "open_or_update_pr fo bare n r g =
     (let create = (\<lambda>g. case create_pull_request fo bare (dy_local_branch r) (dy_base_branch r) n (dy_pr_title r) (dy_pr_body r)
                          (dy_draft r \<noteq> None) g of (x, g') \<Rightarrow> ((x, False), g'))
      in if dy_action r = UpdatePr then
           (case existing_pr fo g bare (branch_str (dy_local_branch r)) of
              Inl e \<Rightarrow> ((Inl e, False), g)
            | Inr None \<Rightarrow> create g
            | Inr (Some pr) \<Rightarrow>
                (case edit_pull_request fo bare (pq_url pr) (dy_pr_title r) (dy_pr_body r) g of
                   (x, g') \<Rightarrow> ((map_sum id (\<lambda>_. pr) x, True), g')))
         else create g)"

fun update_first :: "('a \<Rightarrow> bool) \<Rightarrow> ('a \<Rightarrow> 'a) \<Rightarrow> 'a list \<Rightarrow> 'a list" where
  "update_first P f [] = []"
| "update_first P f (x # xs) = (if P x then f x # xs else x # update_first P f xs)"

definition pushed_ok :: "push_result list \<Rightarrow> repo_name \<Rightarrow> bool" where
  "pushed_ok ps repo \<longleftrightarrow> list_ex (\<lambda>p. ps_repo p = repo \<and> ps_ok p) ps"

definition no_pull_request :: "failure \<Rightarrow> push_result \<Rightarrow> push_result" where
  "no_pull_request e p =
     p\<lparr>ps_detail := Some (''no pull request: '' @ fl_what e),
       ps_fix := (case fl_fix_actions e of [] \<Rightarrow> None | a # _ \<Rightarrow> Some a)\<rparr>"

type_synonym pr_row = "(repo_name \<times> (failure + pull_request)) option"

definition create_pr_for_repo ::
    "'g deliver_env \<Rightarrow> manifest_repo list \<Rightarrow> feature_name \<Rightarrow> delivery_repo \<Rightarrow> push_result list \<Rightarrow> 'g \<Rightarrow>
     (pr_row \<times> push_result list \<times> warning list) \<times> 'g" where
  "create_pr_for_repo env ms n r pushes g =
     (if dy_action r \<in> {PushOnly, LandOnDefault} \<or> \<not> pushed_ok pushes (dy_repo r) then ((None, pushes, []), g)
      else
        (let bare = repo_bare (dg_layout env) (dy_repo r); name = repo_str (dy_repo r) in
         case check_pr_base (dg_git env) g ms bare n r of
           Some e \<Rightarrow>
             ((None, update_first (\<lambda>p. ps_repo p = dy_repo r) (no_pull_request e) pushes,
               [warning_new (fl_code e) name (fl_what e)]), g)
         | None \<Rightarrow>
             (case open_or_update_pr (dg_forge env) bare n r g of
                ((Inr pr, True), g1) \<Rightarrow>
                  if dy_draft r = Some ConvertToDraft then
                    (case convert_to_draft (dg_forge env) bare (pq_url pr) g1 of
                       (Inr _, g2) \<Rightarrow> ((Some (dy_repo r, Inr (pr\<lparr>pq_is_draft := True\<rparr>)), pushes, []), g2)
                     | (Inl e, g2) \<Rightarrow>
                         ((Some (dy_repo r, Inr pr), pushes,
                           [warning_new ''deliver.pr_draft_conversion_failed'' name (fl_code e @ '': '' @ fl_what e)]), g2))
                  else ((Some (dy_repo r, Inr pr), pushes, []), g1)
              | ((x, _), g1) \<Rightarrow> ((Some (dy_repo r, x), pushes, []), g1))))"

fun pr_phase ::
    "'g deliver_env \<Rightarrow> manifest_repo list \<Rightarrow> feature_name \<Rightarrow> delivery_repo list \<Rightarrow> push_result list \<Rightarrow> 'g \<Rightarrow>
     ((repo_name \<times> (failure + pull_request)) list \<times> push_result list \<times> warning list) \<times> 'g" where
  "pr_phase env ms n [] pushes g = (([], pushes, []), g)"
| "pr_phase env ms n (r # rs) pushes g =
     (case create_pr_for_repo env ms n r pushes g of
        ((row, pushes1, ws), g1) \<Rightarrow>
          (case pr_phase env ms n rs pushes1 g1 of
             ((rows, pushes2, ws'), g2) \<Rightarrow>
               (((case row of None \<Rightarrow> rows | Some x \<Rightarrow> x # rows), pushes2, ws @ ws'), g2)))"

definition ref_of :: "pull_request \<Rightarrow> pull_request_ref" where
  "ref_of pr = \<lparr>pf_number = pq_number pr, pf_url = pq_url pr, pf_draft = pq_is_draft pr\<rparr>"

fun settle_prs ::
    "'g deliver_env \<Rightarrow> feature \<Rightarrow> delivery_preview \<Rightarrow> (repo_name \<times> (failure + pull_request)) list \<Rightarrow> push_result list \<Rightarrow>
     'g deliver_state \<Rightarrow> (push_result list \<times> (repo_name, string) btree \<times> warning list) \<times> 'g deliver_state" where
  "settle_prs env f p [] pushes s = ((pushes, bt_empty, []), s)"
| "settle_prs env f p ((repo, Inr pr) # rows) pushes s =
     (let there = list_ex (\<lambda>x. ps_repo x = repo) pushes;
          s1 = (if there then (case find (\<lambda>r. dy_repo r = repo) (dp_repos p) of
                  Some r \<Rightarrow> emit_pr_opened env f r (ref_of pr) s | None \<Rightarrow> s) else s);
          pushes1 = update_first (\<lambda>x. ps_repo x = repo) (\<lambda>x. x\<lparr>ps_pr := Some (ref_of pr)\<rparr>) pushes
      in case settle_prs env f p rows pushes1 s1 of
           ((pushes2, urls, ws), s2) \<Rightarrow>
             ((pushes2, (if bt_contains urls repo then urls else bt_insert repo (pq_url pr) urls), ws), s2))"
| "settle_prs env f p ((repo, Inl e) # rows) pushes s =
     (case settle_prs env f p rows pushes s of
        ((pushes2, urls, ws), s2) \<Rightarrow>
          ((pushes2, urls, warning_new ''deliver.pr_create_failed'' (repo_str repo) (fl_what e) # ws), s2))"

definition with_pr_url :: "repo_name \<times> string \<Rightarrow> feature \<Rightarrow> feature" where
  "with_pr_url x f =
     (case x of (repo, url) \<Rightarrow>
       (case bt_get (ft_promotions f) repo of
          None \<Rightarrow> f
        | Some p \<Rightarrow> f\<lparr>ft_promotions := bt_insert repo (p\<lparr>pr_pr_url := Some url\<rparr>) (ft_promotions f)\<rparr>))"

definition remember_pull_requests :: "feature_name \<Rightarrow> (repo_name, string) btree \<Rightarrow> hall \<Rightarrow> (failure + unit) \<times> hall" where
  "remember_pull_requests n urls m = update_feature n (\<lambda>f. Inr (fold with_pr_url urls f)) m"

definition links_siblings :: "delivery_preview \<Rightarrow> feature \<Rightarrow> bool" where
  "links_siblings p f \<longleftrightarrow> length (dp_repos p) = length (ft_promotions f)"

definition execute_with ::
    "'g deliver_env \<Rightarrow> manifest_repo list \<Rightarrow> feature \<Rightarrow> delivery_preview \<Rightarrow> ('g, deliver_outcome \<times> warning list) deliver_eff" where
  "execute_with env ms f p s =
     (case push_phase env ms f (dp_repos p) s of
        (Inl e, s1) \<Rightarrow> (Inl e, s1)
      | (Inr (pushes, checks, w1), s1) \<Rightarrow>
          (case pr_phase env ms (ft_name f) (dp_repos p) pushes (dw_git s1) of
             ((rows, pushes1, w2), g) \<Rightarrow>
               (case settle_prs env f p rows pushes1 (s1\<lparr>dw_git := g\<rparr>) of
                  ((pushes2, urls, w3), s2) \<Rightarrow>
                    (let (w4, m) =
                       (if urls = bt_empty then ([], dw_features s2)
                        else (case remember_pull_requests (ft_name f) urls (dw_features s2) of
                                (Inr _, m) \<Rightarrow> ([], m)
                              | (Inl e, m) \<Rightarrow> ([warning_new ''deliver.pr_url_not_saved'' (feature_str (ft_name f)) (fl_what e)], m)));
                         g' = (if urls \<noteq> bt_empty \<and> links_siblings p f
                               then link_sibling_prs (dg_forge env) (dg_cwd env) (map snd urls) (dw_git s2) else dw_git s2);
                         repos = map (\<lambda>r. case bt_get urls (dy_repo r) of Some u \<Rightarrow> r\<lparr>dy_pr_url := Some u\<rparr> | None \<Rightarrow> r) (dp_repos p)
                     in (Inr (\<lparr>dt_root = lay_root (dg_layout env), dt_preview = p\<lparr>dp_repos := repos\<rparr>, dt_blockers = [],
                               dt_apply_command = None, dt_pushes = pushes2, dt_land = [], dt_checks = checks\<rparr>,
                              w1 @ w2 @ w3 @ w4), s2\<lparr>dw_features := m, dw_git := g'\<rparr>)))))"

section \<open>Deliver\<close>

definition descendants_block :: "feature_name \<Rightarrow> delivery_tree_blocker list \<Rightarrow> failure" where
  "descendants_block n bs =
     with_fix (fix_safe ''deliver.integrate_leaves_first'' ''Integrate the blocking descendants first, leaves first.'')
       (with_actual (join '', '' (map (\<lambda>b. feature_str (tb_feature b) @ '' ('' @ integration_state_display (tb_state b) @ '')'') bs))
         (with_expected ''every descendant to be integrated, verified, or abandoned''
           (blocked ''deliver.descendants_block''
             (''cannot deliver '' @ quoted (feature_str n) @ '': '' @ show_nat (length bs) @ '' descendant(s) still block''))))"

text \<open>What an apply refuses after the preview, in the order of the code.\<close>

definition refuse_apply :: "'g deliver_env \<Rightarrow> deliver_input \<Rightarrow> bool \<Rightarrow> delivery_preview \<Rightarrow> failure + unit" where
  "refuse_apply env i skipping p =
     (let n = dp_feature p in
      if dp_tree_blockers p \<noteq> [] then Inl (descendants_block n (dp_tree_blockers p))
      else if dp_plan_gate p \<noteq> Approved then Inl (delivery_plan_refused n (dp_plan_gate p) (dg_plan_written env n))
      else if dp_memory_review p = MemoryMissing \<and> \<not> skipping then Inl (memory_not_reviewed n)
      else check_fingerprint n (dn_fingerprint i) (dp_fingerprint p))"

definition record_skip :: "deliver_input \<Rightarrow> delivery_preview \<Rightarrow> 'g deliver_state \<Rightarrow> 'g deliver_state" where
  "record_skip i p s =
     (case dn_skip_review i of
        Some reason \<Rightarrow> if dp_memory_review p = MemoryMissing then s\<lparr>dw_skips := dw_skips s @ [(dp_feature p, reason)]\<rparr> else s
      | None \<Rightarrow> s)"

definition apply_land ::
    "'g deliver_env \<Rightarrow> manifest_repo list \<Rightarrow> deliver_input \<Rightarrow> bool \<Rightarrow> feature \<Rightarrow> delivery_preview \<Rightarrow> warning list \<Rightarrow>
     ('g, deliver_outcome \<times> warning list) deliver_eff" where
  "apply_land env ms i skipping f p mws s =
     (case land_preflight (dg_git env) (dg_layout env) (dw_git s) f p of
        Inl e \<Rightarrow> (Inl e, s)
      | Inr plans \<Rightarrow>
          (case refuse_blockers (ft_name f) p skipping of
             Inl e \<Rightarrow> (Inl e, s)
           | Inr _ \<Rightarrow>
               (case run_land_checks env ms f (dp_repos p) s of
                  (Inl e, s1) \<Rightarrow> (Inl e, s1)
                | (Inr checks, s1) \<Rightarrow>
                    (case land_execute (dg_git env) (dg_layout env) plans (dw_git s1, dw_modes s1) of
                       (Inl e, g, md) \<Rightarrow> (Inl e, s1\<lparr>dw_git := g, dw_modes := md\<rparr>)
                     | (Inr (rs, ws), g, md) \<Rightarrow>
                         (Inr (\<lparr>dt_root = lay_root (dg_layout env), dt_preview = p, dt_blockers = [], dt_apply_command = None,
                                dt_pushes = [], dt_land = rs, dt_checks = checks\<rparr>, mws @ ws),
                          record_skip i p (emit_land_outcome env f rs (s1\<lparr>dw_git := g, dw_modes := md\<rparr>)))))))"

definition apply_push ::
    "'g deliver_env \<Rightarrow> manifest_repo list \<Rightarrow> deliver_input \<Rightarrow> bool \<Rightarrow> feature \<Rightarrow> delivery_preview \<Rightarrow> warning list \<Rightarrow>
     ('g, deliver_outcome \<times> warning list) deliver_eff" where
  "apply_push env ms i skipping f p mws s =
     (case refuse_blockers (ft_name f) p skipping of
        Inl e \<Rightarrow> (Inl e, s)
      | Inr _ \<Rightarrow>
          (case execute_with env ms f p s of
             (Inl e, s1) \<Rightarrow> (Inl e, s1)
           | (Inr (out, ws), s1) \<Rightarrow> (Inr (out, mws @ ws), record_skip i p s1)))"

definition deliver_run ::
    "'g deliver_env \<Rightarrow> deliver_input \<Rightarrow> 'g deliver_state \<Rightarrow>
     ((failure + deliver_outcome \<times> warning list) \<times> 'g deliver_state) option" where
  "deliver_run env i s =
     (case and_then (dg_manifest env) (\<lambda>ms. and_then (check_skip i) (\<lambda>skipping. Inr (ms, skipping))) of
        Inl e \<Rightarrow> Some (Inl e, s)
      | Inr (ms, skipping) \<Rightarrow>
          (case preflight_and_resolve env ms (dw_git s) (dw_features s) i of
             None \<Rightarrow> None
           | Some (Inl e) \<Rightarrow> Some (Inl e, s)
           | Some (Inr (f, p, mws)) \<Rightarrow>
               Some (if dn_preview i then
                       (Inr (\<lparr>dt_root = lay_root (dg_layout env), dt_preview = p, dt_blockers = delivery_blockers p False,
                              dt_apply_command = Some (apply_command i (dp_fingerprint p)), dt_pushes = [], dt_land = [],
                              dt_checks = []\<rparr>, mws), s)
                     else (case refuse_apply env i skipping p of
                             Inl e \<Rightarrow> (Inl e, s)
                           | Inr _ \<Rightarrow> if dn_land i then apply_land env ms i skipping f p mws s
                                      else apply_push env ms i skipping f p mws s))))"

definition deliver ::
    "'g deliver_env \<Rightarrow> deliver_input \<Rightarrow> 'g deliver_state \<Rightarrow>
     ((failure + deliver_outcome \<times> warning list) \<times> 'g deliver_state) option" where
  "deliver env i s =
     map_option (\<lambda>(r, s'). (r, case r of
         Inl e \<Rightarrow> if dn_preview i then s' else emit_refused (dn_feature i) (dn_fingerprint i) e s'
       | Inr _ \<Rightarrow> s')) (deliver_run env i s)"

end
