(* ===== verification/Land_Safety.thy ===== *)
theory Land_Safety
  imports Land
begin

text \<open>
  Landing moves every default branch or none, and leaves the read-only guards as they were.
  What is relied on of git is stated about the commit each worktree is at.
\<close>

section \<open>The guard puts itself back\<close>

text \<open>The modes \<open>s\<close> are those of \<open>s0\<close> with the paths of the guard made writable.\<close>

definition lifted_over :: "lifted_guard \<Rightarrow> path_modes \<Rightarrow> path_modes \<Rightarrow> bool" where
  "lifted_over g s s0 \<longleftrightarrow> distinct (map fst g)
     \<and> md_stat_error s = md_stat_error s0 \<and> md_chmod_error s = md_chmod_error s0
     \<and> (\<forall>p. p \<notin> fst ` set g \<longrightarrow> md_mode s p = md_mode s0 p)
     \<and> (\<forall>(p, m) \<in> set g. md_mode s0 p = Some m \<and> md_chmod_error s0 p = None
          \<and> (\<exists>m'. md_mode s p = Some m' \<and> m' AND NOT permission_bits = m AND NOT permission_bits \<and> m' AND write_bits \<noteq> 0))"

lemma new_mode_back: "m' AND NOT permission_bits = m AND NOT permission_bits \<Longrightarrow> new_mode m' m = m"
  unfolding new_mode_def by (simp add: bit_eq_iff bit_simps) blast

lemma new_mode_type: "new_mode m x AND NOT permission_bits = m AND NOT permission_bits"
  unfolding new_mode_def by (simp add: bit_eq_iff bit_simps) blast

lemma new_mode_writable: "new_mode m (m OR owner_write) AND write_bits \<noteq> 0"
proof
  assume "new_mode m (m OR owner_write) AND write_bits = 0"
  then have "\<not> bit (new_mode m (m OR owner_write) AND write_bits) 7" by simp
  moreover have "bit owner_write 7" "bit write_bits 7" "bit permission_bits 7"
    by (simp_all add: owner_write_def write_bits_def permission_bits_def bit_numeral_rec)
  ultimately show False by (simp add: new_mode_def bit_simps)
qed

lemma drop_restores: "lifted_over g s s0 \<Longrightarrow> drop_guard g s = s0"
proof (induction g arbitrary: s)
  case Nil
  then show ?case by (auto simp: lifted_over_def intro!: path_modes.equality ext)
next
  case (Cons x g)
  obtain p m where x: "x = (p, m)" by (rule prod.exhaust)
  from Cons.prems obtain m' where p: "md_mode s0 p = Some m" "md_chmod_error s p = None" "md_mode s p = Some m'"
      "m' AND NOT permission_bits = m AND NOT permission_bits" "p \<notin> fst ` set g"
    unfolding lifted_over_def x by auto
  have step: "snd (chmod p m s) = s\<lparr>md_mode := (md_mode s)(p \<mapsto> m)\<rparr>"
    using p by (simp add: chmod_def new_mode_back)
  have "lifted_over g (s\<lparr>md_mode := (md_mode s)(p \<mapsto> m)\<rparr>) s0"
    using Cons.prems p(1,5) unfolding lifted_over_def x by force
  from Cons.IH [OF this] show ?case using x step by simp
qed

lemma lift_step:
  assumes "lifted_over g s s0" and m: "md_mode s p = Some m" "m AND write_bits = 0" and run: "restore_write_bits p s = (r, s')"
    and stat: "md_stat_error s p = None"
  shows "case r of Inl _ \<Rightarrow> s' = s | Inr _ \<Rightarrow> lifted_over (g @ [(p, m)]) s' s0"
proof (cases "md_chmod_error s p")
  case (Some e)
  then show ?thesis using run m stat by (auto simp: restore_write_bits_def unix_mode_def chmod_def)
next
  case None
  then have r: "r = Inr ()" "s' = s\<lparr>md_mode := (md_mode s)(p \<mapsto> new_mode m (m OR owner_write))\<rparr>"
    using run m stat by (auto simp: restore_write_bits_def unix_mode_def chmod_def)
  have p: "p \<notin> fst ` set g"
  proof
    assume "p \<in> fst ` set g"
    with assms(1) obtain m' where "md_mode s p = Some m'" "m' AND write_bits \<noteq> 0" unfolding lifted_over_def by force
    with m show False by simp
  qed
  have new: "new_mode m (m OR owner_write) AND NOT permission_bits = m AND NOT permission_bits" by (rule new_mode_type)
  have "md_mode s0 p = Some m" "md_chmod_error s0 p = None" using assms(1) p m None unfolding lifted_over_def by auto
  then have "lifted_over (g @ [(p, m)]) s' s0"
    using assms(1) p new new_mode_writable [of m] unfolding lifted_over_def r(2) by (auto simp: case_prod_beta) (force+)?
  then show ?thesis using r(1) by simp
qed

lemma lift_from_over:
  "lifted_over g s s0 \<Longrightarrow> case lift_from g ps s of (Inl _, s') \<Rightarrow> s' = s0 | (Inr held, s') \<Rightarrow> lifted_over held s' s0"
proof (induction ps arbitrary: g s)
  case Nil
  then show ?case by simp
next
  case (Cons p ps)
  show ?case
  proof (cases "unix_mode p s")
    case (Inl e)
    then show ?thesis using drop_restores [OF Cons.prems] by simp
  next
    case (Inr mode)
    show ?thesis
    proof (cases "\<exists>m. mode = Some m \<and> m AND write_bits = 0")
      case False
      then show ?thesis using Inr Cons by (cases mode) auto
    next
      case True
      then obtain m where m: "mode = Some m" "m AND write_bits = 0" by blast
      have s: "md_mode s p = Some m" "md_stat_error s p = None"
        using Inr m by (auto simp: unix_mode_def split: option.splits)
      obtain r s' where run: "restore_write_bits p s = (r, s')" by fastforce
      note step = lift_step [OF Cons.prems s(1) m(2) run s(2)]
      show ?thesis
      proof (cases r)
        case (Inl e)
        then show ?thesis using step m run Inr \<open>unix_mode p s = Inr mode\<close> drop_restores [OF Cons.prems] by simp
      next
        case (Inr u)
        then have "lifted_over (g @ [(p, m)]) s' s0" using step by simp
        from Cons.IH [OF this] show ?thesis using m run Inr \<open>unix_mode p s = Inr mode\<close> by simp
      qed
    qed
  qed
qed

lemma lift_guard_over: "case lift_guard ps s of (Inl _, s') \<Rightarrow> s' = s | (Inr held, s') \<Rightarrow> drop_guard held s' = s"
proof -
  have "lifted_over [] s s" by (simp add: lifted_over_def)
  from lift_from_over [OF this, of ps] show ?thesis
    unfolding lift_guard_def by (auto simp: drop_restores split: sum.splits prod.splits)
qed

section \<open>What is relied on of git\<close>

definition is_commit :: "'g land_git \<Rightarrow> string \<Rightarrow> bool" where
  "is_commit git c \<longleftrightarrow> (\<exists>g bare rev. g_revision_commit git g bare rev = Inr c)"

text \<open>
  The laws are about the commit each worktree is at.  \<open>anc a b\<close> says that commit \<open>a\<close> is \<open>b\<close> or
  an ancestor of it, and \<open>owner\<close> gives the bare repository of a worktree.  A fast-forward that
  succeeds ends at the commit when that is ahead, and leaves a worktree that contains the
  commit already; one that is refused moves nothing; neither moves another worktree or a
  revision of another repository.  A reset to a commit the worktree was once at ends there; a
  push moves no worktree; and the answer to \<open>--is-ancestor\<close> is about the commits.
\<close>

definition land_laws :: "'g land_git \<Rightarrow> (string \<Rightarrow> string \<Rightarrow> bool) \<Rightarrow> (string \<Rightarrow> string) \<Rightarrow> bool" where
  "land_laws git anc owner \<longleftrightarrow>
     (\<forall>w c g r g'. g_fast_forward_to git w c g = (r, g') \<longrightarrow>
        (\<forall>v. v \<noteq> w \<or> r \<noteq> Inr () \<longrightarrow> g_head_commit git g' v = g_head_commit git g v)
        \<and> (\<forall>bare rev. bare \<noteq> owner w \<longrightarrow> g_revision_commit git g' bare rev = g_revision_commit git g bare rev)
        \<and> (\<forall>h. is_commit git c \<longrightarrow> r = Inr () \<longrightarrow> g_head_commit git g w = Inr h \<longrightarrow>
             (if anc h c then g_head_commit git g' w = Inr c else anc c h \<and> g_head_commit git g' w = Inr h)))
     \<and> (\<forall>w c g0 g r g'. g_head_commit git g0 w = Inr c \<longrightarrow> g_reset_hard git w c g = (r, g') \<longrightarrow>
        (\<forall>v. v \<noteq> w \<longrightarrow> g_head_commit git g' v = g_head_commit git g v)
        \<and> (r = Inr () \<longrightarrow> g_head_commit git g' w = Inr c))
     \<and> (\<forall>bare url a b g r g'. g_push git bare url a b g = (r, g') \<longrightarrow>
        (\<forall>v. g_head_commit git g' v = g_head_commit git g v))
     \<and> (\<forall>g bare rev c h. g_is_ancestor git g bare rev c = Inr True \<longrightarrow> is_commit git c \<longrightarrow>
        g_revision_commit git g bare rev = Inr h \<longrightarrow> anc h c)"

lemma land_laws_ff:
  assumes "land_laws git anc owner" and "g_fast_forward_to git w c g = (r, g')"
  shows "(\<forall>v. v \<noteq> w \<or> r \<noteq> Inr () \<longrightarrow> g_head_commit git g' v = g_head_commit git g v)
    \<and> (\<forall>bare rev. bare \<noteq> owner w \<longrightarrow> g_revision_commit git g' bare rev = g_revision_commit git g bare rev)
    \<and> (\<forall>h. is_commit git c \<longrightarrow> r = Inr () \<longrightarrow> g_head_commit git g w = Inr h \<longrightarrow>
         (if anc h c then g_head_commit git g' w = Inr c else anc c h \<and> g_head_commit git g' w = Inr h))"
  using assms(1)[unfolded land_laws_def, THEN conjunct1, rule_format, OF assms(2)] by blast

lemma land_laws_reset:
  assumes "land_laws git anc owner" and "g_reset_hard git w c g = (r, g')" and "g_head_commit git g0 w = Inr c"
  shows "(\<forall>v. v \<noteq> w \<longrightarrow> g_head_commit git g' v = g_head_commit git g v) \<and> (r = Inr () \<longrightarrow> g_head_commit git g' w = Inr c)"
  using assms(1)[unfolded land_laws_def, THEN conjunct2, THEN conjunct1, rule_format, OF assms(3,2)] by blast

lemma land_laws_push:
  assumes "land_laws git anc owner" and "g_push git bare url a b g = (r, g')"
  shows "g_head_commit git g' v = g_head_commit git g v"
  using assms(1)[unfolded land_laws_def, THEN conjunct2, THEN conjunct2, THEN conjunct1, rule_format, OF assms(2)] .

lemma land_laws_ancestor:
  assumes "land_laws git anc owner" and "g_is_ancestor git g bare name c = Inr True" and "is_commit git c"
    and "g_revision_commit git g bare name = Inr h"
  shows "anc h c"
  using assms(1)[unfolded land_laws_def, THEN conjunct2, THEN conjunct2, THEN conjunct2, rule_format, OF assms(2-4)] .

section \<open>Merging and rolling back\<close>

text \<open>
  Where a merge ends: at the tip, or where it was when that contains the tip already.  The
  second is excluded when the worktree is at the default branch, which the code asks to be
  behind the tip.
\<close>

definition lands_at :: "'g land_git \<Rightarrow> (string \<Rightarrow> string \<Rightarrow> bool) \<Rightarrow> layout \<Rightarrow> 'g \<Rightarrow> 'g \<Rightarrow> land_plan \<Rightarrow> bool" where
  "lands_at git anc lay g g' p \<longleftrightarrow>
     g_head_commit git g (ln_worktree p) = Inr (ln_original_head p)
     \<and> (g_head_commit git g' (ln_worktree p) = Inr (ln_tip p)
        \<or> g_head_commit git g' (ln_worktree p) = Inr (ln_original_head p)
          \<and> anc (ln_tip p) (ln_original_head p) \<and> \<not> anc (ln_original_head p) (ln_tip p))
     \<and> (g_revision_commit git g (repo_bare lay (ln_repo p)) (branch_str (ln_default_branch p)) = Inr (ln_original_head p)
        \<longrightarrow> g_head_commit git g' (ln_worktree p) = Inr (ln_tip p))"

lemma ff_merge_one_ends:
  assumes laws: "land_laws git anc owner" and run: "ff_merge_one git lay p g = (r, g')" and tip: "is_commit git (ln_tip p)"
  shows "(\<forall>v. v \<noteq> ln_worktree p \<or> r \<noteq> Inr () \<longrightarrow> g_head_commit git g' v = g_head_commit git g v)
    \<and> (\<forall>bare rev. bare \<noteq> owner (ln_worktree p) \<longrightarrow> g_revision_commit git g' bare rev = g_revision_commit git g bare rev)
    \<and> (r = Inr () \<longrightarrow> lands_at git anc lay g g' p)"
proof -
  let ?rev = "branch_str (ln_default_branch p)" and ?bare = "repo_bare lay (ln_repo p)"
  have "(\<exists>e. r = Inl e \<and> g' = g) \<or> (g_is_ancestor git g ?bare ?rev (ln_tip p) = Inr True
      \<and> g_head_commit git g (ln_worktree p) = Inr (ln_original_head p)
      \<and> (\<exists>x. g_fast_forward_to git (ln_worktree p) (ln_tip p) g = (x, g') \<and> (x = Inr () \<longleftrightarrow> r = Inr ())))"
    using run unfolding ff_merge_one_def Let_def
    by (auto split: sum.splits prod.splits if_splits simp: and_then_eq_Inr map_sum_def)
  then show ?thesis
  proof (elim disjE exE conjE)
    fix x
    assume ahead: "g_is_ancestor git g ?bare ?rev (ln_tip p) = Inr True"
      and head: "g_head_commit git g (ln_worktree p) = Inr (ln_original_head p)"
      and ff: "g_fast_forward_to git (ln_worktree p) (ln_tip p) g = (x, g')" and x: "x = Inr () \<longleftrightarrow> r = Inr ()"
    have "anc (ln_original_head p) (ln_tip p)" if "g_revision_commit git g ?bare ?rev = Inr (ln_original_head p)"
      using land_laws_ancestor [OF laws ahead tip that] .
    with land_laws_ff [OF laws ff] head x tip show ?thesis by (auto simp: lands_at_def split: if_splits)
  qed simp
qed

text \<open>The worktrees of \<open>ps\<close> have landed since \<open>g\<close>, and the others have not moved.\<close>

definition merged_from :: "'g land_git \<Rightarrow> (string \<Rightarrow> string \<Rightarrow> bool) \<Rightarrow> layout \<Rightarrow> land_plan list \<Rightarrow> 'g \<Rightarrow> 'g \<Rightarrow> bool" where
  "merged_from git anc lay ps g g' \<longleftrightarrow>
     (\<forall>v. v \<notin> ln_worktree ` set ps \<longrightarrow> g_head_commit git g' v = g_head_commit git g v)
     \<and> (\<forall>p \<in> set ps. lands_at git anc lay g g' p)"

definition merging :: "'g land_git \<Rightarrow> (string \<Rightarrow> string \<Rightarrow> bool) \<Rightarrow> (string \<Rightarrow> string) \<Rightarrow> layout \<Rightarrow> land_plan list \<Rightarrow> 'g \<Rightarrow> 'g \<Rightarrow> bool" where
  "merging git anc owner lay ps g g' \<longleftrightarrow> merged_from git anc lay ps g g'
     \<and> (\<forall>bare rev. bare \<notin> (\<lambda>p. owner (ln_worktree p)) ` set ps \<longrightarrow> g_revision_commit git g' bare rev = g_revision_commit git g bare rev)"

text \<open>The plans are of different repositories, each with a worktree of its own, and their tips are commits.\<close>

definition plans_apart :: "'g land_git \<Rightarrow> (string \<Rightarrow> string) \<Rightarrow> layout \<Rightarrow> land_plan list \<Rightarrow> bool" where
  "plans_apart git owner lay ps \<longleftrightarrow> distinct (map (\<lambda>p. owner (ln_worktree p)) ps)
     \<and> (\<forall>p \<in> set ps. owner (ln_worktree p) = repo_bare lay (ln_repo p) \<and> is_commit git (ln_tip p))"

lemma plans_apart_worktrees: "plans_apart git owner lay ps \<Longrightarrow> distinct (map ln_worktree ps)"
  unfolding plans_apart_def distinct_map by (auto simp: inj_on_def)

lemma merging_snoc:
  assumes before: "merging git anc owner lay earlier g0 g" and one: "lands_at git anc lay g g1 p"
    and heads: "\<forall>v. v \<noteq> ln_worktree p \<longrightarrow> g_head_commit git g1 v = g_head_commit git g v"
    and revs: "\<forall>bare rev. bare \<noteq> owner (ln_worktree p) \<longrightarrow> g_revision_commit git g1 bare rev = g_revision_commit git g bare rev"
    and apart: "plans_apart git owner lay (earlier @ p # ps)"
  shows "merging git anc owner lay (earlier @ [p]) g0 g1"
proof -
  have bare: "repo_bare lay (ln_repo p) = owner (ln_worktree p)" and new: "owner (ln_worktree p) \<notin> (\<lambda>p. owner (ln_worktree p)) ` set earlier"
    using apart by (auto simp: plans_apart_def)
  then have wt: "ln_worktree p \<notin> ln_worktree ` set earlier" by auto
  have "g_revision_commit git g (repo_bare lay (ln_repo p)) x = g_revision_commit git g0 (repo_bare lay (ln_repo p)) x" for x
    using before new unfolding merging_def bare by blast
  moreover have "g_head_commit git g (ln_worktree p) = g_head_commit git g0 (ln_worktree p)"
    using before wt unfolding merging_def merged_from_def by blast
  ultimately have "lands_at git anc lay g0 g1 p" using one by (simp add: lands_at_def)
  moreover have "lands_at git anc lay g0 g1 q" if "q \<in> set earlier" for q
  proof -
    have "ln_worktree q \<noteq> ln_worktree p" using that wt by (metis image_eqI)
    moreover have "lands_at git anc lay g0 g q" using before that unfolding merging_def merged_from_def by blast
    ultimately show ?thesis using heads by (simp add: lands_at_def)
  qed
  ultimately show ?thesis using before heads revs unfolding merging_def merged_from_def by auto
qed

lemma merge_each_from:
  assumes laws: "land_laws git anc owner"
  shows "merging git anc owner lay earlier g0 g \<Longrightarrow> plans_apart git owner lay (earlier @ ps) \<Longrightarrow>
    (case merge_each git lay earlier ps g of
       (None, g') \<Rightarrow> merged_from git anc lay (earlier @ ps) g0 g'
     | (Some (ms, p, e), g') \<Rightarrow> merged_from git anc lay ms g0 g' \<and> distinct (map ln_worktree ms))"
proof (induction ps arbitrary: earlier g)
  case Nil
  then show ?case by (simp add: merging_def)
next
  case (Cons p ps)
  obtain r g1 where run: "ff_merge_one git lay p g = (r, g1)" by fastforce
  have "is_commit git (ln_tip p)" using Cons.prems(2) by (simp add: plans_apart_def)
  note ends = ff_merge_one_ends [OF laws run this]
  show ?case
  proof (cases r)
    case (Inl e)
    have "merged_from git anc lay earlier g0 g1"
      using Cons.prems(1) ends Inl unfolding merging_def merged_from_def lands_at_def by simp
    with run Inl plans_apart_worktrees [OF Cons.prems(2)] show ?thesis by simp
  next
    case (Inr u)
    have next_step: "merge_each git lay earlier (p # ps) g = merge_each git lay (earlier @ [p]) ps g1" using run Inr by simp
    have merged: "merging git anc owner lay (earlier @ [p]) g0 g1"
      by (rule merging_snoc [OF Cons.prems(1) _ _ _ Cons.prems(2)]) (use ends Inr in auto)
    have "plans_apart git owner lay ((earlier @ [p]) @ ps)" using Cons.prems(2) by simp
    from Cons.IH [OF merged this] show ?thesis unfolding next_step append_assoc append_Cons append_Nil .
  qed
qed

text \<open>A rollback without an error puts every merged worktree back.\<close>

lemma rollback_each_back:
  assumes laws: "land_laws git anc owner"
  shows "\<forall>p \<in> set ps. g_head_commit git g0 (ln_worktree p) = Inr (ln_original_head p) \<Longrightarrow> distinct (map ln_worktree ps) \<Longrightarrow>
    rollback_each git ps g = ([], g') \<Longrightarrow>
    (\<forall>v. g_head_commit git g' v = (if v \<in> ln_worktree ` set ps then g_head_commit git g0 v else g_head_commit git g v))"
proof (induction ps arbitrary: g)
  case Nil
  then show ?case by simp
next
  case (Cons p ps)
  obtain r g1 where run: "g_reset_hard git (ln_worktree p) (ln_original_head p) g = (r, g1)" by fastforce
  have r: "r = Inr ()" and rest: "rollback_each git ps g1 = ([], g')"
    using Cons.prems(3) run by (auto split: prod.splits sum.splits)
  have p: "g_head_commit git g0 (ln_worktree p) = Inr (ln_original_head p)" using Cons.prems(1) by simp
  note undo = land_laws_reset [OF laws run p]
  from Cons.IH [OF _ _ rest] Cons.prems(1,2)
  have ih: "g_head_commit git g' v = (if v \<in> ln_worktree ` set ps then g_head_commit git g0 v else g_head_commit git g1 v)" for v
    by simp
  show ?case
  proof
    fix v
    show "g_head_commit git g' v
        = (if v \<in> ln_worktree ` set (p # ps) then g_head_commit git g0 v else g_head_commit git g v)"
      using ih [of v] undo r p by (cases "v = ln_worktree p") simp_all
  qed
qed

lemma push_each_heads:
  assumes laws: "land_laws git anc owner"
  shows "case push_each git lay ps g of ((rs, ws), g') \<Rightarrow>
    (\<forall>v. g_head_commit git g' v = g_head_commit git g v) \<and> map ld_repo rs = map ln_repo ps \<and> list_all ld_merged rs"
proof (induction ps arbitrary: g)
  case Nil
  then show ?case by simp
next
  case (Cons p ps)
  obtain r g1 where run: "g_push git (repo_bare lay (ln_repo p)) (ln_remote p) (branch_str (ln_default_branch p))
      (''refs/heads/'' @ branch_str (ln_default_branch p)) g = (r, g1)" by fastforce
  have "g_head_commit git g1 v = g_head_commit git g v" for v by (rule land_laws_push [OF laws run])
  then show ?case using Cons.IH [of g1] run by (auto split: sum.splits prod.splits)
qed

lemma merge_and_push_ends:
  assumes laws: "land_laws git anc owner" and d: "plans_apart git owner lay ps" and run: "merge_and_push git lay ps g = (r, g')"
  shows "case r of
      Inl e \<Rightarrow> fl_code e = ''deliver.land_rollback_failed'' \<or> (\<forall>v. g_head_commit git g' v = g_head_commit git g v)
    | Inr (rs, ws) \<Rightarrow> map ld_repo rs = map ln_repo ps \<and> list_all ld_merged rs \<and> merged_from git anc lay ps g g'"
proof -
  have start: "merging git anc owner lay [] g g" by (simp add: merging_def merged_from_def)
  obtain failed g1 where merges: "merge_each git lay [] ps g = (failed, g1)" by fastforce
  note ends = merge_each_from [OF laws start, of ps, unfolded merges, simplified, OF d]
  show ?thesis
  proof (cases failed)
    case None
    with ends have from_start: "merged_from git anc lay ps g g1" by simp
    obtain rs ws g2 where pushes: "push_each git lay ps g1 = ((rs, ws), g2)" by (metis prod.exhaust)
    have "r = Inr (rs, ws)" "g' = g2" using run merges None pushes by (simp_all add: merge_and_push_def)
    with push_each_heads [OF laws, where lay = lay and ps = ps and g = g1] pushes from_start show ?thesis by (simp add: merged_from_def lands_at_def)
  next
    case (Some x)
    obtain ms p e where x: "x = (ms, p, e)" by (metis prod.exhaust)
    with ends Some have ms: "merged_from git anc lay ms g g1" "distinct (map ln_worktree ms)" by simp_all
    obtain errors g2 where undo: "rollback_each git ms g1 = (errors, g2)" by fastforce
    have r: "r = Inl (if errors \<noteq> [] then land_rollback_failed p e errors else e)" "g' = g2"
      using run merges Some x undo by (simp_all add: merge_and_push_def rollback_merged_def)
    show ?thesis
    proof (cases "errors = []")
      case True
      have "\<forall>q \<in> set ms. g_head_commit git g (ln_worktree q) = Inr (ln_original_head q)" using ms(1) by (simp add: merged_from_def lands_at_def)
      from rollback_each_back [OF laws this ms(2) undo [unfolded True]] ms(1) r True show ?thesis
        by (simp add: merged_from_def)
    next
      case False
      then show ?thesis using r by (simp add: land_rollback_failed_def failed_def failure_new_def with_fix_def with_actual_def with_expected_def)
    qed
  qed
qed

section \<open>Property\<close>

text \<open>
  C11: landing is all or nothing.  It returns a failure after every default worktree is back at
  the commit it was at, unless the failure says that the rollback itself failed; or it skips
  the whole batch, with nothing changed, because the remote moved since the preview; or every
  repository is merged: the commit checked out in each default worktree is the tip of the
  feature, and it was the commit of the preflight before.  The one exception is a worktree
  whose commit is not that of the default branch, so that another branch is checked out there,
  and contains the tip already: it stays where it is.  No other worktree moves, and in every case the read-only guards of the
  worktrees are as they were.  What is relied on of git is in \<open>land_laws\<close>.
\<close>

theorem land_all_or_nothing:
  assumes "land_laws git anc owner" and "plans_apart git owner lay ps" and "land_execute git lay ps (g, md) = (r, g', md')"
  shows "md' = md \<and> (case r of
      Inl e \<Rightarrow> fl_code e = ''deliver.land_rollback_failed'' \<or> (\<forall>v. g_head_commit git g' v = g_head_commit git g v)
    | Inr (rs, ws) \<Rightarrow> map ld_repo rs = map ln_repo ps
        \<and> ((g' = g \<and> list_all (\<lambda>x. \<not> ld_merged x \<and> \<not> ld_pushed x) rs)
           \<or> (list_all ld_merged rs \<and> list_all (\<lambda>p. plan_moved git lay g p = None) ps
              \<and> (\<forall>v. v \<notin> ln_worktree ` set ps \<longrightarrow> g_head_commit git g' v = g_head_commit git g v)
              \<and> (\<forall>p \<in> set ps. g_head_commit git g (ln_worktree p) = Inr (ln_original_head p)
                   \<and> (g_head_commit git g' (ln_worktree p) = Inr (ln_tip p)
                      \<or> g_head_commit git g' (ln_worktree p) = Inr (ln_original_head p)
                        \<and> anc (ln_tip p) (ln_original_head p)
                        \<and> g_revision_commit git g (repo_bare lay (ln_repo p)) (branch_str (ln_default_branch p))
                            \<noteq> Inr (ln_original_head p))))))"
proof (cases "moved_reasons git lay g ps = []")
  case False
  then have "land_execute git lay ps (g, md) = (Inr (map (skipped_result (moved_reasons git lay g ps)) ps,
      map (\<lambda>(p, d). moved_warning p d) (moved_reasons git lay g ps)), g, md)"
    by (simp add: land_execute_def Let_def)
  with assms(3) show ?thesis by (auto simp: skipped_result_def list_all_iff)
next
  case True
  obtain l md1 where lift: "lift_guard (map ln_worktree ps) md = (l, md1)" by fastforce
  show ?thesis
  proof (cases l)
    case (Inl e)
    then show ?thesis using assms(3) lift True lift_guard_over [where ps = "map ln_worktree ps" and s = md] by (auto simp: land_execute_def)
  next
    case (Inr held)
    obtain r1 g1 where run: "merge_and_push git lay ps g = (r1, g1)" by fastforce
    then have ends: "r = r1" "g' = g1" "md' = md"
      using assms(3) lift True Inr lift_guard_over [where ps = "map ln_worktree ps" and s = md] by (simp_all add: land_execute_def)
    have "list_all (\<lambda>p. plan_moved git lay g p = None) ps"
      using True unfolding moved_reasons_def by (induction ps) (auto simp: List.map_filter_simps split: option.splits)
    then show ?thesis using merge_and_push_ends [OF assms(1,2) run]
      unfolding ends merged_from_def lands_at_def by (auto split: sum.splits)
  qed
qed

section \<open>Witness\<close>

text \<open>
  Two repositories; the state is the commit of the first worktree, which the first repository
  has as its branch \<open>main\<close>, behind the tip; git refuses to fast-forward the second, so the first
  is rolled back.
\<close>

definition landing_git :: "string land_git" where
  "landing_git =
     \<lparr>g_is_dir = (\<lambda>g p. Inr True), g_target_state = (\<lambda>g p. Inr TargetRepository),
      g_list_branches = (\<lambda>g p. Inr [''main'']), g_list_worktrees = (\<lambda>g p. Inr []), g_worktree_dirty = (\<lambda>g p. Inr False),
      g_commits_ahead = (\<lambda>g p a b. Inr 0), g_is_ancestor = (\<lambda>g p a b. Inr True),
      g_divergence = (\<lambda>g p a b. Inr \<lparr>dv_local_only = [], dv_remote_only = []\<rparr>), g_merge_base = (\<lambda>g p a b. Inr ''m''),
      g_commit_patch_id = (\<lambda>g p a. Inr ''i''), g_diff_patch_id = (\<lambda>g p a b. Inr ''i''),
      g_revision_commit = (\<lambda>g p a. Inr ''t''), g_remote_branch_tip = (\<lambda>g p a b. Inr (Some ''m'')),
      g_add_worktree = (\<lambda>p a b g. (Inr (), g)), g_create_branch_and_worktree = (\<lambda>p a b c g. (Inr (), g)),
      g_worktree_git_dir = (\<lambda>g p. Inr p),
      g_remove_worktree = (\<lambda>p a g. (Inr (), g)), g_prune_worktrees = (\<lambda>p g. (Inr (), g)), g_delete_branch = (\<lambda>p a g. (Inr (), g)),
      g_rename_branch = (\<lambda>p a b g. (Inr (), g)), g_move_worktree = (\<lambda>p a b g. (Inr (), g)),
      g_push = (\<lambda>p a b c g. (Inr (), g)), g_delete_remote_branch = (\<lambda>p a b c g. (Inr (), g)),
      g_head_commit = (\<lambda>g w. Inr (if w = ''/a'' then g else ''m'')), g_rebase_in_progress = (\<lambda>g w. Inr False),
      g_fast_forward_to = (\<lambda>w c g. if w = ''/a'' then (Inr (), c) else (Inl (GitRefused ''git merge --ff-only'' ''not possible''), g)),
      g_reset_hard = (\<lambda>w c g. if w = ''/a'' then (Inr (), c) else (Inl (GitRefused ''git reset'' ''refused''), g))\<rparr>"

definition landing_plan :: "string \<Rightarrow> string \<Rightarrow> land_plan" where
  "landing_plan repo wt =
     \<lparr>ln_repo = RepoName repo, ln_worktree = wt, ln_default_branch = BranchName ''main'', ln_tip = ''t'', ln_remote = ''u'',
      ln_remote_default_tip = Some ''m'', ln_original_head = ''m'', ln_feature_name = ''f''\<rparr>"

definition read_only_modes :: path_modes where
  "read_only_modes = \<lparr>md_mode = (\<lambda>p. Some 16749), md_stat_error = (\<lambda>p. None), md_chmod_error = (\<lambda>p. None)\<rparr>"

text \<open>The commits are in a line, \<open>m\<close> before \<open>t\<close>; each worktree is of the repository of its own name.\<close>

definition landing_owner :: "string \<Rightarrow> string" where
  "landing_owner w = (if w = ''/a'' then repo_bare (layout_at ''/h'') (RepoName ''a'')
     else if w = ''/b'' then repo_bare (layout_at ''/h'') (RepoName ''b'') else [])"

lemma landing_laws: "land_laws landing_git (\<lambda>a b. a = b \<or> b = ''t'') landing_owner"
  by (auto simp: land_laws_def landing_git_def is_commit_def split: if_splits)

lemma landing_apart:
  "plans_apart landing_git landing_owner (layout_at ''/h'') [landing_plan ''a'' ''/a'', landing_plan ''b'' ''/b'']"
proof -
  have "repo_bare (layout_at ''/h'') (RepoName ''a'') \<noteq> repo_bare (layout_at ''/h'') (RepoName ''b'')" by code_simp
  then show ?thesis by (simp add: plans_apart_def landing_owner_def landing_plan_def is_commit_def landing_git_def)
qed

theorem land_all_or_nothing_witness:
  "\<exists>e g'. land_execute landing_git (layout_at ''/h'') [landing_plan ''a'' ''/a'', landing_plan ''b'' ''/b''] (''m'', read_only_modes)
      = (Inl e, g', read_only_modes)
    \<and> fl_code e = ''git.merge_ff_only_failed'' \<and> g_head_commit landing_git g' ''/a'' = Inr ''m''"
proof -
  let ?ps = "[landing_plan ''a'' ''/a'', landing_plan ''b'' ''/b'']"
  obtain r g' md' where run: "land_execute landing_git (layout_at ''/h'') ?ps (''m'', read_only_modes) = (r, g', md')"
    by (metis prod.exhaust)
  have "(case land_execute landing_git (layout_at ''/h'') ?ps (''m'', read_only_modes) of
      (Inl e, _) \<Rightarrow> fl_code e | (Inr _, _) \<Rightarrow> []) = ''git.merge_ff_only_failed''" by code_simp
  then obtain e where e: "r = Inl e" "fl_code e = ''git.merge_ff_only_failed''" unfolding run by (cases r) auto
  from land_all_or_nothing [OF landing_laws landing_apart run] e
  have "md' = read_only_modes" "g_head_commit landing_git g' ''/a'' = g_head_commit landing_git ''m'' ''/a''" by auto
  then show ?thesis using run e by (simp add: landing_git_def)
qed

end
