(* ===== verification/Deliver_Safety.thy ===== *)
theory Deliver_Safety
  imports Deliver_Apply Land_Safety Hall_Invariants
begin

text \<open>
  What an apply of a delivery needs before it changes anything, and what the outcome of a
  delivery says about its repositories.
\<close>

declare order_by_dependencies.simps [simp del]

section \<open>The preview\<close>

lemma order_by_dependencies_mset: "mset (order_by_dependencies remaining rs) = mset rs"
proof (induction remaining rs rule: order_by_dependencies.induct)
  case (1 remaining rs)
  show ?case
  proof (cases "List.extract (\<lambda>r. list_all (\<lambda>d. d \<notin> set remaining) (dy_dependencies r)) rs")
    case None
    then show ?thesis by (simp add: order_by_dependencies.simps)
  next
    case (Some x)
    obtain before r after where x: "x = (before, r, after)" by (metis prod.exhaust)
    with Some have rs: "rs = before @ r # after" by (auto dest: extract_SomeE)
    show ?thesis using 1 [OF Some x [symmetric] refl] Some x rs by (simp add: order_by_dependencies.simps)
  qed
qed

lemma order_by_dependencies_set [simp]: "set (order_by_dependencies remaining rs) = set rs"
  using order_by_dependencies_mset by (metis set_mset_mset)

lemma try_map_source: "try_map f xs = Inr ys \<Longrightarrow> y \<in> set ys \<Longrightarrow> \<exists>x \<in> set xs. f x = Inr y"
  by (induction xs arbitrary: ys) (auto simp: result_simps)

text \<open>An entry without a blocker is of a branch that exists and, if checked out, is clean.\<close>

definition ready_to_push :: "'g deliver_env \<Rightarrow> 'g \<Rightarrow> feature \<Rightarrow> repo_name \<Rightarrow> bool" where
  "ready_to_push env g f repo \<longleftrightarrow>
     (\<exists>branches. g_list_branches (dg_git env) g (repo_bare (dg_layout env) repo) = Inr branches \<and> branch_str (ft_branch f) \<in> set branches)
     \<and> g_target_state (dg_git env) g (repo_bare (dg_layout env) repo) = Inr TargetRepository
     \<and> (let wt = repo_worktree (dg_layout env) repo (ft_branch f) in
          g_target_state (dg_git env) g wt = Inr TargetRepository \<longrightarrow> g_worktree_dirty (dg_git env) g wt = Inr False)"

lemma push_readiness_clean:
  assumes "push_readiness git g bare wt f m = Inr ([], pending)"
  shows "\<exists>branches. g_list_branches git g bare = Inr branches \<and> branch_str (ft_branch f) \<in> set branches"
    and "g_target_state git g wt = Inr TargetRepository \<longrightarrow> g_worktree_dirty git g wt = Inr False"
proof -
  let ?there = "\<lambda>branches. branch_str (ft_branch f) \<in> set branches"
  from assms obtain branches dirty where branches: "from_git (g_list_branches git g bare) = Inr branches"
    and dirty: "(if g_target_state git g wt = Inr TargetRepository then from_git (g_worktree_dirty git g wt) else Inr False) = Inr dirty"
    and none: "(if ?there branches then [] else [''branch not materialised; promote the repo first''])
        @ (if dirty then [''worktree has uncommitted changes''] else []) = []"
    unfolding push_readiness_def Let_def and_then_eq_Inr sum.inject prod.inject by blast
  have "?there branches" "\<not> dirty" using none by (simp_all split: if_splits)
  with branches dirty show "\<exists>branches. g_list_branches git g bare = Inr branches \<and> ?there branches"
    and "g_target_state git g wt = Inr TargetRepository \<longrightarrow> g_worktree_dirty git g wt = Inr False"
    by (auto simp: from_git_def map_sum_def split: sum.splits)
qed

lemma built_entry_ready:
  assumes "build_repo_entry env g ms f mode metadata (repo, p) = Inr r" and "dy_blockers r = []"
  shows "ready_to_push env g f repo" and "dy_repo r = repo"
proof -
  from assms(1) obtain m blockers pending where
      cloned: "ensure_cloned_for_delivery (dg_git env) g (repo_bare (dg_layout env) repo) repo = Inr ()"
    and ready: "push_readiness (dg_git env) g (repo_bare (dg_layout env) repo) (repo_worktree (dg_layout env) repo (ft_branch f)) f m
        = Inr (blockers, pending)"
    and r: "prefix blockers (dy_blockers r)" "dy_repo r = repo"
    unfolding build_repo_entry_def Let_def by (auto simp: and_then_eq_Inr)
  show "dy_repo r = repo" by (rule r(2))
  have "blockers = []" using r(1) assms(2) by simp
  with ready have "push_readiness (dg_git env) g (repo_bare (dg_layout env) repo) (repo_worktree (dg_layout env) repo (ft_branch f)) f m
        = Inr ([], pending)" by simp
  from push_readiness_clean [OF this] cloned show "ready_to_push env g f repo"
    by (auto simp: ready_to_push_def ensure_cloned_for_delivery_def from_git_def and_then_eq_Inr map_sum_def Let_def split: sum.splits if_splits)
qed

lemma delivered_feature_facts:
  assumes "delivered_feature env m i = Inr (f, selection, metadata, fs)"
  shows "ft_parent f = None" and "\<exists>n. feature_name_new (dn_feature i) = Inr n \<and> bt_get m n = Some f"
    and "selected_repos f i = Inr selection" and "read_all m = Inr fs"
  using assms unfolding delivered_feature_def
  by (auto simp: and_then_eq_Inr named_def map_sum_def read_feature_def split: option.splits sum.splits)

lemma finish_preview_facts:
  assumes "finish_preview env g ms i f selection metadata entries = Inr (f', p, ws)"
  shows "f' = f" and "tr_gate (dg_tree env) (ft_name f) = Inr (dp_plan_gate p)"
    and "dg_digest env (p\<lparr>dp_fingerprint := []\<rparr>) = Inr (dp_fingerprint p)"
    and "dp_tree_blockers p = map tree_blocker_of entries"
    and "dp_memory_review p = fst (memory_gate (dg_drain env) (dg_review env (ft_name f)) (dg_heads env f) (ft_name f))"
    and "\<And>r. r \<in> set (dp_repos p) \<Longrightarrow> \<exists>x \<in> set (ft_promotions f). fst x \<in> set selection
          \<and> build_repo_entry env g ms f (mode_of i) metadata x = Inr r"
    and "dp_feature p = ft_name f"
proof -
  obtain review mws where review: "memory_gate (dg_drain env) (dg_review env (ft_name f)) (dg_heads env f) (ft_name f) = (review, mws)"
    by fastforce
  from assms obtain gate repos fp where facts: "tr_gate (dg_tree env) (ft_name f) = Inr gate"
      "build_repos env g ms f (mode_of i) metadata selection = Inr repos"
      "f' = f" and p: "p = \<lparr>dp_feature = ft_name f, dp_mode = mode_of i, dp_plan_gate = gate,
        dp_repos = order_by_dependencies (map dy_repo (sort_key dy_repo repos)) (sort_key dy_repo repos),
        dp_tree_blockers = map tree_blocker_of entries, dp_memory_review = review, dp_fingerprint = fp\<rparr>"
      and fp: "dg_digest env (p\<lparr>dp_fingerprint := []\<rparr>) = Inr fp"
    unfolding finish_preview_def Let_def review by (auto simp: and_then_eq_Inr)
  show "f' = f" "tr_gate (dg_tree env) (ft_name f) = Inr (dp_plan_gate p)"
      "dg_digest env (p\<lparr>dp_fingerprint := []\<rparr>) = Inr (dp_fingerprint p)" "dp_tree_blockers p = map tree_blocker_of entries"
      "dp_memory_review p = fst (memory_gate (dg_drain env) (dg_review env (ft_name f)) (dg_heads env f) (ft_name f))"
      "dp_feature p = ft_name f"
    using facts fp p review by simp_all
  show "\<exists>x \<in> set (ft_promotions f). fst x \<in> set selection \<and> build_repo_entry env g ms f (mode_of i) metadata x = Inr r"
    if "r \<in> set (dp_repos p)" for r
    using try_map_source [OF facts(2)[unfolded build_repos_def], of r] that p by force
qed

lemma memory_gate_reviewed: "fst (memory_gate d r hs n) = MemoryReviewed \<longleftrightarrow> (\<exists>heads. r = Inr (ReviewedAt heads))"
  by (auto simp: memory_gate_def Let_def split: sum.splits review_answer.splits)

lemma selected_are_promoted:
  assumes "selected_repos f i = Inr selection" and "repo \<in> set selection"
  shows "repo \<in> fst ` set (ft_promotions f) \<and> (dn_only i = [] \<or> repo_str repo \<in> set (dn_only i))"
proof (cases "dn_only i = []")
  case True
  then show ?thesis using assms by (auto simp: selected_repos_def)
next
  case False
  from assms False obtain raw where raw: "raw \<in> set (dn_only i)"
    "(case repo_name_new raw of Inr n \<Rightarrow> if bt_contains (ft_promotions f) n then Inr n else Inl (unpromoted_only_repo f raw)
        | Inl _ \<Rightarrow> Inl (unpromoted_only_repo f raw)) = Inr repo"
    unfolding selected_repos_def by (auto dest: try_map_source)
  then have "repo_name_new raw = Inr repo" "bt_contains (ft_promotions f) repo" by (auto split: sum.splits if_splits)
  then have "repo_str repo = raw" "repo \<in> fst ` set (ft_promotions f)"
    by (auto simp: repo_name_new_def validated_new_def bt_contains_def bt_get_def map_of_eq_None_iff map_sum_def and_then_eq_Inr split: sum.splits)
  with raw(1) show ?thesis by simp
qed

lemma preflight_facts:
  assumes "preflight_and_resolve env ms g m i = Some (Inr (f, p, ws))"
  obtains selection metadata fs entries where "delivered_feature env m i = Inr (f, selection, metadata, fs)"
    "blocking_descendants (reads_at env g) fs f = Some (Inr entries)"
    "finish_preview env g ms i f selection metadata entries = Inr (f, p, ws)"
proof (cases "delivered_feature env m i")
  case (Inl e)
  then show ?thesis using assms by (simp add: preflight_and_resolve_def)
next
  case (Inr x)
  obtain f' selection metadata fs where x: "x = (f', selection, metadata, fs)" by (metis prod.exhaust)
  with assms Inr obtain entries where walk: "blocking_descendants (reads_at env g) fs f' = Some (Inr entries)"
      and fin: "finish_preview env g ms i f' selection metadata entries = Inr (f, p, ws)"
    by (auto simp: preflight_and_resolve_def and_then_eq_Inr)
  have "f' = f" using finish_preview_facts(1) [OF fin] by simp
  then show ?thesis using that Inr x walk fin by simp
qed

lemma no_blockers_left:
  "refuse_blockers n p skip = Inr () \<Longrightarrow> r \<in> set (dp_repos p) \<Longrightarrow> dy_blockers r = []"
  by (auto simp: refuse_blockers_def delivery_blockers_def Let_def split: if_splits)

lemma deliver_result:
  assumes "deliver env i s = Some (r, s')"
  obtains s1 where "deliver_run env i s = Some (r, s1)" "dw_git s' = dw_git s1" "dw_modes s' = dw_modes s1" "dw_features s' = dw_features s1"
proof -
  from assms obtain r1 s1 where run: "deliver_run env i s = Some (r1, s1)" unfolding deliver_def by auto
  have told: "dw_git (emit_refused a b e t) = dw_git t \<and> dw_modes (emit_refused a b e t) = dw_modes t
      \<and> dw_features (emit_refused a b e t) = dw_features t" for a b e and t :: "'a deliver_state"
    by (simp add: emit_refused_def tell_def split: sum.splits option.splits)
  from assms run have "r = r1" "s' = (case r1 of Inl e \<Rightarrow> if dn_preview i then s1 else emit_refused (dn_feature i) (dn_fingerprint i) e s1 | Inr _ \<Rightarrow> s1)"
    by (auto simp: deliver_def)
  then show ?thesis using that [of s1] run told by (cases r1) simp_all
qed

text \<open>A state that changed went through every refusal.\<close>

definition same_world :: "'g deliver_state \<Rightarrow> 'g deliver_state \<Rightarrow> bool" where
  "same_world s s' \<longleftrightarrow> dw_git s' = dw_git s \<and> dw_modes s' = dw_modes s \<and> dw_features s' = dw_features s"

lemma apply_changes:
  "apply_land env ms i skipping f p mws s = (r, s') \<or> apply_push env ms i skipping f p mws s = (r, s') \<Longrightarrow>
     \<not> same_world s s' \<Longrightarrow> refuse_blockers (ft_name f) p skipping = Inr ()"
  by (auto simp: apply_land_def apply_push_def same_world_def split: sum.splits)

lemma run_changes:
  fixes s s' :: "'g deliver_state"
  assumes "deliver_run env i s = Some (r, s')" and "\<not> same_world s s'"
  obtains ms skipping f p mws where "dg_manifest env = Inr ms" "check_skip i = Inr skipping"
    "preflight_and_resolve env ms (dw_git s) (dw_features s) i = Some (Inr (f, p, mws))" "\<not> dn_preview i"
    "refuse_apply env i skipping p = Inr ()" "refuse_blockers (ft_name f) p skipping = Inr ()"
proof -
  have same: "same_world t t" for t :: "'g deliver_state" by (simp add: same_world_def)
  from assms obtain ms skipping where start: "dg_manifest env = Inr ms" "check_skip i = Inr skipping"
    by (cases "dg_manifest env"; cases "check_skip i") (auto simp: deliver_run_def same)
  from assms start obtain f p mws where flight: "preflight_and_resolve env ms (dw_git s) (dw_features s) i = Some (Inr (f, p, mws))"
    by (auto simp: deliver_run_def same split: option.splits sum.splits)
  have preview: "\<not> dn_preview i" using assms start flight by (auto simp: deliver_run_def same)
  have passes: "refuse_apply env i skipping p = Inr ()"
    using assms start flight preview by (cases "refuse_apply env i skipping p") (auto simp: deliver_run_def same)
  have "apply_land env ms i skipping f p mws s = (r, s') \<or> apply_push env ms i skipping f p mws s = (r, s')"
    using assms(1) start flight preview passes by (auto simp: deliver_run_def split: if_splits)
  from apply_changes [OF this assms(2)] show ?thesis using that start flight preview passes by blast
qed

section \<open>The outcome of pushes\<close>

text \<open>What stays the same of the results while pull requests are opened.\<close>

definition kept_part :: "push_result \<Rightarrow> repo_name \<times> bool \<times> pull_request_ref option" where
  "kept_part p = (ps_repo p, ps_ok p, ps_pr p)"

lemma push_phase_results:
  "push_phase env ms f rs s = (Inr (ps, cs, ws), s') \<Longrightarrow>
     map ps_repo ps = map dy_repo rs \<and> list_all2 (\<lambda>p c. rc_repo c = ps_repo p \<and> (ps_ok p \<longrightarrow> rc_passed c) \<and> ps_pr p = None) ps cs"
proof (induction rs arbitrary: s ps cs ws)
  case Nil
  then show ?case by simp
next
  case (Cons r rs)
  obtain x g where one: "check_and_push_one env ms f r (dw_git s) = (x, g)" by fastforce
  with Cons.prems obtain p c w where x: "x = Inr (p, c, w)" by (cases x) auto
  have checks: "rc_repo c = dy_repo r" if "run_repo_checks env ms f (dy_repo r) g0 = (Inr c, g1)" for g0 g1 c
    using that by (auto simp: run_repo_checks_def Let_def split: sum.splits prod.splits)
  have head: "ps_repo p = dy_repo r \<and> rc_repo c = dy_repo r \<and> (ps_ok p \<longrightarrow> rc_passed c) \<and> ps_pr p = None"
    using one unfolding x check_and_push_one_def Let_def
    by (auto simp: failed_push_def dest!: checks split: sum.splits prod.splits if_splits)
  obtain y s1 where rest: "push_phase env ms f rs (emit_repo_pushed env f r c p (s\<lparr>dw_git := g\<rparr>)) = (y, s1)" by fastforce
  with Cons.prems one x obtain ps' cs' ws' where y: "y = Inr (ps', cs', ws')" and eq: "ps = p # ps'" "cs = c # cs'" "s' = s1"
    by (cases y) auto
  from Cons.IH [of "emit_repo_pushed env f r c p (s\<lparr>dw_git := g\<rparr>)" ps' cs' ws'] rest y eq head show ?case by simp
qed

lemma update_first_kept: "(\<And>x. h (f x) = h x) \<Longrightarrow> map h (update_first P f xs) = map h xs"
  by (induction xs) simp_all

lemma update_first_mem: "y \<in> set (update_first P f xs) \<Longrightarrow> y \<in> set xs \<or> (\<exists>x \<in> set xs. P x \<and> y = f x)"
  by (induction xs) (auto split: if_splits)

lemma pushed_ok_same:
  "map (\<lambda>x. (ps_repo x, ps_ok x)) ps = map (\<lambda>x. (ps_repo x, ps_ok x)) qs \<Longrightarrow> pushed_ok ps repo \<longleftrightarrow> pushed_ok qs repo"
proof -
  have "pushed_ok ps repo \<longleftrightarrow> list_ex (\<lambda>(r, ok). r = repo \<and> ok) (map (\<lambda>x. (ps_repo x, ps_ok x)) ps)" for ps
    by (induction ps) (simp_all add: pushed_ok_def)
  then show "map (\<lambda>x. (ps_repo x, ps_ok x)) ps = map (\<lambda>x. (ps_repo x, ps_ok x)) qs \<Longrightarrow> ?thesis" by metis
qed

lemma checks_same:
  assumes "map (\<lambda>x. (ps_repo x, ps_ok x)) ps = map (\<lambda>x. (ps_repo x, ps_ok x)) qs"
    and "list_all2 (\<lambda>x c. rc_repo c = ps_repo x \<and> (ps_ok x \<longrightarrow> rc_passed c)) qs cs"
  shows "list_all2 (\<lambda>x c. rc_repo c = ps_repo x \<and> (ps_ok x \<longrightarrow> rc_passed c)) ps cs"
proof -
  have "list_all2 (\<lambda>(r, ok) c. rc_repo c = r \<and> (ok \<longrightarrow> rc_passed c)) (map (\<lambda>x. (ps_repo x, ps_ok x)) qs) cs"
    using assms(2) by (simp add: list_all2_map1)
  then have "list_all2 (\<lambda>(r, ok) c. rc_repo c = r \<and> (ok \<longrightarrow> rc_passed c)) (map (\<lambda>x. (ps_repo x, ps_ok x)) ps) cs"
    by (simp only: assms(1))
  then show ?thesis by (simp add: list_all2_map1)
qed

lemma kept_same: "map kept_part ps = map kept_part qs \<Longrightarrow> map (\<lambda>x. (ps_repo x, ps_ok x)) ps = map (\<lambda>x. (ps_repo x, ps_ok x)) qs"
proof -
  assume "map kept_part ps = map kept_part qs"
  then have "map (\<lambda>(a, b, _). (a, b)) (map kept_part ps) = map (\<lambda>(a, b, _). (a, b)) (map kept_part qs)" by (simp only:)
  then show "map (\<lambda>x. (ps_repo x, ps_ok x)) ps = map (\<lambda>x. (ps_repo x, ps_ok x)) qs" by (simp add: kept_part_def comp_def)
qed

lemma pushed_ok_kept: "map kept_part ps = map kept_part qs \<Longrightarrow> pushed_ok ps repo \<longleftrightarrow> pushed_ok qs repo"
  by (rule pushed_ok_same [OF kept_same])

lemma create_pr_facts:
  assumes "create_pr_for_repo env ms n r ps g = ((row, ps', ws), g')"
  shows "map kept_part ps' = map kept_part ps"
    and "row = Some (repo, x) \<Longrightarrow> repo = dy_repo r \<and> pushed_ok ps repo \<and> dy_action r \<in> {NewPr, UpdatePr}"
proof -
  have kept: "map kept_part (update_first P (no_pull_request e) ps) = map kept_part ps" for P e
    by (rule update_first_kept) (simp add: kept_part_def no_pull_request_def)
  show "map kept_part ps' = map kept_part ps"
    using assms unfolding create_pr_for_repo_def Let_def
    by (auto simp: kept split: if_splits option.splits prod.splits sum.splits bool.splits)
  have "dy_action r \<in> {NewPr, UpdatePr} \<or> dy_action r \<in> {PushOnly, LandOnDefault}" by (cases "dy_action r") simp_all
  then show "row = Some (repo, x) \<Longrightarrow> repo = dy_repo r \<and> pushed_ok ps repo \<and> dy_action r \<in> {NewPr, UpdatePr}"
    using assms unfolding create_pr_for_repo_def Let_def
    by (auto split: if_splits option.splits prod.splits sum.splits bool.splits)
qed

definition pr_allowed :: "delivery_repo list \<Rightarrow> push_result list \<Rightarrow> repo_name \<Rightarrow> bool" where
  "pr_allowed rs ps repo \<longleftrightarrow> pushed_ok ps repo \<and> (\<exists>r \<in> set rs. dy_repo r = repo \<and> dy_action r \<in> {NewPr, UpdatePr})"

lemma pr_phase_facts:
  "pr_phase env ms n rs ps g = ((rows, ps', ws), g') \<Longrightarrow>
     map kept_part ps' = map kept_part ps \<and> (\<forall>(repo, x) \<in> set rows. pr_allowed rs ps repo)"
proof (induction rs arbitrary: ps g rows ps' ws g')
  case Nil
  then show ?case by simp
next
  case (Cons r rs)
  obtain row ps1 w1 g1 where one: "create_pr_for_repo env ms n r ps g = ((row, ps1, w1), g1)" by (metis prod.exhaust)
  obtain rows2 ps2 w2 g2 where rest: "pr_phase env ms n rs ps1 g1 = ((rows2, ps2, w2), g2)" by (metis prod.exhaust)
  note ih = Cons.IH [OF rest]
  have kept: "map kept_part ps1 = map kept_part ps" by (rule create_pr_facts(1) [OF one])
  have ps': "ps' = ps2" and rows: "rows = (case row of None \<Rightarrow> rows2 | Some x \<Rightarrow> x # rows2)"
    using Cons.prems one rest by auto
  have "pr_allowed (r # rs) ps repo" if "(repo, x) \<in> set rows2" for repo x
    using ih that pushed_ok_kept [OF kept, of repo] by (auto simp: pr_allowed_def)
  moreover have "pr_allowed (r # rs) ps repo" if "row = Some (repo, x)" for repo x
    using create_pr_facts(2) [OF one that] by (auto simp: pr_allowed_def)
  ultimately show ?case using ih kept ps' rows by (auto split: option.splits)
qed

lemma settle_prs_facts:
  "settle_prs env f p rows ps s = ((ps', urls, ws), s') \<Longrightarrow>
     map (\<lambda>x. (ps_repo x, ps_ok x)) ps' = map (\<lambda>x. (ps_repo x, ps_ok x)) ps
     \<and> (\<forall>x \<in> set ps'. ps_pr x \<noteq> None \<longrightarrow> (\<exists>y \<in> set ps. ps_repo y = ps_repo x \<and> ps_pr y \<noteq> None) \<or> ps_repo x \<in> fst ` set rows)"
proof (induction env f p rows ps s arbitrary: ps' urls ws s' rule: settle_prs.induct)
  case (1 env f p ps s)
  then show ?case by auto
next
  case (2 env f p repo pr rows ps s)
  let ?ps1 = "update_first (\<lambda>x. ps_repo x = repo) (\<lambda>x. x\<lparr>ps_pr := Some (ref_of pr)\<rparr>) ps"
  let ?s1 = "if list_ex (\<lambda>x. ps_repo x = repo) ps then (case find (\<lambda>r. dy_repo r = repo) (dp_repos p) of
      Some r \<Rightarrow> emit_pr_opened env f r (ref_of pr) s | None \<Rightarrow> s) else s"
  obtain ps2 urls2 w2 s2 where rest: "settle_prs env f p rows ?ps1 ?s1 = ((ps2, urls2, w2), s2)" by (metis prod.exhaust)
  have ps': "ps' = ps2" using "2.prems" rest by (auto simp: Let_def)
  note ih = "2.IH" [OF refl refl refl rest]
  have "map (\<lambda>x. (ps_repo x, ps_ok x)) ?ps1 = map (\<lambda>x. (ps_repo x, ps_ok x)) ps" by (rule update_first_kept) simp
  moreover have "(\<exists>y \<in> set ps. ps_repo y = ps_repo x \<and> ps_pr y \<noteq> None) \<or> ps_repo x \<in> fst ` set ((repo, Inr pr) # rows)"
    if x: "x \<in> set ps'" "ps_pr x \<noteq> None" for x
  proof -
    from ih x ps' consider y where "y \<in> set ?ps1" "ps_repo y = ps_repo x" "ps_pr y \<noteq> None" | "ps_repo x \<in> fst ` set rows" by blast
    then show ?thesis
    proof cases
      case 1
      then show ?thesis using update_first_mem [OF 1(1)] by fastforce
    qed simp
  qed
  ultimately show ?case using ih ps' by auto
next
  case (3 env f p repo e rows ps s)
  obtain ps2 urls2 w2 s2 where rest: "settle_prs env f p rows ps s = ((ps2, urls2, w2), s2)" by (metis prod.exhaust)
  have "ps' = ps2" using "3.prems" rest by auto
  with "3.IH" [OF rest] show ?case by auto
qed

section \<open>Properties\<close>

text \<open>
  C10: a delivery changes nothing, neither a repository nor the forge nor a worktree nor a
  feature, unless it is an apply of a feature without parent, with the fingerprint of the
  preview of this very state, whose plan is approved, whose descendants do not block, whose
  memory was reviewed or whose review is skipped with a reason, and whose selected
  repositories are all promoted, cloned and have the branch, checked out clean if at all.
\<close>

theorem delivery_needs_approval:
  assumes "deliver env i s = Some (r, s')" and "\<not> same_world s s'"
  shows "\<not> dn_preview i \<and> (\<exists>ms f p ws fs. dg_manifest env = Inr ms
    \<and> preflight_and_resolve env ms (dw_git s) (dw_features s) i = Some (Inr (f, p, ws))
    \<and> (\<exists>n. feature_name_new (dn_feature i) = Inr n \<and> bt_get (dw_features s) n = Some f) \<and> ft_parent f = None
    \<and> dn_fingerprint i = Some (dp_fingerprint p) \<and> dg_digest env (p\<lparr>dp_fingerprint := []\<rparr>) = Inr (dp_fingerprint p)
    \<and> tr_gate (dg_tree env) (ft_name f) = Inr Approved
    \<and> read_all (dw_features s) = Inr fs \<and> blocking_descendants (reads_at env (dw_git s)) fs f = Some (Inr [])
    \<and> ((\<exists>heads. dg_review env (ft_name f) = Inr (ReviewedAt heads)) \<or> (\<exists>reason. dn_skip_review i = Some reason \<and> trim reason \<noteq> []))
    \<and> (\<forall>x \<in> set (dp_repos p). dy_repo x \<in> fst ` set (ft_promotions f) \<and> (dn_only i = [] \<or> repo_str (dy_repo x) \<in> set (dn_only i))
        \<and> ready_to_push env (dw_git s) f (dy_repo x)))"
proof -
  from deliver_result [OF assms(1)] obtain s1 where run: "deliver_run env i s = Some (r, s1)"
    and s': "dw_git s' = dw_git s1" "dw_modes s' = dw_modes s1" "dw_features s' = dw_features s1" by blast
  have "\<not> same_world s s1" using assms(2) s' by (simp add: same_world_def)
  from run_changes [OF run this] obtain ms skipping f p mws where go: "dg_manifest env = Inr ms" "check_skip i = Inr skipping"
    "preflight_and_resolve env ms (dw_git s) (dw_features s) i = Some (Inr (f, p, mws))" "\<not> dn_preview i"
    "refuse_apply env i skipping p = Inr ()" "refuse_blockers (ft_name f) p skipping = Inr ()" by blast
  from preflight_facts [OF go(3)] obtain selection metadata fs entries where
    found: "delivered_feature env (dw_features s) i = Inr (f, selection, metadata, fs)"
    and walk: "blocking_descendants (reads_at env (dw_git s)) fs f = Some (Inr entries)"
    and fin: "finish_preview env (dw_git s) ms i f selection metadata entries = Inr (f, p, mws)" by blast
  note feature = delivered_feature_facts [OF found]
  note preview = finish_preview_facts [OF fin]
  have passed: "dp_tree_blockers p = []" "dp_plan_gate p = Approved" "dp_memory_review p = MemoryMissing \<longrightarrow> skipping"
      "check_fingerprint (dp_feature p) (dn_fingerprint i) (dp_fingerprint p) = Inr ()"
    using go(5) by (auto simp: refuse_apply_def Let_def split: if_splits)
  have entries: "entries = []" using passed(1) preview(4) by simp
  have fingerprint: "dn_fingerprint i = Some (dp_fingerprint p)"
    using passed(4) by (auto simp: check_fingerprint_def split: option.splits if_splits)
  have review: "(\<exists>heads. dg_review env (ft_name f) = Inr (ReviewedAt heads)) \<or> (\<exists>reason. dn_skip_review i = Some reason \<and> trim reason \<noteq> [])"
  proof (cases "dp_memory_review p")
    case MemoryReviewed
    then show ?thesis using preview(5) memory_gate_reviewed by metis
  next
    case MemoryMissing
    with passed(3) go(2) show ?thesis by (auto simp: check_skip_def split: option.splits if_splits)
  qed
  have repos: "dy_repo x \<in> fst ` set (ft_promotions f) \<and> (dn_only i = [] \<or> repo_str (dy_repo x) \<in> set (dn_only i))
      \<and> ready_to_push env (dw_git s) f (dy_repo x)" if x: "x \<in> set (dp_repos p)" for x
  proof -
    from preview(6) [OF x] obtain repo pr where built: "repo \<in> set selection"
      "build_repo_entry env (dw_git s) ms f (mode_of i) metadata (repo, pr) = Inr x" by auto
    from built_entry_ready [OF built(2) no_blockers_left [OF go(6) x]] selected_are_promoted [OF feature(3) built(1)]
    show ?thesis by simp
  qed
  show ?thesis
    using go(1,3,4) feature(1,2,4) fingerprint preview(2,3) passed(2) walk entries review repos by (intro conjI exI [of _ ms] exI [of _ f]
      exI [of _ p] exI [of _ mws] exI [of _ fs]) auto
qed

text \<open>
  C12: the outcome of a delivery that pushes lists one result and one check for every
  repository of the preview, in its order; a repository was pushed only if all its checks
  passed, and it has a pull request only if it was pushed and the preview planned one.
\<close>

theorem pull_request_needs_push:
  assumes "deliver env i s = Some (Inr (out, ws), s')" and "\<not> dn_preview i" and "\<not> dn_land i"
  shows "map ps_repo (dt_pushes out) = map dy_repo (dp_repos (dt_preview out))
    \<and> list_all2 (\<lambda>x c. rc_repo c = ps_repo x \<and> (ps_ok x \<longrightarrow> rc_passed c)) (dt_pushes out) (dt_checks out)
    \<and> (\<forall>x \<in> set (dt_pushes out). ps_pr x \<noteq> None \<longrightarrow> pr_allowed (dp_repos (dt_preview out)) (dt_pushes out) (ps_repo x))"
proof -
  from deliver_result [OF assms(1)] obtain t where "deliver_run env i s = Some (Inr (out, ws), t)" by blast
  with assms(2,3) obtain ms sk f p mws where push: "apply_push env ms i sk f p mws s = (Inr (out, ws), t)"
    unfolding deliver_run_def by (auto split: option.splits sum.splits)
  then obtain ws1 s1 s2 where run: "execute_with env ms f p s1 = (Inr (out, ws1), s2)"
    unfolding apply_push_def by (auto split: sum.splits prod.splits)
  obtain x s3 where pushes: "push_phase env ms f (dp_repos p) s1 = (x, s3)" by fastforce
  with run obtain ps cs w1 where x: "x = Inr (ps, cs, w1)" by (cases x) (auto simp: execute_with_def)
  obtain rows ps1 w2 g where prs: "pr_phase env ms (ft_name f) (dp_repos p) ps (dw_git s3) = ((rows, ps1, w2), g)" by (metis prod.exhaust)
  obtain ps2 urls w3 s4 where settled: "settle_prs env f p rows ps1 (s3\<lparr>dw_git := g\<rparr>) = ((ps2, urls, w3), s4)" by (metis prod.exhaust)
  have out: "dt_pushes out = ps2" "dt_checks out = cs"
      "dp_repos (dt_preview out) = map (\<lambda>r. case bt_get urls (dy_repo r) of Some u \<Rightarrow> r\<lparr>dy_pr_url := Some u\<rparr> | None \<Rightarrow> r) (dp_repos p)"
    using run pushes x prs settled by (auto simp: execute_with_def Let_def split: prod.splits)
  have entry: "dy_repo (case u of Some u \<Rightarrow> r\<lparr>dy_pr_url := Some u\<rparr> | None \<Rightarrow> r) = dy_repo r"
    "dy_action (case u of Some u \<Rightarrow> r\<lparr>dy_pr_url := Some u\<rparr> | None \<Rightarrow> r) = dy_action r" for r u by (simp_all split: option.splits)
  note phase1 = push_phase_results [OF pushes [unfolded x]]
  note phase2 = pr_phase_facts [OF prs]
  note phase3 = settle_prs_facts [OF settled]
  have same: "map (\<lambda>x. (ps_repo x, ps_ok x)) ps2 = map (\<lambda>x. (ps_repo x, ps_ok x)) ps"
    using conjunct1 [OF phase3] kept_same [OF conjunct1 [OF phase2]] by (rule trans)
  have names: "map ps_repo ps2 = map ps_repo ps" using arg_cong [OF same, of "map fst"] by (simp add: comp_def)
  note ok = pushed_ok_same [OF same]
  have "list_all2 (\<lambda>x c. rc_repo c = ps_repo x \<and> (ps_ok x \<longrightarrow> rc_passed c)) ps cs"
    by (rule list_all2_mono [OF conjunct2 [OF phase1]]) simp
  then have checked: "list_all2 (\<lambda>x c. rc_repo c = ps_repo x \<and> (ps_ok x \<longrightarrow> rc_passed c)) ps2 cs" by (rule checks_same [OF same])
  have none: "ps_pr y = None" if "y \<in> set ps1" for y
  proof -
    have "ps_pr z = None" if "z \<in> set ps" for z
      using phase1 that by (auto simp: list_all2_conv_all_nth in_set_conv_nth)
    moreover have "map ps_pr ps1 = map ps_pr ps"
      using arg_cong [OF conjunct1 [OF phase2], of "map (\<lambda>(_, _, c). c)"] by (simp add: kept_part_def comp_def)
    ultimately show ?thesis using that by (metis in_set_conv_nth length_map nth_map)
  qed
  have "pr_allowed (dp_repos (dt_preview out)) ps2 (ps_repo y)" if y: "y \<in> set ps2" "ps_pr y \<noteq> None" for y
  proof -
    from phase3 y none obtain z where "(ps_repo y, z) \<in> set rows" by fastforce
    with phase2 have "pr_allowed (dp_repos p) ps (ps_repo y)" by auto
    then show ?thesis unfolding pr_allowed_def out(3) using ok by (auto simp: entry)
  qed
  moreover have "map dy_repo (dp_repos (dt_preview out)) = map dy_repo (dp_repos p)"
    unfolding out(3) by (auto simp: entry)
  ultimately show ?thesis using phase1 names checked out(1,2) by simp
qed

section \<open>Witnesses\<close>

text \<open>A feature with a repository on GitHub and one elsewhere; a push leaves its mark on git.\<close>

definition delivering_git :: "string land_git" where
  "delivering_git = landing_git\<lparr>g_list_branches := (\<lambda>g p. Inr [''main'', ''checkout'']),
     g_push := (\<lambda>p a b c g. (Inr (), ''pushed''))\<rparr>"

definition sample_forge :: "string forge" where
  "sample_forge =
     \<lparr>fo_ask = (\<lambda>f d args. Inr \<lparr>ou_code = Some 0, ou_stdout = [], ou_stderr = []\<rparr>),
      fo_run = (\<lambda>d args f. (Inr \<lparr>ou_code = Some 0, ou_stdout = ''https://github.com/o/api/pull/7'', ou_stderr = []\<rparr>, f)),
      fo_prs = (\<lambda>out. Inr []), fo_pr = (\<lambda>out. Inl ''none''), fo_checks = (\<lambda>out. Inr []), fo_metadata = (\<lambda>out. Inl ''none''),
      fo_comments = (\<lambda>out. Inr [])\<rparr>"

definition sample_manifest :: "manifest_repo list" where
  "sample_manifest =
     [\<lparr>mp_name = RepoName ''api'', mp_url = ''https://github.com/o/api'', mp_default_branch = BranchName ''main'', mp_checks = [''test''], mp_ref_prefix = None\<rparr>,
      \<lparr>mp_name = RepoName ''web'', mp_url = ''git@host:web'', mp_default_branch = BranchName ''main'', mp_checks = [], mp_ref_prefix = None\<rparr>]"

definition sample_deliver_env :: "string deliver_env" where
  "sample_deliver_env =
     \<lparr>dg_git = delivering_git, dg_forge = sample_forge, dg_layout = layout_at ''/h'', dg_cwd = ''/h'', dg_manifest = Inr sample_manifest,
      dg_tree = sample_reads, dg_body = (\<lambda>p. Inl ''none''), dg_drain = Inr (), dg_review = (\<lambda>n. Inr (ReviewedAt [])),
      dg_heads = (\<lambda>f. []), dg_messages = (\<lambda>g b x y. Inr []), dg_digest = (\<lambda>p. Inr ''fp''), dg_commands_digest = (\<lambda>cs. Inr ''c''),
      dg_exec = (\<lambda>c d g. (Inr \<lparr>ou_code = Some 0, ou_stdout = [], ou_stderr = []\<rparr>, g)), dg_plan_written = (\<lambda>n. True)\<rparr>"

definition sample_delivery :: deliver_input where
  "sample_delivery =
     \<lparr>dn_feature = ''checkout'', dn_preview = False, dn_land = False, dn_fingerprint = Some ''fp'',
      dn_global = no_metadata, dn_overrides = [], dn_only = [], dn_skip_review = None\<rparr>"

definition sample_deliver_state :: "string deliver_state" where
  "sample_deliver_state =
     \<lparr>dw_git = ''m'', dw_modes = read_only_modes, dw_features = [(FeatureName ''checkout'', sample_feature)], dw_events = [], dw_skips = []\<rparr>"

lemma sample_delivery_runs:
  "(case deliver sample_deliver_env sample_delivery sample_deliver_state of
      Some (Inr (out, _), s') \<Rightarrow> Some (dw_git s', map ps_ok (dt_pushes out), map (map_option pf_number \<circ> ps_pr) (dt_pushes out))
    | _ \<Rightarrow> None) = Some (''pushed'', [True, True], [Some 7, None])"
  by code_simp

lemma sample_delivery_result:
  obtains out ws s' where "deliver sample_deliver_env sample_delivery sample_deliver_state = Some (Inr (out, ws), s')"
    "dw_git s' = ''pushed''" "map (map_option pf_number \<circ> ps_pr) (dt_pushes out) = [Some 7, None]"
proof (cases "deliver sample_deliver_env sample_delivery sample_deliver_state")
  case None
  then show ?thesis using sample_delivery_runs by simp
next
  case (Some x)
  obtain r s' where x: "x = (r, s')" by (rule prod.exhaust)
  show ?thesis
  proof (cases r)
    case (Inl e)
    then show ?thesis using sample_delivery_runs Some x by simp
  next
    case (Inr y)
    obtain out ws where "y = (out, ws)" by (rule prod.exhaust)
    with Some x Inr have run: "deliver sample_deliver_env sample_delivery sample_deliver_state = Some (Inr (out, ws), s')" by simp
    show ?thesis using sample_delivery_runs unfolding run by (intro that [OF run]) simp_all
  qed
qed

theorem delivery_needs_approval_witness:
  "\<exists>r s'. deliver sample_deliver_env sample_delivery sample_deliver_state = Some (r, s') \<and> dw_git s' = ''pushed''
    \<and> (\<exists>f. ft_parent f = None \<and> bt_get (dw_features sample_deliver_state) (FeatureName ''checkout'') = Some f
        \<and> tr_gate (dg_tree sample_deliver_env) (ft_name f) = Inr Approved)"
proof -
  obtain out ws s' where run: "deliver sample_deliver_env sample_delivery sample_deliver_state = Some (Inr (out, ws), s')"
    "dw_git s' = ''pushed''" by (rule sample_delivery_result)
  have "dw_git sample_deliver_state = ''m''" by (simp add: sample_deliver_state_def)
  then have "\<not> same_world sample_deliver_state s'" using run(2) by (simp add: same_world_def)
  moreover have "feature_name_new (dn_feature sample_delivery) = Inr (FeatureName ''checkout'')" by code_simp
  ultimately obtain f where "ft_parent f = None" "bt_get (dw_features sample_deliver_state) (FeatureName ''checkout'') = Some f"
    "tr_gate (dg_tree sample_deliver_env) (ft_name f) = Inr Approved"
    using delivery_needs_approval [OF run(1)] by auto
  then show ?thesis using run by blast
qed

theorem pull_request_needs_push_witness:
  "\<exists>out ws s'. deliver sample_deliver_env sample_delivery sample_deliver_state = Some (Inr (out, ws), s')
    \<and> (\<exists>x \<in> set (dt_pushes out). ps_pr x \<noteq> None \<and> pr_allowed (dp_repos (dt_preview out)) (dt_pushes out) (ps_repo x))"
proof -
  obtain out ws s' where run: "deliver sample_deliver_env sample_delivery sample_deliver_state = Some (Inr (out, ws), s')"
    "map (map_option pf_number \<circ> ps_pr) (dt_pushes out) = [Some 7, None]" by (rule sample_delivery_result)
  have "\<exists>x \<in> set (dt_pushes out). ps_pr x \<noteq> None" using run(2) by (auto simp: map_eq_Cons_conv)
  then obtain x where x: "x \<in> set (dt_pushes out)" "ps_pr x \<noteq> None" by blast
  have "\<not> dn_preview sample_delivery" "\<not> dn_land sample_delivery" by (simp_all add: sample_delivery_def)
  from pull_request_needs_push [OF run(1) this] x run(1) show ?thesis by blast
qed

end
