(* ===== verification/Feature_Work.thy ===== *)
theory Feature_Work
  imports Deliver_Apply
begin

text \<open>
  What rebase, close and integrate share: the operations of git they use beside those of
  landing, the state they work on (the repositories and the forge, the features, the plan
  documents and the events), and how a part of it is changed.
\<close>

section \<open>The state\<close>

record 'g merge_git = "'g land_git" +
  g_rebase_branch :: "string \<Rightarrow> string \<Rightarrow> 'g \<Rightarrow> (git_error + unit) \<times> 'g"
  g_abort_rebase :: "string \<Rightarrow> 'g \<Rightarrow> (git_error + unit) \<times> 'g"
  g_fetch_branch :: "string \<Rightarrow> string \<Rightarrow> 'g \<Rightarrow> (git_error + unit) \<times> 'g"
  g_fast_forward :: "string \<Rightarrow> 'g \<Rightarrow> (git_error + unit) \<times> 'g"
  g_create_branch :: "string \<Rightarrow> string \<Rightarrow> string \<Rightarrow> 'g \<Rightarrow> (git_error + unit) \<times> 'g"
  g_add_detached_worktree :: "string \<Rightarrow> string \<Rightarrow> string \<Rightarrow> 'g \<Rightarrow> (git_error + unit) \<times> 'g"
  g_squash_merge :: "string \<Rightarrow> string \<Rightarrow> string \<Rightarrow> 'g \<Rightarrow> (git_error + unit) \<times> 'g"
  g_merge_no_ff :: "string \<Rightarrow> string \<Rightarrow> string \<Rightarrow> 'g \<Rightarrow> (git_error + unit) \<times> 'g"

text \<open>The plan of a feature is its text and the approvals of its gates, either may be missing.\<close>

record plan_files =
  pl_text :: "string option"
  pl_approvals :: "approvals option"

record 'g work_state =
  wk_git :: 'g
  wk_features :: hall
  wk_plans :: "feature_name \<Rightarrow> plan_files"
  wk_events :: "(delivery_scope \<times> delivery_event) list"

type_synonym ('g, 'a) work = "('g work_state, 'a) eff"

section \<open>Working on a part\<close>

text \<open>An operation of git whose error is the failure, one whose error is looked at, and a read.\<close>

definition git_work :: "('g \<Rightarrow> (git_error + 'a) \<times> 'g) \<Rightarrow> ('g, 'a) work" where
  "git_work op s = (case op (wk_git s) of (r, g) \<Rightarrow> (map_sum git_failure id r, s\<lparr>wk_git := g\<rparr>))"

definition try_git :: "('g \<Rightarrow> (git_error + 'a) \<times> 'g) \<Rightarrow> ('g, git_error + 'a) work" where
  "try_git op s = (case op (wk_git s) of (r, g) \<Rightarrow> (Inr r, s\<lparr>wk_git := g\<rparr>))"

definition outside_work :: "('g \<Rightarrow> (failure + 'a) \<times> 'g) \<Rightarrow> ('g, 'a) work" where
  "outside_work op s = (case op (wk_git s) of (r, g) \<Rightarrow> (r, s\<lparr>wk_git := g\<rparr>))"

definition ask_git :: "('g \<Rightarrow> git_error + 'a) \<Rightarrow> ('g, 'a) work" where
  "ask_git f = gets_s (\<lambda>s. from_git (f (wk_git s)))"

definition look_git :: "('g \<Rightarrow> git_error + 'a) \<Rightarrow> ('g, git_error + 'a) work" where
  "look_git f = gets_s (\<lambda>s. Inr (f (wk_git s)))"

definition hall_work :: "(hall \<Rightarrow> (failure + 'a) \<times> hall) \<Rightarrow> ('g, 'a) work" where
  "hall_work op s = (case op (wk_features s) of (r, m) \<Rightarrow> (r, s\<lparr>wk_features := m\<rparr>))"

definition emit_work :: "delivery_scope \<Rightarrow> delivery_event \<Rightarrow> ('g, unit) work" where
  "emit_work scope e = modify_s (\<lambda>s. s\<lparr>wk_events := wk_events s @ [(scope, e)]\<rparr>)"

section \<open>Lemmas\<close>

text \<open>A computation that leaves the features alone, and one that leaves everything but git alone.\<close>

definition leaves_features :: "('g, 'a) work \<Rightarrow> bool" where
  "leaves_features m \<longleftrightarrow> (\<forall>s. wk_features (snd (m s)) = wk_features s)"

interpretation features_frame: effect_frame wk_features .

lemma leaves_featuresD: "leaves_features m \<Longrightarrow> m s = (r, s') \<Longrightarrow> wk_features s' = wk_features s"
  unfolding leaves_features_def by (metis snd_conv)

lemma leaves_features_parts [intro, simp]:
  "leaves_features (git_work op)" "leaves_features (try_git op')" "leaves_features (outside_work op'')"
  "leaves_features (ask_git f)" "leaves_features (look_git f')" "leaves_features (emit_work scope e)"
  "leaves_features (return_s x)" "leaves_features (fail_s err)" "leaves_features (lift_s res)"
  "leaves_features (gets_s h)" "leaves_features (guard_s ok err')"
  by (simp_all add: leaves_features_def git_work_def try_git_def outside_work_def ask_git_def look_git_def emit_work_def
      modify_s_def return_s_def fail_s_def lift_s_def gets_s_def guard_s_def split: prod.split)

lemma leaves_features_bind:
  "leaves_features m \<Longrightarrow> (\<And>x. leaves_features (f x)) \<Longrightarrow> leaves_features (bind_s m f)"
  unfolding leaves_features_def by (blast intro: features_frame.leaves_bind)

end
