(* ===== verification/Rebase.thy ===== *)
theory Rebase
  imports Feature_Work
begin

text \<open>
  \<open>src/src/action/feature/rebase\<close>: every selected worktree of a feature is replayed on its base,
  repository by repository; \<open>--onto\<close> also rewrites the recorded base of those that landed
  there.
\<close>

section \<open>Input and outcome\<close>

record rebase_input =
  rx_name :: string
  rx_onto :: "string option"
  rx_repos :: "string list"
  rx_offline :: bool

datatype rebase_status = RebaseDone | RebaseSkipped | RebaseConflicted

datatype base_source = SourceRemote | SourceLocal

record repo_rebase =
  ry_repo :: repo_name
  ry_status :: rebase_status
  ry_onto :: "branch_name option"
  ry_base_source :: "base_source option"

record rebase_outcome =
  rz_root :: string
  rz_feature :: feature_name
  rz_branch :: string
  rz_repos :: "repo_rebase list"

record 'g rebase_env =
  ra_git :: "'g merge_git"
  ra_layout :: layout
  ra_manifest :: "failure + manifest_repo list"
  ra_is_dir :: "'g \<Rightarrow> string \<Rightarrow> failure + bool"
  ra_reads :: tree_reads

section \<open>Selection\<close>

definition rebase_not_promoted :: "feature \<Rightarrow> repo_name \<Rightarrow> failure" where
  "rebase_not_promoted f repo =
     (let promoted = join '', '' (map (\<lambda>r. quoted (repo_str r)) (map fst (ft_promotions f))) in
      with_fix (fix_safe ''feature.promote_first''
          (''Pass a promoted repo to `--repo`, or run `ivar feature promote '' @ feature_str (ft_name f) @ '' '' @ repo_str repo @ ''` first.''))
        (with_actual (if promoted = [] then ''no repo is promoted'' else ''promoted: '' @ promoted)
          (with_expected ''a repo currently promoted into this feature''
            (blocked ''feature.not_promoted''
              (quoted (repo_str repo) @ '' is not promoted into '' @ quoted (feature_str (ft_name f)))))))"

definition select_repos :: "feature \<Rightarrow> string list \<Rightarrow> failure + repo_name list" where
  "select_repos f requested =
     (if requested = [] then Inr (map fst (ft_promotions f))
      else map_sum id (\<lambda>rs. sort (remdups rs))
        (try_map (\<lambda>raw. and_then (named (repo_name_new raw)) (\<lambda>repo.
           if bt_contains (ft_promotions f) repo then Inr repo else Inl (rebase_not_promoted f repo))) requested))"

section \<open>One repository\<close>

definition rebase_skipped :: "repo_name \<Rightarrow> branch_name option \<Rightarrow> string \<Rightarrow> string \<Rightarrow> repo_rebase \<times> warning list \<times> bool" where
  "rebase_skipped repo onto code what =
     (\<lparr>ry_repo = repo, ry_status = RebaseSkipped, ry_onto = onto, ry_base_source = None\<rparr>,
      [warning_new code (repo_str repo) what], False)"

definition remote_unreachable :: "repo_name \<Rightarrow> branch_name \<Rightarrow> git_error \<Rightarrow> warning" where
  "remote_unreachable repo target e =
     (let t = quoted (branch_str target) in
      warning_new ''rebase.remote_unreachable'' (repo_str repo)
        (''could not read '' @ t @ '' from the remote ('' @ git_error_display e @ ''); rebased onto the local '' @ t
         @ '', which may be stale. Re-run when the remote is reachable''))"

definition rebase_from ::
    "'g rebase_env \<Rightarrow> repo_name \<Rightarrow> string \<Rightarrow> string \<Rightarrow> branch_name \<Rightarrow> bool \<Rightarrow> ('g, string \<times> base_source \<times> warning option) work" where
  "rebase_from env repo url worktree target offline =
     (if offline then return_s (branch_str target, SourceLocal, None)
      else bind_s (look_git (\<lambda>g. g_remote_branch_tip (ra_git env) g (repo_bare (ra_layout env) repo) url (branch_str target))) (\<lambda>tip.
        case tip of
          Inr (Some _) \<Rightarrow>
            bind_s (try_git (g_fetch_branch (ra_git env) worktree (branch_str target))) (\<lambda>fetched.
              case fetched of
                Inr _ \<Rightarrow> return_s (''FETCH_HEAD'', SourceRemote, None)
              | Inl e \<Rightarrow> return_s (branch_str target, SourceLocal, Some (remote_unreachable repo target e)))
        | Inr None \<Rightarrow> return_s (branch_str target, SourceLocal, None)
        | Inl e \<Rightarrow> return_s (branch_str target, SourceLocal, Some (remote_unreachable repo target e))))"

definition is_refused :: "git_error \<Rightarrow> bool" where
  "is_refused e = (case e of GitRefused _ _ \<Rightarrow> True | _ \<Rightarrow> False)"

definition replay_worktree ::
    "'g rebase_env \<Rightarrow> repo_name \<Rightarrow> string \<Rightarrow> branch_name \<Rightarrow> bool \<Rightarrow> string \<times> base_source \<times> warning option \<Rightarrow>
     ('g, repo_rebase \<times> warning list \<times> bool) work" where
  "replay_worktree env repo worktree target collapses x =
     (case x of (from, source, fallback) \<Rightarrow>
       (let ws = (case fallback of Some w \<Rightarrow> [w] | None \<Rightarrow> []);
            row = (\<lambda>st. \<lparr>ry_repo = repo, ry_status = st, ry_onto = Some target, ry_base_source = Some source\<rparr>) in
        bind_s (try_git (g_rebase_branch (ra_git env) worktree from)) (\<lambda>r.
          case r of
            Inr _ \<Rightarrow> return_s (row RebaseDone, ws, collapses)
          | Inl e \<Rightarrow>
              if is_refused e then
                bind_s (try_git (g_abort_rebase (ra_git env) worktree)) (\<lambda>aborted.
                  return_s (row RebaseConflicted,
                    ws @ [case aborted of
                            Inl a \<Rightarrow> warning_new ''rebase.abort_failed'' (repo_str repo)
                                       (''could not abort the stopped rebase: '' @ git_error_display a)
                          | Inr _ \<Rightarrow> warning_new ''rebase.conflicted'' (repo_str repo)
                                       ''rebase stopped (likely a conflict) and was aborted''],
                    False))
              else fail_s (git_failure e))))"

definition rebase_one_repo ::
    "'g rebase_env \<Rightarrow> manifest_repo list \<Rightarrow> feature \<Rightarrow> repo_name \<Rightarrow> promotion \<Rightarrow> branch_name option \<Rightarrow> bool \<Rightarrow>
     ('g, repo_rebase \<times> warning list \<times> bool) work" where
  "rebase_one_repo env ms f repo p onto offline =
     (let worktree = repo_worktree (ra_layout env) repo (ft_branch f) in
      case declared_repo ms repo of
        None \<Rightarrow> return_s (rebase_skipped repo None ''rebase.repo_not_in_manifest'' ''not in ivar.json; nothing to rebase onto'')
      | Some d \<Rightarrow>
          (let target = (case onto of Some b \<Rightarrow> b | None \<Rightarrow> base_resolve f p (mp_default_branch d)) in
           bind_s (gets_s (\<lambda>s. ra_is_dir env (wk_git s) worktree)) (\<lambda>there.
             if \<not> there then return_s (rebase_skipped repo (Some target) ''rebase.no_worktree'' ''no worktree materialised for this repo'')
             else bind_s (ask_git (\<lambda>g. g_worktree_dirty (ra_git env) g worktree)) (\<lambda>dirty.
               if dirty then return_s (rebase_skipped repo (Some target) ''rebase.dirty''
                                ''worktree has uncommitted changes; commit or stash them first'')
               else bind_s (rebase_from env repo (mp_url d) worktree target offline)
                      (replay_worktree env repo worktree target (onto \<noteq> None))))))"

section \<open>The batch\<close>

definition source_str :: "base_source \<Rightarrow> string" where
  "source_str b = (case b of SourceRemote \<Rightarrow> ''remote'' | SourceLocal \<Rightarrow> ''local'')"

definition head_at :: "'g rebase_env \<Rightarrow> string \<Rightarrow> 'g \<Rightarrow> string option" where
  "head_at env worktree g = (case g_head_commit (ra_git env) g worktree of Inr h \<Rightarrow> Some h | Inl _ \<Rightarrow> None)"

definition rebased_event :: "repo_rebase \<Rightarrow> string option \<Rightarrow> string option \<Rightarrow> delivery_event" where
  "rebased_event row before after =
     EvRebased (ry_status row = RebaseConflicted) (map_option branch_str (ry_onto row))
       (map_option source_str (ry_base_source row)) before after"

text \<open>One turn of the loop: the row, the warnings, and whether the base follows.\<close>

definition rebase_turn ::
    "'g rebase_env \<Rightarrow> manifest_repo list \<Rightarrow> feature \<Rightarrow> branch_name option \<Rightarrow> bool \<Rightarrow> repo_name \<Rightarrow>
     ('g, (repo_rebase \<times> warning list \<times> bool) option) work" where
  "rebase_turn env ms f onto offline repo =
     (case bt_get (ft_promotions f) repo of
        None \<Rightarrow> return_s None
      | Some p \<Rightarrow>
          (let worktree = repo_worktree (ra_layout env) repo (ft_branch f) in
           bind_s (gets_s (\<lambda>s. Inr (head_at env worktree (wk_git s)))) (\<lambda>before.
           bind_s (rebase_one_repo env ms f repo p onto offline) (\<lambda>x.
             if ry_status (fst x) = RebaseSkipped then return_s (Some x)
             else bind_s (gets_s (\<lambda>s. Inr (head_at env worktree (wk_git s)))) (\<lambda>after.
                  bind_s (emit_work (scope_for_repo f (repo_str repo) (unwrap_or [] after)) (rebased_event (fst x) before after)) (\<lambda>_.
                  return_s (Some x)))))))"

fun rebase_all ::
    "'g rebase_env \<Rightarrow> manifest_repo list \<Rightarrow> feature \<Rightarrow> branch_name option \<Rightarrow> bool \<Rightarrow> repo_name list \<Rightarrow>
     ('g, repo_rebase list \<times> warning list \<times> repo_name list) work" where
  "rebase_all env ms f onto offline [] = return_s ([], [], [])"
| "rebase_all env ms f onto offline (repo # repos) =
     bind_s (rebase_turn env ms f onto offline repo) (\<lambda>x.
     bind_s (rebase_all env ms f onto offline repos) (\<lambda>(rows, ws, collapsed).
       return_s (case x of
           None \<Rightarrow> (rows, ws, collapsed)
         | Some (row, w, c) \<Rightarrow> (row # rows, w @ ws, (if c then repo # collapsed else collapsed)))))"

definition with_base :: "branch_name \<Rightarrow> repo_name \<Rightarrow> feature \<Rightarrow> feature" where
  "with_base onto repo f = f\<lparr>ft_promotions := bt_update repo (\<lambda>p. p\<lparr>pr_base := Some onto\<rparr>) (ft_promotions f)\<rparr>"

definition collapse_base :: "feature_name \<Rightarrow> branch_name option \<Rightarrow> repo_name list \<Rightarrow> ('g, unit) work" where
  "collapse_base n onto collapsed =
     (case onto of
        Some b \<Rightarrow> if collapsed = [] then return_s ()
                  else hall_work (update_feature n (\<lambda>f. Inr (fold (with_base b) collapsed f)))
      | None \<Rightarrow> return_s ())"

text \<open>What is read and refused before anything moves.\<close>

definition rebase_start ::
    "'g rebase_env \<Rightarrow> rebase_input \<Rightarrow> hall \<Rightarrow> failure + manifest_repo list \<times> feature \<times> repo_name list \<times> branch_name option" where
  "rebase_start env i m =
     and_then (ra_manifest env) (\<lambda>ms.
     and_then (named (feature_name_new (rx_name i))) (\<lambda>n.
     and_then (read_feature m n) (\<lambda>f.
     and_then (select_repos f (rx_repos i)) (\<lambda>selected.
     and_then (try_map (\<lambda>repo. and_then (is_fully_integrated (ra_reads env) f) (\<lambda>integrated.
                ensure_promotion_mutable integrated f repo)) selected) (\<lambda>_.
     and_then (transpose_map (\<lambda>raw. named (branch_name_new raw)) (rx_onto i)) (\<lambda>onto.
       Inr (ms, f, selected, onto)))))))"

definition rebase :: "'g rebase_env \<Rightarrow> rebase_input \<Rightarrow> ('g, rebase_outcome \<times> warning list) work" where
  "rebase env i =
     bind_s (gets_s (\<lambda>s. rebase_start env i (wk_features s))) (\<lambda>(ms, f, selected, onto).
     bind_s (rebase_all env ms f onto (rx_offline i) selected) (\<lambda>(rows, ws, collapsed).
     bind_s (collapse_base (ft_name f) onto collapsed) (\<lambda>_.
       return_s (\<lparr>rz_root = lay_root (ra_layout env), rz_feature = ft_name f, rz_branch = branch_str (ft_branch f),
                  rz_repos = sort_key ry_repo rows\<rparr>, ws))))"

end
