(* ===== verification/Rebase_Safety.thy ===== *)
theory Rebase_Safety
  imports Rebase Deliver_Safety
begin

text \<open>
  A rebase records a new base for a repository exactly when its worktree landed on it; a run
  that stops half way has moved worktrees whose base is not recorded.
\<close>

section \<open>Rows\<close>

text \<open>What a turn reports: the base follows only a finished rebase onto the named branch.\<close>

definition row_ok :: "repo_name \<Rightarrow> branch_name option \<Rightarrow> repo_rebase \<times> warning list \<times> bool \<Rightarrow> bool" where
  "row_ok repo onto x \<longleftrightarrow>
     ry_repo (fst x) = repo \<and> (snd (snd x) \<longleftrightarrow> onto \<noteq> None \<and> ry_status (fst x) = RebaseDone)
     \<and> (\<forall>b. onto = Some b \<longrightarrow> ry_status (fst x) = RebaseDone \<longrightarrow> ry_onto (fst x) = Some b)"

lemma replay_worktree_row:
  assumes run: "replay_worktree env repo wt target (onto \<noteq> None) src s = (Inr x, s')" and target: "\<forall>b. onto = Some b \<longrightarrow> target = b"
  shows "row_ok repo onto x"
proof -
  obtain start source fb where src: "src = (start, source, fb)" by (rule prod_cases3)
  from run obtain r t where tried: "try_git (g_rebase_branch (ra_git env) wt start) s = (Inr r, t)"
    by (auto simp: replay_worktree_def src Let_def bind_s_iff)
  have "ry_repo (fst x) = repo \<and> ry_onto (fst x) = Some target \<and> (snd (snd x) \<longleftrightarrow> onto \<noteq> None \<and> ry_status (fst x) = RebaseDone)"
  proof (cases r)
    case (Inl e)
    then have stopped: "is_refused e" using run tried
      by (simp add: replay_worktree_def src Let_def bind_s_def fail_s_def split: if_splits)
    obtain aborted t' where "try_git (g_abort_rebase (ra_git env) wt) t = (aborted, t')" by (rule prod.exhaust)
    with run tried Inl stopped show ?thesis
      by (cases aborted) (simp_all add: replay_worktree_def src Let_def bind_s_def return_s_def del: not_None_eq, clarsimp)
  next
    case (Inr u)
    then show ?thesis using run tried by (auto simp: replay_worktree_def src Let_def bind_s_def return_s_def)
  qed
  then show ?thesis using target by (simp add: row_ok_def)
qed

lemma rebase_one_row:
  assumes "rebase_one_repo env ms f repo p onto offline s = (Inr x, s')"
  shows "row_ok repo onto x"
proof (cases "declared_repo ms repo")
  case None
  then show ?thesis using assms by (auto simp: rebase_one_repo_def rebase_skipped_def row_ok_def effect_simps)
next
  case (Some d)
  let ?target = "case onto of Some b \<Rightarrow> b | None \<Rightarrow> base_resolve f p (mp_default_branch d)"
  have "\<forall>b. onto = Some b \<longrightarrow> ?target = b" by simp
  with assms Some show ?thesis
    by (auto simp: rebase_one_repo_def Let_def effect_simps rebase_skipped_def row_ok_def [of repo onto "(_, _, False)"]
        simp del: not_None_eq split: if_splits dest!: replay_worktree_row)
qed

lemma rebase_turn_row:
  "rebase_turn env ms f onto offline repo s = (Inr x, s') \<Longrightarrow>
     (case x of None \<Rightarrow> bt_get (ft_promotions f) repo = None | Some y \<Rightarrow> row_ok repo onto y \<and> bt_get (ft_promotions f) repo \<noteq> None)"
  by (auto simp: rebase_turn_def Let_def effect_simps split: option.splits if_splits dest: rebase_one_row)

lemma rebase_all_rows:
  "rebase_all env ms f onto offline repos s = (Inr (rows, ws, collapsed), s') \<Longrightarrow>
     map ry_repo rows = filter (\<lambda>r. bt_get (ft_promotions f) r \<noteq> None) repos
     \<and> collapsed = map ry_repo (filter (\<lambda>row. onto \<noteq> None \<and> ry_status row = RebaseDone) rows)
     \<and> (\<forall>row \<in> set rows. \<forall>b. onto = Some b \<longrightarrow> ry_status row = RebaseDone \<longrightarrow> ry_onto row = Some b)"
proof (induction repos arbitrary: s rows ws collapsed s')
  case Nil
  then show ?case by (simp add: effect_simps)
next
  case (Cons repo repos)
  from Cons.prems obtain x t rows1 ws1 collapsed1 where turn: "rebase_turn env ms f onto offline repo s = (Inr x, t)"
    and rest: "rebase_all env ms f onto offline repos t = (Inr (rows1, ws1, collapsed1), s')"
    and out: "(rows, ws, collapsed) = (case x of None \<Rightarrow> (rows1, ws1, collapsed1)
      | Some (row, w, c) \<Rightarrow> (row # rows1, w @ ws1, (if c then repo # collapsed1 else collapsed1)))"
    by (auto simp: effect_simps)
  note r = rebase_turn_row [OF turn] and ih = Cons.IH [OF rest]
  show ?case
  proof (cases x)
    case None
    then show ?thesis using r ih out by simp
  next
    case (Some y)
    obtain row w c where y: "y = (row, w, c)" by (rule prod_cases3)
    show ?thesis using r ih out Some y by (simp add: row_ok_def)
  qed
qed

section \<open>The features\<close>

lemma rebase_from_leaves: "leaves_features (rebase_from env repo url wt target offline)"
  unfolding rebase_from_def by (auto intro!: leaves_features_bind split: sum.split option.split)

lemma replay_worktree_leaves: "leaves_features (replay_worktree env repo wt target c src)"
  unfolding replay_worktree_def Let_def by (auto intro!: leaves_features_bind split: sum.split prod.split)

lemma rebase_turn_leaves: "leaves_features (rebase_turn env ms f onto offline repo)"
  unfolding rebase_turn_def rebase_one_repo_def Let_def
  by (auto intro!: leaves_features_bind rebase_from_leaves replay_worktree_leaves split: option.split)

lemma rebase_all_leaves: "leaves_features (rebase_all env ms f onto offline repos)"
  by (induction repos) (auto intro!: leaves_features_bind rebase_turn_leaves)

lemma fold_with_base:
  "bt_get (ft_promotions (fold (with_base b) rs f)) repo
     = map_option (\<lambda>p. if repo \<in> set rs then p\<lparr>pr_base := Some b\<rparr> else p) (bt_get (ft_promotions f) repo)"
proof (induction rs arbitrary: f)
  case Nil
  then show ?case by (simp add: option.map_ident)
next
  case (Cons r rs)
  then show ?case by (cases "bt_get (ft_promotions f) repo") (auto simp: with_base_def bt_get_update)
qed


text \<open>The rest of a feature, all but its promotions.\<close>

lemma fold_with_base_rest: "(fold (with_base b) rs f)\<lparr>ft_promotions := ps\<rparr> = f\<lparr>ft_promotions := ps\<rparr>"
  by (induction rs arbitrary: f) (simp_all add: with_base_def)

lemma rebase_start_facts:
  assumes "rebase_start env i m = Inr (ms, f, selected, onto)"
  shows "transpose_map (\<lambda>raw. named (branch_name_new raw)) (rx_onto i) = Inr onto"
    and "\<exists>n. feature_name_new (rx_name i) = Inr n \<and> bt_get m n = Some f"
    and "select_repos f (rx_repos i) = Inr selected"
  using assms unfolding rebase_start_def
  by (auto simp: and_then_eq_Inr named_def map_sum_def read_feature_def split: option.splits sum.splits)

definition landed_on_base :: "rebase_outcome \<Rightarrow> repo_name \<Rightarrow> bool" where
  "landed_on_base out repo \<longleftrightarrow> (\<exists>row \<in> set (rz_repos out). ry_repo row = repo \<and> ry_status row = RebaseDone)"

text \<open>
  C18: a rebase that ends well changes nothing of the features but the recorded base of the
  repositories it reports as rebased, and those only under \<open>--onto\<close>, to that branch: the other
  features, every other field of this one, the other repositories and the rest of each
  promotion, its receipt included, are as they were, and a skipped or conflicted repository
  keeps its base.
\<close>

theorem rebase_base_follows_worktree:
  assumes run: "rebase env i s = (Inr (out, ws), s')" and ok: "map_ok (wk_features s)"
  shows "\<exists>f f' onto. bt_get (wk_features s) (rz_feature out) = Some f \<and> bt_get (wk_features s') (rz_feature out) = Some f'
    \<and> transpose_map (\<lambda>raw. named (branch_name_new raw)) (rx_onto i) = Inr onto
    \<and> (\<forall>n. n \<noteq> rz_feature out \<longrightarrow> bt_get (wk_features s') n = bt_get (wk_features s) n)
    \<and> f' = f\<lparr>ft_promotions := ft_promotions f'\<rparr>
    \<and> (\<forall>repo. bt_get (ft_promotions f') repo
         = map_option (\<lambda>p. case onto of Some b \<Rightarrow> if landed_on_base out repo then p\<lparr>pr_base := Some b\<rparr> else p | None \<Rightarrow> p)
             (bt_get (ft_promotions f) repo))"
proof -
  from run obtain ms f selected onto t rows collapsed where
      start: "rebase_start env i (wk_features s) = Inr (ms, f, selected, onto)"
    and all: "rebase_all env ms f onto (rx_offline i) selected s = (Inr (rows, ws, collapsed), t)"
    and base: "collapse_base (ft_name f) onto collapsed t = (Inr (), s')"
    and out: "rz_feature out = ft_name f" "rz_repos out = sort_key ry_repo rows"
    unfolding rebase_def by (auto simp: effect_simps)
  note facts = rebase_start_facts [OF start] and rows = rebase_all_rows [OF all]
  have f: "bt_get (wk_features s) (ft_name f) = Some f" using facts(2) ok unfolding map_ok_def by metis
  have t: "wk_features t = wk_features s" using leaves_featuresD [OF rebase_all_leaves all] .
  have sorted: "bt_sorted (wk_features s)" using ok by (simp add: map_ok_def)
  have landed: "landed_on_base out repo \<longleftrightarrow> repo \<in> set collapsed" if "onto \<noteq> None" for repo
    using rows that unfolding landed_on_base_def out(2) by auto
  show ?thesis
  proof (cases "onto = None \<or> collapsed = []")
    case True
    with base t have "wk_features s' = wk_features s"
      by (auto simp: collapse_base_def effect_simps split: option.splits)
    moreover have "\<not> landed_on_base out repo" if "onto \<noteq> None" for repo using True landed that by simp
    ultimately show ?thesis using f facts(1) out(1)
      by (cases onto) (auto simp: option.map_ident)
  next
    case False
    then obtain b where b: "onto = Some b" "collapsed \<noteq> []" by auto
    with base have "hall_work (update_feature (ft_name f) (\<lambda>f. Inr (fold (with_base b) collapsed f))) t = (Inr (), s')"
      by (simp add: collapse_base_def)
    then have upd: "wk_features s' = bt_insert (ft_name f) (fold (with_base b) collapsed f) (wk_features s)"
      using f t by (auto simp: hall_work_def update_feature_def read_feature_def)
    have rest: "f\<lparr>ft_promotions := ft_promotions (fold (with_base b) collapsed f)\<rparr> = fold (with_base b) collapsed f"
      using fold_with_base_rest [where b = b and rs = collapsed and f = f and ps = "ft_promotions (fold (with_base b) collapsed f)"] by simp
    have "\<exists>f'. bt_get (wk_features s') (ft_name f) = Some f' \<and> f' = f\<lparr>ft_promotions := ft_promotions f'\<rparr>
       \<and> (\<forall>repo. bt_get (ft_promotions f') repo
         = map_option (\<lambda>p. if landed_on_base out repo then p\<lparr>pr_base := Some b\<rparr> else p) (bt_get (ft_promotions f) repo))"
      unfolding upd bt.get_insert [OF sorted] by (simp add: fold_with_base landed b rest)
    moreover have "bt_get (wk_features s') n = bt_get (wk_features s) n" if "n \<noteq> ft_name f" for n
      unfolding upd using that by (simp add: bt.get_insert [OF sorted])
    ultimately show ?thesis using f facts(1) out(1) b(1) by auto
  qed
qed

section \<open>A sample\<close>

text \<open>\<open>api\<close> rebases; \<open>web\<close> is as the error says, which is no refusal of git or a conflict.\<close>

definition rebasing_git :: "git_error option \<Rightarrow> string merge_git" where
  "rebasing_git e = land_git.extend landing_git
     (merge_git.fields
       (\<lambda>wt r g. if wt = repo_worktree (layout_at ''/h'') (RepoName ''web'') (BranchName ''checkout'') \<and> e \<noteq> None
                 then (Inl (the e), g) else (Inr (), ''moved''))
       (\<lambda>wt g. (Inr (), g)) (\<lambda>wt b g. (Inr (), g)) (\<lambda>wt g. (Inr (), g)) (\<lambda>b n c g. (Inr (), g))
       (\<lambda>b wt c g. (Inr (), g)) (\<lambda>wt b t g. (Inr (), g)) (\<lambda>wt b t g. (Inr (), g)))"

definition rebasing_env :: "git_error option \<Rightarrow> string rebase_env" where
  "rebasing_env e =
     \<lparr>ra_git = rebasing_git e, ra_layout = layout_at ''/h'',
      ra_manifest = Inr [\<lparr>mp_name = RepoName ''api'', mp_url = ''u'', mp_default_branch = BranchName ''main'', mp_checks = [], mp_ref_prefix = None\<rparr>,
                         \<lparr>mp_name = RepoName ''web'', mp_url = ''w'', mp_default_branch = BranchName ''main'', mp_checks = [], mp_ref_prefix = None\<rparr>],
      ra_is_dir = (\<lambda>g p. Inr True), ra_reads = sample_reads\<rparr>"

definition rebasing_feature :: feature where
  "rebasing_feature = feature_promote (RepoName ''web'') (feature_promote (RepoName ''api'') (feature_new (FeatureName ''checkout'') (BranchName ''checkout'')))"

definition rebasing_state :: "string work_state" where
  "rebasing_state = \<lparr>wk_git = ''start'', wk_features = [(FeatureName ''checkout'', rebasing_feature)],
     wk_plans = (\<lambda>n. \<lparr>pl_text = None, pl_approvals = None\<rparr>), wk_events = []\<rparr>"

definition rebasing_input :: rebase_input where
  "rebasing_input = \<lparr>rx_name = ''checkout'', rx_onto = Some ''release'', rx_repos = [], rx_offline = True\<rparr>"

definition base_of :: "string work_state \<Rightarrow> string \<Rightarrow> branch_name option" where
  "base_of s repo = Option.bind (bt_get (wk_features s) (FeatureName ''checkout''))
     (\<lambda>f. Option.bind (bt_get (ft_promotions f) (RepoName repo)) pr_base)"

text \<open>
  Two rebases of the sample, evaluated at once.  In the second an error that is not a refusal of
  git ends the batch with the worktrees before it moved and their base not recorded, although
  the declaration and the worktree are meant to move together.
\<close>

lemma sample_rebases:
  shows sample_rebase_rows: "(case rebase (rebasing_env (Some (GitRefused ''git rebase'' ''conflict''))) rebasing_input rebasing_state of
      (Inr (out, _), _) \<Rightarrow> map ry_status (rz_repos out) | (Inl _, _) \<Rightarrow> []) = [RebaseDone, RebaseConflicted]"
    and aborted_batch_keeps_old_base: "(case rebase (rebasing_env (Some (NotUtf8 ''x''))) rebasing_input rebasing_state of
      (r, s') \<Rightarrow> (is_ok r, wk_git s', map (sk_repo \<circ> fst) (wk_events s'), base_of s' ''api''))
   = (False, ''moved'', [''api''], None)"
proof -
  have "((case rebase (rebasing_env (Some (GitRefused ''git rebase'' ''conflict''))) rebasing_input rebasing_state of
      (Inr (out, _), _) \<Rightarrow> map ry_status (rz_repos out) | (Inl _, _) \<Rightarrow> []) = [RebaseDone, RebaseConflicted])
    \<and> ((case rebase (rebasing_env (Some (NotUtf8 ''x''))) rebasing_input rebasing_state of
      (r, s') \<Rightarrow> (is_ok r, wk_git s', map (sk_repo \<circ> fst) (wk_events s'), base_of s' ''api''))
   = (False, ''moved'', [''api''], None))"
    by code_simp
  then show "(case rebase (rebasing_env (Some (GitRefused ''git rebase'' ''conflict''))) rebasing_input rebasing_state of
      (Inr (out, _), _) \<Rightarrow> map ry_status (rz_repos out) | (Inl _, _) \<Rightarrow> []) = [RebaseDone, RebaseConflicted]"
    "(case rebase (rebasing_env (Some (NotUtf8 ''x''))) rebasing_input rebasing_state of
      (r, s') \<Rightarrow> (is_ok r, wk_git s', map (sk_repo \<circ> fst) (wk_events s'), base_of s' ''api''))
   = (False, ''moved'', [''api''], None)"
    by (iprover dest: conjunct1 conjunct2)+
qed

theorem rebase_base_follows_worktree_witness:
  "\<exists>out ws s'. rebase (rebasing_env (Some (GitRefused ''git rebase'' ''conflict''))) rebasing_input rebasing_state = (Inr (out, ws), s')
    \<and> map ry_status (rz_repos out) = [RebaseDone, RebaseConflicted]
    \<and> (\<exists>f'. bt_get (wk_features s') (rz_feature out) = Some f')"
proof -
  let ?run = "rebase (rebasing_env (Some (GitRefused ''git rebase'' ''conflict''))) rebasing_input rebasing_state"
  obtain r s' where run: "?run = (r, s')" by (rule prod.exhaust)
  with sample_rebase_rows obtain out ws where r: "r = Inr (out, ws)" "map ry_status (rz_repos out) = [RebaseDone, RebaseConflicted]"
    by (cases r) auto
  have "map_ok (wk_features rebasing_state)"
    by (auto simp: map_ok_def rebasing_state_def rebasing_feature_def feature_promote_def feature_new_def bt_get_def bt_sorted_def split: if_splits)
  from rebase_base_follows_worktree [OF run [unfolded r] this]
  have "\<exists>f'. bt_get (wk_features s') (rz_feature out) = Some f'" by blast
  with run r show ?thesis by simp
qed

end
