(* ===== verification/Frontmatter.thy ===== *)
theory Frontmatter
  imports Integration
begin

text \<open>
  \<open>src/src/infra/frontmatter.rs\<close>: the front matter of a markdown document, between two fences,
  and the replacement that keeps the body byte for byte.  The YAML of the block is a library;
  a codec of the stored type is an argument.
\<close>

section \<open>Errors\<close>

record yaml_error =
  ye_text :: string
  ye_location :: "(nat \<times> nat) option"

record 'a yaml =
  ym_decode :: "string \<Rightarrow> yaml_error + 'a"
  ym_encode :: "'a \<Rightarrow> string + string"

datatype frontmatter_error =
    UnterminatedFence nat
  | InvalidYaml string
  | UnrenderableYaml string

definition frontmatter_error_display :: "frontmatter_error \<Rightarrow> string" where
  "frontmatter_error_display e =
     (case e of
        UnterminatedFence line \<Rightarrow> ''unterminated frontmatter: opening `---` fence at line '' @ show_nat line @ '' has no matching closing `---`''
      | InvalidYaml source \<Rightarrow> ''frontmatter is not valid YAML: '' @ source
      | UnrenderableYaml source \<Rightarrow> ''frontmatter could not be rendered as YAML: '' @ source)"

definition frontmatter_failure :: "frontmatter_error \<Rightarrow> failure" where
  "frontmatter_failure e =
     (let what = frontmatter_error_display e in
      case e of
        UnterminatedFence line \<Rightarrow>
          with_actual (''no closing fence after line '' @ show_nat line)
            (with_expected ''a closing `---` fence'' (failed ''frontmatter.unterminated_fence'' what))
      | InvalidYaml _ \<Rightarrow> failed ''frontmatter.invalid_yaml'' what
      | UnrenderableYaml _ \<Rightarrow> failed ''frontmatter.unrenderable'' what)"

section \<open>Splitting\<close>

definition fence :: string where "fence = ''---''"

text \<open>
  The line at the start of the text, without its terminator, and the text after it; a last
  line without a terminator keeps a carriage return.
\<close>

definition next_line :: "string \<Rightarrow> (string \<times> string) option" where
  "next_line s =
     (if s = [] then None
      else (let raw = takeWhile (\<lambda>c. c \<noteq> newline) s in
            if length raw < length s then Some (strip_cr raw, drop (Suc (length raw)) s) else Some (s, [])))"

lemma next_line_shorter: "next_line s = Some (line, rest) \<Longrightarrow> length rest < length s"
  by (auto simp: next_line_def Let_def split: if_splits)

text \<open>The loop: the block read so far and the text from the cursor on.\<close>

function split_from :: "string \<Rightarrow> string \<Rightarrow> (string \<times> string) option" where
  "split_from block s =
     (case next_line s of
        None \<Rightarrow> None
      | Some (line, rest) \<Rightarrow>
          if line = fence then Some (block, rest)
          else split_from (block @ take (length s - length rest) s) rest)"
  by pat_completeness auto
termination
  by (relation "measure (length \<circ> snd)") (auto dest: next_line_shorter)

declare split_from.simps [simp del]

record doc_split =
  dl_frontmatter :: "string option"
  dl_body :: string

definition split_doc :: "string \<Rightarrow> frontmatter_error + doc_split" where
  "split_doc s =
     (case next_line s of
        None \<Rightarrow> Inr \<lparr>dl_frontmatter = None, dl_body = s\<rparr>
      | Some (line, rest) \<Rightarrow>
          if line \<noteq> fence then Inr \<lparr>dl_frontmatter = None, dl_body = s\<rparr>
          else (case split_from [] rest of
                  None \<Rightarrow> Inl (UnterminatedFence 1)
                | Some (block, body) \<Rightarrow> Inr \<lparr>dl_frontmatter = Some block, dl_body = body\<rparr>))"

section \<open>Reading and replacing\<close>

definition parse_frontmatter :: "'a yaml \<Rightarrow> string \<Rightarrow> frontmatter_error + 'a" where
  "parse_frontmatter y s =
     and_then (split_doc s) (\<lambda>d. map_sum (\<lambda>e. InvalidYaml (ye_text e)) id (ym_decode y (unwrap_or [] (dl_frontmatter d))))"

definition parse_at :: "'a yaml \<Rightarrow> string \<Rightarrow> string \<Rightarrow> failure + 'a" where
  "parse_at y path s =
     and_then (map_sum frontmatter_failure id (split_doc s)) (\<lambda>d.
       case dl_frontmatter d of
         None \<Rightarrow> map_sum (\<lambda>e. failed ''frontmatter.invalid_yaml'' (ye_text e)) id (ym_decode y [])
       | Some block \<Rightarrow>
           map_sum (\<lambda>e. let (line, column) = (case ye_location e of Some (l, c) \<Rightarrow> (l + 1, c) | None \<Rightarrow> (2, 1)) in
               failure_at \<lparr>ss_path = path, ss_line = line, ss_column = column, ss_text = s, ss_label = ye_text e\<rparr>
                 (failed ''frontmatter.invalid_yaml'' (path @ '': invalid YAML: '' @ ye_text e))) id
             (ym_decode y block))"

definition yaml_lines :: "string \<Rightarrow> string" where
  "yaml_lines t = (if t \<noteq> [] \<and> last t = newline then t else t @ [newline])"

definition replace_frontmatter :: "'a yaml \<Rightarrow> string \<Rightarrow> 'a \<Rightarrow> frontmatter_error + string" where
  "replace_frontmatter y s v =
     and_then (split_doc s) (\<lambda>d.
     and_then (map_sum UnrenderableYaml id (ym_encode y v)) (\<lambda>t.
       Inr (fence @ [newline] @ yaml_lines t @ fence @ [newline] @ dl_body d)))"

section \<open>Lemmas\<close>

lemma next_line_newline:
  "newline \<notin> set raw \<Longrightarrow> next_line (raw @ newline # rest) = Some (strip_cr raw, rest)"
  by (simp add: next_line_def Let_def takeWhile_append)

lemma strip_cr_fence [simp]: "strip_cr fence = fence"
  by code_simp

lemma next_line_fence [simp]: "next_line (fence @ newline # rest) = Some (fence, rest)"
  by (subst next_line_newline) (simp_all add: fence_def strip_cr_def)

text \<open>A text of whole lines, none of which is a fence, is read as a block.\<close>

definition no_fence :: "string \<Rightarrow> bool" where
  "no_fence t \<longleftrightarrow> (\<forall>raw \<in> set (split_on newline t). strip_cr raw \<noteq> fence)"

lemma split_from_block:
  "\<forall>raw \<in> set raws. newline \<notin> set raw \<and> strip_cr raw \<noteq> fence \<Longrightarrow>
     split_from block (concat (map (\<lambda>raw. raw @ [newline]) raws) @ fence @ newline # body)
       = Some (block @ concat (map (\<lambda>raw. raw @ [newline]) raws), body)"
proof (induction raws arbitrary: block)
  case Nil
  then show ?case by (subst split_from.simps) simp
next
  case (Cons raw raws)
  let ?rest = "concat (map (\<lambda>raw. raw @ [newline]) raws) @ fence @ newline # body"
  have "next_line (raw @ newline # ?rest) = Some (strip_cr raw, ?rest)" by (rule next_line_newline) (use Cons.prems in simp)
  then show ?case using Cons.IH [of "block @ raw @ [newline]"] Cons.prems
    by (subst split_from.simps) (simp add: Suc_diff_le)
qed

lemma split_lines: "t = [] \<or> last t = newline \<Longrightarrow> concat (map (\<lambda>raw. raw @ [newline]) (butlast (split_on newline t))) = t"
proof (induction t rule: length_induct)
  case (1 t)
  show ?case
  proof (rule split_on_first [of newline t])
    assume "newline \<notin> set t" "split_on newline t = [t]"
    then show ?thesis using 1(2) by (cases "t = []") (auto dest: last_in_set)
  next
    fix p r assume t: "t = p @ newline # r" and split: "split_on newline t = p # split_on newline r"
    have "r = [] \<or> last r = newline" using 1(2) t by (cases "r = []") auto
    then have "concat (map (\<lambda>raw. raw @ [newline]) (butlast (split_on newline r))) = r"
      using 1(1) [rule_format, of r] t by auto
    then show ?thesis using t split by simp
  qed
qed

lemma split_replaced:
  assumes "no_fence (yaml_lines t)"
  shows "split_doc (fence @ [newline] @ yaml_lines t @ fence @ [newline] @ body)
    = Inr \<lparr>dl_frontmatter = Some (yaml_lines t), dl_body = body\<rparr>"
proof -
  let ?raws = "butlast (split_on newline (yaml_lines t))"
  have "yaml_lines t = [] \<or> last (yaml_lines t) = newline" by (simp add: yaml_lines_def)
  then have lines: "concat (map (\<lambda>raw. raw @ [newline]) ?raws) = yaml_lines t" by (rule split_lines)
  have "newline \<notin> set raw \<and> strip_cr raw \<noteq> fence" if "raw \<in> set ?raws" for raw
  proof -
    have raw: "raw \<in> set (split_on newline (yaml_lines t))" using that by (rule in_set_butlastD)
    show ?thesis using split_on_no_sep [OF raw] assms raw by (simp add: no_fence_def)
  qed
  then have raws: "\<forall>raw \<in> set ?raws. newline \<notin> set raw \<and> strip_cr raw \<noteq> fence" by blast
  from split_from_block [OF raws, of "[]" body] have "split_from [] (yaml_lines t @ fence @ newline # body) = Some (yaml_lines t, body)"
    unfolding lines by simp
  then show ?thesis by (simp add: split_doc_def)
qed

text \<open>
  C40: replacing the front matter keeps the body byte for byte and is read back, for any document
  that can be split and YAML without a line that is a fence, which the codec reads back.
\<close>

theorem replaced_frontmatter_reads_back:
  assumes "split_doc s = Inr d" and "ym_encode y v = Inr t" and "no_fence (yaml_lines t)" and "ym_decode y (yaml_lines t) = Inr v"
  shows "\<exists>s'. replace_frontmatter y s v = Inr s' \<and> (\<exists>d'. split_doc s' = Inr d' \<and> dl_body d' = dl_body d)
    \<and> parse_at y path s' = Inr v \<and> parse_frontmatter y s' = Inr v"
  using assms split_replaced [OF assms(3), of "dl_body d"]
  by (simp add: replace_frontmatter_def parse_at_def parse_frontmatter_def)

theorem replaced_frontmatter_reads_back_witness:
  "\<exists>s'. replace_frontmatter \<lparr>ym_decode = Inr, ym_encode = Inr\<rparr> (''---'' @ [CHR 0x0D, newline] @ ''a: 1'' @ [newline] @ ''---'' @ [newline] @ ''body'' @ [CHR 0x0D])
        (''b: 2'' @ [newline]) = Inr s'
    \<and> parse_at \<lparr>ym_decode = Inr, ym_encode = Inr\<rparr> ''p'' s' = Inr (''b: 2'' @ [newline])"
proof -
  let ?s = "''---'' @ [CHR 0x0D, newline] @ ''a: 1'' @ [newline] @ ''---'' @ [newline] @ ''body'' @ [CHR 0x0D]"
  have s: "split_doc ?s = Inr \<lparr>dl_frontmatter = Some (''a: 1'' @ [newline]), dl_body = ''body'' @ [CHR 0x0D]\<rparr>" by code_simp
  have f: "no_fence (yaml_lines (''b: 2'' @ [newline]))" by code_simp
  show ?thesis
    using replaced_frontmatter_reads_back [OF s, of "\<lparr>ym_decode = Inr, ym_encode = Inr\<rparr>" "''b: 2'' @ [newline]" "''b: 2'' @ [newline]" "''p''"] f
    by (auto simp: yaml_lines_def)
qed

end
