(* ===== verification/Close.thy ===== *)
theory Close
  imports Feature_Work Execute Frontmatter
begin

text \<open>
  How a feature ends: the close record on the front matter of its plan, read and written by
  \<open>src/src/action/feature/lifecycle.rs\<close>, and the verb of \<open>src/src/action/feature/close.rs\<close>.
\<close>

section \<open>The close record\<close>

text \<open>\<open>PlanFrontmatter\<close> of \<open>src/src/domain/plan.rs\<close>; \<open>fm_extra\<close> are the keys that are not known here.\<close>

record plan_frontmatter =
  fm_repos :: "string list"
  fm_outcome :: "string option"
  fm_closed_at :: "string option"
  fm_extra :: "(string \<times> json) list"

record close_record =
  zr_outcome :: string
  zr_closed_at :: string

text \<open>
  The YAML codec, the digest, the clock, and the files: \<open>ze_read\<close> and \<open>ze_write\<close> say whether
  a file can be read and written.  The import of a legacy board and the current run are those
  of the run store.
\<close>

record 'g close_env =
  ze_layout :: layout
  ze_yaml :: "plan_frontmatter yaml"
  ze_hash :: "string \<Rightarrow> string"
  ze_now :: string
  ze_read :: "string \<Rightarrow> 'g \<Rightarrow> failure + unit"
  ze_write :: "string \<Rightarrow> 'g \<Rightarrow> failure + unit"
  ze_import :: "feature_name \<Rightarrow> 'g \<Rightarrow> (failure + unit) \<times> 'g"
  ze_receipt :: "'g \<Rightarrow> feature_name \<Rightarrow> failure + run_receipt option"
  ze_remove :: "string \<Rightarrow> 'g \<Rightarrow> (failure + unit) \<times> 'g"

definition plan_file :: "layout \<Rightarrow> feature_name \<Rightarrow> string" where
  "plan_file lay n = path_join (plan_dir lay n) ''plan.md''"

definition approvals_file :: "layout \<Rightarrow> feature_name \<Rightarrow> string" where
  "approvals_file lay n = path_join (planning_dir lay n) ''approvals.json''"

definition read_close :: "'g close_env \<Rightarrow> feature_name \<Rightarrow> 'g work_state \<Rightarrow> failure + close_record option" where
  "read_close env n s =
     and_then (ze_read env (plan_file (ze_layout env) n) (wk_git s)) (\<lambda>_.
       case pl_text (wk_plans s n) of
         None \<Rightarrow> Inr None
       | Some t \<Rightarrow>
           and_then (parse_at (ze_yaml env) (plan_file (ze_layout env) n) t) (\<lambda>fm.
             Inr (map_option (\<lambda>out. \<lparr>zr_outcome = out, zr_closed_at = unwrap_or [] (fm_closed_at fm)\<rparr>) (fm_outcome fm))))"

section \<open>Writing it\<close>

definition set_plan :: "feature_name \<Rightarrow> (plan_files \<Rightarrow> plan_files) \<Rightarrow> 'g work_state \<Rightarrow> 'g work_state" where
  "set_plan n f s = s\<lparr>wk_plans := (wk_plans s)(n := f (wk_plans s n))\<rparr>"

text \<open>Whether the approval of the plan stands on the text that is replaced.\<close>

definition approval_stands_on :: "(string \<Rightarrow> string) \<Rightarrow> string \<Rightarrow> approvals \<Rightarrow> bool" where
  "approval_stands_on hash before a =
     (case gate_record_of a Plan of
        None \<Rightarrow> False
      | Some r \<Rightarrow> gr_state r = Approved
          \<and> (gr_fingerprint r = Some (hash (normalize_checkboxes before)) \<or> gr_fingerprint r = Some (hash before)))"

definition resealed :: "(string \<Rightarrow> string) \<Rightarrow> string \<Rightarrow> string \<Rightarrow> approvals \<Rightarrow> approvals option" where
  "resealed hash before after a =
     (let a = approvals_normalize a in
      if approval_stands_on hash before a
      then Some (approvals_set Plan Approved (Some (hash (normalize_checkboxes after))) a) else None)"

definition reseal_plan_approval :: "'g close_env \<Rightarrow> feature_name \<Rightarrow> string \<Rightarrow> string \<Rightarrow> ('g, unit) work" where
  "reseal_plan_approval env n before after =
     bind_s (gets_s (\<lambda>s. map_sum id (\<lambda>_. pl_approvals (wk_plans s n)) (ze_read env (approvals_file (ze_layout env) n) (wk_git s)))) (\<lambda>stored.
       case Option.bind stored (resealed (ze_hash env) before after) of
         None \<Rightarrow> return_s ()
       | Some a \<Rightarrow>
           bind_s (gets_s (\<lambda>s. ze_write env (approvals_file (ze_layout env) n) (wk_git s))) (\<lambda>_.
             modify_s (set_plan n (\<lambda>p. p\<lparr>pl_approvals := Some a\<rparr>))))"

definition write_close :: "'g close_env \<Rightarrow> feature_name \<Rightarrow> promotion_outcome \<Rightarrow> ('g, close_record) work" where
  "write_close env n out =
     bind_s (gets_s (\<lambda>s. map_sum id (\<lambda>_. unwrap_or [] (pl_text (wk_plans s n))) (ze_read env (plan_file (ze_layout env) n) (wk_git s)))) (\<lambda>source.
     bind_s (lift_s (parse_at (ze_yaml env) (plan_file (ze_layout env) n) source)) (\<lambda>fm.
       let record = \<lparr>zr_outcome = promotion_outcome_display out, zr_closed_at = ze_now env\<rparr> in
     bind_s (lift_s (map_sum frontmatter_failure id (replace_frontmatter (ze_yaml env) source
               (fm\<lparr>fm_outcome := Some (zr_outcome record), fm_closed_at := Some (zr_closed_at record)\<rparr>)))) (\<lambda>rendered.
     bind_s (gets_s (\<lambda>s. ze_write env (plan_file (ze_layout env) n) (wk_git s))) (\<lambda>_.
     bind_s (modify_s (set_plan n (\<lambda>p. p\<lparr>pl_text := Some rendered\<rparr>))) (\<lambda>_.
     bind_s (reseal_plan_approval env n source rendered) (\<lambda>_.
       return_s record))))))"

section \<open>The verb\<close>

record close_input =
  zi_name :: string
  zi_outcome :: string

record close_outcome =
  zo_root :: string
  zo_name :: feature_name
  zo_outcome :: promotion_outcome
  zo_closed_at :: string
  zo_already_closed :: bool

definition close_run_active :: "feature_name \<Rightarrow> run_receipt \<Rightarrow> failure" where
  "close_run_active n r =
     with_fix (finish_or_interrupt_fix n)
       (with_actual ''the current run is still resumable and holds the feature lock''
         (with_expected ''a terminal run receipt before closing the feature''
           (blocked ''feature.close_run_active''
             (''feature '' @ quoted (feature_str n) @ '' has a '' @ run_status_display (rr_status r)
              @ '' run ('' @ quoted (run_id_str (rr_id r)) @ '')''))))"

definition close_child_required :: "feature_name \<Rightarrow> failure" where
  "close_child_required n =
     with_fix (fix_safe ''feature.close_delivered_or_abandoned''
         ''A root closes as `delivered` (or `abandoned`). A child closes as `integrated` only through `ivar feature integrate`.'')
       (with_actual ''this feature has no parent''
         (with_expected ''a child feature (one with a parent) to close as integrated''
           (blocked ''feature.close_integrated_child_required''
             (''feature '' @ quoted (feature_str n) @ '' is not a child, so it cannot close as `integrated`''))))"

definition close_receipts_required :: "feature_name \<Rightarrow> failure" where
  "close_receipts_required n =
     with_fix (fix_safe ''feature.integrate_first'' (''Integrate the child first with `ivar feature integrate '' @ feature_str n @ ''`.''))
       (with_actual ''at least one promotion is unreceipted or carries failed evidence''
         (with_expected ''a fresh passing receipt for every promoted repo''
           (blocked ''feature.close_integrated_receipts_required''
             (''feature '' @ quoted (feature_str n) @ '' has no passing integration receipt on every promotion, so it cannot close as `integrated`''))))"

definition close_parsed :: "close_input \<Rightarrow> hall \<Rightarrow> failure + feature_name \<times> promotion_outcome \<times> feature" where
  "close_parsed i m =
     and_then (named (feature_name_new (zi_name i))) (\<lambda>n.
     and_then (map_sum unknown_outcome id (promotion_outcome_parse (zi_outcome i))) (\<lambda>out.
     and_then (read_feature m n) (\<lambda>f. Inr (n, out, f))))"

definition refuse_held_lock :: "'g close_env \<Rightarrow> feature_name \<Rightarrow> 'g \<Rightarrow> failure + unit" where
  "refuse_held_lock env n g =
     and_then (ze_receipt env g n) (\<lambda>r.
       case r of
         Some r \<Rightarrow> if holds_lock (rr_status r) then Inl (close_run_active n r) else Inr ()
       | None \<Rightarrow> Inr ())"

definition refuse_unearned :: "promotion_outcome \<Rightarrow> feature_name \<Rightarrow> feature \<Rightarrow> failure + unit" where
  "refuse_unearned out n f =
     (if out = OutcomeIntegrated \<and> ft_parent f = None then Inl (close_child_required n)
      else if out = OutcomeIntegrated \<and> \<not> all_promotions_have_passing_receipts f then Inl (close_receipts_required n)
      else Inr ())"

definition close :: "'g close_env \<Rightarrow> close_input \<Rightarrow> ('g, close_outcome) work" where
  "close env i =
     bind_s (gets_s (\<lambda>s. close_parsed i (wk_features s))) (\<lambda>(n, out, f).
     bind_s (outside_work (ze_import env n)) (\<lambda>_.
     bind_s (gets_s (\<lambda>s. refuse_held_lock env n (wk_git s))) (\<lambda>_.
     bind_s (gets_s (read_close env n)) (\<lambda>record.
       case record of
         Some r \<Rightarrow>
           return_s \<lparr>zo_root = lay_root (ze_layout env), zo_name = n, zo_outcome = unwrap_or OutcomeAbandoned (known_outcome (zr_outcome r)),
                     zo_closed_at = zr_closed_at r, zo_already_closed = True\<rparr>
       | None \<Rightarrow>
           bind_s (lift_s (refuse_unearned out n f)) (\<lambda>_.
           bind_s (outside_work (ze_remove env (feature_sessions_dir (ze_layout env) n))) (\<lambda>_.
           bind_s (write_close env n out) (\<lambda>r.
           bind_s (emit_work (scope_for_feature f) (EvClosed (promotion_outcome_display out))) (\<lambda>_.
             return_s \<lparr>zo_root = lay_root (ze_layout env), zo_name = n, zo_outcome = out,
                       zo_closed_at = zr_closed_at r, zo_already_closed = False\<rparr>))))))))"

end
