(* ===== verification/Close_Safety.thy ===== *)
theory Close_Safety
  imports Close
begin

text \<open>
  Closing keeps what was closed, the body of the plan and the standing of its approval, and
  gives no feature an outcome it did not earn.
\<close>

section \<open>Approvals\<close>

text \<open>When the plan gate is approved in effect: nothing drifted and nothing upstream is missing.\<close>

lemma plan_approved_iff:
  "gate_state_of (reconciled a art) Plan = Some Approved \<longleftrightarrow>
     gate_state_of (approvals_normalize a) Plan = Some Approved \<and> drifted_gates (approvals_normalize a) art = []
     \<and> incoherent_approvals (approvals_normalize a) art = []"
proof -
  have down: "Plan \<in> set (and_downstream g)" for g by (cases g) simp_all
  have none: "\<not> (\<exists>g \<in> set gs. Plan \<in> set (and_downstream g)) \<longleftrightarrow> gs = []" for gs using down by (cases gs) auto
  show ?thesis unfolding reconciled_def Let_def state_of_invalidate_all none by (cases "drifted_gates (approvals_normalize a) art") auto
qed

definition one_record_each :: "approvals \<Rightarrow> bool" where
  "one_record_each a \<longleftrightarrow> distinct (map gr_gate a)"

lemma distinct_map_sorted_gates: "distinct (map f (sort_key k xs)) \<longleftrightarrow> distinct (map f xs)"
  by (rule mset_eq_imp_distinct_iff) simp

lemma normalize_one_record:
  assumes "one_record_each a"
  shows "one_record_each (approvals_normalize a)"
proof -
  have "distinct (map gr_gate (foldl (\<lambda>acc g. if list_ex (\<lambda>r. gr_gate r = g) acc then acc else acc @ [pending_record g]) a gs))" for gs
    using assms unfolding one_record_each_def
  proof (induction gs arbitrary: a)
    case (Cons g gs)
    have "distinct (map gr_gate (if list_ex (\<lambda>r. gr_gate r = g) a then a else a @ [pending_record g]))"
      using Cons.prems by (auto simp: list_ex_iff pending_record_def)
    then show ?case using Cons.IH by simp
  qed simp
  then show ?thesis
    by (simp add: one_record_each_def approvals_normalize_def distinct_map_sorted_gates)
qed

lemma drifted_none_iff:
  assumes "one_record_each a"
  shows "drifted_gates a art = [] \<longleftrightarrow>
    (\<forall>g r. gate_record_of a g = Some r \<longrightarrow> gr_state r = Approved \<longrightarrow> art g = gr_fingerprint r)"
proof -
  have get: "gate_record_of a (gr_gate r) = Some r" if "r \<in> set a" for r
    using assms that unfolding one_record_each_def gate_record_of_def by (induction a) auto
  show ?thesis
    by (auto simp: drifted_gates_def filter_empty_conv dest: record_of_gate get)
qed

lemma set_plan_gates:
  assumes "gate_record_of a Plan = Some r"
  shows "map gr_gate (approvals_set Plan Approved fp a) = map gr_gate a"
  using assms by (simp add: approvals_set_def update_gates)

lemma incoherent_cong:
  assumes "\<And>g. gate_state_of a g = Some Approved \<longleftrightarrow> gate_state_of b g = Some Approved" and "\<And>g. g \<noteq> Plan \<Longrightarrow> art g = art' g"
  shows "incoherent_approvals a art = incoherent_approvals b art'"
proof -
  have up: "c \<noteq> Plan" if "c \<noteq> g" "g \<in> set (and_downstream c)" for c g using that by (cases c) auto
  have "first_blocking_upstream a art g = None \<longleftrightarrow> first_blocking_upstream b art' g = None" for g
    unfolding no_blocking_iff using assms up by metis
  then show ?thesis unfolding incoherent_approvals_def using assms(1) by simp
qed

lemma resealed_stands:
  assumes a: "one_record_each a" and stands: "gate_state_of (reconciled a art) Plan = Some Approved"
    and before: "art Plan = Some (hash (normalize_checkboxes before))"
    and after: "art' Plan = Some (hash (normalize_checkboxes after))" and same: "\<And>g. g \<noteq> Plan \<Longrightarrow> art' g = art g"
  obtains b where "resealed hash before after a = Some b" "gate_state_of (reconciled b art') Plan = Some Approved"
proof -
  let ?n = "approvals_normalize a" and ?fp = "Some (hash (normalize_checkboxes after))"
  from stands have n: "gate_state_of ?n Plan = Some Approved" "drifted_gates ?n art = []" "incoherent_approvals ?n art = []"
    unfolding plan_approved_iff by simp_all
  have one: "one_record_each ?n" by (rule normalize_one_record [OF a])
  from n(1) obtain r where r: "gate_record_of ?n Plan = Some r" "gr_state r = Approved" by (auto simp: gate_state_of_def)
  with n(2) have "gr_fingerprint r = Some (hash (normalize_checkboxes before))"
    unfolding drifted_none_iff [OF one] using before by metis
  with r have b: "resealed hash before after a = Some (approvals_set Plan Approved ?fp ?n)"
    by (simp add: resealed_def Let_def approval_stands_on_def)
  let ?b = "approvals_set Plan Approved ?fp ?n"
  have gates: "map gr_gate ?b = map gr_gate ?n" by (rule set_plan_gates [OF r(1)])
  then have fixed: "approvals_normalize ?b = ?b"
    using normalized_gates [of a] by (intro normalize_fixed) (simp_all only: gates set_map)
  have oneb: "one_record_each ?b" using one unfolding one_record_each_def gates .
  have rec: "gate_record_of ?b g = (if g = Plan then Some \<lparr>gr_gate = Plan, gr_state = Approved, gr_fingerprint = ?fp\<rparr> else gate_record_of ?n g)" for g
    by (rule record_of_set)
  have "gate_state_of (reconciled ?b art') Plan = Some Approved"
    unfolding plan_approved_iff fixed
  proof (intro conjI)
    show "gate_state_of ?b Plan = Some Approved" by (simp add: gate_state_of_def rec)
    show "drifted_gates ?b art' = []"
      using n(2) after same unfolding drifted_none_iff [OF oneb] drifted_none_iff [OF one] rec by simp
    have "incoherent_approvals ?b art' = incoherent_approvals ?n art"
      using same n(1) by (intro incoherent_cong) (simp_all add: gate_state_of_def rec)
    then show "incoherent_approvals ?b art' = []" using n(3) by simp
  qed
  with b that show ?thesis by blast
qed


section \<open>The verb\<close>

text \<open>What the code relies on of the YAML library: what it writes is read back and holds no fence.\<close>

definition yaml_laws :: "'a yaml \<Rightarrow> bool" where
  "yaml_laws y \<longleftrightarrow> (\<forall>v t. ym_encode y v = Inr t \<longrightarrow> no_fence (yaml_lines t) \<and> ym_decode y (yaml_lines t) = Inr v)"

lemma reseal_effect:
  assumes "reseal_plan_approval env n before after s = (Inr (), s')"
  shows "wk_git s' = wk_git s \<and> wk_events s' = wk_events s
     \<and> wk_features s' = wk_features s \<and> (\<forall>k. pl_text (wk_plans s' k) = pl_text (wk_plans s k)) \<and> (\<forall>k. k \<noteq> n \<longrightarrow> wk_plans s' k = wk_plans s k)
     \<and> pl_approvals (wk_plans s' n) = (case Option.bind (pl_approvals (wk_plans s n)) (resealed (ze_hash env) before after) of
          Some b \<Rightarrow> Some b | None \<Rightarrow> pl_approvals (wk_plans s n))"
proof (cases "Option.bind (pl_approvals (wk_plans s n)) (resealed (ze_hash env) before after)")
  case None
  with assms have "s' = s" by (auto simp: reseal_plan_approval_def effect_simps map_sum_Inr)
  with None show ?thesis by simp
next
  case (Some b)
  with assms have "s' = set_plan n (\<lambda>p. p\<lparr>pl_approvals := Some b\<rparr>) s" by (auto simp: reseal_plan_approval_def effect_simps map_sum_Inr)
  with Some show ?thesis by (simp add: set_plan_def)
qed

lemma write_close_effect:
  assumes "write_close env n out s = (Inr r, s')"
  obtains fm rendered where "parse_at (ze_yaml env) (plan_file (ze_layout env) n) (unwrap_or [] (pl_text (wk_plans s n))) = Inr fm"
    "replace_frontmatter (ze_yaml env) (unwrap_or [] (pl_text (wk_plans s n)))
       (fm\<lparr>fm_outcome := Some (promotion_outcome_display out), fm_closed_at := Some (ze_now env)\<rparr>) = Inr rendered"
    "pl_text (wk_plans s' n) = Some rendered" "\<forall>k. k \<noteq> n \<longrightarrow> wk_plans s' k = wk_plans s k" "wk_features s' = wk_features s"
    "pl_approvals (wk_plans s' n) = (case Option.bind (pl_approvals (wk_plans s n))
        (resealed (ze_hash env) (unwrap_or [] (pl_text (wk_plans s n))) rendered) of
          Some b \<Rightarrow> Some b | None \<Rightarrow> pl_approvals (wk_plans s n))"
    "zr_closed_at r = ze_now env" "wk_git s' = wk_git s" "wk_events s' = wk_events s"
proof -
  let ?t = "unwrap_or [] (pl_text (wk_plans s n))"
  let ?entry = "\<lparr>zr_outcome = promotion_outcome_display out, zr_closed_at = ze_now env\<rparr>"
  from assms obtain fm rendered where fm: "parse_at (ze_yaml env) (plan_file (ze_layout env) n) ?t = Inr fm"
    and rendered: "map_sum frontmatter_failure id (replace_frontmatter (ze_yaml env) ?t
       (fm\<lparr>fm_outcome := Some (promotion_outcome_display out), fm_closed_at := Some (ze_now env)\<rparr>)) = Inr rendered"
    and seal: "reseal_plan_approval env n ?t rendered (set_plan n (\<lambda>p. p\<lparr>pl_text := Some rendered\<rparr>) s) = (Inr (), s')"
    and r: "r = ?entry"
    unfolding write_close_def Let_def by (auto simp: effect_simps map_sum_Inr)
  from rendered have "replace_frontmatter (ze_yaml env) ?t
      (fm\<lparr>fm_outcome := Some (promotion_outcome_display out), fm_closed_at := Some (ze_now env)\<rparr>) = Inr rendered"
    by (simp add: map_sum_Inr)
  note that [OF fm this]
  moreover have "wk_plans (set_plan n (\<lambda>p. p\<lparr>pl_text := Some rendered\<rparr>) s) = (wk_plans s)(n := wk_plans s n\<lparr>pl_text := Some rendered\<rparr>)"
    "wk_features (set_plan n (\<lambda>p. p\<lparr>pl_text := Some rendered\<rparr>) s) = wk_features s"
    "wk_git (set_plan n (\<lambda>p. p\<lparr>pl_text := Some rendered\<rparr>) s) = wk_git s"
    "wk_events (set_plan n (\<lambda>p. p\<lparr>pl_text := Some rendered\<rparr>) s) = wk_events s" by (simp_all add: set_plan_def)
  ultimately show ?thesis using reseal_effect [OF seal] r by (simp cong: option.case_cong)
qed

lemma close_first:
  assumes "close env i s = (Inr out, s')" and "\<not> zo_already_closed out"
  obtains n f t u where "close_parsed i (wk_features s) = Inr (n, zo_outcome out, f)" "zo_name out = n"
    "refuse_unearned (zo_outcome out) n f = Inr ()" "wk_plans t = wk_plans s" "wk_features t = wk_features s"
    "\<exists>s1. write_close env n (zo_outcome out) t = (Inr u, s1) \<and> wk_plans s' = wk_plans s1 \<and> wk_features s' = wk_features s1
       \<and> wk_git s' = wk_git s1 \<and> wk_events s' = wk_events s1 @ [(scope_for_feature f, EvClosed (promotion_outcome_display (zo_outcome out)))]"
    "wk_events t = wk_events s" "\<exists>g. ze_import env n (wk_git s) = (Inr (), g) \<and> ze_remove env (feature_sessions_dir (ze_layout env) n) g = (Inr (), wk_git t)"
    "zr_closed_at u = zo_closed_at out" "\<exists>g. read_close env n (s\<lparr>wk_git := g\<rparr>) = Inr None"
proof -
  from assms obtain n o1 f t1 t2 u s1 where p: "close_parsed i (wk_features s) = Inr (n, o1, f)"
    and t1: "outside_work (ze_import env n) s = (Inr (), t1)" and rc: "read_close env n t1 = Inr None"
    and un: "refuse_unearned o1 n f = Inr ()" and t2: "outside_work (ze_remove env (feature_sessions_dir (ze_layout env) n)) t1 = (Inr (), t2)"
    and w: "write_close env n o1 t2 = (Inr u, s1)"
    and e: "emit_work (scope_for_feature f) (EvClosed (promotion_outcome_display o1)) s1 = (Inr (), s')"
    and out: "zo_outcome out = o1" "zo_name out = n" "zo_closed_at out = zr_closed_at u"
    unfolding close_def by (auto simp: effect_simps split: option.splits)
  have part: "\<exists>g. op (wk_git t) = (r, g) \<and> t' = t\<lparr>wk_git := g\<rparr>" if "outside_work op t = (r, t')" for op :: "'a \<Rightarrow> (failure + unit) \<times> 'a" and t t' r
    using that by (auto simp: outside_work_def split: prod.splits)
  from part [OF t1] part [OF t2] obtain g1 g2 where g: "t1 = s\<lparr>wk_git := g1\<rparr>" "t2 = t1\<lparr>wk_git := g2\<rparr>"
    "ze_import env n (wk_git s) = (Inr (), g1)" "ze_remove env (feature_sessions_dir (ze_layout env) n) g1 = (Inr (), g2)" by auto
  have "wk_plans s' = wk_plans s1" "wk_features s' = wk_features s1" "wk_git s' = wk_git s1"
    "wk_events s' = wk_events s1 @ [(scope_for_feature f, EvClosed (promotion_outcome_display o1))]"
    using e by (auto simp: emit_work_def effect_simps)
  with p un w out g rc show ?thesis by (intro that [of n f t2 u]) auto
qed


definition close_keeps :: "'g close_env \<Rightarrow> feature_name \<Rightarrow> promotion_outcome \<Rightarrow> 'g work_state \<Rightarrow> 'g work_state \<Rightarrow> bool" where
  "close_keeps env n out s s' \<longleftrightarrow>
     (\<exists>before after d fm. before = unwrap_or [] (pl_text (wk_plans s n)) \<and> pl_text (wk_plans s' n) = Some after
        \<and> split_doc before = Inr d \<and> (\<exists>d'. split_doc after = Inr d' \<and> dl_body d' = dl_body d)
        \<and> parse_at (ze_yaml env) (plan_file (ze_layout env) n) before = Inr fm
        \<and> parse_at (ze_yaml env) (plan_file (ze_layout env) n) after
            = Inr (fm\<lparr>fm_outcome := Some (promotion_outcome_display out), fm_closed_at := Some (ze_now env)\<rparr>)
        \<and> (\<forall>a art. pl_approvals (wk_plans s n) = Some a \<and> one_record_each a
              \<and> art Plan = Some (ze_hash env (normalize_checkboxes before)) \<and> gate_state_of (reconciled a art) Plan = Some Approved \<longrightarrow>
             (\<exists>b. pl_approvals (wk_plans s' n) = Some b
               \<and> gate_state_of (reconciled b (art(Plan := Some (ze_hash env (normalize_checkboxes after))))) Plan = Some Approved)))"

lemma close_stamps_keeps:
  assumes run: "close env i s = (Inr out, s')" and first: "\<not> zo_already_closed out" and yaml: "yaml_laws (ze_yaml env)"
  shows "\<exists>f. read_feature (wk_features s) (zo_name out) = Inr f
    \<and> (zo_outcome out = OutcomeIntegrated \<longrightarrow> ft_parent f \<noteq> None \<and> all_promotions_have_passing_receipts f)
    \<and> wk_features s' = wk_features s \<and> (\<forall>k. k \<noteq> zo_name out \<longrightarrow> wk_plans s' k = wk_plans s k)
    \<and> close_keeps env (zo_name out) (zo_outcome out) s s'"
proof -
  from run first obtain n f t u where p: "close_parsed i (wk_features s) = Inr (n, zo_outcome out, f)" "zo_name out = n"
      "refuse_unearned (zo_outcome out) n f = Inr ()"
    and t: "wk_plans t = wk_plans s" "wk_features t = wk_features s"
    and w: "\<exists>s1. write_close env n (zo_outcome out) t = (Inr u, s1) \<and> wk_plans s' = wk_plans s1 \<and> wk_features s' = wk_features s1"
    by (rule close_first) blast
  let ?y = "ze_yaml env" and ?before = "unwrap_or [] (pl_text (wk_plans s n))" and ?path = "plan_file (ze_layout env) n"
  from w obtain s1 where s1: "write_close env n (zo_outcome out) t = (Inr u, s1)" "wk_plans s' = wk_plans s1" "wk_features s' = wk_features s1" by blast
  from s1(1) obtain fm after where fm: "parse_at ?y ?path ?before = Inr fm"
    and rep: "replace_frontmatter ?y ?before (fm\<lparr>fm_outcome := Some (promotion_outcome_display (zo_outcome out)), fm_closed_at := Some (ze_now env)\<rparr>) = Inr after"
    and plans: "pl_text (wk_plans s' n) = Some after" "\<forall>k. k \<noteq> n \<longrightarrow> wk_plans s' k = wk_plans s k" "wk_features s' = wk_features s"
    and seal: "pl_approvals (wk_plans s' n) = (case Option.bind (pl_approvals (wk_plans s n)) (resealed (ze_hash env) ?before after) of
          Some b \<Rightarrow> Some b | None \<Rightarrow> pl_approvals (wk_plans s n))"
    by (rule write_close_effect) (use s1 t in \<open>simp cong: option.case_cong\<close>)
  let ?fm = "fm\<lparr>fm_outcome := Some (promotion_outcome_display (zo_outcome out)), fm_closed_at := Some (ze_now env)\<rparr>"
  from rep obtain d written where d: "split_doc ?before = Inr d" "ym_encode ?y ?fm = Inr written"
    by (auto simp: replace_frontmatter_def and_then_eq_Inr map_sum_Inr)
  with yaml have laws: "no_fence (yaml_lines written)" "ym_decode ?y (yaml_lines written) = Inr ?fm" by (simp_all add: yaml_laws_def)
  have "after = fence @ [newline] @ yaml_lines written @ fence @ [newline] @ dl_body d"
    using rep d by (simp add: replace_frontmatter_def)
  then have doc: "split_doc after = Inr \<lparr>dl_frontmatter = Some (yaml_lines written), dl_body = dl_body d\<rparr>"
    using split_replaced [OF laws(1)] by simp
  then have body: "\<exists>d'. split_doc after = Inr d' \<and> dl_body d' = dl_body d" by simp
  from doc have reads: "parse_at ?y ?path after = Inr ?fm" using laws(2) by (simp add: parse_at_def)
  have stands: "\<exists>b. pl_approvals (wk_plans s' n) = Some b
      \<and> gate_state_of (reconciled b (art(Plan := Some (ze_hash env (normalize_checkboxes after))))) Plan = Some Approved"
    if a: "pl_approvals (wk_plans s n) = Some a" "one_record_each a" "art Plan = Some (ze_hash env (normalize_checkboxes ?before))"
      "gate_state_of (reconciled a art) Plan = Some Approved" for a art
  proof -
    let ?art = "art(Plan := Some (ze_hash env (normalize_checkboxes after)))"
    have "?art Plan = Some (ze_hash env (normalize_checkboxes after))" "\<And>g. g \<noteq> Plan \<Longrightarrow> ?art g = art g" by simp_all
    from resealed_stands [OF a(2) a(4) a(3) this] obtain b where
      "resealed (ze_hash env) ?before after a = Some b" "gate_state_of (reconciled b ?art) Plan = Some Approved" .
    then show ?thesis using seal a(1) by simp
  qed
  have "read_feature (wk_features s) n = Inr f" using p(1) by (auto simp: close_parsed_def and_then_eq_Inr named_def map_sum_Inr)
  moreover have "zo_outcome out = OutcomeIntegrated \<longrightarrow> ft_parent f \<noteq> None \<and> all_promotions_have_passing_receipts f"
    using p(3) by (auto simp: refuse_unearned_def split: if_splits)
  moreover have "close_keeps env n (zo_outcome out) s s'"
    unfolding close_keeps_def
    by (rule exI [of _ ?before], rule exI [of _ after], rule exI [of _ d], rule exI [of _ fm])
      (use plans(1) d(1) body fm reads stands in blast)
  ultimately show ?thesis using plans p(2) by blast
qed


text \<open>
  What may happen to the stored approvals: nothing, or, when the plan gate is recorded as
  approved for the old text (with or without its marks of progress), a new fingerprint for it;
  no gate changes its state.
\<close>

definition resealed_only :: "'g close_env \<Rightarrow> string \<Rightarrow> string \<Rightarrow> approvals option \<Rightarrow> approvals option \<Rightarrow> bool" where
  "resealed_only env before after stored stored' \<longleftrightarrow> stored' = stored
     \<or> (\<exists>a b r. stored = Some a \<and> stored' = Some b \<and> gate_record_of (approvals_normalize a) Plan = Some r \<and> gr_state r = Approved
          \<and> gr_fingerprint r \<in> {Some (ze_hash env (normalize_checkboxes before)), Some (ze_hash env before)}
          \<and> (\<forall>g. gate_record_of b g = (if g = Plan then Some (r\<lparr>gr_fingerprint := Some (ze_hash env (normalize_checkboxes after))\<rparr>)
                                       else gate_record_of (approvals_normalize a) g)))"

lemma resealed_only_holds:
  "resealed_only env before after stored (case Option.bind stored (resealed (ze_hash env) before after) of Some b \<Rightarrow> Some b | None \<Rightarrow> stored)"
proof (cases "Option.bind stored (resealed (ze_hash env) before after)")
  case None
  then show ?thesis by (simp add: resealed_only_def)
next
  case (Some b)
  then obtain a r where a: "stored = Some a" "gate_record_of (approvals_normalize a) Plan = Some r" "gr_state r = Approved"
      "gr_fingerprint r \<in> {Some (ze_hash env (normalize_checkboxes before)), Some (ze_hash env before)}"
      "b = approvals_set Plan Approved (Some (ze_hash env (normalize_checkboxes after))) (approvals_normalize a)"
    by (auto simp: resealed_def Let_def approval_stands_on_def bind_eq_Some_conv split: if_splits option.splits)
  have "gr_gate r = Plan" using record_of_gate [OF a(2)] by blast
  then have "\<forall>g. gate_record_of b g = (if g = Plan then Some (r\<lparr>gr_fingerprint := Some (ze_hash env (normalize_checkboxes after))\<rparr>)
      else gate_record_of (approvals_normalize a) g)"
    using a(3) by (simp add: a(5) record_of_set)
  with a Some show ?thesis unfolding resealed_only_def by auto
qed

lemma close_leaves_rest:
  assumes run: "close env i s = (Inr out, s')" and first: "\<not> zo_already_closed out" and f: "read_feature (wk_features s) (zo_name out) = Inr f"
  shows "(\<exists>g. ze_import env (zo_name out) (wk_git s) = (Inr (), g)
        \<and> ze_remove env (feature_sessions_dir (ze_layout env) (zo_name out)) g = (Inr (), wk_git s'))
    \<and> wk_events s' = wk_events s @ [(scope_for_feature f, EvClosed (promotion_outcome_display (zo_outcome out)))]
    \<and> resealed_only env (unwrap_or [] (pl_text (wk_plans s (zo_name out)))) (unwrap_or [] (pl_text (wk_plans s' (zo_name out))))
        (pl_approvals (wk_plans s (zo_name out))) (pl_approvals (wk_plans s' (zo_name out)))"
proof -
  from run first obtain n f' t u s1 where p: "close_parsed i (wk_features s) = Inr (n, zo_outcome out, f')" "zo_name out = n"
    and t: "wk_plans t = wk_plans s" "wk_events t = wk_events s"
    and outside: "\<exists>g. ze_import env n (wk_git s) = (Inr (), g) \<and> ze_remove env (feature_sessions_dir (ze_layout env) n) g = (Inr (), wk_git t)"
    and w: "write_close env n (zo_outcome out) t = (Inr u, s1)" "wk_plans s' = wk_plans s1" "wk_git s' = wk_git s1"
      "wk_events s' = wk_events s1 @ [(scope_for_feature f', EvClosed (promotion_outcome_display (zo_outcome out)))]"
    by (rule close_first) blast
  have "f' = f" using p f by (auto simp: close_parsed_def and_then_eq_Inr named_def map_sum_Inr)
  moreover obtain rendered where "pl_text (wk_plans s1 n) = Some rendered" "wk_git s1 = wk_git t" "wk_events s1 = wk_events t"
    "pl_approvals (wk_plans s1 n) = (case Option.bind (pl_approvals (wk_plans t n))
        (resealed (ze_hash env) (unwrap_or [] (pl_text (wk_plans t n))) rendered) of
          Some b \<Rightarrow> Some b | None \<Rightarrow> pl_approvals (wk_plans t n))"
    by (rule write_close_effect [OF w(1)])
  moreover note resealed_only_holds [of env "unwrap_or [] (pl_text (wk_plans s n))" rendered "pl_approvals (wk_plans s n)"]
  ultimately show ?thesis using w t outside p(2) by (simp cong: option.case_cong)
qed

text \<open>
  C17: closing a feature that is open stamps the outcome and the time on the front matter of its
  plan, keeps the rest of that front matter and the body byte for byte, and an approval of the
  plan that stands goes on standing.  The verb does this and no more: no feature and no other
  plan changes; of the approvals of the feature at most the fingerprint of the plan gate does,
  and only when the gate is recorded as approved for the old text, as it reads or with its
  marks of progress removed; outside the hall a legacy run is imported and the sessions of the
  feature are removed, in this order; one event is told.  And only a child whose every
  promotion carries a passing receipt is closed as integrated.
\<close>

theorem close_stamps_the_plan:
  assumes run: "close env i s = (Inr out, s')" and first: "\<not> zo_already_closed out" and yaml: "yaml_laws (ze_yaml env)"
  shows "\<exists>f g. read_feature (wk_features s) (zo_name out) = Inr f
    \<and> (zo_outcome out = OutcomeIntegrated \<longrightarrow> ft_parent f \<noteq> None \<and> all_promotions_have_passing_receipts f)
    \<and> wk_features s' = wk_features s \<and> (\<forall>k. k \<noteq> zo_name out \<longrightarrow> wk_plans s' k = wk_plans s k)
    \<and> close_keeps env (zo_name out) (zo_outcome out) s s'
    \<and> resealed_only env (unwrap_or [] (pl_text (wk_plans s (zo_name out)))) (unwrap_or [] (pl_text (wk_plans s' (zo_name out))))
        (pl_approvals (wk_plans s (zo_name out))) (pl_approvals (wk_plans s' (zo_name out)))
    \<and> ze_import env (zo_name out) (wk_git s) = (Inr (), g)
    \<and> ze_remove env (feature_sessions_dir (ze_layout env) (zo_name out)) g = (Inr (), wk_git s')
    \<and> wk_events s' = wk_events s @ [(scope_for_feature f, EvClosed (promotion_outcome_display (zo_outcome out)))]"
proof -
  from close_stamps_keeps [OF run first yaml] obtain f where f: "read_feature (wk_features s) (zo_name out) = Inr f"
    and kept: "zo_outcome out = OutcomeIntegrated \<longrightarrow> ft_parent f \<noteq> None \<and> all_promotions_have_passing_receipts f"
      "wk_features s' = wk_features s" "\<forall>k. k \<noteq> zo_name out \<longrightarrow> wk_plans s' k = wk_plans s k"
      "close_keeps env (zo_name out) (zo_outcome out) s s'" by blast
  from close_leaves_rest [OF run first f] f kept show ?thesis by blast
qed

text \<open>
  C39: a feature that is closed stays as it was closed: closing it again changes no plan, no
  approval, no feature and tells nothing, and what it reports is the recorded outcome, whatever
  outcome is asked for.
\<close>

theorem closed_stays_closed:
  assumes run: "close env i s = (r, s')" and n: "feature_name_new (zi_name i) = Inr n"
    and stored: "pl_text (wk_plans s n) = Some t" "parse_at (ze_yaml env) (plan_file (ze_layout env) n) t = Inr fm" "fm_outcome fm = Some recorded"
  shows "wk_plans s' = wk_plans s \<and> wk_features s' = wk_features s \<and> wk_events s' = wk_events s
    \<and> (\<forall>out. r = Inr out \<longrightarrow> zo_already_closed out \<and> zo_name out = n \<and> zo_outcome out = unwrap_or OutcomeAbandoned (known_outcome recorded))"
proof (cases "close_parsed i (wk_features s)")
  case (Inl e)
  then show ?thesis using run by (auto simp: close_def bind_s_def gets_s_def)
next
  case (Inr x)
  then obtain o1 f where x: "x = (n, o1, f)" using n by (auto simp: close_parsed_def and_then_eq_Inr named_def)
  obtain r1 g1 where i: "ze_import env n (wk_git s) = (r1, g1)" by (rule prod.exhaust)
  let ?t = "s\<lparr>wk_git := g1\<rparr>"
  have rc: "read_close env n ?t = Inl e \<or> read_close env n ?t = Inr (Some \<lparr>zr_outcome = recorded, zr_closed_at = unwrap_or [] (fm_closed_at fm)\<rparr>)"
    if "e = (case ze_read env (plan_file (ze_layout env) n) g1 of Inl e \<Rightarrow> e)" for e
    using stored that by (cases "ze_read env (plan_file (ze_layout env) n) g1") (simp_all add: read_close_def)
  show ?thesis
  proof (cases "r1 = Inr () \<and> refuse_held_lock env n g1 = Inr ()")
    case False
    then show ?thesis using run Inr x i
      by (cases r1; cases "refuse_held_lock env n g1") (auto simp: close_def bind_s_def gets_s_def outside_work_def)
  next
    case True
    with run Inr x i rc [OF refl] show ?thesis
      by (elim disjE) (auto simp: close_def bind_s_def gets_s_def outside_work_def return_s_def)
  qed
qed

section \<open>A sample\<close>

text \<open>A codec of the two keys of a close record, which writes only what it reads back.\<close>

definition two_keys_decode :: "string \<Rightarrow> yaml_error + plan_frontmatter" where
  "two_keys_decode t =
     (case text_lines t of
        [] \<Rightarrow> Inr \<lparr>fm_repos = [], fm_outcome = None, fm_closed_at = None, fm_extra = []\<rparr>
      | [out, at] \<Rightarrow> Inr \<lparr>fm_repos = [], fm_outcome = Some out, fm_closed_at = Some at, fm_extra = []\<rparr>
      | _ \<Rightarrow> Inl \<lparr>ye_text = ''lines'', ye_location = None\<rparr>)"

definition two_keys_yaml :: "plan_frontmatter yaml" where
  "two_keys_yaml =
     \<lparr>ym_decode = two_keys_decode,
      ym_encode = (\<lambda>v. let t = unwrap_or [] (fm_outcome v) @ [newline] @ unwrap_or [] (fm_closed_at v) in
        if no_fence (yaml_lines t) \<and> two_keys_decode (yaml_lines t) = Inr v then Inr t else Inl ''keys'')\<rparr>"

lemma two_keys_laws: "yaml_laws two_keys_yaml"
  by (auto simp: yaml_laws_def two_keys_yaml_def Let_def split: if_splits)

definition closing_env :: "bool close_env" where
  "closing_env =
     \<lparr>ze_layout = layout_at ''/h'', ze_yaml = two_keys_yaml, ze_hash = id, ze_now = ''now'', ze_read = (\<lambda>p g. Inr ()), ze_write = (\<lambda>p g. Inr ()),
      ze_import = (\<lambda>n g. (Inr (), g)), ze_receipt = (\<lambda>g n. Inr None), ze_remove = (\<lambda>p g. (Inr (), True))\<rparr>"

definition closing_state :: "string \<Rightarrow> string \<Rightarrow> bool work_state" where
  "closing_state plan approved =
     \<lparr>wk_git = False, wk_features = [(FeatureName ''checkout'', sample_feature)],
      wk_plans = (\<lambda>n. \<lparr>pl_text = Some plan, pl_approvals = Some [\<lparr>gr_gate = Plan, gr_state = Approved, gr_fingerprint = Some approved\<rparr>]\<rparr>),
      wk_events = []\<rparr>"

definition closing_input :: close_input where
  "closing_input = \<lparr>zi_name = ''checkout'', zi_outcome = ''delivered''\<rparr>"

text \<open>The gate in effect of the plan of a state.\<close>

definition gate_in_effect :: "bool work_state \<Rightarrow> gate_state" where
  "gate_in_effect s =
     (let p = wk_plans s (FeatureName ''checkout'') in
      effective_gate (pl_approvals p) (\<lambda>g. if g = Plan then map_option normalize_checkboxes (pl_text p) else None) Plan)"

text \<open>
  Two closes of the sample, evaluated at once.  In the second the approval was recorded for the
  text with its marks of progress and does not stand any more: the gate needs revision.  Closing
  the feature takes it for one that does and approves the plan again.
\<close>

lemma sample_closes:
  shows sample_close_stamps: "case close closing_env closing_input (closing_state (''# p'' @ [newline]) (''# p'' @ [newline])) of
      (Inr out, _) \<Rightarrow> \<not> zo_already_closed out \<and> zo_outcome out = OutcomeDelivered | _ \<Rightarrow> False"
    and close_revives_drifted_approval: "let before = closing_state (''- [x] a'' @ [newline]) (''- [x] a'' @ [newline]) in
   gate_in_effect before = NeedsRevision
   \<and> (case close closing_env closing_input before of (r, after) \<Rightarrow> is_ok r \<and> gate_in_effect after = Approved)"
proof -
  have "(case close closing_env closing_input (closing_state (''# p'' @ [newline]) (''# p'' @ [newline])) of
      (Inr out, _) \<Rightarrow> \<not> zo_already_closed out \<and> zo_outcome out = OutcomeDelivered | _ \<Rightarrow> False)
    \<and> (let before = closing_state (''- [x] a'' @ [newline]) (''- [x] a'' @ [newline]) in
   gate_in_effect before = NeedsRevision
   \<and> (case close closing_env closing_input before of (r, after) \<Rightarrow> is_ok r \<and> gate_in_effect after = Approved))"
    by code_simp
  then show "case close closing_env closing_input (closing_state (''# p'' @ [newline]) (''# p'' @ [newline])) of
      (Inr out, _) \<Rightarrow> \<not> zo_already_closed out \<and> zo_outcome out = OutcomeDelivered | _ \<Rightarrow> False"
    "let before = closing_state (''- [x] a'' @ [newline]) (''- [x] a'' @ [newline]) in
   gate_in_effect before = NeedsRevision
   \<and> (case close closing_env closing_input before of (r, after) \<Rightarrow> is_ok r \<and> gate_in_effect after = Approved)"
    by (iprover dest: conjunct1 conjunct2)+
qed

theorem close_stamps_the_plan_witness:
  "\<exists>out s'. close closing_env closing_input (closing_state (''# p'' @ [newline]) (''# p'' @ [newline])) = (Inr out, s')
    \<and> close_keeps closing_env (zo_name out) OutcomeDelivered (closing_state (''# p'' @ [newline]) (''# p'' @ [newline])) s'"
proof -
  let ?s = "closing_state (''# p'' @ [newline]) (''# p'' @ [newline])"
  obtain r s' where run: "close closing_env closing_input ?s = (r, s')" by (rule prod.exhaust)
  from sample_close_stamps obtain out where r: "r = Inr out" "\<not> zo_already_closed out" "zo_outcome out = OutcomeDelivered"
    unfolding run by (cases r) auto
  have "yaml_laws (ze_yaml closing_env)" using two_keys_laws by (simp add: closing_env_def)
  from close_stamps_the_plan [OF run [unfolded r(1)] r(2) this] run r show ?thesis by auto
qed

theorem closed_stays_closed_witness:
  "\<exists>r s'. close closing_env closing_input
        (closing_state (''---'' @ [newline] @ ''abandoned'' @ [newline] @ ''now'' @ [newline] @ ''---'' @ [newline]) []) = (r, s')
    \<and> wk_events s' = [] \<and> (\<forall>out. r = Inr out \<longrightarrow> zo_outcome out = OutcomeAbandoned)"
proof -
  let ?t = "''---'' @ [newline] @ ''abandoned'' @ [newline] @ ''now'' @ [newline] @ ''---'' @ [newline]"
  let ?fm = "\<lparr>fm_repos = [], fm_outcome = Some ''abandoned'', fm_closed_at = Some ''now'', fm_extra = []\<rparr>"
  let ?s = "closing_state ?t []"
  obtain r s' where run: "close closing_env closing_input ?s = (r, s')" by (rule prod.exhaust)
  have n: "feature_name_new (zi_name closing_input) = Inr (FeatureName ''checkout'')" by code_simp
  have p: "pl_text (wk_plans ?s (FeatureName ''checkout'')) = Some ?t" by (simp add: closing_state_def)
  have "split_doc ?t = Inr \<lparr>dl_frontmatter = Some (''abandoned'' @ [newline] @ ''now'' @ [newline]), dl_body = []\<rparr>" by code_simp
  moreover have "two_keys_decode (''abandoned'' @ [newline] @ ''now'' @ [newline]) = Inr ?fm" by code_simp
  ultimately have fm: "parse_at (ze_yaml closing_env) (plan_file (ze_layout closing_env) (FeatureName ''checkout'')) ?t = Inr ?fm"
    by (simp add: parse_at_def closing_env_def two_keys_yaml_def)
  have "known_outcome ''abandoned'' = Some OutcomeAbandoned" by (simp add: known_outcome_iff)
  with closed_stays_closed [OF run n p fm, of "''abandoned''"] run show ?thesis by (simp add: closing_state_def)
qed

end
