(* ===== verification/Integrate_Repo.thy ===== *)
theory Integrate_Repo
  imports Close
begin

text \<open>
  The integration of one repository of a child into its parent:
  \<open>types.rs\<close>, \<open>receipts.rs\<close>, \<open>local.rs\<close>, \<open>pr.rs\<close> and \<open>repos.rs\<close> of
  \<open>src/src/action/feature/integrate\<close>.  The candidate is built and checked beside the parent; the
  receipt is written the moment the parent has moved, and again after the checks of the parent.
\<close>

section \<open>Types\<close>

datatype repo_status = RepoReused | RepoIntegrated | RepoPending | RepoFailed | RepoStale

fun repo_status_display :: "repo_status \<Rightarrow> string" where
  "repo_status_display RepoReused = ''reused''"
| "repo_status_display RepoIntegrated = ''integrated''"
| "repo_status_display RepoPending = ''pending''"
| "repo_status_display RepoFailed = ''failed''"
| "repo_status_display RepoStale = ''stale''"

record repo_integration =
  xi_repo :: repo_name
  xi_source_sha :: string
  xi_target_branch :: branch_name
  xi_result_sha :: "string option"
  xi_status :: repo_status
  xi_pr_url :: "string option"
  xi_detail :: "string option"

text \<open>
  \<open>ie_tree\<close> gives the runs and the sessions of the tree; the states of its features are read
  from git, the manifest and the plans.  \<open>ie_others\<close> are the fingerprints of the requirements and
  the analysis.  The \<open>k\<close>-th look at a pull request that merges answers \<open>ie_look\<close>, and the
  deadline has passed from look \<open>ie_deadline\<close> on.
\<close>

record 'g integrate_env =
  ie_git :: "'g merge_git"
  ie_forge :: "'g forge"
  ie_manifest :: "failure + manifest_repo list"
  ie_hall_policy :: integration_policy
  ie_tree :: tree_reads
  ie_others :: "feature_name \<Rightarrow> gate \<Rightarrow> string option"
  ie_commands_digest :: "string list \<Rightarrow> failure + string"
  ie_exec :: "string \<Rightarrow> string \<Rightarrow> 'g \<Rightarrow> (string + proc_output) \<times> 'g"
  ie_look :: "string \<Rightarrow> nat \<Rightarrow> failure + pull_request"
  ie_deadline :: nat
  ie_lock :: "feature_name \<Rightarrow> failure + unit"
  ie_verbs :: "'g verb_env"
  ie_close :: "'g close_env"

abbreviation ie_layout :: "'g integrate_env \<Rightarrow> layout" where
  "ie_layout env \<equiv> ze_layout (ie_close env)"

section \<open>Reading the tree\<close>

definition plan_gate_now :: "'g integrate_env \<Rightarrow> 'g work_state \<Rightarrow> feature_name \<Rightarrow> gate_state" where
  "plan_gate_now env s n =
     effective_gate (pl_approvals (wk_plans s n))
       (\<lambda>g. if g = Plan then map_option (ze_hash (ie_close env) \<circ> normalize_checkboxes) (pl_text (wk_plans s n)) else ie_others env n g)
       Plan"

definition work_reads :: "'g integrate_env \<Rightarrow> manifest_repo list \<Rightarrow> 'g work_state \<Rightarrow> tree_reads" where
  "work_reads env ms s = (ie_tree env)
     \<lparr>tr_git := git_reads_of (git.truncate (ie_git env)) (wk_git s), tr_layout := ie_layout env,
      tr_fingerprint := (\<lambda>r. ie_commands_digest env (checks_for ms r)),
      tr_close := (\<lambda>n. map_sum id (map_option zr_outcome) (read_close (ie_close env) n s)),
      tr_gate := (\<lambda>n. Inr (plan_gate_now env s n))\<rparr>"

definition freshness_now ::
    "'g integrate_env \<Rightarrow> manifest_repo list \<Rightarrow> feature \<Rightarrow> feature \<Rightarrow> repo_name \<Rightarrow> integration_receipt \<Rightarrow> ('g, receipt_freshness) work" where
  "freshness_now env ms child parent repo r = gets_s (\<lambda>s. receipt_freshness_of (work_reads env ms s) child parent repo r)"

section \<open>Verification and receipts\<close>

text \<open>\<open>verification::run\<close> with the fingerprint of its commands.\<close>

definition verify :: "'g integrate_env \<Rightarrow> string list \<Rightarrow> string \<Rightarrow> ('g, string \<times> verification_result list) work" where
  "verify env commands cwd =
     bind_s (lift_s (ie_commands_digest env commands)) (\<lambda>fp s.
       case run_commands (ie_exec env) cwd commands (wk_git s) of (rs, g) \<Rightarrow> (Inr (fp, rs), s\<lparr>wk_git := g\<rparr>))"

definition with_receipt :: "repo_name \<Rightarrow> integration_receipt \<Rightarrow> feature \<Rightarrow> feature" where
  "with_receipt repo r f = f\<lparr>ft_promotions := bt_update repo (\<lambda>p. p\<lparr>pr_receipt := Some r\<rparr>) (ft_promotions f)\<rparr>"

definition persist_receipt :: "feature \<Rightarrow> repo_name \<Rightarrow> integration_receipt \<Rightarrow> ('g, unit) work" where
  "persist_receipt child repo r = hall_work (update_feature (ft_name child) (\<lambda>f. Inr (with_receipt repo r f)))"

definition parent_checks_pending :: verification_result where
  "parent_checks_pending = verification_failed ''parent checks'' None
     ''the parent branch moved but its checks have not run yet; run `ivar feature integrate` again''"

definition failed_receipt_current :: "'g integrate_env \<Rightarrow> feature \<Rightarrow> feature \<Rightarrow> repo_name \<Rightarrow> integration_receipt \<Rightarrow> 'g \<Rightarrow> bool" where
  "failed_receipt_current env child parent repo r g \<longleftrightarrow>
     (let bare = repo_bare (ie_layout env) repo in
      g_revision_commit (ie_git env) g bare (branch_str (ft_branch child)) = Inr (ir_source_sha r)
      \<and> ok_true (g_is_ancestor (ie_git env) g bare (ir_result_sha r) (branch_str (ft_branch parent))))"

definition ensure_failed_receipt_current ::
    "'g integrate_env \<Rightarrow> feature \<Rightarrow> feature \<Rightarrow> repo_name \<Rightarrow> integration_receipt \<Rightarrow> ('g, unit) work" where
  "ensure_failed_receipt_current env child parent repo r =
     gets_s (\<lambda>s. if failed_receipt_current env child parent repo r (wk_git s) then Inr ()
       else Inl (stale_receipt_failure (ie_layout env) child parent repo r (''the failed receipt'' @ [CHR 0x27] @ ''s source or result has moved'')))"

text \<open>What both ways of integrating end with.\<close>

definition repo_row ::
    "feature \<Rightarrow> repo_name \<Rightarrow> string \<Rightarrow> string option \<Rightarrow> repo_status \<Rightarrow> string option \<Rightarrow> string option \<Rightarrow> repo_integration" where
  "repo_row parent repo source result status url detail =
     \<lparr>xi_repo = repo, xi_source_sha = source, xi_target_branch = ft_branch parent, xi_result_sha = result,
      xi_status = status, xi_pr_url = url, xi_detail = detail\<rparr>"

definition parent_failed_detail :: string where
  "parent_failed_detail = ''merged, but the parent checks failed after the merge''"

text \<open>The provisional receipt, the checks of the parent, and the receipt with their evidence.\<close>

definition record_and_verify ::
    "'g integrate_env \<Rightarrow> feature \<Rightarrow> feature \<Rightarrow> repo_name \<Rightarrow> string list \<Rightarrow> integration_receipt \<Rightarrow> ('g, repo_integration) work" where
  "record_and_verify env child parent repo checks r =
     bind_s (persist_receipt child repo r) (\<lambda>_.
     bind_s (verify env checks (repo_worktree (ie_layout env) repo (ft_branch parent))) (\<lambda>(_, results).
     bind_s (persist_receipt child repo
              (r\<lparr>ir_verification := (ir_verification r)\<lparr>ve_parent := results, ve_verified_at := ze_now (ie_close env)\<rparr>\<rparr>)) (\<lambda>_.
       return_s (if list_all vr_success results
                 then repo_row parent repo (ir_source_sha r) (Some (ir_result_sha r)) RepoIntegrated (ir_pr_url r) None
                 else repo_row parent repo (ir_source_sha r) (Some (ir_result_sha r)) RepoFailed (ir_pr_url r) (Some parent_failed_detail)))))"

definition reverify_failed_receipt ::
    "'g integrate_env \<Rightarrow> manifest_repo list \<Rightarrow> feature \<Rightarrow> feature \<Rightarrow> repo_name \<Rightarrow> integration_receipt \<Rightarrow> ('g, repo_integration) work" where
  "reverify_failed_receipt env ms child parent repo r =
     bind_s (ensure_failed_receipt_current env child parent repo r) (\<lambda>_.
     bind_s (verify env (checks_for ms repo) (repo_worktree (ie_layout env) repo (ft_branch parent))) (\<lambda>(fp, results).
     bind_s (persist_receipt child repo
              (r\<lparr>ir_verification := (ir_verification r)\<lparr>ve_fingerprint := fp, ve_parent := results, ve_verified_at := ze_now (ie_close env)\<rparr>\<rparr>)) (\<lambda>_.
       return_s (if list_all vr_success results
                 then repo_row parent repo (ir_source_sha r) (Some (ir_result_sha r)) RepoReused (ir_pr_url r) None
                 else repo_row parent repo (ir_source_sha r) (Some (ir_result_sha r)) RepoFailed (ir_pr_url r)
                        (Some ''parent re-verification failed'')))))"

section \<open>Staging\<close>

definition staging_branch :: "feature_name \<Rightarrow> repo_name \<Rightarrow> string" where
  "staging_branch child repo = ''ivar-integrate/'' @ feature_str child @ ''/'' @ repo_str repo"

definition clear_staging :: "'g integrate_env \<Rightarrow> feature_name \<Rightarrow> repo_name \<Rightarrow> 'g \<Rightarrow> 'g" where
  "clear_staging env child repo g =
     (let bare = repo_bare (ie_layout env) repo;
          g1 = snd (g_remove_worktree (ie_git env) bare (integration_candidate (ie_layout env) child repo) g);
          g2 = snd (g_remove_worktree (ie_git env) bare (integration_source (ie_layout env) child repo) g1)
      in snd (g_delete_branch (ie_git env) bare (staging_branch child repo) g2))"

record staged_candidate =
  xs_temp_branch :: "string option"
  xs_parent_sha :: string
  xs_checks_passed :: bool

definition parent_checks_pass :: "'g integrate_env \<Rightarrow> string \<Rightarrow> string list \<Rightarrow> ('g, bool) work" where
  "parent_checks_pass env worktree checks =
     bind_s (verify env checks worktree) (\<lambda>(_, results). return_s (list_all vr_success results))"

definition stage_candidate ::
    "'g integrate_env \<Rightarrow> feature \<Rightarrow> feature \<Rightarrow> repo_name \<Rightarrow> integration_strategy \<Rightarrow> string \<Rightarrow> string \<Rightarrow> string list \<Rightarrow>
     ('g, staged_candidate) work" where
  "stage_candidate env child parent repo strategy title source checks =
     (let git = ie_git env; bare = repo_bare (ie_layout env) repo in
      bind_s (ask_git (\<lambda>g. g_revision_commit git g bare (branch_str (ft_branch parent)))) (\<lambda>parent_sha.
        if strategy = StrategyRebase then
          (let temp = staging_branch (ft_name child) repo; wt = integration_source (ie_layout env) (ft_name child) repo in
           bind_s (git_work (g_create_branch git bare temp source)) (\<lambda>_.
           bind_s (git_work (g_add_worktree git bare wt temp)) (\<lambda>_.
           bind_s (git_work (g_rebase_branch git wt (branch_str (ft_branch parent)))) (\<lambda>_.
           bind_s (parent_checks_pass env wt checks) (\<lambda>ok.
             return_s \<lparr>xs_temp_branch = Some temp, xs_parent_sha = parent_sha, xs_checks_passed = ok\<rparr>)))))
        else
          (let wt = integration_candidate (ie_layout env) (ft_name child) repo in
           bind_s (git_work (g_add_detached_worktree git bare wt parent_sha)) (\<lambda>_.
           bind_s (git_work (if strategy = StrategySquash then g_squash_merge git wt (branch_str (ft_branch child)) title
                             else g_merge_no_ff git wt (branch_str (ft_branch child)) title)) (\<lambda>_.
           bind_s (parent_checks_pass env wt checks) (\<lambda>ok.
             return_s \<lparr>xs_temp_branch = None, xs_parent_sha = parent_sha, xs_checks_passed = ok\<rparr>))))))"

definition rebase_staging_missing :: failure where
  "rebase_staging_missing =
     failed ''integration.rebase_staging_missing'' ''the rebase staging branch vanished before the parent could be advanced''"

definition apply_candidate ::
    "'g integrate_env \<Rightarrow> feature \<Rightarrow> feature \<Rightarrow> repo_name \<Rightarrow> integration_strategy \<Rightarrow> string \<Rightarrow> staged_candidate \<Rightarrow> ('g, string) work" where
  "apply_candidate env child parent repo strategy title staged =
     (let git = ie_git env; wt = repo_worktree (ie_layout env) repo (ft_branch parent) in
      bind_s (case strategy of
                StrategyRebase \<Rightarrow>
                  (case xs_temp_branch staged of
                     None \<Rightarrow> fail_s rebase_staging_missing
                   | Some temp \<Rightarrow> git_work (g_fast_forward_to git wt temp))
              | StrategySquash \<Rightarrow> git_work (g_squash_merge git wt (branch_str (ft_branch child)) title)
              | StrategyMerge \<Rightarrow> git_work (g_merge_no_ff git wt (branch_str (ft_branch child)) title)) (\<lambda>_.
        ask_git (\<lambda>g. g_revision_commit git g (repo_bare (ie_layout env) repo) (branch_str (ft_branch parent)))))"

section \<open>Locally\<close>

definition parent_moved :: "feature \<Rightarrow> failure" where
  "parent_moved parent =
     with_fix (fix_safe ''integration.retry'' (''Run `ivar feature integrate` again '' @ em_dash @ '' the parent has settled.''))
       (with_actual ''the parent SHA changed under the integration''
         (with_expected ''the parent to be untouched while the candidate is checked''
           (blocked ''integration.parent_moved''
             (''the parent branch '' @ quoted (branch_str (ft_branch parent)) @ '' moved while the candidate was being checked''))))"

definition integrate_staged ::
    "'g integrate_env \<Rightarrow> manifest_repo list \<Rightarrow> feature \<Rightarrow> feature \<Rightarrow> repo_name \<Rightarrow> integration_strategy \<Rightarrow> string \<Rightarrow> string \<Rightarrow>
     verification_result list \<Rightarrow> ('g, repo_integration) work" where
  "integrate_staged env ms child parent repo strategy title source child_results =
     (let checks = checks_for ms repo in
      bind_s (stage_candidate env child parent repo strategy title source checks) (\<lambda>staged.
        if \<not> xs_checks_passed staged then
          return_s (repo_row parent repo source None RepoFailed None (Some ''candidate checks failed; the parent was not touched''))
        else
          bind_s (ask_git (\<lambda>g. g_revision_commit (ie_git env) g (repo_bare (ie_layout env) repo) (branch_str (ft_branch parent)))) (\<lambda>now.
          bind_s (guard_s (now = xs_parent_sha staged) (parent_moved parent)) (\<lambda>_.
          bind_s (apply_candidate env child parent repo strategy title staged) (\<lambda>result.
          bind_s (lift_s (ie_commands_digest env checks)) (\<lambda>fp.
            record_and_verify env child parent repo checks
              \<lparr>ir_source_sha = source, ir_target_branch = ft_branch parent, ir_result_sha = result, ir_via = ViaLocal, ir_strategy = strategy,
               ir_pr_url = None,
               ir_verification = \<lparr>ve_fingerprint = fp, ve_child = child_results, ve_parent = [parent_checks_pending], ve_pr_checks = [],
                                  ve_verified_at = ze_now (ie_close env)\<rparr>\<rparr>))))))"

definition integrate_local ::
    "'g integrate_env \<Rightarrow> manifest_repo list \<Rightarrow> feature \<Rightarrow> feature \<Rightarrow> repo_name \<Rightarrow> integration_strategy \<Rightarrow> string \<Rightarrow> string \<Rightarrow>
     verification_result list \<Rightarrow> ('g, repo_integration) work" where
  "integrate_local env ms child parent repo strategy title source child_results s =
     (let clear = (\<lambda>s. s\<lparr>wk_git := clear_staging env (ft_name child) repo (wk_git s)\<rparr>) in
      case integrate_staged env ms child parent repo strategy title source child_results (clear s) of
        (r, s') \<Rightarrow> (r, clear s'))"


section \<open>Through a pull request\<close>

definition push_and_resolve_pr ::
    "'g integrate_env \<Rightarrow> manifest_repo list \<Rightarrow> feature \<Rightarrow> feature \<Rightarrow> repo_name \<Rightarrow> string \<Rightarrow> ('g, pull_request) work" where
  "push_and_resolve_pr env ms child parent repo title =
     (let bare = repo_bare (ie_layout env) repo; branch = branch_str (ft_branch child);
          url = (case declared_repo ms repo of Some m \<Rightarrow> mp_url m | None \<Rightarrow> []) in
      bind_s (git_work (g_push (ie_git env) bare url branch (''refs/heads/'' @ branch))) (\<lambda>_.
      bind_s (gets_s (\<lambda>s. find_pull_request (ie_forge env) (wk_git s) bare branch ''all'')) (\<lambda>found.
        case found of
          Some pr \<Rightarrow> bind_s (outside_work (edit_pull_request (ie_forge env) bare (pq_url pr) (Some title) None)) (\<lambda>_. return_s pr)
        | None \<Rightarrow> outside_work (create_pull_request (ie_forge env) bare (ft_branch child) (ft_branch parent) (ft_name child) (Some title) None False))))"

definition pr_head_moved :: "repo_name \<Rightarrow> string \<Rightarrow> string \<Rightarrow> failure" where
  "pr_head_moved repo head source =
     with_fix (fix_safe ''integration.push_source'' ''Push the child branch again to update the PR, or restore the recorded source.'')
       (with_actual ''the head moved after the PR was opened''
         (with_expected ''the PR head to match the child branch tip''
           (blocked ''integration.pr_head_moved''
             (''the PR for '' @ quoted (repo_str repo) @ '' is on head '' @ head @ '', not the recorded source '' @ source))))"

text \<open>The checks to merge with, or the row that ends the integration of the repository.\<close>

definition wait_for_pr_checks ::
    "'g integrate_env \<Rightarrow> pull_request \<Rightarrow> string \<Rightarrow> repo_name \<Rightarrow> feature \<Rightarrow> 'g \<Rightarrow> failure + repo_integration + pr_check_result list" where
  "wait_for_pr_checks env pr source repo parent g =
     and_then (case pq_head_oid pr of
                 Some head \<Rightarrow> if head \<noteq> source then Inl (pr_head_moved repo head source) else Inr ()
               | None \<Rightarrow> Inr ()) (\<lambda>_.
      and_then (required_checks (ie_forge env) g (repo_bare (ie_layout env) repo) (pq_url pr)) (\<lambda>checks.
        if list_ex (\<lambda>c. pk_bucket c = ''fail'') checks then
          Inr (Inl (repo_row parent repo source None RepoFailed (Some (pq_url pr)) (Some ''a required PR check failed'')))
        else if list_ex (\<lambda>c. pk_bucket c = ''pending'') checks then
          Inr (Inl (repo_row parent repo source None RepoPending (Some (pq_url pr)) (Some ''a required PR check is pending'')))
        else Inr (Inr checks)))"

definition merge_result_missing :: "pull_request \<Rightarrow> failure" where
  "merge_result_missing pr =
     failed ''integration.merge_result_missing'' (''the merged PR '' @ pq_url pr @ '' reported no merge commit'')"

text \<open>Looking at the pull request until the deadline; the last branch is never taken.\<close>

definition observed :: "'g integrate_env \<Rightarrow> string \<Rightarrow> failure + pull_request" where
  "observed env url =
     (case observe_merge (ie_look env url) (\<lambda>k. ie_deadline env \<le> k) url of Some r \<Rightarrow> r | None \<Rightarrow> Inl (pr_pending url))"

definition merge_pr ::
    "'g integrate_env \<Rightarrow> manifest_repo list \<Rightarrow> feature \<Rightarrow> feature \<Rightarrow> repo_name \<Rightarrow> integration_strategy \<Rightarrow> string \<Rightarrow> string \<Rightarrow>
     pull_request \<Rightarrow> pr_check_result list \<Rightarrow> verification_result list \<Rightarrow> ('g, repo_integration) work" where
  "merge_pr env ms child parent repo strategy title source pr pr_checks child_results =
     (let bare = repo_bare (ie_layout env) repo; wt = repo_worktree (ie_layout env) repo (ft_branch parent); checks = checks_for ms repo in
      bind_s (outside_work (request_merge (ie_forge env) bare (pq_url pr) source strategy title)) (\<lambda>_.
      bind_s (lift_s (observed env (pq_url pr))) (\<lambda>merged.
      bind_s (emit_work (scope_for_repo child (repo_str repo) source) (merged_event merged ObservedByIntegrate)) (\<lambda>_.
      bind_s (lift_s (case pq_merge_commit merged of Some c \<Rightarrow> Inr c | None \<Rightarrow> Inl (merge_result_missing pr))) (\<lambda>result.
      bind_s (git_work (g_fetch_branch (ie_git env) wt (branch_str (ft_branch parent)))) (\<lambda>_.
      bind_s (git_work (g_fast_forward (ie_git env) wt)) (\<lambda>_.
      bind_s (lift_s (ie_commands_digest env checks)) (\<lambda>fp.
        record_and_verify env child parent repo checks
          \<lparr>ir_source_sha = source, ir_target_branch = ft_branch parent, ir_result_sha = result, ir_via = ViaPr, ir_strategy = strategy,
           ir_pr_url = Some (pq_url pr),
           ir_verification = \<lparr>ve_fingerprint = fp, ve_child = child_results, ve_parent = [parent_checks_pending], ve_pr_checks = pr_checks,
                              ve_verified_at = ze_now (ie_close env)\<rparr>\<rparr>))))))))"

definition with_url_of :: "repo_name \<Rightarrow> pull_request \<Rightarrow> feature \<Rightarrow> feature" where
  "with_url_of repo pr f = f\<lparr>ft_promotions := bt_update repo (\<lambda>p. p\<lparr>pr_pr_url := Some (pq_url pr)\<rparr>) (ft_promotions f)\<rparr>"

text \<open>The child as it was read is written whole, not updated.\<close>

definition integrate_pr ::
    "'g integrate_env \<Rightarrow> manifest_repo list \<Rightarrow> feature \<Rightarrow> feature \<Rightarrow> repo_name \<Rightarrow> integration_strategy \<Rightarrow> string \<Rightarrow> string \<Rightarrow>
     verification_result list \<Rightarrow> ('g, repo_integration) work" where
  "integrate_pr env ms child parent repo strategy title source child_results =
     bind_s (push_and_resolve_pr env ms child parent repo title) (\<lambda>pr.
     bind_s (hall_work (\<lambda>m. (Inr (), bt_insert (ft_name child) (with_url_of repo pr child) m))) (\<lambda>_.
     bind_s (gets_s (\<lambda>s. wait_for_pr_checks env pr source repo parent (wk_git s))) (\<lambda>waited.
       case waited of
         Inl row \<Rightarrow> return_s row
       | Inr pr_checks \<Rightarrow> merge_pr env ms child parent repo strategy title source pr pr_checks child_results)))"

section \<open>One repository\<close>

definition resume_repo ::
    "'g integrate_env \<Rightarrow> manifest_repo list \<Rightarrow> feature \<Rightarrow> feature \<Rightarrow> repo_name \<Rightarrow> integration_policy \<Rightarrow> string \<Rightarrow> string \<Rightarrow>
     ('g, repo_integration) work" where
  "resume_repo env ms child parent repo policy title source =
     bind_s (verify env (checks_for ms repo) (repo_worktree (ie_layout env) repo (ft_branch child))) (\<lambda>(_, child_results).
       if \<not> list_all vr_success child_results then
         return_s (repo_row parent repo source None RepoFailed None (Some ''child checks failed''))
       else (case ip_via policy of
               ViaLocal \<Rightarrow> integrate_local env ms child parent repo (ip_strategy policy) title source child_results
             | ViaPr \<Rightarrow> integrate_pr env ms child parent repo (ip_strategy policy) title source child_results))"

definition receipt_at :: "feature \<Rightarrow> repo_name \<Rightarrow> integration_receipt option" where
  "receipt_at f repo = Option.bind (bt_get (ft_promotions f) repo) pr_receipt"

definition integrate_repo ::
    "'g integrate_env \<Rightarrow> manifest_repo list \<Rightarrow> feature \<Rightarrow> feature \<Rightarrow> repo_name \<Rightarrow> integration_policy \<Rightarrow> string \<Rightarrow>
     ('g, repo_integration) work" where
  "integrate_repo env ms child parent repo policy title =
     bind_s (ask_git (\<lambda>g. g_revision_commit (ie_git env) g (repo_bare (ie_layout env) repo) (branch_str (ft_branch child)))) (\<lambda>source.
       case receipt_at child repo of
         None \<Rightarrow> resume_repo env ms child parent repo policy title source
       | Some r \<Rightarrow>
           if evidence_passed (ir_verification r) then
             bind_s (freshness_now env ms child parent repo r) (\<lambda>fresh.
               case fresh of
                 Fresh \<Rightarrow> return_s (repo_row parent repo (ir_source_sha r) (Some (ir_result_sha r)) RepoReused (ir_pr_url r) None)
               | FailedEvidence \<Rightarrow> return_s (repo_row parent repo (ir_source_sha r) (Some (ir_result_sha r)) RepoFailed (ir_pr_url r)
                                      (Some ''recorded evidence failed''))
               | Stale reason \<Rightarrow> fail_s (stale_receipt_failure (ie_layout env) child parent repo r reason))
           else reverify_failed_receipt env ms child parent repo r)"

end
