(* ===== verification/Integrate.thy ===== *)
theory Integrate
  imports Integrate_Repo
begin

text \<open>
  The verb of \<open>src/src/action/feature/integrate\<close>: \<open>preflight.rs\<close>, the batch of \<open>repos.rs\<close>, and
  \<open>mod.rs\<close>.
\<close>

section \<open>Input and refusals\<close>

record integrate_input =
  xn_feature :: string
  xn_via :: "string option"
  xn_strategy :: "string option"
  xn_name :: "string option"

record integrate_outcome =
  xo_root :: string
  xo_feature :: feature_name
  xo_parent :: feature_name
  xo_policy :: integration_policy
  xo_repos :: "repo_integration list"
  xo_state :: integration_state
  xo_closed_integrated :: bool

definition default_title :: "feature_name \<Rightarrow> string" where
  "default_title n = ''feat: integrate '' @ feature_str n"

definition title_attribution :: "feature_name \<Rightarrow> string list \<Rightarrow> failure" where
  "title_attribution n findings =
     with_fix (fix_safe ''integration.remove_ai_attribution'' ''Drop the attribution lines from --name, then integrate again.'')
       (with_actual (join ''; '' findings)
         (with_expected ''no AI attribution in the --name title''
           (blocked ''integration.ai_attribution''
             (''the integration title for '' @ quoted (feature_str n) @ '' carries AI attribution''))))"

definition refuse_attribution :: "feature_name \<Rightarrow> string \<Rightarrow> failure + unit" where
  "refuse_attribution n title =
     (let findings = map trim (filter is_attribution (text_lines title)) in
      if findings = [] then Inr () else Inl (title_attribution n findings))"

definition integrate_root_refused :: "feature_name \<Rightarrow> failure" where
  "integrate_root_refused n =
     (let command = ''ivar feature deliver '' @ feature_str n in
      with_fix (fix_command command (fix_safe ''integration.deliver_root'' (''Deliver the root instead: '' @ quoted command @ ''.'')))
        (with_actual ''this feature has no parent''
          (with_expected ''a child feature (one with a parent) to integrate''
            (blocked ''integration.root_refused''
              (''feature '' @ quoted (feature_str n) @ '' is a root and cannot be integrated'')))))"

definition integrate_plan_refused :: "feature_name \<Rightarrow> gate_state \<Rightarrow> failure" where
  "integrate_plan_refused n gate =
     (let command = ''ivar plan approve '' @ feature_str n @ '' plan'' in
      with_fix (fix_command command (fix_safe ''integration.approve_plan''
          (''Approve it with '' @ quoted command @ '', then integrate again.'')))
        (with_actual (''the plan gate is '' @ quoted (gate_state_display gate))
          (with_expected ''the `plan` gate in state approved''
            (blocked ''integration.plan_not_approved''
              (''integrating '' @ quoted (feature_str n) @ '' needs its plan gate approved'')))))"

definition session_live :: "feature_name \<Rightarrow> feature_name \<Rightarrow> failure" where
  "session_live n parent =
     (let command = ''ivar feature integrate '' @ feature_str n in
      with_fix (fix_command command (fix_safe ''integration.integrate_from_parent''
          (''In the child'' @ [CHR 0x27] @ ''s session run `ivar feature execute finish '' @ feature_str n
           @ ''` and stop that session, then integrate it from the '' @ quoted (feature_str parent) @ '' session: '' @ quoted command @ ''.'')))
        (with_actual ''a session view dir exists under the feature''
          (with_expected ''no live feature session before the first successful receipt''
            (blocked ''integration.session_live''
              (''feature '' @ quoted (feature_str n)
               @ '' has a live session; integrating would lock a promotion an unrestricted session could still write'')))))"

definition integrate_run_active :: "feature_name \<Rightarrow> run_receipt \<Rightarrow> failure" where
  "integrate_run_active n r =
     with_fix (finish_or_interrupt_fix n)
       (with_actual ''the current run is still active and holds the feature lock''
         (with_expected ''a terminal run receipt before integrating the feature''
           (blocked ''integration.run_active''
             (''feature '' @ quoted (feature_str n) @ '' has a '' @ run_status_display (rr_status r)
              @ '' run ('' @ quoted (run_id_str (rr_id r)) @ '')''))))"

section \<open>Preflight\<close>

definition no_conflicting_session_or_run ::
    "'g integrate_env \<Rightarrow> feature_name \<Rightarrow> feature_name \<Rightarrow> feature \<Rightarrow> 'g \<Rightarrow> failure + unit" where
  "no_conflicting_session_or_run env n parent child g =
     and_then (if has_any_receipt child then Inr ()
               else and_then (tr_sessions (ie_tree env) n) (\<lambda>views. if views \<noteq> [] then Inl (session_live n parent) else Inr ())) (\<lambda>_.
     and_then (ze_receipt (ie_close env) g n) (\<lambda>run.
       case run of
         Some r \<Rightarrow> if holds_lock (rr_status r) then Inl (integrate_run_active n r) else Inr ()
       | None \<Rightarrow> Inr ()))"

definition first_receipt :: "feature \<Rightarrow> integration_receipt option" where
  "first_receipt f = (case List.map_filter (\<lambda>(_, p). pr_receipt p) (ft_promotions f) of [] \<Rightarrow> None | r # _ \<Rightarrow> Some r)"

definition resolved_policy :: "feature \<Rightarrow> integration_policy \<Rightarrow> string option \<Rightarrow> string option \<Rightarrow> failure + integration_policy" where
  "resolved_policy child hall via strategy =
     (case first_receipt child of
        Some r \<Rightarrow> Inr \<lparr>ip_via = ir_via r, ip_strategy = ir_strategy r\<rparr>
      | None \<Rightarrow>
          and_then (transpose_map (\<lambda>v. map_sum unknown_via id (via_parse v)) via) (\<lambda>via.
          and_then (transpose_map (\<lambda>v. map_sum unknown_strategy id (strategy_parse v)) strategy) (\<lambda>strategy.
            Inr (policy_resolve \<lparr>iv_via = via, iv_strategy = strategy\<rparr> (ft_integration child) hall))))"

definition integrate_dirty :: "string \<Rightarrow> string \<Rightarrow> string \<Rightarrow> failure" where
  "integrate_dirty code worktree reason =
     with_fix (fix_safe ''integration.commit_or_stash'' ''Commit or stash the changes, then integrate again.'')
       (with_actual reason
         (with_expected ''a clean worktree''
           (blocked code (''cannot integrate: the worktree at '' @ quoted worktree @ '' has uncommitted changes''))))"

text \<open>Whether the parent has still to promote the repository; a refusal ends the whole run.\<close>

definition preflight_repo ::
    "'g integrate_env \<Rightarrow> manifest_repo list \<Rightarrow> feature \<Rightarrow> feature \<Rightarrow> repo_name \<Rightarrow> ('g, bool) work" where
  "preflight_repo env ms child parent repo =
     (let lay = ie_layout env; child_wt = repo_worktree lay repo (ft_branch child); parent_wt = repo_worktree lay repo (ft_branch parent) in
      case receipt_at child repo of
        None \<Rightarrow>
          bind_s (ask_git (\<lambda>g. g_worktree_dirty (ie_git env) g child_wt)) (\<lambda>dirty.
            if dirty then fail_s (integrate_dirty ''integration.child_dirty'' child_wt ''the child worktree has uncommitted changes'')
            else if \<not> is_promoted parent repo then return_s True
            else bind_s (ask_git (\<lambda>g. g_worktree_dirty (ie_git env) g parent_wt)) (\<lambda>dirty.
              if dirty then fail_s (integrate_dirty ''integration.parent_dirty'' parent_wt ''the parent worktree has uncommitted changes'')
              else return_s False))
      | Some r \<Rightarrow>
          if evidence_passed (ir_verification r) then
            bind_s (freshness_now env ms child parent repo r) (\<lambda>fresh.
              case fresh of
                Stale reason \<Rightarrow> fail_s (stale_receipt_failure lay child parent repo r reason)
              | _ \<Rightarrow> return_s False)
          else bind_s (ensure_failed_receipt_current env child parent repo r) (\<lambda>_. return_s False))"

fun preflight_each ::
    "'g integrate_env \<Rightarrow> manifest_repo list \<Rightarrow> feature \<Rightarrow> feature \<Rightarrow> repo_name list \<Rightarrow> ('g, repo_name list) work" where
  "preflight_each env ms child parent [] = return_s []"
| "preflight_each env ms child parent (repo # repos) =
     bind_s (preflight_repo env ms child parent repo) (\<lambda>needs.
     bind_s (preflight_each env ms child parent repos) (\<lambda>rest.
       return_s (if needs then repo # rest else rest)))"

definition preflight_repos :: "'g integrate_env \<Rightarrow> manifest_repo list \<Rightarrow> feature \<Rightarrow> feature \<Rightarrow> ('g, repo_name list) work" where
  "preflight_repos env ms child parent = preflight_each env ms child parent (map fst (ft_promotions child))"

text \<open>\<open>parent_promotion::ensure\<close> on the part of the state promote works on.\<close>

definition promote_into_parent :: "'g integrate_env \<Rightarrow> feature \<Rightarrow> feature \<Rightarrow> repo_name \<Rightarrow> ('g, unit) work" where
  "promote_into_parent env child parent repo s =
     (case ensure_parent_promoted (ie_verbs env) (promote (Suc (length (wk_features s))) (ie_verbs env)) CallerIntegrate child parent repo
             (wk_git s, wk_features s) of
        (r, g, m) \<Rightarrow> (map_sum id (\<lambda>_. ()) r, s\<lparr>wk_git := g, wk_features := m\<rparr>))"

section \<open>The batch\<close>

definition emit_integrated :: "feature \<Rightarrow> integration_policy \<Rightarrow> repo_integration \<Rightarrow> ('g, unit) work" where
  "emit_integrated child policy row =
     (if xi_status row \<in> {RepoIntegrated, RepoFailed} then
        emit_work (scope_for_repo child (repo_str (xi_repo row)) (xi_source_sha row))
          (EvIntegrated (xi_status row = RepoIntegrated) (via_display (ip_via policy)) (xi_source_sha row) (xi_result_sha row))
      else return_s ())"

text \<open>A turn never ends the batch: it is a row or the line that says what broke.\<close>

definition integrate_turn ::
    "'g integrate_env \<Rightarrow> manifest_repo list \<Rightarrow> feature \<Rightarrow> feature \<Rightarrow> repo_name \<Rightarrow> integration_policy \<Rightarrow> string \<Rightarrow>
     ('g, string + repo_integration) work" where
  "integrate_turn env ms child parent repo policy title s =
     (case integrate_repo env ms child parent repo policy title s of
        (Inr row, s1) \<Rightarrow> (Inr (Inr row), snd (emit_integrated child policy row s1))
      | (Inl e, s1) \<Rightarrow> (Inr (Inl (repo_str repo @ '': '' @ fl_what e)), s1))"

definition reread :: "feature \<Rightarrow> feature_name \<Rightarrow> ('g, feature) work" where
  "reread child n = gets_s (\<lambda>s. Inr (case read_feature (wk_features s) n of Inr f \<Rightarrow> f | Inl _ \<Rightarrow> child))"

fun integrate_each ::
    "'g integrate_env \<Rightarrow> manifest_repo list \<Rightarrow> feature_name \<Rightarrow> feature \<Rightarrow> feature \<Rightarrow> integration_policy \<Rightarrow> string \<Rightarrow> repo_name list \<Rightarrow>
     ('g, repo_integration list \<times> string list) work" where
  "integrate_each env ms n child parent policy title [] = return_s ([], [])"
| "integrate_each env ms n child parent policy title (repo # repos) =
     bind_s (integrate_turn env ms child parent repo policy title) (\<lambda>x.
     bind_s (reread child n) (\<lambda>child.
     bind_s (integrate_each env ms n child parent policy title repos) (\<lambda>(rows, broken).
       return_s (case x of Inr row \<Rightarrow> (row # rows, broken) | Inl line \<Rightarrow> (rows, line # broken)))))"

definition integrate_repo_failed :: "feature_name \<Rightarrow> feature \<Rightarrow> string list \<Rightarrow> failure" where
  "integrate_repo_failed n parent broken =
     (let command = ''ivar feature integrate '' @ feature_str n in
      with_fix (fix_command command (fix_safe ''integration.retry'' (''Fix the cause in the child, then run '' @ quoted command @ '' again.'')))
        (with_actual (join [newline] broken)
          (with_expected ''every repo to integrate, or to record its failed checks''
            (failed ''integration.repo_failed''
              (''integrating '' @ quoted (feature_str n) @ '' into '' @ quoted (feature_str (ft_name parent)) @ '' failed in ''
               @ show_nat (length broken) @ '' repo(s)'')))))"

definition run_integration_repos ::
    "'g integrate_env \<Rightarrow> manifest_repo list \<Rightarrow> feature_name \<Rightarrow> feature \<Rightarrow> feature \<Rightarrow> integration_policy \<Rightarrow> string \<Rightarrow>
     ('g, repo_integration list) work" where
  "run_integration_repos env ms n child parent policy title =
     bind_s (integrate_each env ms n child parent policy title (map fst (ft_promotions child))) (\<lambda>(rows, broken).
       if broken = [] then return_s rows else fail_s (integrate_repo_failed n parent broken))"

section \<open>The end\<close>

fun all_fresh_loop ::
    "tree_reads \<Rightarrow> feature \<Rightarrow> feature \<Rightarrow> (repo_name \<times> promotion) list \<Rightarrow> bool \<Rightarrow> failure + bool" where
  "all_fresh_loop w child parent [] fresh = Inr fresh"
| "all_fresh_loop w child parent ((repo, p) # ps) fresh =
     (case pr_receipt p of
        None \<Rightarrow> all_fresh_loop w child parent ps False
      | Some r \<Rightarrow> and_then (receipt_freshness_of w child parent repo r) (\<lambda>f. all_fresh_loop w child parent ps (fresh \<and> f = Fresh)))"

definition final_state ::
    "'g integrate_env \<Rightarrow> manifest_repo list \<Rightarrow> feature \<Rightarrow> feature \<Rightarrow> ('g, integration_state \<times> bool) work" where
  "final_state env ms child parent =
     bind_s (gets_s (read_close (ie_close env) (ft_name child))) (\<lambda>record.
       if record \<noteq> None then return_s (StIntegrated, False)
       else bind_s (gets_s (\<lambda>s. all_fresh_loop (work_reads env ms s) child parent (ft_promotions child) (ft_promotions child \<noteq> []))) (\<lambda>fresh.
         if \<not> fresh then return_s (StActive, False)
         else bind_s (close (ie_close env) \<lparr>zi_name = feature_str (ft_name child), zi_outcome = ''integrated''\<rparr>) (\<lambda>_.
              return_s (StIntegrated, True))))"

text \<open>What is read and refused before the repositories are looked at; \<open>None\<close> is the walk over the descendants not ending.\<close>

definition integrate_start ::
    "'g integrate_env \<Rightarrow> integrate_input \<Rightarrow> hall \<Rightarrow>
     failure + manifest_repo list \<times> feature_name \<times> feature_name \<times> string \<times> feature \<times> feature" where
  "integrate_start env i m =
     and_then (ie_manifest env) (\<lambda>ms.
     and_then (named (feature_name_new (xn_feature i))) (\<lambda>n.
     let title = unwrap_or (default_title n) (xn_name i) in
     and_then (refuse_attribution n title) (\<lambda>_.
     and_then (read_all m) (\<lambda>_.
     and_then (read_feature m n) (\<lambda>child.
     and_then (case ft_parent child of None \<Rightarrow> Inl (integrate_root_refused n) | Some p \<Rightarrow> Inr p) (\<lambda>p.
     and_then (ie_lock env p) (\<lambda>_.
     and_then (read_feature m p) (\<lambda>parent.
       Inr (ms, n, p, title, child, parent)))))))))"

definition integrate_gate :: "'g integrate_env \<Rightarrow> 'g work_state \<Rightarrow> feature_name \<Rightarrow> failure + unit" where
  "integrate_gate env s n =
     (let gate = plan_gate_now env s n in if gate \<noteq> Approved then Inl (integrate_plan_refused n gate) else Inr ())"

definition integrate_checked ::
    "'g integrate_env \<Rightarrow> integrate_input \<Rightarrow> 'g work_state \<Rightarrow>
     (failure + manifest_repo list \<times> feature_name \<times> feature_name \<times> string \<times> feature \<times> feature \<times> integration_policy) option" where
  "integrate_checked env i s =
     (case and_then (integrate_start env i (wk_features s)) (\<lambda>(ms, n, p, title, child, parent).
             and_then (integrate_gate env s n) (\<lambda>_. Inr (ms, n, p, title, child, parent))) of
        Inl e \<Rightarrow> Some (Inl e)
      | Inr (ms, n, p, title, child, parent) \<Rightarrow>
          map_option (\<lambda>blockers. and_then blockers (\<lambda>blockers.
              if blockers \<noteq> [] then Inl (tree_block_failure n blockers)
              else and_then (no_conflicting_session_or_run env n p child (wk_git s)) (\<lambda>_.
                   and_then (resolved_policy child (ie_hall_policy env) (xn_via i) (xn_strategy i)) (\<lambda>policy.
                     Inr (ms, n, p, title, child, parent, policy)))))
            (blocking_descendants (work_reads env ms s) (map snd (wk_features s)) child))"

definition integrate_run ::
    "'g integrate_env \<Rightarrow> manifest_repo list \<times> feature_name \<times> feature_name \<times> string \<times> feature \<times> feature \<times> integration_policy \<Rightarrow>
     ('g, integrate_outcome) work" where
  "integrate_run env x =
     (case x of (ms, n, p, title, child, parent, policy) \<Rightarrow>
       bind_s (preflight_repos env ms child parent) (\<lambda>needs.
       bind_s (for_s (promote_into_parent env child parent) needs) (\<lambda>_.
       bind_s (run_integration_repos env ms n child parent policy title) (\<lambda>rows.
       bind_s (gets_s (\<lambda>s. read_feature (wk_features s) n)) (\<lambda>child.
       bind_s (final_state env ms child parent) (\<lambda>(st, closed).
         return_s \<lparr>xo_root = lay_root (ie_layout env), xo_feature = n, xo_parent = p, xo_policy = policy,
                   xo_repos = rows, xo_state = st, xo_closed_integrated = closed\<rparr>))))))"

definition integrate ::
    "'g integrate_env \<Rightarrow> integrate_input \<Rightarrow> 'g work_state \<Rightarrow> ((failure + integrate_outcome) \<times> 'g work_state) option" where
  "integrate env i s =
     (case integrate_checked env i s of
        None \<Rightarrow> None
      | Some (Inl e) \<Rightarrow> Some (Inl e, s)
      | Some (Inr x) \<Rightarrow> Some (integrate_run env x s))"

end
