(* ===== verification/Integrate_Safety.thy ===== *)
theory Integrate_Safety
  imports Integrate Close_Safety Rebase_Safety
begin

text \<open>
  What an integration leaves behind: a result on the parent is recorded in a receipt with the
  evidence, and a child is closed as integrated only with a fresh passing receipt for every
  promotion.
\<close>

section \<open>Receipts\<close>

definition stored_receipt :: "'g work_state \<Rightarrow> feature_name \<Rightarrow> repo_name \<Rightarrow> integration_receipt option" where
  "stored_receipt s n repo = Option.bind (bt_get (wk_features s) n) (\<lambda>f. receipt_at f repo)"

definition promoted_in :: "feature_name \<Rightarrow> repo_name \<Rightarrow> hall \<Rightarrow> bool" where
  "promoted_in n repo m \<longleftrightarrow> bt_sorted m \<and> (\<exists>f. bt_get m n = Some f \<and> bt_contains (ft_promotions f) repo)"

text \<open>What a row says of the stored receipt.\<close>

definition row_receipted :: "'g work_state \<Rightarrow> feature_name \<Rightarrow> repo_name \<Rightarrow> repo_integration \<Rightarrow> bool" where
  "row_receipted s n repo row \<longleftrightarrow>
     (case xi_result_sha row of
        None \<Rightarrow> xi_status row = RepoFailed \<or> xi_status row = RepoPending
      | Some c \<Rightarrow> (\<exists>r. stored_receipt s n repo = Some r \<and> ir_source_sha r = xi_source_sha row \<and> ir_result_sha r = c
          \<and> (xi_status row = RepoIntegrated \<longrightarrow> evidence_passed (ir_verification r))
          \<and> (xi_status row = RepoReused \<longrightarrow> list_all vr_success (ve_parent (ir_verification r)))
          \<and> (xi_status row = RepoFailed \<longrightarrow> \<not> evidence_passed (ir_verification r))))"

lemma verify_leaves [simp]: "leaves_features (verify env cs cwd)"
  unfolding verify_def by (rule leaves_features_bind, simp) (simp add: leaves_features_def split: prod.split)

lemma with_receipt_at:
  "bt_contains (ft_promotions f) repo \<Longrightarrow> receipt_at (with_receipt repo r f) repo = Some r"
  "bt_contains (ft_promotions (with_receipt repo r f)) k \<longleftrightarrow> bt_contains (ft_promotions f) k"
  by (auto simp: with_receipt_def receipt_at_def bt_get_update bt_contains_def split: option.splits)

lemma persist_receipt_ok:
  assumes "persist_receipt child repo r s = (Inr (), s')" and "promoted_in (ft_name child) repo (wk_features s)"
  shows "stored_receipt s' (ft_name child) repo = Some r" and "promoted_in (ft_name child) repo (wk_features s')"
proof -
  from assms(2) obtain f where f: "bt_get (wk_features s) (ft_name child) = Some f" "bt_contains (ft_promotions f) repo"
    and sorted: "bt_sorted (wk_features s)" by (auto simp: promoted_in_def)
  from assms(1) f have s': "wk_features s' = bt_insert (ft_name child) (with_receipt repo r f) (wk_features s)"
    by (auto simp: persist_receipt_def hall_work_def update_feature_def read_feature_def)
  have get: "bt_get (wk_features s') (ft_name child) = Some (with_receipt repo r f)"
    unfolding s' by (simp add: bt.get_insert [OF sorted])
  show "stored_receipt s' (ft_name child) repo = Some r" using get with_receipt_at(1) [OF f(2)] by (simp add: stored_receipt_def)
  show "promoted_in (ft_name child) repo (wk_features s')"
    using get f(2) bt.invar_insert [OF sorted] by (simp add: promoted_in_def s' with_receipt_at(2))
qed

lemma record_and_verify_ok:
  assumes run: "record_and_verify env child parent repo checks r s = (Inr row, s')" and p: "promoted_in (ft_name child) repo (wk_features s)"
    and child: "list_all vr_success (ve_child (ir_verification r))"
  shows "row_receipted s' (ft_name child) repo row"
proof -
  from run obtain s1 s2 fp results where one: "persist_receipt child repo r s = (Inr (), s1)"
    and checked: "verify env checks (repo_worktree (ie_layout env) repo (ft_branch parent)) s1 = (Inr (fp, results), s2)"
    and two: "persist_receipt child repo
        (r\<lparr>ir_verification := (ir_verification r)\<lparr>ve_parent := results, ve_verified_at := ze_now (ie_close env)\<rparr>\<rparr>) s2 = (Inr (), s')"
    and row: "row = (if list_all vr_success results
                 then repo_row parent repo (ir_source_sha r) (Some (ir_result_sha r)) RepoIntegrated (ir_pr_url r) None
                 else repo_row parent repo (ir_source_sha r) (Some (ir_result_sha r)) RepoFailed (ir_pr_url r) (Some parent_failed_detail))"
    unfolding record_and_verify_def by (auto simp: effect_simps)
  have "wk_features s2 = wk_features s1" using leaves_featuresD [OF verify_leaves checked] .
  with persist_receipt_ok(2) [OF one p] have "promoted_in (ft_name child) repo (wk_features s2)" by simp
  from persist_receipt_ok(1) [OF two this] show ?thesis
    using child row by (simp add: row_receipted_def repo_row_def evidence_passed_def)
qed

lemma parent_checks_leaves [simp]: "leaves_features (parent_checks_pass env wt checks)"
  unfolding parent_checks_pass_def by (rule leaves_features_bind) auto

lemma stage_candidate_leaves [simp]: "leaves_features (stage_candidate env child parent repo strategy title source checks)"
  unfolding stage_candidate_def Let_def by (auto intro!: leaves_features_bind)

lemma apply_candidate_leaves [simp]: "leaves_features (apply_candidate env child parent repo strategy title staged)"
  unfolding apply_candidate_def Let_def by (auto intro!: leaves_features_bind split: integration_strategy.split option.split)

lemma integrate_staged_ok:
  assumes run: "integrate_staged env ms child parent repo strategy title source cs s = (Inr row, s')"
    and p: "promoted_in (ft_name child) repo (wk_features s)" and cs: "list_all vr_success cs"
  shows "row_receipted s' (ft_name child) repo row"
proof -
  from run obtain staged s1 where stage: "stage_candidate env child parent repo strategy title source (checks_for ms repo) s = (Inr staged, s1)"
    by (auto simp: integrate_staged_def Let_def bind_s_iff)
  have s1: "wk_features s1 = wk_features s" using leaves_featuresD [OF stage_candidate_leaves stage] .
  show ?thesis
  proof (cases "xs_checks_passed staged")
    case False
    with run stage show ?thesis by (auto simp: integrate_staged_def Let_def bind_s_def return_s_def row_receipted_def repo_row_def)
  next
    case True
    with run stage obtain now s2 s3 result s4 fp where
        now: "ask_git (\<lambda>g. g_revision_commit (ie_git env) g (repo_bare (ie_layout env) repo) (branch_str (ft_branch parent))) s1 = (Inr now, s2)"
      and same: "guard_s (now = xs_parent_sha staged) (parent_moved parent) s2 = (Inr (), s3)"
      and moved: "apply_candidate env child parent repo strategy title staged s3 = (Inr result, s4)"
      and rec: "record_and_verify env child parent repo (checks_for ms repo)
              \<lparr>ir_source_sha = source, ir_target_branch = ft_branch parent, ir_result_sha = result, ir_via = ViaLocal, ir_strategy = strategy,
               ir_pr_url = None,
               ir_verification = \<lparr>ve_fingerprint = fp, ve_child = cs, ve_parent = [parent_checks_pending], ve_pr_checks = [],
                                  ve_verified_at = ze_now (ie_close env)\<rparr>\<rparr> s4 = (Inr row, s')"
      by (auto simp: integrate_staged_def Let_def bind_s_iff lift_s_iff)
    have "wk_features s2 = wk_features s1" using leaves_featuresD [OF leaves_features_parts(4) now] .
    moreover have "wk_features s3 = wk_features s2" using leaves_featuresD [OF leaves_features_parts(11) same] .
    moreover have "wk_features s4 = wk_features s3" using leaves_featuresD [OF apply_candidate_leaves moved] .
    ultimately have "promoted_in (ft_name child) repo (wk_features s4)" using p s1 by simp
    from record_and_verify_ok [OF rec this] cs show ?thesis by simp
  qed
qed

lemma integrate_local_ok:
  assumes "integrate_local env ms child parent repo strategy title source cs s = (Inr row, s')"
    and "promoted_in (ft_name child) repo (wk_features s)" and "list_all vr_success cs"
  shows "row_receipted s' (ft_name child) repo row"
proof -
  let ?clear = "\<lambda>s. s\<lparr>wk_git := clear_staging env (ft_name child) repo (wk_git s)\<rparr>"
  from assms(1) obtain s1 where run: "integrate_staged env ms child parent repo strategy title source cs (?clear s) = (Inr row, s1)" "s' = ?clear s1"
    by (auto simp: integrate_local_def Let_def split: prod.splits)
  have "row_receipted s1 (ft_name child) repo row" by (rule integrate_staged_ok [OF run(1)]) (use assms in simp_all)
  moreover have "stored_receipt s' (ft_name child) repo = stored_receipt s1 (ft_name child) repo"
    using run(2) by (simp add: stored_receipt_def)
  ultimately show ?thesis unfolding row_receipted_def by (simp cong: option.case_cong)
qed


lemma merge_pr_ok:
  assumes run: "merge_pr env ms child parent repo strategy title source pr pcs cs s = (Inr row, s')"
    and p: "promoted_in (ft_name child) repo (wk_features s)" and cs: "list_all vr_success cs"
  shows "row_receipted s' (ft_name child) repo row"
proof -
  from run obtain s1 s2 s3 m c fp where a: "outside_work (request_merge (ie_forge env) (repo_bare (ie_layout env) repo) (pq_url pr) source strategy title) s = (Inr (), s1)"
    and b: "emit_work (scope_for_repo child (repo_str repo) source) (merged_event m ObservedByIntegrate) s1 = (Inr (), s2)"
    and c: "bind_s (git_work (g_fetch_branch (ie_git env) (repo_worktree (ie_layout env) repo (ft_branch parent)) (branch_str (ft_branch parent))))
          (\<lambda>_. git_work (g_fast_forward (ie_git env) (repo_worktree (ie_layout env) repo (ft_branch parent)))) s2 = (Inr (), s3)"
    and rec: "record_and_verify env child parent repo (checks_for ms repo)
          \<lparr>ir_source_sha = source, ir_target_branch = ft_branch parent, ir_result_sha = c, ir_via = ViaPr, ir_strategy = strategy,
           ir_pr_url = Some (pq_url pr),
           ir_verification = \<lparr>ve_fingerprint = fp, ve_child = cs, ve_parent = [parent_checks_pending], ve_pr_checks = pcs,
                              ve_verified_at = ze_now (ie_close env)\<rparr>\<rparr> s3 = (Inr row, s')"
    unfolding merge_pr_def Let_def by (auto simp: bind_s_iff lift_s_iff)
  have "wk_features s3 = wk_features s"
    using leaves_featuresD [OF leaves_features_parts(3) a] leaves_featuresD [OF leaves_features_parts(6) b]
      leaves_featuresD [OF leaves_features_bind [OF leaves_features_parts(1) leaves_features_parts(1)] c] by simp
  with p have "promoted_in (ft_name child) repo (wk_features s3)" by simp
  from record_and_verify_ok [OF rec this] cs show ?thesis by simp
qed

text \<open>Looking at a pull request ends at the deadline, so the result is always that of a look.\<close>

lemma observed_settles:
  "observe_merge (ie_look env url) (\<lambda>k. ie_deadline env \<le> k) url = Some (observed env url)"
  using observe_merge_settles [of "\<lambda>k. ie_deadline env \<le> k" "ie_deadline env" "ie_look env url" url] by (auto simp: observed_def)

lemma push_and_resolve_leaves [simp]: "leaves_features (push_and_resolve_pr env ms child parent repo title)"
  unfolding push_and_resolve_pr_def Let_def by (auto intro!: leaves_features_bind split: option.split)

lemma promoted_with_url:
  assumes "bt_sorted m" and "bt_contains (ft_promotions child) repo"
  shows "promoted_in (ft_name child) repo (bt_insert (ft_name child) (with_url_of repo pr child) m)"
  using assms bt.invar_insert [OF assms(1)]
  by (auto simp: promoted_in_def bt.get_insert with_url_of_def bt_contains_def bt_get_update)

lemma integrate_pr_ok:
  assumes run: "integrate_pr env ms child parent repo strategy title source cs s = (Inr row, s')"
    and p: "bt_sorted (wk_features s)" "bt_contains (ft_promotions child) repo" and cs: "list_all vr_success cs"
  shows "row_receipted s' (ft_name child) repo row"
proof -
  from run obtain pr s1 waited where a: "push_and_resolve_pr env ms child parent repo title s = (Inr pr, s1)"
    and w: "wait_for_pr_checks env pr source repo parent (wk_git s1) = Inr waited"
    and rest: "(case waited of Inl row \<Rightarrow> return_s row
       | Inr pcs \<Rightarrow> merge_pr env ms child parent repo strategy title source pr pcs cs)
          (s1\<lparr>wk_features := bt_insert (ft_name child) (with_url_of repo pr child) (wk_features s1)\<rparr>) = (Inr row, s')"
    unfolding integrate_pr_def by (auto simp: bind_s_iff gets_s_iff hall_work_def)
  let ?s = "s1\<lparr>wk_features := bt_insert (ft_name child) (with_url_of repo pr child) (wk_features s1)\<rparr>"
  have "wk_features s1 = wk_features s" using leaves_featuresD [OF push_and_resolve_leaves a] .
  with p have j: "promoted_in (ft_name child) repo (wk_features ?s)" by (simp add: promoted_with_url)
  show ?thesis
  proof (cases waited)
    case (Inl r)
    with w have "xi_result_sha r = None \<and> (xi_status r = RepoFailed \<or> xi_status r = RepoPending)"
      by (auto simp: wait_for_pr_checks_def and_then_eq_Inr repo_row_def split: if_splits)
    with rest Inl show ?thesis by (simp add: return_s_def row_receipted_def)
  next
    case (Inr pcs)
    with rest have "merge_pr env ms child parent repo strategy title source pr pcs cs ?s = (Inr row, s')" by simp
    from merge_pr_ok [OF this j cs] show ?thesis .
  qed
qed

lemma reverify_ok:
  assumes run: "reverify_failed_receipt env ms child parent repo r s = (Inr row, s')" and p: "promoted_in (ft_name child) repo (wk_features s)"
  shows "row_receipted s' (ft_name child) repo row"
proof -
  from run obtain s1 fp results where checked: "verify env (checks_for ms repo) (repo_worktree (ie_layout env) repo (ft_branch parent)) s = (Inr (fp, results), s1)"
    and two: "persist_receipt child repo
        (r\<lparr>ir_verification := (ir_verification r)\<lparr>ve_fingerprint := fp, ve_parent := results, ve_verified_at := ze_now (ie_close env)\<rparr>\<rparr>) s1 = (Inr (), s')"
    and row: "row = (if list_all vr_success results
                 then repo_row parent repo (ir_source_sha r) (Some (ir_result_sha r)) RepoReused (ir_pr_url r) None
                 else repo_row parent repo (ir_source_sha r) (Some (ir_result_sha r)) RepoFailed (ir_pr_url r) (Some ''parent re-verification failed''))"
    unfolding reverify_failed_receipt_def ensure_failed_receipt_current_def by (auto simp: effect_simps)
  have "wk_features s1 = wk_features s" using leaves_featuresD [OF verify_leaves checked] .
  with p have "promoted_in (ft_name child) repo (wk_features s1)" by simp
  from persist_receipt_ok(1) [OF two this] show ?thesis
    using row by (simp add: row_receipted_def repo_row_def evidence_passed_def)
qed

text \<open>
  C16: when a repository integrates, what its row says is what is recorded: a row without a result
  on the parent failed or waits, and a result on the parent is in the stored receipt of the
  child with the source it came from, with passing evidence if the row says integrated,
  passing parent checks if it says reused, and failed evidence if it says failed, so that the
  next run resumes at the checks and does not merge again.
\<close>

theorem integration_is_receipted:
  assumes run: "integrate_repo env ms child parent repo policy title s = (Inr row, s')"
    and child: "bt_get (wk_features s) (ft_name child) = Some child" "bt_contains (ft_promotions child) repo" and sorted: "bt_sorted (wk_features s)"
  shows "row_receipted s' (ft_name child) repo row"
proof -
  have p: "promoted_in (ft_name child) repo (wk_features s)" using child sorted by (simp add: promoted_in_def)
  show ?thesis
  proof (cases "receipt_at child repo")
    case None
    with run obtain source where resume: "resume_repo env ms child parent repo policy title source s = (Inr row, s')"
      by (auto simp: integrate_repo_def effect_simps ask_git_def)
    then obtain fp cs s1 where checked: "verify env (checks_for ms repo) (repo_worktree (ie_layout env) repo (ft_branch child)) s = (Inr (fp, cs), s1)"
      by (auto simp: resume_repo_def bind_s_iff)
    have s1: "wk_features s1 = wk_features s" using leaves_featuresD [OF verify_leaves checked] .
    show ?thesis
    proof (cases "list_all vr_success cs")
      case False
      with resume checked show ?thesis by (auto simp: resume_repo_def bind_s_def return_s_def row_receipted_def repo_row_def)
    next
      case True
      with resume checked have "(case ip_via policy of
               ViaLocal \<Rightarrow> integrate_local env ms child parent repo (ip_strategy policy) title source cs
             | ViaPr \<Rightarrow> integrate_pr env ms child parent repo (ip_strategy policy) title source cs) s1 = (Inr row, s')"
        by (simp add: resume_repo_def bind_s_def)
      then show ?thesis using True p s1 sorted child(2)
        by (cases "ip_via policy") (auto intro: integrate_local_ok integrate_pr_ok)
    qed
  next
    case (Some r)
    show ?thesis
    proof (cases "evidence_passed (ir_verification r)")
      case False
      with run Some have "reverify_failed_receipt env ms child parent repo r s = (Inr row, s')"
        by (auto simp: integrate_repo_def effect_simps ask_git_def)
      from reverify_ok [OF this p] show ?thesis .
    next
      case True
      have "receipt_freshness_of w child parent repo r \<noteq> Inr FailedEvidence" for w
        using True by (auto simp: receipt_freshness_of_def Let_def and_then_eq_Inr split: sum.splits if_splits bool.splits)
      moreover from run Some True obtain fresh where fresh: "receipt_freshness_of (work_reads env ms s) child parent repo r = Inr fresh"
          "(case fresh of
              Fresh \<Rightarrow> return_s (repo_row parent repo (ir_source_sha r) (Some (ir_result_sha r)) RepoReused (ir_pr_url r) None)
            | FailedEvidence \<Rightarrow> return_s (repo_row parent repo (ir_source_sha r) (Some (ir_result_sha r)) RepoFailed (ir_pr_url r)
                                   (Some ''recorded evidence failed''))
            | Stale reason \<Rightarrow> fail_s (stale_receipt_failure (ie_layout env) child parent repo r reason)) s = (Inr row, s')"
        by (auto simp: integrate_repo_def bind_s_iff gets_s_iff ask_git_def freshness_now_def)
      ultimately have "s' = s \<and> row = repo_row parent repo (ir_source_sha r) (Some (ir_result_sha r)) RepoReused (ir_pr_url r) None"
        by (cases fresh) (auto simp: return_s_def fail_s_def)
      then show ?thesis using Some True child(1)
        by (simp add: row_receipted_def repo_row_def stored_receipt_def evidence_passed_def)
    qed
  qed
qed


section \<open>Closing\<close>

lemma all_fresh_loop_ok:
  "all_fresh_loop w child parent ps fresh = Inr True \<Longrightarrow> fresh \<and> (\<forall>e \<in> set ps. receipted_fresh w child parent e)"
proof (induction ps arbitrary: fresh)
  case (Cons e ps)
  obtain repo p where e: "e = (repo, p)" by (rule prod.exhaust)
  show ?case using Cons.prems Cons.IH by (cases "pr_receipt p") (auto simp: e and_then_eq_Inr receipted_fresh_def)
qed simp

text \<open>What the final check found in the state it looked at.\<close>

definition earned :: "'g integrate_env \<Rightarrow> manifest_repo list \<Rightarrow> feature \<Rightarrow> feature \<Rightarrow> 'g work_state \<Rightarrow> bool" where
  "earned env ms child parent t \<longleftrightarrow>
     ft_promotions child \<noteq> [] \<and> (\<forall>e \<in> set (ft_promotions child). receipted_fresh (work_reads env ms t) child parent e)"

lemma read_close_git:
  "read_close env n s = Inr x \<Longrightarrow> read_close env n (s\<lparr>wk_git := g\<rparr>) = Inr y \<Longrightarrow> y = x"
  by (cases "pl_text (wk_plans s n)") (auto simp: read_close_def and_then_eq_Inr)

lemma close_of_open:
  assumes run: "close env i s = (Inr out, s')" and p: "close_parsed i (wk_features s) = Inr (n, o1, f)" and open_: "read_close env n s = Inr None"
  shows "\<not> zo_already_closed out \<and> zo_name out = n \<and> zo_outcome out = o1"
proof -
  from run p obtain t found where t: "outside_work (ze_import env n) s = (Inr (), t)" and rc: "read_close env n t = Inr found"
    and rest: "(case found of
         Some r \<Rightarrow>
           return_s \<lparr>zo_root = lay_root (ze_layout env), zo_name = n, zo_outcome = unwrap_or OutcomeAbandoned (known_outcome (zr_outcome r)),
                     zo_closed_at = zr_closed_at r, zo_already_closed = True\<rparr>
       | None \<Rightarrow>
           bind_s (lift_s (refuse_unearned o1 n f)) (\<lambda>_.
           bind_s (outside_work (ze_remove env (feature_sessions_dir (ze_layout env) n))) (\<lambda>_.
           bind_s (write_close env n o1) (\<lambda>r.
           bind_s (emit_work (scope_for_feature f) (EvClosed (promotion_outcome_display o1))) (\<lambda>_.
             return_s \<lparr>zo_root = lay_root (ze_layout env), zo_name = n, zo_outcome = o1,
                       zo_closed_at = zr_closed_at r, zo_already_closed = False\<rparr>))))) t = (Inr out, s')"
    unfolding close_def by (auto simp: bind_s_iff gets_s_iff)
  have "\<exists>g. t = s\<lparr>wk_git := g\<rparr>" using t by (auto simp: outside_work_def split: prod.splits)
  then have "found = None" using read_close_git [OF open_] rc by auto
  with rest show ?thesis by (auto simp: bind_s_iff return_s_iff)
qed

lemma final_state_closed:
  assumes run: "final_state env ms child parent t = (Inr (st, True), s')" and yaml: "yaml_laws (ze_yaml (ie_close env))"
  shows "earned env ms child parent t \<and> wk_features s' = wk_features t \<and> (\<forall>k. k \<noteq> ft_name child \<longrightarrow> wk_plans s' k = wk_plans t k)
    \<and> close_keeps (ie_close env) (ft_name child) OutcomeIntegrated t s'"
proof -
  let ?i = "\<lparr>zi_name = feature_str (ft_name child), zi_outcome = ''integrated''\<rparr>"
  from run obtain fresh where open_: "read_close (ie_close env) (ft_name child) t = Inr None"
    and fresh: "all_fresh_loop (work_reads env ms t) child parent (ft_promotions child) (ft_promotions child \<noteq> []) = Inr fresh"
    and c: "(if \<not> fresh then return_s (StActive, False) else bind_s (close (ie_close env) ?i) (\<lambda>_. return_s (StIntegrated, True))) t = (Inr (st, True), s')"
    by (auto simp: final_state_def bind_s_iff gets_s_iff return_s_iff split: if_splits)
  from c obtain out where fr: "fresh" and cl: "close (ie_close env) ?i t = (Inr out, s')"
    by (auto simp: bind_s_iff return_s_iff split: if_splits)
  have e: "earned env ms child parent t" using all_fresh_loop_ok fresh fr by (auto simp: earned_def)
  from cl obtain n o1 f where p: "close_parsed ?i (wk_features t) = Inr (n, o1, f)"
    by (auto simp: close_def bind_s_iff gets_s_iff)
  then have n: "n = ft_name child" "o1 = OutcomeIntegrated"
    by (auto simp: close_parsed_def and_then_eq_Inr named_def map_sum_Inr promotion_outcome_parse_def feature_name_new_def
        validated_new_def split: if_splits)
  from close_of_open [OF cl p] open_ n have out: "\<not> zo_already_closed out" "zo_name out = ft_name child" "zo_outcome out = OutcomeIntegrated"
    by simp_all
  have "yaml_laws (ze_yaml (ie_close env))" by (rule yaml)
  from close_stamps_keeps [OF cl out(1) this] out
  have "wk_features s' = wk_features t" "\<forall>k. k \<noteq> ft_name child \<longrightarrow> wk_plans s' k = wk_plans t k"
    "close_keeps (ie_close env) (ft_name child) OutcomeIntegrated t s'" by auto
  with e show ?thesis by blast
qed


lemma integrate_checked_facts:
  assumes "integrate_checked env i s = Some (Inr (ms, n, p, title, child, parent, policy))"
  shows "ie_manifest env = Inr ms" "feature_name_new (xn_feature i) = Inr n" "read_feature (wk_features s) n = Inr child"
    "ft_parent child = Some p" "read_feature (wk_features s) p = Inr parent" "plan_gate_now env s n = Approved"
    "blocking_descendants (work_reads env ms s) (map snd (wk_features s)) child = Some (Inr [])"
    "no_conflicting_session_or_run env n p child (wk_git s) = Inr ()"
proof -
  let ?r = "and_then (integrate_start env i (wk_features s)) (\<lambda>(ms, n, p, title, child, parent).
             and_then (integrate_gate env s n) (\<lambda>_. Inr (ms, n, p, title, child, parent)))"
  obtain x where x: "?r = Inr x" using assms by (cases ?r) (auto simp: integrate_checked_def)
  obtain ms' n' p' title' child' parent' where xs: "x = (ms', n', p', title', child', parent')" by (metis prod.exhaust)
  from assms x xs have eq: "ms' = ms" "n' = n" "p' = p" "child' = child" "parent' = parent"
    and walk: "blocking_descendants (work_reads env ms s) (map snd (wk_features s)) child = Some (Inr [])"
    and free: "no_conflicting_session_or_run env n p child (wk_git s) = Inr ()"
    by (auto simp: integrate_checked_def and_then_eq_Inr split: if_splits)
  show "blocking_descendants (work_reads env ms s) (map snd (wk_features s)) child = Some (Inr [])"
    "no_conflicting_session_or_run env n p child (wk_git s) = Inr ()" by (fact walk, fact free)
  from x xs eq have start: "integrate_start env i (wk_features s) = Inr (ms, n, p, title', child, parent)"
    and gate: "integrate_gate env s n = Inr ()"
    by (auto simp: and_then_eq_Inr)
  show "plan_gate_now env s n = Approved" using gate by (auto simp: integrate_gate_def Let_def split: if_splits)
  show "ie_manifest env = Inr ms" "feature_name_new (xn_feature i) = Inr n" "read_feature (wk_features s) n = Inr child"
    "ft_parent child = Some p" "read_feature (wk_features s) p = Inr parent"
    using start by (auto simp: integrate_start_def Let_def and_then_eq_Inr named_def map_sum_Inr split: option.splits)
qed

text \<open>
  C15: an integration that closes its child did so for a child with a parent, under an approved plan
  and with no descendant that blocks, and after it found a fresh and passing receipt for every
  promotion of the child it had just read again; the plan of that child then says integrated,
  and nothing but that plan changed after the check.
\<close>

theorem integrate_closes_what_is_earned:
  assumes run: "integrate env i s = Some (Inr out, s')" and closed: "xo_closed_integrated out" and yaml: "yaml_laws (ze_yaml (ie_close env))"
  shows "\<exists>ms child parent t child'. ie_manifest env = Inr ms \<and> feature_name_new (xn_feature i) = Inr (xo_feature out)
    \<and> read_feature (wk_features s) (xo_feature out) = Inr child \<and> ft_parent child = Some (xo_parent out)
    \<and> read_feature (wk_features s) (xo_parent out) = Inr parent \<and> plan_gate_now env s (xo_feature out) = Approved
    \<and> blocking_descendants (work_reads env ms s) (map snd (wk_features s)) child = Some (Inr [])
    \<and> read_feature (wk_features t) (xo_feature out) = Inr child' \<and> earned env ms child' parent t
    \<and> wk_features s' = wk_features t \<and> (\<forall>k. k \<noteq> ft_name child' \<longrightarrow> wk_plans s' k = wk_plans t k)
    \<and> close_keeps (ie_close env) (ft_name child') OutcomeIntegrated t s'"
proof -
  from run obtain x where x: "integrate_checked env i s = Some (Inr x)" "integrate_run env x s = (Inr out, s')"
    by (auto simp: integrate_def split: option.splits sum.splits)
  obtain ms n p title child parent policy where xs: "x = (ms, n, p, title, child, parent, policy)" by (metis prod.exhaust)
  note facts = integrate_checked_facts [OF x(1) [unfolded xs]]
  from x(2) closed obtain t child' st where child': "read_feature (wk_features t) n = Inr child'"
    and fin: "final_state env ms child' parent t = (Inr (st, True), s')" and out: "xo_feature out = n" "xo_parent out = p"
    unfolding integrate_run_def xs by (auto simp: effect_simps)
  have "earned env ms child' parent t \<and> wk_features s' = wk_features t \<and> (\<forall>k. k \<noteq> ft_name child' \<longrightarrow> wk_plans s' k = wk_plans t k)
    \<and> close_keeps (ie_close env) (ft_name child') OutcomeIntegrated t s'"
    by (rule final_state_closed [OF fin yaml])
  with facts child' show ?thesis unfolding out by blast
qed


section \<open>A sample\<close>

text \<open>A child with one repository, which its parent promotes too; every command of git succeeds.\<close>

definition integrating_parent :: feature where
  "integrating_parent = feature_promote (RepoName ''api'') (feature_new (FeatureName ''shop'') (BranchName ''shop''))"

definition integrating_child :: feature where
  "integrating_child = (feature_promote (RepoName ''api'') (feature_new (FeatureName ''checkout'') (BranchName ''checkout'')))
     \<lparr>ft_parent := Some (FeatureName ''shop'')\<rparr>"

definition integrating_close :: "string close_env" where
  "integrating_close =
     \<lparr>ze_layout = layout_at ''/h'', ze_yaml = two_keys_yaml, ze_hash = id, ze_now = ''now'', ze_read = (\<lambda>p g. Inr ()), ze_write = (\<lambda>p g. Inr ()),
      ze_import = (\<lambda>n g. (Inr (), g)), ze_receipt = (\<lambda>g n. Inr None), ze_remove = (\<lambda>p g. (Inr (), g))\<rparr>"

definition integrating_verbs :: "string verb_env" where
  "integrating_verbs =
     \<lparr>vn_git = git.truncate landing_git, vn_reads = sample_reads, vn_declared = (\<lambda>r. Some (BranchName ''main'')),
      vn_ensure_parent = (\<lambda>p g. (Inr (), g)), vn_setup = (\<lambda>f r g. (Inr (False, None), g)), vn_repoint = (\<lambda>f g. (Inr [], g)),
      vn_confirm = (\<lambda>q. Inr True)\<rparr>"

definition integrating_env :: "string integrate_env" where
  "integrating_env =
     \<lparr>ie_git = rebasing_git None, ie_forge = sample_forge, ie_manifest = Inr sample_manifest, ie_hall_policy = policy_default,
      ie_tree = sample_reads, ie_others = (\<lambda>n g. None), ie_commands_digest = (\<lambda>cs. Inr ''c''),
      ie_exec = (\<lambda>c d g. (Inr \<lparr>ou_code = Some 0, ou_stdout = [], ou_stderr = []\<rparr>, g)), ie_look = (\<lambda>u k. Inr (sample_pr ''MERGED'')),
      ie_deadline = 3, ie_lock = (\<lambda>n. Inr ()), ie_verbs = integrating_verbs, ie_close = integrating_close\<rparr>"

definition integrating_state :: "string work_state" where
  "integrating_state =
     \<lparr>wk_git = ''m'', wk_features = [(FeatureName ''checkout'', integrating_child), (FeatureName ''shop'', integrating_parent)],
      wk_plans = (\<lambda>n. \<lparr>pl_text = Some (''# p'' @ [newline]),
                       pl_approvals = Some [\<lparr>gr_gate = Plan, gr_state = Approved, gr_fingerprint = Some (''# p'' @ [newline])\<rparr>]\<rparr>),
      wk_events = []\<rparr>"

definition integrating_input :: integrate_input where
  "integrating_input = \<lparr>xn_feature = ''checkout'', xn_via = None, xn_strategy = None, xn_name = None\<rparr>"

text \<open>The whole run and the integration of its repository, evaluated at once.\<close>

lemma sample_integrations:
  shows sample_integration_runs: "(case integrate integrating_env integrating_input integrating_state of
      Some (Inr out, s') \<Rightarrow> Some (xo_closed_integrated out, map xi_status (xo_repos out), length (wk_events s'))
    | _ \<Rightarrow> None) = Some (True, [RepoIntegrated], 2)"
    and sample_repo_integrates: "case integrate_repo integrating_env sample_manifest integrating_child integrating_parent (RepoName ''api'') policy_default ''t'' integrating_state of
      (Inr row, _) \<Rightarrow> xi_status row = RepoIntegrated | _ \<Rightarrow> False"
proof -
  have "((case integrate integrating_env integrating_input integrating_state of
      Some (Inr out, s') \<Rightarrow> Some (xo_closed_integrated out, map xi_status (xo_repos out), length (wk_events s'))
    | _ \<Rightarrow> None) = Some (True, [RepoIntegrated], 2))
    \<and> (case integrate_repo integrating_env sample_manifest integrating_child integrating_parent (RepoName ''api'') policy_default ''t'' integrating_state of
      (Inr row, _) \<Rightarrow> xi_status row = RepoIntegrated | _ \<Rightarrow> False)"
    by code_simp
  then show "(case integrate integrating_env integrating_input integrating_state of
      Some (Inr out, s') \<Rightarrow> Some (xo_closed_integrated out, map xi_status (xo_repos out), length (wk_events s'))
    | _ \<Rightarrow> None) = Some (True, [RepoIntegrated], 2)"
    "case integrate_repo integrating_env sample_manifest integrating_child integrating_parent (RepoName ''api'') policy_default ''t'' integrating_state of
      (Inr row, _) \<Rightarrow> xi_status row = RepoIntegrated | _ \<Rightarrow> False"
    by (iprover dest: conjunct1 conjunct2)+
qed

theorem integrate_closes_what_is_earned_witness:
  "\<exists>out s'. integrate integrating_env integrating_input integrating_state = Some (Inr out, s') \<and> xo_closed_integrated out
    \<and> (\<exists>t (child' :: feature). close_keeps integrating_close (ft_name child') OutcomeIntegrated t s')"
proof -
  from sample_integration_runs obtain out s' where run: "integrate integrating_env integrating_input integrating_state = Some (Inr out, s')"
      "xo_closed_integrated out"
    by (cases "integrate integrating_env integrating_input integrating_state") (auto split: sum.splits)
  have "yaml_laws (ze_yaml (ie_close integrating_env))" using two_keys_laws by (simp add: integrating_env_def integrating_close_def)
  from integrate_closes_what_is_earned [OF run this] obtain child' :: feature and t where "close_keeps (ie_close integrating_env) (ft_name child') OutcomeIntegrated t s'"
    by blast
  then have "\<exists>t (child' :: feature). close_keeps integrating_close (ft_name child') OutcomeIntegrated t s'" by (auto simp: integrating_env_def)
  with run show ?thesis by blast
qed

theorem integration_is_receipted_witness:
  "\<exists>row s'. integrate_repo integrating_env sample_manifest integrating_child integrating_parent (RepoName ''api'') policy_default ''t'' integrating_state
      = (Inr row, s') \<and> xi_status row = RepoIntegrated \<and> row_receipted s' (FeatureName ''checkout'') (RepoName ''api'') row"
proof -
  let ?run = "integrate_repo integrating_env sample_manifest integrating_child integrating_parent (RepoName ''api'') policy_default ''t'' integrating_state"
  obtain r s' where run: "?run = (r, s')" by (rule prod.exhaust)
  with sample_repo_integrates obtain row where row: "r = Inr row" "xi_status row = RepoIntegrated" by (cases r) auto
  have n: "ft_name integrating_child = FeatureName ''checkout''" by code_simp
  have child: "bt_get (wk_features integrating_state) (ft_name integrating_child) = Some integrating_child"
    unfolding n by (simp add: integrating_state_def bt_get_def)
  have there: "bt_contains (ft_promotions integrating_child) (RepoName ''api'')" by code_simp
  have sorted: "bt_sorted (wk_features integrating_state)" by code_simp
  from integration_is_receipted [OF run [unfolded row(1)] child there sorted] run row show ?thesis unfolding n by blast
qed

end
