(* ===== verification/Spec2Isabelle.thy ===== *)
theory Spec2Isabelle
  imports Names Layouts Providers Ordered_Map Run_Receipt Versioned At_Time Cron Approvals
    Integration Features Feature_Tree Hall_Invariants Rename_Safety Guard_Safety Run_Safety Cleanup_Safety Prune Delivery_Command Deliver_Safety Rebase_Safety Close_Safety Integrate_Safety
begin

text \<open>
  A verification development for ivar, the Rust command line program under \<open>src/src\<close>.

  \<^bold>\<open>The program.\<close>  A hall is a directory that declares repositories in \<open>ivar.json\<close>.  A feature is
  one branch name shared by the repositories that take part in a change; promoting a repository
  gives the feature a worktree of it that may be written.  Features form a tree: a child is
  integrated into its parent, a root is delivered to the forge or landed on the default
  branches.  A plan gate is approved before work starts, a run records the execution of the
  plan, sessions give an agent a view of the worktrees, and a write guard decides what each
  session may change.  The parts meet in the records on disk: \<open>feature.json\<close>, the approvals, the
  run receipts, the front matter of the plan, the cleanup record and the rename marker; and in git.

  \<^bold>\<open>How it is modelled.\<close>  A Rust \<open>str\<close> is the list of its UTF-8 bytes, a \<open>struct\<close> a record, an \<open>enum\<close> a
  datatype, \<open>Result\<close> a sum with the failure on the left, \<open>BTreeMap\<close> the ascending association list
  of its entries.  A verb is a function from the state to a result and the state it leaves
  (\<open>Effects\<close>: \<open>bind_s\<close> is \<open>?\<close>), so that what was written before a failure is visible.  Git, the
  forge, the clock, the hash, the codecs of JSON and YAML and the programs that run checks are
  records of functions over an unspecified state \<open>'g\<close>, arguments of every definition that uses
  them; what is relied on of them stands in the theorems as a named hypothesis (\<open>yaml_laws\<close>,
  the laws about git of landing, deletion and cleanup), and each such theorem has a witness in
  which the parameter is a concrete function.

  \<^bold>\<open>The theories and the code they model\<close>, each after those it builds on:

  \<^item> Shared: \<open>Prelude\<close> (text, results, the collections of simplification rules), \<open>Errors\<close>
    (\<open>error.rs\<close>), \<open>Ordered_Map\<close> (the map as a locale, interpreted by the model's lists),
    \<open>Effects\<close>, \<open>Fs\<close> (\<open>infra/fs\<close>), \<open>Versioned\<close> (\<open>store/versioned\<close>: a file with a schema version and
    a chain of migrations).
  \<^item> Names and places: \<open>Names\<close> (\<open>domain/name.rs\<close>), \<open>Paths\<close>, \<open>Providers\<close>, \<open>Layouts\<close> and
    \<open>Layout_Paths\<close> (\<open>store/layout\<close>).
  \<^item> Time: \<open>Calendar\<close> (\<open>domain/session.rs\<close>), \<open>At_Time\<close> and \<open>Cron\<close> (\<open>domain/agent\<close>).
  \<^item> Plans: \<open>Approvals\<close> (\<open>domain/feature/approval.rs\<close>, \<open>action/plan\<close>), \<open>Plan_Text\<close> (fingerprint and
    waves of a plan), \<open>Frontmatter\<close> (\<open>infra/frontmatter.rs\<close>).
  \<^item> Runs: \<open>Run_Types\<close>, \<open>Run_Receipt\<close> (\<open>domain/feature/run\<close>), \<open>Legacy_Board\<close>, \<open>Run_Store\<close>
    (\<open>store/feature/run\<close>), \<open>Snapshot\<close>, \<open>Execute\<close> (\<open>action/execute\<close>), with \<open>Run_Views\<close> and
    \<open>Run_Safety\<close> about them.
  \<^item> The tree of features: \<open>Integration\<close>, \<open>Features\<close> (\<open>domain/feature\<close>), \<open>Feature_Store\<close>,
    \<open>Feature_Tree\<close>, \<open>Feature_Walk\<close>, \<open>Tree_State\<close> (\<open>action/feature/relations.rs\<close>), \<open>Git_Ops\<close>,
    \<open>Hall_Verbs\<close>, \<open>Promotions\<close>, \<open>Deletion\<close> (create, reparent, promote, demote, delete), with
    \<open>Hall_Invariants\<close> about them; \<open>Rename\<close> and \<open>Rename_Safety\<close> (\<open>action/feature/rename\<close>).
  \<^item> The end of a feature: \<open>Cleanup_Facts\<close>, \<open>Cleanup\<close>, \<open>Prune\<close>, \<open>Pull_Requests\<close>, \<open>Delivery_Event\<close>,
    \<open>Delivery\<close>, \<open>Delivery_Command\<close>, \<open>Land\<close>, \<open>Deliver\<close>, \<open>Deliver_Apply\<close>, \<open>Feature_Work\<close>,
    \<open>Rebase\<close>, \<open>Close\<close>, \<open>Integrate_Repo\<close>, \<open>Integrate\<close> (the directories of these names under
    \<open>action/feature\<close>), with \<open>Cleanup_Safety\<close>, \<open>Land_Safety\<close>, \<open>Deliver_Safety\<close>, \<open>Rebase_Safety\<close>,
    \<open>Close_Safety\<close> and \<open>Integrate_Safety\<close>.
  \<^item> Sessions: \<open>File_Tree\<close> (how the operating system resolves a path), \<open>Guard_Paths\<close>, \<open>Sessions\<close>,
    \<open>Guard\<close> and \<open>Guard_Safety\<close> (\<open>action/session/guard\<close>, \<open>domain/guard.rs\<close>).

  \<^bold>\<open>What is shown.\<close>  For the tree: no sequence of create, reparent, promote, demote and delete,
  failed ones included, breaks it, and what a passing receipt locks stays under these five
  (\<open>hall_step\<close>, \<open>hall_ok\<close>).  For deletion, cleanup and prune: what they may remove, in which order,
  and after which approvals, and what a cleanup does not look at.  For runs: the receipt is a refinement
  of a small machine and equals the replay of its checkpoints; no run is lost.  For rename: any
  number of interrupted attempts settles in one of its phases, and a success did every step, in
  git and the sessions too (\<open>renamed_outside\<close>); what rolling back restores in git is not stated.  For the guard: the path it
  judges is the one the write reaches, and what it allows was granted.  For deliver, land,
  rebase, close and integrate: nothing moves before its conditions hold, what a report or a
  record says is what happened, and what else changes is pinned.  For the stores and texts: round trips, and files of a newer
  version stay untouched.  The theorems named with C and a number are the main ones; some
  theorems record behaviour that contradicts a comment or the manual.

  \<^bold>\<open>Fuel and bounds.\<close>  \<open>promote\<close> recurses over the parents with fuel; above the depth of the
  feature the bottom of the recursion is never reached (\<open>promote_recursion_ends\<close>), and integrate gives it the number of
  features and one.  The walks over the tree return \<open>None\<close> exactly on a cycle, which the
  validation before them refuses.  \<open>subtree_status\<close> and \<open>prune_depth\<close> have the number of features,
  or of parents, as fuel, which a path without repetition cannot exceed.  Links are followed 40
  times by the operating system (\<open>max_links\<close>, \<open>os_links\<close>) and by the guard (\<open>max_symlink_hops\<close>),
  parents for a base 32 times (\<open>max_parent_hops\<close>), all as in the code.  The body of a delivery
  event is at most 4000 bytes of at most ten items of 200 characters.  Waiting for a merge ends
  at the deadline, which is an argument (\<open>observe_merge_ends\<close>).  Numbers with a width that can
  overflow keep it: a schema version, a wave and the field of a schedule are refused beyond it.

  \<^bold>\<open>Not modelled.\<close>  The command line, terminal and browser interfaces (\<open>app\<close>, \<open>cli\<close> apart from the
  options of deliver, \<open>tui\<close>), starting programs and talking to the network (\<open>infra\<close>, \<open>git/exec\<close>),
  the code graph, the memory and their SQLite stores, the harness providers, agents and
  automations, the MCP servers, skills, scripts, repositories and the manifest as a file,
  starting and stopping sessions, doctor, sync and upgrade: they are input and output, queries
  to a database, or the rendering of configuration, and the parts above use of them only what
  their arguments provide.  The codecs (serde), hashes and locks are arguments.  Two processes at
  once are modelled only where the code re-reads under a lock; between two steps of one verb
  nothing else writes.
\<close>

end
